(* ===== verification/Prelude.thy ===== *)
theory Prelude
  imports Complex_Main "HOL-Library.Char_ord" "HOL-Library.List_Lexorder" "HOL-Library.Product_Lexorder"
begin

text \<open>
  What every component of the server shares: Go errors as values, instants and
  durations, programs that thread a state and may fail, the relational step
  contract under which invariants of such programs are proved once, and the
  row operations of the SQL tables.
\<close>

named_theorems prog_simps \<open>equations that run a program\<close>
named_theorems table_simps \<open>rewrite rules for row operations\<close>

section \<open>Errors\<close>

text \<open>
  Sentinel errors keep their Go names, \<open>ErrNoRows\<close> being sql.ErrNoRows.  \<open>ErrDriver\<close> is a failure of the database
  engine or of the connection, \<open>ErrConstraint\<close> a violated PRIMARY KEY, UNIQUE or
  REFERENCES clause, \<open>Errorf\<close> an error made by errors.New, and \<open>Wrap\<close> one made by
  fmt.Errorf with a \<open>%w\<close> verb, so that errors.Is sees through it.
\<close>

datatype error =
    ErrNotFound | ErrLastAdmin | ErrUnsupported
  | ErrInvalidCredentials | ErrUserDisabled | ErrApprovalRejected
  | ErrSessionExpired | ErrSessionRevoked | ErrStaleToken
  | ErrTokenInvalid | ErrTokenExpired
  | ErrInvalidPasswordHash | ErrPasswordPolicy
  | ErrInvalidCode | ErrForbidden | ErrOffline | ErrUnauthorized | ErrStaleGeneration
  | ErrNoRows | ErrDriver | ErrConstraint
  | Errorf string
  | Wrap string error

fun errors_Is :: "error \<Rightarrow> error \<Rightarrow> bool" where
  "errors_Is (Wrap m e) t = (Wrap m e = t \<or> errors_Is e t)"
| "errors_Is e t = (e = t)"

section \<open>Instants and durations\<close>

text \<open>
  An instant is the number of nanoseconds since the Unix epoch; the zero value of
  Go's time.Time is the first of January of the year 1.  A duration is a number
  of nanoseconds.
\<close>

type_synonym instant = int
type_synonym duration = int

definition Nanosecond :: duration where "Nanosecond = 1"
definition Millisecond :: duration where "Millisecond = 1000000"
definition Second :: duration where "Second = 1000000000"
definition Minute :: duration where "Minute = 60000000000"
definition Hour :: duration where "Hour = 3600000000000"

lemmas duration_defs = Nanosecond_def Millisecond_def Second_def Minute_def Hour_def

definition zero_time :: instant where "zero_time = -62135596800000000000"

definition IsZero :: "instant \<Rightarrow> bool" where "IsZero t \<longleftrightarrow> t = zero_time"

definition Unix :: "instant \<Rightarrow> int" where "Unix t = t div 1000000000"

definition UnixMilli :: "instant \<Rightarrow> int" where "UnixMilli t = t div 1000000"

text \<open>time.Time.Sub saturates at the bounds of a 64-bit duration.\<close>

definition time_Sub :: "instant \<Rightarrow> instant \<Rightarrow> duration" where
  "time_Sub t u = max (- 9223372036854775808) (min 9223372036854775807 (t - u))"

text \<open>time.Time.Truncate counts from the zero time, not from the epoch.\<close>

definition time_Truncate :: "instant \<Rightarrow> duration \<Rightarrow> instant" where
  "time_Truncate t d = (if d \<le> 0 then t else t - (t - zero_time) mod d)"

section \<open>Programs\<close>

text \<open>
  A program maps a state to a result, an error or a value, and the state it
  leaves.  \<open>bindE\<close> is Go's \<open>if err != nil \{ return err \}\<close>, \<open>attempt\<close> hands the
  result to code that inspects the error, \<open>ignoreE\<close> is \<open>_ = f()\<close>.
\<close>

type_synonym ('s, 'a) prog = "'s \<Rightarrow> (error + 'a) \<times> 's"

definition ret :: "'a \<Rightarrow> ('s, 'a) prog" where "ret a s = (Inr a, s)"

definition throw :: "error \<Rightarrow> ('s, 'a) prog" where "throw e s = (Inl e, s)"

definition attempt :: "('s, 'a) prog \<Rightarrow> (error + 'a \<Rightarrow> ('s, 'b) prog) \<Rightarrow> ('s, 'b) prog" where
  "attempt m k s = (case m s of (r, s') \<Rightarrow> k r s')"

definition bindE :: "('s, 'a) prog \<Rightarrow> ('a \<Rightarrow> ('s, 'b) prog) \<Rightarrow> ('s, 'b) prog" where
  "bindE m k = attempt m (\<lambda>r. case r of Inl e \<Rightarrow> throw e | Inr a \<Rightarrow> k a)"

definition thenE :: "('s, 'a) prog \<Rightarrow> ('s, 'b) prog \<Rightarrow> ('s, 'b) prog" where
  "thenE m n = bindE m (\<lambda>_. n)"

definition ignoreE :: "('s, 'a) prog \<Rightarrow> ('s, 'b) prog \<Rightarrow> ('s, 'b) prog" where
  "ignoreE m n = attempt m (\<lambda>_. n)"

definition gets :: "('s \<Rightarrow> 'a) \<Rightarrow> ('s, 'a) prog" where "gets f s = (Inr (f s), s)"

definition modifies :: "('s \<Rightarrow> 's) \<Rightarrow> ('s, unit) prog" where "modifies f s = (Inr (), f s)"

definition liftE :: "error + 'a \<Rightarrow> ('s, 'a) prog" where "liftE r s = (r, s)"

definition whenE :: "bool \<Rightarrow> ('s, unit) prog \<Rightarrow> ('s, unit) prog" where
  "whenE b m = (if b then m else ret ())"

primrec forE :: "'a list \<Rightarrow> ('a \<Rightarrow> ('s, unit) prog) \<Rightarrow> ('s, unit) prog" where
  "forE [] f = ret ()"
| "forE (x # xs) f = thenE (f x) (forE xs f)"

primrec mapE :: "'a list \<Rightarrow> ('a \<Rightarrow> ('s, 'b) prog) \<Rightarrow> ('s, 'b list) prog" where
  "mapE [] f = ret []"
| "mapE (x # xs) f = bindE (f x) (\<lambda>y. bindE (mapE xs f) (\<lambda>ys. ret (y # ys)))"

text \<open>\<open>zoom\<close> runs a program of one part of the state inside the whole.\<close>

definition zoom :: "('s \<Rightarrow> 't) \<Rightarrow> ('t \<Rightarrow> 's \<Rightarrow> 's) \<Rightarrow> ('t, 'a) prog \<Rightarrow> ('s, 'a) prog" where
  "zoom sel put m s = (case m (sel s) of (r, t) \<Rightarrow> (r, put t s))"

definition is_ok :: "error + 'a \<Rightarrow> bool" where
  "is_ok r = (case r of Inl _ \<Rightarrow> False | Inr _ \<Rightarrow> True)"

lemma is_ok_simps [simp]: "is_ok (Inr a)" "\<not> is_ok (Inl e)"
  by (simp_all add: is_ok_def)

lemma ret_run [simp, prog_simps]: "ret a s = (Inr a, s)"
  by (simp add: ret_def)

lemma throw_run [simp, prog_simps]: "throw e s = (Inl e, s)"
  by (simp add: throw_def)

lemma gets_run [simp, prog_simps]: "gets f s = (Inr (f s), s)"
  by (simp add: gets_def)

lemma modifies_run [simp, prog_simps]: "modifies f s = (Inr (), f s)"
  by (simp add: modifies_def)

lemma liftE_run [simp, prog_simps]: "liftE r s = (r, s)"
  by (simp add: liftE_def)

lemma attempt_run [prog_simps]: "attempt m k s = k (fst (m s)) (snd (m s))"
  by (simp add: attempt_def case_prod_beta)

lemma bindE_run [prog_simps]:
  "bindE m k s = (case fst (m s) of Inl e \<Rightarrow> (Inl e, snd (m s)) | Inr a \<Rightarrow> k a (snd (m s)))"
  by (simp add: bindE_def attempt_run split: sum.split)

lemma thenE_run [prog_simps]:
  "thenE m n s = (case fst (m s) of Inl e \<Rightarrow> (Inl e, snd (m s)) | Inr _ \<Rightarrow> n (snd (m s)))"
  by (simp add: thenE_def bindE_run)

lemma ignoreE_run [prog_simps]: "ignoreE m n s = n (snd (m s))"
  by (simp add: ignoreE_def attempt_run)

lemma whenE_run [prog_simps]: "whenE b m s = (if b then m s else (Inr (), s))"
  by (simp add: whenE_def)

lemma zoom_run [prog_simps]: "zoom sel put m s = (fst (m (sel s)), put (snd (m (sel s))) s)"
  by (simp add: zoom_def case_prod_beta)

lemma bindE_Inr_iff:
  "bindE m k s = (Inr b, u) \<longleftrightarrow> (\<exists>a t. m s = (Inr a, t) \<and> k a t = (Inr b, u))"
  by (cases "m s") (auto simp: bindE_run split: sum.splits)

lemma thenE_Inr_iff:
  "thenE m n s = (Inr b, u) \<longleftrightarrow> (\<exists>a t. m s = (Inr a, t) \<and> n t = (Inr b, u))"
  by (simp add: thenE_def bindE_Inr_iff)

lemma whenE_Inr_iff:
  "whenE b m s = (Inr x, u) \<longleftrightarrow> (if b then m s = (Inr x, u) else u = s)"
  by (cases x) (auto simp: whenE_def)

lemma if_run: "(if c then m else n) s = (if c then m s else n s)"
  by simp

lemma attempt_case_iff:
  "attempt m (\<lambda>r. case r of Inl e \<Rightarrow> h e | Inr a \<Rightarrow> k a) s = (b, u) \<longleftrightarrow>
     (\<exists>e t. m s = (Inl e, t) \<and> h e t = (b, u)) \<or> (\<exists>a t. m s = (Inr a, t) \<and> k a t = (b, u))"
  by (cases "m s") (auto simp: attempt_run split: sum.splits)

lemmas ok_iffs = bindE_Inr_iff thenE_Inr_iff whenE_Inr_iff

section \<open>The step contract\<close>

text \<open>
  \<open>steps R m\<close>: whatever \<open>m\<close> returns, the state it leaves is \<open>R\<close>-related to the
  one it starts from.  For every reflexive and transitive \<open>R\<close> the combinators keep
  it, so a property of an operation follows from its statements.
\<close>

definition steps :: "('s \<Rightarrow> 's \<Rightarrow> bool) \<Rightarrow> ('s, 'a) prog \<Rightarrow> bool" where
  "steps R m \<longleftrightarrow> (\<forall>s. R s (snd (m s)))"

lemma stepsI: "(\<And>s. R s (snd (m s))) \<Longrightarrow> steps R m"
  by (simp add: steps_def)

lemma stepsD: "steps R m \<Longrightarrow> m s = (r, s') \<Longrightarrow> R s s'"
  by (metis steps_def snd_conv)

lemma steps_mono: "steps R m \<Longrightarrow> (\<And>s t. R s t \<Longrightarrow> Q s t) \<Longrightarrow> steps Q m"
  by (auto simp: steps_def)

locale step_rel =
  fixes R :: "'s \<Rightarrow> 's \<Rightarrow> bool"
  assumes step_refl: "R s s"
    and step_trans: "R s t \<Longrightarrow> R t u \<Longrightarrow> R s u"
begin

lemma steps_ret: "steps R (ret a)"
  by (simp add: steps_def step_refl)

lemma steps_throw: "steps R (throw e)"
  by (simp add: steps_def step_refl)

lemma steps_gets: "steps R (gets f)"
  by (simp add: steps_def step_refl)

lemma steps_liftE: "steps R (liftE r)"
  by (simp add: steps_def step_refl)

lemma steps_attempt: "steps R m \<Longrightarrow> (\<And>r. steps R (k r)) \<Longrightarrow> steps R (attempt m k)"
  by (simp add: steps_def attempt_run) (blast intro: step_trans)

lemma steps_bindE: "steps R m \<Longrightarrow> (\<And>a. steps R (k a)) \<Longrightarrow> steps R (bindE m k)"
  unfolding bindE_def by (rule steps_attempt) (auto split: sum.split intro: steps_throw)

lemma steps_thenE: "steps R m \<Longrightarrow> steps R n \<Longrightarrow> steps R (thenE m n)"
  unfolding thenE_def by (rule steps_bindE)

lemma steps_ignoreE: "steps R m \<Longrightarrow> steps R n \<Longrightarrow> steps R (ignoreE m n)"
  unfolding ignoreE_def by (rule steps_attempt)

lemma steps_whenE: "(b \<Longrightarrow> steps R m) \<Longrightarrow> steps R (whenE b m)"
  unfolding whenE_def by (simp add: steps_ret)

lemma steps_forE: "(\<And>x. x \<in> set xs \<Longrightarrow> steps R (f x)) \<Longrightarrow> steps R (forE xs f)"
  by (induction xs) (auto intro!: steps_ret steps_thenE)

lemma steps_mapE: "(\<And>x. x \<in> set xs \<Longrightarrow> steps R (f x)) \<Longrightarrow> steps R (mapE xs f)"
  by (induction xs) (auto intro!: steps_ret steps_bindE)

lemma steps_if: "(b \<Longrightarrow> steps R m) \<Longrightarrow> (\<not> b \<Longrightarrow> steps R n) \<Longrightarrow> steps R (if b then m else n)"
  by simp

lemma steps_option: "(x = None \<Longrightarrow> steps R m) \<Longrightarrow> (\<And>a. x = Some a \<Longrightarrow> steps R (k a)) \<Longrightarrow>
    steps R (case x of None \<Rightarrow> m | Some a \<Rightarrow> k a)"
  by (cases x) auto

lemma steps_sum: "(\<And>e. x = Inl e \<Longrightarrow> steps R (h e)) \<Longrightarrow> (\<And>a. x = Inr a \<Longrightarrow> steps R (k a)) \<Longrightarrow>
    steps R (case x of Inl e \<Rightarrow> h e | Inr a \<Rightarrow> k a)"
  by (cases x) auto

lemma steps_let: "(\<And>x. x = a \<Longrightarrow> steps R (k x)) \<Longrightarrow> steps R (let x = a in k x)"
  by simp

lemma steps_prod: "(\<And>a b. x = (a, b) \<Longrightarrow> steps R (k a b)) \<Longrightarrow>
    steps R (case x of (a, b) \<Rightarrow> k a b)"
  by (cases x) auto

lemma steps_list: "(xs = [] \<Longrightarrow> steps R m) \<Longrightarrow> (\<And>y ys. xs = y # ys \<Longrightarrow> steps R (k y ys)) \<Longrightarrow>
    steps R (case xs of [] \<Rightarrow> m | y # ys \<Rightarrow> k y ys)"
  by (cases xs) auto

text \<open>The rest of a program may rely on what its first part returns.\<close>

lemma steps_bindE_post:
  assumes m: "steps R m" and post: "\<And>s a s'. m s = (Inr a, s') \<Longrightarrow> P a" and k: "\<And>a. P a \<Longrightarrow> steps R (k a)"
  shows "steps R (bindE m k)"
proof (rule stepsI)
  fix s
  obtain r s' where r: "m s = (r, s')" by fastforce
  show "R s (snd (bindE m k s))"
  proof (cases r)
    case (Inr a)
    then show ?thesis using r stepsD [OF m r] post k step_trans by (simp add: bindE_run steps_def)
  qed (use r stepsD [OF m r] in \<open>simp add: bindE_run\<close>)
qed

lemmas steps_intros = steps_ret steps_throw steps_gets steps_liftE steps_attempt steps_bindE
  steps_thenE steps_ignoreE steps_whenE steps_forE steps_mapE steps_if steps_option steps_sum
  steps_let steps_prod steps_list

end

section \<open>Row operations\<close>

text \<open>An UPDATE maps the rows it selects and keeps the others.\<close>

definition upd_where :: "('r \<Rightarrow> bool) \<Rightarrow> ('r \<Rightarrow> 'r) \<Rightarrow> 'r list \<Rightarrow> 'r list" where
  "upd_where p f = map (\<lambda>x. if p x then f x else x)"

lemma upd_where_hit: "x \<in> set xs \<Longrightarrow> p x \<Longrightarrow> f x \<in> set (upd_where p f xs)"
  by (force simp: upd_where_def)

lemma upd_where_miss: "x \<in> set xs \<Longrightarrow> \<not> p x \<Longrightarrow> x \<in> set (upd_where p f xs)"
  by (force simp: upd_where_def)

lemma upd_whereE:
  assumes "y \<in> set (upd_where p f xs)"
  obtains x where "x \<in> set xs" "p x" "y = f x" | "y \<in> set xs" "\<not> p y"
  using assms by (auto simp: upd_where_def split: if_splits)

lemma upd_where_map_key [table_simps]:
  "(\<And>x. p x \<Longrightarrow> key (f x) = key x) \<Longrightarrow> map key (upd_where p f xs) = map key xs"
  by (simp add: upd_where_def)

lemma upd_where_none [table_simps]: "(\<And>x. x \<in> set xs \<Longrightarrow> \<not> p x) \<Longrightarrow> upd_where p f xs = xs"
  by (simp add: upd_where_def map_idI)

lemma length_upd_where [simp]: "length (upd_where p f xs) = length xs"
  by (simp add: upd_where_def)

lemma upd_where_Nil [simp]: "upd_where p f [] = []"
  by (simp add: upd_where_def)

lemma upd_where_Cons [simp]:
  "upd_where p f (x # xs) = (if p x then f x else x) # upd_where p f xs"
  by (simp add: upd_where_def)

lemma ball_upd_where [table_simps]:
  "(\<forall>y\<in>set (upd_where p f xs). Q y) \<longleftrightarrow> (\<forall>x\<in>set xs. Q (if p x then f x else x))"
  by (auto simp: upd_where_def)

lemma bex_upd_where [table_simps]:
  "(\<exists>y\<in>set (upd_where p f xs). Q y) \<longleftrightarrow> (\<exists>x\<in>set xs. Q (if p x then f x else x))"
  by (auto simp: upd_where_def)

lemma filter_upd_where_other [table_simps]:
  "(\<And>x. p x \<Longrightarrow> \<not> q x \<and> \<not> q (f x)) \<Longrightarrow> filter q (upd_where p f xs) = filter q xs"
  by (induction xs) auto

lemma distinct_map_filter_rows [table_simps]:
  "distinct (map key xs) \<Longrightarrow> distinct (map key (filter p xs))"
  by (rule distinct_map_filter)

lemma distinct_keyD:
  "distinct (map key xs) \<Longrightarrow> x \<in> set xs \<Longrightarrow> y \<in> set xs \<Longrightarrow> key x = key y \<Longrightarrow> x = y"
  by (meson distinct_map inj_on_eq_iff)

lemma find_Some_in: "find p xs = Some x \<Longrightarrow> x \<in> set xs \<and> p x"
  by (auto simp: find_Some_iff)

lemma find_None_all: "find p xs = None \<Longrightarrow> x \<in> set xs \<Longrightarrow> \<not> p x"
  by (auto simp: find_None_iff)

lemma find_distinct_key:
  "distinct (map key xs) \<Longrightarrow> x \<in> set xs \<Longrightarrow> find (\<lambda>y. key y = key x) xs = Some x"
  by (induction xs) auto

lemma filter_distinct_key:
  "distinct (map key xs) \<Longrightarrow> x \<in> set xs \<Longrightarrow> filter (\<lambda>y. key y = key x) xs = [x]"
  by (induction xs) (auto simp: filter_empty_conv image_iff)

lemma find_append: "find p (xs @ ys) = (case find p xs of None \<Rightarrow> find p ys | Some x \<Rightarrow> Some x)"
  by (induction xs) auto

lemma find_upd_where:
  "(\<And>x. p (f x) = p x) \<Longrightarrow> find p (upd_where q f xs) = map_option (\<lambda>x. if q x then f x else x) (find p xs)"
  by (induction xs) auto

lemma find_filter_same: "find (\<lambda>a. k a = u) (filter (\<lambda>a. k a \<noteq> u') xs) = (if u = u' then None else find (\<lambda>a. k a = u) xs)"
  by (induction xs) auto

lemma find_iff_in:
  "distinct (map key xs) \<Longrightarrow> find (\<lambda>y. key y = k) xs = Some x \<longleftrightarrow> x \<in> set xs \<and> key x = k"
  by (blast dest: find_Some_in intro: find_distinct_key)

lemma distinct_key_two:
  assumes "distinct (map key xs)" "1 < length (filter p xs)"
  shows "\<exists>x\<in>set xs. p x \<and> key x \<noteq> k"
proof -
  obtain a b ys where f: "filter p xs = a # b # ys"
    using assms(2) by (cases "filter p xs" rule: remdups_adj.cases) auto
  have "distinct (map key (filter p xs))" using assms(1) by (rule distinct_map_filter)
  then have "key a \<noteq> key b" by (simp add: f)
  moreover have "a \<in> set xs" "p a" "b \<in> set xs" "p b"
    using f [THEN arg_cong, of set] by auto
  ultimately show ?thesis by (cases "key a = k") auto
qed

end
