(* ===== verification/Domain.thy ===== *)
theory Domain
  imports Prelude
begin

text \<open>
  The data of package domain (internal/domain/models.go): one record per Go
  struct, its fields prefixed by the struct's name.  Slices are lists, pointers
  to instants are options, the zero value of time.Time is \<open>zero_time\<close>.  A Go map is
  an association list in the order in which one iteration over it runs; values of
  type any are JSON values, numbers being the finite values of a float64.
\<close>

type_synonym Role = string
type_synonym ApprovalStatus = string
type_synonym GroupKind = string

datatype json =
    JNull
  | JBool bool
  | JNum rat
  | JStr string
  | JArr "json list"
  | JObj "(string \<times> json) list"

abbreviation PermissionAll :: string where "PermissionAll \<equiv> ''*''"

text \<open>The permissions that can be granted, in the order of the Go slice.\<close>

definition AvailablePermissions :: "string list" where
  "AvailablePermissions =
    [''admin.portal'',
     ''users.read'',
     ''users.write'',
     ''devices.read'',
     ''devices.write'',
     ''groups.read'',
     ''groups.write'',
     ''address_books.read'',
     ''address_books.write'',
     ''acl.read'',
     ''acl.write'',
     ''strategies.read'',
     ''strategies.write'',
     ''sessions.read'',
     ''sessions.revoke'',
     ''audit.read'',
     ''relays.read'',
     ''relays.write'',
     ''infrastructure.read'',
     ''infrastructure.write'',
     ''settings.read'',
     ''settings.write'',
     ''roles.read'',
     ''roles.write'',
     ''backup.read'',
     ''backup.write'',
     ''webhooks.read'',
     ''webhooks.write'',
     ''client_profiles.read'',
     ''client_profiles.write'',
     ''automation.read'',
     ''automation.write'']"

abbreviation RoleAdmin :: Role where "RoleAdmin \<equiv> ''admin''"
abbreviation RoleUser :: Role where "RoleUser \<equiv> ''user''"
abbreviation ApprovalPending :: ApprovalStatus where "ApprovalPending \<equiv> ''pending''"
abbreviation ApprovalApproved :: ApprovalStatus where "ApprovalApproved \<equiv> ''approved''"
abbreviation ApprovalRejected :: ApprovalStatus where "ApprovalRejected \<equiv> ''rejected''"
abbreviation PendingUsersGroupID :: string where "PendingUsersGroupID \<equiv> ''system-pending-users''"
abbreviation ApprovedUsersGroupID :: string where "ApprovedUsersGroupID \<equiv> ''system-approved-users''"
abbreviation GroupKindUser :: GroupKind where "GroupKindUser \<equiv> ''user''"
abbreviation GroupKindDevice :: GroupKind where "GroupKindDevice \<equiv> ''device''"

record RoleDefinition =
  RoleDefinition_ID :: Role
  RoleDefinition_Name :: string
  RoleDefinition_Description :: string
  RoleDefinition_Permissions :: "string list"
  RoleDefinition_System :: bool
  RoleDefinition_CreatedAt :: instant
  RoleDefinition_UpdatedAt :: instant

record User =
  User_ID :: string
  User_Username :: string
  User_Email :: string
  User_Phone :: string
  User_PasswordHash :: string
  User_DisplayName :: string
  User_Role :: Role
  User_Permissions :: "string list"
  User_Enabled :: bool
  User_ApprovalStatus :: ApprovalStatus
  User_TokenVersion :: int
  User_CreatedAt :: instant
  User_UpdatedAt :: instant
  User_LastLoginAt :: instant
  User_ForceReloginAt :: instant
  User_TOTPSecret :: string
  User_TOTPEnabled :: bool

record UserUpdate =
  UserUpdate_Username :: string
  UserUpdate_Email :: string
  UserUpdate_Phone :: string
  UserUpdate_DisplayName :: string
  UserUpdate_PasswordHash :: string
  UserUpdate_Role :: Role
  UserUpdate_Enabled :: bool
  UserUpdate_GroupIDs :: "string list"

record Session =
  Session_ID :: string
  Session_UserID :: string
  Session_CreatedAt :: instant
  Session_ExpiresAt :: instant
  Session_RevokedAt :: "instant option"
  Session_LastSeenAt :: instant
  Session_IP :: string
  Session_UserAgent :: string
  Session_ClientDeviceID :: string

record SessionRecord =
  SessionRecord_Session :: Session
  SessionRecord_Username :: string
  SessionRecord_DisplayName :: string
  SessionRecord_UserEnabled :: bool
  SessionRecord_Status :: string
  SessionRecord_Current :: bool

record SessionQuery =
  SessionQuery_Limit :: int
  SessionQuery_Offset :: int
  SessionQuery_Status :: string
  SessionQuery_UserID :: string
  SessionQuery_Search :: string
  SessionQuery_Now :: instant

record SessionPage =
  SessionPage_Sessions :: "SessionRecord list"
  SessionPage_Total :: int
  SessionPage_Limit :: int
  SessionPage_Offset :: int

record SessionSummary =
  SessionSummary_Total :: int
  SessionSummary_Active :: int
  SessionSummary_Revoked :: int
  SessionSummary_Expired :: int

record AuthChallenge =
  AuthChallenge_ID :: string
  AuthChallenge_UserID :: string
  AuthChallenge_TokenVersion :: int
  AuthChallenge_CreatedAt :: instant
  AuthChallenge_ExpiresAt :: instant
  AuthChallenge_IP :: string
  AuthChallenge_UserAgent :: string
  AuthChallenge_ClientDeviceID :: string
  AuthChallenge_RustDeskID :: string
  AuthChallenge_ClientUUID :: string
  AuthChallenge_Platform :: string
  AuthChallenge_ClientType :: string
  AuthChallenge_DeviceName :: string

record OIDCAuthRequest =
  OIDCAuthRequest_State :: string
  OIDCAuthRequest_PollCode :: string
  OIDCAuthRequest_Provider :: string
  OIDCAuthRequest_Verifier :: string
  OIDCAuthRequest_Nonce :: string
  OIDCAuthRequest_UserID :: string
  OIDCAuthRequest_LinkUserID :: string
  OIDCAuthRequest_Error :: string
  OIDCAuthRequest_RustDeskID :: string
  OIDCAuthRequest_ClientUUID :: string
  OIDCAuthRequest_Platform :: string
  OIDCAuthRequest_ClientType :: string
  OIDCAuthRequest_DeviceName :: string
  OIDCAuthRequest_IP :: string
  OIDCAuthRequest_UserAgent :: string
  OIDCAuthRequest_CreatedAt :: instant
  OIDCAuthRequest_ExpiresAt :: instant

record OIDCIdentity =
  OIDCIdentity_Provider :: string
  OIDCIdentity_Subject :: string
  OIDCIdentity_UserID :: string
  OIDCIdentity_Email :: string
  OIDCIdentity_CreatedAt :: instant

record AuditEvent =
  AuditEvent_ID :: string
  AuditEvent_OccurredAt :: instant
  AuditEvent_Type :: string
  AuditEvent_ActorUserID :: string
  AuditEvent_ActorSessionID :: string
  AuditEvent_ControllerDevice :: string
  AuditEvent_TargetRustDeskID :: string
  AuditEvent_IP :: string
  AuditEvent_Result :: string
  AuditEvent_Reason :: string
  AuditEvent_Metadata :: "(string \<times> json) list"

record AuditQuery =
  AuditQuery_Limit :: int
  AuditQuery_Offset :: int
  AuditQuery_Type :: string
  AuditQuery_Result :: string
  AuditQuery_ActorUserID :: string
  AuditQuery_TargetID :: string
  AuditQuery_IP :: string
  AuditQuery_Search :: string
  AuditQuery_From :: "instant option"
  AuditQuery_To :: "instant option"

record AuditPage =
  AuditPage_Events :: "AuditEvent list"
  AuditPage_Total :: int
  AuditPage_Limit :: int
  AuditPage_Offset :: int

record AuditSummary =
  AuditSummary_Total :: int
  AuditSummary_AllowedConnections :: int
  AuditSummary_DeniedConnections :: int
  AuditSummary_FailedLogins :: int
  AuditSummary_ByType :: "(string \<times> int) list"
  AuditSummary_ByResult :: "(string \<times> int) list"

record ConnectionRecord =
  ConnectionRecord_Key :: string
  ConnectionRecord_ActorUserID :: string
  ConnectionRecord_ActorSessionID :: string
  ConnectionRecord_ControllerDevice :: string
  ConnectionRecord_ControllerName :: string
  ConnectionRecord_ControllerLogin :: string
  ConnectionRecord_TargetRustDeskID :: string
  ConnectionRecord_ConnectionType :: int
  ConnectionRecord_IP :: string
  ConnectionRecord_Transport :: string
  ConnectionRecord_RelayUUID :: string
  ConnectionRecord_RelayServer :: string
  ConnectionRecord_StartedAt :: instant
  ConnectionRecord_LastSeenAt :: instant
  ConnectionRecord_ClosedAt :: "instant option"

record Device =
  Device_RustDeskID :: string
  Device_ClientUUID :: string
  Device_Hostname :: string
  Device_Alias :: string
  Device_Platform :: string
  Device_Version :: string
  Device_CPU :: string
  Device_Memory :: string
  Device_Username :: string
  Device_LastSeenIP :: string
  Device_Online :: bool
  Device_LastSeen :: instant
  Device_OwnerUserID :: string
  Device_GroupID :: string
  Device_Tags :: "string list"
  Device_PublicKey :: string
  Device_Deployed :: bool
  Device_DeployedBy :: string
  Device_DeployedAt :: instant
  Device_CreatedAt :: instant
  Device_ArchivedAt :: "instant option"

record BackupInspection =
  BackupInspection_Valid :: bool
  BackupInspection_SizeBytes :: int
  BackupInspection_ModifiedAt :: instant
  BackupInspection_QuickCheck :: string
  BackupInspection_SchemaTables :: int
  BackupInspection_Users :: int
  BackupInspection_Devices :: int
  BackupInspection_Sessions :: int

record BackupArtifact =
  BackupArtifact_Name :: string
  BackupArtifact_SizeBytes :: int
  BackupArtifact_CreatedAt :: instant
  BackupArtifact_Users :: int
  BackupArtifact_Devices :: int
  BackupArtifact_Sessions :: int
  BackupArtifact_QuickCheck :: string

record DeviceManagementImport =
  DeviceManagementImport_RustDeskID :: string
  DeviceManagementImport_Alias :: string
  DeviceManagementImport_GroupID :: string
  DeviceManagementImport_Tags :: "string list"

record APIToken =
  APIToken_ID :: string
  APIToken_UserID :: string
  APIToken_Name :: string
  APIToken_TokenHash :: string
  APIToken_Prefix :: string
  APIToken_Scopes :: "string list"
  APIToken_CreatedAt :: instant
  APIToken_ExpiresAt :: instant
  APIToken_LastUsedAt :: "instant option"
  APIToken_RevokedAt :: "instant option"

record Group =
  Group_ID :: string
  Group_Name :: string
  Group_Description :: string
  Group_Kind :: GroupKind
  Group_CreatedAt :: instant
  Group_UpdatedAt :: instant

record UserGroupMembership =
  UserGroupMembership_GroupID :: string
  UserGroupMembership_UserID :: string
  UserGroupMembership_Active :: bool

record AddressBook =
  AddressBook_ID :: string
  AddressBook_Name :: string
  AddressBook_Kind :: string
  AddressBook_OwnerUserID :: string
  AddressBook_Permission :: string
  AddressBook_CanManage :: bool
  AddressBook_CreatedAt :: instant
  AddressBook_UpdatedAt :: instant

record AddressBookGrant =
  AddressBookGrant_ID :: string
  AddressBookGrant_AddressBookID :: string
  AddressBookGrant_SubjectType :: string
  AddressBookGrant_SubjectID :: string
  AddressBookGrant_Permission :: string
  AddressBookGrant_CreatedAt :: instant
  AddressBookGrant_UpdatedAt :: instant

record AddressBookEntry =
  AddressBookEntry_ID :: string
  AddressBookEntry_AddressBookID :: string
  AddressBookEntry_RustDeskID :: string
  AddressBookEntry_Alias :: string
  AddressBookEntry_Username :: string
  AddressBookEntry_Hostname :: string
  AddressBookEntry_Platform :: string
  AddressBookEntry_Folder :: string
  AddressBookEntry_Favourite :: bool
  AddressBookEntry_Tags :: "string list"
  AddressBookEntry_ForceRelay :: bool
  AddressBookEntry_RDPPort :: string
  AddressBookEntry_RDPUsername :: string
  AddressBookEntry_LoginName :: string
  AddressBookEntry_SameServer :: bool
  AddressBookEntry_CreatedAt :: instant

record AddressBookTag =
  AddressBookTag_ID :: string
  AddressBookTag_AddressBookID :: string
  AddressBookTag_Name :: string
  AddressBookTag_Color :: int
  AddressBookTag_CreatedAt :: instant
  AddressBookTag_UpdatedAt :: instant

record RelayServer =
  RelayServer_ControlMode :: string
  RelayServer_ControlConnected :: bool
  RelayServer_ID :: string
  RelayServer_Name :: string
  RelayServer_Hostname :: string
  RelayServer_Port :: int
  RelayServer_Region :: string
  RelayServer_Enabled :: bool
  RelayServer_Health :: string
  RelayServer_LatencyMS :: int
  RelayServer_Connections :: int
  RelayServer_Bandwidth :: int
  RelayServer_CreatedAt :: instant
  RelayServer_UpdatedAt :: instant
  RelayServer_Deleted :: bool

record RelayMetric =
  RelayMetric_RelayID :: string
  RelayMetric_RecordedAt :: instant
  RelayMetric_Health :: string
  RelayMetric_LatencyMS :: int
  RelayMetric_Connections :: int
  RelayMetric_Bandwidth :: int

record Webhook =
  Webhook_ID :: string
  Webhook_Name :: string
  Webhook_URL :: string
  Webhook_Events :: "string list"
  Webhook_Enabled :: bool
  Webhook_CreatedAt :: instant
  Webhook_UpdatedAt :: instant

record WebhookDelivery =
  WebhookDelivery_ID :: string
  WebhookDelivery_WebhookID :: string
  WebhookDelivery_EventType :: string
  WebhookDelivery_Payload :: string
  WebhookDelivery_Status :: string
  WebhookDelivery_Attempts :: int
  WebhookDelivery_ResponseCode :: int
  WebhookDelivery_LastError :: string
  WebhookDelivery_NextAttempt :: instant
  WebhookDelivery_CreatedAt :: instant
  WebhookDelivery_DeliveredAt :: "instant option"

record Notification =
  Notification_ID :: string
  Notification_Type :: string
  Notification_Severity :: string
  Notification_Title :: string
  Notification_Message :: string
  Notification_Resource :: string
  Notification_CreatedAt :: instant
  Notification_ReadAt :: "instant option"

record AutomationRule =
  AutomationRule_ID :: string
  AutomationRule_Name :: string
  AutomationRule_EventTypes :: "string list"
  AutomationRule_Conditions :: "(string \<times> string) list"
  AutomationRule_Actions :: "string list"
  AutomationRule_Severity :: string
  AutomationRule_ThrottleSeconds :: int
  AutomationRule_Enabled :: bool
  AutomationRule_CreatedAt :: instant
  AutomationRule_UpdatedAt :: instant

record AutomationRun =
  AutomationRun_ID :: string
  AutomationRun_RuleID :: string
  AutomationRun_EventType :: string
  AutomationRun_EventID :: string
  AutomationRun_Status :: string
  AutomationRun_Message :: string
  AutomationRun_CreatedAt :: instant

record ClusterNode =
  ClusterNode_ID :: string
  ClusterNode_Service :: string
  ClusterNode_Version :: string
  ClusterNode_Address :: string
  ClusterNode_StartedAt :: instant
  ClusterNode_LastSeenAt :: instant
  ClusterNode_LeaseCount :: int

record ClusterLease =
  ClusterLease_Name :: string
  ClusterLease_OwnerID :: string
  ClusterLease_ExpiresAt :: instant
  ClusterLease_UpdatedAt :: instant

record ClientProfile =
  ClientProfile_ID :: string
  ClientProfile_Name :: string
  ClientProfile_Description :: string
  ClientProfile_Platform :: string
  ClientProfile_Settings :: "(string \<times> json) list"
  ClientProfile_Branding :: "(string \<times> json) list"
  ClientProfile_Version :: int
  ClientProfile_Enabled :: bool
  ClientProfile_CreatedAt :: instant
  ClientProfile_UpdatedAt :: instant

record ClientProfileAssignment =
  ClientProfileAssignment_ID :: string
  ClientProfileAssignment_ProfileID :: string
  ClientProfileAssignment_ScopeType :: string
  ClientProfileAssignment_ScopeID :: string
  ClientProfileAssignment_Priority :: int
  ClientProfileAssignment_CreatedAt :: instant

record ClientBuild =
  ClientBuild_ID :: string
  ClientBuild_ProfileID :: string
  ClientBuild_TargetOS :: string
  ClientBuild_Architecture :: string
  ClientBuild_Format :: string
  ClientBuild_Status :: string
  ClientBuild_ArtifactName :: string
  ClientBuild_MediaType :: string
  ClientBuild_SHA256 :: string
  ClientBuild_Error :: string
  ClientBuild_Artifact :: string
  ClientBuild_CreatedBy :: string
  ClientBuild_WorkerID :: string
  ClientBuild_Attempts :: int
  ClientBuild_CreatedAt :: instant
  ClientBuild_StartedAt :: "instant option"
  ClientBuild_LeaseUntil :: "instant option"
  ClientBuild_CompletedAt :: "instant option"

record BuilderWorker =
  BuilderWorker_ID :: string
  BuilderWorker_Name :: string
  BuilderWorker_Hostname :: string
  BuilderWorker_Version :: string
  BuilderWorker_Formats :: "string list"
  BuilderWorker_Platforms :: "string list"
  BuilderWorker_Architectures :: "string list"
  BuilderWorker_Concurrency :: int
  BuilderWorker_Status :: string
  BuilderWorker_LastSeenAt :: instant
  BuilderWorker_CreatedAt :: instant
  BuilderWorker_UpdatedAt :: instant
  BuilderWorker_TokenHash :: string

record ACLRule =
  ACLRule_ID :: string
  ACLRule_Name :: string
  ACLRule_SubjectType :: string
  ACLRule_SubjectID :: string
  ACLRule_TargetType :: string
  ACLRule_TargetID :: string
  ACLRule_Permissions :: "string list"
  ACLRule_Effect :: string
  ACLRule_Enabled :: bool
  ACLRule_Priority :: int
  ACLRule_CreatedAt :: instant
  ACLRule_UpdatedAt :: instant
  ACLRule_Deleted :: bool

record Strategy =
  Strategy_ID :: string
  Strategy_Name :: string
  Strategy_ScopeType :: string
  Strategy_ScopeID :: string
  Strategy_Priority :: int
  Strategy_Settings :: "(string \<times> json) list"
  Strategy_Enabled :: bool
  Strategy_CreatedAt :: instant
  Strategy_UpdatedAt :: instant
  Strategy_Deleted :: bool

record AuthSnapshot =
  AuthSnapshot_RequireLogin :: bool
  AuthSnapshot_RequireDeviceDeployment :: bool
  AuthSnapshot_SourceID :: string
  AuthSnapshot_Revision :: int
  AuthSnapshot_CreatedAt :: instant
  AuthSnapshot_Users :: "User list"
  AuthSnapshot_Sessions :: "Session list"
  AuthSnapshot_Devices :: "Device list"
  AuthSnapshot_ACLRules :: "ACLRule list"
  AuthSnapshot_Strategies :: "Strategy list"
  AuthSnapshot_UserGroupMemberships :: "UserGroupMembership list"
  AuthSnapshot_RelayServers :: "RelayServer list"

definition Active :: "Session \<Rightarrow> instant \<Rightarrow> bool" where
  "Active s now = (Session_RevokedAt s = None \<and> now < Session_ExpiresAt s)"

end
