(* ===== verification/Schema.thy ===== *)
theory Schema
  imports Domain
begin

text \<open>
  The SQL schema made by Store.Migrate (internal/store/sqlstore/store.go): a row
  record per table with the columns of its CREATE TABLE statement, the columns
  added later by ensureTableColumn last, and the database as a record of tables in
  insertion order.  Columns that hold JSON text are kept as the value that was
  marshalled into them.  On top stand the statements the store is written with.

  A statement may fail because of the engine or the connection: \<open>db_faults\<close> is the
  schedule of such failures, one entry per round trip, the empty schedule meaning
  that none fails.  A failing statement has no effect, and a transaction whose
  body or commit fails leaves every table as it found it.
\<close>

section \<open>Rows\<close>

record users_row =
  users_id :: string
  users_username :: string
  users_email :: string
  users_phone :: string
  users_password_hash :: string
  users_display_name :: string
  users_role :: string
  users_enabled :: bool
  users_approval_status :: string
  users_token_version :: int
  users_created_at :: int
  users_updated_at :: int
  users_last_login_at :: "int option"
  users_force_relogin_at :: "int option"
  users_totp_secret :: string
  users_totp_enabled :: bool

record sessions_row =
  sessions_id :: string
  sessions_user_id :: string
  sessions_created_at :: int
  sessions_expires_at :: int
  sessions_revoked_at :: "int option"
  sessions_last_seen_at :: int
  sessions_ip :: string
  sessions_user_agent :: string
  sessions_client_device_id :: string

record auth_challenges_row =
  auth_challenges_id :: string
  auth_challenges_user_id :: string
  auth_challenges_token_version :: int
  auth_challenges_created_at :: int
  auth_challenges_expires_at :: int
  auth_challenges_ip :: string
  auth_challenges_user_agent :: string
  auth_challenges_client_device_id :: string
  auth_challenges_rustdesk_id :: string
  auth_challenges_client_uuid :: string
  auth_challenges_platform :: string
  auth_challenges_client_type :: string
  auth_challenges_device_name :: string

record oidc_auth_requests_row =
  oidc_auth_requests_state :: string
  oidc_auth_requests_poll_code :: string
  oidc_auth_requests_provider :: string
  oidc_auth_requests_verifier :: string
  oidc_auth_requests_nonce :: string
  oidc_auth_requests_user_id :: string
  oidc_auth_requests_link_user_id :: string
  oidc_auth_requests_error :: string
  oidc_auth_requests_rustdesk_id :: string
  oidc_auth_requests_client_uuid :: string
  oidc_auth_requests_platform :: string
  oidc_auth_requests_client_type :: string
  oidc_auth_requests_device_name :: string
  oidc_auth_requests_ip :: string
  oidc_auth_requests_user_agent :: string
  oidc_auth_requests_created_at :: int
  oidc_auth_requests_expires_at :: int

record oidc_identities_row =
  oidc_identities_provider :: string
  oidc_identities_subject :: string
  oidc_identities_user_id :: string
  oidc_identities_email :: string
  oidc_identities_created_at :: int

record mfa_recovery_codes_row =
  mfa_recovery_codes_user_id :: string
  mfa_recovery_codes_code_hash :: string
  mfa_recovery_codes_created_at :: int

record audit_events_row =
  audit_events_id :: string
  audit_events_occurred_at :: int
  audit_events_type :: string
  audit_events_actor_user_id :: string
  audit_events_actor_session_id :: string
  audit_events_controller_device_id :: string
  audit_events_target_rustdesk_id :: string
  audit_events_ip :: string
  audit_events_result :: string
  audit_events_reason :: string
  audit_events_metadata :: "(string \<times> json) list"

record connection_records_row =
  connection_records_connection_key :: string
  connection_records_actor_user_id :: string
  connection_records_actor_session_id :: string
  connection_records_controller_device_id :: string
  connection_records_controller_name :: string
  connection_records_controller_login :: string
  connection_records_target_rustdesk_id :: string
  connection_records_connection_type :: int
  connection_records_ip :: string
  connection_records_transport :: string
  connection_records_relay_uuid :: string
  connection_records_relay_server :: string
  connection_records_started_at :: int
  connection_records_last_seen_at :: int
  connection_records_closed_at :: "int option"

record login_attempts_row =
  login_attempts_id :: string
  login_attempts_username :: string
  login_attempts_occurred_at :: int

record account_lockouts_row =
  account_lockouts_username :: string
  account_lockouts_locked_until :: int
  account_lockouts_updated_at :: int

record devices_row =
  devices_rustdesk_id :: string
  devices_client_uuid :: string
  devices_hostname :: string
  devices_alias :: string
  devices_platform :: string
  devices_version :: string
  devices_cpu :: string
  devices_memory :: string
  devices_os_username :: string
  devices_last_seen_ip :: string
  devices_online :: bool
  devices_last_seen :: int
  devices_owner_user_id :: string
  devices_group_id :: string
  devices_tags :: "string list"
  devices_created_at :: int
  devices_public_key :: string
  devices_deployed :: bool
  devices_deployed_by :: string
  devices_deployed_at :: "int option"
  devices_archived_at :: "int option"

record groups_row =
  groups_id :: string
  groups_name :: string
  groups_description :: string
  groups_kind :: string
  groups_created_at :: int
  groups_updated_at :: int

record user_group_memberships_row =
  user_group_memberships_group_id :: string
  user_group_memberships_user_id :: string
  user_group_memberships_created_at :: int

record address_books_row =
  address_books_id :: string
  address_books_name :: string
  address_books_kind :: string
  address_books_owner_user_id :: string
  address_books_created_at :: int
  address_books_updated_at :: int

record address_book_grants_row =
  address_book_grants_id :: string
  address_book_grants_address_book_id :: string
  address_book_grants_subject_type :: string
  address_book_grants_subject_id :: string
  address_book_grants_permission :: string
  address_book_grants_created_at :: int
  address_book_grants_updated_at :: int

record address_book_entries_row =
  address_book_entries_id :: string
  address_book_entries_address_book_id :: string
  address_book_entries_rustdesk_id :: string
  address_book_entries_alias :: string
  address_book_entries_folder :: string
  address_book_entries_favourite :: bool
  address_book_entries_tags :: "string list"
  address_book_entries_created_at :: int
  address_book_entries_username :: string
  address_book_entries_hostname :: string
  address_book_entries_platform :: string
  address_book_entries_force_relay :: bool
  address_book_entries_rdp_port :: string
  address_book_entries_rdp_username :: string
  address_book_entries_login_name :: string
  address_book_entries_same_server :: bool

record address_book_tags_row =
  address_book_tags_id :: string
  address_book_tags_address_book_id :: string
  address_book_tags_name :: string
  address_book_tags_color :: int
  address_book_tags_created_at :: int
  address_book_tags_updated_at :: int

record api_tokens_row =
  api_tokens_id :: string
  api_tokens_user_id :: string
  api_tokens_name :: string
  api_tokens_token_hash :: string
  api_tokens_prefix :: string
  api_tokens_scopes :: "string list"
  api_tokens_created_at :: int
  api_tokens_expires_at :: int
  api_tokens_last_used_at :: "int option"
  api_tokens_revoked_at :: "int option"

record relay_servers_row =
  relay_servers_id :: string
  relay_servers_name :: string
  relay_servers_hostname :: string
  relay_servers_port :: int
  relay_servers_region :: string
  relay_servers_enabled :: bool
  relay_servers_health :: string
  relay_servers_latency_ms :: int
  relay_servers_connections :: int
  relay_servers_bandwidth :: int
  relay_servers_created_at :: int
  relay_servers_updated_at :: int

record relay_credentials_row =
  relay_credentials_relay_id :: string
  relay_credentials_token_hash :: string
  relay_credentials_enrollment_hash :: string
  relay_credentials_enrollment_expires :: int
  relay_credentials_generation :: string
  relay_credentials_updated_at :: int

record relay_authorizations_row =
  relay_authorizations_uuid :: string
  relay_authorizations_relay_id :: string
  relay_authorizations_generation :: string
  relay_authorizations_state :: string
  relay_authorizations_created_at :: int

record relay_event_receipts_row =
  relay_event_receipts_relay_id :: string
  relay_event_receipts_event_id :: string
  relay_event_receipts_uuid :: string
  relay_event_receipts_generation :: string
  relay_event_receipts_state :: string
  relay_event_receipts_received_at :: int

record relay_delivery_archive_row =
  relay_delivery_archive_uuid :: string
  relay_delivery_archive_relay_id :: string
  relay_delivery_archive_generation :: string
  relay_delivery_archive_active_event_id :: string
  relay_delivery_archive_closed_event_id :: string
  relay_delivery_archive_archived_at :: int

record relay_metrics_row =
  relay_metrics_relay_id :: string
  relay_metrics_recorded_at :: int
  relay_metrics_health :: string
  relay_metrics_latency_ms :: int
  relay_metrics_connections :: int
  relay_metrics_bandwidth :: int

record webhooks_row =
  webhooks_id :: string
  webhooks_name :: string
  webhooks_url :: string
  webhooks_events :: "string list"
  webhooks_enabled :: bool
  webhooks_created_at :: int
  webhooks_updated_at :: int

record webhook_deliveries_row =
  webhook_deliveries_id :: string
  webhook_deliveries_webhook_id :: string
  webhook_deliveries_event_type :: string
  webhook_deliveries_payload :: string
  webhook_deliveries_status :: string
  webhook_deliveries_attempts :: int
  webhook_deliveries_response_code :: int
  webhook_deliveries_last_error :: string
  webhook_deliveries_next_attempt :: int
  webhook_deliveries_created_at :: int
  webhook_deliveries_delivered_at :: "int option"

record notifications_row =
  notifications_id :: string
  notifications_type :: string
  notifications_severity :: string
  notifications_title :: string
  notifications_message :: string
  notifications_resource :: string
  notifications_created_at :: int
  notifications_read_at :: "int option"

record automation_rules_row =
  automation_rules_id :: string
  automation_rules_name :: string
  automation_rules_event_types :: "string list"
  automation_rules_conditions :: "(string \<times> string) list"
  automation_rules_actions :: "string list"
  automation_rules_severity :: string
  automation_rules_throttle_seconds :: int
  automation_rules_enabled :: bool
  automation_rules_created_at :: int
  automation_rules_updated_at :: int

record automation_runs_row =
  automation_runs_id :: string
  automation_runs_rule_id :: string
  automation_runs_event_type :: string
  automation_runs_event_id :: string
  automation_runs_status :: string
  automation_runs_message :: string
  automation_runs_created_at :: int

record cluster_nodes_row =
  cluster_nodes_id :: string
  cluster_nodes_service :: string
  cluster_nodes_version :: string
  cluster_nodes_address :: string
  cluster_nodes_started_at :: int
  cluster_nodes_last_seen_at :: int

record cluster_leases_row =
  cluster_leases_name :: string
  cluster_leases_owner_id :: string
  cluster_leases_expires_at :: int
  cluster_leases_updated_at :: int

record client_profiles_row =
  client_profiles_id :: string
  client_profiles_name :: string
  client_profiles_description :: string
  client_profiles_platform :: string
  client_profiles_settings :: "(string \<times> json) list"
  client_profiles_branding :: "(string \<times> json) list"
  client_profiles_version :: int
  client_profiles_enabled :: bool
  client_profiles_created_at :: int
  client_profiles_updated_at :: int

record client_profile_assignments_row =
  client_profile_assignments_id :: string
  client_profile_assignments_profile_id :: string
  client_profile_assignments_scope_type :: string
  client_profile_assignments_scope_id :: string
  client_profile_assignments_priority :: int
  client_profile_assignments_created_at :: int

record client_builds_row =
  client_builds_id :: string
  client_builds_profile_id :: string
  client_builds_target_os :: string
  client_builds_architecture :: string
  client_builds_format :: string
  client_builds_status :: string
  client_builds_artifact_name :: string
  client_builds_media_type :: string
  client_builds_sha256 :: string
  client_builds_error :: string
  client_builds_artifact :: string
  client_builds_created_by :: string
  client_builds_worker_id :: string
  client_builds_attempts :: int
  client_builds_created_at :: int
  client_builds_started_at :: "int option"
  client_builds_lease_until :: "int option"
  client_builds_completed_at :: "int option"

record builder_workers_row =
  builder_workers_id :: string
  builder_workers_name :: string
  builder_workers_hostname :: string
  builder_workers_version :: string
  builder_workers_formats :: "string list"
  builder_workers_platforms :: "string list"
  builder_workers_architectures :: "string list"
  builder_workers_concurrency :: int
  builder_workers_status :: string
  builder_workers_token_hash :: string
  builder_workers_last_seen_at :: int
  builder_workers_created_at :: int
  builder_workers_updated_at :: int

record runtime_settings_row =
  runtime_settings_key :: string
  runtime_settings_value :: string
  runtime_settings_updated_at :: int

record user_preferences_row =
  user_preferences_user_id :: string
  user_preferences_key :: string
  user_preferences_value :: string
  user_preferences_updated_at :: int

record acl_rules_row =
  acl_rules_id :: string
  acl_rules_name :: string
  acl_rules_subject_type :: string
  acl_rules_subject_id :: string
  acl_rules_target_type :: string
  acl_rules_target_id :: string
  acl_rules_permissions :: "string list"
  acl_rules_effect :: string
  acl_rules_enabled :: bool
  acl_rules_priority :: int
  acl_rules_created_at :: int
  acl_rules_updated_at :: int

record strategies_row =
  strategies_id :: string
  strategies_name :: string
  strategies_scope_type :: string
  strategies_scope_id :: string
  strategies_priority :: int
  strategies_settings :: "(string \<times> json) list"
  strategies_enabled :: bool
  strategies_created_at :: int
  strategies_updated_at :: int
  strategies_deleted :: bool

record roles_row =
  roles_id :: string
  roles_name :: string
  roles_description :: string
  roles_permissions :: "string list"
  roles_system :: bool
  roles_created_at :: int
  roles_updated_at :: int

section \<open>The database\<close>

record db =
  db_users :: "users_row list"
  db_sessions :: "sessions_row list"
  db_auth_challenges :: "auth_challenges_row list"
  db_oidc_auth_requests :: "oidc_auth_requests_row list"
  db_oidc_identities :: "oidc_identities_row list"
  db_mfa_recovery_codes :: "mfa_recovery_codes_row list"
  db_audit_events :: "audit_events_row list"
  db_connection_records :: "connection_records_row list"
  db_login_attempts :: "login_attempts_row list"
  db_account_lockouts :: "account_lockouts_row list"
  db_devices :: "devices_row list"
  db_groups :: "groups_row list"
  db_user_group_memberships :: "user_group_memberships_row list"
  db_address_books :: "address_books_row list"
  db_address_book_grants :: "address_book_grants_row list"
  db_address_book_entries :: "address_book_entries_row list"
  db_address_book_tags :: "address_book_tags_row list"
  db_api_tokens :: "api_tokens_row list"
  db_relay_servers :: "relay_servers_row list"
  db_relay_credentials :: "relay_credentials_row list"
  db_relay_authorizations :: "relay_authorizations_row list"
  db_relay_event_receipts :: "relay_event_receipts_row list"
  db_relay_delivery_archive :: "relay_delivery_archive_row list"
  db_relay_metrics :: "relay_metrics_row list"
  db_webhooks :: "webhooks_row list"
  db_webhook_deliveries :: "webhook_deliveries_row list"
  db_notifications :: "notifications_row list"
  db_automation_rules :: "automation_rules_row list"
  db_automation_runs :: "automation_runs_row list"
  db_cluster_nodes :: "cluster_nodes_row list"
  db_cluster_leases :: "cluster_leases_row list"
  db_client_profiles :: "client_profiles_row list"
  db_client_profile_assignments :: "client_profile_assignments_row list"
  db_client_builds :: "client_builds_row list"
  db_builder_workers :: "builder_workers_row list"
  db_runtime_settings :: "runtime_settings_row list"
  db_user_preferences :: "user_preferences_row list"
  db_acl_rules :: "acl_rules_row list"
  db_strategies :: "strategies_row list"
  db_roles :: "roles_row list"
  db_faults :: "bool list"

definition empty_db :: db where
  "empty_db = 
    \<lparr>db_users = [], db_sessions = [], db_auth_challenges = [], db_oidc_auth_requests = [],
     db_oidc_identities = [], db_mfa_recovery_codes = [], db_audit_events = [],
     db_connection_records = [], db_login_attempts = [], db_account_lockouts = [], db_devices
     = [], db_groups = [], db_user_group_memberships = [], db_address_books = [],
     db_address_book_grants = [], db_address_book_entries = [], db_address_book_tags = [],
     db_api_tokens = [], db_relay_servers = [], db_relay_credentials = [],
     db_relay_authorizations = [], db_relay_event_receipts = [], db_relay_delivery_archive =
     [], db_relay_metrics = [], db_webhooks = [], db_webhook_deliveries = [],
     db_notifications = [], db_automation_rules = [], db_automation_runs = [],
     db_cluster_nodes = [], db_cluster_leases = [], db_client_profiles = [],
     db_client_profile_assignments = [], db_client_builds = [], db_builder_workers = [],
     db_runtime_settings = [], db_user_preferences = [], db_acl_rules = [], db_strategies =
     [], db_roles = [], db_faults = []\<rparr>"

definition set_faults :: "bool list \<Rightarrow> db \<Rightarrow> db" where
  "set_faults fs d = d\<lparr>db_faults := fs\<rparr>"

text \<open>Two databases agree when they hold the same tables.\<close>

definition same_tables :: "db \<Rightarrow> db \<Rightarrow> bool" where
  "same_tables d d' \<longleftrightarrow> set_faults [] d = set_faults [] d'"

section \<open>Instants in columns\<close>

definition millis :: "instant \<Rightarrow> int" where "millis t = t div 1000000"

definition fromMillis :: "int \<Rightarrow> instant" where "fromMillis m = m * 1000000"

definition nullableMillis :: "instant \<Rightarrow> int option" where
  "nullableMillis t = (if IsZero t then None else Some (millis t))"

definition nullableTimePtrMillis :: "instant option \<Rightarrow> int option" where
  "nullableTimePtrMillis t = map_option millis t"

section \<open>Statements\<close>

definition stmt :: "(db \<Rightarrow> error + 'a \<times> db) \<Rightarrow> (db, 'a) prog" where
  "stmt f d = (if db_faults d \<noteq> [] \<and> hd (db_faults d)
     then (Inl ErrDriver, set_faults (tl (db_faults d)) d)
     else let d1 = set_faults (tl (db_faults d)) d in
          case f d1 of Inl e \<Rightarrow> (Inl e, d1) | Inr (a, d2) \<Rightarrow> (Inr a, d2))"

definition transaction :: "(db, 'a) prog \<Rightarrow> (db, 'a) prog" where
  "transaction m d =
     (case stmt (\<lambda>d. Inr ((), d)) d of
        (Inl e, d0) \<Rightarrow> (Inl e, d0)
      | (Inr _, d0) \<Rightarrow>
          (case m d0 of
             (Inl e, d1) \<Rightarrow> (Inl e, set_faults (db_faults d1) d0)
           | (Inr a, d1) \<Rightarrow>
               (case stmt (\<lambda>d. Inr ((), d)) d1 of
                  (Inl e, d2) \<Rightarrow> (Inl e, set_faults (db_faults d2) d0)
                | (Inr _, d2) \<Rightarrow> (Inr a, d2))))"

definition query :: "(db \<Rightarrow> 'a) \<Rightarrow> (db, 'a) prog" where
  "query f = stmt (\<lambda>d. Inr (f d, d))"

definition query_row :: "(db \<Rightarrow> 'a option) \<Rightarrow> (db, 'a) prog" where
  "query_row f = stmt (\<lambda>d. case f d of None \<Rightarrow> Inl ErrNoRows | Some a \<Rightarrow> Inr (a, d))"

definition exec_insert ::
  "(('r list \<Rightarrow> 'r list) \<Rightarrow> db \<Rightarrow> db) \<Rightarrow> (db \<Rightarrow> 'r \<Rightarrow> bool) \<Rightarrow> 'r \<Rightarrow> (db, unit) prog" where
  "exec_insert upd ok r = stmt (\<lambda>d.
     if ok d r then Inr ((), upd (\<lambda>rs. rs @ [r]) d) else Inl ErrConstraint)"

text \<open>\<open>exec_upsert\<close> is INSERT ... ON CONFLICT(key) DO UPDATE: \<open>same\<close> compares the key.\<close>

definition exec_upsert ::
  "(db \<Rightarrow> 'r list) \<Rightarrow> (('r list \<Rightarrow> 'r list) \<Rightarrow> db \<Rightarrow> db) \<Rightarrow> ('r \<Rightarrow> 'r \<Rightarrow> bool) \<Rightarrow>
   (db \<Rightarrow> 'r \<Rightarrow> bool) \<Rightarrow> ('r \<Rightarrow> 'r) \<Rightarrow> 'r \<Rightarrow> (db, unit) prog" where
  "exec_upsert sel upd same ok merge r = stmt (\<lambda>d.
     if \<exists>x\<in>set (sel d). same x r
     then Inr ((), upd (upd_where (\<lambda>x. same x r) merge) d)
     else if ok d r then Inr ((), upd (\<lambda>rs. rs @ [r]) d) else Inl ErrConstraint)"

text \<open>The same with a WHERE clause on the conflicting row; the result is the number of
  rows written.\<close>

definition exec_upsert_where ::
  "(db \<Rightarrow> 'r list) \<Rightarrow> (('r list \<Rightarrow> 'r list) \<Rightarrow> db \<Rightarrow> db) \<Rightarrow> ('r \<Rightarrow> 'r \<Rightarrow> bool) \<Rightarrow>
   ('r \<Rightarrow> bool) \<Rightarrow> ('r \<Rightarrow> 'r) \<Rightarrow> 'r \<Rightarrow> (db, int) prog" where
  "exec_upsert_where sel upd same cond merge r = stmt (\<lambda>d.
     if \<exists>x\<in>set (sel d). same x r
     then Inr (int (length (filter (\<lambda>x. same x r \<and> cond x) (sel d))),
               upd (upd_where (\<lambda>x. same x r \<and> cond x) merge) d)
     else Inr (1, upd (\<lambda>rs. rs @ [r]) d))"

definition exec_update ::
  "(db \<Rightarrow> 'r list) \<Rightarrow> (('r list \<Rightarrow> 'r list) \<Rightarrow> db \<Rightarrow> db) \<Rightarrow> ('r \<Rightarrow> bool) \<Rightarrow> ('r \<Rightarrow> 'r) \<Rightarrow>
   (db, int) prog" where
  "exec_update sel upd p f = stmt (\<lambda>d.
     Inr (int (length (filter p (sel d))), upd (upd_where p f) d))"

text \<open>An update of a column under a UNIQUE constraint, \<open>ok\<close> being the constraint on the
  rows it produces.\<close>

definition exec_update_unique ::
  "(db \<Rightarrow> 'r list) \<Rightarrow> (('r list \<Rightarrow> 'r list) \<Rightarrow> db \<Rightarrow> db) \<Rightarrow> ('r list \<Rightarrow> bool) \<Rightarrow>
   ('r \<Rightarrow> bool) \<Rightarrow> ('r \<Rightarrow> 'r) \<Rightarrow> (db, int) prog" where
  "exec_update_unique sel upd ok p f = stmt (\<lambda>d.
     if ok (upd_where p f (sel d))
     then Inr (int (length (filter p (sel d))), upd (upd_where p f) d)
     else Inl ErrConstraint)"

definition update_returning ::
  "(db \<Rightarrow> 'r list) \<Rightarrow> (('r list \<Rightarrow> 'r list) \<Rightarrow> db \<Rightarrow> db) \<Rightarrow> ('r \<Rightarrow> bool) \<Rightarrow> ('r \<Rightarrow> 'r) \<Rightarrow>
   (db, 'r) prog" where
  "update_returning sel upd p f = stmt (\<lambda>d. case filter p (sel d) of
     [] \<Rightarrow> Inl ErrNoRows
   | x # _ \<Rightarrow> Inr (f x, upd (upd_where p f) d))"

definition update_returning_unique ::
  "(db \<Rightarrow> 'r list) \<Rightarrow> (('r list \<Rightarrow> 'r list) \<Rightarrow> db \<Rightarrow> db) \<Rightarrow> ('r list \<Rightarrow> bool) \<Rightarrow>
   ('r \<Rightarrow> bool) \<Rightarrow> ('r \<Rightarrow> 'r) \<Rightarrow> (db, 'r) prog" where
  "update_returning_unique sel upd ok p f = stmt (\<lambda>d. case filter p (sel d) of
     [] \<Rightarrow> Inl ErrNoRows
   | x # _ \<Rightarrow> if ok (upd_where p f (sel d)) then Inr (f x, upd (upd_where p f) d)
              else Inl ErrConstraint)"

definition exec_delete ::
  "(db \<Rightarrow> 'r list) \<Rightarrow> (('r list \<Rightarrow> 'r list) \<Rightarrow> db \<Rightarrow> db) \<Rightarrow> (db \<Rightarrow> 'r \<Rightarrow> bool) \<Rightarrow> (db, int) prog" where
  "exec_delete sel upd p = stmt (\<lambda>d.
     Inr (int (length (filter (p d) (sel d))), upd (filter (\<lambda>x. \<not> p d x)) d))"

text \<open>A deletion from a table others refer to without ON DELETE CASCADE: \<open>refd\<close> says that a
  row is referred to.\<close>

definition exec_delete_restrict ::
  "(db \<Rightarrow> 'r list) \<Rightarrow> (('r list \<Rightarrow> 'r list) \<Rightarrow> db \<Rightarrow> db) \<Rightarrow> (db \<Rightarrow> 'r \<Rightarrow> bool) \<Rightarrow>
   ('r \<Rightarrow> bool) \<Rightarrow> (db, int) prog" where
  "exec_delete_restrict sel upd refd p = stmt (\<lambda>d.
     if \<exists>x\<in>set (sel d). p x \<and> refd d x then Inl ErrConstraint
     else Inr (int (length (filter p (sel d))), upd (filter (\<lambda>x. \<not> p x)) d))"

definition delete_returning ::
  "(db \<Rightarrow> 'r list) \<Rightarrow> (('r list \<Rightarrow> 'r list) \<Rightarrow> db \<Rightarrow> db) \<Rightarrow> ('r \<Rightarrow> bool) \<Rightarrow> (db, 'r) prog" where
  "delete_returning sel upd p = stmt (\<lambda>d. case filter p (sel d) of
     [] \<Rightarrow> Inl ErrNoRows
   | x # _ \<Rightarrow> Inr (x, upd (filter (\<lambda>x. \<not> p x)) d))"

text \<open>The scan helpers turn sql.ErrNoRows into domain.ErrNotFound and pass other
  errors on; \<open>affected\<close> does so for a statement that changed no row.\<close>

definition scan_found :: "('r \<Rightarrow> 'a) \<Rightarrow> (db, 'r) prog \<Rightarrow> (db, 'a) prog" where
  "scan_found f m = attempt m (\<lambda>r. case r of
      Inl e \<Rightarrow> throw (if e = ErrNoRows then ErrNotFound else e)
    | Inr x \<Rightarrow> ret (f x))"

definition affected :: "(db, int) prog \<Rightarrow> (db, unit) prog" where
  "affected m = bindE m (\<lambda>n. if n = 0 then throw ErrNotFound else ret ())"

definition execute :: "(db, 'a) prog \<Rightarrow> (db, unit) prog" where
  "execute m = bindE m (\<lambda>_. ret ())"

end
