(* ===== verification/Statements.thy ===== *)
theory Statements
  imports Schema
begin

text \<open>
  How the statements of theory Schema behave: what a successful statement did,
  that a failed transaction changes no table, and the contract \<open>db_rel\<close> under which
  a relation between the databases before and after an operation is proved
  statement by statement, whatever the fault schedule is.
\<close>

lemma set_faults_simps [simp]:
  "set_faults a (set_faults b d) = set_faults a d"
  "db_faults (set_faults a d) = a"
  "set_faults (db_faults d) d = d"
  by (simp_all add: set_faults_def)

lemma set_faults_nil: "db_faults d = [] \<Longrightarrow> set_faults [] d = d"
  by (metis set_faults_simps(3))

lemma same_tables_refl [simp]: "same_tables d d"
  by (simp add: same_tables_def)

lemma same_tables_set_faults [simp]:
  "same_tables (set_faults fs d) e = same_tables d e"
  "same_tables d (set_faults fs e) = same_tables d e"
  by (simp_all add: same_tables_def)

lemma same_tablesI: "d' = set_faults fs d \<Longrightarrow> same_tables d d'"
  by simp

lemma same_tablesE:
  assumes "same_tables d d'"
  obtains "d' = set_faults (db_faults d') d"
proof -
  have "set_faults (db_faults d') (set_faults [] d) = set_faults (db_faults d') (set_faults [] d')"
    using assms by (simp add: same_tables_def)
  then show thesis using that by simp
qed

lemma millis_fromMillis [simp]: "millis (fromMillis m) = m"
  by (simp add: millis_def fromMillis_def)

lemma fromMillis_millis_le: "fromMillis (millis t) \<le> t"
proof -
  have "t div 1000000 * 1000000 \<le> t"
    using div_mult_mod_eq [of t 1000000] pos_mod_sign [of 1000000 t] by linarith
  then show ?thesis by (simp add: millis_def fromMillis_def)
qed

lemma fromMillis_millis_gt: "t - 1000000 < fromMillis (millis t)"
proof -
  have "t < t div 1000000 * 1000000 + 1000000"
    using div_mult_mod_eq [of t 1000000] pos_mod_bound [of 1000000 t] by linarith
  then show ?thesis by (simp add: millis_def fromMillis_def)
qed

lemma millis_mono: "s \<le> t \<Longrightarrow> millis s \<le> millis t"
  by (simp add: millis_def zdiv_mono1)

lemma fromMillis_le_iff [simp]: "fromMillis m \<le> fromMillis n \<longleftrightarrow> m \<le> n"
  by (simp add: fromMillis_def)

lemma less_fromMillis_iff: "t < fromMillis m \<longleftrightarrow> millis t < m"
  using fromMillis_millis_le [of t] fromMillis_millis_gt [of t]
  by (simp add: millis_def fromMillis_def) linarith

section \<open>Running statements\<close>

lemma stmt_run [prog_simps]:
  "db_faults d = [] \<Longrightarrow> stmt f d = (case f d of Inl e \<Rightarrow> (Inl e, d) | Inr (a, d') \<Rightarrow> (Inr a, d'))"
  by (simp add: stmt_def Let_def set_faults_nil)

lemma stmt_Inr_iff:
  "stmt f d = (Inr a, d') \<longleftrightarrow>
     \<not> (db_faults d \<noteq> [] \<and> hd (db_faults d)) \<and> f (set_faults (tl (db_faults d)) d) = Inr (a, d')"
  by (auto simp: stmt_def Let_def split: sum.splits)

lemma stmt_InrE:
  assumes "stmt f d = (Inr a, d')"
  obtains e fs where "e = set_faults fs d" "f e = Inr (a, d')"
  using assms by (auto simp: stmt_Inr_iff)

lemma stmt_Inl:
  "stmt f d = (Inl e, d') \<Longrightarrow> d' = set_faults (db_faults d') d"
  by (auto simp: stmt_def Let_def split: sum.splits if_splits)

lemmas statement_defs = query_def query_row_def exec_insert_def exec_upsert_def
  exec_upsert_where_def exec_update_def   exec_update_unique_def update_returning_def update_returning_unique_def exec_delete_def
  exec_delete_restrict_def delete_returning_def

text \<open>What a statement that succeeded did, up to the rest of the fault schedule.\<close>

lemma query_okE:
  assumes "query f d = (Inr a, d')"
  obtains fs where "d' = set_faults fs d" "a = f (set_faults fs d)"
  using assms by (auto simp: query_def elim!: stmt_InrE)

lemma query_row_okE:
  assumes "query_row f d = (Inr a, d')"
  obtains fs where "d' = set_faults fs d" "f (set_faults fs d) = Some a"
  using assms by (auto simp: query_row_def split: option.splits elim!: stmt_InrE)

lemma exec_insert_okE:
  assumes "exec_insert upd ok r d = (Inr u, d')"
  obtains fs where "ok (set_faults fs d) r" "d' = upd (\<lambda>rs. rs @ [r]) (set_faults fs d)"
  using assms by (auto simp: exec_insert_def split: if_splits elim!: stmt_InrE)

lemma exec_update_okE:
  assumes "exec_update sel upd p f d = (Inr n, d')"
  obtains fs where "d' = upd (upd_where p f) (set_faults fs d)"
    "n = int (length (filter p (sel (set_faults fs d))))"
  using assms by (auto simp: exec_update_def elim!: stmt_InrE)

lemma exec_delete_okE:
  assumes "exec_delete sel upd p d = (Inr n, d')"
  obtains fs where "d' = upd (filter (\<lambda>x. \<not> p (set_faults fs d) x)) (set_faults fs d)"
    "n = int (length (filter (p (set_faults fs d)) (sel (set_faults fs d))))"
  using assms by (auto simp: exec_delete_def elim!: stmt_InrE)

lemma exec_delete_restrict_okE:
  assumes "exec_delete_restrict sel upd refd p d = (Inr n, d')"
  obtains fs where "d' = upd (filter (\<lambda>x. \<not> p x)) (set_faults fs d)"
    "n = int (length (filter p (sel (set_faults fs d))))"
    "\<forall>x\<in>set (sel (set_faults fs d)). p x \<longrightarrow> \<not> refd (set_faults fs d) x"
  using assms by (auto simp: exec_delete_restrict_def split: if_splits elim!: stmt_InrE)

lemma update_returning_okE:
  assumes "update_returning sel upd p f d = (Inr y, d')"
  obtains fs x where "d' = upd (upd_where p f) (set_faults fs d)"
    "x \<in> set (sel (set_faults fs d))" "p x" "y = f x"
proof -
  from assms [unfolded update_returning_def] obtain e fs where e: "e = set_faults fs d"
    and f: "(case filter p (sel e) of [] \<Rightarrow> Inl ErrNoRows
      | x # _ \<Rightarrow> Inr (f x, upd (upd_where p f) e)) = (Inr (y, d') :: error + _)"
    by (rule stmt_InrE)
  then obtain x xs where x: "filter p (sel e) = x # xs" "y = f x" "d' = upd (upd_where p f) e"
    by (auto split: list.splits)
  then have "x \<in> set (sel e)" "p x" by (metis filter_eq_ConsD in_set_conv_decomp)+
  then show thesis using that x e by simp
qed

lemma delete_returning_okE:
  assumes "delete_returning sel upd p d = (Inr x, d')"
  obtains fs where "d' = upd (filter (\<lambda>x. \<not> p x)) (set_faults fs d)"
    "x \<in> set (sel (set_faults fs d))" "p x"
proof -
  from assms [unfolded delete_returning_def] obtain e fs where e: "e = set_faults fs d"
    and f: "(case filter p (sel e) of [] \<Rightarrow> Inl ErrNoRows
      | x # _ \<Rightarrow> Inr (x, upd (filter (\<lambda>x. \<not> p x)) e)) = (Inr (x, d') :: error + _)"
    by (rule stmt_InrE)
  then obtain xs where x: "filter p (sel e) = x # xs" "d' = upd (filter (\<lambda>x. \<not> p x)) e"
    by (auto split: list.splits)
  then have "x \<in> set (sel e)" "p x" by (metis filter_eq_ConsD in_set_conv_decomp)+
  then show thesis using that x e by simp
qed

lemma scan_found_Inr_iff:
  "scan_found f m d = (Inr a, d') \<longleftrightarrow> (\<exists>x. m d = (Inr x, d') \<and> a = f x)"
  by (cases "m d") (auto simp: scan_found_def attempt_run split: sum.splits)

lemma affected_Inr_iff:
  "affected m d = (Inr u, d') \<longleftrightarrow> (\<exists>n. m d = (Inr n, d') \<and> n \<noteq> 0)"
  by (auto simp: affected_def bindE_Inr_iff split: if_splits)

lemma execute_Inr_iff: "execute m d = (Inr u, d') \<longleftrightarrow> (\<exists>n. m d = (Inr n, d'))"
  by (auto simp: execute_def bindE_Inr_iff)

lemmas result_iffs = ok_iffs scan_found_Inr_iff affected_Inr_iff execute_Inr_iff

lemmas statement_okEs = query_okE query_row_okE exec_insert_okE exec_update_okE exec_delete_okE
  exec_delete_restrict_okE update_returning_okE delete_returning_okE

text \<open>A transaction that fails, at BEGIN, in its body or at COMMIT, leaves every table
  as it was.\<close>

lemma transaction_Inl:
  assumes "transaction m d = (Inl e, d')"
  shows "d' = set_faults (db_faults d') d"
proof (cases "stmt (\<lambda>d. Inr ((), d)) d")
  case (Pair r d0)
  have d0: "d0 = set_faults (db_faults d0) d"
    using Pair by (auto simp: stmt_def Let_def split: if_splits)
  show ?thesis
  proof (cases r)
    case (Inl x)
    then show ?thesis using Pair assms d0 by (simp add: transaction_def)
  next
    case (Inr u)
    have "\<exists>fs. d' = set_faults fs d0"
      using Pair Inr assms
      by (auto simp: transaction_def split: prod.splits sum.splits)
    then obtain fs where "d' = set_faults fs d0" by blast
    then show ?thesis using d0 by (metis set_faults_simps(1,2))
  qed
qed

lemma transaction_error_tables: "transaction m d = (Inl e, d') \<Longrightarrow> same_tables d d'"
  by (rule same_tablesI, erule transaction_Inl)

lemma transaction_InrE:
  assumes "transaction m d = (Inr a, d')"
  obtains fs d1 gs where "m (set_faults fs d) = (Inr a, d1)" "d' = set_faults gs d1"
proof (cases "stmt (\<lambda>d. Inr ((), d)) d")
  case (Pair r d0)
  have d0: "d0 = set_faults (db_faults d0) d"
    using Pair by (auto simp: stmt_def Let_def split: if_splits)
  have "\<exists>d1 gs. m d0 = (Inr a, d1) \<and> d' = set_faults gs d1"
    using Pair assms
    by (auto simp: transaction_def stmt_def Let_def split: prod.splits sum.splits if_splits)
  then show thesis using that d0 by metis
qed

lemma transaction_run [prog_simps]:
  "db_faults d = [] \<Longrightarrow> transaction m d =
     (case m d of
        (Inl e, d1) \<Rightarrow> (Inl e, set_faults (db_faults d1) d)
      | (Inr a, d1) \<Rightarrow>
          (case stmt (\<lambda>d. Inr ((), d)) d1 of
             (Inl e, d2) \<Rightarrow> (Inl e, set_faults (db_faults d2) d)
           | (Inr _, d2) \<Rightarrow> (Inr a, d2)))"
  by (simp add: transaction_def stmt_def Let_def set_faults_nil)

lemmas statement_run = statement_defs scan_found_def affected_def execute_def prog_simps

section \<open>The contract of a relation between databases\<close>

locale db_rel = step_rel R for R :: "db \<Rightarrow> db \<Rightarrow> bool" +
  assumes rel_faults: "R d (set_faults fs d)"
begin

lemma steps_stmt: "(\<And>d a d'. f d = Inr (a, d') \<Longrightarrow> R d d') \<Longrightarrow> steps R (stmt f)"
  by (rule stepsI)
    (auto simp: stmt_def Let_def rel_faults split: sum.split intro: step_trans [OF rel_faults])

lemma steps_transaction:
  assumes m: "steps R m"
  shows "steps R (transaction m)"
proof (rule stepsI)
  fix d
  obtain r d' where t: "transaction m d = (r, d')" by fastforce
  have "R d d'"
  proof (cases r)
    case (Inl e)
    then show ?thesis using transaction_Inl t rel_faults by metis
  next
    case (Inr a)
    with t obtain fs d1 gs where "m (set_faults fs d) = (Inr a, d1)" "d' = set_faults gs d1"
      by (auto elim: transaction_InrE)
    then show ?thesis using stepsD [OF m] rel_faults step_trans by metis
  qed
  then show "R d (snd (transaction m d))" using t by simp
qed

lemma steps_query: "steps R (query f)"
  unfolding query_def by (rule steps_stmt) (auto intro: step_refl)

lemma steps_query_row: "steps R (query_row f)"
  unfolding query_row_def by (rule steps_stmt) (auto intro: step_refl split: option.splits)

lemma steps_exec_insert:
  "(\<And>d. ok d r \<Longrightarrow> R d (upd (\<lambda>rs. rs @ [r]) d)) \<Longrightarrow> steps R (exec_insert upd ok r)"
  unfolding exec_insert_def by (rule steps_stmt) (auto split: if_splits)

lemma steps_exec_upsert:
  assumes "\<And>d. R d (upd (upd_where (\<lambda>x. same x r) merge) d)"
    and "\<And>d. ok d r \<Longrightarrow> \<forall>x\<in>set (sel d). \<not> same x r \<Longrightarrow> R d (upd (\<lambda>rs. rs @ [r]) d)"
  shows "steps R (exec_upsert sel upd same ok merge r)"
  unfolding exec_upsert_def by (rule steps_stmt) (auto split: if_splits intro: assms)

lemma steps_exec_upsert_where:
  assumes "\<And>d. R d (upd (upd_where (\<lambda>x. same x r \<and> cond x) merge) d)"
    and "\<And>d. \<forall>x\<in>set (sel d). \<not> same x r \<Longrightarrow> R d (upd (\<lambda>rs. rs @ [r]) d)"
  shows "steps R (exec_upsert_where sel upd same cond merge r)"
  unfolding exec_upsert_where_def by (rule steps_stmt) (auto split: if_splits intro: assms)

lemma steps_exec_update:
  "(\<And>d. R d (upd (upd_where p f) d)) \<Longrightarrow> steps R (exec_update sel upd p f)"
  unfolding exec_update_def by (rule steps_stmt) auto

lemma steps_exec_update_unique:
  "(\<And>d. ok (upd_where p f (sel d)) \<Longrightarrow>
      R d (upd (upd_where p f) d)) \<Longrightarrow>
   steps R (exec_update_unique sel upd ok p f)"
  unfolding exec_update_unique_def by (rule steps_stmt) (auto split: if_splits)

lemma steps_update_returning:
  "(\<And>d. R d (upd (upd_where p f) d)) \<Longrightarrow>
   steps R (update_returning sel upd p f)"
  unfolding update_returning_def by (rule steps_stmt) (auto split: list.splits)

lemma steps_update_returning_unique:
  "(\<And>d. ok (upd_where p f (sel d)) \<Longrightarrow> R d (upd (upd_where p f) d)) \<Longrightarrow>
   steps R (update_returning_unique sel upd ok p f)"
  unfolding update_returning_unique_def
  by (rule steps_stmt) (auto split: list.splits if_splits)

lemma steps_exec_delete_restrict:
  "(\<And>d. \<forall>x\<in>set (sel d). p x \<longrightarrow> \<not> refd d x \<Longrightarrow> R d (upd (filter (\<lambda>x. \<not> p x)) d)) \<Longrightarrow>
   steps R (exec_delete_restrict sel upd refd p)"
  unfolding exec_delete_restrict_def by (rule steps_stmt) (auto split: if_splits)

lemma steps_exec_delete:
  "(\<And>d. R d (upd (filter (\<lambda>x. \<not> p d x)) d)) \<Longrightarrow> steps R (exec_delete sel upd p)"
  unfolding exec_delete_def by (rule steps_stmt) auto

lemma steps_delete_returning:
  "(\<And>d. R d (upd (filter (\<lambda>x. \<not> p x)) d)) \<Longrightarrow> steps R (delete_returning sel upd p)"
  unfolding delete_returning_def by (rule steps_stmt) (auto split: list.splits)

lemma steps_scan_found: "steps R m \<Longrightarrow> steps R (scan_found f m)"
  unfolding scan_found_def by (intro steps_attempt steps_sum steps_throw steps_ret)

lemma steps_affected: "steps R m \<Longrightarrow> steps R (affected m)"
  unfolding affected_def by (intro steps_bindE steps_if steps_throw steps_ret)

lemma steps_execute: "steps R m \<Longrightarrow> steps R (execute m)"
  unfolding execute_def by (intro steps_bindE steps_ret)

lemmas basic_intros = steps_intros steps_transaction steps_query steps_query_row steps_exec_insert
  steps_exec_upsert steps_exec_upsert_where steps_exec_update steps_update_returning
  steps_exec_delete_restrict steps_exec_delete steps_delete_returning steps_scan_found
  steps_affected steps_execute

lemmas db_intros = basic_intros steps_exec_update_unique steps_update_returning_unique

end

text \<open>Queries keep every table.\<close>

interpretation stb: db_rel same_tables
  by unfold_locales (auto simp: same_tables_def)

end
