(* ===== verification/Cluster.thy ===== *)
theory Cluster
  imports Statements
begin

text \<open>
  Cluster membership and leases: the store operations of
  internal/store/sqlstore/cluster.go and the coordinator of
  internal/cluster/coordinator.go, with the loop of RunLeader as a transition
  system of several nodes on one database.
\<close>

section \<open>Store operations\<close>

definition UpsertClusterNode :: "ClusterNode \<Rightarrow> (db, unit) prog" where
  "UpsertClusterNode v =
     exec_upsert db_cluster_nodes db_cluster_nodes_update
       (\<lambda>x y. cluster_nodes_id x = cluster_nodes_id y) (\<lambda>_ _. True)
       (\<lambda>x. x\<lparr>cluster_nodes_service := ClusterNode_Service v,
              cluster_nodes_version := ClusterNode_Version v,
              cluster_nodes_address := ClusterNode_Address v,
              cluster_nodes_last_seen_at := millis (ClusterNode_LastSeenAt v)\<rparr>)
       \<lparr>cluster_nodes_id = ClusterNode_ID v, cluster_nodes_service = ClusterNode_Service v,
        cluster_nodes_version = ClusterNode_Version v,
        cluster_nodes_address = ClusterNode_Address v,
        cluster_nodes_started_at = millis (ClusterNode_StartedAt v),
        cluster_nodes_last_seen_at = millis (ClusterNode_LastSeenAt v)\<rparr>"

definition ListClusterNodes :: "instant \<Rightarrow> instant \<Rightarrow> (db, ClusterNode list) prog" where
  "ListClusterNodes activeAfter now = query (\<lambda>d.
     map (\<lambda>n. \<lparr>ClusterNode_ID = cluster_nodes_id n, ClusterNode_Service = cluster_nodes_service n,
               ClusterNode_Version = cluster_nodes_version n,
               ClusterNode_Address = cluster_nodes_address n,
               ClusterNode_StartedAt = fromMillis (cluster_nodes_started_at n),
               ClusterNode_LastSeenAt = fromMillis (cluster_nodes_last_seen_at n),
               ClusterNode_LeaseCount =
                 int (length (filter (\<lambda>l. cluster_leases_owner_id l = cluster_nodes_id n \<and>
                        cluster_leases_expires_at l > millis now) (db_cluster_leases d)))\<rparr>)
       (sort_key (\<lambda>n. (cluster_nodes_service n, cluster_nodes_id n))
         (filter (\<lambda>n. cluster_nodes_last_seen_at n \<ge> millis activeAfter) (db_cluster_nodes d))))"

definition AcquireClusterLease ::
  "string \<Rightarrow> string \<Rightarrow> instant \<Rightarrow> instant \<Rightarrow> (db, bool) prog" where
  "AcquireClusterLease name ownerID now expiresAt =
     bindE (exec_upsert_where db_cluster_leases db_cluster_leases_update
       (\<lambda>x y. cluster_leases_name x = cluster_leases_name y)
       (\<lambda>x. cluster_leases_owner_id x = ownerID \<or> cluster_leases_expires_at x \<le> millis now)
       (\<lambda>x. x\<lparr>cluster_leases_owner_id := ownerID, cluster_leases_expires_at := millis expiresAt,
              cluster_leases_updated_at := millis now\<rparr>)
       \<lparr>cluster_leases_name = name, cluster_leases_owner_id = ownerID,
        cluster_leases_expires_at = millis expiresAt, cluster_leases_updated_at = millis now\<rparr>)
     (\<lambda>count. ret (count > 0))"

definition ReleaseClusterLease :: "string \<Rightarrow> string \<Rightarrow> (db, unit) prog" where
  "ReleaseClusterLease name ownerID = execute (exec_delete db_cluster_leases db_cluster_leases_update
     (\<lambda>_ x. cluster_leases_name x = name \<and> cluster_leases_owner_id x = ownerID))"

definition ListClusterLeases :: "instant \<Rightarrow> (db, ClusterLease list) prog" where
  "ListClusterLeases now = query (\<lambda>d.
     map (\<lambda>l. \<lparr>ClusterLease_Name = cluster_leases_name l,
               ClusterLease_OwnerID = cluster_leases_owner_id l,
               ClusterLease_ExpiresAt = fromMillis (cluster_leases_expires_at l),
               ClusterLease_UpdatedAt = fromMillis (cluster_leases_updated_at l)\<rparr>)
       (sort_key cluster_leases_name
         (filter (\<lambda>l. cluster_leases_expires_at l > millis now) (db_cluster_leases d))))"

section \<open>The coordinator\<close>

text \<open>The clock \<open>c.now\<close> is an argument of the operations that read it.\<close>

record Coordinator =
  Coordinator_node :: ClusterNode
  Coordinator_interval :: duration

definition Coordinator_New :: "ClusterNode \<Rightarrow> Coordinator" where
  "Coordinator_New node = \<lparr>Coordinator_node = node, Coordinator_interval = 15 * Second\<rparr>"

definition heartbeat :: "instant \<Rightarrow> Coordinator \<Rightarrow> db \<Rightarrow> Coordinator \<times> db" where
  "heartbeat now c d =
     (let node = (Coordinator_node c)\<lparr>ClusterNode_LastSeenAt := now\<rparr>;
          node = (if IsZero (ClusterNode_StartedAt node)
                  then node\<lparr>ClusterNode_StartedAt := now\<rparr> else node)
      in (c\<lparr>Coordinator_node := node\<rparr>, snd (UpsertClusterNode node d)))"

definition NodeID :: "Coordinator \<Rightarrow> string" where
  "NodeID c = ClusterNode_ID (Coordinator_node c)"

definition Acquire :: "Coordinator \<Rightarrow> string \<Rightarrow> duration \<Rightarrow> instant \<Rightarrow> (db, bool) prog" where
  "Acquire c name ttl now = AcquireClusterLease name (NodeID c) now (now + ttl)"

definition Release :: "Coordinator \<Rightarrow> string \<Rightarrow> (db, unit) prog" where
  "Release c name = ReleaseClusterLease name (NodeID c)"

text \<open>RunLeader: the period is at least three seconds; \<open>reconcile\<close> runs at the start and on
  every tick, and its result says whether \<open>cancel\<close> is set, that is whether the worker
  runs.  Cancelling the context runs the deferred stop.\<close>

definition leader_ttl :: "duration \<Rightarrow> duration" where
  "leader_ttl ttl = (if ttl < 3 * Second then 3 * Second else ttl)"

definition reconcile :: "Coordinator \<Rightarrow> string \<Rightarrow> duration \<Rightarrow> instant \<Rightarrow> (db, bool) prog" where
  "reconcile c name ttl now = attempt (Acquire c name (leader_ttl ttl) now) (\<lambda>r. case r of
      Inl _ \<Rightarrow> ret False
    | Inr owned \<Rightarrow> ret owned)"

definition leader_stop :: "Coordinator \<Rightarrow> string \<Rightarrow> (db, unit) prog" where
  "leader_stop c name = ignoreE (Release c name) (ret ())"

text \<open>The nodes of a cluster on one database and one clock.  \<open>workers\<close> gives for a node
  and a lease name the end of the lease the node was granted last, while its worker
  runs.\<close>

record cluster_state =
  cs_db :: db
  cs_clock :: instant
  cs_workers :: "string \<times> string \<Rightarrow> instant option"

inductive cluster_step :: "cluster_state \<Rightarrow> cluster_state \<Rightarrow> bool" where
  step_tick: "cs_clock s \<le> t \<Longrightarrow> cluster_step s (s\<lparr>cs_clock := t\<rparr>)"
| step_reconcile:
    "reconcile c name ttl (cs_clock s) (cs_db s) = (Inr running, d) \<Longrightarrow>
     cluster_step s (s\<lparr>cs_db := d, cs_workers := (cs_workers s)((NodeID c, name) :=
       (if running then Some (cs_clock s + leader_ttl ttl) else None))\<rparr>)"
| step_stop:
    "leader_stop c name (cs_db s) = (Inr (), d) \<Longrightarrow>
     cluster_step s (s\<lparr>cs_db := d, cs_workers := (cs_workers s)((NodeID c, name) := None)\<rparr>)"
| step_heartbeat:
    "heartbeat (cs_clock s) c (cs_db s) = (c', d) \<Longrightarrow> cluster_step s (s\<lparr>cs_db := d\<rparr>)"

definition cluster_start :: "db \<Rightarrow> instant \<Rightarrow> cluster_state" where
  "cluster_start d t = \<lparr>cs_db = d, cs_clock = t, cs_workers = (\<lambda>_. None)\<rparr>"

definition cluster_reachable :: "cluster_state \<Rightarrow> bool" where
  "cluster_reachable s \<longleftrightarrow>
     (\<exists>d t. distinct (map cluster_leases_name (db_cluster_leases d)) \<and>
        cluster_step\<^sup>*\<^sup>* (cluster_start d t) s)"

section \<open>Leases\<close>

text \<open>\<open>lease_held d n o e\<close>: the lease table says that \<open>o\<close> holds \<open>n\<close> until \<open>e\<close>.\<close>

definition lease_held :: "db \<Rightarrow> string \<Rightarrow> string \<Rightarrow> int \<Rightarrow> bool" where
  "lease_held d n ow e \<longleftrightarrow> (\<exists>x\<in>set (db_cluster_leases d).
     cluster_leases_name x = n \<and> cluster_leases_owner_id x = ow \<and> cluster_leases_expires_at x = e)"

definition leases_pk :: "db \<Rightarrow> bool" where
  "leases_pk d \<longleftrightarrow> distinct (map cluster_leases_name (db_cluster_leases d))"

definition leases_pk_kept :: "db \<Rightarrow> db \<Rightarrow> bool" where
  "leases_pk_kept d d' \<longleftrightarrow> (leases_pk d \<longrightarrow> leases_pk d')"

lemma leases_set_faults [simp]:
  "db_cluster_leases (set_faults fs d) = db_cluster_leases d"
  "lease_held (set_faults fs d) = lease_held d"
  "leases_pk (set_faults fs d) = leases_pk d"
  by (simp_all add: set_faults_def lease_held_def leases_pk_def fun_eq_iff)

interpretation lpk: db_rel leases_pk_kept
  by unfold_locales (auto simp: leases_pk_kept_def)

lemma leases_pk_upd:
  "leases_pk_kept d (db_cluster_leases_update (filter p) d)"
  "(\<And>x. p x \<Longrightarrow> cluster_leases_name (f x) = cluster_leases_name x) \<Longrightarrow>
     leases_pk_kept d (db_cluster_leases_update (upd_where p f) d)"
  "\<forall>x\<in>set (db_cluster_leases d). cluster_leases_name x \<noteq> cluster_leases_name r \<Longrightarrow>
     leases_pk_kept d (db_cluster_leases_update (\<lambda>rs. rs @ [r]) d)"
proof -
  show "leases_pk_kept d (db_cluster_leases_update (filter p) d)"
    by (simp add: leases_pk_kept_def leases_pk_def distinct_map_filter)
  show "leases_pk_kept d (db_cluster_leases_update (upd_where p f) d)"
    if "\<And>x. p x \<Longrightarrow> cluster_leases_name (f x) = cluster_leases_name x"
    using that by (simp add: leases_pk_kept_def leases_pk_def table_simps)
  show "leases_pk_kept d (db_cluster_leases_update (\<lambda>rs. rs @ [r]) d)"
    if "\<forall>x\<in>set (db_cluster_leases d). cluster_leases_name x \<noteq> cluster_leases_name r"
    using that by (auto simp: leases_pk_kept_def leases_pk_def)
qed

lemma Acquire_pk: "steps leases_pk_kept (AcquireClusterLease n ow now ex)"
  unfolding AcquireClusterLease_def
  by (intro lpk.db_intros leases_pk_upd) auto

lemma Release_pk: "steps leases_pk_kept (ReleaseClusterLease n ow)"
  unfolding ReleaseClusterLease_def by (intro lpk.db_intros leases_pk_upd)

lemma leases_pkD:
  "leases_pk d \<Longrightarrow> x \<in> set (db_cluster_leases d) \<Longrightarrow> y \<in> set (db_cluster_leases d) \<Longrightarrow>
   cluster_leases_name x = cluster_leases_name y \<Longrightarrow> x = y"
  unfolding leases_pk_def by (meson distinct_map inj_on_eq_iff)

lemma lease_held_unique:
  "leases_pk d \<Longrightarrow> lease_held d n ow e \<Longrightarrow> lease_held d n ow' e' \<Longrightarrow> ow' = ow \<and> e' = e"
  unfolding lease_held_def using leases_pkD by metis

text \<open>The compare-and-swap: a node gets the lease exactly when nobody else holds it
  unexpired, and otherwise nothing changes.\<close>

lemma AcquireClusterLease_granted:
  assumes "AcquireClusterLease n ow now ex d = (Inr True, d')" "leases_pk d"
  shows "lease_held d' n ow (millis ex)"
    and "\<And>ow' e. lease_held d n ow' e \<Longrightarrow> ow' = ow \<or> e \<le> millis now"
    and "\<And>m ow' e. m \<noteq> n \<Longrightarrow> lease_held d' m ow' e = lease_held d m ow' e"
proof -
  obtain fs where d': "if \<exists>x\<in>set (db_cluster_leases d). cluster_leases_name x = n
      then (\<exists>x\<in>set (db_cluster_leases d). cluster_leases_name x = n \<and>
              (cluster_leases_owner_id x = ow \<or> cluster_leases_expires_at x \<le> millis now)) \<and>
           d' = db_cluster_leases_update (upd_where (\<lambda>x. cluster_leases_name x = n \<and>
              (cluster_leases_owner_id x = ow \<or> cluster_leases_expires_at x \<le> millis now))
              (\<lambda>x. x\<lparr>cluster_leases_owner_id := ow, cluster_leases_expires_at := millis ex,
                     cluster_leases_updated_at := millis now\<rparr>)) (set_faults fs d)
      else d' = db_cluster_leases_update (\<lambda>rs. rs @ [\<lparr>cluster_leases_name = n,
              cluster_leases_owner_id = ow, cluster_leases_expires_at = millis ex,
              cluster_leases_updated_at = millis now\<rparr>]) (set_faults fs d)"
    using assms(1)
    by (fastforce simp: AcquireClusterLease_def bindE_Inr_iff exec_upsert_where_def stmt_Inr_iff
        filter_empty_conv split: if_splits)
  show "lease_held d' n ow (millis ex)"
  proof (cases "\<exists>x\<in>set (db_cluster_leases d). cluster_leases_name x = n")
    case True
    then obtain x where "x \<in> set (db_cluster_leases d)" "cluster_leases_name x = n"
      "cluster_leases_owner_id x = ow \<or> cluster_leases_expires_at x \<le> millis now"
      using d' by auto
    then show ?thesis using True d' by (auto simp: lease_held_def table_simps)
  next
    case False
    then show ?thesis using d' unfolding lease_held_def by simp
  qed
  show "ow' = ow \<or> e \<le> millis now" if "lease_held d n ow' e" for ow' e
  proof -
    from that obtain x where x: "x \<in> set (db_cluster_leases d)" "cluster_leases_name x = n"
      "cluster_leases_owner_id x = ow'" "cluster_leases_expires_at x = e"
      by (auto simp: lease_held_def)
    then obtain y where "y \<in> set (db_cluster_leases d)" "cluster_leases_name y = n"
      "cluster_leases_owner_id y = ow \<or> cluster_leases_expires_at y \<le> millis now"
      using d' by (auto split: if_splits)
    with x show ?thesis using leases_pkD [OF assms(2), of x y] by auto
  qed
  show "lease_held d' m ow' e = lease_held d m ow' e" if "m \<noteq> n" for m ow' e
    using d' that by (auto simp: lease_held_def table_simps split: if_splits)
qed

lemma AcquireClusterLease_refused:
  assumes "AcquireClusterLease n ow now ex d = (Inr False, d')"
  shows "db_cluster_leases d' = db_cluster_leases d"
    and "\<exists>ow' e. lease_held d n ow' e \<and> ow' \<noteq> ow \<and> millis now < e"
proof -
  obtain fs where d': "\<exists>x\<in>set (db_cluster_leases d). cluster_leases_name x = n"
      "\<forall>x\<in>set (db_cluster_leases d). cluster_leases_name x = n \<longrightarrow>
         cluster_leases_owner_id x \<noteq> ow \<and> millis now < cluster_leases_expires_at x"
      "d' = db_cluster_leases_update (upd_where (\<lambda>x. cluster_leases_name x = n \<and>
              (cluster_leases_owner_id x = ow \<or> cluster_leases_expires_at x \<le> millis now))
              (\<lambda>x. x\<lparr>cluster_leases_owner_id := ow, cluster_leases_expires_at := millis ex,
                     cluster_leases_updated_at := millis now\<rparr>)) (set_faults fs d)"
    using assms
    by (fastforce simp: AcquireClusterLease_def bindE_Inr_iff exec_upsert_where_def stmt_Inr_iff
        filter_empty_conv split: if_splits)
  show "db_cluster_leases d' = db_cluster_leases d"
    using d'(2,3) by (auto intro!: upd_where_none)
  show "\<exists>ow' e. lease_held d n ow' e \<and> ow' \<noteq> ow \<and> millis now < e"
    using d'(1,2) by (auto simp: lease_held_def)
qed

lemma AcquireClusterLease_error:
  "AcquireClusterLease n ow now ex d = (Inl e, d') \<Longrightarrow> same_tables d d'"
  by (auto simp: AcquireClusterLease_def bindE_run exec_upsert_where_def stmt_def Let_def
      split: if_splits sum.splits)

lemma ReleaseClusterLease_held:
  assumes "ReleaseClusterLease n ow d = (r, d')" "lease_held d m ow' e" "(m, ow') \<noteq> (n, ow)"
  shows "lease_held d' m ow' e"
  using assms
  by (fastforce simp: ReleaseClusterLease_def execute_def exec_delete_def bindE_run stmt_def Let_def
      lease_held_def split: if_splits sum.splits)

section \<open>One worker per lease\<close>

text \<open>The invariant of the cluster: the lease table is keyed by name, and a node whose
  worker runs under an unexpired grant is the recorded owner of the lease.\<close>

definition cluster_inv :: "cluster_state \<Rightarrow> bool" where
  "cluster_inv s \<longleftrightarrow> leases_pk (cs_db s) \<and>
     (\<forall>n name e. cs_workers s (n, name) = Some e \<longrightarrow> millis (cs_clock s) < millis e \<longrightarrow>
        lease_held (cs_db s) name n (millis e))"

definition live_worker :: "cluster_state \<Rightarrow> string \<Rightarrow> string \<Rightarrow> bool" where
  "live_worker s n name \<longleftrightarrow>
     (\<exists>e. cs_workers s (n, name) = Some e \<and> millis (cs_clock s) < millis e)"

lemma reconcile_cases:
  assumes "reconcile c name ttl now d = (Inr running, d')"
  obtains "running" "AcquireClusterLease name (NodeID c) now (now + leader_ttl ttl) d = (Inr True, d')"
  | "\<not> running" "db_cluster_leases d' = db_cluster_leases d"
proof (cases "AcquireClusterLease name (NodeID c) now (now + leader_ttl ttl) d")
  case (Pair r d1)
  have run: "(case r of Inl _ \<Rightarrow> Inr False | Inr owned \<Rightarrow> Inr owned) = Inr running" "d' = d1"
    using assms Pair by (auto simp: reconcile_def Acquire_def attempt_run split: sum.splits)
  show thesis
  proof (cases r)
    case (Inl e)
    then have "same_tables d d1" using Pair AcquireClusterLease_error by blast
    then have "db_cluster_leases d1 = db_cluster_leases d"
      by (metis leases_set_faults(1) same_tablesE)
    then show thesis using that(2) run Inl by simp
  next
    case (Inr owned)
    then show thesis
      using that run Pair AcquireClusterLease_refused(1) by (cases owned) auto
  qed
qed

lemma heartbeat_leases:
  "heartbeat now c d = (c', d') \<Longrightarrow> db_cluster_leases d' = db_cluster_leases d"
  by (auto simp: heartbeat_def Let_def UpsertClusterNode_def exec_upsert_def stmt_def
      set_faults_def split: if_splits sum.splits)

lemma lease_held_cong:
  "db_cluster_leases d' = db_cluster_leases d \<Longrightarrow> lease_held d' = lease_held d"
  by (simp add: lease_held_def fun_eq_iff)

lemma leases_pk_cong:
  "db_cluster_leases d' = db_cluster_leases d \<Longrightarrow> leases_pk d' = leases_pk d"
  by (simp add: leases_pk_def)

lemma cluster_inv_reconcile:
  assumes inv: "cluster_inv s"
    and run: "reconcile c name ttl (cs_clock s) (cs_db s) = (Inr running, d)"
  shows "cluster_inv (s\<lparr>cs_db := d, cs_workers := (cs_workers s)((NodeID c, name) :=
    (if running then Some (cs_clock s + leader_ttl ttl) else None))\<rparr>)"
  using run
proof (cases rule: reconcile_cases)
  case 1
  note acq = AcquireClusterLease_granted [OF 1(2)]
  have pk: "leases_pk (cs_db s)" using inv by (simp add: cluster_inv_def)
  have "leases_pk d"
    using stepsD [OF Acquire_pk 1(2)] pk by (simp add: leases_pk_kept_def)
  moreover have "lease_held d m n (millis e)"
    if "((cs_workers s)((NodeID c, name) := Some (cs_clock s + leader_ttl ttl))) (n, m) = Some e"
      "millis (cs_clock s) < millis e" for n m e
  proof (cases "(n, m) = (NodeID c, name)")
    case True
    then show ?thesis using that acq(1) [OF pk] by simp
  next
    case False
    then have held: "lease_held (cs_db s) m n (millis e)"
      using that inv by (auto simp: cluster_inv_def split: if_splits)
    show ?thesis
    proof (cases "m = name")
      case True
      then show ?thesis using acq(2) [OF pk, of n "millis e"] held that(2) False by auto
    next
      case m: False
      then show ?thesis using acq(3) [OF pk m] held by simp
    qed
  qed
  ultimately show ?thesis using 1(1) by (simp add: cluster_inv_def)
next
  case 2
  then show ?thesis using inv
    by (simp add: cluster_inv_def lease_held_cong [OF 2(2)] leases_pk_cong [OF 2(2)])
qed

lemma cluster_inv_stop:
  assumes inv: "cluster_inv s" and stop: "leader_stop c name (cs_db s) = (Inr (), d)"
  shows "cluster_inv (s\<lparr>cs_db := d, cs_workers := (cs_workers s)((NodeID c, name) := None)\<rparr>)"
proof -
  obtain r where rel: "ReleaseClusterLease name (NodeID c) (cs_db s) = (r, d)"
    using stop by (cases "ReleaseClusterLease name (NodeID c) (cs_db s)")
      (auto simp: leader_stop_def Release_def ignoreE_run)
  have "leases_pk d"
    using stepsD [OF Release_pk rel] inv by (simp add: leases_pk_kept_def cluster_inv_def)
  then show ?thesis
    using inv ReleaseClusterLease_held [OF rel] by (auto simp: cluster_inv_def)
qed

lemma cluster_inv_step: "cluster_step s s' \<Longrightarrow> cluster_inv s \<Longrightarrow> cluster_inv s'"
proof (induction rule: cluster_step.induct)
  case (step_tick s t)
  then show ?case
    using millis_mono [OF step_tick(1)] by (auto simp: cluster_inv_def)
next
  case (step_heartbeat s c c' d)
  note eq = heartbeat_leases [OF step_heartbeat(1)]
  show ?case
    using step_heartbeat(2) by (simp add: cluster_inv_def lease_held_cong [OF eq] leases_pk_cong [OF eq])
qed (rule cluster_inv_reconcile cluster_inv_stop; assumption)+

lemma cluster_inv_reachable: "cluster_reachable s \<Longrightarrow> cluster_inv s"
proof -
  assume "cluster_reachable s"
  then obtain d t where start: "distinct (map cluster_leases_name (db_cluster_leases d))"
    and run: "cluster_step\<^sup>*\<^sup>* (cluster_start d t) s"
    by (auto simp: cluster_reachable_def)
  have "cluster_inv (cluster_start d t)"
    using start by (simp add: cluster_inv_def cluster_start_def leases_pk_def)
  with run show ?thesis by (induction rule: rtranclp_induct) (auto intro: cluster_inv_step)
qed

section \<open>Properties\<close>

text \<open>C1: AcquireClusterLease is a compare-and-swap on the lease table.  When the engine
  answers, the result is true exactly when no other node holds the lease past the
  present millisecond; a granted lease belongs to the caller until the asked instant,
  the leases of other names stay as they are, and a refusal changes no lease.\<close>

theorem AcquireClusterLease_compare_and_swap:
  assumes run: "AcquireClusterLease n ow now ex d = (Inr granted, d')" and pk: "leases_pk d"
  shows "(granted \<longleftrightarrow> (\<forall>ow' e. lease_held d n ow' e \<longrightarrow> ow' = ow \<or> e \<le> millis now)) \<and>
    (if granted then lease_held d' n ow (millis ex)
     else db_cluster_leases d' = db_cluster_leases d) \<and>
    (\<forall>m ow' e. m \<noteq> n \<longrightarrow> lease_held d' m ow' e = lease_held d m ow' e) \<and> leases_pk d'"
proof (cases granted)
  case True
  then show ?thesis
    using AcquireClusterLease_granted [OF _ pk] stepsD [OF Acquire_pk run] run pk
    by (simp add: leases_pk_kept_def)
next
  case False
  then have same: "db_cluster_leases d' = db_cluster_leases d"
    and "\<exists>ow' e. lease_held d n ow' e \<and> ow' \<noteq> ow \<and> millis now < e"
    using AcquireClusterLease_refused [of n ow now ex d d'] run by simp_all
  then show ?thesis
    using False pk by (auto simp: lease_held_cong [OF same] leases_pk_cong [OF same] not_le)
qed

definition lease_example :: db where
  "lease_example = empty_db\<lparr>db_cluster_leases := [\<lparr>cluster_leases_name = ''webhooks'',
     cluster_leases_owner_id = ''node-a'', cluster_leases_expires_at = 5000,
     cluster_leases_updated_at = 1000\<rparr>]\<rparr>"

text \<open>Before its expiry the lease of node-a is refused to node-b.\<close>

theorem AcquireClusterLease_compare_and_swap_witness:
  "AcquireClusterLease ''webhooks'' ''node-b'' 2000000000 9000000000 lease_example =
     (Inr False, lease_example) \<and>
   (False \<longleftrightarrow> (\<forall>ow' e. lease_held lease_example ''webhooks'' ow' e \<longrightarrow>
      ow' = ''node-b'' \<or> e \<le> millis 2000000000))"
proof -
  have run: "AcquireClusterLease ''webhooks'' ''node-b'' 2000000000 9000000000 lease_example =
      (Inr False, lease_example)"
    by (simp add: AcquireClusterLease_def statement_run lease_example_def empty_db_def millis_def)
  have "leases_pk lease_example"
    by (simp add: leases_pk_def lease_example_def)
  from AcquireClusterLease_compare_and_swap [OF run this] run show ?thesis by simp
qed

text \<open>C2: RunLeader keeps at most one worker per lease.  In every state the nodes of a
  cluster can reach by reconciling, stopping and sending heartbeats on one clock,
  with any database failures, two different nodes never run the worker of the same
  lease while both are inside the lease they were granted.\<close>

theorem RunLeader_single_worker:
  assumes "cluster_reachable s"
  shows "\<exists>n0. {n. live_worker s n name} \<subseteq> {n0}"
proof -
  have inv: "cluster_inv s" by (rule cluster_inv_reachable) (rule assms)
  have "n = m" if live: "live_worker s n name" "live_worker s m name" for n m
  proof -
    obtain e e' where "lease_held (cs_db s) name n (millis e)" "lease_held (cs_db s) name m (millis e')"
      using live inv unfolding cluster_inv_def live_worker_def by blast
    with inv show ?thesis using lease_held_unique unfolding cluster_inv_def by blast
  qed
  then show ?thesis by blast
qed

definition leader_example :: Coordinator where
  "leader_example = Coordinator_New \<lparr>ClusterNode_ID = ''node-a'', ClusterNode_Service = ''api'',
     ClusterNode_Version = [], ClusterNode_Address = [], ClusterNode_StartedAt = zero_time,
     ClusterNode_LastSeenAt = zero_time, ClusterNode_LeaseCount = 0\<rparr>"

definition leader_example_state :: cluster_state where
  "leader_example_state = (cluster_start empty_db 0)\<lparr>
     cs_db := snd (reconcile leader_example ''webhooks'' (30 * Second) 0 empty_db),
     cs_workers := (\<lambda>_. None)((''node-a'', ''webhooks'') := Some (30 * Second))\<rparr>"

theorem RunLeader_single_worker_witness:
  "cluster_reachable leader_example_state \<and> live_worker leader_example_state ''node-a'' ''webhooks'' \<and>
   (\<exists>n0. {n. live_worker leader_example_state n ''webhooks''} \<subseteq> {n0})"
proof -
  have "reconcile leader_example ''webhooks'' (30 * Second) 0 empty_db =
      (Inr True, snd (reconcile leader_example ''webhooks'' (30 * Second) 0 empty_db))"
    by (simp add: reconcile_def Acquire_def AcquireClusterLease_def statement_run empty_db_def)
  from step_reconcile [of leader_example _ _ "cluster_start empty_db 0", simplified cluster_start_def,
      simplified, OF this]
  have "cluster_step (cluster_start empty_db 0) leader_example_state"
    by (simp add: cluster_start_def leader_example_state_def NodeID_def leader_example_def
        Coordinator_New_def leader_ttl_def Second_def)
  then have reach: "cluster_reachable leader_example_state"
    unfolding cluster_reachable_def by (intro exI [of _ empty_db] exI [of _ 0])
      (auto simp: empty_db_def)
  have "live_worker leader_example_state ''node-a'' ''webhooks''"
    by (simp add: live_worker_def leader_example_state_def cluster_start_def millis_def Second_def)
  then show ?thesis using reach RunLeader_single_worker [OF reach, of "''webhooks''"] by blast
qed

end
