(* ===== verification/Strings.thy ===== *)
theory Strings
  imports Prelude "HOL-Library.Sublist"
begin

text \<open>
  The parts of Go's strings, strconv, unicode/utf8 and fmt packages that the server
  uses.  A Go string or byte slice is a list of characters, one per byte.
\<close>

type_synonym bytes = string
type_synonym rune = nat

definition byte :: "char \<Rightarrow> nat" where "byte c = of_char c"

definition bytes_of :: "nat list \<Rightarrow> bytes" where "bytes_of = map char_of"

section \<open>Letter case\<close>

text \<open>
  ToLower and ToUpper are exact on ASCII text.  On other text Go applies the Unicode
  case tables; the value is then left open.
\<close>

definition is_ascii :: "string \<Rightarrow> bool" where
  "is_ascii s = list_all (\<lambda>c. byte c < 128) s"

definition ascii_lower :: "char \<Rightarrow> char" where
  "ascii_lower c = (if 65 \<le> byte c \<and> byte c \<le> 90 then char_of (byte c + 32) else c)"

definition ascii_upper :: "char \<Rightarrow> char" where
  "ascii_upper c = (if 97 \<le> byte c \<and> byte c \<le> 122 then char_of (byte c - 32) else c)"

definition ToLower :: "string \<Rightarrow> string" where
  "ToLower s = (if is_ascii s then map ascii_lower s else undefined s)"

definition ToUpper :: "string \<Rightarrow> string" where
  "ToUpper s = (if is_ascii s then map ascii_upper s else undefined s)"

section \<open>White space\<close>

text \<open>The UTF-8 encodings of the runes for which unicode.IsSpace holds.\<close>

definition space_encodings :: "string list" where
  "space_encodings = map bytes_of
     ([[9], [10], [11], [12], [13], [32], [194, 133], [194, 160], [225, 154, 128]] @
      map (\<lambda>k. [226, 128, k]) [128..<139] @
      [[226, 128, 168], [226, 128, 169], [226, 128, 175], [226, 129, 159], [227, 128, 128]])"

function strip_by :: "string list \<Rightarrow> string \<Rightarrow> string" where
  "strip_by ps s = (case find (\<lambda>p. p \<noteq> [] \<and> prefix p s) ps of
      Some p \<Rightarrow> strip_by ps (drop (length p) s)
    | None \<Rightarrow> s)"
  by pat_completeness auto
termination
  by (relation "measure (\<lambda>(ps, s). length s)") (auto dest!: find_Some_in simp: prefix_def)

declare strip_by.simps [simp del]

definition TrimSpace :: "string \<Rightarrow> string" where
  "TrimSpace s = rev (strip_by (map rev space_encodings) (rev (strip_by space_encodings s)))"

section \<open>Splitting and joining\<close>

definition HasPrefix :: "string \<Rightarrow> string \<Rightarrow> bool" where
  "HasPrefix s p = (take (length p) s = p)"

definition TrimPrefix :: "string \<Rightarrow> string \<Rightarrow> string" where
  "TrimPrefix s p = (if HasPrefix s p then drop (length p) s else s)"

definition HasSuffix :: "string \<Rightarrow> string \<Rightarrow> bool" where
  "HasSuffix s p = HasPrefix (rev s) (rev p)"

fun Contains :: "string \<Rightarrow> string \<Rightarrow> bool" where
  "Contains [] p = (p = [])"
| "Contains (c # s) p = (HasPrefix (c # s) p \<or> Contains s p)"

text \<open>strings.Split with a separator of one byte.\<close>

fun split_on :: "char \<Rightarrow> string \<Rightarrow> string list" where
  "split_on x [] = [[]]"
| "split_on x (c # s) = (if c = x then [] # split_on x s
     else case split_on x s of p # ps \<Rightarrow> (c # p) # ps | [] \<Rightarrow> [[c]])"

fun Join :: "string list \<Rightarrow> string \<Rightarrow> string" where
  "Join [] sep = []"
| "Join [s] sep = s"
| "Join (s # t # ss) sep = s @ sep @ Join (t # ss) sep"

text \<open>strings.ReplaceAll of one byte by nothing.\<close>

definition remove_byte :: "char \<Rightarrow> string \<Rightarrow> string" where
  "remove_byte c s = filter (\<lambda>x. x \<noteq> c) s"

section \<open>Decimal numbers\<close>

definition digit :: "nat \<Rightarrow> char" where "digit n = char_of (48 + n)"

fun dec_nat :: "nat \<Rightarrow> string" where
  "dec_nat n = (if n < 10 then [digit n] else dec_nat (n div 10) @ [digit (n mod 10)])"

declare dec_nat.simps [simp del]

definition dec_int :: "int \<Rightarrow> string" where
  "dec_int i = (if i < 0 then CHR ''-'' # dec_nat (nat (- i)) else dec_nat (nat i))"

text \<open>The verb \<open>%06d\<close>: zeros fill the width after the sign.\<close>

definition dec_pad6 :: "int \<Rightarrow> string" where
  "dec_pad6 i = (let ds = dec_nat (nat \<bar>i\<bar>) in
     if i < 0 then CHR ''-'' # replicate (5 - length ds) CHR ''0'' @ ds
     else replicate (6 - length ds) CHR ''0'' @ ds)"

definition is_digit :: "char \<Rightarrow> bool" where
  "is_digit c = (48 \<le> byte c \<and> byte c \<le> 57)"

definition digits_value :: "string \<Rightarrow> nat" where
  "digits_value s = foldl (\<lambda>n c. n * 10 + (byte c - 48)) 0 s"

text \<open>strconv.ParseUint in base 10: digits only, at least one, within the bit size.\<close>

definition ParseUint :: "string \<Rightarrow> nat \<Rightarrow> nat option" where
  "ParseUint s bits = (if s = [] \<or> \<not> list_all is_digit s \<or> digits_value s \<ge> 2 ^ bits then None
     else Some (digits_value s))"

text \<open>strconv.Atoi: an optional sign, then digits, within 64 bits.\<close>

definition Atoi :: "string \<Rightarrow> int option" where
  "Atoi s = (let body = (case s of c # cs \<Rightarrow> if c = CHR ''-'' \<or> c = CHR ''+'' then cs else s | [] \<Rightarrow> []);
                 neg = (s \<noteq> [] \<and> hd s = CHR ''-'') in
     if body = [] \<or> \<not> list_all is_digit body then None
     else let v = int (digits_value body) in
       if neg then (if v \<le> 9223372036854775808 then Some (- v) else None)
       else (if v < 9223372036854775808 then Some v else None))"

section \<open>UTF-8\<close>

text \<open>utf8.DecodeRune: the rune and its width, or None for an invalid encoding, which
  Go reads as RuneError of width one.\<close>

definition cont :: "nat \<Rightarrow> bool" where "cont b = (128 \<le> b \<and> b \<le> 191)"

definition in_range :: "nat \<Rightarrow> nat \<Rightarrow> nat \<Rightarrow> bool" where "in_range lo hi b = (lo \<le> b \<and> b \<le> hi)"

fun decode_rune :: "nat list \<Rightarrow> (rune \<times> nat) option" where
  "decode_rune [] = None"
| "decode_rune (a # bs) =
    (if a < 128 then Some (a, 1)
     else if in_range 194 223 a then
       (case bs of b # _ \<Rightarrow> if cont b then Some ((a - 192) * 64 + (b - 128), 2) else None | _ \<Rightarrow> None)
     else if in_range 224 239 a then
       (case bs of b # c # _ \<Rightarrow>
          if in_range (if a = 224 then 160 else 128) (if a = 237 then 159 else 191) b \<and> cont c
          then Some ((a - 224) * 4096 + (b - 128) * 64 + (c - 128), 3) else None
        | _ \<Rightarrow> None)
     else if in_range 240 244 a then
       (case bs of b # c # e # _ \<Rightarrow>
          if in_range (if a = 240 then 144 else 128) (if a = 244 then 143 else 191) b \<and> cont c \<and> cont e
          then Some ((a - 240) * 262144 + (b - 128) * 4096 + (c - 128) * 64 + (e - 128), 4) else None
        | _ \<Rightarrow> None)
     else None)"

text \<open>The runes of a string in the order of a range loop, None for an invalid byte.\<close>

function runes_of :: "nat list \<Rightarrow> rune option list" where
  "runes_of [] = []"
| "runes_of (b # bs) = (case decode_rune (b # bs) of
      Some (r, w) \<Rightarrow> Some r # runes_of (drop (w - 1) bs)
    | None \<Rightarrow> None # runes_of bs)"
  by pat_completeness auto
termination by (relation "measure length") auto

definition runes :: "string \<Rightarrow> rune option list" where
  "runes s = runes_of (map byte s)"

definition ValidString :: "string \<Rightarrow> bool" where
  "ValidString s = list_all (\<lambda>r. r \<noteq> None) (runes s)"

definition RuneCountInString :: "string \<Rightarrow> nat" where
  "RuneCountInString s = length (runes s)"

section \<open>Facts\<close>

lemma byte_lt [simp]: "byte c < 256"
  by (simp add: byte_def)

lemma byte_char_of [simp]: "n < 256 \<Longrightarrow> byte (char_of n) = n"
  by (simp add: byte_def)

lemma char_of_byte [simp]: "char_of (byte c) = c"
  by (simp add: byte_def)

lemma byte_eq_iff: "byte c = byte d \<longleftrightarrow> c = d"
  by (metis char_of_byte)

lemma byte_digit [simp]: "n < 10 \<Longrightarrow> byte (digit n) = 48 + n"
  by (simp add: digit_def)

lemma is_digit_digit [simp]: "n < 10 \<Longrightarrow> is_digit (digit n)"
  by (simp add: is_digit_def)

lemma digits_value_snoc: "digits_value (s @ [c]) = digits_value s * 10 + (byte c - 48)"
  by (simp add: digits_value_def)

lemma dec_nat_digits: "list_all is_digit (dec_nat n)"
proof (induction n rule: dec_nat.induct)
  case (1 n)
  then show ?case by (subst dec_nat.simps) auto
qed

lemma dec_nat_not_Nil [simp]: "dec_nat n \<noteq> []"
  by (subst dec_nat.simps) simp

lemma digits_value_dec_nat [simp]: "digits_value (dec_nat n) = n"
proof (induction n rule: dec_nat.induct)
  case (1 n)
  show ?case
  proof (cases "n < 10")
    case True
    then show ?thesis by (subst dec_nat.simps) (simp add: digits_value_def)
  next
    case False
    then show ?thesis using 1 by (subst dec_nat.simps) (simp add: digits_value_snoc)
  qed
qed

lemma digits_value_zeros: "digits_value (replicate k CHR ''0'' @ s) = digits_value s"
proof -
  have "foldl (\<lambda>n c. n * 10 + (byte c - 48)) 0 (replicate k CHR ''0'') = 0"
    by (induction k) (simp_all add: byte_def)
  then show ?thesis by (simp add: digits_value_def)
qed

lemma length_dec_nat: "n < 10 ^ k \<Longrightarrow> 0 < k \<Longrightarrow> length (dec_nat n) \<le> k"
proof (induction k arbitrary: n)
  case (Suc k)
  show ?case
  proof (cases "n < 10")
    case True
    then show ?thesis by (subst dec_nat.simps) simp
  next
    case False
    then have "0 < k" using Suc.prems by (cases k) auto
    moreover have "n div 10 < 10 ^ k" using Suc.prems by (simp add: less_mult_imp_div_less mult.commute)
    ultimately show ?thesis using Suc.IH False by (subst dec_nat.simps) simp
  qed
qed simp

lemma ParseUint_dec_nat: "n < 2 ^ b \<Longrightarrow> ParseUint (dec_nat n) b = Some n"
  by (simp add: ParseUint_def dec_nat_digits)

lemma ascii_lower_idem [simp]: "ascii_lower (ascii_lower c) = ascii_lower c"
  by (auto simp: ascii_lower_def)

lemma is_ascii_lower: "is_ascii s \<Longrightarrow> is_ascii (map ascii_lower s)"
  by (auto simp: is_ascii_def ascii_lower_def list_all_iff)

lemma ToLower_idem: "is_ascii s \<Longrightarrow> ToLower (ToLower s) = ToLower s"
  by (simp add: ToLower_def is_ascii_lower comp_def)

lemma HasPrefix_append [simp]: "HasPrefix (p @ s) p"
  by (simp add: HasPrefix_def)

lemma TrimPrefix_append [simp]: "TrimPrefix (p @ s) p = s"
  by (simp add: TrimPrefix_def)

lemma split_on_not_Nil [simp]: "split_on x s \<noteq> []"
  by (induction s) (auto split: list.split)

lemma split_on_fresh: "x \<notin> set s \<Longrightarrow> split_on x s = [s]"
  by (induction s) auto

lemma split_on_append: "x \<notin> set s \<Longrightarrow> split_on x (s @ x # t) = s # split_on x t"
  by (induction s) auto

lemma strip_by_fixpoint: "find (\<lambda>p. p \<noteq> [] \<and> prefix p (strip_by ps s)) ps = None"
proof (induction ps s rule: strip_by.induct)
  case (1 ps s)
  show ?case
  proof (cases "find (\<lambda>p. p \<noteq> [] \<and> prefix p s) ps")
    case None
    then show ?thesis by (simp add: strip_by.simps [of ps s])
  next
    case (Some p)
    then show ?thesis using 1 by (simp add: strip_by.simps [of ps s])
  qed
qed

lemma strip_by_id: "find (\<lambda>p. p \<noteq> [] \<and> prefix p s) ps = None \<Longrightarrow> strip_by ps s = s"
  by (simp add: strip_by.simps)

lemma strip_by_idem [simp]: "strip_by ps (strip_by ps s) = strip_by ps s"
  by (rule strip_by_id) (rule strip_by_fixpoint)

lemma strip_by_suffix: "suffix (strip_by ps s) s"
proof (induction ps s rule: strip_by.induct)
  case (1 ps s)
  show ?case
  proof (cases "find (\<lambda>p. p \<noteq> [] \<and> prefix p s) ps")
    case None
    then show ?thesis by (simp add: strip_by.simps [of ps s])
  next
    case (Some p)
    then show ?thesis
      using 1 suffix_order.trans suffix_drop by (simp add: strip_by.simps [of ps s]) blast
  qed
qed

lemma strip_by_Nil [simp]: "strip_by ps [] = []"
  by (rule strip_by_id) (auto simp: find_None_iff)

section \<open>Strings without white space\<close>

definition plain_char :: "char \<Rightarrow> bool" where "plain_char c \<longleftrightarrow> 33 \<le> byte c \<and> byte c \<le> 126"

lemma space_not_plain: "list_all (\<lambda>p. p \<noteq> [] \<and> list_all (\<lambda>c. \<not> plain_char c) p) space_encodings"
  by code_simp

lemma strip_by_plain:
  assumes "list_all plain_char s" "list_all (\<lambda>p. p \<noteq> [] \<and> list_all (\<lambda>c. \<not> plain_char c) p) ps"
  shows "strip_by ps s = s"
proof (rule strip_by_id)
  show "find (\<lambda>p. p \<noteq> [] \<and> prefix p s) ps = None"
    unfolding find_None_iff
  proof
    assume "\<exists>p. p \<in> set ps \<and> p \<noteq> [] \<and> prefix p s"
    then obtain p c cs where "p \<in> set ps" "p = c # cs" "prefix p s" by (metis neq_Nil_conv)
    then show False using assms by (fastforce simp: list_all_iff prefix_def)
  qed
qed

lemma TrimSpace_plain: "list_all plain_char s \<Longrightarrow> TrimSpace s = s"
proof -
  assume s: "list_all plain_char s"
  have "list_all (\<lambda>p. p \<noteq> [] \<and> list_all (\<lambda>c. \<not> plain_char c) p) (map rev space_encodings)"
    using space_not_plain by (simp add: list_all_iff)
  then show ?thesis
    using s strip_by_plain [OF s space_not_plain] strip_by_plain [of "rev s" "map rev space_encodings"]
    by (simp add: TrimSpace_def)
qed

lemma digit_plain: "list_all is_digit s \<Longrightarrow> list_all plain_char s"
  by (auto simp: list_all_iff is_digit_def plain_char_def)

end
