(* ===== verification/Store_Accounts.thy ===== *)
theory Store_Accounts
  imports Statements Strings
begin

text \<open>
  The account tables of internal/store/sqlstore/store.go: users, groups and their
  members, roles.  Each operation is the Go method statement by statement, with the
  transactions it opens.
\<close>

section \<open>Rows and structs\<close>

definition users_insert_ok :: "db \<Rightarrow> users_row \<Rightarrow> bool" where
  "users_insert_ok d r = (\<forall>x\<in>set (db_users d).
     users_id x \<noteq> users_id r \<and> users_username x \<noteq> users_username r)"

definition users_unique :: "users_row list \<Rightarrow> bool" where
  "users_unique rs = (distinct (map users_id rs) \<and> distinct (map users_username rs))"

definition member_insert_ok :: "db \<Rightarrow> user_group_memberships_row \<Rightarrow> bool" where
  "member_insert_ok d r = (\<forall>x\<in>set (db_user_group_memberships d).
     (user_group_memberships_group_id x, user_group_memberships_user_id x) \<noteq>
     (user_group_memberships_group_id r, user_group_memberships_user_id r))"

definition same_member :: "user_group_memberships_row \<Rightarrow> user_group_memberships_row \<Rightarrow> bool" where
  "same_member x r =
     (user_group_memberships_group_id x = user_group_memberships_group_id r \<and>
      user_group_memberships_user_id x = user_group_memberships_user_id r)"

definition member_row :: "string \<Rightarrow> string \<Rightarrow> int \<Rightarrow> user_group_memberships_row" where
  "member_row g u t = \<lparr>user_group_memberships_group_id = g, user_group_memberships_user_id = u,
     user_group_memberships_created_at = t\<rparr>"

definition scanUser :: "users_row \<Rightarrow> User" where
  "scanUser r = \<lparr>User_ID = users_id r, User_Username = users_username r, User_Email = users_email r,
     User_Phone = users_phone r, User_PasswordHash = users_password_hash r,
     User_DisplayName = users_display_name r, User_Role = users_role r, User_Permissions = [],
     User_Enabled = users_enabled r, User_ApprovalStatus = users_approval_status r,
     User_TokenVersion = users_token_version r, User_CreatedAt = fromMillis (users_created_at r),
     User_UpdatedAt = fromMillis (users_updated_at r),
     User_LastLoginAt = (case users_last_login_at r of None \<Rightarrow> zero_time | Some m \<Rightarrow> fromMillis m),
     User_ForceReloginAt = (case users_force_relogin_at r of None \<Rightarrow> zero_time | Some m \<Rightarrow> fromMillis m),
     User_TOTPSecret = users_totp_secret r, User_TOTPEnabled = users_totp_enabled r\<rparr>"

text \<open>The INSERT of CreateUser and CreateRegisteredUser names neither phone nor the TOTP
  columns, which take their defaults.\<close>

definition users_row_of :: "User \<Rightarrow> users_row" where
  "users_row_of u = \<lparr>users_id = User_ID u, users_username = ToLower (User_Username u),
     users_email = User_Email u, users_phone = [], users_password_hash = User_PasswordHash u,
     users_display_name = User_DisplayName u, users_role = User_Role u,
     users_enabled = User_Enabled u, users_approval_status = User_ApprovalStatus u,
     users_token_version = User_TokenVersion u, users_created_at = millis (User_CreatedAt u),
     users_updated_at = millis (User_UpdatedAt u), users_last_login_at = None,
     users_force_relogin_at = None, users_totp_secret = [], users_totp_enabled = False\<rparr>"

section \<open>Users\<close>

definition CountUsers :: "(db, int) prog" where
  "CountUsers = query (\<lambda>d. int (length (db_users d)))"

definition insert_user :: "User \<Rightarrow> (db, unit) prog" where
  "insert_user u = exec_insert db_users_update users_insert_ok (users_row_of u)"

definition insert_member :: "string \<Rightarrow> string \<Rightarrow> instant \<Rightarrow> (db, unit) prog" where
  "insert_member g u t =
     exec_insert db_user_group_memberships_update member_insert_ok (member_row g u (millis t))"

definition CreateUser :: "User \<Rightarrow> (db, unit) prog" where
  "CreateUser u =
     (let u = (if User_ApprovalStatus u = [] then u\<lparr>User_ApprovalStatus := ApprovalApproved\<rparr> else u)
      in transaction (thenE (insert_user u)
           (whenE (User_ApprovalStatus u = ApprovalApproved)
             (insert_member ApprovedUsersGroupID (User_ID u) (User_CreatedAt u)))))"

definition CreateRegisteredUser :: "User \<Rightarrow> (db, unit) prog" where
  "CreateRegisteredUser u =
     (let u = u\<lparr>User_ApprovalStatus := ApprovalPending\<rparr>
      in transaction (thenE (insert_user u)
           (insert_member PendingUsersGroupID (User_ID u) (User_CreatedAt u))))"

definition ListUsers :: "(db, User list) prog" where
  "ListUsers = query (\<lambda>d. map scanUser (sort_key users_username (db_users d)))"

definition FindUserByUsername :: "string \<Rightarrow> (db, User) prog" where
  "FindUserByUsername username = scan_found scanUser
     (query_row (\<lambda>d. find (\<lambda>r. users_username r = ToLower username) (db_users d)))"

definition FindUserByID :: "string \<Rightarrow> (db, User) prog" where
  "FindUserByID i = scan_found scanUser (query_row (\<lambda>d. find (\<lambda>r. users_id r = i) (db_users d)))"

definition update_user :: "string \<Rightarrow> (users_row \<Rightarrow> users_row) \<Rightarrow> (db, User) prog" where
  "update_user i f = scan_found scanUser
     (update_returning db_users db_users_update (\<lambda>r. users_id r = i) f)"

definition SetUserEnabled :: "string \<Rightarrow> bool \<Rightarrow> instant \<Rightarrow> (db, User) prog" where
  "SetUserEnabled i enabled now = update_user i (\<lambda>r. r\<lparr>users_enabled := enabled,
     users_token_version := users_token_version r + 1, users_updated_at := millis now\<rparr>)"

definition SetUserApproval :: "string \<Rightarrow> ApprovalStatus \<Rightarrow> instant \<Rightarrow> (db, User) prog" where
  "SetUserApproval i status now = transaction
     (bindE (update_user i (\<lambda>r. r\<lparr>users_approval_status := status, users_updated_at := millis now\<rparr>))
      (\<lambda>user. thenE
        (exec_delete db_user_group_memberships db_user_group_memberships_update
          (\<lambda>_ x. user_group_memberships_user_id x = i \<and>
             user_group_memberships_group_id x \<in> {PendingUsersGroupID, ApprovedUsersGroupID}))
        (let groupID = (if status = ApprovalPending then PendingUsersGroupID
                        else if status = ApprovalApproved then ApprovedUsersGroupID else [])
         in thenE (whenE (groupID \<noteq> []) (insert_member groupID i now)) (ret user))))"

definition ForceRelogin :: "string \<Rightarrow> instant \<Rightarrow> (db, User) prog" where
  "ForceRelogin i now = update_user i (\<lambda>r. r\<lparr>users_token_version := users_token_version r + 1,
     users_force_relogin_at := Some (millis now), users_updated_at := millis now\<rparr>)"

definition UpdateUserPassword :: "string \<Rightarrow> string \<Rightarrow> instant \<Rightarrow> (db, User) prog" where
  "UpdateUserPassword i passwordHash now = update_user i (\<lambda>r. r\<lparr>
     users_password_hash := passwordHash, users_token_version := users_token_version r + 1,
     users_force_relogin_at := Some (millis now), users_updated_at := millis now\<rparr>)"

text \<open>The statements UpdateUser and DeleteUser share: read the role, then refuse to give up
  the last administrator.\<close>

definition select_role :: "string \<Rightarrow> (db, Role) prog" where
  "select_role i = scan_found users_role (query_row (\<lambda>d. find (\<lambda>r. users_id r = i) (db_users d)))"

definition refuse_last_admin :: "(db, unit) prog" where
  "refuse_last_admin =
     bindE (query (\<lambda>d. length (filter (\<lambda>r. users_role r = RoleAdmin) (db_users d))))
       (\<lambda>count. if count \<le> 1 then throw ErrLastAdmin else ret ())"

definition apply_user_update :: "UserUpdate \<Rightarrow> instant \<Rightarrow> users_row \<Rightarrow> users_row" where
  "apply_user_update input now r =
     (let r = r\<lparr>users_username := ToLower (UserUpdate_Username input),
                users_email := UserUpdate_Email input, users_phone := UserUpdate_Phone input,
                users_display_name := UserUpdate_DisplayName input,
                users_role := UserUpdate_Role input, users_enabled := UserUpdate_Enabled input,
                users_token_version := users_token_version r + 1,
                users_force_relogin_at := Some (millis now), users_updated_at := millis now\<rparr>
      in if UserUpdate_PasswordHash input \<noteq> []
         then r\<lparr>users_password_hash := UserUpdate_PasswordHash input\<rparr> else r)"

text \<open>One round of the loop over the requested groups.  Every failure of the lookup, an
  engine failure included, is reported as ErrNotFound.\<close>

definition join_user_group :: "string \<Rightarrow> instant \<Rightarrow> string \<Rightarrow> (db, unit) prog" where
  "join_user_group i now groupID =
     attempt (query_row (\<lambda>d. map_option groups_kind (find (\<lambda>g. groups_id g = groupID) (db_groups d))))
     (\<lambda>r. if r \<noteq> Inr GroupKindUser then throw ErrNotFound
          else if groupID = PendingUsersGroupID \<or> groupID = ApprovedUsersGroupID then ret ()
          else exec_upsert db_user_group_memberships db_user_group_memberships_update
                 same_member (\<lambda>_ _. True) (\<lambda>x. x) (member_row groupID i (millis now)))"

definition revoke_sessions_of :: "string \<Rightarrow> instant \<Rightarrow> (db, int) prog" where
  "revoke_sessions_of i now = exec_update db_sessions db_sessions_update
     (\<lambda>x. sessions_user_id x = i \<and> sessions_revoked_at x = None)
     (\<lambda>x. x\<lparr>sessions_revoked_at := Some (millis now)\<rparr>)"

definition UpdateUser :: "string \<Rightarrow> UserUpdate \<Rightarrow> instant \<Rightarrow> (db, User) prog" where
  "UpdateUser i input now = transaction
     (bindE (select_role i) (\<lambda>currentRole.
      thenE (whenE (currentRole = RoleAdmin \<and> UserUpdate_Role input \<noteq> RoleAdmin) refuse_last_admin)
     (bindE (scan_found scanUser (update_returning_unique db_users db_users_update users_unique
              (\<lambda>r. users_id r = i) (apply_user_update input now))) (\<lambda>user.
      thenE (exec_delete db_user_group_memberships db_user_group_memberships_update
              (\<lambda>_ x. user_group_memberships_user_id x = i \<and>
                 user_group_memberships_group_id x \<notin> {PendingUsersGroupID, ApprovedUsersGroupID}))
     (thenE (forE (UserUpdate_GroupIDs input) (join_user_group i now))
     (thenE (revoke_sessions_of i now)
     (ret user)))))))"

definition users_referenced :: "db \<Rightarrow> users_row \<Rightarrow> bool" where
  "users_referenced d u \<longleftrightarrow>
     (\<exists>x\<in>set (db_sessions d). sessions_user_id x = users_id u) \<or>
     (\<exists>x\<in>set (db_auth_challenges d). auth_challenges_user_id x = users_id u) \<or>
     (\<exists>x\<in>set (db_oidc_identities d). oidc_identities_user_id x = users_id u) \<or>
     (\<exists>x\<in>set (db_mfa_recovery_codes d). mfa_recovery_codes_user_id x = users_id u)"

text \<open>\<open>owned_books d i\<close>: SELECT id FROM address_books WHERE owner_user_id = i.\<close>

definition owned_books :: "db \<Rightarrow> string \<Rightarrow> string list" where
  "owned_books d i = map address_books_id
     (filter (\<lambda>b. address_books_owner_user_id b = i) (db_address_books d))"

definition delete_user_rows :: "string \<Rightarrow> (db, int) prog" where
  "delete_user_rows i =
     thenE (exec_delete db_sessions db_sessions_update (\<lambda>_ x. sessions_user_id x = i))
    (thenE (exec_delete db_auth_challenges db_auth_challenges_update
              (\<lambda>_ x. auth_challenges_user_id x = i))
    (thenE (exec_delete db_oidc_identities db_oidc_identities_update
              (\<lambda>_ x. oidc_identities_user_id x = i))
    (thenE (exec_delete db_mfa_recovery_codes db_mfa_recovery_codes_update
              (\<lambda>_ x. mfa_recovery_codes_user_id x = i))
    (thenE (exec_delete db_user_group_memberships db_user_group_memberships_update
              (\<lambda>_ x. user_group_memberships_user_id x = i))
    (thenE (exec_delete db_address_book_grants db_address_book_grants_update
              (\<lambda>_ x. address_book_grants_subject_type x = ''user'' \<and>
                 address_book_grants_subject_id x = i))
    (thenE (exec_delete db_acl_rules db_acl_rules_update
              (\<lambda>_ x. acl_rules_subject_type x = ''user'' \<and> acl_rules_subject_id x = i))
           (exec_delete db_strategies db_strategies_update
              (\<lambda>_ x. strategies_scope_type x = ''user'' \<and> strategies_scope_id x = i))))))))"

definition delete_user_books :: "string \<Rightarrow> (db, int) prog" where
  "delete_user_books i =
     thenE (exec_delete db_address_book_entries db_address_book_entries_update
              (\<lambda>d x. address_book_entries_address_book_id x \<in> set (owned_books d i)))
    (thenE (exec_delete db_address_book_tags db_address_book_tags_update
              (\<lambda>d x. address_book_tags_address_book_id x \<in> set (owned_books d i)))
    (thenE (exec_delete db_address_book_grants db_address_book_grants_update
              (\<lambda>d x. address_book_grants_address_book_id x \<in> set (owned_books d i)))
           (exec_delete db_address_books db_address_books_update
              (\<lambda>_ x. address_books_owner_user_id x = i))))"

definition DeleteUser :: "string \<Rightarrow> (db, unit) prog" where
  "DeleteUser i = transaction
     (bindE (select_role i) (\<lambda>role.
      thenE (whenE (role = RoleAdmin) refuse_last_admin)
     (thenE (delete_user_rows i)
     (thenE (delete_user_books i)
     (thenE (exec_update db_devices db_devices_update (\<lambda>x. devices_owner_user_id x = i)
              (\<lambda>x. x\<lparr>devices_owner_user_id := []\<rparr>))
     (thenE (exec_update db_oidc_auth_requests db_oidc_auth_requests_update
              (\<lambda>x. oidc_auth_requests_user_id x = i \<or> oidc_auth_requests_link_user_id x = i)
              (\<lambda>x. x\<lparr>oidc_auth_requests_user_id := [], oidc_auth_requests_link_user_id := []\<rparr>))
            (affected (exec_delete_restrict db_users db_users_update users_referenced
              (\<lambda>r. users_id r = i)))))))))"

definition SetUserTOTP :: "string \<Rightarrow> string \<Rightarrow> bool \<Rightarrow> instant \<Rightarrow> (db, User) prog" where
  "SetUserTOTP i encryptedSecret enabled now = update_user i (\<lambda>r. r\<lparr>
     users_totp_secret := encryptedSecret, users_totp_enabled := enabled,
     users_token_version := users_token_version r + (if users_totp_enabled r \<noteq> enabled then 1 else 0),
     users_updated_at := millis now\<rparr>)"

definition UpdateLastLogin :: "string \<Rightarrow> instant \<Rightarrow> (db, unit) prog" where
  "UpdateLastLogin i now = execute (exec_update db_users db_users_update (\<lambda>r. users_id r = i)
     (\<lambda>r. r\<lparr>users_last_login_at := Some (millis now), users_updated_at := millis now\<rparr>))"

section \<open>Groups\<close>

definition scan_group :: "groups_row \<Rightarrow> Group" where
  "scan_group g = \<lparr>Group_ID = groups_id g, Group_Name = groups_name g,
     Group_Description = groups_description g, Group_Kind = groups_kind g,
     Group_CreatedAt = fromMillis (groups_created_at g),
     Group_UpdatedAt = fromMillis (groups_updated_at g)\<rparr>"

definition groups_row_of :: "Group \<Rightarrow> groups_row" where
  "groups_row_of g = \<lparr>groups_id = Group_ID g, groups_name = Group_Name g,
     groups_description = Group_Description g, groups_kind = Group_Kind g,
     groups_created_at = millis (Group_CreatedAt g), groups_updated_at = millis (Group_UpdatedAt g)\<rparr>"

definition groups_insert_ok :: "db \<Rightarrow> groups_row \<Rightarrow> bool" where
  "groups_insert_ok d r = (\<forall>x\<in>set (db_groups d). groups_id x \<noteq> groups_id r \<and>
     (groups_kind x, groups_name x) \<noteq> (groups_kind r, groups_name r))"

definition groups_unique :: "groups_row list \<Rightarrow> bool" where
  "groups_unique rs = (distinct (map groups_id rs) \<and>
     distinct (map (\<lambda>g. (groups_kind g, groups_name g)) rs))"

definition CreateGroup :: "Group \<Rightarrow> (db, unit) prog" where
  "CreateGroup g = exec_insert db_groups_update groups_insert_ok (groups_row_of g)"

definition ListGroups :: "(db, Group list) prog" where
  "ListGroups = query (\<lambda>d.
     map scan_group (sort_key (\<lambda>g. (groups_kind g, groups_name g)) (db_groups d)))"

definition FindGroupByID :: "string \<Rightarrow> (db, Group) prog" where
  "FindGroupByID i = scan_found scan_group (query_row (\<lambda>d. find (\<lambda>g. groups_id g = i) (db_groups d)))"

definition UpdateGroup :: "Group \<Rightarrow> (db, unit) prog" where
  "UpdateGroup g = affected (exec_update_unique db_groups db_groups_update groups_unique
     (\<lambda>x. groups_id x = Group_ID g \<and> groups_kind x = Group_Kind g)
     (\<lambda>x. x\<lparr>groups_name := Group_Name g, groups_description := Group_Description g,
            groups_updated_at := millis (Group_UpdatedAt g)\<rparr>))"

definition DeleteGroup :: "string \<Rightarrow> (db, unit) prog" where
  "DeleteGroup i = transaction
     (thenE (scan_found (\<lambda>_. ()) (query_row (\<lambda>d. find (\<lambda>g. groups_id g = i) (db_groups d))))
     (thenE (exec_delete db_user_group_memberships db_user_group_memberships_update
              (\<lambda>_ x. user_group_memberships_group_id x = i))
     (thenE (exec_delete db_address_book_grants db_address_book_grants_update
              (\<lambda>_ x. address_book_grants_subject_type x = ''user_group'' \<and>
                 address_book_grants_subject_id x = i))
     (thenE (exec_delete db_acl_rules db_acl_rules_update
              (\<lambda>_ x. (acl_rules_subject_type x = ''user_group'' \<and> acl_rules_subject_id x = i) \<or>
                 (acl_rules_target_type x = ''device_group'' \<and> acl_rules_target_id x = i)))
     (thenE (exec_delete db_strategies db_strategies_update
              (\<lambda>_ x. (strategies_scope_type x = ''user_group'' \<or>
                 strategies_scope_type x = ''device_group'') \<and> strategies_scope_id x = i))
     (thenE (exec_update db_devices db_devices_update (\<lambda>x. devices_group_id x = i)
              (\<lambda>x. x\<lparr>devices_group_id := []\<rparr>))
            (execute (exec_delete db_groups db_groups_update (\<lambda>_ g. groups_id g = i)))))))))"

definition SetUserGroupMember :: "string \<Rightarrow> string \<Rightarrow> bool \<Rightarrow> instant \<Rightarrow> (db, unit) prog" where
  "SetUserGroupMember groupID userID active now =
     (if \<not> active
      then execute (exec_delete db_user_group_memberships db_user_group_memberships_update
             (\<lambda>_ x. user_group_memberships_group_id x = groupID \<and>
                user_group_memberships_user_id x = userID))
      else exec_upsert db_user_group_memberships db_user_group_memberships_update
             same_member (\<lambda>_ _. True) (\<lambda>x. x) (member_row groupID userID (millis now)))"

definition ListUserGroupMemberships :: "(db, UserGroupMembership list) prog" where
  "ListUserGroupMemberships = query (\<lambda>d.
     map (\<lambda>x. \<lparr>UserGroupMembership_GroupID = user_group_memberships_group_id x,
               UserGroupMembership_UserID = user_group_memberships_user_id x,
               UserGroupMembership_Active = True\<rparr>)
       (sort_key (\<lambda>x. (user_group_memberships_group_id x, user_group_memberships_user_id x))
         (db_user_group_memberships d)))"

section \<open>Roles\<close>

definition scanRole :: "roles_row \<Rightarrow> RoleDefinition" where
  "scanRole r = \<lparr>RoleDefinition_ID = roles_id r, RoleDefinition_Name = roles_name r,
     RoleDefinition_Description = roles_description r, RoleDefinition_Permissions = roles_permissions r,
     RoleDefinition_System = roles_system r, RoleDefinition_CreatedAt = fromMillis (roles_created_at r),
     RoleDefinition_UpdatedAt = fromMillis (roles_updated_at r)\<rparr>"

definition roles_row_of :: "RoleDefinition \<Rightarrow> roles_row" where
  "roles_row_of r = \<lparr>roles_id = RoleDefinition_ID r, roles_name = RoleDefinition_Name r,
     roles_description = RoleDefinition_Description r, roles_permissions = RoleDefinition_Permissions r,
     roles_system = RoleDefinition_System r, roles_created_at = millis (RoleDefinition_CreatedAt r),
     roles_updated_at = millis (RoleDefinition_UpdatedAt r)\<rparr>"

definition roles_insert_ok :: "db \<Rightarrow> roles_row \<Rightarrow> bool" where
  "roles_insert_ok d r = (\<forall>x\<in>set (db_roles d). roles_id x \<noteq> roles_id r \<and> roles_name x \<noteq> roles_name r)"

definition roles_unique :: "roles_row list \<Rightarrow> bool" where
  "roles_unique rs = (distinct (map roles_id rs) \<and> distinct (map roles_name rs))"

definition CreateRole :: "RoleDefinition \<Rightarrow> (db, unit) prog" where
  "CreateRole r = exec_insert db_roles_update roles_insert_ok (roles_row_of r)"

definition ListRoles :: "(db, RoleDefinition list) prog" where
  "ListRoles = query (\<lambda>d. map scanRole (sort_key (\<lambda>r. (\<not> roles_system r, roles_name r)) (db_roles d)))"

definition FindRoleByID :: "Role \<Rightarrow> (db, RoleDefinition) prog" where
  "FindRoleByID i = scan_found scanRole (query_row (\<lambda>d. find (\<lambda>r. roles_id r = i) (db_roles d)))"

definition UpdateRole :: "RoleDefinition \<Rightarrow> (db, unit) prog" where
  "UpdateRole r = affected (exec_update_unique db_roles db_roles_update roles_unique
     (\<lambda>x. roles_id x = RoleDefinition_ID r \<and> \<not> roles_system x)
     (\<lambda>x. x\<lparr>roles_name := RoleDefinition_Name r, roles_description := RoleDefinition_Description r,
            roles_permissions := RoleDefinition_Permissions r,
            roles_updated_at := millis (RoleDefinition_UpdatedAt r)\<rparr>))"

definition DeleteRole :: "Role \<Rightarrow> (db, unit) prog" where
  "DeleteRole i = transaction
     (bindE (scan_found roles_system (query_row (\<lambda>d. find (\<lambda>r. roles_id r = i) (db_roles d))))
     (\<lambda>system. if system then throw (Errorf ''system role cannot be deleted'') else
      thenE (exec_update db_users db_users_update (\<lambda>u. users_role u = i)
              (\<lambda>u. u\<lparr>users_role := RoleUser, users_token_version := users_token_version u + 1\<rparr>))
            (execute (exec_delete db_roles db_roles_update (\<lambda>_ r. roles_id r = i)))))"

section \<open>Seeding\<close>

text \<open>What Migrate writes after the schema is in place: the two registration groups, the
  membership of the users already approved, and the two built-in roles.  The names are
  the UTF-8 text of the source.\<close>

definition pending_group_name :: string where
  "pending_group_name =
     (bytes_of [208, 157, 208, 190, 208, 178, 209, 139, 208, 181, 32, 208, 191, 208, 190,
        208, 187, 209, 140, 208, 183, 208, 190, 208, 178, 208, 176, 209, 130, 208, 181, 208,
        187, 208, 184])"

definition pending_group_text :: string where
  "pending_group_text =
     (bytes_of [208, 158, 208, 182, 208, 184, 208, 180, 208, 176, 209, 142, 209, 130, 32,
        208, 190, 208, 180, 208, 190, 208, 177, 209, 128, 208, 181, 208, 189, 208, 184, 209,
        143, 32, 208, 176, 208, 180, 208, 188, 208, 184, 208, 189, 208, 184, 209, 129, 209,
        130, 209, 128, 208, 176, 209, 130, 208, 190, 209, 128, 208, 176])"

definition approved_group_name :: string where
  "approved_group_name =
     (bytes_of [208, 144, 208, 178, 209, 130, 208, 190, 209, 128, 208, 184, 208, 183, 208,
        190, 208, 178, 208, 176, 208, 189, 208, 189, 209, 139, 208, 181, 32, 208, 191, 208,
        190, 208, 187, 209, 140, 208, 183, 208, 190, 208, 178, 208, 176, 209, 130, 208, 181,
        208, 187, 208, 184])"

definition approved_group_text :: string where
  "approved_group_text =
     (bytes_of [208, 160, 208, 181, 208, 179, 208, 184, 209, 129, 209, 130, 209, 128, 208,
        176, 209, 134, 208, 184, 209, 143, 32, 208, 190, 208, 180, 208, 190, 208, 177, 209,
        128, 208, 181, 208, 189, 208, 176, 32, 208, 176, 208, 180, 208, 188, 208, 184, 208,
        189, 208, 184, 209, 129, 209, 130, 209, 128, 208, 176, 209, 130, 208, 190, 209, 128,
        208, 190, 208, 188])"

definition admin_role_name :: string where
  "admin_role_name =
     (bytes_of [208, 144, 208, 180, 208, 188, 208, 184, 208, 189, 208, 184, 209, 129, 209,
        130, 209, 128, 208, 176, 209, 130, 208, 190, 209, 128])"

definition admin_role_text :: string where
  "admin_role_text =
     (bytes_of [208, 159, 208, 190, 208, 187, 208, 189, 209, 139, 208, 185, 32, 208, 180,
        208, 190, 209, 129, 209, 130, 209, 131, 208, 191, 32, 208, 186, 208, 190, 32, 208,
        178, 209, 129, 208, 181, 208, 188, 32, 209, 132, 209, 131, 208, 189, 208, 186, 209,
        134, 208, 184, 209, 143, 208, 188])"

definition user_role_name :: string where
  "user_role_name =
     (bytes_of [208, 159, 208, 190, 208, 187, 209, 140, 208, 183, 208, 190, 208, 178, 208,
        176, 209, 130, 208, 181, 208, 187, 209, 140])"

definition user_role_text :: string where
  "user_role_text =
     (bytes_of [208, 148, 208, 190, 209, 129, 209, 130, 209, 131, 208, 191, 32, 208, 186,
        32, 208, 186, 208, 187, 208, 184, 208, 181, 208, 189, 209, 130, 209, 131, 32, 208,
        184, 32, 208, 187, 208, 184, 209, 135, 208, 189, 208, 190, 208, 188, 209, 131, 32,
        208, 186, 208, 176, 208, 177, 208, 184, 208, 189, 208, 181, 209, 130, 209, 131])"

definition seed_group :: "string \<Rightarrow> string \<Rightarrow> string \<Rightarrow> instant \<Rightarrow> (db, unit) prog" where
  "seed_group i name descr now = exec_upsert db_groups db_groups_update
     (\<lambda>x y. groups_id x = groups_id y) groups_insert_ok (\<lambda>x. x)
     \<lparr>groups_id = i, groups_name = name, groups_description = descr, groups_kind = GroupKindUser,
      groups_created_at = millis now, groups_updated_at = millis now\<rparr>"

definition seed_role :: "Role \<Rightarrow> string \<Rightarrow> string \<Rightarrow> string list \<Rightarrow> instant \<Rightarrow> (db, unit) prog" where
  "seed_role i name descr permissions now = exec_upsert db_roles db_roles_update
     (\<lambda>x y. roles_id x = roles_id y) roles_insert_ok (\<lambda>x. x)
     \<lparr>roles_id = i, roles_name = name, roles_description = descr, roles_permissions = permissions,
      roles_system = True, roles_created_at = millis now, roles_updated_at = millis now\<rparr>"

definition seed_members :: "instant \<Rightarrow> (db, unit) prog" where
  "seed_members now = stmt (\<lambda>d. Inr ((), db_user_group_memberships_update (\<lambda>ms. ms @
     map (\<lambda>u. member_row ApprovedUsersGroupID (users_id u) (millis now))
       (filter (\<lambda>u. users_approval_status u = ApprovalApproved \<and>
          \<not> (\<exists>m\<in>set ms. same_member m (member_row ApprovedUsersGroupID (users_id u) (millis now))))
         (db_users d))) d))"

definition Migrate_seed :: "instant \<Rightarrow> (db, unit) prog" where
  "Migrate_seed now =
     thenE (seed_group PendingUsersGroupID pending_group_name pending_group_text now)
    (thenE (seed_group ApprovedUsersGroupID approved_group_name approved_group_text now)
    (thenE (seed_members now)
    (thenE (seed_role RoleAdmin admin_role_name admin_role_text [PermissionAll] now)
           (seed_role RoleUser user_role_name user_role_text [] now))))"

end
