(* ===== verification/Store_Sessions.thy ===== *)
theory Store_Sessions
  imports Store_Accounts
begin

text \<open>
  Sessions, login challenges, recovery codes, external identities and the audit log
  of internal/store/sqlstore/store.go.  Queries follow the SQLite dialect: LOWER folds
  ASCII letters, LIKE ignores their case, and an ORDER BY that leaves ties returns them
  in the order in which a stable sort of the table leaves them.
\<close>

section \<open>Query helpers\<close>

definition order_desc :: "('r \<Rightarrow> 'k::linorder) \<Rightarrow> 'r list \<Rightarrow> 'r list" where
  "order_desc key rs = rev (sort_key key rs)"

definition limit_offset :: "int \<Rightarrow> int \<Rightarrow> 'r list \<Rightarrow> 'r list" where
  "limit_offset limit offset rs = take (nat limit) (drop (nat offset) rs)"

definition sql_lower :: "string \<Rightarrow> string" where "sql_lower s = map ascii_lower s"

text \<open>LIKE over the characters of both operands: percent matches any sequence, underscore
  one character.\<close>

fun like_match :: "rune option list \<Rightarrow> rune option list \<Rightarrow> bool" where
  "like_match [] s = (s = [])"
| "like_match (p # ps) [] = (p = Some 37 \<and> like_match ps [])"
| "like_match (p # ps) (c # cs) =
     (if p = Some 37 then like_match ps (c # cs) \<or> like_match (p # ps) cs
      else (p = Some 95 \<or> p = c) \<and> like_match ps cs)"

definition sql_like :: "string \<Rightarrow> string \<Rightarrow> bool" where
  "sql_like s pattern = like_match (runes (sql_lower pattern)) (runes (sql_lower s))"

definition search_pattern :: "string \<Rightarrow> string" where
  "search_pattern q = ''%'' @ ToLower q @ ''%''"

section \<open>Sessions\<close>

definition scanSession :: "sessions_row \<Rightarrow> Session" where
  "scanSession r = \<lparr>Session_ID = sessions_id r, Session_UserID = sessions_user_id r,
     Session_CreatedAt = fromMillis (sessions_created_at r),
     Session_ExpiresAt = fromMillis (sessions_expires_at r),
     Session_RevokedAt = map_option fromMillis (sessions_revoked_at r),
     Session_LastSeenAt = fromMillis (sessions_last_seen_at r), Session_IP = sessions_ip r,
     Session_UserAgent = sessions_user_agent r, Session_ClientDeviceID = sessions_client_device_id r\<rparr>"

definition sessions_row_of :: "Session \<Rightarrow> sessions_row" where
  "sessions_row_of s = \<lparr>sessions_id = Session_ID s, sessions_user_id = Session_UserID s,
     sessions_created_at = millis (Session_CreatedAt s),
     sessions_expires_at = millis (Session_ExpiresAt s), sessions_revoked_at = None,
     sessions_last_seen_at = millis (Session_LastSeenAt s), sessions_ip = Session_IP s,
     sessions_user_agent = Session_UserAgent s,
     sessions_client_device_id = Session_ClientDeviceID s\<rparr>"

definition sessions_insert_ok :: "db \<Rightarrow> sessions_row \<Rightarrow> bool" where
  "sessions_insert_ok d r \<longleftrightarrow> (\<forall>x\<in>set (db_sessions d). sessions_id x \<noteq> sessions_id r) \<and>
     (\<exists>u\<in>set (db_users d). users_id u = sessions_user_id r)"

definition CreateSession :: "Session \<Rightarrow> (db, unit) prog" where
  "CreateSession s = exec_insert db_sessions_update sessions_insert_ok (sessions_row_of s)"

definition FindSession :: "string \<Rightarrow> (db, Session) prog" where
  "FindSession i = scan_found scanSession
     (query_row (\<lambda>d. find (\<lambda>r. sessions_id r = i) (db_sessions d)))"

definition TouchSession :: "string \<Rightarrow> instant \<Rightarrow> (db, unit) prog" where
  "TouchSession i now = execute (exec_update db_sessions db_sessions_update
     (\<lambda>r. sessions_id r = i \<and> sessions_revoked_at r = None)
     (\<lambda>r. r\<lparr>sessions_last_seen_at := millis now\<rparr>))"

definition RevokeSession :: "string \<Rightarrow> instant \<Rightarrow> (db, Session) prog" where
  "RevokeSession i now = scan_found scanSession
     (update_returning db_sessions db_sessions_update
       (\<lambda>r. sessions_id r = i \<and> sessions_revoked_at r = None)
       (\<lambda>r. r\<lparr>sessions_revoked_at := Some (millis now)\<rparr>))"

definition RevokeUserSessions :: "string \<Rightarrow> instant \<Rightarrow> (db, unit) prog" where
  "RevokeUserSessions userID now = execute (revoke_sessions_of userID now)"

definition ListAuthState :: "instant \<Rightarrow> (db, User list \<times> Session list) prog" where
  "ListAuthState now =
     bindE (query (\<lambda>d. map scanUser (db_users d))) (\<lambda>users.
     bindE (query (\<lambda>d. map scanSession
              (filter (\<lambda>r. sessions_expires_at r > millis now) (db_sessions d)))) (\<lambda>sessions.
     ret (users, sessions)))"

definition ListSessions :: "instant \<Rightarrow> (db, Session list) prog" where
  "ListSessions now = query (\<lambda>d. map scanSession (order_desc sessions_last_seen_at
     (filter (\<lambda>r. sessions_expires_at r > millis now) (db_sessions d))))"

text \<open>The WHERE clause of QuerySessions on a session joined with its user.\<close>

definition sessionWhere :: "SessionQuery \<Rightarrow> sessions_row \<times> users_row \<Rightarrow> bool" where
  "sessionWhere q su = (case su of (s, u) \<Rightarrow>
     (if SessionQuery_Status q = ''active''
      then sessions_revoked_at s = None \<and> sessions_expires_at s > millis (SessionQuery_Now q)
      else if SessionQuery_Status q = ''revoked'' then sessions_revoked_at s \<noteq> None
      else if SessionQuery_Status q = ''expired''
      then sessions_revoked_at s = None \<and> sessions_expires_at s \<le> millis (SessionQuery_Now q)
      else True) \<and>
     (SessionQuery_UserID q = [] \<or> sessions_user_id s = SessionQuery_UserID q) \<and>
     (SessionQuery_Search q = [] \<or>
      list_ex (\<lambda>c. sql_like (sql_lower c) (search_pattern (SessionQuery_Search q)))
        [users_username u, users_display_name u, sessions_user_id s, sessions_client_device_id s,
         sessions_ip s, sessions_user_agent s]))"

definition sessions_users :: "db \<Rightarrow> (sessions_row \<times> users_row) list" where
  "sessions_users d = [(s, u). s \<leftarrow> db_sessions d, u \<leftarrow> db_users d, users_id u = sessions_user_id s]"

definition session_status :: "instant \<Rightarrow> sessions_row \<Rightarrow> string" where
  "session_status now s =
     (if sessions_revoked_at s \<noteq> None then ''revoked''
      else if \<not> now < fromMillis (sessions_expires_at s) then ''expired'' else ''active'')"

definition scan_session_record :: "instant \<Rightarrow> sessions_row \<times> users_row \<Rightarrow> SessionRecord" where
  "scan_session_record now su = (case su of (s, u) \<Rightarrow>
     \<lparr>SessionRecord_Session = scanSession s, SessionRecord_Username = users_username u,
      SessionRecord_DisplayName = users_display_name u, SessionRecord_UserEnabled = users_enabled u,
      SessionRecord_Status = session_status now s, SessionRecord_Current = False\<rparr>)"

definition page_limit :: "int \<Rightarrow> int" where
  "page_limit limit = (if limit < 1 \<or> limit > 500 then 100 else limit)"

definition page_offset :: "int \<Rightarrow> int" where
  "page_offset offset = (if offset < 0 \<or> offset > 10000000 then 0 else offset)"

definition QuerySessions :: "SessionQuery \<Rightarrow> instant \<Rightarrow> (db, SessionPage) prog" where
  "QuerySessions query0 now =
     (let q = query0\<lparr>SessionQuery_Limit := page_limit (SessionQuery_Limit query0),
                     SessionQuery_Offset := page_offset (SessionQuery_Offset query0),
                     SessionQuery_Now := (if IsZero (SessionQuery_Now query0) then now
                                          else SessionQuery_Now query0)\<rparr>
      in bindE (query (\<lambda>d. int (length (filter (sessionWhere q) (sessions_users d))))) (\<lambda>total.
         bindE (query (\<lambda>d. map (scan_session_record (SessionQuery_Now q))
                  (limit_offset (SessionQuery_Limit q) (SessionQuery_Offset q)
                    (order_desc (\<lambda>(s, _). (sessions_last_seen_at s, sessions_id s))
                      (filter (sessionWhere q) (sessions_users d)))))) (\<lambda>sessions.
         ret \<lparr>SessionPage_Sessions = sessions, SessionPage_Total = total,
              SessionPage_Limit = SessionQuery_Limit q, SessionPage_Offset = SessionQuery_Offset q\<rparr>)))"

definition count_where :: "('r \<Rightarrow> bool) \<Rightarrow> 'r list \<Rightarrow> int" where
  "count_where p rs = sum_list (map (\<lambda>r. if p r then 1 else 0) rs)"

definition Store_SessionSummary :: "instant \<Rightarrow> (db, SessionSummary) prog" where
  "Store_SessionSummary now = query (\<lambda>d. let rs = db_sessions d in
     \<lparr>SessionSummary_Total = int (length rs),
      SessionSummary_Active =
        count_where (\<lambda>r. sessions_revoked_at r = None \<and> sessions_expires_at r > millis now) rs,
      SessionSummary_Revoked = count_where (\<lambda>r. sessions_revoked_at r \<noteq> None) rs,
      SessionSummary_Expired =
        count_where (\<lambda>r. sessions_revoked_at r = None \<and> sessions_expires_at r \<le> millis now) rs\<rparr>)"

section \<open>Recovery codes and login challenges\<close>

definition mfa_insert_ok :: "db \<Rightarrow> mfa_recovery_codes_row \<Rightarrow> bool" where
  "mfa_insert_ok d r \<longleftrightarrow>
     (\<forall>x\<in>set (db_mfa_recovery_codes d).
        (mfa_recovery_codes_user_id x, mfa_recovery_codes_code_hash x) \<noteq>
        (mfa_recovery_codes_user_id r, mfa_recovery_codes_code_hash r)) \<and>
     (\<exists>u\<in>set (db_users d). users_id u = mfa_recovery_codes_user_id r)"

definition ReplaceMFARecoveryCodes :: "string \<Rightarrow> string list \<Rightarrow> instant \<Rightarrow> (db, unit) prog" where
  "ReplaceMFARecoveryCodes userID hashes now = transaction
     (thenE (exec_delete db_mfa_recovery_codes db_mfa_recovery_codes_update
              (\<lambda>_ x. mfa_recovery_codes_user_id x = userID))
            (forE hashes (\<lambda>hash. exec_insert db_mfa_recovery_codes_update mfa_insert_ok
              \<lparr>mfa_recovery_codes_user_id = userID, mfa_recovery_codes_code_hash = hash,
               mfa_recovery_codes_created_at = millis now\<rparr>)))"

definition ConsumeMFARecoveryCode :: "string \<Rightarrow> string \<Rightarrow> (db, bool) prog" where
  "ConsumeMFARecoveryCode userID hash =
     bindE (exec_delete db_mfa_recovery_codes db_mfa_recovery_codes_update
              (\<lambda>_ x. mfa_recovery_codes_user_id x = userID \<and> mfa_recovery_codes_code_hash x = hash))
       (\<lambda>count. ret (count = 1))"

definition CountMFARecoveryCodes :: "string \<Rightarrow> (db, int) prog" where
  "CountMFARecoveryCodes userID = query (\<lambda>d. int (length
     (filter (\<lambda>x. mfa_recovery_codes_user_id x = userID) (db_mfa_recovery_codes d))))"

definition challenge_row_of :: "AuthChallenge \<Rightarrow> auth_challenges_row" where
  "challenge_row_of c = \<lparr>auth_challenges_id = AuthChallenge_ID c,
     auth_challenges_user_id = AuthChallenge_UserID c,
     auth_challenges_token_version = AuthChallenge_TokenVersion c,
     auth_challenges_created_at = millis (AuthChallenge_CreatedAt c),
     auth_challenges_expires_at = millis (AuthChallenge_ExpiresAt c),
     auth_challenges_ip = AuthChallenge_IP c, auth_challenges_user_agent = AuthChallenge_UserAgent c,
     auth_challenges_client_device_id = AuthChallenge_ClientDeviceID c,
     auth_challenges_rustdesk_id = AuthChallenge_RustDeskID c,
     auth_challenges_client_uuid = AuthChallenge_ClientUUID c,
     auth_challenges_platform = AuthChallenge_Platform c,
     auth_challenges_client_type = AuthChallenge_ClientType c,
     auth_challenges_device_name = AuthChallenge_DeviceName c\<rparr>"

definition scanAuthChallenge :: "auth_challenges_row \<Rightarrow> AuthChallenge" where
  "scanAuthChallenge r = \<lparr>AuthChallenge_ID = auth_challenges_id r,
     AuthChallenge_UserID = auth_challenges_user_id r,
     AuthChallenge_TokenVersion = auth_challenges_token_version r,
     AuthChallenge_CreatedAt = fromMillis (auth_challenges_created_at r),
     AuthChallenge_ExpiresAt = fromMillis (auth_challenges_expires_at r),
     AuthChallenge_IP = auth_challenges_ip r, AuthChallenge_UserAgent = auth_challenges_user_agent r,
     AuthChallenge_ClientDeviceID = auth_challenges_client_device_id r,
     AuthChallenge_RustDeskID = auth_challenges_rustdesk_id r,
     AuthChallenge_ClientUUID = auth_challenges_client_uuid r,
     AuthChallenge_Platform = auth_challenges_platform r,
     AuthChallenge_ClientType = auth_challenges_client_type r,
     AuthChallenge_DeviceName = auth_challenges_device_name r\<rparr>"

definition challenges_insert_ok :: "db \<Rightarrow> auth_challenges_row \<Rightarrow> bool" where
  "challenges_insert_ok d r \<longleftrightarrow>
     (\<forall>x\<in>set (db_auth_challenges d). auth_challenges_id x \<noteq> auth_challenges_id r) \<and>
     (\<exists>u\<in>set (db_users d). users_id u = auth_challenges_user_id r)"

definition CreateAuthChallenge :: "AuthChallenge \<Rightarrow> (db, unit) prog" where
  "CreateAuthChallenge c =
     ignoreE (exec_delete db_auth_challenges db_auth_challenges_update
                (\<lambda>_ x. auth_challenges_expires_at x \<le> millis (AuthChallenge_CreatedAt c)))
             (exec_insert db_auth_challenges_update challenges_insert_ok (challenge_row_of c))"

definition FindAuthChallenge :: "string \<Rightarrow> instant \<Rightarrow> (db, AuthChallenge) prog" where
  "FindAuthChallenge i now = scan_found scanAuthChallenge (query_row (\<lambda>d.
     find (\<lambda>r. auth_challenges_id r = i \<and> auth_challenges_expires_at r > millis now)
       (db_auth_challenges d)))"

definition ConsumeAuthChallenge :: "string \<Rightarrow> instant \<Rightarrow> (db, AuthChallenge) prog" where
  "ConsumeAuthChallenge i now = scan_found scanAuthChallenge
     (delete_returning db_auth_challenges db_auth_challenges_update
       (\<lambda>r. auth_challenges_id r = i \<and> auth_challenges_expires_at r > millis now))"

end
