(* ===== verification/Store_Identity.thy ===== *)
theory Store_Identity
  imports Store_Sessions
begin

text \<open>
  External sign-in in the store: the pending OIDC requests, each consumed once, and the
  identities linked to users.
\<close>

section \<open>Pending requests\<close>

definition oidc_row_of :: "OIDCAuthRequest \<Rightarrow> oidc_auth_requests_row" where
  "oidc_row_of v = \<lparr>oidc_auth_requests_state = OIDCAuthRequest_State v,
     oidc_auth_requests_poll_code = OIDCAuthRequest_PollCode v,
     oidc_auth_requests_provider = OIDCAuthRequest_Provider v,
     oidc_auth_requests_verifier = OIDCAuthRequest_Verifier v,
     oidc_auth_requests_nonce = OIDCAuthRequest_Nonce v,
     oidc_auth_requests_user_id = OIDCAuthRequest_UserID v,
     oidc_auth_requests_link_user_id = OIDCAuthRequest_LinkUserID v,
     oidc_auth_requests_error = OIDCAuthRequest_Error v,
     oidc_auth_requests_rustdesk_id = OIDCAuthRequest_RustDeskID v,
     oidc_auth_requests_client_uuid = OIDCAuthRequest_ClientUUID v,
     oidc_auth_requests_platform = OIDCAuthRequest_Platform v,
     oidc_auth_requests_client_type = OIDCAuthRequest_ClientType v,
     oidc_auth_requests_device_name = OIDCAuthRequest_DeviceName v,
     oidc_auth_requests_ip = OIDCAuthRequest_IP v,
     oidc_auth_requests_user_agent = OIDCAuthRequest_UserAgent v,
     oidc_auth_requests_created_at = millis (OIDCAuthRequest_CreatedAt v),
     oidc_auth_requests_expires_at = millis (OIDCAuthRequest_ExpiresAt v)\<rparr>"

definition scanOIDCAuthRequest :: "oidc_auth_requests_row \<Rightarrow> OIDCAuthRequest" where
  "scanOIDCAuthRequest r = \<lparr>OIDCAuthRequest_State = oidc_auth_requests_state r,
     OIDCAuthRequest_PollCode = oidc_auth_requests_poll_code r,
     OIDCAuthRequest_Provider = oidc_auth_requests_provider r,
     OIDCAuthRequest_Verifier = oidc_auth_requests_verifier r,
     OIDCAuthRequest_Nonce = oidc_auth_requests_nonce r,
     OIDCAuthRequest_UserID = oidc_auth_requests_user_id r,
     OIDCAuthRequest_LinkUserID = oidc_auth_requests_link_user_id r,
     OIDCAuthRequest_Error = oidc_auth_requests_error r,
     OIDCAuthRequest_RustDeskID = oidc_auth_requests_rustdesk_id r,
     OIDCAuthRequest_ClientUUID = oidc_auth_requests_client_uuid r,
     OIDCAuthRequest_Platform = oidc_auth_requests_platform r,
     OIDCAuthRequest_ClientType = oidc_auth_requests_client_type r,
     OIDCAuthRequest_DeviceName = oidc_auth_requests_device_name r,
     OIDCAuthRequest_IP = oidc_auth_requests_ip r,
     OIDCAuthRequest_UserAgent = oidc_auth_requests_user_agent r,
     OIDCAuthRequest_CreatedAt = fromMillis (oidc_auth_requests_created_at r),
     OIDCAuthRequest_ExpiresAt = fromMillis (oidc_auth_requests_expires_at r)\<rparr>"

definition oidc_insert_ok :: "db \<Rightarrow> oidc_auth_requests_row \<Rightarrow> bool" where
  "oidc_insert_ok d r = (\<forall>x\<in>set (db_oidc_auth_requests d).
     oidc_auth_requests_state x \<noteq> oidc_auth_requests_state r \<and>
     oidc_auth_requests_poll_code x \<noteq> oidc_auth_requests_poll_code r)"

definition CreateOIDCAuthRequest :: "OIDCAuthRequest \<Rightarrow> (db, unit) prog" where
  "CreateOIDCAuthRequest v =
     ignoreE (exec_delete db_oidc_auth_requests db_oidc_auth_requests_update
                (\<lambda>_ x. oidc_auth_requests_expires_at x \<le> millis (OIDCAuthRequest_CreatedAt v)))
             (exec_insert db_oidc_auth_requests_update oidc_insert_ok (oidc_row_of v))"

definition FindOIDCAuthRequestByState :: "string \<Rightarrow> instant \<Rightarrow> (db, OIDCAuthRequest) prog" where
  "FindOIDCAuthRequestByState st now = scan_found scanOIDCAuthRequest (query_row (\<lambda>d.
     find (\<lambda>r. oidc_auth_requests_state r = st \<and> oidc_auth_requests_expires_at r > millis now)
       (db_oidc_auth_requests d)))"

text \<open>Both this operation and DeleteOIDCIdentity require exactly one row.\<close>

definition affected_one :: "(db, int) prog \<Rightarrow> (db, unit) prog" where
  "affected_one m = bindE m (\<lambda>count. if count \<noteq> 1 then throw ErrNotFound else ret ())"

definition CompleteOIDCAuthRequest :: "string \<Rightarrow> string \<Rightarrow> string \<Rightarrow> (db, unit) prog" where
  "CompleteOIDCAuthRequest st userID errorMessage = affected_one
     (exec_update db_oidc_auth_requests db_oidc_auth_requests_update
       (\<lambda>r. oidc_auth_requests_state r = st \<and> oidc_auth_requests_user_id r = [] \<and>
            oidc_auth_requests_error r = [])
       (\<lambda>r. r\<lparr>oidc_auth_requests_user_id := userID, oidc_auth_requests_error := errorMessage\<rparr>))"

definition oidc_completed :: "oidc_auth_requests_row \<Rightarrow> bool" where
  "oidc_completed r = (oidc_auth_requests_user_id r \<noteq> [] \<or> oidc_auth_requests_error r \<noteq> [])"

definition ConsumeOIDCAuthRequest ::
  "string \<Rightarrow> string \<Rightarrow> string \<Rightarrow> instant \<Rightarrow> (db, OIDCAuthRequest) prog" where
  "ConsumeOIDCAuthRequest pollCode rustDeskID clientUUID now = scan_found scanOIDCAuthRequest
     (delete_returning db_oidc_auth_requests db_oidc_auth_requests_update
       (\<lambda>r. oidc_auth_requests_poll_code r = pollCode \<and> oidc_auth_requests_rustdesk_id r = rustDeskID \<and>
            oidc_auth_requests_client_uuid r = clientUUID \<and> oidc_auth_requests_link_user_id r = [] \<and>
            oidc_auth_requests_expires_at r > millis now \<and> oidc_completed r))"

definition ConsumeOIDCLinkRequest :: "string \<Rightarrow> string \<Rightarrow> instant \<Rightarrow> (db, OIDCAuthRequest) prog" where
  "ConsumeOIDCLinkRequest pollCode userID now = scan_found scanOIDCAuthRequest
     (delete_returning db_oidc_auth_requests db_oidc_auth_requests_update
       (\<lambda>r. oidc_auth_requests_poll_code r = pollCode \<and> oidc_auth_requests_link_user_id r = userID \<and>
            oidc_auth_requests_expires_at r > millis now \<and> oidc_completed r))"

section \<open>Identities\<close>

definition scan_identity :: "oidc_identities_row \<Rightarrow> OIDCIdentity" where
  "scan_identity r = \<lparr>OIDCIdentity_Provider = oidc_identities_provider r,
     OIDCIdentity_Subject = oidc_identities_subject r, OIDCIdentity_UserID = oidc_identities_user_id r,
     OIDCIdentity_Email = oidc_identities_email r,
     OIDCIdentity_CreatedAt = fromMillis (oidc_identities_created_at r)\<rparr>"

definition identity_insert_ok :: "db \<Rightarrow> oidc_identities_row \<Rightarrow> bool" where
  "identity_insert_ok d r \<longleftrightarrow>
     (\<forall>x\<in>set (db_oidc_identities d). (oidc_identities_provider x, oidc_identities_subject x) \<noteq>
        (oidc_identities_provider r, oidc_identities_subject r)) \<and>
     (\<exists>u\<in>set (db_users d). users_id u = oidc_identities_user_id r)"

definition FindOIDCIdentity :: "string \<Rightarrow> string \<Rightarrow> (db, OIDCIdentity) prog" where
  "FindOIDCIdentity provider subject = scan_found scan_identity (query_row (\<lambda>d.
     find (\<lambda>r. oidc_identities_provider r = provider \<and> oidc_identities_subject r = subject)
       (db_oidc_identities d)))"

definition CreateOIDCIdentity :: "OIDCIdentity \<Rightarrow> (db, unit) prog" where
  "CreateOIDCIdentity v = exec_insert db_oidc_identities_update identity_insert_ok
     \<lparr>oidc_identities_provider = OIDCIdentity_Provider v,
      oidc_identities_subject = OIDCIdentity_Subject v, oidc_identities_user_id = OIDCIdentity_UserID v,
      oidc_identities_email = OIDCIdentity_Email v,
      oidc_identities_created_at = millis (OIDCIdentity_CreatedAt v)\<rparr>"

definition ListOIDCIdentities :: "string \<Rightarrow> (db, OIDCIdentity list) prog" where
  "ListOIDCIdentities userID = query (\<lambda>d. map scan_identity
     (sort_key (\<lambda>r. (oidc_identities_provider r, oidc_identities_email r, oidc_identities_subject r))
       (filter (\<lambda>r. userID = [] \<or> oidc_identities_user_id r = userID) (db_oidc_identities d))))"

definition DeleteOIDCIdentity :: "string \<Rightarrow> string \<Rightarrow> string \<Rightarrow> (db, unit) prog" where
  "DeleteOIDCIdentity provider subject userID = affected_one
     (exec_delete db_oidc_identities db_oidc_identities_update
       (\<lambda>_ r. oidc_identities_provider r = provider \<and> oidc_identities_subject r = subject \<and>
          oidc_identities_user_id r = userID))"

end
