(* ===== verification/Store_Audit.thy ===== *)
theory Store_Audit
  imports Store_Sessions
begin

text \<open>
  The audit log of internal/store/sqlstore/store.go: events are appended once per
  identifier, never changed, and read by page or summarised per type and result.
\<close>

definition audit_row_of :: "AuditEvent \<Rightarrow> audit_events_row" where
  "audit_row_of v = \<lparr>audit_events_id = AuditEvent_ID v,
     audit_events_occurred_at = millis (AuditEvent_OccurredAt v), audit_events_type = AuditEvent_Type v,
     audit_events_actor_user_id = AuditEvent_ActorUserID v,
     audit_events_actor_session_id = AuditEvent_ActorSessionID v,
     audit_events_controller_device_id = AuditEvent_ControllerDevice v,
     audit_events_target_rustdesk_id = AuditEvent_TargetRustDeskID v, audit_events_ip = AuditEvent_IP v,
     audit_events_result = AuditEvent_Result v, audit_events_reason = AuditEvent_Reason v,
     audit_events_metadata = AuditEvent_Metadata v\<rparr>"

definition scanAuditEvent :: "audit_events_row \<Rightarrow> AuditEvent" where
  "scanAuditEvent r = \<lparr>AuditEvent_ID = audit_events_id r,
     AuditEvent_OccurredAt = fromMillis (audit_events_occurred_at r),
     AuditEvent_Type = audit_events_type r, AuditEvent_ActorUserID = audit_events_actor_user_id r,
     AuditEvent_ActorSessionID = audit_events_actor_session_id r,
     AuditEvent_ControllerDevice = audit_events_controller_device_id r,
     AuditEvent_TargetRustDeskID = audit_events_target_rustdesk_id r, AuditEvent_IP = audit_events_ip r,
     AuditEvent_Result = audit_events_result r, AuditEvent_Reason = audit_events_reason r,
     AuditEvent_Metadata = audit_events_metadata r\<rparr>"

definition AppendAudit :: "AuditEvent \<Rightarrow> (db, unit) prog" where
  "AppendAudit v = exec_upsert db_audit_events db_audit_events_update
     (\<lambda>x y. audit_events_id x = audit_events_id y) (\<lambda>_ _. True) (\<lambda>x. x) (audit_row_of v)"

definition ListAudit :: "int \<Rightarrow> (db, AuditEvent list) prog" where
  "ListAudit limit = query (\<lambda>d. map scanAuditEvent
     (take (nat (page_limit limit)) (order_desc audit_events_occurred_at (db_audit_events d))))"

definition auditWhere :: "AuditQuery \<Rightarrow> audit_events_row \<Rightarrow> bool" where
  "auditWhere q r \<longleftrightarrow>
     (AuditQuery_Type q \<noteq> [] \<longrightarrow> audit_events_type r = AuditQuery_Type q) \<and>
     (AuditQuery_Result q \<noteq> [] \<longrightarrow> audit_events_result r = AuditQuery_Result q) \<and>
     (AuditQuery_ActorUserID q \<noteq> [] \<longrightarrow> audit_events_actor_user_id r = AuditQuery_ActorUserID q) \<and>
     (AuditQuery_TargetID q \<noteq> [] \<longrightarrow> audit_events_target_rustdesk_id r = AuditQuery_TargetID q) \<and>
     (AuditQuery_IP q \<noteq> [] \<longrightarrow> audit_events_ip r = AuditQuery_IP q) \<and>
     (case AuditQuery_From q of None \<Rightarrow> True | Some t \<Rightarrow> audit_events_occurred_at r \<ge> millis t) \<and>
     (case AuditQuery_To q of None \<Rightarrow> True | Some t \<Rightarrow> audit_events_occurred_at r \<le> millis t) \<and>
     (AuditQuery_Search q \<noteq> [] \<longrightarrow>
      list_ex (\<lambda>c. sql_like (sql_lower c) (search_pattern (AuditQuery_Search q)))
        [audit_events_type r, audit_events_actor_user_id r, audit_events_controller_device_id r,
         audit_events_target_rustdesk_id r, audit_events_ip r, audit_events_result r,
         audit_events_reason r])"

definition QueryAudit :: "AuditQuery \<Rightarrow> (db, AuditPage) prog" where
  "QueryAudit q =
     (let limit = page_limit (AuditQuery_Limit q); offset = page_offset (AuditQuery_Offset q) in
      bindE (query (\<lambda>d. int (length (filter (auditWhere q) (db_audit_events d))))) (\<lambda>total.
      bindE (query (\<lambda>d. map scanAuditEvent (limit_offset limit offset
               (order_desc (\<lambda>r. (audit_events_occurred_at r, audit_events_id r))
                 (filter (auditWhere q) (db_audit_events d)))))) (\<lambda>events.
      ret \<lparr>AuditPage_Events = events, AuditPage_Total = total, AuditPage_Limit = limit,
           AuditPage_Offset = offset\<rparr>)))"

text \<open>GROUP BY type, result: the distinct pairs with the number of their rows.\<close>

definition group_counts :: "audit_events_row list \<Rightarrow> (string \<times> string \<times> int) list" where
  "group_counts rs = map (\<lambda>(t, r). (t, r,
       int (length (filter (\<lambda>x. audit_events_type x = t \<and> audit_events_result x = r) rs))))
     (remdups (map (\<lambda>x. (audit_events_type x, audit_events_result x)) rs))"

definition map_add_count :: "string \<Rightarrow> int \<Rightarrow> (string \<times> int) list \<Rightarrow> (string \<times> int) list" where
  "map_add_count k n m = (case map_of m k of
      None \<Rightarrow> m @ [(k, n)]
    | Some v \<Rightarrow> map (\<lambda>(x, w). if x = k then (x, v + n) else (x, w)) m)"

definition add_group :: "AuditSummary \<Rightarrow> string \<times> string \<times> int \<Rightarrow> AuditSummary" where
  "add_group s g = (case g of (eventType, eventResult, count) \<Rightarrow>
     s\<lparr>AuditSummary_Total := AuditSummary_Total s + count,
       AuditSummary_ByType := map_add_count eventType count (AuditSummary_ByType s),
       AuditSummary_ByResult := map_add_count eventResult count (AuditSummary_ByResult s),
       AuditSummary_AllowedConnections := AuditSummary_AllowedConnections s +
         (if eventType = ''connection_allowed'' then count else 0),
       AuditSummary_DeniedConnections := AuditSummary_DeniedConnections s +
         (if eventType = ''connection_denied'' then count else 0),
       AuditSummary_FailedLogins := AuditSummary_FailedLogins s +
         (if eventType = ''login_failed'' then count else 0)\<rparr>)"

definition Store_AuditSummary :: "AuditQuery \<Rightarrow> (db, AuditSummary) prog" where
  "Store_AuditSummary q = query (\<lambda>d. foldl add_group
     \<lparr>AuditSummary_Total = 0, AuditSummary_AllowedConnections = 0, AuditSummary_DeniedConnections = 0,
      AuditSummary_FailedLogins = 0, AuditSummary_ByType = [], AuditSummary_ByResult = []\<rparr>
     (group_counts (filter (auditWhere q) (db_audit_events d))))"

end
