(* ===== verification/Account_Invariants.thy ===== *)
theory Account_Invariants
  imports Store_Identity Store_Audit
begin

text \<open>
  What every sequence of account operations keeps: keys and references of the account
  tables, revoked sessions, the token versions of users, and an administrator.  The
  fault schedule of the database is arbitrary throughout.
\<close>

section \<open>One account operation\<close>

text \<open>\<open>newS\<close> and \<open>newU\<close> restrict the identifiers given to new sessions and users, which
  the callers draw from uuid.NewString.\<close>

inductive account_step :: "(string \<Rightarrow> bool) \<Rightarrow> (string \<Rightarrow> bool) \<Rightarrow> db \<Rightarrow> db \<Rightarrow> bool"
  for newS newU where
  do_CreateUser: "newU (User_ID u) \<Longrightarrow> CreateUser u d = (r, d') \<Longrightarrow> account_step newS newU d d'"
| do_CreateRegisteredUser: "newU (User_ID u) \<Longrightarrow> CreateRegisteredUser u d = (r, d') \<Longrightarrow> account_step newS newU d d'"
| do_SetUserEnabled: "SetUserEnabled i b now d = (r, d') \<Longrightarrow> account_step newS newU d d'"
| do_SetUserApproval: "SetUserApproval i st now d = (r, d') \<Longrightarrow> account_step newS newU d d'"
| do_ForceRelogin: "ForceRelogin i now d = (r, d') \<Longrightarrow> account_step newS newU d d'"
| do_UpdateUserPassword: "UpdateUserPassword i h now d = (r, d') \<Longrightarrow> account_step newS newU d d'"
| do_UpdateUser: "UpdateUser i input now d = (r, d') \<Longrightarrow> account_step newS newU d d'"
| do_DeleteUser: "DeleteUser i d = (r, d') \<Longrightarrow> account_step newS newU d d'"
| do_SetUserTOTP: "SetUserTOTP i sec b now d = (r, d') \<Longrightarrow> account_step newS newU d d'"
| do_UpdateLastLogin: "UpdateLastLogin i now d = (r, d') \<Longrightarrow> account_step newS newU d d'"
| do_CreateGroup: "CreateGroup g d = (r, d') \<Longrightarrow> account_step newS newU d d'"
| do_UpdateGroup: "UpdateGroup g d = (r, d') \<Longrightarrow> account_step newS newU d d'"
| do_DeleteGroup: "DeleteGroup i d = (r, d') \<Longrightarrow> account_step newS newU d d'"
| do_SetUserGroupMember: "SetUserGroupMember g i b now d = (r, d') \<Longrightarrow> account_step newS newU d d'"
| do_CreateRole: "CreateRole role d = (r, d') \<Longrightarrow> account_step newS newU d d'"
| do_UpdateRole: "UpdateRole role d = (r, d') \<Longrightarrow> account_step newS newU d d'"
| do_DeleteRole: "DeleteRole i d = (r, d') \<Longrightarrow> account_step newS newU d d'"
| do_CreateSession: "newS (Session_ID s) \<Longrightarrow> CreateSession s d = (r, d') \<Longrightarrow> account_step newS newU d d'"
| do_TouchSession: "TouchSession i now d = (r, d') \<Longrightarrow> account_step newS newU d d'"
| do_RevokeSession: "RevokeSession i now d = (r, d') \<Longrightarrow> account_step newS newU d d'"
| do_RevokeUserSessions: "RevokeUserSessions i now d = (r, d') \<Longrightarrow> account_step newS newU d d'"
| do_ReplaceMFARecoveryCodes: "ReplaceMFARecoveryCodes i hs now d = (r, d') \<Longrightarrow> account_step newS newU d d'"
| do_ConsumeMFARecoveryCode: "ConsumeMFARecoveryCode i h d = (r, d') \<Longrightarrow> account_step newS newU d d'"
| do_CreateAuthChallenge: "CreateAuthChallenge c d = (r, d') \<Longrightarrow> account_step newS newU d d'"
| do_ConsumeAuthChallenge: "ConsumeAuthChallenge i now d = (r, d') \<Longrightarrow> account_step newS newU d d'"
| do_CreateOIDCAuthRequest: "CreateOIDCAuthRequest v d = (r, d') \<Longrightarrow> account_step newS newU d d'"
| do_CompleteOIDCAuthRequest: "CompleteOIDCAuthRequest st i msg d = (r, d') \<Longrightarrow> account_step newS newU d d'"
| do_ConsumeOIDCAuthRequest: "ConsumeOIDCAuthRequest pc rid uuid now d = (r, d') \<Longrightarrow> account_step newS newU d d'"
| do_ConsumeOIDCLinkRequest: "ConsumeOIDCLinkRequest pc i now d = (r, d') \<Longrightarrow> account_step newS newU d d'"
| do_CreateOIDCIdentity: "CreateOIDCIdentity idn d = (r, d') \<Longrightarrow> account_step newS newU d d'"
| do_DeleteOIDCIdentity: "DeleteOIDCIdentity pr sub i d = (r, d') \<Longrightarrow> account_step newS newU d d'"
| do_AppendAudit: "AppendAudit ev d = (r, d') \<Longrightarrow> account_step newS newU d d'"
| do_Migrate_seed: "Migrate_seed now d = (r, d') \<Longrightarrow> account_step newS newU d d'"

section \<open>Invariants\<close>

text \<open>The constraints of the schema on the account tables.\<close>

definition accounts_wf :: "db \<Rightarrow> bool" where
  "accounts_wf d \<longleftrightarrow> users_unique (db_users d) \<and> groups_unique (db_groups d) \<and>
     roles_unique (db_roles d) \<and>
     distinct (map (\<lambda>m. (user_group_memberships_group_id m, user_group_memberships_user_id m))
       (db_user_group_memberships d)) \<and>
     distinct (map sessions_id (db_sessions d)) \<and>
     distinct (map auth_challenges_id (db_auth_challenges d)) \<and>
     distinct (map (\<lambda>x. (mfa_recovery_codes_user_id x, mfa_recovery_codes_code_hash x))
       (db_mfa_recovery_codes d)) \<and>
     distinct (map (\<lambda>x. (oidc_identities_provider x, oidc_identities_subject x))
       (db_oidc_identities d)) \<and>
     (\<forall>x\<in>set (db_sessions d). \<exists>u\<in>set (db_users d). users_id u = sessions_user_id x) \<and>
     (\<forall>x\<in>set (db_auth_challenges d). \<exists>u\<in>set (db_users d). users_id u = auth_challenges_user_id x) \<and>
     (\<forall>x\<in>set (db_mfa_recovery_codes d). \<exists>u\<in>set (db_users d). users_id u = mfa_recovery_codes_user_id x) \<and>
     (\<forall>x\<in>set (db_oidc_identities d). \<exists>u\<in>set (db_users d). users_id u = oidc_identities_user_id x)"

definition wf_kept :: "db \<Rightarrow> db \<Rightarrow> bool" where
  "wf_kept d d' \<longleftrightarrow> (accounts_wf d \<longrightarrow> accounts_wf d')"

text \<open>Session \<open>i\<close> is revoked: no row of that identifier is live.\<close>

definition session_revoked :: "string \<Rightarrow> db \<Rightarrow> bool" where
  "session_revoked i d \<longleftrightarrow> (\<forall>r\<in>set (db_sessions d). sessions_id r = i \<longrightarrow> sessions_revoked_at r \<noteq> None)"

definition revoked_kept :: "string \<Rightarrow> db \<Rightarrow> db \<Rightarrow> bool" where
  "revoked_kept i d d' \<longleftrightarrow> (session_revoked i d \<longrightarrow> session_revoked i d')"

text \<open>Every row of user \<open>i\<close> has at least token version \<open>v\<close>.\<close>

definition version_from :: "string \<Rightarrow> int \<Rightarrow> db \<Rightarrow> bool" where
  "version_from i v d \<longleftrightarrow> (\<forall>r\<in>set (db_users d). users_id r = i \<longrightarrow> v \<le> users_token_version r)"

definition version_kept :: "string \<Rightarrow> int \<Rightarrow> db \<Rightarrow> db \<Rightarrow> bool" where
  "version_kept i v d d' \<longleftrightarrow> (version_from i v d \<longrightarrow> version_from i v d')"

text \<open>There is an administrator, and the role admin is a system role.\<close>

definition has_admin :: "db \<Rightarrow> bool" where
  "has_admin d \<longleftrightarrow> (\<exists>u\<in>set (db_users d). users_role u = RoleAdmin)"

definition admin_role_guarded :: "db \<Rightarrow> bool" where
  "admin_role_guarded d \<longleftrightarrow> (\<exists>r\<in>set (db_roles d). roles_id r = RoleAdmin \<and> roles_system r)"

definition admin_core :: "db \<Rightarrow> bool" where
  "admin_core d \<longleftrightarrow> admin_role_guarded d \<and> has_admin d"

definition admin_kept :: "db \<Rightarrow> db \<Rightarrow> bool" where
  "admin_kept d d' \<longleftrightarrow> (admin_core d \<longrightarrow> admin_core d')"

text \<open>The tables of users and roles are as they were.\<close>

definition users_roles_kept :: "db \<Rightarrow> db \<Rightarrow> bool" where
  "users_roles_kept d d' \<longleftrightarrow> db_users d' = db_users d \<and> db_roles d' = db_roles d"

lemma set_faults_tables [simp]:
  "db_users (set_faults fs d) = db_users d"
  "db_groups (set_faults fs d) = db_groups d"
  "db_roles (set_faults fs d) = db_roles d"
  "db_user_group_memberships (set_faults fs d) = db_user_group_memberships d"
  "db_sessions (set_faults fs d) = db_sessions d"
  "db_auth_challenges (set_faults fs d) = db_auth_challenges d"
  "db_mfa_recovery_codes (set_faults fs d) = db_mfa_recovery_codes d"
  "db_oidc_identities (set_faults fs d) = db_oidc_identities d"
  by (simp_all add: set_faults_def)

lemma invariants_set_faults [simp]:
  "accounts_wf (set_faults fs d) = accounts_wf d"
  "session_revoked i (set_faults fs d) = session_revoked i d"
  "version_from i v (set_faults fs d) = version_from i v d"
  "admin_core (set_faults fs d) = admin_core d"
  by (simp_all add: accounts_wf_def session_revoked_def version_from_def admin_core_def
      admin_role_guarded_def has_admin_def)

interpretation wfk: db_rel wf_kept
  by unfold_locales (auto simp: wf_kept_def)

interpretation rvk: db_rel "revoked_kept i" for i
  by unfold_locales (auto simp: revoked_kept_def)

interpretation vsk: db_rel "version_kept i v" for i v
  by unfold_locales (auto simp: version_kept_def)

interpretation adk: db_rel admin_kept
  by unfold_locales (auto simp: admin_kept_def)

interpretation urk: db_rel users_roles_kept
  by unfold_locales (auto simp: users_roles_kept_def)

section \<open>Revoked sessions stay revoked\<close>

lemmas account_op_defs = CreateUser_def CreateRegisteredUser_def insert_user_def insert_member_def
  SetUserEnabled_def SetUserApproval_def ForceRelogin_def UpdateUserPassword_def UpdateUser_def
  update_user_def select_role_def refuse_last_admin_def join_user_group_def revoke_sessions_of_def
  DeleteUser_def delete_user_rows_def delete_user_books_def SetUserTOTP_def UpdateLastLogin_def
  CreateGroup_def UpdateGroup_def DeleteGroup_def SetUserGroupMember_def CreateRole_def
  UpdateRole_def DeleteRole_def CreateSession_def TouchSession_def RevokeSession_def
  RevokeUserSessions_def ReplaceMFARecoveryCodes_def ConsumeMFARecoveryCode_def
  CreateAuthChallenge_def ConsumeAuthChallenge_def CreateOIDCAuthRequest_def
  CompleteOIDCAuthRequest_def affected_one_def ConsumeOIDCAuthRequest_def
  ConsumeOIDCLinkRequest_def CreateOIDCIdentity_def DeleteOIDCIdentity_def AppendAudit_def
  Migrate_seed_def seed_group_def seed_role_def

lemma revoked_kept_other: "db_sessions d' = db_sessions d \<Longrightarrow> revoked_kept i d d'"
  by (simp add: revoked_kept_def session_revoked_def)

lemma revoked_kept_sessions:
  "revoked_kept i d (db_sessions_update (filter p) d)"
  "(\<And>x. p x \<Longrightarrow> sessions_id (f x) = sessions_id x) \<Longrightarrow>
   (\<And>x. p x \<Longrightarrow> sessions_revoked_at x \<noteq> None \<Longrightarrow> sessions_revoked_at (f x) \<noteq> None) \<Longrightarrow>
     revoked_kept i d (db_sessions_update (upd_where p f) d)"
  "sessions_id r \<noteq> i \<Longrightarrow> revoked_kept i d (db_sessions_update (\<lambda>rs. rs @ [r]) d)"
  by (auto simp: revoked_kept_def session_revoked_def table_simps)

lemma account_step_revoked:
  "account_step (\<lambda>j. j \<noteq> i) newU d d' \<Longrightarrow> revoked_kept i d d'"
  by (induction rule: account_step.induct; erule stepsD [rotated];
      unfold account_op_defs seed_members_def Let_def; intro rvk.db_intros rvk.steps_stmt revoked_kept_sessions;
      (auto intro!: revoked_kept_other simp: sessions_row_of_def)?)

section \<open>Token versions never decrease\<close>

lemma apply_user_update_simps [simp]:
  "users_id (apply_user_update input now r) = users_id r"
  "users_token_version (apply_user_update input now r) = users_token_version r + 1"
  "users_role (apply_user_update input now r) = UserUpdate_Role input"
  "users_enabled (apply_user_update input now r) = UserUpdate_Enabled input"
  "users_username (apply_user_update input now r) = ToLower (UserUpdate_Username input)"
  "users_approval_status (apply_user_update input now r) = users_approval_status r"
  by (simp_all add: apply_user_update_def Let_def)

lemma users_row_of_simps [simp]:
  "users_id (users_row_of u) = User_ID u"
  "users_role (users_row_of u) = User_Role u"
  "users_username (users_row_of u) = ToLower (User_Username u)"
  "users_approval_status (users_row_of u) = User_ApprovalStatus u"
  by (simp_all add: users_row_of_def)

lemma version_kept_other: "db_users d' = db_users d \<Longrightarrow> version_kept i v d d'"
  by (simp add: version_kept_def version_from_def)

lemma version_kept_users:
  "version_kept i v d (db_users_update (filter p) d)"
  "(\<And>x. p x \<Longrightarrow> users_id (f x) = users_id x) \<Longrightarrow>
   (\<And>x. p x \<Longrightarrow> users_token_version x \<le> users_token_version (f x)) \<Longrightarrow>
     version_kept i v d (db_users_update (upd_where p f) d)"
  "users_id r \<noteq> i \<Longrightarrow> version_kept i v d (db_users_update (\<lambda>rs. rs @ [r]) d)"
  by (force simp: version_kept_def version_from_def table_simps)+

lemma account_step_version:
  "account_step newS (\<lambda>j. j \<noteq> i) d d' \<Longrightarrow> version_kept i v d d'"
  by (induction rule: account_step.induct; erule stepsD [rotated];
      unfold account_op_defs seed_members_def Let_def; intro vsk.db_intros vsk.steps_stmt version_kept_users;
      (auto intro!: version_kept_other)?)

section \<open>Keys and references\<close>

lemma wf_kept_other:
  "db_users d' = db_users d \<Longrightarrow> db_groups d' = db_groups d \<Longrightarrow> db_roles d' = db_roles d \<Longrightarrow>
   db_user_group_memberships d' = db_user_group_memberships d \<Longrightarrow>
   db_sessions d' = db_sessions d \<Longrightarrow> db_auth_challenges d' = db_auth_challenges d \<Longrightarrow>
   db_mfa_recovery_codes d' = db_mfa_recovery_codes d \<Longrightarrow>
   db_oidc_identities d' = db_oidc_identities d \<Longrightarrow> wf_kept d d'"
  by (simp add: wf_kept_def accounts_wf_def)

lemma wf_kept_users:
  "users_insert_ok d r \<Longrightarrow> wf_kept d (db_users_update (\<lambda>rs. rs @ [r]) d)"
  "(\<And>x. p x \<Longrightarrow> users_id (f x) = users_id x) \<Longrightarrow>
   (\<And>x. p x \<Longrightarrow> users_username (f x) = users_username x) \<Longrightarrow>
     wf_kept d (db_users_update (upd_where p f) d)"
  by (auto simp: wf_kept_def accounts_wf_def users_insert_ok_def users_unique_def table_simps
      split: if_splits)

lemma wf_kept_users_unique:
  assumes "\<And>x. p x \<Longrightarrow> users_id (f x) = users_id x" "users_unique (upd_where p f (db_users d))"
  shows "wf_kept d (db_users_update (upd_where p f) d)"
proof -
  have "(\<exists>u\<in>set (upd_where p f (db_users d)). users_id u = k) \<longleftrightarrow> (\<exists>u\<in>set (db_users d). users_id u = k)"
    for k using assms(1) by (auto simp: table_simps split: if_splits)
  then show ?thesis using assms(2) by (simp add: wf_kept_def accounts_wf_def)
qed

lemma wf_kept_users_restrict:
  assumes "\<forall>x\<in>set (db_users d). p x \<longrightarrow> \<not> users_referenced d x"
  shows "wf_kept d (db_users_update (filter (\<lambda>x. \<not> p x)) d)"
proof -
  have refs: "(\<forall>x\<in>set (db_sessions d). \<exists>u\<in>set (db_users d). \<not> p u \<and> users_id u = sessions_user_id x) \<and>
    (\<forall>x\<in>set (db_auth_challenges d). \<exists>u\<in>set (db_users d). \<not> p u \<and> users_id u = auth_challenges_user_id x) \<and>
    (\<forall>x\<in>set (db_mfa_recovery_codes d). \<exists>u\<in>set (db_users d). \<not> p u \<and> users_id u = mfa_recovery_codes_user_id x) \<and>
    (\<forall>x\<in>set (db_oidc_identities d). \<exists>u\<in>set (db_users d). \<not> p u \<and> users_id u = oidc_identities_user_id x)"
    if wf: "accounts_wf d"
  proof (intro conjI ballI)
    fix x assume "x \<in> set (db_sessions d)"
    with wf assms show "\<exists>u\<in>set (db_users d). \<not> p u \<and> users_id u = sessions_user_id x"
      unfolding accounts_wf_def users_referenced_def by metis
  next
    fix x assume "x \<in> set (db_auth_challenges d)"
    with wf assms show "\<exists>u\<in>set (db_users d). \<not> p u \<and> users_id u = auth_challenges_user_id x"
      unfolding accounts_wf_def users_referenced_def by metis
  next
    fix x assume "x \<in> set (db_mfa_recovery_codes d)"
    with wf assms show "\<exists>u\<in>set (db_users d). \<not> p u \<and> users_id u = mfa_recovery_codes_user_id x"
      unfolding accounts_wf_def users_referenced_def by metis
  next
    fix x assume "x \<in> set (db_oidc_identities d)"
    with wf assms show "\<exists>u\<in>set (db_users d). \<not> p u \<and> users_id u = oidc_identities_user_id x"
      unfolding accounts_wf_def users_referenced_def by metis
  qed
  show ?thesis
    unfolding wf_kept_def
  proof
    assume wf: "accounts_wf d"
    show "accounts_wf (db_users_update (filter (\<lambda>x. \<not> p x)) d)"
      using wf refs [OF wf] unfolding accounts_wf_def
      by (simp add: users_unique_def distinct_map_filter Bex_def conj_ac)
  qed
qed

lemma wf_kept_groups:
  "wf_kept d (db_groups_update (filter p) d)"
  "groups_insert_ok d r \<Longrightarrow> wf_kept d (db_groups_update (\<lambda>rs. rs @ [r]) d)"
  "groups_unique (upd_where p f (db_groups d)) \<Longrightarrow> wf_kept d (db_groups_update (upd_where p f) d)"
  "wf_kept d (db_groups_update (upd_where q (\<lambda>x. x)) d)"
  by (auto simp: wf_kept_def accounts_wf_def groups_unique_def groups_insert_ok_def
      distinct_map_filter upd_where_def)

lemma wf_kept_roles:
  "wf_kept d (db_roles_update (filter p) d)"
  "roles_insert_ok d r \<Longrightarrow> wf_kept d (db_roles_update (\<lambda>rs. rs @ [r]) d)"
  "roles_unique (upd_where p f (db_roles d)) \<Longrightarrow> wf_kept d (db_roles_update (upd_where p f) d)"
  "wf_kept d (db_roles_update (upd_where q (\<lambda>x. x)) d)"
  by (auto simp: wf_kept_def accounts_wf_def roles_unique_def roles_insert_ok_def
      distinct_map_filter upd_where_def)

lemma wf_kept_members:
  "wf_kept d (db_user_group_memberships_update (filter p) d)"
  "member_insert_ok d r \<Longrightarrow> wf_kept d (db_user_group_memberships_update (\<lambda>rs. rs @ [r]) d)"
  "\<forall>x\<in>set (db_user_group_memberships d). \<not> same_member x r \<Longrightarrow>
     wf_kept d (db_user_group_memberships_update (\<lambda>rs. rs @ [r]) d)"
  "wf_kept d (db_user_group_memberships_update (upd_where q (\<lambda>x. x)) d)"
  by (auto simp: wf_kept_def accounts_wf_def member_insert_ok_def same_member_def
      distinct_map_filter upd_where_def)

lemma wf_kept_sessions:
  "wf_kept d (db_sessions_update (filter p) d)"
  "sessions_insert_ok d r \<Longrightarrow> wf_kept d (db_sessions_update (\<lambda>rs. rs @ [r]) d)"
  "(\<And>x. p x \<Longrightarrow> sessions_id (f x) = sessions_id x) \<Longrightarrow>
   (\<And>x. p x \<Longrightarrow> sessions_user_id (f x) = sessions_user_id x) \<Longrightarrow>
     wf_kept d (db_sessions_update (upd_where p f) d)"
  by (auto simp: wf_kept_def accounts_wf_def sessions_insert_ok_def distinct_map_filter table_simps)

lemma wf_kept_challenges:
  "wf_kept d (db_auth_challenges_update (filter p) d)"
  "challenges_insert_ok d r \<Longrightarrow> wf_kept d (db_auth_challenges_update (\<lambda>rs. rs @ [r]) d)"
  by (auto simp: wf_kept_def accounts_wf_def challenges_insert_ok_def distinct_map_filter)

lemma wf_kept_mfa:
  "wf_kept d (db_mfa_recovery_codes_update (filter p) d)"
  "mfa_insert_ok d r \<Longrightarrow> wf_kept d (db_mfa_recovery_codes_update (\<lambda>rs. rs @ [r]) d)"
  by (auto simp: wf_kept_def accounts_wf_def mfa_insert_ok_def distinct_map_filter)

lemma wf_kept_identities:
  "wf_kept d (db_oidc_identities_update (filter p) d)"
  "identity_insert_ok d r \<Longrightarrow> wf_kept d (db_oidc_identities_update (\<lambda>rs. rs @ [r]) d)"
  by (auto simp: wf_kept_def accounts_wf_def identity_insert_ok_def distinct_map_filter)

lemma wf_kept_seed_members: "steps wf_kept (seed_members now)"
  unfolding seed_members_def
proof (rule wfk.steps_stmt)
  fix d d' :: db and a
  let ?mk = "\<lambda>u. member_row ApprovedUsersGroupID (users_id u) (millis now)"
  let ?us = "filter (\<lambda>u. users_approval_status u = ApprovalApproved \<and>
     \<not> (\<exists>m\<in>set (db_user_group_memberships d). same_member m (?mk u))) (db_users d)"
  let ?key = "\<lambda>m. (user_group_memberships_group_id m, user_group_memberships_user_id m)"
  assume "Inr ((), db_user_group_memberships_update (\<lambda>ms. ms @ map ?mk (filter (\<lambda>u.
    users_approval_status u = ApprovalApproved \<and> \<not> (\<exists>m\<in>set ms. same_member m (?mk u)))
      (db_users d))) d) = (Inr (a, d') :: error + unit \<times> db)"
  then have d': "d' = db_user_group_memberships_update (\<lambda>ms. ms @ map ?mk ?us) d"
    by auto
  show "wf_kept d d'"
    unfolding wf_kept_def
  proof
    assume wf: "accounts_wf d"
    have "distinct (map users_id ?us)"
      using wf by (simp add: accounts_wf_def users_unique_def distinct_map_filter)
    then have "distinct (map ?key (map ?mk ?us))"
      by (simp add: member_row_def distinct_map inj_on_def)
    moreover have "set (map ?key (db_user_group_memberships d)) \<inter> set (map ?key (map ?mk ?us)) = {}"
      by (auto simp: same_member_def member_row_def)
    moreover have "distinct (map ?key (db_user_group_memberships d))"
      using wf by (simp add: accounts_wf_def)
    ultimately have "distinct (map ?key (db_user_group_memberships d @ map ?mk ?us))"
      by (simp only: map_append distinct_append simp_thms)
    then show "accounts_wf d'" using wf unfolding d' by (simp add: accounts_wf_def)
  qed
qed

lemmas wf_kept_rules = wf_kept_users wf_kept_users_restrict wf_kept_groups(1,2,4) wf_kept_roles(1,2,4)
  wf_kept_members wf_kept_sessions wf_kept_challenges wf_kept_mfa wf_kept_identities

lemma wf_kept_unique_updates:
  "steps wf_kept (update_returning_unique db_users db_users_update users_unique (\<lambda>r. users_id r = i)
     (apply_user_update input now))"
  "steps wf_kept (UpdateGroup g)"
  "steps wf_kept (UpdateRole role)"
  unfolding UpdateGroup_def UpdateRole_def
  by (intro wfk.db_intros wf_kept_users_unique wf_kept_groups(3) wf_kept_roles(3); simp)+

lemma account_step_wf: "account_step newS newU d d' \<Longrightarrow> wf_kept d d'"
  by (induction rule: account_step.induct; erule stepsD [rotated];
      (rule wf_kept_unique_updates |
       (unfold account_op_defs Let_def;
        intro wfk.basic_intros wf_kept_unique_updates wf_kept_seed_members wf_kept_rules;
        (auto intro!: wf_kept_other simp: same_member_def member_row_def)?)))

section \<open>An administrator remains\<close>

lemma admin_kept_other:
  "db_users d' = db_users d \<Longrightarrow> db_roles d' = db_roles d \<Longrightarrow> admin_kept d d'"
  by (simp add: admin_kept_def admin_core_def admin_role_guarded_def has_admin_def)

lemma admin_core_cong: "users_roles_kept d d' \<Longrightarrow> admin_core d' = admin_core d"
  by (simp add: users_roles_kept_def admin_core_def admin_role_guarded_def has_admin_def)

lemma admin_kept_users:
  "(\<And>x. p x \<Longrightarrow> users_role (f x) = users_role x) \<Longrightarrow>
     admin_kept d (db_users_update (upd_where p f) d)"
  "admin_kept d (db_users_update (\<lambda>rs. rs @ [r]) d)"
  by (auto simp: admin_kept_def admin_core_def admin_role_guarded_def has_admin_def table_simps)

lemma admin_kept_roles:
  "(\<And>x. p x \<Longrightarrow> roles_id (f x) = roles_id x) \<Longrightarrow> (\<And>x. p x \<Longrightarrow> roles_system (f x) = roles_system x) \<Longrightarrow>
     admin_kept d (db_roles_update (upd_where p f) d)"
  "admin_kept d (db_roles_update (\<lambda>rs. rs @ [r]) d)"
  by (auto simp: admin_kept_def admin_core_def admin_role_guarded_def has_admin_def table_simps)

lemma select_role_ok:
  assumes "select_role i d = (Inr role, d')"
  obtains r where "r \<in> set (db_users d)" "users_id r = i" "users_role r = role" "users_roles_kept d d'"
  using assms
  by (auto simp: select_role_def scan_found_def attempt_run query_row_def stmt_def Let_def
      users_roles_kept_def dest!: find_Some_in split: if_splits option.splits sum.splits)

lemma refuse_last_admin_ok:
  assumes "refuse_last_admin d = (Inr u, d')"
  shows "1 < length (filter (\<lambda>r. users_role r = RoleAdmin) (db_users d))" "users_roles_kept d d'"
  using assms
  by (auto simp: refuse_last_admin_def bindE_run query_def stmt_def Let_def users_roles_kept_def
      split: if_splits sum.splits)

text \<open>What the two operations that can take an administrator away know after their
  checks: another administrator, unless the user is none.\<close>

lemma other_admin:
  assumes wf: "accounts_wf d" and core: "admin_core d"
    and sel: "select_role i d = (Inr role, d1)"
    and chk: "whenE (role = RoleAdmin \<and> b) refuse_last_admin d1 = (Inr u, d2)" and b: b
  shows "\<exists>r\<in>set (db_users d). users_role r = RoleAdmin \<and> users_id r \<noteq> i"
proof -
  obtain r where r: "r \<in> set (db_users d)" "users_id r = i" "users_role r = role"
    and ur: "users_roles_kept d d1"
    using sel by (rule select_role_ok)
  have dist: "distinct (map users_id (db_users d))"
    using wf by (simp add: accounts_wf_def users_unique_def)
  show ?thesis
  proof (cases "role = RoleAdmin")
    case True
    then have ref: "refuse_last_admin d1 = (Inr u, d2)" using chk b by (simp add: whenE_def)
    have "1 < length (filter (\<lambda>r. users_role r = RoleAdmin) (db_users d))"
      using refuse_last_admin_ok(1) [OF ref] ur by (simp add: users_roles_kept_def)
    then show ?thesis using distinct_key_two [OF dist] by blast
  next
    case False
    obtain a where "a \<in> set (db_users d)" "users_role a = RoleAdmin"
      using core by (auto simp: admin_core_def has_admin_def)
    then show ?thesis using distinct_keyD [OF dist] r False by metis
  qed
qed

lemma whenE_refuse_kept: "steps users_roles_kept (whenE b refuse_last_admin)"
  unfolding refuse_last_admin_def by (intro urk.basic_intros)

lemma select_role_kept: "steps users_roles_kept (select_role i)"
  unfolding select_role_def by (intro urk.basic_intros)

lemma users_roles_kept_other:
  "db_users d' = db_users d \<Longrightarrow> db_roles d' = db_roles d \<Longrightarrow> users_roles_kept d d'"
  by (simp add: users_roles_kept_def)

lemma UpdateUser_rest_kept:
  "steps users_roles_kept
     (thenE (exec_delete db_user_group_memberships db_user_group_memberships_update p)
     (thenE (forE gs (join_user_group i now)) (thenE (revoke_sessions_of i now) (ret user))))"
  unfolding join_user_group_def revoke_sessions_of_def
  by (intro urk.basic_intros; simp add: users_roles_kept_other)

lemma UpdateUser_admin:
  assumes wf: "accounts_wf d" and core: "admin_core d" and run: "UpdateUser i input now d = (r, d')"
  shows "admin_core d'"
proof (cases r)
  case (Inl e)
  then have "same_tables d d'"
    using run unfolding UpdateUser_def by (auto intro: transaction_error_tables)
  then show ?thesis using core by (metis invariants_set_faults(4) same_tablesE)
next
  case (Inr user)
  from run [unfolded Inr UpdateUser_def] obtain fs d5 gs where
    body: "bindE (select_role i) (\<lambda>currentRole.
      thenE (whenE (currentRole = RoleAdmin \<and> UserUpdate_Role input \<noteq> RoleAdmin) refuse_last_admin)
     (bindE (scan_found scanUser (update_returning_unique db_users db_users_update users_unique
              (\<lambda>r. users_id r = i) (apply_user_update input now))) (\<lambda>user.
      thenE (exec_delete db_user_group_memberships db_user_group_memberships_update
              (\<lambda>_ x. user_group_memberships_user_id x = i \<and>
                 user_group_memberships_group_id x \<notin> {PendingUsersGroupID, ApprovedUsersGroupID}))
     (thenE (forE (UserUpdate_GroupIDs input) (join_user_group i now))
     (thenE (revoke_sessions_of i now)
     (ret user)))))) (set_faults fs d) = (Inr user, d5)" and d': "d' = set_faults gs d5"
    by (rule transaction_InrE)
  let ?d0 = "set_faults fs d"
  have wf0: "accounts_wf ?d0" and core0: "admin_core ?d0" using wf core by simp_all
  from body obtain role d1 u2 d2 user0 d3 where
    sel: "select_role i ?d0 = (Inr role, d1)" and
    chk: "whenE (role = RoleAdmin \<and> UserUpdate_Role input \<noteq> RoleAdmin) refuse_last_admin d1 = (Inr u2, d2)" and
    upd: "scan_found scanUser (update_returning_unique db_users db_users_update users_unique
              (\<lambda>r. users_id r = i) (apply_user_update input now)) d2 = (Inr user0, d3)" and
    rest: "thenE (exec_delete db_user_group_memberships db_user_group_memberships_update
              (\<lambda>_ x. user_group_memberships_user_id x = i \<and>
                 user_group_memberships_group_id x \<notin> {PendingUsersGroupID, ApprovedUsersGroupID}))
     (thenE (forE (UserUpdate_GroupIDs input) (join_user_group i now))
     (thenE (revoke_sessions_of i now) (ret user0))) d3 = (Inr user, d5)"
    unfolding bindE_Inr_iff [of "select_role i"] thenE_Inr_iff [of "whenE _ _"]
      bindE_Inr_iff [of "scan_found _ _"] by blast
  have kept: "users_roles_kept ?d0 d2"
    using stepsD [OF select_role_kept sel] stepsD [OF whenE_refuse_kept chk] urk.step_trans by blast
  have upd3: "db_users d3 = upd_where (\<lambda>r. users_id r = i) (apply_user_update input now) (db_users d2)"
    "db_roles d3 = db_roles d2"
    using upd by (auto simp: scan_found_def attempt_run update_returning_unique_def stmt_def Let_def
        split: sum.splits if_splits list.splits)
  obtain r0 where r0: "r0 \<in> set (db_users d)" "users_id r0 = i"
    using sel by (auto elim: select_role_ok)
  have "has_admin d3"
  proof (cases "UserUpdate_Role input = RoleAdmin")
    case True
    then show ?thesis using upd3 kept r0
      by (auto simp: has_admin_def users_roles_kept_def table_simps intro!: bexI [of _ r0])
  next
    case False
    then show ?thesis using other_admin [OF wf0 core0 sel chk False] upd3 kept
      by (force simp: has_admin_def users_roles_kept_def table_simps)
  qed
  moreover have "admin_role_guarded d3"
    using core kept upd3 by (simp add: admin_core_def admin_role_guarded_def users_roles_kept_def)
  ultimately have "admin_core d3" by (simp add: admin_core_def)
  then have "admin_core d5" using stepsD [OF UpdateUser_rest_kept rest] by (simp add: admin_core_cong)
  then show ?thesis by (simp add: d')
qed

definition delete_user_refs :: "string \<Rightarrow> (db, int) prog" where
  "delete_user_refs i = thenE (delete_user_rows i) (thenE (delete_user_books i)
     (thenE (exec_update db_devices db_devices_update (\<lambda>x. devices_owner_user_id x = i)
              (\<lambda>x. x\<lparr>devices_owner_user_id := []\<rparr>))
            (exec_update db_oidc_auth_requests db_oidc_auth_requests_update
              (\<lambda>x. oidc_auth_requests_user_id x = i \<or> oidc_auth_requests_link_user_id x = i)
              (\<lambda>x. x\<lparr>oidc_auth_requests_user_id := [], oidc_auth_requests_link_user_id := []\<rparr>))))"

lemma thenE_assoc: "thenE (thenE m n) k = thenE m (thenE n k)"
  by (rule ext) (simp add: thenE_run split: sum.split)

lemma DeleteUser_refs:
  "DeleteUser i = transaction (bindE (select_role i) (\<lambda>role.
     thenE (whenE (role = RoleAdmin) refuse_last_admin)
    (thenE (delete_user_refs i) (affected (exec_delete_restrict db_users db_users_update
       users_referenced (\<lambda>r. users_id r = i))))))"
  by (simp add: DeleteUser_def delete_user_refs_def thenE_assoc)

lemma delete_user_refs_kept: "steps users_roles_kept (delete_user_refs i)"
  unfolding delete_user_refs_def delete_user_rows_def delete_user_books_def
  by (intro urk.basic_intros; simp add: users_roles_kept_other)

lemma DeleteUser_ok:
  assumes "DeleteUser i d = (Inr u, d')"
  obtains fs role d1 u2 d2 n d3 u4 d4 gs where
    "select_role i (set_faults fs d) = (Inr role, d1)"
    "whenE (role = RoleAdmin) refuse_last_admin d1 = (Inr u2, d2)"
    "delete_user_refs i d2 = (Inr n, d3)"
    "affected (exec_delete_restrict db_users db_users_update users_referenced (\<lambda>r. users_id r = i)) d3 =
       (Inr u4, d4)" "d' = set_faults gs d4"
proof -
  from assms [unfolded DeleteUser_refs] obtain fs d4 gs where
    "bindE (select_role i) (\<lambda>role. thenE (whenE (role = RoleAdmin) refuse_last_admin)
      (thenE (delete_user_refs i) (affected (exec_delete_restrict db_users db_users_update
         users_referenced (\<lambda>r. users_id r = i))))) (set_faults fs d) = (Inr u, d4)"
    "d' = set_faults gs d4"
    by (rule transaction_InrE)
  then show thesis using that unfolding bindE_Inr_iff thenE_Inr_iff by blast
qed

lemma DeleteUser_admin:
  assumes wf: "accounts_wf d" and core: "admin_core d" and run: "DeleteUser i d = (r, d')"
  shows "admin_core d'"
proof (cases r)
  case (Inl e)
  then have "same_tables d d'"
    using run unfolding DeleteUser_def by (auto intro: transaction_error_tables)
  then show ?thesis using core by (metis invariants_set_faults(4) same_tablesE)
next
  case (Inr u)
  from run [unfolded Inr] obtain fs role d1 u2 d2 n d3 u4 d4 gs where
    sel: "select_role i (set_faults fs d) = (Inr role, d1)" and
    chk: "whenE (role = RoleAdmin) refuse_last_admin d1 = (Inr u2, d2)" and
    refs: "delete_user_refs i d2 = (Inr n, d3)" and
    del: "affected (exec_delete_restrict db_users db_users_update users_referenced
            (\<lambda>r. users_id r = i)) d3 = (Inr u4, d4)" and d': "d' = set_faults gs d4"
    by (rule DeleteUser_ok)
  have kept: "users_roles_kept (set_faults fs d) d3"
    using stepsD [OF select_role_kept sel] stepsD [OF whenE_refuse_kept chk]
      stepsD [OF delete_user_refs_kept refs] urk.step_trans by blast
  have del4: "db_users d4 = filter (\<lambda>r. users_id r \<noteq> i) (db_users d3)" "db_roles d4 = db_roles d3"
    using del by (auto simp: affected_def bindE_run exec_delete_restrict_def stmt_def Let_def
        split: sum.splits if_splits)
  have "\<exists>r\<in>set (db_users d). users_role r = RoleAdmin \<and> users_id r \<noteq> i"
    using other_admin [of "set_faults fs d" i role d1 True u2 d2] wf core sel chk by simp
  then show ?thesis
    using kept del4 core
    by (auto simp: d' admin_core_def has_admin_def admin_role_guarded_def users_roles_kept_def)
qed

lemma DeleteRole_admin:
  assumes wf: "accounts_wf d" and core: "admin_core d" and run: "DeleteRole i d = (r, d')"
  shows "admin_core d'"
proof (cases r)
  case (Inl e)
  then have "same_tables d d'"
    using run unfolding DeleteRole_def by (auto intro: transaction_error_tables)
  then show ?thesis using core by (metis invariants_set_faults(4) same_tablesE)
next
  case (Inr u)
  from run [unfolded Inr DeleteRole_def] obtain fs d3 gs where
    body: "bindE (scan_found roles_system (query_row (\<lambda>d. find (\<lambda>r. roles_id r = i) (db_roles d))))
     (\<lambda>system. if system then throw (Errorf ''system role cannot be deleted'') else
      thenE (exec_update db_users db_users_update (\<lambda>u. users_role u = i)
              (\<lambda>u. u\<lparr>users_role := RoleUser, users_token_version := users_token_version u + 1\<rparr>))
            (execute (exec_delete db_roles db_roles_update (\<lambda>_ r. roles_id r = i))))
      (set_faults fs d) = (Inr u, d3)" and d': "d' = set_faults gs d3"
    by (rule transaction_InrE)
  from body obtain system d1 where
    sel: "scan_found roles_system (query_row (\<lambda>d. find (\<lambda>r. roles_id r = i) (db_roles d)))
       (set_faults fs d) = (Inr system, d1)" and sys: "\<not> system" and
    rest: "thenE (exec_update db_users db_users_update (\<lambda>u. users_role u = i)
              (\<lambda>u. u\<lparr>users_role := RoleUser, users_token_version := users_token_version u + 1\<rparr>))
            (execute (exec_delete db_roles db_roles_update (\<lambda>_ r. roles_id r = i))) d1 = (Inr u, d3)"
    unfolding bindE_Inr_iff [of "scan_found _ _"] by (auto split: if_splits)
  obtain x where x: "x \<in> set (db_roles d)" "roles_id x = i" "\<not> roles_system x"
    "db_users d1 = db_users d" "db_roles d1 = db_roles d"
    using sel sys
    by (auto simp: scan_found_def attempt_run query_row_def stmt_def Let_def dest!: find_Some_in
        split: if_splits option.splits sum.splits)
  have "i \<noteq> RoleAdmin"
    using x core wf distinct_keyD [of roles_id "db_roles d" x]
    unfolding admin_core_def admin_role_guarded_def accounts_wf_def roles_unique_def by metis
  moreover have "db_users d3 = upd_where (\<lambda>u. users_role u = i)
      (\<lambda>u. u\<lparr>users_role := RoleUser, users_token_version := users_token_version u + 1\<rparr>) (db_users d)"
    "db_roles d3 = filter (\<lambda>r. roles_id r \<noteq> i) (db_roles d)"
    using rest x(4,5)
    by (auto simp: thenE_run execute_def bindE_run exec_update_def exec_delete_def stmt_def Let_def
        split: sum.splits if_splits)
  ultimately show ?thesis
    using core by (auto simp: d' admin_core_def has_admin_def admin_role_guarded_def table_simps)
qed

lemma admin_from_steps:
  "steps admin_kept m \<Longrightarrow> m d = (r, d') \<Longrightarrow> admin_core d \<Longrightarrow> admin_core d'"
  using stepsD admin_kept_def by metis

lemma account_step_admin:
  "account_step newS newU d d' \<Longrightarrow> accounts_wf d \<Longrightarrow> admin_core d \<Longrightarrow> admin_core d'"
  by (induction rule: account_step.induct;
      ((rule UpdateUser_admin DeleteUser_admin DeleteRole_admin; assumption) |
      (erule (1) admin_from_steps [rotated]; unfold account_op_defs seed_members_def Let_def;
       intro adk.db_intros adk.steps_stmt admin_kept_users admin_kept_roles;
       (auto intro!: admin_kept_other)?)))

end
