(* ===== verification/Account_Props.thy ===== *)
theory Account_Props
  imports Account_Invariants
begin

text \<open>
  The properties of the account store: what every sequence of operations keeps, and
  what deleting a user removes.
\<close>

lemma set_faults_tables2 [simp]:
  "db_address_books (set_faults fs d) = db_address_books d"
  "db_address_book_entries (set_faults fs d) = db_address_book_entries d"
  "db_address_book_tags (set_faults fs d) = db_address_book_tags d"
  "db_address_book_grants (set_faults fs d) = db_address_book_grants d"
  "db_acl_rules (set_faults fs d) = db_acl_rules d"
  "db_strategies (set_faults fs d) = db_strategies d"
  "db_devices (set_faults fs d) = db_devices d"
  "db_oidc_auth_requests (set_faults fs d) = db_oidc_auth_requests d"
  "db_api_tokens (set_faults fs d) = db_api_tokens d"
  "db_user_preferences (set_faults fs d) = db_user_preferences d"
  by (simp_all add: set_faults_def)

lemma owned_books_set_faults [simp]: "owned_books (set_faults fs d) = owned_books d"
  by (simp add: owned_books_def fun_eq_iff)

text \<open>The tables after a successful deletion of user \<open>i\<close>.\<close>

definition user_deleted :: "string \<Rightarrow> db \<Rightarrow> db \<Rightarrow> bool" where
  "user_deleted i d d' \<longleftrightarrow>
     db_users d' = filter (\<lambda>r. users_id r \<noteq> i) (db_users d) \<and>
     db_sessions d' = filter (\<lambda>r. sessions_user_id r \<noteq> i) (db_sessions d) \<and>
     db_auth_challenges d' = filter (\<lambda>r. auth_challenges_user_id r \<noteq> i) (db_auth_challenges d) \<and>
     db_oidc_identities d' = filter (\<lambda>r. oidc_identities_user_id r \<noteq> i) (db_oidc_identities d) \<and>
     db_mfa_recovery_codes d' = filter (\<lambda>r. mfa_recovery_codes_user_id r \<noteq> i) (db_mfa_recovery_codes d) \<and>
     db_user_group_memberships d' =
       filter (\<lambda>r. user_group_memberships_user_id r \<noteq> i) (db_user_group_memberships d) \<and>
     db_acl_rules d' =
       filter (\<lambda>r. \<not> (acl_rules_subject_type r = ''user'' \<and> acl_rules_subject_id r = i)) (db_acl_rules d) \<and>
     db_strategies d' =
       filter (\<lambda>r. \<not> (strategies_scope_type r = ''user'' \<and> strategies_scope_id r = i)) (db_strategies d) \<and>
     db_address_books d' = filter (\<lambda>r. address_books_owner_user_id r \<noteq> i) (db_address_books d) \<and>
     db_address_book_entries d' = filter (\<lambda>r. address_book_entries_address_book_id r
       \<notin> set (owned_books d i)) (db_address_book_entries d) \<and>
     db_address_book_tags d' = filter (\<lambda>r. address_book_tags_address_book_id r
       \<notin> set (owned_books d i)) (db_address_book_tags d) \<and>
     db_address_book_grants d' = filter (\<lambda>r. address_book_grants_address_book_id r
         \<notin> set (owned_books d i) \<and>
         \<not> (address_book_grants_subject_type r = ''user'' \<and> address_book_grants_subject_id r = i))
       (db_address_book_grants d) \<and>
     db_devices d' = upd_where (\<lambda>r. devices_owner_user_id r = i)
       (\<lambda>r. r\<lparr>devices_owner_user_id := []\<rparr>) (db_devices d) \<and>
     db_oidc_auth_requests d' = upd_where
       (\<lambda>r. oidc_auth_requests_user_id r = i \<or> oidc_auth_requests_link_user_id r = i)
       (\<lambda>r. r\<lparr>oidc_auth_requests_user_id := [], oidc_auth_requests_link_user_id := []\<rparr>)
       (db_oidc_auth_requests d) \<and>
     db_groups d' = db_groups d \<and> db_roles d' = db_roles d \<and>
     db_api_tokens d' = db_api_tokens d \<and> db_user_preferences d' = db_user_preferences d"

lemma delete_user_refs_ok:
  assumes "delete_user_refs i d = (Inr n, d')"
  shows "user_deleted i (db_users_update (filter (\<lambda>r. users_id r \<noteq> i)) d)
    (db_users_update (filter (\<lambda>r. users_id r \<noteq> i)) d')"
  using assms
  unfolding delete_user_refs_def delete_user_rows_def delete_user_books_def thenE_Inr_iff
  by (elim exE conjE exec_delete_okE exec_update_okE)
    (simp add: user_deleted_def owned_books_def filter_filter conj_commute)

lemma select_role_same: "steps same_tables (select_role i)"
  unfolding select_role_def by (intro stb.basic_intros)

lemma refuse_same: "steps same_tables (whenE b refuse_last_admin)"
  unfolding refuse_last_admin_def by (intro stb.basic_intros)

lemma user_deleted_set_faults [simp]:
  "user_deleted i (set_faults fs d) d' = user_deleted i d d'"
  "user_deleted i d (set_faults fs d') = user_deleted i d d'"
  by (simp_all add: user_deleted_def)

lemma account_steps_wf:
  "(account_step newS newU)\<^sup>*\<^sup>* d d' \<Longrightarrow> accounts_wf d \<Longrightarrow> accounts_wf d'"
  by (induction rule: rtranclp_induct) (use account_step_wf wf_kept_def in blast)+

section \<open>An example database\<close>

definition example_user :: "string \<Rightarrow> string \<Rightarrow> Role \<Rightarrow> users_row" where
  "example_user i name role = \<lparr>users_id = i, users_username = name, users_email = [], users_phone = [],
     users_password_hash = [], users_display_name = name, users_role = role, users_enabled = True,
     users_approval_status = ApprovalApproved, users_token_version = 1, users_created_at = 0,
     users_updated_at = 0, users_last_login_at = None, users_force_relogin_at = None,
     users_totp_secret = [], users_totp_enabled = False\<rparr>"

definition example_session :: "string \<Rightarrow> string \<Rightarrow> int option \<Rightarrow> sessions_row" where
  "example_session i u revoked = \<lparr>sessions_id = i, sessions_user_id = u, sessions_created_at = 0,
     sessions_expires_at = 9000, sessions_revoked_at = revoked, sessions_last_seen_at = 0,
     sessions_ip = [], sessions_user_agent = [], sessions_client_device_id = []\<rparr>"

definition accounts_example :: db where
  "accounts_example = empty_db\<lparr>
     db_users := [example_user ''u1'' ''root'' RoleAdmin, example_user ''u2'' ''bob'' RoleUser],
     db_roles := [\<lparr>roles_id = RoleAdmin, roles_name = ''Admin'', roles_description = [],
       roles_permissions = [PermissionAll], roles_system = True, roles_created_at = 0,
       roles_updated_at = 0\<rparr>],
     db_sessions := [example_session ''s1'' ''u2'' (Some 5), example_session ''s2'' ''u2'' None],
     db_user_group_memberships := [member_row ApprovedUsersGroupID ''u2'' 0]\<rparr>"

lemmas accounts_example_defs = accounts_example_def example_user_def example_session_def empty_db_def

lemma accounts_example_wf: "accounts_wf accounts_example"
  by (simp add: accounts_example_defs accounts_wf_def users_unique_def groups_unique_def
      roles_unique_def member_row_def)

lemma accounts_example_admin: "admin_core accounts_example"
  by (simp add: accounts_example_defs admin_core_def admin_role_guarded_def has_admin_def)

lemma one_step: "account_step newS newU d d' \<Longrightarrow> (account_step newS newU)\<^sup>*\<^sup>* d d'"
  by (rule r_into_rtranclp)

lemma run_eq: "m d = (fst (m d), snd (m d))"
  by simp

section \<open>Properties\<close>

text \<open>C4: Revocation is permanent.  Once the session with identifier \<open>i\<close> is revoked, no
  sequence of account operations, with any failures, makes it live again, as long as
  no new session takes its identifier.\<close>

theorem revoked_session_stays_revoked:
  assumes "session_revoked i d" and "(account_step (\<lambda>j. j \<noteq> i) newU)\<^sup>*\<^sup>* d d'"
  shows "session_revoked i d'"
  using assms(2,1)
  by (induction rule: rtranclp_induct) (use account_step_revoked revoked_kept_def in blast)+

theorem revoked_session_stays_revoked_witness:
  "session_revoked ''s1'' accounts_example \<and>
   session_revoked ''s1'' (snd (TouchSession ''s1'' 7000000 accounts_example))"
proof -
  have revoked: "session_revoked ''s1'' accounts_example"
    by (simp add: accounts_example_defs session_revoked_def)
  have "(account_step (\<lambda>j. j \<noteq> ''s1'') (\<lambda>_. True))\<^sup>*\<^sup>* accounts_example
      (snd (TouchSession ''s1'' 7000000 accounts_example))"
    by (rule one_step, rule do_TouchSession) (rule run_eq)
  with revoked_session_stays_revoked [OF revoked] revoked show ?thesis by blast
qed

text \<open>C5: Token versions only grow.  If every row of user \<open>i\<close> has token version at least
  \<open>v\<close>, this stays so after any sequence of account operations, with any failures, as long
  as no new user takes the identifier: a token issued for an older version never becomes
  valid again.\<close>

theorem token_version_never_decreases:
  assumes "version_from i v d" and "(account_step newS (\<lambda>j. j \<noteq> i))\<^sup>*\<^sup>* d d'"
  shows "version_from i v d'"
  using assms(2,1)
  by (induction rule: rtranclp_induct) (use account_step_version version_kept_def in blast)+

theorem token_version_never_decreases_witness:
  "version_from ''u2'' 1 accounts_example \<and>
   version_from ''u2'' 1 (snd (DeleteRole ''user'' accounts_example))"
proof -
  have from1: "version_from ''u2'' 1 accounts_example"
    by (simp add: accounts_example_defs version_from_def)
  have "(account_step (\<lambda>_. True) (\<lambda>j. j \<noteq> ''u2''))\<^sup>*\<^sup>* accounts_example
      (snd (DeleteRole ''user'' accounts_example))"
    by (rule one_step, rule do_DeleteRole) (rule run_eq)
  with token_version_never_decreases [OF from1] from1 show ?thesis by blast
qed

text \<open>C6: The last administrator cannot be lost.  From a well-formed database with an
  administrator and a system role admin, no sequence of account operations, with any
  failures, leads to one without an administrator.\<close>

theorem an_administrator_remains:
  assumes "accounts_wf d" "admin_core d" and "(account_step newS newU)\<^sup>*\<^sup>* d d'"
  shows "has_admin d'"
proof -
  have "accounts_wf d' \<and> admin_core d'"
    using assms(3,1,2)
    by (induction rule: rtranclp_induct) (use account_step_admin account_step_wf wf_kept_def in blast)+
  then show ?thesis by (simp add: admin_core_def)
qed

theorem an_administrator_remains_witness:
  "has_admin (snd (DeleteUser ''u1'' accounts_example))"
proof -
  have "(account_step (\<lambda>_. True) (\<lambda>_. True))\<^sup>*\<^sup>* accounts_example (snd (DeleteUser ''u1'' accounts_example))"
    by (rule one_step, rule do_DeleteUser) (rule run_eq)
  then show ?thesis
    by (rule an_administrator_remains [OF accounts_example_wf accounts_example_admin])
qed

text \<open>C7: Deleting a user removes exactly what belongs to the user: the account, its
  sessions, challenges, identities, recovery codes, memberships, grants, ACL rules and
  strategies, its address books with their entries, tags and grants; its devices and
  pending sign-ins are detached, and every other row of these tables stays as it is.\<close>

theorem DeleteUser_removes_user:
  assumes "DeleteUser i d = (Inr u, d')"
  shows "user_deleted i d d'"
proof -
  from assms obtain fs role d1 u2 d2 n d3 u4 d4 gs where
    sel: "select_role i (set_faults fs d) = (Inr role, d1)" and
    chk: "whenE (role = RoleAdmin) refuse_last_admin d1 = (Inr u2, d2)" and
    refs: "delete_user_refs i d2 = (Inr n, d3)" and
    del: "affected (exec_delete_restrict db_users db_users_update users_referenced
            (\<lambda>r. users_id r = i)) d3 = (Inr u4, d4)" and d': "d' = set_faults gs d4"
    by (rule DeleteUser_ok)
  have "same_tables d d2"
    using stepsD [OF select_role_same sel] stepsD [OF refuse_same chk] stb.step_trans by auto
  then obtain hs where d2: "d2 = set_faults hs d" by (rule same_tablesE) blast
  obtain ks where d4: "d4 = db_users_update (filter (\<lambda>x. users_id x \<noteq> i)) (set_faults ks d3)"
    using del by (auto simp: affected_Inr_iff elim!: exec_delete_restrict_okE)
  have users: "db_users d3 = db_users d"
    using stepsD [OF delete_user_refs_kept refs] by (simp add: users_roles_kept_def d2)
  show ?thesis
    using delete_user_refs_ok [OF refs] users
    by (simp add: user_deleted_def d' d4 d2 owned_books_def)
qed

theorem DeleteUser_removes_user_witness:
  "\<exists>d'. DeleteUser ''u2'' accounts_example = (Inr (), d') \<and> user_deleted ''u2'' accounts_example d' \<and>
     db_users d' = [example_user ''u1'' ''root'' RoleAdmin] \<and> db_sessions d' = []"
proof -
  have run: "DeleteUser ''u2'' accounts_example =
      (Inr (), accounts_example\<lparr>db_users := [example_user ''u1'' ''root'' RoleAdmin],
        db_sessions := [], db_user_group_memberships := []\<rparr>)"
    by (simp add: DeleteUser_def select_role_def delete_user_rows_def delete_user_books_def
        owned_books_def users_referenced_def statement_run accounts_example_defs member_row_def)
  from DeleteUser_removes_user [OF this] run show ?thesis by simp
qed

end
