(* ===== verification/Maps.thy ===== *)
theory Maps
  imports Prelude
begin

text \<open>
  Go maps.  A map is the list of its entries in one iteration order; a key is stored at
  most once.  The contract \<open>go_map\<close> is what the components rely on: what a lookup
  returns after a store and after a delete.
\<close>

type_synonym ('k, 'v) gomap = "('k \<times> 'v) list"

definition map_get :: "('k, 'v) gomap \<Rightarrow> 'k \<Rightarrow> 'v option" where
  "map_get m k = map_of m k"

definition map_put :: "'k \<Rightarrow> 'v \<Rightarrow> ('k, 'v) gomap \<Rightarrow> ('k, 'v) gomap" where
  "map_put k v m = (if k \<in> fst ` set m then map (\<lambda>(x, w). (x, if x = k then v else w)) m
     else m @ [(k, v)])"

definition map_del :: "'k \<Rightarrow> ('k, 'v) gomap \<Rightarrow> ('k, 'v) gomap" where
  "map_del k m = filter (\<lambda>(x, _). x \<noteq> k) m"

definition map_ok :: "('k, 'v) gomap \<Rightarrow> bool" where
  "map_ok m = distinct (map fst m)"

locale go_map =
  fixes get :: "'m \<Rightarrow> 'k \<Rightarrow> 'v option"
    and put :: "'k \<Rightarrow> 'v \<Rightarrow> 'm \<Rightarrow> 'm"
    and del :: "'k \<Rightarrow> 'm \<Rightarrow> 'm"
    and ok :: "'m \<Rightarrow> bool"
  assumes ok_put: "ok m \<Longrightarrow> ok (put k v m)"
    and ok_del: "ok m \<Longrightarrow> ok (del k m)"
    and get_put: "ok m \<Longrightarrow> get (put k v m) x = (if x = k then Some v else get m x)"
    and get_del: "ok m \<Longrightarrow> get (del k m) x = (if x = k then None else get m x)"
begin

lemma get_put_same: "ok m \<Longrightarrow> get (put k v m) k = Some v"
  by (simp add: get_put)

lemma get_put_other: "ok m \<Longrightarrow> x \<noteq> k \<Longrightarrow> get (put k v m) x = get m x"
  by (simp add: get_put)

lemma get_del_same: "ok m \<Longrightarrow> get (del k m) k = None"
  by (simp add: get_del)

lemma get_put_twice: "ok m \<Longrightarrow> get (put k w (put k v m)) x = get (put k w m) x"
  by (simp add: get_put ok_put)

lemma get_put_swap: "ok m \<Longrightarrow> j \<noteq> k \<Longrightarrow> get (put j w (put k v m)) x = get (put k v (put j w m)) x"
  by (simp add: get_put ok_put)

text \<open>Storing a list of entries one after the other: the last one of a key wins.\<close>

lemma get_put_fold:
  assumes "ok m"
  shows "ok (foldl (\<lambda>m (k, v). put k v m) m kvs) \<and>
    get (foldl (\<lambda>m (k, v). put k v m) m kvs) x =
    (case map_of (rev kvs) x of Some v \<Rightarrow> Some v | None \<Rightarrow> get m x)"
  using assms
proof (induction kvs arbitrary: m)
  case (Cons kv kvs)
  obtain k v where kv: "kv = (k, v)" by (cases kv)
  show ?case
    using Cons.IH [OF ok_put [OF Cons.prems, of k v]] Cons.prems
    by (auto simp: kv get_put map_add_def split: option.split)
qed simp

lemmas map_laws = ok_put ok_del get_put get_del

end

lemma map_put_keys: "fst ` set (map_put k v m) = insert k (fst ` set m)"
  by (force simp: map_put_def image_iff split: if_splits)

lemma map_of_replace:
  "map_of (map (\<lambda>(x, w). (x, if x = k then v else w)) m) x =
   (if x = k then map_option (\<lambda>_. v) (map_of m x) else map_of m x)"
  by (induction m) auto

lemma map_get_put: "map_get (map_put k v m) x = (if x = k then Some v else map_get m x)"
proof (cases "k \<in> fst ` set m")
  case True
  then have "\<exists>w. map_of m k = Some w" by (metis domI dom_map_of_conv_image_fst domD)
  then show ?thesis using True by (auto simp: map_get_def map_put_def map_of_replace)
next
  case False
  then have "map_of m k = None" by (simp add: map_of_eq_None_iff)
  then show ?thesis using False by (auto simp: map_get_def map_put_def map_add_def split: option.split)
qed

lemma map_get_del: "map_get (map_del k m) x = (if x = k then None else map_get m x)"
  by (induction m) (auto simp: map_get_def map_del_def)

interpretation gm: go_map map_get map_put map_del map_ok
proof
  fix m :: "('k, 'v) gomap" and k v x
  show "map_ok m \<Longrightarrow> map_ok (map_put k v m)"
    by (auto simp: map_ok_def map_put_def comp_def case_prod_beta)
  show "map_ok m \<Longrightarrow> map_ok (map_del k m)"
    by (simp add: map_ok_def map_del_def distinct_map_filter)
qed (simp_all add: map_get_put map_get_del)

lemma map_ok_Nil [simp]: "map_ok []"
  by (simp add: map_ok_def)

lemma map_get_Nil [simp]: "map_get [] k = None"
  by (simp add: map_get_def)

end
