(* ===== verification/Lockout.thy ===== *)
theory Lockout
  imports Store_Sessions Maps
begin

text \<open>
  Two brakes on password guessing: the lockout of an account kept in the database
  (internal/store/sqlstore/login_lockout.go, internal/httpapi/account_lockout.go) and
  the limiter per client address kept in memory (internal/httpapi/ratelimit.go).
\<close>

section \<open>Account lockout\<close>

definition account_key :: "string \<Rightarrow> string" where
  "account_key username = ToLower (TrimSpace username)"

definition AccountLoginAllowed :: "string \<Rightarrow> instant \<Rightarrow> (db, bool \<times> duration) prog" where
  "AccountLoginAllowed username now =
     attempt (query_row (\<lambda>d. map_option account_lockouts_locked_until
        (find (\<lambda>r. account_lockouts_username r = account_key username) (db_account_lockouts d))))
     (\<lambda>r. case r of
        Inl e \<Rightarrow> if e = ErrNoRows then ret (True, 0) else throw e
      | Inr lockedUntil \<Rightarrow>
          let until = fromMillis lockedUntil in
          if now < until then ret (False, time_Sub until now) else ret (True, 0))"

definition RecordAccountLoginFailure ::
  "string \<Rightarrow> string \<Rightarrow> instant \<Rightarrow> int \<Rightarrow> duration \<Rightarrow> duration \<Rightarrow> (db, unit) prog" where
  "RecordAccountLoginFailure uid username0 now burst window lockout =
     (let username = account_key username0 in
      if username = [] then ret () else
      thenE (exec_insert db_login_attempts_update
               (\<lambda>d r. \<forall>x\<in>set (db_login_attempts d). login_attempts_id x \<noteq> login_attempts_id r)
               \<lparr>login_attempts_id = uid, login_attempts_username = username,
                login_attempts_occurred_at = millis now\<rparr>)
     (ignoreE (exec_delete db_login_attempts db_login_attempts_update
               (\<lambda>_ x. login_attempts_occurred_at x < millis (now - window)))
     (bindE (query (\<lambda>d. int (length (filter (\<lambda>x. login_attempts_username x = username \<and>
               login_attempts_occurred_at x \<ge> millis (now - window)) (db_login_attempts d)))))
     (\<lambda>count. if count < burst then ret () else
        exec_upsert db_account_lockouts db_account_lockouts_update
          (\<lambda>x y. account_lockouts_username x = account_lockouts_username y) (\<lambda>_ _. True)
          (\<lambda>x. x\<lparr>account_lockouts_locked_until := millis (now + lockout),
                 account_lockouts_updated_at := millis now\<rparr>)
          \<lparr>account_lockouts_username = username,
           account_lockouts_locked_until = millis (now + lockout),
           account_lockouts_updated_at = millis now\<rparr>))))"

definition ClearAccountLoginFailures :: "string \<Rightarrow> (db, unit) prog" where
  "ClearAccountLoginFailures username = transaction
     (thenE (exec_delete db_login_attempts db_login_attempts_update
               (\<lambda>_ x. login_attempts_username x = account_key username))
            (execute (exec_delete db_account_lockouts db_account_lockouts_update
               (\<lambda>_ x. account_lockouts_username x = account_key username))))"

text \<open>The handlers' wrappers: an engine failure refuses the login for a minute; the limits
  come from the environment and fall back to five failures, five and fifteen minutes.\<close>

definition accountLoginAllowed :: "string \<Rightarrow> instant \<Rightarrow> (db, bool \<times> duration) prog" where
  "accountLoginAllowed username now = (if username = [] then ret (True, 0) else
     attempt (AccountLoginAllowed username now) (\<lambda>r. case r of
        Inl _ \<Rightarrow> ret (False, Minute)
      | Inr v \<Rightarrow> ret v))"

definition accountLoginFailure ::
  "int \<Rightarrow> duration \<Rightarrow> duration \<Rightarrow> string \<Rightarrow> string \<Rightarrow> instant \<Rightarrow> (db, unit) prog" where
  "accountLoginFailure envBurst envWindow envLockout uid username now =
     (if username = [] then ret () else
      ignoreE (RecordAccountLoginFailure uid username now
                 (if envBurst < 2 then 5 else envBurst)
                 (if envWindow \<le> 0 then 5 * Minute else envWindow)
                 (if envLockout \<le> 0 then 15 * Minute else envLockout))
              (ret ()))"

definition accountLoginSuccess :: "string \<Rightarrow> (db, unit) prog" where
  "accountLoginSuccess username = ignoreE (ClearAccountLoginFailures username) (ret ())"

section \<open>The limiter per address\<close>

record loginAttempt =
  loginAttempt_failed :: "instant list"
  loginAttempt_lockedUntil :: instant

record LoginLimiter =
  LoginLimiter_entries :: "(string, loginAttempt) gomap"
  LoginLimiter_burst :: int
  LoginLimiter_window :: duration
  LoginLimiter_lockout :: duration

definition NewLoginLimiter :: "int \<Rightarrow> duration \<Rightarrow> duration \<Rightarrow> LoginLimiter" where
  "NewLoginLimiter burst window lockout = \<lparr>LoginLimiter_entries = [], LoginLimiter_burst = burst,
     LoginLimiter_window = window, LoginLimiter_lockout = lockout\<rparr>"

definition limiter_entry :: "LoginLimiter \<Rightarrow> string \<Rightarrow> loginAttempt" where
  "limiter_entry l key = (case map_get (LoginLimiter_entries l) key of
      None \<Rightarrow> \<lparr>loginAttempt_failed = [], loginAttempt_lockedUntil = zero_time\<rparr>
    | Some v \<Rightarrow> v)"

fun recent :: "instant list \<Rightarrow> instant \<Rightarrow> instant list" where
  "recent [] threshold = []"
| "recent (v # vs) threshold = (if \<not> v < threshold then v # vs else recent vs threshold)"

definition Allowed :: "string \<Rightarrow> instant \<Rightarrow> LoginLimiter \<Rightarrow> (bool \<times> duration) \<times> LoginLimiter" where
  "Allowed key now l =
     (let entry = limiter_entry l key in
      if now < loginAttempt_lockedUntil entry
      then ((False, time_Sub (loginAttempt_lockedUntil entry) now), l)
      else let entry = entry\<lparr>loginAttempt_failed :=
                 recent (loginAttempt_failed entry) (now - LoginLimiter_window l)\<rparr>
           in ((True, 0), l\<lparr>LoginLimiter_entries := map_put key entry (LoginLimiter_entries l)\<rparr>))"

definition prune :: "instant \<Rightarrow> LoginLimiter \<Rightarrow> LoginLimiter" where
  "prune now l = l\<lparr>LoginLimiter_entries :=
     map (\<lambda>(k, entry). (k, entry\<lparr>loginAttempt_failed :=
            recent (loginAttempt_failed entry) (now - LoginLimiter_window l)\<rparr>))
       (filter (\<lambda>(k, entry). \<not> (recent (loginAttempt_failed entry) (now - LoginLimiter_window l) = [] \<and>
            \<not> now < loginAttempt_lockedUntil entry)) (LoginLimiter_entries l))\<rparr>"

definition Failure :: "string \<Rightarrow> instant \<Rightarrow> LoginLimiter \<Rightarrow> LoginLimiter" where
  "Failure key now l0 =
     (let l = (if length (LoginLimiter_entries l0) \<ge> 10000 then prune now l0 else l0);
          entry = limiter_entry l key;
          failed = recent (loginAttempt_failed entry) (now - LoginLimiter_window l) @ [now];
          entry = (if int (length failed) \<ge> LoginLimiter_burst l
                   then entry\<lparr>loginAttempt_lockedUntil := now + LoginLimiter_lockout l,
                              loginAttempt_failed := []\<rparr>
                   else entry\<lparr>loginAttempt_failed := failed\<rparr>)
      in l\<lparr>LoginLimiter_entries := map_put key entry (LoginLimiter_entries l)\<rparr>)"

definition Success :: "string \<Rightarrow> LoginLimiter \<Rightarrow> LoginLimiter" where
  "Success key l = l\<lparr>LoginLimiter_entries := map_del key (LoginLimiter_entries l)\<rparr>"

section \<open>Facts on account lockout\<close>

definition attempt_row :: "string \<Rightarrow> string \<times> instant \<Rightarrow> login_attempts_row" where
  "attempt_row u ut = \<lparr>login_attempts_id = fst ut, login_attempts_username = u,
     login_attempts_occurred_at = millis (snd ut)\<rparr>"

definition locked_until :: "db \<Rightarrow> string \<Rightarrow> int option" where
  "locked_until d u = map_option account_lockouts_locked_until
     (find (\<lambda>r. account_lockouts_username r = u) (db_account_lockouts d))"

text \<open>The state after the failures \<open>uts\<close> of account \<open>u\<close>, the database having had none.\<close>

definition failures_seen ::
  "string set \<Rightarrow> string \<Rightarrow> int \<Rightarrow> duration \<Rightarrow> (string \<times> instant) list \<Rightarrow> db \<Rightarrow> bool" where
  "failures_seen ids u burst lockout uts d \<longleftrightarrow> db_faults d = [] \<and>
     filter (\<lambda>x. login_attempts_username x = u) (db_login_attempts d) = map (attempt_row u) uts \<and>
     login_attempts_id ` set (db_login_attempts d) \<subseteq> ids \<union> fst ` set uts \<and>
     locked_until d u = (if uts \<noteq> [] \<and> burst \<le> int (length uts)
       then Some (millis (snd (last uts) + lockout)) else None)"

lemma find_upd_where_same:
  "(\<And>x. p x \<Longrightarrow> p (f x)) \<Longrightarrow> find p (upd_where p f xs) = map_option f (find p xs)"
  by (induction xs) auto

lemma find_append_none: "(\<forall>x\<in>set xs. \<not> p x) \<Longrightarrow> find p (xs @ ys) = find p ys"
  by (induction xs) auto

lemma filter_all_kept:
  assumes "filter p xs = map f ys" "\<And>y. y \<in> set ys \<Longrightarrow> q (f y)"
  shows "filter p (filter q xs) = map f ys"
proof -
  have "filter p (filter q xs) = filter q (filter p xs)" by (simp add: filter_filter conj_commute)
  also have "\<dots> = map f ys" using assms by (simp add: filter_map comp_def)
  finally show ?thesis .
qed

lemma exec_upsert_lockout:
  assumes "db_faults d = []"
  shows "\<exists>d'. exec_upsert db_account_lockouts db_account_lockouts_update
      (\<lambda>x y. account_lockouts_username x = account_lockouts_username y) (\<lambda>_ _. True)
      (\<lambda>x. x\<lparr>account_lockouts_locked_until := v, account_lockouts_updated_at := w\<rparr>)
      \<lparr>account_lockouts_username = u, account_lockouts_locked_until = v,
       account_lockouts_updated_at = w\<rparr> d = (Inr (), d') \<and>
    db_faults d' = [] \<and> db_login_attempts d' = db_login_attempts d \<and> locked_until d' u = Some v"
proof (cases "\<exists>x\<in>set (db_account_lockouts d). account_lockouts_username x = u")
  case True
  then have "find (\<lambda>r. account_lockouts_username r = u) (db_account_lockouts d) \<noteq> None"
    by (auto simp: find_None_iff)
  then show ?thesis using assms True
    by (auto simp: exec_upsert_def stmt_run locked_until_def find_upd_where_same)
next
  case False
  then show ?thesis using assms
    by (simp add: exec_upsert_def stmt_run locked_until_def find_append_none)
qed

lemma failures_seen_step:
  assumes seen: "failures_seen ids (account_key name) burst lockout uts d" and key: "account_key name \<noteq> []"
    and fresh: "uid \<notin> ids \<union> fst ` set uts" and window: "0 \<le> window"
    and near: "\<forall>s\<in>snd ` set uts. now - window \<le> s"
  shows "\<exists>d'. RecordAccountLoginFailure uid name now burst window lockout d = (Inr (), d') \<and>
    failures_seen ids (account_key name) burst lockout (uts @ [(uid, now)]) d'"
proof -
  let ?u = "account_key name"
  let ?old = "\<lambda>x. login_attempts_occurred_at x < millis (now - window)"
  define as where "as = db_login_attempts d @ [attempt_row ?u (uid, now)]"
  define d0 where "d0 = db_login_attempts_update (\<lambda>rs. rs @ [attempt_row ?u (uid, now)]) d"
  define d1 where "d1 = db_login_attempts_update (filter (\<lambda>x. \<not> ?old x)) d0"
  have as1: "db_login_attempts d1 = filter (\<lambda>x. \<not> ?old x) as"
    by (simp add: d1_def d0_def as_def)
  have seen_as: "filter (\<lambda>x. login_attempts_username x = ?u) as = map (attempt_row ?u) (uts @ [(uid, now)])"
    using seen by (simp add: failures_seen_def as_def attempt_row_def)
  have new: "\<not> ?old (attempt_row ?u ut)" if "ut \<in> set (uts @ [(uid, now)])" for ut
    using that near window millis_mono [of "now - window" "snd ut"]
    by (auto simp: attempt_row_def)
  have mine: "filter (\<lambda>x. login_attempts_username x = ?u) (db_login_attempts d1) =
      map (attempt_row ?u) (uts @ [(uid, now)])"
    unfolding as1 using filter_all_kept [OF seen_as, of "\<lambda>x. \<not> ?old x"] new by simp
  have "filter (\<lambda>x. login_attempts_username x = ?u \<and> millis (now - window) \<le> login_attempts_occurred_at x)
      (db_login_attempts d1) = filter (\<lambda>x. millis (now - window) \<le> login_attempts_occurred_at x)
      (filter (\<lambda>x. login_attempts_username x = ?u) (db_login_attempts d1))"
    by (simp add: filter_filter conj_commute)
  then have count: "length (filter (\<lambda>x. login_attempts_username x = ?u \<and>
      millis (now - window) \<le> login_attempts_occurred_at x) (db_login_attempts d1)) = length uts + 1"
    using new unfolding mine by (simp add: filter_map comp_def not_less)
  have ids: "login_attempts_id ` set (db_login_attempts d1) \<subseteq> ids \<union> fst ` set (uts @ [(uid, now)])"
    using seen by (auto simp: failures_seen_def as1 as_def attempt_row_def)
  have lock: "locked_until d1 ?u = locked_until d ?u" "db_faults d1 = []"
    using seen by (simp_all add: locked_until_def d1_def d0_def failures_seen_def)
  have fault: "db_faults d = []" and clash: "\<forall>x\<in>set (db_login_attempts d). login_attempts_id x \<noteq> uid"
    using seen fresh by (auto simp: failures_seen_def)
  have ins: "exec_insert db_login_attempts_update
      (\<lambda>d r. \<forall>x\<in>set (db_login_attempts d). login_attempts_id x \<noteq> login_attempts_id r)
      \<lparr>login_attempts_id = uid, login_attempts_username = ?u, login_attempts_occurred_at = millis now\<rparr> d =
      (Inr (), d0)"
    using fault clash by (simp add: exec_insert_def stmt_run d0_def attempt_row_def)
  have del: "snd (exec_delete db_login_attempts db_login_attempts_update (\<lambda>_ x. ?old x) d0) = d1"
    using fault by (simp add: exec_delete_def stmt_run d1_def d0_def)
  have qry: "query f d1 = (Inr (f d1), d1)" for f :: "db \<Rightarrow> int"
    using lock(2) by (simp add: query_def stmt_run)
  have run: "RecordAccountLoginFailure uid name now burst window lockout d =
      (if int (length uts + 1) < burst then (Inr (), d1) else
       exec_upsert db_account_lockouts db_account_lockouts_update
          (\<lambda>x y. account_lockouts_username x = account_lockouts_username y) (\<lambda>_ _. True)
          (\<lambda>x. x\<lparr>account_lockouts_locked_until := millis (now + lockout),
                 account_lockouts_updated_at := millis now\<rparr>)
          \<lparr>account_lockouts_username = ?u,
           account_lockouts_locked_until = millis (now + lockout),
           account_lockouts_updated_at = millis now\<rparr> d1)"
    using key count by (simp add: RecordAccountLoginFailure_def Let_def thenE_run ignoreE_run
        bindE_run ins del qry)
  show ?thesis
  proof (cases "int (length uts + 1) < burst")
    case True
    then show ?thesis
      using run mine ids lock seen by (simp add: failures_seen_def)
  next
    case False
    obtain d' where "exec_upsert db_account_lockouts db_account_lockouts_update
          (\<lambda>x y. account_lockouts_username x = account_lockouts_username y) (\<lambda>_ _. True)
          (\<lambda>x. x\<lparr>account_lockouts_locked_until := millis (now + lockout),
                 account_lockouts_updated_at := millis now\<rparr>)
          \<lparr>account_lockouts_username = ?u,
           account_lockouts_locked_until = millis (now + lockout),
           account_lockouts_updated_at = millis now\<rparr> d1 = (Inr (), d')"
      "db_faults d' = []" "db_login_attempts d' = db_login_attempts d1"
      "locked_until d' ?u = Some (millis (now + lockout))"
      using exec_upsert_lockout [OF lock(2)] by blast
    then show ?thesis using run mine ids False by (simp add: failures_seen_def)
  qed
qed

lemma forE_append: "forE (xs @ ys) f = thenE (forE xs f) (forE ys f)"
  by (rule ext, induction xs) (simp_all add: thenE_run split: sum.split)

lemma failures_seen_run:
  assumes "failures_seen ids (account_key name) burst lockout [] d" "account_key name \<noteq> []" "0 \<le> window"
    "distinct (map fst uts)" "fst ` set uts \<inter> ids = {}" "sorted (map snd uts)"
    "\<forall>s\<in>snd ` set uts. snd (last uts) - window \<le> s"
  shows "\<exists>d'. forE uts (\<lambda>(uid, t). RecordAccountLoginFailure uid name t burst window lockout) d = (Inr (), d') \<and>
    failures_seen ids (account_key name) burst lockout uts d'"
  using assms(4-)
proof (induction uts rule: rev_induct)
  case Nil
  then show ?case using assms(1) by simp
next
  case (snoc ut uts)
  obtain uid t where ut: "ut = (uid, t)" by (cases ut)
  have "\<forall>s\<in>snd ` set uts. snd (last uts) - window \<le> s"
  proof (cases "uts = []")
    case False
    then have "snd (last uts) \<le> t"
      using snoc.prems(3) last_in_set by (fastforce simp: ut sorted_append)
    then show ?thesis using snoc.prems(4) by (auto simp: ut)
  qed simp
  then obtain d1 where d1: "forE uts (\<lambda>(uid, t). RecordAccountLoginFailure uid name t burst window lockout) d = (Inr (), d1)"
    "failures_seen ids (account_key name) burst lockout uts d1"
    using snoc by (auto simp: sorted_append)
  have "uid \<notin> ids \<union> fst ` set uts" "\<forall>s\<in>snd ` set uts. t - window \<le> s"
    using snoc.prems by (auto simp: ut)
  from failures_seen_step [OF d1(2) assms(2) this(1) assms(3) this(2)] d1(1)
  show ?case by (auto simp: forE_append thenE_run ut)
qed

text \<open>C8: An account is locked by exactly the configured number of failures.  Starting
  with no recorded failure, after failures at the instants of \<open>uts\<close>, all within the
  window, a login is refused exactly when there were at least \<open>burst\<close> of them and the
  lockout, counted from the last one, has not run out.\<close>

theorem account_locked_after_burst:
  assumes "db_faults d = []" and "account_key name \<noteq> []" and "0 \<le> window"
    and "\<forall>x\<in>set (db_login_attempts d). login_attempts_username x \<noteq> account_key name"
    and "\<forall>x\<in>set (db_account_lockouts d). account_lockouts_username x \<noteq> account_key name"
    and "uts \<noteq> []" and "distinct (map fst uts)"
    and "\<forall>x\<in>set (db_login_attempts d). login_attempts_id x \<notin> fst ` set uts"
    and "sorted (map snd uts)" and "\<forall>s\<in>snd ` set uts. snd (last uts) - window \<le> s"
  shows "\<exists>d' retry. forE uts (\<lambda>(uid, t). RecordAccountLoginFailure uid name t burst window lockout) d = (Inr (), d') \<and>
     AccountLoginAllowed name now d' =
       (Inr (int (length uts) < burst \<or> fromMillis (millis (snd (last uts) + lockout)) \<le> now, retry), d')"
proof -
  let ?ids = "login_attempts_id ` set (db_login_attempts d)"
  have start: "failures_seen ?ids (account_key name) burst lockout [] d"
    using assms(1,4,5) by (auto simp: failures_seen_def locked_until_def find_None_iff filter_empty_conv)
  have disj: "fst ` set uts \<inter> ?ids = {}"
  proof (rule equals0I)
    fix i assume "i \<in> fst ` set uts \<inter> ?ids"
    then have "i \<in> fst ` set uts" and "i \<in> ?ids" by (rule IntD1, rule IntD2)
    then show False using assms(8) by (elim imageE [where f = login_attempts_id]) simp
  qed
  obtain d' where d': "forE uts (\<lambda>(uid, t). RecordAccountLoginFailure uid name t burst window lockout) d = (Inr (), d')"
    and seen: "failures_seen ?ids (account_key name) burst lockout uts d'"
    using failures_seen_run [OF start assms(2,3,7) disj assms(9,10)] by (elim exE conjE)
  have "db_faults d' = []" using seen by (simp add: failures_seen_def)
  moreover have "locked_until d' (account_key name) = (if burst \<le> int (length uts)
      then Some (millis (snd (last uts) + lockout)) else None)"
    using seen assms(6) by (simp add: failures_seen_def)
  ultimately show ?thesis using d'
    by (auto simp: AccountLoginAllowed_def attempt_run query_row_def stmt_run locked_until_def Let_def
        split: if_splits)
qed

theorem account_locked_after_burst_witness:
  "\<exists>d' retry. forE [(''a'', 0), (''b'', Second)]
       (\<lambda>(uid, t). RecordAccountLoginFailure uid ''Bob'' t 2 (5 * Minute) (15 * Minute)) empty_db = (Inr (), d') \<and>
     AccountLoginAllowed ''Bob'' Minute d' = (Inr (False, retry), d')"
proof -
  have key: "account_key ''Bob'' \<noteq> []" by code_simp
  show ?thesis
    using account_locked_after_burst [of empty_db "''Bob''" "5 * Minute" "[(''a'', 0), (''b'', Second)]" 2
        "15 * Minute" Minute] key
    by (simp add: empty_db_def duration_defs millis_def fromMillis_def)
qed

end
