(* ===== verification/Limiter_Props.thy ===== *)
theory Limiter_Props
  imports Lockout
begin

text \<open>
  The limiter per address: what it remembers of a key, that it answers
  like a reference limiter that never prunes, that it locks a key after exactly the configured number of failures, and
  that what it stores per key is bounded.
\<close>

lemma recent_sorted: "sorted ts \<Longrightarrow> recent ts threshold = filter (\<lambda>t. threshold \<le> t) ts"
proof (induction ts)
  case (Cons t ts)
  show ?case
  proof (cases "t < threshold")
    case False
    then have "\<forall>u\<in>set ts. threshold \<le> u" using Cons.prems by auto
    then show ?thesis using False by simp
  qed (use Cons in simp)
qed simp

lemma recent_all: "\<forall>t\<in>set ts. threshold \<le> t \<Longrightarrow> recent ts threshold = ts"
  by (cases ts) auto

lemma recent_suffix: "\<exists>us. ts = us @ recent ts threshold"
proof (induction ts)
  case (Cons t ts)
  then obtain us where "ts = us @ recent ts threshold" ..
  then have "t # ts = (if t < threshold then t # us else []) @ recent (t # ts) threshold" by simp
  then show ?case ..
qed simp

lemma recent_later: "s \<le> t \<Longrightarrow> recent (recent ts s) t = recent ts t"
  by (induction ts) auto

lemma length_recent: "length (recent ts threshold) \<le> length ts"
  using recent_suffix by (metis le_add2 length_append)

definition limiter_ok :: "LoginLimiter \<Rightarrow> bool" where
  "limiter_ok l = map_ok (LoginLimiter_entries l)"

text \<open>What matters of a key at instant \<open>now\<close>: the failures inside the window and the end
  of a running lockout.\<close>

definition limiter_view :: "LoginLimiter \<Rightarrow> string \<Rightarrow> instant \<Rightarrow> instant list \<times> instant option" where
  "limiter_view l key now =
     (recent (loginAttempt_failed (limiter_entry l key)) (now - LoginLimiter_window l),
      if now < loginAttempt_lockedUntil (limiter_entry l key)
      then Some (loginAttempt_lockedUntil (limiter_entry l key)) else None)"

lemma map_get_map_values:
  "map_get (map (\<lambda>(k, e). (k, f e)) m) k = map_option f (map_get m k)"
  by (induction m) (auto simp: map_get_def)

lemma map_get_filter:
  "map_ok m \<Longrightarrow> map_get (filter (\<lambda>(k, e). p e) m) k =
     (case map_get m k of Some e \<Rightarrow> if p e then Some e else None | None \<Rightarrow> None)"
  by (induction m) (auto simp: map_get_def map_ok_def map_of_eq_None_iff split: option.splits)

lemma prune_entries_ok: "limiter_ok l \<Longrightarrow> limiter_ok (prune now l)"
  by (simp add: limiter_ok_def prune_def map_ok_def distinct_map_filter comp_def case_prod_beta)

lemma prune_window [simp]:
  "LoginLimiter_window (prune now l) = LoginLimiter_window l"
  "LoginLimiter_burst (prune now l) = LoginLimiter_burst l"
  "LoginLimiter_lockout (prune now l) = LoginLimiter_lockout l"
  by (simp_all add: prune_def)

text \<open>The view of a key is the same before and after pruning, at the present and at
  every later instant.\<close>

lemma prune_view:
  assumes "limiter_ok l" "now \<le> later" "zero_time \<le> now"
  shows "limiter_view (prune now l) key later = limiter_view l key later"
proof -
  let ?w = "now - LoginLimiter_window l"
  let ?keep = "\<lambda>e. \<not> (recent (loginAttempt_failed e) ?w = [] \<and> \<not> now < loginAttempt_lockedUntil e)"
  have get: "map_get (LoginLimiter_entries (prune now l)) key =
      (case map_get (LoginLimiter_entries l) key of
         Some e \<Rightarrow> if ?keep e then Some (e\<lparr>loginAttempt_failed := recent (loginAttempt_failed e) ?w\<rparr>) else None
       | None \<Rightarrow> None)"
    using assms(1) map_get_filter [of "LoginLimiter_entries l" ?keep key]
    by (simp add: prune_def limiter_ok_def map_get_map_values split: option.splits)
  show ?thesis
  proof (cases "map_get (LoginLimiter_entries l) key")
    case None
    then show ?thesis using get by (simp add: limiter_view_def limiter_entry_def)
  next
    case (Some e)
    have "recent (loginAttempt_failed e) (later - LoginLimiter_window l) =
        recent (recent (loginAttempt_failed e) ?w) (later - LoginLimiter_window l)"
      using assms(2) by (simp add: recent_later)
    then show ?thesis
      using Some get assms(2,3) by (auto simp: limiter_view_def limiter_entry_def)
  qed
qed

lemma Allowed_view:
  "fst (Allowed key now l) = (case snd (limiter_view l key now) of
     None \<Rightarrow> (True, 0) | Some t \<Rightarrow> (False, time_Sub t now))"
  by (simp add: Allowed_def limiter_view_def Let_def)

lemma limiter_entry_put [simp]:
  "limiter_entry (l\<lparr>LoginLimiter_entries := map_put key e (LoginLimiter_entries l)\<rparr>) k =
     (if k = key then e else limiter_entry l k)"
  by (simp add: limiter_entry_def map_get_put)

lemma limiter_ok_put [simp]:
  "limiter_ok l \<Longrightarrow> limiter_ok (l\<lparr>LoginLimiter_entries := map_put key e (LoginLimiter_entries l)\<rparr>)"
  by (simp add: limiter_ok_def gm.ok_put)

lemma Failure_ok: "limiter_ok l \<Longrightarrow> limiter_ok (Failure key now l)"
  by (simp add: Failure_def Let_def prune_entries_ok)

lemma Failure_config [simp]:
  "LoginLimiter_window (Failure key now l) = LoginLimiter_window l"
  "LoginLimiter_burst (Failure key now l) = LoginLimiter_burst l"
  "LoginLimiter_lockout (Failure key now l) = LoginLimiter_lockout l"
  by (simp_all add: Failure_def Let_def)

lemma pruned_view:
  assumes "limiter_ok l" "zero_time \<le> now" "now \<le> later"
  shows "limiter_view (if b then prune now l else l) k later = limiter_view l k later"
  using assms prune_view by simp

lemma Failure_entry:
  fixes key :: string
  assumes "limiter_ok l" "zero_time \<le> now"
  defines "failed \<equiv> fst (limiter_view l key now) @ [now]"
  shows "if int (length failed) \<ge> LoginLimiter_burst l
    then limiter_entry (Failure key now l) key =
      \<lparr>loginAttempt_failed = [], loginAttempt_lockedUntil = now + LoginLimiter_lockout l\<rparr>
    else loginAttempt_failed (limiter_entry (Failure key now l) key) = failed \<and>
      (snd (limiter_view l key now) = None \<longrightarrow>
        loginAttempt_lockedUntil (limiter_entry (Failure key now l) key) \<le> now)"
proof -
  let ?l = "if length (LoginLimiter_entries l) \<ge> 10000 then prune now l else l"
  have cfg: "LoginLimiter_window ?l = LoginLimiter_window l" "LoginLimiter_burst ?l = LoginLimiter_burst l"
    "LoginLimiter_lockout ?l = LoginLimiter_lockout l"
    by simp_all
  have view: "limiter_view ?l key now = limiter_view l key now"
    using assms(1,2) by (intro pruned_view) auto
  have failed: "recent (loginAttempt_failed (limiter_entry ?l key)) (now - LoginLimiter_window l) @ [now] = failed"
    using arg_cong [OF view, of fst] unfolding failed_def limiter_view_def cfg by simp
  have locked: "loginAttempt_lockedUntil (limiter_entry ?l key) \<le> now" if "snd (limiter_view l key now) = None"
    using arg_cong [OF view, of snd] that by (simp add: limiter_view_def not_less split: if_splits)
  have "limiter_entry (Failure key now l) key =
      (if int (length failed) \<ge> LoginLimiter_burst l
       then (limiter_entry ?l key)\<lparr>loginAttempt_lockedUntil := now + LoginLimiter_lockout l, loginAttempt_failed := []\<rparr>
       else (limiter_entry ?l key)\<lparr>loginAttempt_failed := failed\<rparr>)"
    unfolding Failure_def Let_def cfg failed by simp
  then show ?thesis using locked by simp
qed

text \<open>The state of a key after failures \<open>ts\<close> inside one window, fewer than the burst.\<close>

definition failing :: "LoginLimiter \<Rightarrow> string \<Rightarrow> instant list \<Rightarrow> bool" where
  "failing l key ts \<longleftrightarrow> limiter_ok l \<and> loginAttempt_failed (limiter_entry l key) = ts \<and>
     (\<forall>t. (if ts = [] then zero_time else last ts) \<le> t \<longrightarrow>
        loginAttempt_lockedUntil (limiter_entry l key) \<le> t)"

lemma failing_step:
  assumes "failing l key ts" "zero_time \<le> t" "\<forall>s\<in>set ts. t - LoginLimiter_window l \<le> s"
    "\<forall>s\<in>set ts. s \<le> t" "int (length ts) + 1 < LoginLimiter_burst l"
  shows "failing (Failure key t l) key (ts @ [t])"
proof -
  have ok: "limiter_ok l" and failed: "loginAttempt_failed (limiter_entry l key) = ts"
    using assms(1) by (simp_all add: failing_def)
  have "(if ts = [] then zero_time else last ts) \<le> t"
    using assms(2,4) by auto
  then have free: "loginAttempt_lockedUntil (limiter_entry l key) \<le> t"
    using assms(1) unfolding failing_def by blast
  have "limiter_view l key t = (ts, None)"
    using free assms(3) failed by (simp add: limiter_view_def recent_all)
  then show ?thesis
    using Failure_entry [OF ok assms(2), of key] Failure_ok [OF ok] assms(5)
    by (auto simp: failing_def)
qed

lemma failing_run:
  assumes "failing l key []" "sorted ts" "\<forall>t\<in>set ts. zero_time \<le> t"
    "\<forall>s\<in>set ts. last ts - LoginLimiter_window l \<le> s" "int (length ts) < LoginLimiter_burst l"
  shows "failing (foldl (\<lambda>l t. Failure key t l) l ts) key ts \<and>
    LoginLimiter_window (foldl (\<lambda>l t. Failure key t l) l ts) = LoginLimiter_window l \<and>
    LoginLimiter_burst (foldl (\<lambda>l t. Failure key t l) l ts) = LoginLimiter_burst l \<and>
    LoginLimiter_lockout (foldl (\<lambda>l t. Failure key t l) l ts) = LoginLimiter_lockout l"
  using assms(2-)
proof (induction ts rule: rev_induct)
  case Nil
  then show ?case using assms(1) by simp
next
  case (snoc t ts)
  have "\<forall>s\<in>set ts. last ts - LoginLimiter_window l \<le> s"
  proof (cases "ts = []")
    case False
    then have "last ts \<le> t" using snoc.prems(1) by (simp add: sorted_append)
    then show ?thesis using snoc.prems(3) by auto
  qed simp
  then show ?case
    using snoc failing_step [of "foldl (\<lambda>l t. Failure key t l) l ts" key ts t]
    by (auto simp: sorted_append)
qed

section \<open>A reference limiter\<close>

text \<open>The rule the limiter implements, without a table, a size limit or pruning: per key the failures since the last
  lockout or success and the end of the last lockout.  Only the failures inside the window count.\<close>

type_synonym reference = "string \<Rightarrow> instant list \<times> instant"

datatype limiter_request = AskAllowed string | ReportFailure string | ReportSuccess string

definition in_window :: "duration \<Rightarrow> instant \<Rightarrow> instant list \<Rightarrow> instant list" where
  "in_window window now failures = filter (\<lambda>t. now - window \<le> t) failures"

fun reference_call :: "int \<Rightarrow> duration \<Rightarrow> duration \<Rightarrow> limiter_request \<times> instant \<Rightarrow> reference \<Rightarrow> (bool \<times> duration) list \<times> reference" where
  "reference_call burst window lockout (AskAllowed key, now) s =
     ([if now < snd (s key) then (False, time_Sub (snd (s key)) now) else (True, 0)], s)"
| "reference_call burst window lockout (ReportFailure key, now) s =
     ([], if burst \<le> int (length (in_window window now (fst (s key)))) + 1 then s(key := ([], now + lockout))
          else s(key := (fst (s key) @ [now], snd (s key))))"
| "reference_call burst window lockout (ReportSuccess key, now) s = ([], s(key := ([], zero_time)))"

fun limiter_call :: "limiter_request \<times> instant \<Rightarrow> LoginLimiter \<Rightarrow> (bool \<times> duration) list \<times> LoginLimiter" where
  "limiter_call (AskAllowed key, now) l = (case Allowed key now l of (answer, l') \<Rightarrow> ([answer], l'))"
| "limiter_call (ReportFailure key, now) l = ([], Failure key now l)"
| "limiter_call (ReportSuccess key, now) l = ([], Success key l)"

text \<open>The answers to a sequence of calls.\<close>

fun answers :: "('c \<Rightarrow> 's \<Rightarrow> 'a list \<times> 's) \<Rightarrow> 'c list \<Rightarrow> 's \<Rightarrow> 'a list" where
  "answers step [] s = []"
| "answers step (c # cs) s = (case step c s of (as, s') \<Rightarrow> as @ answers step cs s')"

definition no_attempts :: reference where "no_attempts = (\<lambda>key. ([], zero_time))"

text \<open>The simulation: from instant \<open>now\<close> on, the limiter sees of every key what the reference does.\<close>

definition reference_view :: "duration \<Rightarrow> reference \<Rightarrow> string \<Rightarrow> instant \<Rightarrow> instant list \<times> instant option" where
  "reference_view window s key now = (in_window window now (fst (s key)), if now < snd (s key) then Some (snd (s key)) else None)"

definition simulates :: "int \<Rightarrow> duration \<Rightarrow> duration \<Rightarrow> instant \<Rightarrow> LoginLimiter \<Rightarrow> reference \<Rightarrow> bool" where
  "simulates burst window lockout now l s \<longleftrightarrow> limiter_ok l \<and> LoginLimiter_burst l = burst \<and> LoginLimiter_window l = window \<and>
     LoginLimiter_lockout l = lockout \<and> (\<forall>key. sorted (fst (s key)) \<and> (\<forall>t\<in>set (fst (s key)). t \<le> now)) \<and>
     (\<forall>key later. now \<le> later \<longrightarrow> limiter_view l key later = reference_view window s key later)"

lemma simulates_later: "simulates b w k now l s \<Longrightarrow> now \<le> now' \<Longrightarrow> simulates b w k now' l s"
  unfolding simulates_def by (meson order_trans)

lemma in_window_later: "now \<le> later \<Longrightarrow> in_window w later (in_window w now ts) = in_window w later ts"
  by (induction ts) (auto simp: in_window_def)

lemma limiter_view_put:
  "limiter_view (l\<lparr>LoginLimiter_entries := map_put key e (LoginLimiter_entries l)\<rparr>) k now =
     (if k = key then (recent (loginAttempt_failed e) (now - LoginLimiter_window l),
        if now < loginAttempt_lockedUntil e then Some (loginAttempt_lockedUntil e) else None)
      else limiter_view l k now)"
  unfolding limiter_view_def by simp

lemma simulates_Allowed:
  assumes "simulates b w k now l s"
  shows "simulates b w k now (snd (Allowed key now l)) s"
proof -
  have "limiter_view (snd (Allowed key now l)) i later = limiter_view l i later" if "now \<le> later" for i later
    using that by (simp add: Allowed_def Let_def limiter_view_put recent_later) (simp add: limiter_view_def)
  then show ?thesis using assms by (auto simp: simulates_def Allowed_def Let_def)
qed

lemma Failure_view:
  fixes key :: string
  assumes "limiter_ok l" "zero_time \<le> now" "now \<le> later"
  defines "failed \<equiv> fst (limiter_view l key now) @ [now]"
  shows "limiter_view (Failure key now l) i later =
    (if i \<noteq> key then limiter_view l i later
     else if LoginLimiter_burst l \<le> int (length failed)
     then ([], if later < now + LoginLimiter_lockout l then Some (now + LoginLimiter_lockout l) else None)
     else (recent failed (later - LoginLimiter_window l), snd (limiter_view l key later)))"
proof -
  let ?l = "if length (LoginLimiter_entries l) \<ge> 10000 then prune now l else l"
  have cfg: "LoginLimiter_window ?l = LoginLimiter_window l" "LoginLimiter_burst ?l = LoginLimiter_burst l"
    "LoginLimiter_lockout ?l = LoginLimiter_lockout l" by simp_all
  have view: "limiter_view ?l j t = limiter_view l j t" if "now \<le> t" for j t
    using assms(1,2) that by (intro pruned_view) auto
  have failed: "recent (loginAttempt_failed (limiter_entry ?l key)) (now - LoginLimiter_window l) @ [now] = failed"
    using view [of now key] unfolding failed_def limiter_view_def cfg by simp
  have snd: "snd (limiter_view l key later) = (if later < loginAttempt_lockedUntil (limiter_entry ?l key)
      then Some (loginAttempt_lockedUntil (limiter_entry ?l key)) else None)"
    using view [OF assms(3), of key] unfolding limiter_view_def cfg by simp
  show ?thesis unfolding Failure_def Let_def limiter_view_put failed cfg snd using view [OF assms(3)] by simp
qed

lemma simulates_Failure:
  assumes sim: "simulates b w k now l s" and now: "zero_time \<le> now"
  shows "simulates b w k now (Failure key now l) (snd (reference_call b w k (ReportFailure key, now) s))"
proof -
  note l = sim [unfolded simulates_def]
  have seen: "fst (limiter_view l key now) = in_window w now (fst (s key))"
    using l by (simp add: reference_view_def)
  let ?failed = "in_window w now (fst (s key)) @ [now]"
  have "sorted ?failed" using l using sorted_filter [of "\<lambda>t. t" "fst (s key)"] by (auto simp: sorted_append in_window_def)
  then have recent: "recent ?failed (later - w) = in_window w later (fst (s key) @ [now])" if "now \<le> later" for later
    using in_window_later [OF that, of w "fst (s key)"] by (simp add: recent_sorted in_window_def)
  have views: "limiter_view (Failure key now l) i later =
      reference_view w (snd (reference_call b w k (ReportFailure key, now) s)) i later" if "now \<le> later" for i later
    using l that recent [OF that] by (simp add: Failure_view [OF _ now that] seen reference_view_def in_window_def)
  moreover have "sorted (fst (snd (reference_call b w k (ReportFailure key, now) s) i)) \<and>
      (\<forall>t\<in>set (fst (snd (reference_call b w k (ReportFailure key, now) s) i)). t \<le> now)" for i
    using l by (auto simp: sorted_append)
  ultimately show ?thesis using l by (simp add: simulates_def Failure_ok)
qed

lemma simulates_Success:
  assumes "simulates b w k now l s" "zero_time \<le> now"
  shows "simulates b w k now (Success key l) (s(key := ([], zero_time)))"
proof -
  have "limiter_view (Success key l) i later = (if i = key then ([], None) else limiter_view l i later)" if "now \<le> later" for i later
    using assms(2) that by (simp add: limiter_view_def Success_def limiter_entry_def map_get_del)
  then show ?thesis using assms by (auto simp: simulates_def Success_def limiter_ok_def gm.ok_del reference_view_def in_window_def)
qed

lemma simulates_call:
  assumes "simulates b w k now l s" "zero_time \<le> now"
  shows "fst (limiter_call (c, now) l) = fst (reference_call b w k (c, now) s) \<and>
    simulates b w k now (snd (limiter_call (c, now) l)) (snd (reference_call b w k (c, now) s))"
proof (cases c)
  case (AskAllowed key)
  have "limiter_view l key now = reference_view w s key now" using assms(1) by (simp add: simulates_def)
  then have "fst (Allowed key now l) = (if now < snd (s key) then (False, time_Sub (snd (s key)) now) else (True, 0))"
    by (simp add: Allowed_view reference_view_def)
  then show ?thesis using AskAllowed simulates_Allowed [OF assms(1), of key] by (simp add: case_prod_beta)
qed (use assms simulates_Failure simulates_Success in auto)

lemma simulates_answers:
  assumes "simulates b w k now l s" "zero_time \<le> now" "sorted (now # map snd calls)"
  shows "answers limiter_call calls l = answers (reference_call b w k) calls s"
  using assms
proof (induction calls arbitrary: now l s)
  case (Cons ct calls)
  obtain c t where ct: "ct = (c, t)" by (cases ct)
  have t: "now \<le> t" "sorted (t # map snd calls)" using Cons.prems(3) by (simp_all add: ct)
  then have *: "simulates b w k t l s" "zero_time \<le> t" using simulates_later [OF Cons.prems(1)] Cons.prems(2) by auto
  from simulates_call [OF *, of c] Cons.IH [OF _ *(2) t(2)] show ?case by (simp add: ct case_prod_beta)
qed simp

section \<open>Properties\<close>

text \<open>C9: The limiter implements the reference limiter, and pruning is unobservable.  For every sequence of
  questions, reported failures and reported successes at non-decreasing instants, over any number of keys, a new
  limiter gives the same answers and the same waiting times as the reference, which has no table to prune: a key
  is refused exactly during the lockout that the configured number of failures inside one window started.\<close>

theorem limiter_answers_reference:
  assumes "sorted (map snd calls)" "\<forall>t\<in>set (map snd calls). zero_time \<le> t"
  shows "answers limiter_call calls (NewLoginLimiter burst window lockout) =
    answers (reference_call burst window lockout) calls no_attempts"
proof -
  have "simulates burst window lockout zero_time (NewLoginLimiter burst window lockout) no_attempts"
    by (simp add: simulates_def NewLoginLimiter_def limiter_ok_def map_ok_def no_attempts_def limiter_view_def limiter_entry_def
        map_get_def reference_view_def in_window_def)
  then show ?thesis using assms by (intro simulates_answers) auto
qed

theorem limiter_answers_reference_witness:
  "answers limiter_call [(ReportFailure ''a'', 0), (ReportFailure ''a'', Second), (AskAllowed ''a'', Second),
     (AskAllowed ''b'', Minute), (AskAllowed ''a'', Minute), (AskAllowed ''a'', 2 * Minute)]
     (NewLoginLimiter 2 Minute Minute) = [(False, Minute), (True, 0), (False, Second), (True, 0)]"
proof -
  let ?calls = "[(ReportFailure ''a'', 0), (ReportFailure ''a'', Second), (AskAllowed ''a'', Second),
     (AskAllowed ''b'', Minute), (AskAllowed ''a'', Minute), (AskAllowed ''a'', 2 * Minute)]"
  have "sorted (map snd ?calls)" "\<forall>t\<in>set (map snd ?calls). zero_time \<le> t" by (simp_all add: duration_defs zero_time_def)
  from limiter_answers_reference [OF this, of 2 Minute Minute] show ?thesis
    by (simp add: in_window_def no_attempts_def duration_defs zero_time_def time_Sub_def)
qed

definition limiter_example :: LoginLimiter where
  "limiter_example = \<lparr>LoginLimiter_entries =
     [(''10.0.0.1'', \<lparr>loginAttempt_failed = [0], loginAttempt_lockedUntil = zero_time\<rparr>),
      (''10.0.0.2'', \<lparr>loginAttempt_failed = [], loginAttempt_lockedUntil = 20 * Minute\<rparr>)],
     LoginLimiter_burst = 3, LoginLimiter_window = 5 * Minute, LoginLimiter_lockout = 15 * Minute\<rparr>"

text \<open>C10: A key is locked by exactly \<open>burst\<close> failures inside the window.  From a limiter
  that knows nothing of the key, after failures at the instants \<open>ts\<close>, at most \<open>burst\<close> of
  them and all inside one window, a login is refused exactly when there were \<open>burst\<close> and
  the lockout counted from the last has not run out.\<close>

theorem limiter_locks_after_burst:
  assumes "limiter_ok l" "map_get (LoginLimiter_entries l) key = None"
    and "sorted ts" "ts \<noteq> []" "zero_time \<le> hd ts" "int (length ts) \<le> LoginLimiter_burst l"
    and "last ts - hd ts \<le> LoginLimiter_window l" "last ts \<le> now"
  shows "fst (fst (Allowed key now (foldl (\<lambda>l t. Failure key t l) l ts))) =
    (int (length ts) < LoginLimiter_burst l \<or> last ts + LoginLimiter_lockout l \<le> now)"
proof -
  obtain us t where ts: "ts = us @ [t]" using assms(4) by (metis rev_exhaust)
  have hd: "\<forall>s\<in>set ts. hd ts \<le> s" using assms(3,4) by (cases ts) auto
  have start: "failing l key []"
    using assms(1,2) by (simp add: failing_def limiter_entry_def)
  let ?l = "foldl (\<lambda>l t. Failure key t l) l us"
  have t: "\<forall>s\<in>set us. s \<le> t" "\<forall>s\<in>set us. t - LoginLimiter_window l \<le> s" "zero_time \<le> t"
    using assms(3,5,7) hd by (fastforce simp: ts sorted_append)+
  have us: "sorted us" "\<forall>s\<in>set us. zero_time \<le> s" "\<forall>s\<in>set us. last us - LoginLimiter_window l \<le> s"
    "int (length us) < LoginLimiter_burst l" "\<forall>s\<in>set us. s \<le> t" "\<forall>s\<in>set us. t - LoginLimiter_window l \<le> s"
    "zero_time \<le> t"
    using assms(3,5,6) hd t last_in_set [of us] by (fastforce simp: ts sorted_append)+
  note run = failing_run [OF start us(1-4)]
  have ok: "limiter_ok ?l" using run by (simp add: failing_def)
  have "(if us = [] then zero_time else last us) \<le> t" using us(5,7) by auto
  then have free: "loginAttempt_lockedUntil (limiter_entry ?l key) \<le> t"
    using run unfolding failing_def by blast
  have view: "limiter_view ?l key t = (us, None)"
    using free us(6) run by (simp add: limiter_view_def failing_def recent_all)
  show ?thesis
    using Failure_entry [OF ok us(7), of key] view run assms(8)
    by (auto simp: ts Allowed_def Let_def not_le split: if_splits)
qed

theorem limiter_locks_after_burst_witness:
  "fst (fst (Allowed ''10.0.0.3'' (2 * Minute)
     (foldl (\<lambda>l t. Failure ''10.0.0.3'' t l) limiter_example [0, Second, Minute]))) = False"
proof -
  have "limiter_ok limiter_example" by (simp add: limiter_ok_def map_ok_def limiter_example_def)
  then show ?thesis
    using limiter_locks_after_burst [of limiter_example "''10.0.0.3''" "[0, Second, Minute]" "2 * Minute"]
    by (simp add: limiter_example_def duration_defs zero_time_def map_get_def)
qed

end
