(* ===== verification/Hub.thy ===== *)
theory Hub
  imports Domain Maps
begin

text \<open>
  The event hub of internal/events/hub.go: every published event gets the next revision,
  the last 1024 events are kept, and each subscriber has a channel of 64 events into
  which a publication is dropped when it is full.  Publish draws the revision before it
  takes the mutex, so a call has two steps, and other calls may come in between: the runs
  of the hub interleave the steps of any number of calls.  The wall clock read by Publish
  is the function \<open>Hub_clock\<close> of the revision.
\<close>

datatype payload =
    PUser User | PSession Session | PUserRef string | PMembership UserGroupMembership
  | PDevice Device | PACLRule ACLRule | PStrategy Strategy | PRelay RelayServer
  | PAudit AuditEvent | PJSON json

record Event =
  Event_SourceID :: string
  Event_Revision :: int
  Event_Type :: string
  Event_OccurredAt :: instant
  Event_Payload :: payload

record Hub =
  Hub_sourceID :: string
  Hub_revision :: int
  Hub_nextID :: int
  Hub_subscribers :: "(int, Event list) gomap"
  Hub_history :: "Event list"
  Hub_clock :: "int \<Rightarrow> instant"

definition historyLimit :: nat where "historyLimit = 1024"

definition channelSize :: nat where "channelSize = 64"

definition NewHub :: "string \<Rightarrow> (int \<Rightarrow> instant) \<Rightarrow> Hub" where
  "NewHub sourceID clock = \<lparr>Hub_sourceID = sourceID, Hub_revision = 0, Hub_nextID = 0,
     Hub_subscribers = [], Hub_history = [], Hub_clock = clock\<rparr>"

definition trim_history :: "Event list \<Rightarrow> Event list" where
  "trim_history es = (if length es > historyLimit then drop (length es - historyLimit) es else es)"

definition next_event :: "string \<Rightarrow> payload \<Rightarrow> Hub \<Rightarrow> Event" where
  "next_event eventType payload h = \<lparr>Event_SourceID = Hub_sourceID h,
     Event_Revision = Hub_revision h + 1, Event_Type = eventType,
     Event_OccurredAt = Hub_clock h (Hub_revision h + 1), Event_Payload = payload\<rparr>"

definition offer :: "Event \<Rightarrow> Event list \<Rightarrow> Event list" where
  "offer event buffer = (if length buffer < channelSize then buffer @ [event] else buffer)"

text \<open>The two steps of Publish: the event is built with the revision it draws from the atomic counter, and under
  the mutex it enters the history and is offered to every channel.\<close>

definition draw_event :: "string \<Rightarrow> payload \<Rightarrow> Hub \<Rightarrow> Event \<times> Hub" where
  "draw_event eventType payload h = (next_event eventType payload h, h\<lparr>Hub_revision := Hub_revision h + 1\<rparr>)"

definition enter_event :: "Event \<Rightarrow> Hub \<Rightarrow> Hub" where
  "enter_event event h = h\<lparr>Hub_history := trim_history (Hub_history h @ [event]),
     Hub_subscribers := map (\<lambda>(i, buffer). (i, offer event buffer)) (Hub_subscribers h)\<rparr>"

text \<open>A call that no other call overlaps.\<close>

definition Publish :: "string \<Rightarrow> payload \<Rightarrow> Hub \<Rightarrow> Hub" where
  "Publish eventType payload h = (case draw_event eventType payload h of (event, h') \<Rightarrow> enter_event event h')"

definition SubscribeAfter :: "string \<Rightarrow> int \<Rightarrow> Hub \<Rightarrow> (int \<times> Event list) \<times> Hub" where
  "SubscribeAfter sourceID revision h =
     (let i = Hub_nextID h + 1 in
      ((i, filter (\<lambda>e. sourceID \<noteq> Hub_sourceID h \<or> Event_Revision e > revision) (Hub_history h)),
       h\<lparr>Hub_nextID := i, Hub_subscribers := map_put i [] (Hub_subscribers h)\<rparr>))"

definition Subscribe :: "Hub \<Rightarrow> int \<times> Hub" where
  "Subscribe h = (case SubscribeAfter [] 0 h of ((i, _), h') \<Rightarrow> (i, h'))"

definition Unsubscribe :: "int \<Rightarrow> Hub \<Rightarrow> Hub" where
  "Unsubscribe i h = h\<lparr>Hub_subscribers := map_del i (Hub_subscribers h)\<rparr>"

text \<open>A subscriber takes the next event of its channel.\<close>

definition Receive :: "int \<Rightarrow> Hub \<Rightarrow> Event option \<times> Hub" where
  "Receive i h = (case map_get (Hub_subscribers h) i of
      Some (e # es) \<Rightarrow> (Some e, h\<lparr>Hub_subscribers := map_put i es (Hub_subscribers h)\<rparr>)
    | _ \<Rightarrow> (None, h))"

section \<open>Interleaved calls\<close>

text \<open>The state of the hub with the calls of Publish that have drawn their revision and wait for the mutex.\<close>

type_synonym hub_state = "Hub \<times> Event list"

datatype hub_action =
    Draws string payload | Enters Event | Subscribes string int | Unsubscribes int | Receives int

fun hub_do :: "hub_action \<Rightarrow> hub_state \<Rightarrow> hub_state option" where
  "hub_do (Draws t p) (h, waiting) = (case draw_event t p h of (e, h') \<Rightarrow> Some (h', waiting @ [e]))"
| "hub_do (Enters e) (h, waiting) = (if e \<in> set waiting then Some (enter_event e h, remove1 e waiting) else None)"
| "hub_do (Subscribes s r) (h, waiting) = Some (snd (SubscribeAfter s r h), waiting)"
| "hub_do (Unsubscribes i) (h, waiting) = Some (Unsubscribe i h, waiting)"
| "hub_do (Receives i) (h, waiting) = Some (snd (Receive i h), waiting)"

fun hub_run :: "hub_action list \<Rightarrow> hub_state \<Rightarrow> hub_state option" where
  "hub_run [] st = Some st"
| "hub_run (a # acts) st = (case hub_do a st of None \<Rightarrow> None | Some st' \<Rightarrow> hub_run acts st')"

text \<open>The events in the order in which they take the mutex.\<close>

fun entered :: "hub_action list \<Rightarrow> Event list" where
  "entered [] = []"
| "entered (Enters e # acts) = e # entered acts"
| "entered (_ # acts) = entered acts"

text \<open>What a subscriber reads from its channel in a run, and that it stays subscribed and has room in its channel
  whenever an event enters.\<close>

definition reads :: "int \<Rightarrow> hub_action \<Rightarrow> Hub \<Rightarrow> Event list" where
  "reads i a h = (if a = Receives i then (case fst (Receive i h) of Some e \<Rightarrow> [e] | None \<Rightarrow> []) else [])"

fun delivered :: "int \<Rightarrow> hub_action list \<Rightarrow> hub_state \<Rightarrow> Event list" where
  "delivered i [] st = []"
| "delivered i (a # acts) st = reads i a (fst st) @ (case hub_do a st of None \<Rightarrow> [] | Some st' \<Rightarrow> delivered i acts st')"

definition unread :: "int \<Rightarrow> Hub \<Rightarrow> nat" where
  "unread i h = (case map_get (Hub_subscribers h) i of Some buffer \<Rightarrow> length buffer | None \<Rightarrow> 0)"

definition room :: "int \<Rightarrow> hub_action \<Rightarrow> Hub \<Rightarrow> bool" where
  "room i a h = (case a of Enters _ \<Rightarrow> unread i h < channelSize | Unsubscribes j \<Rightarrow> j \<noteq> i | _ \<Rightarrow> True)"

fun keeps_up :: "int \<Rightarrow> hub_action list \<Rightarrow> hub_state \<Rightarrow> bool" where
  "keeps_up i [] st = True"
| "keeps_up i (a # acts) st \<longleftrightarrow> room i a (fst st) \<and> (case hub_do a st of None \<Rightarrow> True | Some st' \<Rightarrow> keeps_up i acts st')"

section \<open>The invariant\<close>

text \<open>With the events \<open>es\<close> entered so far: the history is their last part, entered and waiting events carry the
  revisions up to the current one, subscriber identifiers are below the next one, and channels are bounded.\<close>

abbreviation last_events :: "Event list \<Rightarrow> Event list" where
  "last_events es \<equiv> drop (length es - historyLimit) es"

definition subscribers_ok :: "Hub \<Rightarrow> bool" where
  "subscribers_ok h \<longleftrightarrow> map_ok (Hub_subscribers h) \<and>
     (\<forall>(i, b)\<in>set (Hub_subscribers h). i \<le> Hub_nextID h \<and> length b \<le> channelSize)"

definition hub_inv :: "Event list \<Rightarrow> hub_state \<Rightarrow> bool" where
  "hub_inv es st \<longleftrightarrow> (case st of (h, waiting) \<Rightarrow>
     Hub_history h = last_events es \<and> 0 \<le> Hub_revision h \<and>
     distinct (map Event_Revision (es @ waiting)) \<and> set (map Event_Revision (es @ waiting)) = {1 .. Hub_revision h} \<and>
     (\<forall>e\<in>set (es @ waiting). Event_SourceID e = Hub_sourceID h) \<and> subscribers_ok h)"

lemma hub_inv_NewHub: "hub_inv [] (NewHub s c, [])"
  by (simp add: hub_inv_def NewHub_def subscribers_ok_def)

lemma trim_last: "trim_history (last_events es @ [e]) = last_events (es @ [e])"
  by (auto simp: trim_history_def Suc_diff_le)

lemma map_put_fresh:
  fixes n :: int
  shows "\<forall>(i, b)\<in>set m. i \<le> n \<Longrightarrow> map_put (n + 1) v m = m @ [(n + 1, v)]"
proof -
  assume "\<forall>(i, b)\<in>set m. i \<le> n"
  then have "n + 1 \<notin> fst ` set m" by fastforce
  then show ?thesis by (simp add: map_put_def)
qed

lemma map_put_subset: "set (map_put k v m) \<subseteq> insert (k, v) (set m)"
  by (auto simp: map_put_def split: if_splits)

lemma subscribers_enter: "subscribers_ok h \<Longrightarrow> subscribers_ok (enter_event e h)"
  by (fastforce simp: subscribers_ok_def enter_event_def map_ok_def offer_def comp_def case_prod_beta)

lemma subscribers_SubscribeAfter:
  assumes "subscribers_ok h"
  shows "subscribers_ok (snd (SubscribeAfter s r h))"
proof -
  have "map_put (Hub_nextID h + 1) [] (Hub_subscribers h) = Hub_subscribers h @ [(Hub_nextID h + 1, [])]"
    using assms by (intro map_put_fresh) (auto simp: subscribers_ok_def)
  moreover have "map_ok (map_put (Hub_nextID h + 1) [] (Hub_subscribers h))"
    using assms by (simp add: subscribers_ok_def gm.ok_put)
  ultimately show ?thesis using assms by (auto simp: subscribers_ok_def SubscribeAfter_def Let_def)
qed

lemma subscribers_Unsubscribe: "subscribers_ok h \<Longrightarrow> subscribers_ok (Unsubscribe i h)"
  using gm.ok_del [of "Hub_subscribers h" i] by (auto simp: subscribers_ok_def Unsubscribe_def) (auto simp: map_del_def)

lemma subscribers_Receive:
  assumes "subscribers_ok h"
  shows "subscribers_ok (snd (Receive i h))"
proof (cases "map_get (Hub_subscribers h) i")
  case (Some b)
  then have mem: "(i, b) \<in> set (Hub_subscribers h)" by (simp add: map_get_def map_of_SomeD)
  show ?thesis
  proof (cases b)
    case (Cons e es)
    then have "i \<le> Hub_nextID h" "length es \<le> channelSize" using assms mem by (auto simp: subscribers_ok_def)
    then have "\<forall>(j, c)\<in>set (map_put i es (Hub_subscribers h)). j \<le> Hub_nextID h \<and> length c \<le> channelSize"
      using assms map_put_subset [of i es "Hub_subscribers h"] unfolding subscribers_ok_def by fast
    then show ?thesis using assms Some Cons by (simp add: subscribers_ok_def Receive_def gm.ok_put)
  qed (use assms Some in \<open>simp add: Receive_def\<close>)
qed (use assms in \<open>simp add: Receive_def\<close>)

lemma hub_other_fields:
  "Hub_history (snd (SubscribeAfter s r h)) = Hub_history h" "Hub_history (Unsubscribe i h) = Hub_history h"
  "Hub_history (snd (Receive i h)) = Hub_history h"
  "Hub_revision (snd (SubscribeAfter s r h)) = Hub_revision h" "Hub_revision (Unsubscribe i h) = Hub_revision h"
  "Hub_revision (snd (Receive i h)) = Hub_revision h"
  "Hub_sourceID (snd (SubscribeAfter s r h)) = Hub_sourceID h" "Hub_sourceID (Unsubscribe i h) = Hub_sourceID h"
  "Hub_sourceID (snd (Receive i h)) = Hub_sourceID h"
  by (auto simp: SubscribeAfter_def Let_def Unsubscribe_def Receive_def split: option.splits list.splits)

lemma hub_inv_draw:
  assumes "hub_inv es (h, waiting)" "draw_event t p h = (e, h')"
  shows "hub_inv es (h', waiting @ [e])"
proof -
  have e: "Event_Revision e = Hub_revision h + 1" "h' = h\<lparr>Hub_revision := Hub_revision h + 1\<rparr>" "Event_SourceID e = Hub_sourceID h"
    using assms(2) by (auto simp: draw_event_def next_event_def)
  have "insert (Hub_revision h + 1) {1 .. Hub_revision h} = {1 .. Hub_revision h + 1}"
    using assms(1) by (auto simp: hub_inv_def)
  moreover have "Hub_revision h + 1 \<notin> set (map Event_Revision (es @ waiting))"
    using assms(1) by (simp add: hub_inv_def del: set_map map_append set_append)
  ultimately show ?thesis using assms(1) e by (auto simp: hub_inv_def subscribers_ok_def)
qed

lemma hub_inv_enter:
  assumes "hub_inv es (h, waiting)" "e \<in> set waiting"
  shows "hub_inv (es @ [e]) (enter_event e h, remove1 e waiting)"
proof -
  let ?all = "map Event_Revision ((es @ [e]) @ remove1 e waiting)" and ?old = "map Event_Revision (es @ waiting)"
  obtain xs ys where "waiting = xs @ e # ys" "e \<notin> set xs" using split_list_first [OF assms(2)] by blast
  then have "distinct ?all = distinct ?old" "set ?all = set ?old" by (auto simp: remove1_append)
  moreover have "\<forall>x\<in>set ((es @ [e]) @ remove1 e waiting). Event_SourceID x = Hub_sourceID h"
    using assms set_remove1_subset [of e waiting] unfolding hub_inv_def by auto
  moreover have "Hub_history (enter_event e h) = last_events (es @ [e])"
    using assms(1) trim_last [of es e] by (simp add: hub_inv_def enter_event_def)
  moreover have "Hub_revision (enter_event e h) = Hub_revision h" "Hub_sourceID (enter_event e h) = Hub_sourceID h"
    by (simp_all add: enter_event_def)
  ultimately show ?thesis
    using assms(1) subscribers_enter [of h e] unfolding hub_inv_def by (simp del: map_append set_append set_map)
qed

lemma hub_inv_run:
  assumes "hub_inv es st" "hub_run acts st = Some st'"
  shows "hub_inv (es @ entered acts) st'"
  using assms
proof (induction acts arbitrary: es st)
  case (Cons a acts)
  obtain h waiting where st: "st = (h, waiting)" by (cases st)
  from Cons.prems(2) obtain st1 where st1: "hub_do a st = Some st1" "hub_run acts st1 = Some st'"
    by (auto split: option.splits)
  have "hub_inv (es @ entered [a]) st1"
  proof (cases a)
    case (Draws t p)
    then show ?thesis using Cons.prems(1) st1(1) hub_inv_draw [of es h waiting t p] by (auto simp: st split: prod.splits)
  next
    case (Enters e)
    then show ?thesis using Cons.prems(1) st1(1) hub_inv_enter by (auto simp: st split: if_splits)
  qed (use Cons.prems(1) st1(1) in \<open>auto simp: st hub_inv_def hub_other_fields subscribers_SubscribeAfter
        subscribers_Unsubscribe subscribers_Receive\<close>)
  moreover have "entered (a # acts) = entered [a] @ entered acts" by (cases a) simp_all
  ultimately show ?case using Cons.IH st1(2) by (metis append_assoc)
qed simp

lemma hub_run_source: "hub_run acts st = Some st' \<Longrightarrow> Hub_sourceID (fst st') = Hub_sourceID (fst st)"
proof (induction acts arbitrary: st)
  case (Cons a acts)
  obtain h waiting where st: "st = (h, waiting)" by (cases st)
  from Cons.prems obtain st1 where st1: "hub_do a st = Some st1" "hub_run acts st1 = Some st'" by (auto split: option.splits)
  then have "Hub_sourceID (fst st1) = Hub_sourceID (fst st)"
    by (cases a) (auto simp: st hub_other_fields draw_event_def enter_event_def split: if_splits)
  then show ?case using Cons.IH [OF st1(2)] by simp
qed simp

section \<open>Calls that do not overlap\<close>

lemma Publish_eq:
  "Publish t p h = h\<lparr>Hub_revision := Hub_revision h + 1, Hub_history := trim_history (Hub_history h @ [next_event t p h]),
     Hub_subscribers := map (\<lambda>(i, buffer). (i, offer (next_event t p h) buffer)) (Hub_subscribers h)\<rparr>"
  by (simp add: Publish_def draw_event_def enter_event_def)

lemma Publish_run: "hub_run [Draws t p, Enters (next_event t p h)] (h, []) = Some (Publish t p h, [])"
  by (simp add: Publish_def draw_event_def)

text \<open>No event of the history is later than the revision of the hub.\<close>

definition hub_past :: "Hub \<Rightarrow> bool" where
  "hub_past h \<longleftrightarrow> (\<forall>e\<in>set (Hub_history h). Event_Revision e \<le> Hub_revision h)"

lemma hub_past_run:
  assumes "hub_run acts (NewHub s c, []) = Some (h, waiting)"
  shows "hub_past h"
proof -
  have inv: "hub_inv (entered acts) (h, waiting)" using hub_inv_run [OF hub_inv_NewHub assms] by simp
  then have "set (Hub_history h) \<subseteq> set (entered acts @ waiting)" by (auto simp: hub_inv_def dest: in_set_dropD)
  then have "Event_Revision ` set (Hub_history h) \<subseteq> {1 .. Hub_revision h}"
    using inv image_mono [of _ _ Event_Revision] unfolding hub_inv_def prod.case set_map by metis
  then show ?thesis by (auto simp: hub_past_def)
qed

section \<open>Delivery\<close>

lemma enter_channel:
  "map_get (Hub_subscribers h) i = Some b \<Longrightarrow> map_get (Hub_subscribers (enter_event e h)) i = Some (offer e b)"
  by (simp add: enter_event_def map_get_def map_of_map)

text \<open>One step: what was in the channel and what enters is what is read and what stays in the channel.\<close>

lemma channel_step:
  assumes "map_get (Hub_subscribers h) i = Some b" "i \<le> Hub_nextID h" "hub_do a (h, waiting) = Some (h', waiting')" "room i a h"
  shows "i \<le> Hub_nextID h' \<and> (\<exists>c. map_get (Hub_subscribers h') i = Some c \<and> b @ entered [a] = reads i a h @ c)"
proof (cases a)
  case (Enters e)
  then have "h' = enter_event e h" "length b < channelSize" using assms by (auto simp: room_def unread_def split: if_splits)
  then show ?thesis using assms(1,2) Enters enter_channel [OF assms(1), of e]
    by (simp add: offer_def reads_def) (simp add: enter_event_def)
next
  case (Receives j)
  then have h': "h' = snd (Receive j h)" using assms(3) by simp
  show ?thesis
  proof (cases "j = i")
    case True
    then show ?thesis using assms(1,2) h' Receives by (cases b) (auto simp: Receive_def reads_def map_get_put)
  next
    case False
    then show ?thesis using assms(1,2) h' Receives by (auto simp: Receive_def reads_def map_get_put split: option.splits list.splits)
  qed
qed (use assms in \<open>auto simp: draw_event_def SubscribeAfter_def Let_def Unsubscribe_def reads_def room_def map_get_put map_get_del\<close>)

lemma channel_run:
  assumes "map_get (Hub_subscribers h) i = Some b" "i \<le> Hub_nextID h" "hub_run acts (h, waiting) = Some (h', waiting')"
    "keeps_up i acts (h, waiting)"
  shows "\<exists>c. map_get (Hub_subscribers h') i = Some c \<and> b @ entered acts = delivered i acts (h, waiting) @ c"
  using assms
proof (induction acts arbitrary: h waiting b)
  case (Cons a acts)
  from Cons.prems(3) obtain h1 w1 where st1: "hub_do a (h, waiting) = Some (h1, w1)" "hub_run acts (h1, w1) = Some (h', waiting')"
    by (auto split: option.splits)
  from channel_step [OF Cons.prems(1,2) st1(1)] Cons.prems(4) obtain c where
    c: "i \<le> Hub_nextID h1" "map_get (Hub_subscribers h1) i = Some c" "b @ entered [a] = reads i a h @ c" by auto
  from Cons.IH [OF c(2,1) st1(2)] Cons.prems(4) st1(1) obtain c' where
    c': "map_get (Hub_subscribers h') i = Some c'" "c @ entered acts = delivered i acts (h1, w1) @ c'" by auto
  have "entered (a # acts) = entered [a] @ entered acts" by (cases a) simp_all
  then have "b @ entered (a # acts) = reads i a h @ delivered i acts (h1, w1) @ c'"
    using c(3) c'(2) by (metis append_assoc)
  then show ?case using c'(1) st1(1) by simp
qed simp

section \<open>Properties\<close>

text \<open>C11: The hub's history is exact under every interleaving.  Whatever calls of Publish, subscriptions,
  cancellations and deliveries interleave, and although a call draws its revision before it takes the mutex, the
  history is the last 1024 events, or all if there were fewer, in the order in which the calls took the mutex;
  every revision up to the current one belongs to exactly one event, which has entered or whose call is still
  waiting for the mutex; and no channel holds more than 64 events.\<close>

theorem hub_history_exact:
  assumes "hub_run acts (NewHub sourceID clock, []) = Some (h, waiting)"
  shows "Hub_history h = drop (length (entered acts) - 1024) (entered acts) \<and>
    distinct (map Event_Revision (entered acts @ waiting)) \<and>
    set (map Event_Revision (entered acts @ waiting)) = {1 .. Hub_revision h} \<and>
    list_all (\<lambda>(i, channel). length channel \<le> 64) (Hub_subscribers h)"
proof -
  have "hub_inv (entered acts) (h, waiting)"
    using hub_inv_run [OF hub_inv_NewHub assms] by simp
  then show ?thesis
    by (auto simp: hub_inv_def subscribers_ok_def historyLimit_def channelSize_def list_all_iff)
qed

text \<open>Two calls whose second steps come in the opposite order of their first.\<close>

definition hub_example :: Hub where "hub_example = NewHub ''src'' (\<lambda>r. r)"

definition swapped_events :: "Event list" where
  "swapped_events = [next_event ''SESSION_CREATED'' (PUserRef ''u'') (hub_example\<lparr>Hub_revision := 1\<rparr>),
     next_event ''SESSION_REVOKED_ALL'' (PUserRef ''u'') hub_example]"

definition swapped_calls :: "hub_action list" where
  "swapped_calls = [Draws ''SESSION_REVOKED_ALL'' (PUserRef ''u''), Draws ''SESSION_CREATED'' (PUserRef ''u''),
     Enters (swapped_events ! 0), Enters (swapped_events ! 1)]"

lemma swapped_run:
  "hub_run swapped_calls (NewHub ''src'' (\<lambda>r. r), []) =
     Some (hub_example\<lparr>Hub_revision := 2, Hub_history := swapped_events\<rparr>, [])"
  by (simp add: swapped_calls_def swapped_events_def hub_example_def NewHub_def draw_event_def next_event_def enter_event_def
      trim_history_def historyLimit_def)

theorem hub_history_exact_witness:
  "entered swapped_calls = swapped_events \<and> map Event_Revision swapped_events = [2, 1] \<and>
   set (map Event_Revision (entered swapped_calls @ [])) = {1 .. 2}"
proof -
  have "entered swapped_calls = swapped_events" "map Event_Revision swapped_events = [2, 1]"
    by (simp_all add: swapped_calls_def swapped_events_def next_event_def hub_example_def NewHub_def)
  then show ?thesis using hub_history_exact [OF swapped_run] by simp
qed

text \<open>C12: SubscribeAfter closes the race between snapshot and stream.  Whatever happened before, a subscriber
  that asks for the events after a revision receives the later events of the history, and then every event that
  enters the hub, in that order and none twice, as long as it stays subscribed and its channel of 64 has room
  whenever an event enters.  If the events no longer in the history are not later than its revision, every
  revision after it has been received, is in the channel, or belongs to a call still waiting for the mutex.\<close>

theorem SubscribeAfter_no_gap:
  assumes before: "hub_run acts0 (NewHub sourceID clock, []) = Some (h0, waiting0)"
    and sub: "SubscribeAfter sourceID revision h0 = ((i, backlog), h1)"
    and after: "hub_run acts (h1, waiting0) = Some (h, waiting)" and up: "keeps_up i acts (h1, waiting0)"
  shows "\<exists>channel stream. map_get (Hub_subscribers h) i = Some channel \<and>
    stream = backlog @ delivered i acts (h1, waiting0) @ channel \<and>
    stream = filter (\<lambda>e. revision < Event_Revision e) (Hub_history h0) @ entered acts \<and> distinct (map Event_Revision stream) \<and>
    ((\<forall>e\<in>set (entered acts0) - set (Hub_history h0). Event_Revision e \<le> revision) \<longrightarrow>
      {max revision 0 + 1 .. Hub_revision h} \<subseteq> set (map Event_Revision (stream @ waiting)))"
proof -
  let ?old = "filter (\<lambda>e. revision < Event_Revision e) (Hub_history h0)"
  have inv0: "hub_inv (entered acts0) (h0, waiting0)" using hub_inv_run [OF hub_inv_NewHub before] by simp
  have src: "Hub_sourceID h0 = sourceID"
    using hub_run_source [OF before] by (simp add: NewHub_def)
  have h1: "h1 = snd (SubscribeAfter sourceID revision h0)" "i = Hub_nextID h0 + 1" "backlog = ?old"
    using sub by (auto simp: SubscribeAfter_def Let_def src)
  have "hub_inv (entered acts0) (h1, waiting0)"
    using inv0 by (simp add: h1(1) hub_inv_def hub_other_fields subscribers_SubscribeAfter)
  from hub_inv_run [OF this after] have inv: "hub_inv (entered acts0 @ entered acts) (h, waiting)" .
  have "map_get (Hub_subscribers h1) i = Some []" "i \<le> Hub_nextID h1"
    by (simp_all add: h1(1,2) SubscribeAfter_def Let_def map_get_put)
  from channel_run [OF this after up] obtain channel where
    channel: "map_get (Hub_subscribers h) i = Some channel" "entered acts = delivered i acts (h1, waiting0) @ channel" by auto
  have hist: "Hub_history h0 = last_events (entered acts0)" using inv0 by (simp add: hub_inv_def)
  have "distinct (map Event_Revision (entered acts0))" "distinct (map Event_Revision (entered acts))"
    "Event_Revision ` set (entered acts0) \<inter> Event_Revision ` set (entered acts) = {}" using inv by (simp_all add: hub_inv_def) auto
  then have dist: "distinct (map Event_Revision (?old @ entered acts))"
    by (auto simp: hist drop_map [symmetric] intro!: distinct_map_filter dest!: in_set_dropD)
  have "{max revision 0 + 1 .. Hub_revision h} \<subseteq> set (map Event_Revision ((?old @ entered acts) @ waiting))"
    if gone: "\<forall>e\<in>set (entered acts0) - set (Hub_history h0). Event_Revision e \<le> revision"
  proof
    fix n assume n: "n \<in> {max revision 0 + 1 .. Hub_revision h}"
    then have "n \<in> {1 .. Hub_revision h}" by auto
    then have "n \<in> set (map Event_Revision ((entered acts0 @ entered acts) @ waiting))"
      using inv by (simp add: hub_inv_def del: set_map set_append map_append)
    then obtain e where "Event_Revision e = n" "e \<in> set (entered acts0) \<or> e \<in> set (entered acts @ waiting)" by auto
    moreover have "\<not> n \<le> revision" using n by auto
    ultimately have "e \<in> set ((?old @ entered acts) @ waiting)" using gone by auto
    then show "n \<in> set (map Event_Revision ((?old @ entered acts) @ waiting))" using \<open>Event_Revision e = n\<close> unfolding set_map by blast
  qed
  then show ?thesis using channel dist h1(3) by (intro exI [of _ channel] exI [of _ "?old @ entered acts"]) simp
qed

text \<open>The same two calls around a subscription: the event that was waiting is delivered through the channel.\<close>

definition half_swapped :: Hub where
  "half_swapped = hub_example\<lparr>Hub_revision := 2, Hub_history := [swapped_events ! 0]\<rparr>"

lemma half_swapped_run:
  "hub_run (take 3 swapped_calls) (NewHub ''src'' (\<lambda>r. r), []) = Some (half_swapped, [swapped_events ! 1])"
  by (simp add: swapped_calls_def swapped_events_def half_swapped_def hub_example_def NewHub_def draw_event_def next_event_def
      enter_event_def trim_history_def historyLimit_def)

theorem SubscribeAfter_no_gap_witness:
  "\<exists>channel stream. stream = [swapped_events ! 0] @ delivered 1 [Enters (swapped_events ! 1), Receives 1]
       (snd (SubscribeAfter ''src'' 0 half_swapped), [swapped_events ! 1]) @ channel \<and>
     stream = swapped_events \<and> {1 .. 2} \<subseteq> set (map Event_Revision stream)"
proof -
  let ?h1 = "snd (SubscribeAfter ''src'' 0 half_swapped)" and ?w = "[swapped_events ! 1]"
  let ?acts = "[Enters (swapped_events ! 1), Receives 1]" and ?h = "snd (Receive 1 (enter_event (swapped_events ! 1) ?h1))"
  note defs = half_swapped_def hub_example_def NewHub_def swapped_events_def next_event_def
  have sub: "SubscribeAfter ''src'' 0 half_swapped = ((1, [swapped_events ! 0]), ?h1)"
    by (simp add: SubscribeAfter_def Let_def defs)
  have after: "hub_run ?acts (?h1, ?w) = Some (?h, [])" by simp
  have up: "keeps_up 1 ?acts (?h1, ?w)"
    by (simp add: room_def unread_def channelSize_def SubscribeAfter_def Let_def map_get_put defs)
  obtain channel stream where s: "stream = [swapped_events ! 0] @ delivered 1 ?acts (?h1, ?w) @ channel"
    "stream = filter (\<lambda>e. 0 < Event_Revision e) (Hub_history half_swapped) @ entered ?acts"
    "(\<forall>e\<in>set (entered (take 3 swapped_calls)) - set (Hub_history half_swapped). Event_Revision e \<le> 0) \<longrightarrow>
      {max 0 0 + 1 .. Hub_revision ?h} \<subseteq> set (map Event_Revision (stream @ []))"
    using SubscribeAfter_no_gap [OF half_swapped_run sub after up] by blast
  have stream: "stream = swapped_events" unfolding s(2) by (simp add: defs)
  have "\<forall>e\<in>set (entered (take 3 swapped_calls)) - set (Hub_history half_swapped). Event_Revision e \<le> 0"
    by (simp add: swapped_calls_def half_swapped_def)
  moreover have "Hub_revision ?h = 2" by (simp add: hub_other_fields enter_event_def half_swapped_def)
  ultimately have "{1 .. 2} \<subseteq> set (map Event_Revision stream)" using s(3) by simp
  then show ?thesis using s(1) stream by blast
qed

end
