(* ===== verification/Encoding.thy ===== *)
theory Encoding
  imports Strings
begin

text \<open>
  encoding/base64 (RawStdEncoding, RawURLEncoding), encoding/base32 without padding and
  encoding/hex, as the server uses them.  Bytes are split into bits, most significant
  first, and regrouped; a decoder skips line breaks, refuses other characters outside its
  alphabet and ignores the unused low bits of the last character.
\<close>

section \<open>Bits\<close>

primrec bits :: "nat \<Rightarrow> nat \<Rightarrow> bool list" where
  "bits 0 n = []"
| "bits (Suc k) n = bits k (n div 2) @ [odd n]"

definition val :: "bool list \<Rightarrow> nat" where
  "val bs = foldl (\<lambda>n b. 2 * n + of_bool b) 0 bs"

function chunks :: "nat \<Rightarrow> 'a list \<Rightarrow> 'a list list" where
  "chunks k xs = (if k = 0 \<or> xs = [] then [] else take k xs # chunks k (drop k xs))"
  by pat_completeness auto
termination by (relation "measure (\<lambda>(k, xs). length xs)") auto

declare chunks.simps [simp del]

definition pad_bits :: "nat \<Rightarrow> bool list \<Rightarrow> bool list" where
  "pad_bits k bs = bs @ replicate ((k - length bs mod k) mod k) False"

section \<open>Encoders and decoders\<close>

fun position :: "char \<Rightarrow> string \<Rightarrow> nat option" where
  "position c [] = None"
| "position c (a # as) = (if a = c then Some 0 else map_option Suc (position c as))"

definition encode_bits :: "nat \<Rightarrow> string \<Rightarrow> bytes \<Rightarrow> string" where
  "encode_bits k alphabet s =
     map (\<lambda>g. alphabet ! val g) (chunks k (pad_bits k (concat (map (\<lambda>c. bits 8 (byte c)) s))))"

definition strip_newlines :: "string \<Rightarrow> string" where
  "strip_newlines s = filter (\<lambda>c. byte c \<noteq> 10 \<and> byte c \<noteq> 13) s"

definition decode_bits :: "nat \<Rightarrow> string \<Rightarrow> (nat \<Rightarrow> nat option) \<Rightarrow> string \<Rightarrow> bytes option" where
  "decode_bits k alphabet outlen s0 =
     (let s = strip_newlines s0; ps = map (\<lambda>c. position c alphabet) s in
      if \<not> list_all (\<lambda>p. p \<noteq> None) ps then None
      else case outlen (length s) of
        None \<Rightarrow> None
      | Some n \<Rightarrow> Some (map (\<lambda>g. char_of (val g))
          (chunks 8 (take (8 * n) (concat (map (\<lambda>p. bits k (the p)) ps))))))"

definition alphabet64 :: string where
  "alphabet64 = ''ABCDEFGHIJKLMNOPQRSTUVWXYZabcdefghijklmnopqrstuvwxyz0123456789+/''"

definition alphabet64url :: string where
  "alphabet64url = ''ABCDEFGHIJKLMNOPQRSTUVWXYZabcdefghijklmnopqrstuvwxyz0123456789-_''"

definition alphabet32 :: string where
  "alphabet32 = ''ABCDEFGHIJKLMNOPQRSTUVWXYZ234567''"

text \<open>A last group of one base64 character is an error.  The base32 decoder drops a last
  group of one, three or six characters.\<close>

definition outlen64 :: "nat \<Rightarrow> nat option" where
  "outlen64 n = (if n mod 4 = 1 then None else Some (6 * n div 8))"

definition outlen32 :: "nat \<Rightarrow> nat option" where
  "outlen32 n = Some (if n mod 8 \<in> {1, 3, 6} then 5 * (n div 8) else 5 * n div 8)"

definition Base64Std_Encode :: "bytes \<Rightarrow> string" where
  "Base64Std_Encode = encode_bits 6 alphabet64"

definition Base64Std_Decode :: "string \<Rightarrow> bytes option" where
  "Base64Std_Decode = decode_bits 6 alphabet64 outlen64"

definition Base64URL_Encode :: "bytes \<Rightarrow> string" where
  "Base64URL_Encode = encode_bits 6 alphabet64url"

definition Base64URL_Decode :: "string \<Rightarrow> bytes option" where
  "Base64URL_Decode = decode_bits 6 alphabet64url outlen64"

definition Base32_Encode :: "bytes \<Rightarrow> string" where
  "Base32_Encode = encode_bits 5 alphabet32"

definition Base32_Decode :: "string \<Rightarrow> bytes option" where
  "Base32_Decode = decode_bits 5 alphabet32 outlen32"

definition hex_digits :: string where "hex_digits = ''0123456789abcdef''"

definition Hex_Encode :: "bytes \<Rightarrow> string" where
  "Hex_Encode s = concat (map (\<lambda>c. [hex_digits ! (byte c div 16), hex_digits ! (byte c mod 16)]) s)"

section \<open>Facts on bits\<close>

lemma length_bits [simp]: "length (bits k n) = k"
  by (induction k arbitrary: n) auto

lemma val_snoc [simp]: "val (bs @ [b]) = 2 * val bs + of_bool b"
  by (simp add: val_def)

lemma val_Nil [simp]: "val [] = 0"
  by (simp add: val_def)

lemma val_bits: "val (bits k n) = n mod 2 ^ k"
proof (induction k arbitrary: n)
  case (Suc k)
  have "2 * (n div 2 mod 2 ^ k) + of_bool (odd n) = n mod 2 ^ Suc k"
    by (simp add: mod_mult2_eq mult.commute odd_iff_mod_2_eq_one mod2_eq_if)
  then show ?case using Suc by simp
qed simp

lemma bits_val: "length bs = k \<Longrightarrow> bits k (val bs) = bs"
proof (induction k arbitrary: bs)
  case (Suc k)
  then obtain as b where "bs = as @ [b]" "length as = k"
    by (metis length_append_singleton length_Suc_conv_rev)
  then show ?case using Suc.IH by simp
qed simp

lemma val_less: "val bs < 2 ^ length bs"
proof (induction bs rule: rev_induct)
  case (snoc b bs)
  then have "2 * val bs + 1 < 2 * 2 ^ length bs" by linarith
  then show ?case by simp
qed simp

lemma chunks_Nil [simp]: "chunks k [] = []"
  by (simp add: chunks.simps)

lemma concat_chunks: "0 < k \<Longrightarrow> concat (chunks k xs) = xs"
proof (induction k xs rule: chunks.induct)
  case (1 k xs)
  then show ?case by (cases "xs = []") (simp_all add: chunks.simps [of k xs])
qed

lemma length_chunks_exact: "0 < k \<Longrightarrow> length xs = k * m \<Longrightarrow> length (chunks k xs) = m"
proof (induction m arbitrary: xs)
  case (Suc m)
  then have "xs \<noteq> []" by auto
  moreover have "length (drop k xs) = k * m" using Suc.prems by simp
  ultimately show ?case using Suc by (simp add: chunks.simps [of k xs])
qed simp

lemma chunks_lengths: "0 < k \<Longrightarrow> length xs = k * m \<Longrightarrow> g \<in> set (chunks k xs) \<Longrightarrow> length g = k"
proof (induction m arbitrary: xs)
  case (Suc m)
  then have "xs \<noteq> []" by auto
  moreover have "length (drop k xs) = k * m" using Suc.prems by simp
  moreover have "length (take k xs) = k" using Suc.prems by simp
  ultimately show ?case using Suc.IH [of "drop k xs"] Suc.prems by (auto simp: chunks.simps [of k xs])
qed simp

lemma chunks_concat: "0 < k \<Longrightarrow> \<forall>g\<in>set gs. length g = k \<Longrightarrow> chunks k (concat gs) = gs"
proof (induction gs)
  case (Cons g gs)
  then have "g \<noteq> []" by auto
  then show ?case using Cons by (simp add: chunks.simps [of k "g @ concat gs"])
qed simp

lemma pad_bits_length: "0 < k \<Longrightarrow> \<exists>m. length (pad_bits k bs) = k * m"
proof -
  assume "0 < k"
  have "(length bs + (k - length bs mod k) mod k) mod k = 0"
  proof (cases "length bs mod k = 0")
    case False
    then have "(k - length bs mod k) mod k = k - length bs mod k" using \<open>0 < k\<close> by simp
    moreover have "(length bs + (k - length bs mod k)) mod k =
        (length bs mod k + (k - length bs mod k)) mod k"
      by (simp add: mod_simps)
    moreover have "length bs mod k + (k - length bs mod k) = k"
      using \<open>0 < k\<close> by (meson le_add_diff_inverse mod_less_divisor order_less_imp_le)
    ultimately show ?thesis by simp
  qed simp
  then show ?thesis by (auto simp: pad_bits_def dvd_def mod_eq_0_iff_dvd)
qed

lemma position_nth: "distinct as \<Longrightarrow> n < length as \<Longrightarrow> position (as ! n) as = Some n"
proof (induction as arbitrary: n)
  case (Cons a as)
  then show ?case by (cases n) auto
qed simp

lemma length_concat_bits [simp]: "length (concat (map (\<lambda>c. bits 8 (byte c)) s)) = 8 * length s"
  by (induction s) auto

lemma length_encode_bits:
  "0 < k \<Longrightarrow> k * length (encode_bits k alphabet s) = length (pad_bits k (concat (map (\<lambda>c. bits 8 (byte c)) s)))"
  using pad_bits_length [of k "concat (map (\<lambda>c. bits 8 (byte c)) s)"]
  by (auto simp: encode_bits_def length_chunks_exact)

text \<open>Encoding, then decoding: for every alphabet and group size.\<close>

lemma decode_encode_bits:
  assumes k: "0 < k" and alph: "distinct alphabet" "length alphabet = 2 ^ k"
    and clean: "strip_newlines alphabet = alphabet"
    and out: "outlen (length (encode_bits k alphabet s)) = Some (length s)"
  shows "decode_bits k alphabet outlen (encode_bits k alphabet s) = Some s"
proof -
  let ?bs = "concat (map (\<lambda>c. bits 8 (byte c)) s)"
  let ?gs = "chunks k (pad_bits k ?bs)"
  obtain m where m: "length (pad_bits k ?bs) = k * m" using pad_bits_length [OF k] by blast
  have len: "length g = k" if "g \<in> set ?gs" for g using chunks_lengths [OF k m that] .
  have pos: "position (alphabet ! val g) alphabet = Some (val g)" if "g \<in> set ?gs" for g
    using position_nth [OF alph(1), of "val g"] val_less [of g] len [OF that] alph(2) by simp
  have mem: "alphabet ! val g \<in> set alphabet" if "g \<in> set ?gs" for g
    using val_less [of g] len [OF that] alph(2) by simp
  have clean': "byte c \<noteq> 10 \<and> byte c \<noteq> 13" if "c \<in> set alphabet" for c
    using clean that unfolding strip_newlines_def by (metis (mono_tags, lifting) filter_id_conv)
  have strip: "strip_newlines (encode_bits k alphabet s) = encode_bits k alphabet s"
    unfolding strip_newlines_def encode_bits_def using mem clean' by (auto intro!: filter_True)
  have ps: "map (\<lambda>c. position c alphabet) (encode_bits k alphabet s) = map (\<lambda>g. Some (val g)) ?gs"
    using pos by (simp add: encode_bits_def)
  have "map (\<lambda>p. bits k (the p)) (map (\<lambda>g. Some (val g)) ?gs) = ?gs"
    using len by (simp add: comp_def bits_val map_idI)
  then have "concat (map (\<lambda>p. bits k (the p)) (map (\<lambda>g. Some (val g)) ?gs)) = pad_bits k ?bs"
    using concat_chunks [OF k] by simp
  then have "take (8 * length s) (concat (map (\<lambda>p. bits k (the p)) (map (\<lambda>g. Some (val g)) ?gs))) = ?bs"
    by (simp add: pad_bits_def)
  moreover have "chunks 8 ?bs = map (\<lambda>c. bits 8 (byte c)) s"
    by (rule chunks_concat) auto
  moreover have "map (\<lambda>g. char_of (val g)) (map (\<lambda>c. bits 8 (byte c)) s) = s"
    by (simp add: comp_def val_bits map_idI)
  ultimately show ?thesis
    unfolding decode_bits_def Let_def strip ps using out
    by (simp add: list_all_iff image_iff del: map_map)
qed

lemma length_base64:
  "length (encode_bits 6 alphabet s) =
     4 * (length s div 3) + (if length s mod 3 = 0 then 0 else length s mod 3 + 1)"
proof -
  let ?n = "length (encode_bits 6 alphabet s)"
  define q r where "q = length s div 3" and "r = length s mod 3"
  have len: "length s = 3 * q + r" and "r < 3" by (simp_all add: q_def r_def)
  have n: "6 * ?n = 8 * (3 * q + r) + (6 - 8 * (3 * q + r) mod 6) mod 6"
    using length_encode_bits [of 6 alphabet s] by (simp add: pad_bits_def len)
  have "8 * (3 * q + r) mod 6 = (6 * (4 * q) + 8 * r) mod 6" by (simp add: algebra_simps)
  then have m: "8 * (3 * q + r) mod 6 = 8 * r mod 6" by (simp only: mod_mult_self4)
  consider "r = 0" | "r = 1" | "r = 2" using \<open>r < 3\<close> by linarith
  then have "?n = 4 * q + (if r = 0 then 0 else r + 1)"
    using n [unfolded m] by cases simp_all
  then show ?thesis by (simp add: q_def r_def)
qed

lemma length_base32:
  "length (encode_bits 5 alphabet s) = 8 * (length s div 5) +
     (if length s mod 5 = 0 then 0 else if length s mod 5 = 4 then 7 else
      if length s mod 5 = 3 then 5 else 2 * (length s mod 5))"
proof -
  let ?n = "length (encode_bits 5 alphabet s)"
  define q r where "q = length s div 5" and "r = length s mod 5"
  have len: "length s = 5 * q + r" and "r < 5" by (simp_all add: q_def r_def)
  have n: "5 * ?n = 8 * (5 * q + r) + (5 - 8 * (5 * q + r) mod 5) mod 5"
    using length_encode_bits [of 5 alphabet s] by (simp add: pad_bits_def len)
  have "8 * (5 * q + r) mod 5 = (5 * (8 * q) + 8 * r) mod 5" by (simp add: algebra_simps)
  then have m: "8 * (5 * q + r) mod 5 = 8 * r mod 5" by (simp only: mod_mult_self4)
  consider "r = 0" | "r = 1" | "r = 2" | "r = 3" | "r = 4" using \<open>r < 5\<close> by linarith
  then have "?n = 8 * q + (if r = 0 then 0 else if r = 4 then 7 else if r = 3 then 5 else 2 * r)"
    using n [unfolded m] by cases simp_all
  then show ?thesis by (simp add: q_def r_def)
qed

lemma outlen_base64: "outlen64 (length (encode_bits 6 alphabet s)) = Some (length s)"
proof -
  define q r where "q = length s div 3" and "r = length s mod 3"
  have len: "length s = 3 * q + r" and "r < 3" by (simp_all add: q_def r_def)
  then consider "r = 0" | "r = 1" | "r = 2" by linarith
  moreover have n: "length (encode_bits 6 alphabet s) = 4 * q + (if r = 0 then 0 else r + 1)"
    unfolding length_base64 q_def r_def ..
  moreover have "(4 * q) mod 4 \<noteq> 1" "6 * (4 * q) div 8 = 3 * q"
    "(4 * q + 2) mod 4 \<noteq> 1" "6 * (4 * q + 2) div 8 = 3 * q + 1"
    "(4 * q + 3) mod 4 \<noteq> 1" "6 * (4 * q + 3) div 8 = 3 * q + 2"
    by presburger+
  ultimately show ?thesis unfolding outlen64_def n len by cases auto
qed

lemma outlen_base32: "outlen32 (length (encode_bits 5 alphabet s)) = Some (length s)"
proof -
  define q r where "q = length s div 5" and "r = length s mod 5"
  have len: "length s = 5 * q + r" and "r < 5" by (simp_all add: q_def r_def)
  then consider "r = 0" | "r = 1" | "r = 2" | "r = 3" | "r = 4" by linarith
  moreover have n: "length (encode_bits 5 alphabet s) = 8 * q +
     (if r = 0 then 0 else if r = 4 then 7 else if r = 3 then 5 else 2 * r)"
    unfolding length_base32 q_def r_def ..
  moreover have "5 * (8 * q) div 8 = 5 * q" "5 * (8 * q + 2) div 8 = 5 * q + 1"
    "5 * (8 * q + 4) div 8 = 5 * q + 2" "5 * (8 * q + 5) div 8 = 5 * q + 3"
    "5 * (8 * q + 7) div 8 = 5 * q + 4"
    by presburger+
  moreover have "(8 * q) mod 8 \<notin> {1, 3, 6}" "(8 * q + 2) mod 8 \<notin> {1, 3, 6}"
    "(8 * q + 4) mod 8 \<notin> {1, 3, 6}" "(8 * q + 5) mod 8 \<notin> {1, 3, 6}"
    "(8 * q + 7) mod 8 \<notin> {1, 3, 6}"
    by (simp_all only: mod_mult_self4) simp_all
  ultimately show ?thesis unfolding outlen32_def n len by cases auto
qed

lemma alphabet_facts:
  "distinct alphabet64" "length alphabet64 = 64" "strip_newlines alphabet64 = alphabet64"
  "distinct alphabet64url" "length alphabet64url = 64" "strip_newlines alphabet64url = alphabet64url"
  "distinct alphabet32" "length alphabet32 = 32" "strip_newlines alphabet32 = alphabet32"
  by code_simp+

lemma Base64Std_roundtrip [simp]: "Base64Std_Decode (Base64Std_Encode s) = Some s"
  unfolding Base64Std_Decode_def Base64Std_Encode_def
  by (rule decode_encode_bits) (simp_all add: alphabet_facts outlen_base64)

lemma Base64URL_roundtrip [simp]: "Base64URL_Decode (Base64URL_Encode s) = Some s"
  unfolding Base64URL_Decode_def Base64URL_Encode_def
  by (rule decode_encode_bits) (simp_all add: alphabet_facts outlen_base64)

lemma Base32_roundtrip [simp]: "Base32_Decode (Base32_Encode s) = Some s"
  unfolding Base32_Decode_def Base32_Encode_def
  by (rule decode_encode_bits) (simp_all add: alphabet_facts outlen_base32)

lemma set_encode_bits:
  assumes "0 < k" "length alphabet = 2 ^ k"
  shows "set (encode_bits k alphabet s) \<subseteq> set alphabet"
proof -
  let ?bs = "concat (map (\<lambda>c. bits 8 (byte c)) s)"
  obtain m where m: "length (pad_bits k ?bs) = k * m" using pad_bits_length [OF assms(1)] by blast
  have "val g < length alphabet" if "g \<in> set (chunks k (pad_bits k ?bs))" for g
    using val_less [of g] chunks_lengths [OF assms(1) m that] assms(2) by simp
  then show ?thesis by (auto simp: encode_bits_def)
qed

end
