(* ===== verification/Password.thy ===== *)
theory Password
  imports Encoding
begin

text \<open>
  Passwords: the policy of internal/auth/password_policy.go and the hash format of
  internal/auth/password.go.  The key derivation of golang.org/x/crypto/argon2 is the
  parameter \<open>argon2\<close>, the bytes read from crypto/rand are an argument, and the Unicode
  classes are the parameter \<open>unicode\<close>.
\<close>

section \<open>Policy\<close>

record unicode_classes =
  IsUpper :: "rune \<Rightarrow> bool"
  IsLower :: "rune \<Rightarrow> bool"
  IsNumber :: "rune \<Rightarrow> bool"
  IsLetter :: "rune \<Rightarrow> bool"
  IsSpace :: "rune \<Rightarrow> bool"

record PasswordPolicy =
  PasswordPolicy_MinimumLength :: int
  PasswordPolicy_RequireUpper :: bool
  PasswordPolicy_RequireLower :: bool
  PasswordPolicy_RequireNumber :: bool
  PasswordPolicy_RequireSpecial :: bool

definition special_rune :: "unicode_classes \<Rightarrow> rune \<Rightarrow> bool" where
  "special_rune unicode r \<longleftrightarrow> \<not> IsLetter unicode r \<and> \<not> IsNumber unicode r \<and> \<not> IsSpace unicode r"

definition missing_rules :: "unicode_classes \<Rightarrow> PasswordPolicy \<Rightarrow> string \<Rightarrow> string list" where
  "missing_rules unicode p password =
     (let min = (if PasswordPolicy_MinimumLength p < 1 then 1 else PasswordPolicy_MinimumLength p);
          rs = map the (runes password);
          upper = list_ex (IsUpper unicode) rs; lower = list_ex (IsLower unicode) rs;
          number = list_ex (IsNumber unicode) rs; special = list_ex (special_rune unicode) rs
      in (if int (RuneCountInString password) < min
          then [''at least '' @ dec_int min @ '' characters''] else []) @
         map snd (filter (\<lambda>(required_missing, _). required_missing)
           [(PasswordPolicy_RequireUpper p \<and> \<not> upper, ''an uppercase letter''),
            (PasswordPolicy_RequireLower p \<and> \<not> lower, ''a lowercase letter''),
            (PasswordPolicy_RequireNumber p \<and> \<not> number, ''a number''),
            (PasswordPolicy_RequireSpecial p \<and> \<not> special, ''a special character'')]))"

definition Policy_Validate :: "unicode_classes \<Rightarrow> PasswordPolicy \<Rightarrow> string \<Rightarrow> error + unit" where
  "Policy_Validate unicode p password =
     (if \<not> ValidString password then Inl (Wrap ''invalid UTF-8'' ErrPasswordPolicy)
      else let missing = missing_rules unicode p password in
        if missing \<noteq> [] then Inl (Wrap (''requires '' @ Join missing '', '') ErrPasswordPolicy)
        else Inr ())"

section \<open>Hashing\<close>

type_synonym kdf = "bytes \<Rightarrow> bytes \<Rightarrow> nat \<Rightarrow> nat \<Rightarrow> nat \<Rightarrow> nat \<Rightarrow> bytes"

definition argonMemory :: nat where "argonMemory = 65536"
definition argonIterations :: nat where "argonIterations = 3"
definition argonParallelism :: nat where "argonParallelism = 2"
definition argonSaltLength :: nat where "argonSaltLength = 16"
definition argonKeyLength :: nat where "argonKeyLength = 32"

lemmas argon_defs = argonMemory_def argonIterations_def argonParallelism_def argonSaltLength_def
  argonKeyLength_def

definition HashPassword :: "kdf \<Rightarrow> error + bytes \<Rightarrow> nat \<Rightarrow> string \<Rightarrow> error + string" where
  "HashPassword argon2 rand_salt numCPU password =
     (if length password < 1 \<or> length password > 1024
      then Inl (Errorf ''password length must be between 1 and 1024 bytes'')
      else case rand_salt of
        Inl e \<Rightarrow> Inl (Wrap ''generate password salt'' e)
      | Inr salt \<Rightarrow>
          let parallelism = (if numCPU = 1 then 1 else argonParallelism);
              key = argon2 password salt argonIterations argonMemory parallelism argonKeyLength
          in Inr (''$argon2id$v=19$m='' @ dec_nat argonMemory @ '',t='' @ dec_nat argonIterations @
                  '',p='' @ dec_nat parallelism @ ''$'' @ Base64Std_Encode salt @ ''$'' @
                  Base64Std_Encode key))"

definition parseParameter :: "string \<Rightarrow> string \<Rightarrow> nat option" where
  "parseParameter value pre =
     (if \<not> HasPrefix value pre then None else ParseUint (TrimPrefix value pre) 32)"

definition in_bounds :: "nat option \<Rightarrow> nat \<Rightarrow> nat \<Rightarrow> bool" where
  "in_bounds v lo hi = (case v of None \<Rightarrow> False | Some n \<Rightarrow> lo \<le> n \<and> n \<le> hi)"

definition VerifyPassword :: "kdf \<Rightarrow> string \<Rightarrow> string \<Rightarrow> error + bool" where
  "VerifyPassword argon2 encoded password =
     (if length encoded > 1024 \<or> length password > 1024 then Inl ErrInvalidPasswordHash else
      let parts = split_on CHR ''$'' encoded in
      if length parts \<noteq> 6 \<or> parts ! 1 \<noteq> ''argon2id'' \<or> parts ! 2 \<noteq> ''v=19'' then Inl ErrInvalidPasswordHash else
      let parameters = split_on CHR '','' (parts ! 3) in
      if length parameters \<noteq> 3 then Inl ErrInvalidPasswordHash else
      let memory = parseParameter (parameters ! 0) ''m='' in
      if \<not> in_bounds memory 8192 262144 then Inl ErrInvalidPasswordHash else
      let iterations = parseParameter (parameters ! 1) ''t='' in
      if \<not> in_bounds iterations 1 10 then Inl ErrInvalidPasswordHash else
      let parallelism = parseParameter (parameters ! 2) ''p='' in
      if \<not> in_bounds parallelism 1 16 then Inl ErrInvalidPasswordHash else
      let salt = Base64Std_Decode (parts ! 4) in
      if \<not> in_bounds (map_option length salt) 16 64 then Inl ErrInvalidPasswordHash else
      let expected = Base64Std_Decode (parts ! 5) in
      if \<not> in_bounds (map_option length expected) 16 64 then Inl ErrInvalidPasswordHash else
      Inr (argon2 password (the salt) (the iterations) (the memory) (the parallelism)
             (length (the expected)) = the expected))"

section \<open>Facts\<close>

lemma set_Base64Std: "set (Base64Std_Encode s) \<subseteq> set alphabet64"
  unfolding Base64Std_Encode_def by (rule set_encode_bits) (simp_all add: alphabet_facts)

lemma Base64Std_no_dollar: "CHR ''$'' \<notin> set (Base64Std_Encode s)"
proof -
  have "CHR ''$'' \<notin> set alphabet64" by code_simp
  then show ?thesis using set_Base64Std by blast
qed

lemma length_Base64Std_le: "length (Base64Std_Encode s) \<le> 2 * length s + 3"
proof -
  have "4 * (n div 3) + (if n mod 3 = 0 then 0 else n mod 3 + 1) \<le> 2 * n + 3" for n :: nat
    using div_mult_mod_eq [of n 3] mod_less_divisor [of 3 n] by (auto; linarith)
  then show ?thesis unfolding Base64Std_Encode_def length_base64 .
qed

lemma split_hash:
  assumes "CHR ''$'' \<notin> set ps" "CHR ''$'' \<notin> set a" "CHR ''$'' \<notin> set b"
  shows "split_on CHR ''$'' (''$argon2id$v=19$'' @ ps @ ''$'' @ a @ ''$'' @ b) =
    [[], ''argon2id'', ''v=19'', ps, a, b]"
proof -
  have "split_on CHR ''$'' (''v=19'' @ CHR ''$'' # t) = ''v=19'' # split_on CHR ''$'' t" for t
    by (rule split_on_append) simp
  moreover have "split_on CHR ''$'' (''argon2id'' @ CHR ''$'' # t) = ''argon2id'' # split_on CHR ''$'' t" for t
    by (rule split_on_append) simp
  moreover have "split_on CHR ''$'' (ps @ CHR ''$'' # a @ CHR ''$'' # b) = [ps, a, b]"
    using assms by (simp add: split_on_append split_on_fresh)
  ultimately show ?thesis by simp
qed

lemma dec_nat_fresh: "\<not> is_digit c \<Longrightarrow> c \<notin> set (dec_nat n)"
  using dec_nat_digits [of n] by (auto simp: list_all_iff)

lemma hash_parameters:
  fixes m t p :: nat
  defines "ps \<equiv> ''m='' @ dec_nat m @ '',t='' @ dec_nat t @ '',p='' @ dec_nat p"
  shows "split_on CHR '','' ps = [''m='' @ dec_nat m, ''t='' @ dec_nat t, ''p='' @ dec_nat p]"
    and "CHR ''$'' \<notin> set ps"
proof -
  have fresh: "CHR '','' \<notin> set (dec_nat n)" "CHR ''$'' \<notin> set (dec_nat n)" for n
    by (rule dec_nat_fresh, code_simp)+
  have eq: "ps = (''m='' @ dec_nat m) @ CHR '','' # (''t='' @ dec_nat t) @ CHR '','' # ''p='' @ dec_nat p"
    by (simp add: ps_def)
  show "split_on CHR '','' ps = [''m='' @ dec_nat m, ''t='' @ dec_nat t, ''p='' @ dec_nat p]"
    unfolding eq by (subst split_on_append, simp add: fresh)+ (simp add: fresh split_on_fresh)
  show "CHR ''$'' \<notin> set ps" by (simp add: ps_def fresh)
qed

lemma parse_parameters:
  "n < 2 ^ 32 \<Longrightarrow> parseParameter (CHR ''m'' # CHR ''='' # dec_nat n) ''m='' = Some n"
  "n < 2 ^ 32 \<Longrightarrow> parseParameter (CHR ''t'' # CHR ''='' # dec_nat n) ''t='' = Some n"
  "n < 2 ^ 32 \<Longrightarrow> parseParameter (CHR ''p'' # CHR ''='' # dec_nat n) ''p='' = Some n"
  using ParseUint_dec_nat [of n 32]
  by (simp_all add: parseParameter_def HasPrefix_def TrimPrefix_def)

lemma bounds_values:
  "8192 \<le> argonMemory" "argonMemory \<le> 262144" "1 \<le> argonIterations" "argonIterations \<le> 10"
  "p = 1 \<or> p = 2 \<Longrightarrow> 1 \<le> p \<and> p \<le> (16::nat)"
  by (auto simp: argon_defs)

lemma HashPassword_decides:
  assumes "1 \<le> length password" "length password \<le> 1024" "length candidate \<le> 1024"
    and "length salt = argonSaltLength"
    and kdf: "\<And>pw s t m p n. length (argon2 pw s t m p n) = n"
  shows "\<exists>encoded. HashPassword argon2 (Inr salt) numCPU password = Inr encoded \<and>
    VerifyPassword argon2 encoded candidate = Inr
      (argon2 candidate salt 3 65536 (if numCPU = 1 then 1 else 2) 32 =
       argon2 password salt 3 65536 (if numCPU = 1 then 1 else 2) 32)"
proof -
  define p where "p = (if numCPU = 1 then 1 else argonParallelism)"
  have p: "p = 1 \<or> p = 2" by (simp add: p_def argon_defs)
  define key where "key = argon2 password salt argonIterations argonMemory p argonKeyLength"
  define ps where "ps = ''m='' @ dec_nat argonMemory @ '',t='' @ dec_nat argonIterations @ '',p='' @ dec_nat p"
  define encoded where "encoded = ''$argon2id$v=19$'' @ ps @ ''$'' @ Base64Std_Encode salt @ ''$'' @ Base64Std_Encode key"
  note ps_facts = hash_parameters [of argonMemory argonIterations p, folded ps_def]
  have len: "length key = 32" "length salt = 16" using kdf assms(4) by (simp_all add: key_def argon_defs)
  have hash: "HashPassword argon2 (Inr salt) numCPU password = Inr encoded"
    using assms(1,2) by (auto simp: HashPassword_def Let_def encoded_def ps_def key_def p_def)
  have small: "argonMemory < 10 ^ 5" "argonIterations < 10 ^ 1" "p < 10 ^ 1" using p by (auto simp: argon_defs)
  have short: "length encoded \<le> 1024"
    using length_Base64Std_le [of salt] length_Base64Std_le [of key] len small [THEN length_dec_nat]
    by (simp add: encoded_def ps_def)
  have parts: "split_on CHR ''$'' encoded =
      [[], ''argon2id'', ''v=19'', ps, Base64Std_Encode salt, Base64Std_Encode key]"
    unfolding encoded_def by (rule split_hash) (simp_all add: ps_facts(2) Base64Std_no_dollar)
  have "argonMemory < 2 ^ 32" "argonIterations < 2 ^ 32" "p < 2 ^ 32" using p by (auto simp: argon_defs)
  then have "VerifyPassword argon2 encoded candidate =
      Inr (argon2 candidate salt argonIterations argonMemory p 32 = key)"
    using short assms(3) bounds_values(1-4) bounds_values(5) [OF p] len
    by (simp add: VerifyPassword_def Let_def parts ps_facts(1) parse_parameters in_bounds_def)
  then show ?thesis using hash by (simp add: key_def p_def argon_defs)
qed

section \<open>Properties\<close>

text \<open>C13: A stored password hash decides exactly by the derived key.  HashPassword accepts
  every password of 1 to 1024 bytes, and VerifyPassword on the string it returns succeeds
  for any candidate of at most 1024 bytes, answering whether both derive the same key; in
  particular the password itself is accepted.  The derivation returns as many bytes as it
  is asked for.\<close>

theorem HashPassword_VerifyPassword:
  assumes "1 \<le> length password" "length password \<le> 1024" "length candidate \<le> 1024"
    and "length salt = argonSaltLength"
    and kdf: "\<And>pw s t m p n. length (argon2 pw s t m p n) = n"
  shows "\<exists>encoded. HashPassword argon2 (Inr salt) numCPU password = Inr encoded \<and>
    VerifyPassword argon2 encoded candidate = Inr
      (argon2 candidate salt 3 65536 (if numCPU = 1 then 1 else 2) 32 =
       argon2 password salt 3 65536 (if numCPU = 1 then 1 else 2) 32)"
  using assms by (rule HashPassword_decides)

theorem HashPassword_VerifyPassword_witness:
  "\<exists>encoded. HashPassword (\<lambda>pw s t m p n. take n (pw @ replicate n CHR ''x'')) (Inr ''0123456789abcdef'') 4 ''secret''
     = Inr encoded \<and>
   VerifyPassword (\<lambda>pw s t m p n. take n (pw @ replicate n CHR ''x'')) encoded ''secret'' = Inr True"
  using HashPassword_VerifyPassword [of "''secret''" "''secret''" "''0123456789abcdef''"
      "\<lambda>pw s t m p n. take n (pw @ replicate n CHR ''x'')" 4]
  by (simp add: argonSaltLength_def)

text \<open>C14: The password policy accepts exactly the passwords it describes.  A password
  passes when it is valid UTF-8, has at least the minimum number of characters, counting
  a minimum below one as one, and contains a character of every required class; every
  other password is refused with an error that is ErrPasswordPolicy.\<close>

theorem password_policy_exact:
  "(Policy_Validate unicode p password = Inr () \<longleftrightarrow>
     ValidString password \<and>
     max 1 (PasswordPolicy_MinimumLength p) \<le> int (RuneCountInString password) \<and>
     (PasswordPolicy_RequireUpper p \<longrightarrow> (\<exists>r. Some r \<in> set (runes password) \<and> IsUpper unicode r)) \<and>
     (PasswordPolicy_RequireLower p \<longrightarrow> (\<exists>r. Some r \<in> set (runes password) \<and> IsLower unicode r)) \<and>
     (PasswordPolicy_RequireNumber p \<longrightarrow> (\<exists>r. Some r \<in> set (runes password) \<and> IsNumber unicode r)) \<and>
     (PasswordPolicy_RequireSpecial p \<longrightarrow> (\<exists>r. Some r \<in> set (runes password) \<and> special_rune unicode r))) \<and>
   (\<forall>e. Policy_Validate unicode p password = Inl e \<longrightarrow> errors_Is e ErrPasswordPolicy)"
    (is "(_ = ?spec) \<and> _")
proof
  have ex: "list_ex q (map the (runes password)) \<longleftrightarrow> (\<exists>r. Some r \<in> set (runes password) \<and> q r)"
    if "ValidString password" for q
    using that by (force simp: ValidString_def list_ex_iff list_all_iff)
  show "Policy_Validate unicode p password = Inr () \<longleftrightarrow> ?spec"
  proof (cases "ValidString password")
    case True
    then have "missing_rules unicode p password = [] \<longleftrightarrow> ?spec"
      by (auto simp: missing_rules_def Let_def ex)
    then show ?thesis using True by (simp add: Policy_Validate_def Let_def)
  qed (simp add: Policy_Validate_def)
qed (auto simp: Policy_Validate_def Let_def split: if_splits)

theorem password_policy_exact_witness:
  "Policy_Validate \<lparr>IsUpper = (\<lambda>r. 65 \<le> r \<and> r \<le> 90), IsLower = (\<lambda>r. 97 \<le> r \<and> r \<le> 122),
       IsNumber = (\<lambda>r. 48 \<le> r \<and> r \<le> 57), IsLetter = (\<lambda>r. 65 \<le> r \<and> r \<le> 122), IsSpace = (\<lambda>r. r = 32)\<rparr>
     \<lparr>PasswordPolicy_MinimumLength = 4, PasswordPolicy_RequireUpper = True,
      PasswordPolicy_RequireLower = False, PasswordPolicy_RequireNumber = True,
      PasswordPolicy_RequireSpecial = False\<rparr> ''Ab12'' = Inr ()"
proof -
  have "runes ''Ab12'' = [Some 65, Some 98, Some 49, Some 50]" by code_simp
  moreover have "\<exists>r. (r = 65 \<or> r = 98 \<or> r = 49 \<or> r = (50::nat)) \<and> 65 \<le> r \<and> r \<le> 90"
    "\<exists>r. (r = 65 \<or> r = 98 \<or> r = 49 \<or> r = (50::nat)) \<and> 48 \<le> r \<and> r \<le> 57"
    by (rule exI [of _ 65], simp) (rule exI [of _ 49], simp)
  ultimately show ?thesis
    by (intro conjunct1 [OF password_policy_exact, THEN iffD2]) (simp add: ValidString_def RuneCountInString_def)
qed

end
