(* ===== verification/Server.thy ===== *)
theory Server
  imports Hub Account_Invariants Password
begin

text \<open>
  The state the services share, the database and the event hub, and what they draw from
  outside the program.  \<open>srv_tick\<close> counts the draws: the \<open>n\<close>-th draw of the clock, of
  uuid.NewString and of crypto/rand is fixed by the record \<open>world\<close>, which holds the
  third-party functions too.  The contract \<open>server_rel\<close> lifts a relation between
  databases to the services that reach the database through \<open>sql\<close> only.
\<close>

section \<open>Tokens\<close>

text \<open>auth.Claims with the fields of its embedded jwt.RegisteredClaims.\<close>

record Claims =
  Claims_SessionID :: string
  Claims_Username :: string
  Claims_DisplayName :: string
  Claims_Role :: string
  Claims_TokenVersion :: int
  Claims_DeviceID :: string
  Claims_Issuer :: string
  Claims_Subject :: string
  Claims_Audience :: "string list"
  Claims_ExpiresAt :: "instant option"
  Claims_NotBefore :: "instant option"
  Claims_IssuedAt :: "instant option"
  Claims_JTI :: string

text \<open>The options of jwt.ParseWithClaims.\<close>

record jwt_options =
  jwt_issuer :: string
  jwt_audience :: string
  jwt_expirationRequired :: bool
  jwt_issuedAt :: bool
  jwt_validMethods :: "string list"

text \<open>An error of the token library: whether it is jwt.ErrTokenExpired, and its message.\<close>

datatype jwt_error = JwtError bool string

section \<open>The world\<close>

record world =
  world_clock :: "nat \<Rightarrow> instant"
  world_uuid :: "nat \<Rightarrow> string"
  world_random :: "nat \<Rightarrow> nat \<Rightarrow> error + bytes"
  world_argon2 :: kdf
  world_numCPU :: nat
  world_unicode :: unicode_classes
  world_jwt_sign :: "Claims \<Rightarrow> bytes \<Rightarrow> error + string"
  world_jwt_parse :: "(string \<Rightarrow> error + bytes) \<Rightarrow> jwt_options \<Rightarrow> instant \<Rightarrow> string \<Rightarrow> jwt_error + Claims"

record server =
  srv_db :: db
  srv_hub :: Hub
  srv_tick :: nat

definition draw :: "(nat \<Rightarrow> 'a) \<Rightarrow> (server, 'a) prog" where
  "draw f s = (Inr (f (srv_tick s)), s\<lparr>srv_tick := srv_tick s + 1\<rparr>)"

definition sql :: "(db, 'a) prog \<Rightarrow> (server, 'a) prog" where
  "sql m = zoom srv_db (\<lambda>d s. s\<lparr>srv_db := d\<rparr>) m"

definition publish :: "string \<Rightarrow> payload \<Rightarrow> (server, unit) prog" where
  "publish eventType payload = modifies (\<lambda>s. s\<lparr>srv_hub := Publish eventType payload (srv_hub s)\<rparr>)"

abbreviation now_of :: "world \<Rightarrow> (server, instant) prog" where "now_of w \<equiv> draw (world_clock w)"
abbreviation new_uuid :: "world \<Rightarrow> (server, string) prog" where "new_uuid w \<equiv> draw (world_uuid w)"

text \<open>HashPassword reads its salt from crypto/rand after the length check.\<close>

definition hash_password :: "world \<Rightarrow> string \<Rightarrow> (server, string) prog" where
  "hash_password w password = bindE (draw (\<lambda>n. world_random w n argonSaltLength)) (\<lambda>salt.
     liftE (HashPassword (world_argon2 w) salt (world_numCPU w) password))"

lemma draw_run [prog_simps]: "draw f s = (Inr (f (srv_tick s)), s\<lparr>srv_tick := srv_tick s + 1\<rparr>)"
  by (simp add: draw_def)

lemma draw_Inr_iff:
  "draw f s = (Inr a, s') \<longleftrightarrow> a = f (srv_tick s) \<and> s' = s\<lparr>srv_tick := srv_tick s + 1\<rparr>"
  by (auto simp: draw_def)

lemma sql_Inr_iff:
  "sql m s = (Inr a, s') \<longleftrightarrow> (\<exists>d. m (srv_db s) = (Inr a, d) \<and> s' = s\<lparr>srv_db := d\<rparr>)"
  by (cases "m (srv_db s)") (auto simp: sql_def zoom_run)

lemma sql_run [prog_simps]: "sql m s = (fst (m (srv_db s)), s\<lparr>srv_db := snd (m (srv_db s))\<rparr>)"
  by (simp add: sql_def zoom_run)

lemma publish_run [prog_simps]:
  "publish t p s = (Inr (), s\<lparr>srv_hub := Publish t p (srv_hub s)\<rparr>)"
  by (simp add: publish_def)

lemma publish_Inr_iff:
  "publish t p s = (Inr u, s') \<longleftrightarrow> s' = s\<lparr>srv_hub := Publish t p (srv_hub s)\<rparr>"
  by (auto simp: publish_def)

section \<open>Lifting a relation between databases\<close>

definition on_db :: "(db \<Rightarrow> db \<Rightarrow> bool) \<Rightarrow> server \<Rightarrow> server \<Rightarrow> bool" where
  "on_db R s s' \<longleftrightarrow> R (srv_db s) (srv_db s')"

locale server_rel = step_rel R for R :: "db \<Rightarrow> db \<Rightarrow> bool"
begin

lemma lifted: "step_rel (on_db R)"
  by unfold_locales (auto simp: on_db_def step_refl intro: step_trans)

lemmas lifted_intros = step_rel.steps_intros [OF lifted]

lemma steps_sql: "steps R m \<Longrightarrow> steps (on_db R) (sql m)"
  by (simp add: steps_def on_db_def sql_run)

lemma steps_publish: "steps (on_db R) (publish t p)"
  by (simp add: steps_def on_db_def publish_run step_refl)

lemma steps_draw: "steps (on_db R) (draw f)"
  by (simp add: steps_def on_db_def draw_run step_refl)

text \<open>A drawn value is one the world gives.\<close>

lemma steps_bind_draw: "(\<And>n. steps (on_db R) (k (f n))) \<Longrightarrow> steps (on_db R) (bindE (draw f) k)"
proof (rule stepsI)
  fix s
  assume "\<And>n. steps (on_db R) (k (f n))"
  then have "on_db R t (snd (k (f n) t))" for n t by (simp add: steps_def)
  from this [of "s\<lparr>srv_tick := srv_tick s + 1\<rparr>" "srv_tick s"]
  show "on_db R s (snd (bindE (draw f) k s))" by (simp add: on_db_def bindE_run draw_run)
qed

lemma steps_hash_password: "steps (on_db R) (hash_password w pw)"
  unfolding hash_password_def by (intro steps_bind_draw lifted_intros)

lemmas server_intros = steps_bind_draw steps_publish steps_draw steps_hash_password lifted_intros

end

section \<open>Runs of the account store\<close>

text \<open>A sequence of account operations and of queries, which change the fault schedule
  only.\<close>

definition account_run :: "(string \<Rightarrow> bool) \<Rightarrow> (string \<Rightarrow> bool) \<Rightarrow> db \<Rightarrow> db \<Rightarrow> bool" where
  "account_run newS newU = (\<lambda>d d'. account_step newS newU d d' \<or> same_tables d d')\<^sup>*\<^sup>*"

interpretation arn: db_rel "account_run newS newU" for newS newU
  by unfold_locales (auto simp: account_run_def)

interpretation acc: server_rel "account_run newS newU" for newS newU
  by unfold_locales

lemma account_step_run: "account_step newS newU d d' \<Longrightarrow> account_run newS newU d d'"
  by (auto simp: account_run_def)

lemma steps_account: "(\<And>d r d'. m d = (r, d') \<Longrightarrow> account_step newS newU d d') \<Longrightarrow>
    steps (account_run newS newU) m"
  by (rule stepsI) (metis account_step_run prod.collapse)

context db_rel
begin

lemma account_run_rel:
  assumes "account_run newS newU d d'" and step: "\<And>d d'. account_step newS newU d d' \<Longrightarrow> R d d'"
  shows "R d d'"
  using assms(1) unfolding account_run_def
proof (induction rule: rtranclp_induct)
  case (step e e')
  have "R e e'" if "same_tables e e'"
    using that rel_faults by (metis same_tablesE)
  with step assms(2) show ?case by (blast intro: step_trans)
qed (rule step_refl)

end

lemma account_run_wf: "account_run newS newU d d' \<Longrightarrow> accounts_wf d \<Longrightarrow> accounts_wf d'"
  using wfk.account_run_rel [OF _ account_step_wf] by (simp add: wf_kept_def)

lemma account_run_revoked:
  "account_run (\<lambda>j. j \<noteq> i) newU d d' \<Longrightarrow> session_revoked i d \<Longrightarrow> session_revoked i d'"
  using rvk.account_run_rel [OF _ account_step_revoked] by (simp add: revoked_kept_def)

lemma account_run_version:
  "account_run newS (\<lambda>j. j \<noteq> i) d d' \<Longrightarrow> version_from i v d \<Longrightarrow> version_from i v d'"
  using vsk.account_run_rel [OF _ account_step_version] by (simp add: version_kept_def)

interpretation rdo: server_rel same_tables
  by unfold_locales

end
