(* ===== verification/Auth.thy ===== *)
theory Auth
  imports Server Maps
begin

text \<open>
  The authentication service: access tokens (internal/auth/jwt.go) and the service of
  internal/auth/service.go over the account store and the event hub.  The identity
  providers (internal/identity/provider.go) are parameters: a provider answers the
  \<open>n\<close>-th question of the server with a profile or an error.
\<close>

section \<open>Access tokens\<close>

record TokenManager =
  TokenManager_secret :: bytes
  TokenManager_issuer :: string
  TokenManager_audience :: string
  TokenManager_ttl :: duration

definition NewTokenManager :: "bytes \<Rightarrow> string \<Rightarrow> string \<Rightarrow> duration \<Rightarrow> TokenManager" where
  "NewTokenManager secret issuer audience ttl = \<lparr>TokenManager_secret = secret,
     TokenManager_issuer = issuer, TokenManager_audience = audience, TokenManager_ttl = ttl\<rparr>"

definition SetTTL :: "duration \<Rightarrow> TokenManager \<Rightarrow> TokenManager" where
  "SetTTL ttl m = m\<lparr>TokenManager_ttl := ttl\<rparr>"

text \<open>jwt.NewNumericDate keeps whole seconds.\<close>

definition NewNumericDate :: "instant \<Rightarrow> instant" where
  "NewNumericDate t = time_Truncate t Second"

definition token_expiry :: "TokenManager \<Rightarrow> Session \<Rightarrow> instant \<Rightarrow> instant" where
  "token_expiry m session now =
     (let expiresAt = now + TokenManager_ttl m in
      if Session_ExpiresAt session < expiresAt then Session_ExpiresAt session else expiresAt)"

definition issued_claims :: "TokenManager \<Rightarrow> User \<Rightarrow> Session \<Rightarrow> instant \<Rightarrow> Claims" where
  "issued_claims m user session now = \<lparr>Claims_SessionID = Session_ID session,
     Claims_Username = User_Username user, Claims_DisplayName = User_DisplayName user,
     Claims_Role = User_Role user, Claims_TokenVersion = User_TokenVersion user,
     Claims_DeviceID = Session_ClientDeviceID session, Claims_Issuer = TokenManager_issuer m,
     Claims_Subject = User_ID user, Claims_Audience = [TokenManager_audience m],
     Claims_ExpiresAt = Some (NewNumericDate (token_expiry m session now)),
     Claims_NotBefore = None, Claims_IssuedAt = Some (NewNumericDate now), Claims_JTI = []\<rparr>"

definition Issue :: "world \<Rightarrow> TokenManager \<Rightarrow> User \<Rightarrow> Session \<Rightarrow> instant \<Rightarrow> error + (string \<times> Claims)" where
  "Issue w m user session now =
     (let claims = issued_claims m user session now in
      case world_jwt_sign w claims (TokenManager_secret m) of
        Inl e \<Rightarrow> Inl e
      | Inr token \<Rightarrow> Inr (token, claims))"

definition token_key :: "TokenManager \<Rightarrow> string \<Rightarrow> error + bytes" where
  "token_key m alg = (if alg \<noteq> ''HS256'' then Inl (Errorf (''unexpected signing method '' @ alg))
     else Inr (TokenManager_secret m))"

definition token_options :: "TokenManager \<Rightarrow> jwt_options" where
  "token_options m = \<lparr>jwt_issuer = TokenManager_issuer m, jwt_audience = TokenManager_audience m,
     jwt_expirationRequired = True, jwt_issuedAt = True, jwt_validMethods = [''HS256'']\<rparr>"

text \<open>Parse at the instant \<open>t\<close> the token library reads from the clock.\<close>

definition Parse :: "world \<Rightarrow> TokenManager \<Rightarrow> instant \<Rightarrow> string \<Rightarrow> error + Claims" where
  "Parse w m t raw =
     (case world_jwt_parse w (token_key m) (token_options m) t raw of
        Inl (JwtError expired msg) \<Rightarrow>
          Inl (if expired then ErrTokenExpired else Wrap msg ErrTokenInvalid)
      | Inr claims \<Rightarrow>
          if Claims_Subject claims = [] \<or> Claims_SessionID claims = [] \<or>
             Claims_IssuedAt claims = None \<or> Claims_ExpiresAt claims = None
          then Inl ErrTokenInvalid else Inr claims)"

section \<open>The service\<close>

record Profile =
  Profile_Subject :: string
  Profile_Username :: string
  Profile_Email :: string
  Profile_DisplayName :: string
  Profile_EmailVerified :: bool
  Profile_Groups :: "string list"

record PasswordProvider =
  PasswordProvider_Name :: string
  PasswordProvider_Authenticate :: "nat \<Rightarrow> string \<Rightarrow> string \<Rightarrow> error + Profile"

record passwordProvider =
  passwordProvider_provider :: PasswordProvider
  passwordProvider_autoProvision :: bool
  passwordProvider_groupMapping :: "(string, string) gomap"

record LoginInput =
  LoginInput_Username :: string
  LoginInput_Password :: string
  LoginInput_IP :: string
  LoginInput_UserAgent :: string
  LoginInput_ClientDeviceID :: string

record LoginOutput =
  LoginOutput_AccessToken :: string
  LoginOutput_User :: User
  LoginOutput_Session :: Session
  LoginOutput_Claims :: Claims

record CreateUserInput =
  CreateUserInput_Username :: string
  CreateUserInput_Email :: string
  CreateUserInput_Password :: string
  CreateUserInput_DisplayName :: string
  CreateUserInput_Role :: Role
  CreateUserInput_Enabled :: bool

text \<open>The repository and the hub of the Go struct are the shared state of theory Server,
  its clock is \<open>world_clock\<close>.\<close>

record Service =
  Service_tokens :: TokenManager
  Service_sessionTTL :: duration
  Service_dummyHash :: string
  Service_passwordProviders :: "passwordProvider list"
  Service_passwordPolicy :: PasswordPolicy

definition NewService :: "world \<Rightarrow> TokenManager \<Rightarrow> duration \<Rightarrow> (server, Service) prog" where
  "NewService w tokens sessionTTL =
     bindE (hash_password w ''not-a-real-password-57F2eC4d'') (\<lambda>dummyHash.
     ret \<lparr>Service_tokens = tokens, Service_sessionTTL = sessionTTL, Service_dummyHash = dummyHash,
          Service_passwordProviders = [],
          Service_passwordPolicy = \<lparr>PasswordPolicy_MinimumLength = 1, PasswordPolicy_RequireUpper = False,
            PasswordPolicy_RequireLower = False, PasswordPolicy_RequireNumber = False,
            PasswordPolicy_RequireSpecial = False\<rparr>\<rparr>)"

definition SetPasswordPolicy :: "PasswordPolicy \<Rightarrow> Service \<Rightarrow> Service" where
  "SetPasswordPolicy value s = s\<lparr>Service_passwordPolicy := value\<rparr>"

definition validatePassword :: "world \<Rightarrow> Service \<Rightarrow> string \<Rightarrow> error + unit" where
  "validatePassword w s value = Policy_Validate (world_unicode w) (Service_passwordPolicy s) value"

definition SetTTLs :: "duration \<Rightarrow> duration \<Rightarrow> Service \<Rightarrow> Service" where
  "SetTTLs accessTokenTTL sessionTTL s = s\<lparr>Service_sessionTTL := sessionTTL,
     Service_tokens := SetTTL accessTokenTTL (Service_tokens s)\<rparr>"

definition AddPasswordProviderWithGroups ::
  "PasswordProvider \<Rightarrow> bool \<Rightarrow> (string, string) gomap \<Rightarrow> Service \<Rightarrow> Service" where
  "AddPasswordProviderWithGroups provider autoProvision groupMapping s =
     s\<lparr>Service_passwordProviders := Service_passwordProviders s @
       [\<lparr>passwordProvider_provider = provider, passwordProvider_autoProvision = autoProvision,
         passwordProvider_groupMapping = groupMapping\<rparr>]\<rparr>"

definition AddPasswordProvider :: "PasswordProvider \<Rightarrow> bool \<Rightarrow> Service \<Rightarrow> Service" where
  "AddPasswordProvider provider autoProvision s = AddPasswordProviderWithGroups provider autoProvision [] s"

subsection \<open>Events\<close>

definition UserUpdated :: string where "UserUpdated = ''USER_UPDATED''"
definition UserDisabled :: string where "UserDisabled = ''USER_DISABLED''"
definition SessionCreated :: string where "SessionCreated = ''SESSION_CREATED''"
definition SessionRevoked :: string where "SessionRevoked = ''SESSION_REVOKED''"
definition SessionRevokedAll :: string where "SessionRevokedAll = ''SESSION_REVOKED_ALL''"
definition UserGroupMembershipUpdated :: string where
  "UserGroupMembershipUpdated = ''USER_GROUP_MEMBERSHIP_UPDATED''"

definition publish_member :: "string \<Rightarrow> string \<Rightarrow> bool \<Rightarrow> (server, unit) prog" where
  "publish_member groupID userID active = publish UserGroupMembershipUpdated
     (PMembership \<lparr>UserGroupMembership_GroupID = groupID, UserGroupMembership_UserID = userID,
       UserGroupMembership_Active = active\<rparr>)"

definition publish_revoked_all :: "string \<Rightarrow> (server, unit) prog" where
  "publish_revoked_all userID = publish SessionRevokedAll (PUserRef userID)"

section \<open>Credentials\<close>

definition withPermissions :: "User \<Rightarrow> (server, User) prog" where
  "withPermissions user =
     (if User_Role user = RoleAdmin then ret (user\<lparr>User_Permissions := [PermissionAll]\<rparr>)
      else attempt (sql (FindRoleByID (User_Role user))) (\<lambda>r. case r of
        Inl _ \<Rightarrow> ret user
      | Inr role \<Rightarrow> ret (user\<lparr>User_Permissions := RoleDefinition_Permissions role\<rparr>)))"

definition validateLoginUser :: "User \<Rightarrow> (server, User) prog" where
  "validateLoginUser user =
     (if \<not> User_Enabled user then throw ErrUserDisabled
      else if User_ApprovalStatus user = ApprovalRejected then throw ErrApprovalRejected
      else withPermissions user)"

definition wanted_targets :: "(string, string) gomap \<Rightarrow> string list \<Rightarrow> string list" where
  "wanted_targets mapping sourceGroups =
     filter (\<lambda>t. t \<noteq> []) (List.map_filter (map_get mapping) sourceGroups)"

text \<open>The loop over the targets of the mapping, in the order Go's map iteration yields.\<close>

fun sync_targets :: "world \<Rightarrow> string \<Rightarrow> string list \<Rightarrow> string list \<Rightarrow> string list \<Rightarrow> (server, unit) prog" where
  "sync_targets w userID wanted [] seen = ret ()"
| "sync_targets w userID wanted (target # targets) seen =
     (if target \<in> set seen then sync_targets w userID wanted targets seen
      else attempt (sql (FindGroupByID target)) (\<lambda>r. case r of
        Inl e \<Rightarrow> throw (Wrap (''mapped external group '' @ target) e)
      | Inr _ \<Rightarrow>
          bindE (now_of w) (\<lambda>now.
          thenE (sql (SetUserGroupMember target userID (target \<in> set wanted) now))
         (thenE (publish_member target userID (target \<in> set wanted))
                (sync_targets w userID wanted targets (target # seen))))))"

definition syncExternalGroups ::
  "world \<Rightarrow> string \<Rightarrow> string list \<Rightarrow> (string, string) gomap \<Rightarrow> (server, unit) prog" where
  "syncExternalGroups w userID sourceGroups mapping =
     (if mapping = [] then ret ()
      else sync_targets w userID (wanted_targets mapping sourceGroups) (map snd mapping) [])"

definition provisioned_user :: "string \<Rightarrow> Profile \<Rightarrow> string \<Rightarrow> instant \<Rightarrow> User" where
  "provisioned_user uid profile passwordHash now = \<lparr>User_ID = uid,
     User_Username = Profile_Username profile, User_Email = Profile_Email profile, User_Phone = [],
     User_PasswordHash = passwordHash, User_DisplayName = Profile_DisplayName profile,
     User_Role = RoleUser, User_Permissions = [], User_Enabled = True,
     User_ApprovalStatus = ApprovalApproved, User_TokenVersion = 1, User_CreatedAt = now,
     User_UpdatedAt = now, User_LastLoginAt = zero_time, User_ForceReloginAt = zero_time,
     User_TOTPSecret = [], User_TOTPEnabled = False\<rparr>"

definition provisionExternalUser :: "world \<Rightarrow> string \<Rightarrow> Profile \<Rightarrow> (server, User) prog" where
  "provisionExternalUser w provider profile =
     bindE (new_uuid w) (\<lambda>a. bindE (new_uuid w) (\<lambda>b.
     bindE (hash_password w (a @ b)) (\<lambda>passwordHash.
     bindE (now_of w) (\<lambda>now.
     bindE (new_uuid w) (\<lambda>uid.
     let user = provisioned_user uid profile passwordHash now in
     thenE (sql (CreateUser user))
    (attempt (sql (CreateOIDCIdentity \<lparr>OIDCIdentity_Provider = provider,
               OIDCIdentity_Subject = Profile_Subject profile, OIDCIdentity_UserID = uid,
               OIDCIdentity_Email = Profile_Email profile, OIDCIdentity_CreatedAt = now\<rparr>))
       (\<lambda>r. case r of
          Inl e \<Rightarrow> ignoreE (sql (DeleteUser uid)) (throw e)
        | Inr _ \<Rightarrow>
            bindE (now_of w) (\<lambda>at'.
            ignoreE (sql (SetUserGroupMember ApprovedUsersGroupID uid True at'))
           (thenE (publish UserUpdated (PUser user))
           (thenE (publish_member ApprovedUsersGroupID uid True)
                  (ret user)))))))))))"

text \<open>One configured provider: \<open>None\<close> is \<open>continue\<close>, an error inside is answered as
  ErrInvalidCredentials.\<close>

definition or_invalid :: "(server, 'a) prog \<Rightarrow> ('a \<Rightarrow> (server, 'b) prog) \<Rightarrow> (server, 'b) prog" where
  "or_invalid m k = attempt m (\<lambda>r. case r of Inl _ \<Rightarrow> throw ErrInvalidCredentials | Inr a \<Rightarrow> k a)"

definition provider_login :: "world \<Rightarrow> passwordProvider \<Rightarrow> Profile \<Rightarrow> (server, User) prog" where
  "provider_login w configured profile =
     (let name = PasswordProvider_Name (passwordProvider_provider configured);
          sync = (\<lambda>uid. syncExternalGroups w uid (Profile_Groups profile)
                    (passwordProvider_groupMapping configured))
      in attempt (sql (FindOIDCIdentity name (Profile_Subject profile))) (\<lambda>r. case r of
           Inr identityRecord \<Rightarrow>
             or_invalid (sql (FindUserByID (OIDCIdentity_UserID identityRecord))) (\<lambda>user.
             or_invalid (sync (User_ID user)) (\<lambda>_. validateLoginUser user))
         | Inl identityErr \<Rightarrow>
             if \<not> errors_Is identityErr ErrNotFound \<or> \<not> passwordProvider_autoProvision configured
             then throw ErrInvalidCredentials
             else attempt (sql (FindUserByUsername (Profile_Username profile))) (\<lambda>c. case c of
                Inr _ \<Rightarrow> throw ErrInvalidCredentials
              | Inl _ \<Rightarrow>
                  or_invalid (provisionExternalUser w name profile) (\<lambda>provisioned.
                  or_invalid (sync (User_ID provisioned)) (\<lambda>_. validateLoginUser provisioned)))))"

fun try_providers :: "world \<Rightarrow> string \<Rightarrow> string \<Rightarrow> passwordProvider list \<Rightarrow> (server, User) prog" where
  "try_providers w username password [] = throw ErrInvalidCredentials"
| "try_providers w username password (configured # rest) =
     bindE (draw (\<lambda>n. PasswordProvider_Authenticate (passwordProvider_provider configured)
                        n username password)) (\<lambda>answer. case answer of
       Inl _ \<Rightarrow> try_providers w username password rest
     | Inr profile \<Rightarrow> provider_login w configured profile)"

text \<open>The verification of the dummy hash for an unknown name takes time and has no
  effect.\<close>

definition VerifyCredentials :: "world \<Rightarrow> Service \<Rightarrow> string \<Rightarrow> string \<Rightarrow> (server, User) prog" where
  "VerifyCredentials w s username password =
     attempt (sql (FindUserByUsername username)) (\<lambda>r. case r of
        Inr user \<Rightarrow>
          (if VerifyPassword (world_argon2 w) (User_PasswordHash user) password = Inr True
           then validateLoginUser user
           else try_providers w username password (Service_passwordProviders s))
      | Inl _ \<Rightarrow> try_providers w username password (Service_passwordProviders s))"

section \<open>Login\<close>

definition login_session :: "Service \<Rightarrow> string \<Rightarrow> User \<Rightarrow> LoginInput \<Rightarrow> instant \<Rightarrow> Session" where
  "login_session s uid user input now = \<lparr>Session_ID = uid, Session_UserID = User_ID user,
     Session_CreatedAt = now, Session_ExpiresAt = now + Service_sessionTTL s,
     Session_RevokedAt = None, Session_LastSeenAt = now, Session_IP = LoginInput_IP input,
     Session_UserAgent = LoginInput_UserAgent input,
     Session_ClientDeviceID = LoginInput_ClientDeviceID input\<rparr>"

definition CompleteLogin :: "world \<Rightarrow> Service \<Rightarrow> User \<Rightarrow> LoginInput \<Rightarrow> (server, LoginOutput) prog" where
  "CompleteLogin w s user0 input =
     bindE (withPermissions user0) (\<lambda>user.
     bindE (now_of w) (\<lambda>now.
     bindE (new_uuid w) (\<lambda>uid.
     let session = login_session s uid user input now in
     attempt (sql (CreateSession session)) (\<lambda>r. case r of
        Inl e \<Rightarrow> throw (Wrap ''create session'' e)
      | Inr _ \<Rightarrow>
     attempt (sql (UpdateLastLogin (User_ID user) now)) (\<lambda>r. case r of
        Inl e \<Rightarrow> ignoreE (sql (RevokeSession uid now)) (throw (Wrap ''update last login'' e))
      | Inr _ \<Rightarrow>
     (case Issue w (Service_tokens s) user session now of
        Inl e \<Rightarrow> ignoreE (sql (RevokeSession uid now)) (throw (Wrap ''issue access token'' e))
      | Inr (token, claims) \<Rightarrow>
          thenE (publish SessionCreated (PSession session))
                (ret \<lparr>LoginOutput_AccessToken = token, LoginOutput_User = user,
                      LoginOutput_Session = session, LoginOutput_Claims = claims\<rparr>)))))))"

definition Login :: "world \<Rightarrow> Service \<Rightarrow> LoginInput \<Rightarrow> (server, LoginOutput) prog" where
  "Login w s input =
     bindE (VerifyCredentials w s (LoginInput_Username input) (LoginInput_Password input)) (\<lambda>user.
       CompleteLogin w s user input)"

definition Authenticate :: "world \<Rightarrow> Service \<Rightarrow> string \<Rightarrow> (server, User \<times> Session \<times> Claims) prog" where
  "Authenticate w s raw =
     bindE (now_of w) (\<lambda>t.
     bindE (liftE (Parse w (Service_tokens s) t raw)) (\<lambda>claims.
     attempt (sql (FindUserByID (Claims_Subject claims))) (\<lambda>r. case r of
        Inl _ \<Rightarrow> throw ErrSessionRevoked
      | Inr user \<Rightarrow>
          if \<not> User_Enabled user then throw ErrUserDisabled
          else if User_ApprovalStatus user = ApprovalRejected then throw ErrApprovalRejected
          else attempt (sql (FindSession (Claims_SessionID claims))) (\<lambda>r. case r of
             Inl _ \<Rightarrow> throw ErrSessionRevoked
           | Inr session \<Rightarrow>
               bindE (now_of w) (\<lambda>now.
               if Session_RevokedAt session \<noteq> None then throw ErrSessionRevoked
               else if \<not> now < Session_ExpiresAt session then throw ErrSessionExpired
               else if User_TokenVersion user \<noteq> Claims_TokenVersion claims \<or>
                       Session_UserID session \<noteq> User_ID user then throw ErrStaleToken
               else bindE (withPermissions user) (\<lambda>user'.
                    ignoreE (sql (TouchSession (Session_ID session) now))
                    (ret (user', session, claims))))))))"

section \<open>Accounts\<close>

definition local_user :: "string \<Rightarrow> CreateUserInput \<Rightarrow> string \<Rightarrow> Role \<Rightarrow> bool \<Rightarrow> ApprovalStatus \<Rightarrow> instant \<Rightarrow> User" where
  "local_user uid input passwordHash role enabled status now = \<lparr>User_ID = uid,
     User_Username = CreateUserInput_Username input, User_Email = CreateUserInput_Email input,
     User_Phone = [], User_PasswordHash = passwordHash,
     User_DisplayName = CreateUserInput_DisplayName input, User_Role = role, User_Permissions = [],
     User_Enabled = enabled, User_ApprovalStatus = status, User_TokenVersion = 1,
     User_CreatedAt = now, User_UpdatedAt = now, User_LastLoginAt = zero_time,
     User_ForceReloginAt = zero_time, User_TOTPSecret = [], User_TOTPEnabled = False\<rparr>"

text \<open>A new password is validated, then hashed.\<close>

definition new_hash :: "world \<Rightarrow> Service \<Rightarrow> string \<Rightarrow> (server, string) prog" where
  "new_hash w s password = thenE (liftE (validatePassword w s password)) (hash_password w password)"

definition CreateLocalUser :: "world \<Rightarrow> Service \<Rightarrow> CreateUserInput \<Rightarrow> (server, User) prog" where
  "CreateLocalUser w s input =
     bindE (new_hash w s (CreateUserInput_Password input)) (\<lambda>passwordHash.
     bindE (now_of w) (\<lambda>now.
     bindE (new_uuid w) (\<lambda>uid.
     let user = local_user uid input passwordHash (CreateUserInput_Role input)
           (CreateUserInput_Enabled input) ApprovalApproved now in
     thenE (sql (CreateUser user))
    (thenE (publish UserUpdated (PUser user)) (ret user)))))"

definition Register :: "world \<Rightarrow> Service \<Rightarrow> CreateUserInput \<Rightarrow> bool \<Rightarrow> (server, User) prog" where
  "Register w s input autoApprove =
     bindE (new_hash w s (CreateUserInput_Password input)) (\<lambda>passwordHash.
     bindE (now_of w) (\<lambda>now.
     bindE (new_uuid w) (\<lambda>uid.
     let user = local_user uid input passwordHash RoleUser True
           (if autoApprove then ApprovalApproved else ApprovalPending) now in
     thenE (sql (if autoApprove then CreateUser user else CreateRegisteredUser user))
    (thenE (publish UserUpdated (PUser user))
    (thenE (publish_member (if autoApprove then ApprovedUsersGroupID else PendingUsersGroupID) uid True)
           (ret user))))))"

definition Auth_SetUserApproval :: "world \<Rightarrow> string \<Rightarrow> ApprovalStatus \<Rightarrow> (server, User) prog" where
  "Auth_SetUserApproval w userID status =
     bindE (now_of w) (\<lambda>now.
     bindE (sql (SetUserApproval userID status now)) (\<lambda>user.
     thenE (whenE (status = ApprovalRejected)
             (thenE (sql (RevokeUserSessions userID now)) (publish_revoked_all userID)))
    (thenE (publish UserUpdated (PUser user))
    (thenE (publish_member PendingUsersGroupID userID False)
    (thenE (publish_member ApprovedUsersGroupID userID (status = ApprovalApproved))
           (ret user))))))"

definition SetPassword :: "world \<Rightarrow> Service \<Rightarrow> string \<Rightarrow> string \<Rightarrow> (server, User) prog" where
  "SetPassword w s userID password =
     bindE (new_hash w s password) (\<lambda>passwordHash.
     bindE (now_of w) (\<lambda>now.
     bindE (sql (UpdateUserPassword userID passwordHash now)) (\<lambda>user.
     thenE (sql (RevokeUserSessions userID now))
    (thenE (publish UserUpdated (PUser user))
    (thenE (publish_revoked_all userID) (ret user))))))"

definition publish_memberships_of :: "string \<Rightarrow> (server, unit) prog" where
  "publish_memberships_of userID =
     attempt (sql ListUserGroupMemberships) (\<lambda>r. case r of
        Inl _ \<Rightarrow> ret ()
      | Inr memberships \<Rightarrow> forE memberships (\<lambda>m.
          whenE (UserGroupMembership_UserID m = userID)
            (publish UserGroupMembershipUpdated (PMembership m))))"

definition Auth_UpdateUser :: "world \<Rightarrow> Service \<Rightarrow> string \<Rightarrow> UserUpdate \<Rightarrow> string \<Rightarrow> (server, User) prog" where
  "Auth_UpdateUser w s userID input0 password =
     bindE (if password \<noteq> []
            then bindE (new_hash w s password) (\<lambda>h. ret (input0\<lparr>UserUpdate_PasswordHash := h\<rparr>))
            else ret input0) (\<lambda>input.
     bindE (now_of w) (\<lambda>now.
     bindE (sql (UpdateUser userID input now)) (\<lambda>user.
     thenE (publish UserUpdated (PUser user))
    (thenE (publish_revoked_all userID)
    (thenE (publish_memberships_of userID) (ret user))))))"

definition deleted_user :: "string \<Rightarrow> User" where
  "deleted_user userID = \<lparr>User_ID = userID, User_Username = [], User_Email = [], User_Phone = [],
     User_PasswordHash = [], User_DisplayName = [], User_Role = [], User_Permissions = [],
     User_Enabled = False, User_ApprovalStatus = [], User_TokenVersion = 0,
     User_CreatedAt = zero_time, User_UpdatedAt = zero_time, User_LastLoginAt = zero_time,
     User_ForceReloginAt = zero_time, User_TOTPSecret = [], User_TOTPEnabled = False\<rparr>"

definition Auth_DeleteUser :: "string \<Rightarrow> (server, unit) prog" where
  "Auth_DeleteUser userID =
     thenE (sql (DeleteUser userID))
    (thenE (publish UserUpdated (PUser (deleted_user userID))) (publish_revoked_all userID))"

definition Auth_RevokeSession :: "world \<Rightarrow> string \<Rightarrow> (server, unit) prog" where
  "Auth_RevokeSession w sessionID =
     bindE (now_of w) (\<lambda>now.
     attempt (sql (RevokeSession sessionID now)) (\<lambda>r. case r of
        Inl e \<Rightarrow> if errors_Is e ErrNotFound then ret () else throw e
      | Inr session \<Rightarrow> publish SessionRevoked (PSession session)))"

definition RevokeAll :: "world \<Rightarrow> string \<Rightarrow> (server, unit) prog" where
  "RevokeAll w userID =
     bindE (now_of w) (\<lambda>now.
     thenE (sql (RevokeUserSessions userID now)) (publish_revoked_all userID))"

definition Auth_SetUserEnabled :: "world \<Rightarrow> string \<Rightarrow> bool \<Rightarrow> (server, User) prog" where
  "Auth_SetUserEnabled w userID enabled =
     bindE (now_of w) (\<lambda>now.
     bindE (sql (SetUserEnabled userID enabled now)) (\<lambda>user.
     thenE (if \<not> enabled
            then thenE (sql (RevokeUserSessions userID now))
                (thenE (publish UserDisabled (PUser user)) (publish_revoked_all userID))
            else publish UserUpdated (PUser user))
           (ret user)))"

definition Auth_ForceRelogin :: "world \<Rightarrow> string \<Rightarrow> (server, User) prog" where
  "Auth_ForceRelogin w userID =
     bindE (now_of w) (\<lambda>now.
     bindE (sql (ForceRelogin userID now)) (\<lambda>user.
     thenE (sql (RevokeUserSessions userID now))
    (thenE (publish UserUpdated (PUser user))
    (thenE (publish_revoked_all userID) (ret user)))))"

end
