(* ===== verification/Auth_Runs.thy ===== *)
theory Auth_Runs
  imports Auth Account_Props
begin

text \<open>
  The authentication service is a client of the account store: each of its operations is
  a run of account operations, so what the store keeps holds of every history of the
  service.  On top: when a token authenticates, and what logging a user out does to the
  token version.
\<close>

section \<open>Every operation is a run of the store\<close>

lemma account_runs:
  "newU (User_ID u) \<Longrightarrow> steps (account_run newS newU) (CreateUser u)"
  "newU (User_ID u) \<Longrightarrow> steps (account_run newS newU) (CreateRegisteredUser u)"
  "newS (Session_ID x) \<Longrightarrow> steps (account_run newS newU) (CreateSession x)"
  "steps (account_run newS newU) (SetUserEnabled i b now)"
  "steps (account_run newS newU) (SetUserApproval i status now)"
  "steps (account_run newS newU) (ForceRelogin i now)"
  "steps (account_run newS newU) (UpdateUserPassword i h now)"
  "steps (account_run newS newU) (UpdateUser i input now)"
  "steps (account_run newS newU) (DeleteUser i)"
  "steps (account_run newS newU) (UpdateLastLogin i now)"
  "steps (account_run newS newU) (SetUserGroupMember g i b now)"
  "steps (account_run newS newU) (TouchSession i now)"
  "steps (account_run newS newU) (RevokeSession i now)"
  "steps (account_run newS newU) (RevokeUserSessions i now)"
  "steps (account_run newS newU) (CreateOIDCIdentity idn)"
  by (rule steps_account, blast intro: account_step.intros)+

lemma reads_run:
  "steps (account_run newS newU) (FindUserByUsername n)"
  "steps (account_run newS newU) (FindUserByID i)"
  "steps (account_run newS newU) (FindSession i)"
  "steps (account_run newS newU) (FindRoleByID role)"
  "steps (account_run newS newU) (FindGroupByID i)"
  "steps (account_run newS newU) (FindOIDCIdentity p sub)"
  "steps (account_run newS newU) ListUserGroupMemberships"
  unfolding FindUserByUsername_def FindUserByID_def FindSession_def FindRoleByID_def
    FindGroupByID_def FindOIDCIdentity_def ListUserGroupMemberships_def
  by (intro arn.basic_intros)+

abbreviation service_run :: "(string \<Rightarrow> bool) \<Rightarrow> (string \<Rightarrow> bool) \<Rightarrow> server \<Rightarrow> server \<Rightarrow> bool" where
  "service_run newS newU \<equiv> on_db (account_run newS newU)"

lemmas run_intros = acc.steps_sql reads_run acc.server_intros

lemma withPermissions_run: "steps (service_run newS newU) (withPermissions user)"
  unfolding withPermissions_def by (intro run_intros)

lemma validateLoginUser_run: "steps (service_run newS newU) (validateLoginUser user)"
  unfolding validateLoginUser_def by (intro run_intros withPermissions_run)

lemma sync_targets_run: "steps (service_run newS newU) (sync_targets w userID wanted targets seen)"
  by (induction w userID wanted targets seen rule: sync_targets.induct)
    (simp_all only: sync_targets.simps publish_member_def, (intro run_intros account_runs; assumption)+)

lemma syncExternalGroups_run: "steps (service_run newS newU) (syncExternalGroups w i gs m)"
  unfolding syncExternalGroups_def by (intro run_intros sync_targets_run)

lemma provisionExternalUser_run:
  "(\<And>n. newU (world_uuid w n)) \<Longrightarrow> steps (service_run newS newU) (provisionExternalUser w p profile)"
  unfolding provisionExternalUser_def Let_def publish_member_def
  by (intro run_intros account_runs) (simp_all add: provisioned_user_def)

lemma or_invalid_run:
  "steps (service_run newS newU) m \<Longrightarrow> (\<And>a. steps (service_run newS newU) (k a)) \<Longrightarrow>
   steps (service_run newS newU) (or_invalid m k)"
  unfolding or_invalid_def by (intro run_intros)

lemma provider_login_run:
  "(\<And>n. newU (world_uuid w n)) \<Longrightarrow> steps (service_run newS newU) (provider_login w c profile)"
  unfolding provider_login_def Let_def
  by (intro run_intros or_invalid_run syncExternalGroups_run validateLoginUser_run
      provisionExternalUser_run)

lemma try_providers_run:
  "(\<And>n. newU (world_uuid w n)) \<Longrightarrow> steps (service_run newS newU) (try_providers w u p cs)"
  by (induction cs) (auto intro!: run_intros provider_login_run)

lemma VerifyCredentials_run:
  "(\<And>n. newU (world_uuid w n)) \<Longrightarrow> steps (service_run newS newU) (VerifyCredentials w s u p)"
  unfolding VerifyCredentials_def by (intro run_intros validateLoginUser_run try_providers_run)

lemma CompleteLogin_run:
  "(\<And>n. newS (world_uuid w n)) \<Longrightarrow> steps (service_run newS newU) (CompleteLogin w s user input)"
  unfolding CompleteLogin_def Let_def
  by (intro run_intros withPermissions_run account_runs) (simp_all add: login_session_def)

lemma Login_run:
  "(\<And>n. newS (world_uuid w n)) \<Longrightarrow> (\<And>n. newU (world_uuid w n)) \<Longrightarrow>
   steps (service_run newS newU) (Login w s input)"
  unfolding Login_def by (intro run_intros VerifyCredentials_run CompleteLogin_run)

lemma Authenticate_run: "steps (service_run newS newU) (Authenticate w s raw)"
  unfolding Authenticate_def by (intro run_intros withPermissions_run account_runs)

lemma new_hash_run: "steps (service_run newS newU) (new_hash w s password)"
  unfolding new_hash_def by (intro run_intros)

lemma CreateLocalUser_run:
  "(\<And>n. newU (world_uuid w n)) \<Longrightarrow> steps (service_run newS newU) (CreateLocalUser w s input)"
  unfolding CreateLocalUser_def Let_def
  by (intro run_intros new_hash_run account_runs) (simp_all add: local_user_def)

lemma Register_run:
  "(\<And>n. newU (world_uuid w n)) \<Longrightarrow> steps (service_run newS newU) (Register w s input auto)"
  unfolding Register_def Let_def publish_member_def
  by (intro run_intros new_hash_run) (auto intro!: account_runs simp: local_user_def)

lemma account_changes_run:
  "steps (service_run newS newU) (Auth_SetUserApproval w i status)"
  "steps (service_run newS newU) (SetPassword w s i password)"
  "steps (service_run newS newU) (Auth_UpdateUser w s i input password)"
  "steps (service_run newS newU) (Auth_DeleteUser i)"
  "steps (service_run newS newU) (Auth_RevokeSession w i)"
  "steps (service_run newS newU) (RevokeAll w i)"
  "steps (service_run newS newU) (Auth_SetUserEnabled w i b)"
  "steps (service_run newS newU) (Auth_ForceRelogin w i)"
  unfolding Auth_SetUserApproval_def SetPassword_def Auth_UpdateUser_def Auth_DeleteUser_def
    Auth_RevokeSession_def RevokeAll_def Auth_SetUserEnabled_def Auth_ForceRelogin_def
    publish_member_def publish_revoked_all_def publish_memberships_of_def
  by (intro run_intros new_hash_run account_runs)+

section \<open>Histories of the service\<close>

text \<open>One call of the service, under any configuration, or an account operation of
  another client of the store that creates neither users nor sessions.\<close>

inductive auth_step :: "world \<Rightarrow> server \<Rightarrow> server \<Rightarrow> bool" for w where
  "VerifyCredentials w s u p st = (r, st') \<Longrightarrow> auth_step w st st'"
| "CompleteLogin w s user input st = (r2, st') \<Longrightarrow> auth_step w st st'"
| "Login w s input st = (r2, st') \<Longrightarrow> auth_step w st st'"
| "Authenticate w s raw st = (r3, st') \<Longrightarrow> auth_step w st st'"
| "CreateLocalUser w s cu st = (r, st') \<Longrightarrow> auth_step w st st'"
| "Register w s cu b st = (r, st') \<Longrightarrow> auth_step w st st'"
| "Auth_SetUserApproval w i status st = (r, st') \<Longrightarrow> auth_step w st st'"
| "SetPassword w s i password st = (r, st') \<Longrightarrow> auth_step w st st'"
| "Auth_UpdateUser w s i upd password st = (r, st') \<Longrightarrow> auth_step w st st'"
| "Auth_DeleteUser i st = (r1, st') \<Longrightarrow> auth_step w st st'"
| "Auth_RevokeSession w i st = (r1, st') \<Longrightarrow> auth_step w st st'"
| "RevokeAll w i st = (r1, st') \<Longrightarrow> auth_step w st st'"
| "Auth_SetUserEnabled w i b st = (r, st') \<Longrightarrow> auth_step w st st'"
| "Auth_ForceRelogin w i st = (r, st') \<Longrightarrow> auth_step w st st'"
| "account_step (\<lambda>_. False) (\<lambda>_. False) (srv_db st) d \<Longrightarrow> auth_step w st (st\<lparr>srv_db := d\<rparr>)"

lemma account_step_mono:
  "account_step newS newU d d' \<Longrightarrow> (\<And>i. newS i \<Longrightarrow> newS' i) \<Longrightarrow> (\<And>i. newU i \<Longrightarrow> newU' i) \<Longrightarrow>
   account_step newS' newU' d d'"
  by (induction rule: account_step.induct) (auto intro: account_step.intros)

lemma auth_step_run:
  assumes "auth_step w st st'" "\<And>n. newS (world_uuid w n)" "\<And>n. newU (world_uuid w n)"
  shows "service_run newS newU st st'"
  using assms(1)
proof cases
  case (15 d)
  then have "account_step newS newU (srv_db st) d" by (auto elim: account_step_mono)
  then show ?thesis using 15 by (simp add: on_db_def account_step_run)
qed (use assms(2,3) in \<open>auto elim!: stepsD [rotated] intro!: VerifyCredentials_run CompleteLogin_run
      Login_run Authenticate_run CreateLocalUser_run Register_run account_changes_run\<close>)

lemma auth_steps_run:
  assumes "(auth_step w)\<^sup>*\<^sup>* st st'" "\<And>n. newS (world_uuid w n)" "\<And>n. newU (world_uuid w n)"
  shows "account_run newS newU (srv_db st) (srv_db st')"
  using assms(1)
proof (induction rule: rtranclp_induct)
  case (step t t')
  then show ?case using auth_step_run [OF step(2)] assms(2,3) arn.step_trans
    by (fastforce simp: on_db_def)
qed (rule arn.step_refl)

section \<open>When a token authenticates\<close>

lemmas service_iffs = result_iffs attempt_case_iff draw_Inr_iff sql_Inr_iff publish_Inr_iff if_run ignoreE_run

text \<open>The rows a token with these claims needs at the instant \<open>now\<close>.\<close>

definition token_live :: "db \<Rightarrow> Claims \<Rightarrow> instant \<Rightarrow> users_row \<Rightarrow> sessions_row \<Rightarrow> bool" where
  "token_live d claims now u x \<longleftrightarrow>
     u \<in> set (db_users d) \<and> users_id u = Claims_Subject claims \<and> users_enabled u \<and>
     users_approval_status u \<noteq> ApprovalRejected \<and>
     users_token_version u = Claims_TokenVersion claims \<and>
     x \<in> set (db_sessions d) \<and> sessions_id x = Claims_SessionID claims \<and>
     sessions_revoked_at x = None \<and> now < fromMillis (sessions_expires_at x) \<and>
     sessions_user_id x = users_id u"

text \<open>The user with the permissions of the role.\<close>

definition granted :: "db \<Rightarrow> User \<Rightarrow> User" where
  "granted d user = (if User_Role user = RoleAdmin then user\<lparr>User_Permissions := [PermissionAll]\<rparr>
     else case find (\<lambda>r. roles_id r = User_Role user) (db_roles d) of
       None \<Rightarrow> user
     | Some r \<Rightarrow> user\<lparr>User_Permissions := RoleDefinition_Permissions (scanRole r)\<rparr>)"

lemma find_row_ok:
  assumes "scan_found f (query_row (\<lambda>d. find (q d) (sel d))) d = (Inr a, d')"
    and "\<And>fs. sel (set_faults fs d) = sel d" "\<And>fs. q (set_faults fs d) = q d"
  obtains x where "find (q d) (sel d) = Some x" "a = f x"
  using assms by (auto simp: scan_found_Inr_iff elim!: query_row_okE)

lemma FindUserByID_ok:
  "FindUserByID i d = (Inr user, d') \<Longrightarrow>
   \<exists>u. find (\<lambda>r. users_id r = i) (db_users d) = Some u \<and> user = scanUser u \<and> same_tables d d'"
  by (auto simp: FindUserByID_def scan_found_Inr_iff elim!: query_row_okE)

lemma FindSession_ok:
  "FindSession i d = (Inr x, d') \<Longrightarrow>
   \<exists>r. find (\<lambda>r. sessions_id r = i) (db_sessions d) = Some r \<and> x = scanSession r \<and> same_tables d d'"
  by (auto simp: FindSession_def scan_found_Inr_iff elim!: query_row_okE)

lemma same_tables_rows:
  assumes "same_tables d d'"
  shows "db_users d' = db_users d" "db_sessions d' = db_sessions d" "db_roles d' = db_roles d"
  using assms by (metis same_tablesE set_faults_tables(1,3,5))+

lemma scanUser_fields [simp]:
  "User_ID (scanUser u) = users_id u" "User_Enabled (scanUser u) = users_enabled u"
  "User_ApprovalStatus (scanUser u) = users_approval_status u"
  "User_TokenVersion (scanUser u) = users_token_version u"
  "User_Role (scanUser u) = users_role u"
  "User_PasswordHash (scanUser u) = users_password_hash u"
  by (simp_all add: scanUser_def)

lemma scanSession_fields [simp]:
  "Session_ID (scanSession x) = sessions_id x" "Session_UserID (scanSession x) = sessions_user_id x"
  "Session_ExpiresAt (scanSession x) = fromMillis (sessions_expires_at x)"
  "Session_RevokedAt (scanSession x) = None \<longleftrightarrow> sessions_revoked_at x = None"
  by (auto simp: scanSession_def split: option.splits)

lemma Authenticate_ok:
  assumes "Authenticate w s raw st = (Inr (user, session, claims), st')"
  shows "Parse w (Service_tokens s) (world_clock w (srv_tick st)) raw = Inr claims \<and>
    (\<exists>u x. token_live (srv_db st) claims (world_clock w (srv_tick st + 1)) u x \<and>
      session = scanSession x)"
proof -
  from assms [unfolded Authenticate_def service_iffs, simplified]
  obtain u0 d1 x0 d2 where *:
    "Parse w (Service_tokens s) (world_clock w (srv_tick st)) raw = Inr claims"
    "FindUserByID (Claims_Subject claims) (srv_db st) = (Inr u0, d1)" "User_Enabled u0"
    "User_ApprovalStatus u0 \<noteq> ApprovalRejected"
    "FindSession (Claims_SessionID claims) d1 = (Inr x0, d2)" "Session_RevokedAt x0 = None"
    "world_clock w (srv_tick st + 1) < Session_ExpiresAt x0"
    "User_TokenVersion u0 = Claims_TokenVersion claims" "Session_UserID x0 = User_ID u0"
    "session = x0"
    by (auto simp: service_iffs split: if_splits)
  obtain u where u: "find (\<lambda>r. users_id r = Claims_Subject claims) (db_users (srv_db st)) = Some u"
    "u0 = scanUser u" "same_tables (srv_db st) d1" using FindUserByID_ok [OF *(2)] by blast
  obtain x where x: "find (\<lambda>r. sessions_id r = Claims_SessionID claims) (db_sessions d1) = Some x"
    "x0 = scanSession x" using FindSession_ok [OF *(5)] by blast
  have "token_live (srv_db st) claims (world_clock w (srv_tick st + 1)) u x"
    using * u x find_Some_in [OF u(1)] find_Some_in [OF x(1)] same_tables_rows [OF u(3)]
    by (simp add: token_live_def)
  with * x show ?thesis by blast
qed

section \<open>Logging a user out\<close>

text \<open>The calls of the service that end every session of user \<open>i\<close> by raising the token
  version.\<close>

inductive logs_out :: "world \<Rightarrow> string \<Rightarrow> server \<Rightarrow> server \<Rightarrow> bool" for w i where
  by_ForceRelogin: "Auth_ForceRelogin w i st = (Inr user, st') \<Longrightarrow> logs_out w i st st'"
| by_SetPassword: "SetPassword w s i password st = (Inr user, st') \<Longrightarrow> logs_out w i st st'"
| by_UpdateUser: "Auth_UpdateUser w s i input password st = (Inr user, st') \<Longrightarrow> logs_out w i st st'"
| by_SetUserEnabled: "Auth_SetUserEnabled w i b st = (Inr user, st') \<Longrightarrow> logs_out w i st st'"

lemma version_from_raise:
  assumes "version_from i v d" "\<And>r. users_id (f r) = users_id r"
    "\<And>r. users_token_version (f r) = users_token_version r + 1"
  shows "version_from i (v + 1) (db_users_update (upd_where (\<lambda>r. users_id r = i) f) (set_faults fs d))"
  using assms by (auto simp: version_from_def table_simps)

lemma update_user_raises:
  assumes "update_user i f d = (Inr user, d')" "version_from i v d" "\<And>r. users_id (f r) = users_id r"
    "\<And>r. users_token_version (f r) = users_token_version r + 1"
  shows "version_from i (v + 1) d'"
  using assms version_from_raise
  by (fastforce simp: update_user_def scan_found_Inr_iff elim!: update_returning_okE)

lemma update_returning_unique_okE:
  assumes "update_returning_unique sel upd ok p f d = (Inr y, d')"
  obtains fs where "d' = upd (upd_where p f) (set_faults fs d)"
  using assms unfolding update_returning_unique_def
  by (auto split: list.splits if_splits elim!: stmt_InrE)

lemma UpdateUser_raises:
  assumes "UpdateUser i input now d = (Inr user, d')" "version_from i v d"
  shows "version_from i (v + 1) d'"
proof -
  let ?groups = "exec_delete db_user_group_memberships db_user_group_memberships_update
    (\<lambda>_ x. user_group_memberships_user_id x = i \<and>
      user_group_memberships_group_id x \<notin> {PendingUsersGroupID, ApprovedUsersGroupID})"
  let ?rest = "\<lambda>user. thenE ?groups (thenE (forE (UserUpdate_GroupIDs input) (join_user_group i now))
    (thenE (revoke_sessions_of i now) (ret user)))"
  let ?upd = "update_returning_unique db_users db_users_update users_unique
    (\<lambda>r. users_id r = i) (apply_user_update input now)"
  from assms(1) [unfolded UpdateUser_def] obtain fs d1 gs role e1 u e2 y e3 x where
    d': "d' = set_faults gs d1" and
    sel: "select_role i (set_faults fs d) = (Inr role, e1)" and
    chk: "whenE (role = RoleAdmin \<and> UserUpdate_Role input \<noteq> RoleAdmin) refuse_last_admin e1 = (Inr u, e2)" and
    upd: "?upd e2 = (Inr y, e3)" and rest: "?rest x e3 = (Inr user, d1)"
    by (elim transaction_InrE) (auto simp: bindE_Inr_iff thenE_Inr_iff [of "whenE _ _"] scan_found_Inr_iff)
  have "same_tables d e2"
    using stepsD [OF select_role_same sel] stepsD [OF refuse_same chk] stb.step_trans by auto
  then have "version_from i v e2" using assms(2) same_tables_rows(1) by (simp add: version_from_def)
  then have e3: "version_from i (v + 1) e3"
    using upd by (auto elim!: update_returning_unique_okE intro!: version_from_raise)
  have "steps (version_kept i (v + 1)) (?rest x)"
    unfolding join_user_group_def revoke_sessions_of_def
    by (intro vsk.db_intros; (auto intro!: version_kept_other)?)
  from stepsD [OF this rest] e3 have "version_from i (v + 1) d1" by (simp add: version_kept_def)
  then show ?thesis by (simp add: d')
qed

lemma RevokeUserSessions_version: "RevokeUserSessions j now d = (r, d') \<Longrightarrow> version_from i v d \<Longrightarrow> version_from i v d'"
  by (auto dest!: stepsD [of "version_kept i v", rotated] simp: version_kept_def RevokeUserSessions_def
      revoke_sessions_of_def intro!: vsk.db_intros version_kept_other)

lemma store_raises:
  "ForceRelogin i now d = (Inr user, d') \<Longrightarrow> version_from i v d \<Longrightarrow> version_from i (v + 1) d'"
  "UpdateUserPassword i h now d = (Inr user, d') \<Longrightarrow> version_from i v d \<Longrightarrow> version_from i (v + 1) d'"
  "SetUserEnabled i b now d = (Inr user, d') \<Longrightarrow> version_from i v d \<Longrightarrow> version_from i (v + 1) d'"
  unfolding ForceRelogin_def UpdateUserPassword_def SetUserEnabled_def
  by (erule update_user_raises; simp)+

lemma hash_password_db: "hash_password w pw st = (r, st') \<Longrightarrow> srv_db st' = srv_db st"
  by (auto simp: hash_password_def bindE_run draw_run)

lemma new_hash_db: "new_hash w s pw st = (r, st') \<Longrightarrow> srv_db st' = srv_db st"
  by (auto simp: new_hash_def thenE_run dest: hash_password_db split: sum.splits)

lemma publish_memberships_version:
  "publish_memberships_of j st = (r, st') \<Longrightarrow> version_from i v (srv_db st) \<Longrightarrow> version_from i v (srv_db st')"
proof -
  assume run: "publish_memberships_of j st = (r, st')" and v: "version_from i v (srv_db st)"
  have "steps (service_run newS (\<lambda>k. k \<noteq> i)) (publish_memberships_of j)" for newS
    unfolding publish_memberships_of_def by (intro run_intros)
  from stepsD [OF this run] v show ?thesis by (auto simp: on_db_def dest: account_run_version)
qed

lemma logs_out_raises:
  assumes "logs_out w i st st'" "version_from i v (srv_db st)"
  shows "version_from i (v + 1) (srv_db st')"
  using assms
proof cases
  case (by_ForceRelogin user)
  then show ?thesis using assms(2)
    by (auto simp: Auth_ForceRelogin_def publish_revoked_all_def service_iffs
        dest!: store_raises(1) [of _ _ _ _ _ v] RevokeUserSessions_version)
next
  case (by_SetPassword s password user)
  then show ?thesis using assms(2)
    by (auto simp: SetPassword_def publish_revoked_all_def service_iffs
        dest!: new_hash_db store_raises(2) [of _ _ _ _ _ _ v] RevokeUserSessions_version)
next
  case (by_UpdateUser s input password user)
  then show ?thesis using assms(2)
    by (auto simp: Auth_UpdateUser_def publish_revoked_all_def service_iffs split: if_splits
        dest!: new_hash_db publish_memberships_version [where i = i and v = "v + 1"]
          UpdateUser_raises [where v = v])
next
  case (by_SetUserEnabled b user)
  then show ?thesis using assms(2)
    by (auto simp: Auth_SetUserEnabled_def publish_revoked_all_def service_iffs split: if_splits
        dest!: store_raises(3) [of _ _ _ _ _ _ v] RevokeUserSessions_version)
qed

section \<open>Running without failures\<close>

lemma find_row_run:
  "db_faults d = [] \<Longrightarrow> scan_found f (query_row (\<lambda>d. find (q d) (sel d))) d =
     (case find (q d) (sel d) of None \<Rightarrow> Inl ErrNotFound | Some x \<Rightarrow> Inr (f x), d)"
  by (simp add: scan_found_def attempt_run query_row_def stmt_run split: option.splits)

lemma withPermissions_no_fault:
  "db_faults (srv_db st) = [] \<Longrightarrow> withPermissions user st = (Inr (granted (srv_db st) user), st)"
  by (simp add: withPermissions_def granted_def attempt_run sql_run FindRoleByID_def find_row_run
      split: option.splits)

lemma TouchSession_no_fault:
  "db_faults d = [] \<Longrightarrow> TouchSession i now d = (Inr (), db_sessions_update (upd_where
     (\<lambda>r. sessions_id r = i \<and> sessions_revoked_at r = None)
     (\<lambda>r. r\<lparr>sessions_last_seen_at := millis now\<rparr>)) d)"
  by (simp add: TouchSession_def execute_def exec_update_def bindE_run stmt_run)

lemma accounts_wf_keys:
  "accounts_wf d \<Longrightarrow> distinct (map users_id (db_users d))"
  "accounts_wf d \<Longrightarrow> distinct (map users_username (db_users d))"
  "accounts_wf d \<Longrightarrow> distinct (map sessions_id (db_sessions d))"
  by (simp_all add: accounts_wf_def users_unique_def)

lemma Authenticate_live:
  assumes nf: "db_faults (srv_db st) = []" and wf: "accounts_wf (srv_db st)"
    and parse: "Parse w (Service_tokens s) (world_clock w (srv_tick st)) raw = Inr claims"
    and live: "token_live (srv_db st) claims (world_clock w (srv_tick st + 1)) u x"
  shows "fst (Authenticate w s raw st) = Inr (granted (srv_db st) (scanUser u), scanSession x, claims)"
proof -
  have u: "find (\<lambda>r. users_id r = Claims_Subject claims) (db_users (srv_db st)) = Some u"
    using live find_iff_in [OF accounts_wf_keys(1) [OF wf]] by (auto simp: token_live_def)
  have x: "find (\<lambda>r. sessions_id r = Claims_SessionID claims) (db_sessions (srv_db st)) = Some x"
    using live find_iff_in [OF accounts_wf_keys(3) [OF wf]] by (auto simp: token_live_def)
  show ?thesis using live nf parse
    by (simp add: Authenticate_def bindE_run attempt_run ignoreE_run draw_run sql_run
        FindUserByID_def FindSession_def find_row_run u x withPermissions_no_fault token_live_def)
qed

end
