(* ===== verification/Digest.thy ===== *)
theory Digest
  imports Encoding "HOL-Library.Word"
begin

text \<open>
  crypto/sha1, crypto/sha256 and crypto/hmac, as FIPS 180-4 and RFC 2104 define them, on
  32-bit words: the second factor and the relay control channel compute with them.
\<close>

unbundle bit_operations_syntax

type_synonym w32 = "32 word"

section \<open>Words and bytes\<close>

definition be_value :: "bytes \<Rightarrow> nat" where
  "be_value s = foldl (\<lambda>n c. 256 * n + byte c) 0 s"

definition be_words :: "bytes \<Rightarrow> w32 list" where
  "be_words s = map (\<lambda>g. word_of_nat (be_value g)) (chunks 4 s)"

primrec be_bytes :: "nat \<Rightarrow> nat \<Rightarrow> bytes" where
  "be_bytes 0 n = []"
| "be_bytes (Suc k) n = be_bytes k (n div 256) @ [char_of (n mod 256)]"

definition word_bytes :: "w32 \<Rightarrow> bytes" where "word_bytes x = be_bytes 4 (unat x)"

text \<open>A message is followed by a one bit, zeros and its length in bits, up to a multiple
  of 64 bytes.\<close>

definition pad_message :: "bytes \<Rightarrow> bytes" where
  "pad_message s = s @ [char_of (128 :: nat)] @ replicate ((64 - (length s + 9) mod 64) mod 64) (char_of (0 :: nat)) @
     be_bytes 8 (8 * length s)"

definition blocks :: "bytes \<Rightarrow> w32 list list" where
  "blocks s = map be_words (chunks 64 (pad_message s))"

section \<open>SHA-1\<close>

definition sha1_schedule :: "w32 list \<Rightarrow> w32 list" where
  "sha1_schedule m = fold (\<lambda>t ws. ws @ [word_rotl 1 (ws ! (t - 3) XOR ws ! (t - 8) XOR ws ! (t - 14) XOR ws ! (t - 16))])
     [16..<80] m"

definition sha1_f :: "nat \<Rightarrow> w32 \<Rightarrow> w32 \<Rightarrow> w32 \<Rightarrow> w32" where
  "sha1_f t b c d =
     (if t < 20 then (b AND c) OR (NOT b AND d)
      else if t < 40 then b XOR c XOR d
      else if t < 60 then (b AND c) OR (b AND d) OR (c AND d)
      else b XOR c XOR d)"

definition sha1_k :: "nat \<Rightarrow> w32" where
  "sha1_k t = (if t < 20 then 0x5A827999 else if t < 40 then 0x6ED9EBA1
     else if t < 60 then 0x8F1BBCDC else 0xCA62C1D6)"

type_synonym sha1_state = "w32 \<times> w32 \<times> w32 \<times> w32 \<times> w32"

definition sha1_round :: "w32 list \<Rightarrow> nat \<Rightarrow> sha1_state \<Rightarrow> sha1_state" where
  "sha1_round ws t = (\<lambda>(a, b, c, d, e).
     (word_rotl 5 a + sha1_f t b c d + e + sha1_k t + ws ! t, a, word_rotl 30 b, c, d))"

definition sha1_block :: "w32 list \<Rightarrow> sha1_state \<Rightarrow> sha1_state" where
  "sha1_block m = (\<lambda>(h0, h1, h2, h3, h4).
     case fold (sha1_round (sha1_schedule m)) [0..<80] (h0, h1, h2, h3, h4) of
       (a, b, c, d, e) \<Rightarrow> (h0 + a, h1 + b, h2 + c, h3 + d, h4 + e))"

definition SHA1 :: "bytes \<Rightarrow> bytes" where
  "SHA1 s = (case fold sha1_block (blocks s)
       (0x67452301, 0xEFCDAB89, 0x98BADCFE, 0x10325476, 0xC3D2E1F0) of
     (a, b, c, d, e) \<Rightarrow> word_bytes a @ word_bytes b @ word_bytes c @ word_bytes d @ word_bytes e)"

section \<open>SHA-256\<close>

text \<open>The round constants are the first 32 bits of the fractional parts of the cube roots
  of the first 64 primes: the integer root of \<open>p * 2 ^ 96\<close>, found bit by bit and cut
  to its lowest 32 bits.\<close>

definition int_root :: "nat \<Rightarrow> nat \<Rightarrow> nat" where
  "int_root k n = fold (\<lambda>i r. if (r + 2 ^ i) ^ k \<le> n then r + 2 ^ i else r) (rev [0..<36]) 0"

definition first_primes :: "nat list" where
  "first_primes = filter (\<lambda>n. \<forall>m \<in> set [2..<n]. n mod m \<noteq> 0) [2..<312]"

definition sha256_k :: "w32 list" where
  "sha256_k = map (\<lambda>p. word_of_nat (int_root 3 (p * 2 ^ 96))) first_primes"

definition small_sigma0 :: "w32 \<Rightarrow> w32" where
  "small_sigma0 x = word_rotr 7 x XOR word_rotr 18 x XOR drop_bit 3 x"

definition small_sigma1 :: "w32 \<Rightarrow> w32" where
  "small_sigma1 x = word_rotr 17 x XOR word_rotr 19 x XOR drop_bit 10 x"

definition big_sigma0 :: "w32 \<Rightarrow> w32" where
  "big_sigma0 x = word_rotr 2 x XOR word_rotr 13 x XOR word_rotr 22 x"

definition big_sigma1 :: "w32 \<Rightarrow> w32" where
  "big_sigma1 x = word_rotr 6 x XOR word_rotr 11 x XOR word_rotr 25 x"

definition sha256_schedule :: "w32 list \<Rightarrow> w32 list" where
  "sha256_schedule m = fold (\<lambda>t ws. ws @ [small_sigma1 (ws ! (t - 2)) + ws ! (t - 7) +
     small_sigma0 (ws ! (t - 15)) + ws ! (t - 16)]) [16..<64] m"

type_synonym sha256_state = "w32 \<times> w32 \<times> w32 \<times> w32 \<times> w32 \<times> w32 \<times> w32 \<times> w32"

definition sha256_round :: "w32 list \<Rightarrow> nat \<Rightarrow> sha256_state \<Rightarrow> sha256_state" where
  "sha256_round ws t = (\<lambda>(a, b, c, d, e, f, g, h).
     let t1 = h + big_sigma1 e + ((e AND f) XOR (NOT e AND g)) + sha256_k ! t + ws ! t;
         t2 = big_sigma0 a + ((a AND b) XOR (a AND c) XOR (b AND c))
     in (t1 + t2, a, b, c, d + t1, e, f, g))"

definition sha256_block :: "w32 list \<Rightarrow> sha256_state \<Rightarrow> sha256_state" where
  "sha256_block m = (\<lambda>(h0, h1, h2, h3, h4, h5, h6, h7).
     case fold (sha256_round (sha256_schedule m)) [0..<64] (h0, h1, h2, h3, h4, h5, h6, h7) of
       (a, b, c, d, e, f, g, h) \<Rightarrow>
         (h0 + a, h1 + b, h2 + c, h3 + d, h4 + e, h5 + f, h6 + g, h7 + h))"

definition SHA256 :: "bytes \<Rightarrow> bytes" where
  "SHA256 s = (case fold sha256_block (blocks s)
       (0x6a09e667, 0xbb67ae85, 0x3c6ef372, 0xa54ff53a, 0x510e527f, 0x9b05688c, 0x1f83d9ab, 0x5be0cd19) of
     (a, b, c, d, e, f, g, h) \<Rightarrow> word_bytes a @ word_bytes b @ word_bytes c @ word_bytes d @
       word_bytes e @ word_bytes f @ word_bytes g @ word_bytes h)"

section \<open>HMAC\<close>

definition xor_pad :: "nat \<Rightarrow> bytes \<Rightarrow> bytes" where
  "xor_pad n key = map (\<lambda>c. char_of (byte c XOR n)) (key @ replicate (64 - length key) (char_of (0 :: nat)))"

definition HMAC :: "(bytes \<Rightarrow> bytes) \<Rightarrow> bytes \<Rightarrow> bytes \<Rightarrow> bytes" where
  "HMAC H key0 msg =
     (let key = (if length key0 > 64 then H key0 else key0)
      in H (xor_pad 0x5c key @ H (xor_pad 0x36 key @ msg)))"

section \<open>Lengths\<close>

lemma length_be_bytes [simp]: "length (be_bytes k n) = k"
  by (induction k arbitrary: n) auto

lemma length_SHA1 [simp]: "length (SHA1 s) = 20"
  by (simp add: SHA1_def word_bytes_def split: prod.splits)

lemma length_SHA256 [simp]: "length (SHA256 s) = 32"
  by (simp add: SHA256_def word_bytes_def split: prod.splits)

lemma length_HMAC: "(\<And>s. length (H s) = n) \<Longrightarrow> length (HMAC H key msg) = n"
  by (simp add: HMAC_def Let_def)

end
