(* ===== verification/Cipher.thy ===== *)
theory Cipher
  imports Digest
begin

text \<open>
  crypto/aes with a 256-bit key and crypto/cipher.NewGCM with its 96-bit nonce and empty
  additional data, as FIPS 197 and NIST SP 800-38D define them: the second factor keeps
  its secrets encrypted with them.
\<close>

type_synonym w8 = "8 word"
type_synonym w128 = "128 word"

section \<open>AES-256\<close>

definition sbox :: "w8 list" where
  "sbox = [
     0x63, 0x7c, 0x77, 0x7b, 0xf2, 0x6b, 0x6f, 0xc5, 0x30, 0x01, 0x67, 0x2b, 0xfe, 0xd7, 0xab, 0x76,
     0xca, 0x82, 0xc9, 0x7d, 0xfa, 0x59, 0x47, 0xf0, 0xad, 0xd4, 0xa2, 0xaf, 0x9c, 0xa4, 0x72, 0xc0,
     0xb7, 0xfd, 0x93, 0x26, 0x36, 0x3f, 0xf7, 0xcc, 0x34, 0xa5, 0xe5, 0xf1, 0x71, 0xd8, 0x31, 0x15,
     0x04, 0xc7, 0x23, 0xc3, 0x18, 0x96, 0x05, 0x9a, 0x07, 0x12, 0x80, 0xe2, 0xeb, 0x27, 0xb2, 0x75,
     0x09, 0x83, 0x2c, 0x1a, 0x1b, 0x6e, 0x5a, 0xa0, 0x52, 0x3b, 0xd6, 0xb3, 0x29, 0xe3, 0x2f, 0x84,
     0x53, 0xd1, 0x00, 0xed, 0x20, 0xfc, 0xb1, 0x5b, 0x6a, 0xcb, 0xbe, 0x39, 0x4a, 0x4c, 0x58, 0xcf,
     0xd0, 0xef, 0xaa, 0xfb, 0x43, 0x4d, 0x33, 0x85, 0x45, 0xf9, 0x02, 0x7f, 0x50, 0x3c, 0x9f, 0xa8,
     0x51, 0xa3, 0x40, 0x8f, 0x92, 0x9d, 0x38, 0xf5, 0xbc, 0xb6, 0xda, 0x21, 0x10, 0xff, 0xf3, 0xd2,
     0xcd, 0x0c, 0x13, 0xec, 0x5f, 0x97, 0x44, 0x17, 0xc4, 0xa7, 0x7e, 0x3d, 0x64, 0x5d, 0x19, 0x73,
     0x60, 0x81, 0x4f, 0xdc, 0x22, 0x2a, 0x90, 0x88, 0x46, 0xee, 0xb8, 0x14, 0xde, 0x5e, 0x0b, 0xdb,
     0xe0, 0x32, 0x3a, 0x0a, 0x49, 0x06, 0x24, 0x5c, 0xc2, 0xd3, 0xac, 0x62, 0x91, 0x95, 0xe4, 0x79,
     0xe7, 0xc8, 0x37, 0x6d, 0x8d, 0xd5, 0x4e, 0xa9, 0x6c, 0x56, 0xf4, 0xea, 0x65, 0x7a, 0xae, 0x08,
     0xba, 0x78, 0x25, 0x2e, 0x1c, 0xa6, 0xb4, 0xc6, 0xe8, 0xdd, 0x74, 0x1f, 0x4b, 0xbd, 0x8b, 0x8a,
     0x70, 0x3e, 0xb5, 0x66, 0x48, 0x03, 0xf6, 0x0e, 0x61, 0x35, 0x57, 0xb9, 0x86, 0xc1, 0x1d, 0x9e,
     0xe1, 0xf8, 0x98, 0x11, 0x69, 0xd9, 0x8e, 0x94, 0x9b, 0x1e, 0x87, 0xe9, 0xce, 0x55, 0x28, 0xdf,
     0x8c, 0xa1, 0x89, 0x0d, 0xbf, 0xe6, 0x42, 0x68, 0x41, 0x99, 0x2d, 0x0f, 0xb0, 0x54, 0xbb, 0x16]"

definition sub_byte :: "w8 \<Rightarrow> w8" where "sub_byte x = sbox ! unat x"

definition xtime :: "w8 \<Rightarrow> w8" where
  "xtime x = (if bit x 7 then push_bit 1 x XOR 0x1b else push_bit 1 x)"

definition xor_list :: "w8 list \<Rightarrow> w8 list \<Rightarrow> w8 list" where
  "xor_list = map2 (XOR)"

text \<open>The expanded key as 60 columns of four bytes, newest last.\<close>

definition rcon :: "nat \<Rightarrow> w8" where "rcon i = push_bit (i - 1) 1"

definition next_column :: "nat \<Rightarrow> w8 list list \<Rightarrow> w8 list" where
  "next_column i ws =
     (let t = ws ! (i - 1);
          t' = (if i mod 8 = 0 then xor_list (map sub_byte (rotate1 t)) [rcon (i div 8), 0, 0, 0]
                else if i mod 8 = 4 then map sub_byte t else t)
      in xor_list (ws ! (i - 8)) t')"

definition expand_key :: "w8 list \<Rightarrow> w8 list list" where
  "expand_key key = fold (\<lambda>i ws. ws @ [next_column i ws]) [8..<60] (chunks 4 key)"

definition round_key :: "w8 list list \<Rightarrow> nat \<Rightarrow> w8 list" where
  "round_key ws r = concat (take 4 (drop (4 * r) ws))"

definition shift_rows :: "w8 list \<Rightarrow> w8 list" where
  "shift_rows s = map (\<lambda>i. s ! i) [0, 5, 10, 15, 4, 9, 14, 3, 8, 13, 2, 7, 12, 1, 6, 11]"

definition mix_column :: "w8 list \<Rightarrow> w8 list" where
  "mix_column c = (let m = (\<lambda>i. c ! (i mod 4)) in
     map (\<lambda>i. xtime (m i) XOR (xtime (m (i + 1)) XOR m (i + 1)) XOR m (i + 2) XOR m (i + 3)) [0, 1, 2, 3])"

definition aes_round :: "w8 list list \<Rightarrow> nat \<Rightarrow> w8 list \<Rightarrow> w8 list" where
  "aes_round ws r s =
     (let t = shift_rows (map sub_byte s) in
      xor_list (if r < 14 then concat (map mix_column (chunks 4 t)) else t) (round_key ws r))"

definition AES256 :: "w8 list \<Rightarrow> w8 list \<Rightarrow> w8 list" where
  "AES256 key block = (let ws = expand_key key in
     fold (aes_round ws) [1..<15] (xor_list block (round_key ws 0)))"

section \<open>GCM\<close>

definition w8_of :: "char \<Rightarrow> w8" where "w8_of c = word_of_nat (byte c)"
definition of_w8 :: "w8 \<Rightarrow> char" where "of_w8 x = char_of (unat x)"

definition aes_bytes :: "bytes \<Rightarrow> bytes \<Rightarrow> bytes" where
  "aes_bytes key block = map of_w8 (AES256 (map w8_of key) (map w8_of block))"

definition xor_bytes :: "bytes \<Rightarrow> bytes \<Rightarrow> bytes" where
  "xor_bytes = map2 (\<lambda>c d. of_w8 (w8_of c XOR w8_of d))"

definition counter_block :: "bytes \<Rightarrow> nat \<Rightarrow> bytes" where
  "counter_block nonce n = nonce @ be_bytes 4 n"

text \<open>The key stream of as many blocks as the text has, from counter 2 on.\<close>

definition key_stream :: "bytes \<Rightarrow> bytes \<Rightarrow> nat \<Rightarrow> bytes" where
  "key_stream key nonce n =
     take n (concat (map (\<lambda>i. take 16 (aes_bytes key (counter_block nonce (i + 2)) @ replicate 16 (char_of (0 :: nat))))
       [0..<n div 16 + 1]))"

definition gf_step :: "w128 \<Rightarrow> nat \<Rightarrow> w128 \<times> w128 \<Rightarrow> w128 \<times> w128" where
  "gf_step x i = (\<lambda>(z, v).
     (if bit x (127 - i) then z XOR v else z,
      if bit v 0 then drop_bit 1 v XOR 0xe1000000000000000000000000000000 else drop_bit 1 v))"

definition gf_mult :: "w128 \<Rightarrow> w128 \<Rightarrow> w128" where
  "gf_mult x y = fst (fold (gf_step x) [0..<128] (0, y))"

definition block_word :: "bytes \<Rightarrow> w128" where "block_word s = word_of_nat (be_value s)"

definition zero_pad16 :: "bytes \<Rightarrow> bytes" where
  "zero_pad16 s = s @ replicate ((16 - length s mod 16) mod 16) (char_of (0 :: nat))"

definition ghash :: "w128 \<Rightarrow> bytes \<Rightarrow> w128" where
  "ghash h s = fold (\<lambda>b y. gf_mult (y XOR block_word b) h)
     (chunks 16 (zero_pad16 s) @ [be_bytes 8 0 @ be_bytes 8 (8 * length s)]) 0"

definition gcm_tag :: "bytes \<Rightarrow> bytes \<Rightarrow> bytes \<Rightarrow> bytes" where
  "gcm_tag key nonce ciphertext =
     (let h = block_word (aes_bytes key (replicate 16 (char_of (0 :: nat)))) in
      be_bytes 16 (unat (ghash h ciphertext XOR block_word (aes_bytes key (counter_block nonce 1)))))"

definition gcm_nonce_size :: nat where "gcm_nonce_size = 12"

definition gcm_Seal :: "bytes \<Rightarrow> bytes \<Rightarrow> bytes \<Rightarrow> bytes" where
  "gcm_Seal key nonce plaintext =
     (let ciphertext = xor_bytes plaintext (key_stream key nonce (length plaintext))
      in ciphertext @ gcm_tag key nonce ciphertext)"

definition gcm_Open :: "bytes \<Rightarrow> bytes \<Rightarrow> bytes \<Rightarrow> error + bytes" where
  "gcm_Open key nonce sealed =
     (if length sealed < 16 then Inl (Errorf ''cipher: message authentication failed'')
      else let ciphertext = take (length sealed - 16) sealed; tag = drop (length sealed - 16) sealed
        in if tag = gcm_tag key nonce ciphertext
           then Inr (xor_bytes ciphertext (key_stream key nonce (length ciphertext)))
           else Inl (Errorf ''cipher: message authentication failed''))"

section \<open>Opening a sealed text\<close>

lemma of_w8_of [simp]: "of_w8 (w8_of c) = c"
  by (simp add: of_w8_def w8_of_def unat_of_nat)

lemma w8_of_of [simp]: "w8_of (of_w8 x) = x"
proof -
  have "unat x < 256" using unsigned_less [of x] by simp
  then show ?thesis by (simp add: of_w8_def w8_of_def)
qed

lemma xor_bytes_twice: "length s \<le> length k \<Longrightarrow> xor_bytes (xor_bytes s k) k = s"
  by (induction s k rule: list_induct2') (auto simp: xor_bytes_def xor.assoc)

lemma length_xor_bytes [simp]: "length (xor_bytes s k) = min (length s) (length k)"
  by (simp add: xor_bytes_def)

lemma length_key_stream [simp]: "length (key_stream key nonce n) = n"
proof -
  let ?f = "\<lambda>i. take 16 (aes_bytes key (counter_block nonce (i + 2)) @ replicate 16 (char_of (0 :: nat)))"
  have "length (concat (map ?f [0..<k])) = 16 * k" for k
    by (induction k) (auto simp: min_def)
  moreover have "n \<le> 16 * (n div 16 + 1)"
    using div_mult_mod_eq [of n 16] mod_less_divisor [of 16 n] by simp
  ultimately show ?thesis unfolding key_stream_def by (simp only: length_take)
qed

lemma length_gcm_tag [simp]: "length (gcm_tag key nonce c) = 16"
  by (simp add: gcm_tag_def Let_def)

lemma gcm_Open_Seal [simp]: "gcm_Open key nonce (gcm_Seal key nonce plaintext) = Inr plaintext"
  by (simp add: gcm_Open_def gcm_Seal_def Let_def xor_bytes_twice)

end
