(* ===== verification/MFA.thy ===== *)
theory MFA
  imports Auth_Runs Cipher
begin

text \<open>
  The second factor of internal/mfa/totp.go: time-based one-time passwords, recovery
  codes, and the encryption of the secrets in the users table.
\<close>

section \<open>One-time passwords\<close>

text \<open>Division of int64 values truncates toward zero.\<close>

definition go_div :: "int \<Rightarrow> int \<Rightarrow> int" where
  "go_div a b = sgn a * sgn b * (\<bar>a\<bar> div \<bar>b\<bar>)"

definition totp_counter :: "instant \<Rightarrow> int" where
  "totp_counter now = go_div (Unix now) 30"

definition codeForCounter :: "bytes \<Rightarrow> int \<Rightarrow> string" where
  "codeForCounter secret counter =
     (let input = be_bytes 8 (nat (counter mod 2 ^ 64));
          sum = HMAC SHA1 secret input;
          index = byte (last sum) AND 15;
          value = push_bit 24 (byte (sum ! index) AND 127) OR push_bit 16 (byte (sum ! (index + 1)) AND 255)
                  OR push_bit 8 (byte (sum ! (index + 2)) AND 255) OR (byte (sum ! (index + 3)) AND 255)
      in dec_pad6 (int (value mod 1000000)))"

definition TOTP_Validate :: "string \<Rightarrow> string \<Rightarrow> instant \<Rightarrow> bool" where
  "TOTP_Validate secret code0 now =
     (let code = TrimSpace code0 in
      if length code \<noteq> 6 then False
      else case Atoi code of
        None \<Rightarrow> False
      | Some candidate \<Rightarrow>
          (case Base32_Decode (ToUpper secret) of
             None \<Rightarrow> False
           | Some decoded \<Rightarrow>
               list_ex (\<lambda>offset. codeForCounter decoded (totp_counter now + offset) = dec_pad6 candidate)
                 [-1, 0, 1]))"

definition TOTP_Code :: "string \<Rightarrow> instant \<Rightarrow> error + string" where
  "TOTP_Code secret now =
     (case Base32_Decode (ToUpper secret) of
        None \<Rightarrow> Inl (Errorf ''illegal base32 data'')
      | Some decoded \<Rightarrow> Inr (codeForCounter decoded (totp_counter now)))"

section \<open>The service\<close>

type_synonym Mode = string

abbreviation ModeOptional :: Mode where "ModeOptional \<equiv> ''optional''"
abbreviation ModeAdmins :: Mode where "ModeAdmins \<equiv> ''required_for_admins''"
abbreviation ModeAll :: Mode where "ModeAll \<equiv> ''required_for_all_users''"

record MFA_Service =
  MFA_key :: bytes
  MFA_recoveryKey :: bytes
  MFA_mode :: Mode
  MFA_issuer :: string

record Enrollment =
  Enrollment_Secret :: string
  Enrollment_URI :: string
  Enrollment_RecoveryCodes :: "string list"

definition valid_mode :: "Mode \<Rightarrow> bool" where
  "valid_mode mode \<longleftrightarrow> \<not> (mode \<noteq> ModeOptional \<and> mode \<noteq> ModeAdmins \<and> mode \<noteq> ModeAll)"

definition MFA_New :: "bytes \<Rightarrow> Mode \<Rightarrow> string \<Rightarrow> error + MFA_Service" where
  "MFA_New encryptionKey mode issuer =
     (if \<not> valid_mode mode then Inl (Errorf (''invalid 2FA mode '' @ mode))
      else Inr \<lparr>MFA_key = SHA256 encryptionKey,
                MFA_recoveryKey = SHA256 (''art-rustdesk:mfa-recovery:'' @ encryptionKey),
                MFA_mode = mode, MFA_issuer = issuer\<rparr>)"

definition Required :: "MFA_Service \<Rightarrow> User \<Rightarrow> bool" where
  "Required m user \<longleftrightarrow> MFA_mode m = ModeAll \<or> MFA_mode m = ModeAdmins \<and> User_Role user = RoleAdmin"

definition SetMode :: "Mode \<Rightarrow> MFA_Service \<Rightarrow> error + MFA_Service" where
  "SetMode mode m = (if \<not> valid_mode mode then Inl (Errorf (''invalid 2FA mode '' @ mode))
     else Inr (m\<lparr>MFA_mode := mode\<rparr>))"

text \<open>A Read from crypto/rand of \<open>k\<close> bytes.\<close>

definition rand_read :: "world \<Rightarrow> nat \<Rightarrow> (server, bytes) prog" where
  "rand_read w k = bindE (draw (\<lambda>n. world_random w n k)) liftE"

definition encrypt :: "world \<Rightarrow> MFA_Service \<Rightarrow> string \<Rightarrow> (server, string) prog" where
  "encrypt w m value = bindE (rand_read w gcm_nonce_size) (\<lambda>nonce.
     ret (Base64URL_Encode (nonce @ gcm_Seal (MFA_key m) nonce value)))"

definition decrypt :: "MFA_Service \<Rightarrow> string \<Rightarrow> error + string" where
  "decrypt m value =
     (case Base64URL_Decode value of
        None \<Rightarrow> Inl (Errorf ''invalid encrypted TOTP secret'')
      | Some raw \<Rightarrow>
          if length raw < gcm_nonce_size then Inl (Errorf ''invalid encrypted TOTP secret'')
          else gcm_Open (MFA_key m) (take gcm_nonce_size raw) (drop gcm_nonce_size raw))"

definition recoveryHash :: "MFA_Service \<Rightarrow> string \<Rightarrow> string" where
  "recoveryHash m code = Base64URL_Encode (HMAC SHA256 (MFA_recoveryKey m)
     (ToUpper (remove_byte CHR ''-'' (TrimSpace code))))"

definition recovery_code :: "bytes \<Rightarrow> string" where
  "recovery_code raw = (let encoded = take 10 (Base32_Encode raw) in take 5 encoded @ ''-'' @ drop 5 encoded)"

definition generateRecoveryCodes :: "world \<Rightarrow> MFA_Service \<Rightarrow> (server, string list \<times> string list) prog" where
  "generateRecoveryCodes w m =
     bindE (mapE [0..<10 :: nat] (\<lambda>_. rand_read w 7)) (\<lambda>raws.
       let codes = map recovery_code raws in ret (codes, map (recoveryHash m) codes))"

subsection \<open>The provisioning address\<close>

definition unreserved :: "char \<Rightarrow> bool" where
  "unreserved c \<longleftrightarrow> is_digit c \<or> 65 \<le> byte c \<and> byte c \<le> 90 \<or> 97 \<le> byte c \<and> byte c \<le> 122 \<or>
     c \<in> set ''-_.~''"

definition percent :: "char \<Rightarrow> string" where
  "percent c = [CHR ''%'', ''0123456789ABCDEF'' ! (byte c div 16), ''0123456789ABCDEF'' ! (byte c mod 16)]"

definition PathEscape :: "string \<Rightarrow> string" where
  "PathEscape s = concat (map (\<lambda>c. if unreserved c \<or> c \<in> set ''$&+:=@'' then [c] else percent c) s)"

definition QueryEscape :: "string \<Rightarrow> string" where
  "QueryEscape s = concat (map (\<lambda>c. if unreserved c then [c] else if c = CHR '' '' then ''+'' else percent c) s)"

text \<open>url.Values.Encode sorts the keys.\<close>

definition otpauth_uri :: "MFA_Service \<Rightarrow> User \<Rightarrow> string \<Rightarrow> string" where
  "otpauth_uri m user secret =
     ''otpauth://totp/'' @ PathEscape (MFA_issuer m @ '':'' @ User_Username user) @
     ''?algorithm=SHA1&digits=6&issuer='' @ QueryEscape (MFA_issuer m) @
     ''&period=30&secret='' @ QueryEscape secret"

subsection \<open>Operations\<close>

definition MFA_Begin :: "world \<Rightarrow> MFA_Service \<Rightarrow> User \<Rightarrow> (server, Enrollment) prog" where
  "MFA_Begin w m user =
     bindE (rand_read w 20) (\<lambda>raw.
     let secret = Base32_Encode raw in
     bindE (encrypt w m secret) (\<lambda>encrypted.
     bindE (now_of w) (\<lambda>now.
     thenE (sql (SetUserTOTP (User_ID user) encrypted False now))
    (bindE (generateRecoveryCodes w m) (\<lambda>(codes, hashes).
     bindE (now_of w) (\<lambda>now.
     thenE (sql (ReplaceMFARecoveryCodes (User_ID user) hashes now))
           (ret \<lparr>Enrollment_Secret = secret, Enrollment_URI = otpauth_uri m user secret,
                 Enrollment_RecoveryCodes = codes\<rparr>)))))))"

text \<open>\<open>err != nil || !Validate(secret, code, s.now())\<close>: the clock is read when the secret
  decrypts.\<close>

definition code_valid :: "world \<Rightarrow> MFA_Service \<Rightarrow> User \<Rightarrow> string \<Rightarrow> (server, bool) prog" where
  "code_valid w m user code =
     (case decrypt m (User_TOTPSecret user) of
        Inl _ \<Rightarrow> ret False
      | Inr secret \<Rightarrow> bindE (now_of w) (\<lambda>now. ret (TOTP_Validate secret code now)))"

definition MFA_Confirm :: "world \<Rightarrow> MFA_Service \<Rightarrow> User \<Rightarrow> string \<Rightarrow> (server, User) prog" where
  "MFA_Confirm w m user code =
     bindE (code_valid w m user code) (\<lambda>ok.
     if \<not> ok then throw ErrInvalidCode
     else bindE (now_of w) (\<lambda>now. sql (SetUserTOTP (User_ID user) (User_TOTPSecret user) True now)))"

definition MFA_Disable :: "world \<Rightarrow> MFA_Service \<Rightarrow> User \<Rightarrow> string \<Rightarrow> (server, User) prog" where
  "MFA_Disable w m user code =
     bindE (if User_TOTPEnabled user then code_valid w m user code else ret True) (\<lambda>ok.
     if \<not> ok then throw ErrInvalidCode
     else bindE (now_of w) (\<lambda>now.
          bindE (sql (SetUserTOTP (User_ID user) [] False now)) (\<lambda>updated.
          bindE (now_of w) (\<lambda>now.
          thenE (sql (ReplaceMFARecoveryCodes (User_ID user) [] now)) (ret updated)))))"

definition MFA_Verify :: "world \<Rightarrow> MFA_Service \<Rightarrow> User \<Rightarrow> string \<Rightarrow> (server, bool \<times> bool) prog" where
  "MFA_Verify w m user code =
     (if \<not> User_TOTPEnabled user then ret (\<not> Required m user, False)
      else bindE (code_valid w m user code) (\<lambda>ok.
        if ok then ret (True, False)
        else bindE (sql (ConsumeMFARecoveryCode (User_ID user) (recoveryHash m code)))
               (\<lambda>consumed. ret (consumed, consumed))))"

definition RegenerateRecoveryCodes :: "world \<Rightarrow> MFA_Service \<Rightarrow> User \<Rightarrow> string \<Rightarrow> (server, string list) prog" where
  "RegenerateRecoveryCodes w m user code =
     bindE (code_valid w m user code) (\<lambda>ok.
     if \<not> ok then throw ErrInvalidCode
     else bindE (generateRecoveryCodes w m) (\<lambda>(codes, hashes).
          bindE (now_of w) (\<lambda>now.
          thenE (sql (ReplaceMFARecoveryCodes (User_ID user) hashes now)) (ret codes))))"

definition RecoveryCodesRemaining :: "string \<Rightarrow> (server, int) prog" where
  "RecoveryCodesRemaining userID = sql (CountMFARecoveryCodes userID)"

section \<open>Decimal codes\<close>

lemma dec_pad6_code:
  assumes "n < 1000000"
  shows "length (dec_pad6 (int n)) = 6" "list_all is_digit (dec_pad6 (int n))"
    "digits_value (dec_pad6 (int n)) = n"
proof -
  have "length (dec_nat n) \<le> 6" using assms by (intro length_dec_nat) simp_all
  then show "length (dec_pad6 (int n)) = 6" by (simp add: dec_pad6_def Let_def)
  have "is_digit CHR ''0''" by code_simp
  then show "list_all is_digit (dec_pad6 (int n))"
    using dec_nat_digits by (auto simp: dec_pad6_def Let_def list_all_iff)
  show "digits_value (dec_pad6 (int n)) = n"
    by (simp add: dec_pad6_def Let_def digits_value_zeros)
qed

lemma digits_value_bound: "list_all is_digit s \<Longrightarrow> digits_value s < 10 ^ length s"
proof (induction s rule: rev_induct)
  case Nil
  then show ?case by (simp add: digits_value_def)
next
  case (snoc c s)
  then have "digits_value s + 1 \<le> 10 ^ length s" "byte c - 48 < 10" by (auto simp: is_digit_def)
  then show ?case by (simp add: digits_value_snoc)
qed

lemma digits_value_inj:
  "list_all is_digit s \<Longrightarrow> list_all is_digit t \<Longrightarrow> length s = length t \<Longrightarrow>
   digits_value s = digits_value t \<Longrightarrow> s = t"
proof (induction s arbitrary: t rule: rev_induct)
  case (snoc c s)
  then obtain d t' where t: "t = t' @ [d]" by (metis length_0_conv rev_exhaust snoc_eq_iff_butlast)
  have cd: "byte c - 48 < 10" "byte d - 48 < 10" "48 \<le> byte c" "48 \<le> byte d"
    using snoc.prems by (auto simp: t is_digit_def)
  have eq: "digits_value s * 10 + (byte c - 48) = digits_value t' * 10 + (byte d - 48)"
    using snoc.prems by (simp add: t digits_value_snoc)
  then have q: "digits_value s = digits_value t'" using cd(1,2) by linarith
  then have "byte c - 48 = byte d - 48" using eq by simp
  then have "s = t'" "byte c = byte d" using snoc cd q by (simp_all add: t)
  then show ?case by (simp add: t byte_eq_iff)
qed simp

lemma Atoi_digits:
  assumes "list_all is_digit s" "length s = 6"
  shows "Atoi s = Some (int (digits_value s))" "dec_pad6 (int (digits_value s)) = s"
proof -
  obtain c cs where s: "s = c # cs" using assms(2) by (cases s) auto
  have "is_digit c" using assms(1) by (simp add: s)
  moreover have "\<not> is_digit CHR ''-''" "\<not> is_digit CHR ''+''" by code_simp+
  ultimately have "c \<noteq> CHR ''-''" "c \<noteq> CHR ''+''" by auto
  moreover have bound: "digits_value s < 1000000" using digits_value_bound [OF assms(1)] assms(2) by simp
  ultimately show "Atoi s = Some (int (digits_value s))"
    using assms(1) by (simp add: Atoi_def s)
  show "dec_pad6 (int (digits_value s)) = s"
    using dec_pad6_code [OF bound] assms by (intro digits_value_inj) auto
qed

lemma codeForCounter_digits:
  "length (codeForCounter secret counter) = 6" "list_all is_digit (codeForCounter secret counter)"
  by (simp_all add: codeForCounter_def Let_def dec_pad6_code)

end
