(* ===== verification/Auth_Props.thy ===== *)
theory Auth_Props
  imports Auth_Runs
begin

text \<open>
  The properties of the authentication service: exactly which tokens authenticate, which
  never do again, that a login yields a working token, and that a password change takes
  effect.
\<close>

section \<open>The token library\<close>

text \<open>What the documentation of golang-jwt promises of a token it signed: parsed with the
  same key, an accepted method, the issuer and an audience of the claims, after its
  issue and before its expiry, it gives the claims back.  Dates are whole seconds, and
  JSON carries valid UTF-8 only.\<close>

definition utf8_claims :: "Claims \<Rightarrow> bool" where
  "utf8_claims c \<longleftrightarrow> list_all ValidString
     ([Claims_SessionID c, Claims_Username c, Claims_DisplayName c, Claims_Role c, Claims_DeviceID c,
       Claims_Issuer c, Claims_Subject c, Claims_JTI c] @ Claims_Audience c)"

definition jwt_faithful :: "world \<Rightarrow> bool" where
  "jwt_faithful w \<longleftrightarrow> (\<forall>c secret raw key opts t e i.
     world_jwt_sign w c secret = Inr raw \<and> utf8_claims c \<and>
     key ''HS256'' = Inr secret \<and> ''HS256'' \<in> set (jwt_validMethods opts) \<and>
     Claims_Issuer c = jwt_issuer opts \<and> jwt_audience opts \<in> set (Claims_Audience c) \<and>
     Claims_NotBefore c = None \<and>
     Claims_IssuedAt c = Some i \<and> NewNumericDate i = i \<and> i \<le> t \<and>
     Claims_ExpiresAt c = Some e \<and> NewNumericDate e = e \<and> t < e \<longrightarrow>
     world_jwt_parse w key opts t raw = Inr c)"

lemma NewNumericDate_idem: "NewNumericDate (NewNumericDate t) = NewNumericDate t"
proof -
  have "t - (t - zero_time) mod Second - zero_time = Second * ((t - zero_time) div Second)"
    by (simp add: minus_mod_eq_mult_div [symmetric])
  then show ?thesis by (simp add: NewNumericDate_def time_Truncate_def Second_def)
qed

lemma NewNumericDate_le: "NewNumericDate t \<le> t"
  by (simp add: NewNumericDate_def time_Truncate_def Second_def)

lemma NewNumericDate_mono: "s \<le> t \<Longrightarrow> NewNumericDate s \<le> NewNumericDate t"
proof -
  have eq: "NewNumericDate r = (r - zero_time) div Second * Second + zero_time" for r
    using div_mult_mod_eq [of "r - zero_time" Second]
    by (simp add: NewNumericDate_def time_Truncate_def Second_def algebra_simps)
  assume "s \<le> t"
  then have "(s - zero_time) div Second \<le> (t - zero_time) div Second"
    by (intro zdiv_mono1) (simp_all add: Second_def)
  then show ?thesis by (simp add: eq Second_def)
qed

text \<open>The expiry of a token is not after the session's, as the store rounds it.\<close>

lemma NewNumericDate_millis: "NewNumericDate t \<le> fromMillis (millis t)"
proof -
  have "t - (t + 62135596800000000000) mod 1000000000 \<le> t - t mod 1000000"
  proof -
    have "(t + 62135596800000000000) mod 1000000000 = t mod 1000000000"
      using mod_mult_self1 [of t 62135596800 1000000000] by simp
    moreover have "t mod 1000000 \<le> t mod 1000000000"
      using mod_mod_cancel [of 1000000 1000000000 t] zmod_le_nonneg_dividend [of "t mod 1000000000" 1000000]
      by simp
    ultimately show ?thesis by simp
  qed
  then show ?thesis
    by (simp add: NewNumericDate_def time_Truncate_def Second_def zero_time_def millis_def
        fromMillis_def minus_mod_eq_div_mult [symmetric])
qed

lemma Parse_Issue:
  assumes "jwt_faithful w" "Issue w m user session now = Inr (token, claims)" "utf8_claims claims"
    and "User_ID user \<noteq> []" "Session_ID session \<noteq> []" "now \<le> t"
    and "t < NewNumericDate (token_expiry m session now)"
  shows "Parse w m t token = Inr claims"
proof -
  have c: "claims = issued_claims m user session now"
    "world_jwt_sign w claims (TokenManager_secret m) = Inr token"
    using assms(2) by (auto simp: Issue_def Let_def split: sum.splits)
  have "world_jwt_parse w (token_key m) (token_options m) t token = Inr claims"
    using assms(1) c(2) assms(3,6,7) NewNumericDate_idem NewNumericDate_le [of now]
    unfolding jwt_faithful_def by (force simp: c(1) issued_claims_def token_key_def token_options_def)
  then show ?thesis using assms(4,5) by (simp add: Parse_def c(1) issued_claims_def)
qed

section \<open>An example server\<close>

definition example_claims :: Claims where
  "example_claims = \<lparr>Claims_SessionID = ''s2'', Claims_Username = ''bob'', Claims_DisplayName = ''bob'',
     Claims_Role = RoleUser, Claims_TokenVersion = 1, Claims_DeviceID = [], Claims_Issuer = ''art'',
     Claims_Subject = ''u2'', Claims_Audience = [''art''], Claims_ExpiresAt = Some (5 * Second),
     Claims_NotBefore = None, Claims_IssuedAt = Some 0, Claims_JTI = []\<rparr>"

text \<open>A world whose token library knows one token.\<close>

definition example_world :: "Claims \<Rightarrow> world" where
  "example_world c = \<lparr>world_clock = (\<lambda>n. int n), world_uuid = (\<lambda>n. ''id'' @ dec_nat n),
     world_random = (\<lambda>n k. Inr (replicate k CHR ''r'')),
     world_argon2 = (\<lambda>pw s t m p n. take n (pw @ replicate n CHR ''x'')), world_numCPU = 4,
     world_unicode = \<lparr>IsUpper = (\<lambda>_. False), IsLower = (\<lambda>_. False), IsNumber = (\<lambda>_. False),
       IsLetter = (\<lambda>_. False), IsSpace = (\<lambda>_. False)\<rparr>,
     world_jwt_sign = (\<lambda>c' k. if c' = c then Inr ''token'' else Inl ErrDriver),
     world_jwt_parse = (\<lambda>key opts t raw. if raw = ''token'' then Inr c else Inl (JwtError False []))\<rparr>"

definition example_service :: Service where
  "example_service = \<lparr>Service_tokens = NewTokenManager ''key'' ''art'' ''art'' (60 * Second),
     Service_sessionTTL = 3600 * Second, Service_dummyHash = [], Service_passwordProviders = [],
     Service_passwordPolicy = \<lparr>PasswordPolicy_MinimumLength = 1, PasswordPolicy_RequireUpper = False,
       PasswordPolicy_RequireLower = False, PasswordPolicy_RequireNumber = False,
       PasswordPolicy_RequireSpecial = False\<rparr>\<rparr>"

definition example_server :: server where
  "example_server = \<lparr>srv_db = accounts_example, srv_hub = NewHub ''h'' (\<lambda>n. n), srv_tick = 1\<rparr>"

lemmas example_server_defs = example_server_def example_world_def example_service_def
  NewTokenManager_def accounts_example_defs

lemmas call_run = statement_run draw_run sql_run publish_run

lemma example_uuid: "world_uuid (example_world c) n \<noteq> CHR ''u'' # xs"
  "world_uuid (example_world c) n \<noteq> CHR ''s'' # xs"
  by (simp_all add: example_world_def)

lemma example_server_ok:
  "srv_db example_server = accounts_example" "db_faults (srv_db example_server) = []"
  "accounts_wf (srv_db example_server)"
  using accounts_example_wf by (simp_all add: example_server_def accounts_example_defs)

section \<open>Revocation\<close>

lemma RevokeSession_revokes:
  assumes "RevokeSession i now d = (r, d')" "\<forall>e. r = Inl e \<longrightarrow> errors_Is e ErrNotFound"
  shows "session_revoked i d'"
proof (cases r)
  case (Inr x)
  then show ?thesis using assms(1)
    by (auto simp: RevokeSession_def scan_found_Inr_iff session_revoked_def
        elim!: update_returning_okE upd_whereE)
next
  case (Inl e)
  then have "e = ErrNotFound" and none: "filter (\<lambda>r. sessions_id r = i \<and> sessions_revoked_at r = None) (db_sessions d) = []"
      and d': "db_sessions d' = db_sessions d"
    using assms
    by (auto simp: RevokeSession_def scan_found_def attempt_run update_returning_def stmt_def Let_def
        split: if_splits sum.splits list.splits)
  then show ?thesis by (auto simp: session_revoked_def filter_empty_conv)
qed

lemma Auth_RevokeSession_revokes:
  "Auth_RevokeSession w i st = (Inr (), st') \<Longrightarrow> session_revoked i (srv_db st')"
  by (auto simp: Auth_RevokeSession_def bindE_run draw_run attempt_run sql_run publish_run
      intro!: RevokeSession_revokes [OF surjective_pairing [THEN trans]] split: sum.splits if_splits)

section \<open>A login without failures\<close>

definition login_at :: "instant \<Rightarrow> users_row \<Rightarrow> users_row" where
  "login_at now r = r\<lparr>users_last_login_at := Some (millis now), users_updated_at := millis now\<rparr>"

lemma login_at_fields [simp]:
  "users_id (login_at now r) = users_id r" "users_enabled (login_at now r) = users_enabled r"
  "users_approval_status (login_at now r) = users_approval_status r"
  "users_token_version (login_at now r) = users_token_version r"
  by (simp_all add: login_at_def)

lemma UpdateLastLogin_no_fault:
  "db_faults d = [] \<Longrightarrow> UpdateLastLogin i now d = (Inr (), db_users_update (upd_where
     (\<lambda>r. users_id r = i) (login_at now)) d)"
  by (simp add: UpdateLastLogin_def execute_def exec_update_def bindE_run stmt_run login_at_def [abs_def])

lemma CreateSession_no_fault:
  "db_faults d = [] \<Longrightarrow> CreateSession x d =
     (if sessions_insert_ok d (sessions_row_of x)
      then (Inr (), db_sessions_update (\<lambda>rs. rs @ [sessions_row_of x]) d) else (Inl ErrConstraint, d))"
  by (simp add: CreateSession_def exec_insert_def stmt_run)

lemma CompleteLogin_no_fault:
  fixes st w s user0 input
  defines "d \<equiv> srv_db st" and "now \<equiv> world_clock w (srv_tick st)"
  defines "user \<equiv> granted (srv_db st) user0"
  defines "x \<equiv> login_session s (world_uuid w (srv_tick st + 1)) user input now"
  assumes "db_faults d = []" "CompleteLogin w s user0 input st = (Inr out, st1)"
  shows "LoginOutput_User out = user" "LoginOutput_Session out = x"
    "Issue w (Service_tokens s) user x now = Inr (LoginOutput_AccessToken out, LoginOutput_Claims out)"
    "sessions_insert_ok d (sessions_row_of x)" "srv_tick st1 = srv_tick st + 2"
    "srv_db st1 = db_users_update (upd_where (\<lambda>r. users_id r = User_ID user)
        (login_at now))
      (db_sessions_update (\<lambda>rs. rs @ [sessions_row_of x]) d)"
proof -
  have nf: "db_faults (srv_db st) = []" using assms(5) by (simp add: d_def)
  have "CompleteLogin w s user0 input st = (Inr out, st1)" by (fact assms)
  then have *: "sessions_insert_ok d (sessions_row_of x) \<and>
    (case Issue w (Service_tokens s) user x now of Inl e \<Rightarrow> False | Inr (token, claims) \<Rightarrow>
      out = \<lparr>LoginOutput_AccessToken = token, LoginOutput_User = user, LoginOutput_Session = x,
        LoginOutput_Claims = claims\<rparr>) \<and> srv_tick st1 = srv_tick st + 2 \<and>
    srv_db st1 = db_users_update (upd_where (\<lambda>r. users_id r = User_ID user)
        (login_at now))
      (db_sessions_update (\<lambda>rs. rs @ [sessions_row_of x]) d)"
    by (auto simp: CompleteLogin_def call_run withPermissions_no_fault nf CreateSession_no_fault
        UpdateLastLogin_no_fault d_def x_def user_def now_def Let_def split: if_splits sum.splits)
  then show "LoginOutput_User out = user" "LoginOutput_Session out = x"
    "Issue w (Service_tokens s) user x now = Inr (LoginOutput_AccessToken out, LoginOutput_Claims out)"
    "sessions_insert_ok d (sessions_row_of x)" "srv_tick st1 = srv_tick st + 2"
    "srv_db st1 = db_users_update (upd_where (\<lambda>r. users_id r = User_ID user)
        (login_at now))
      (db_sessions_update (\<lambda>rs. rs @ [sessions_row_of x]) d)"
    by (auto split: sum.splits)
qed

section \<open>A password change without failures\<close>

lemma update_user_no_fault:
  "db_faults d = [] \<Longrightarrow> distinct (map users_id (db_users d)) \<Longrightarrow> u \<in> set (db_users d) \<Longrightarrow>
   update_user (users_id u) f d =
     (Inr (scanUser (f u)), db_users_update (upd_where (\<lambda>r. users_id r = users_id u) f) d)"
  by (simp add: update_user_def scan_found_def attempt_run update_returning_def stmt_run
      filter_distinct_key)

lemma RevokeUserSessions_no_fault:
  "db_faults d = [] \<Longrightarrow> RevokeUserSessions i now d = (Inr (), db_sessions_update (upd_where
     (\<lambda>x. sessions_user_id x = i \<and> sessions_revoked_at x = None)
     (\<lambda>x. x\<lparr>sessions_revoked_at := Some (millis now)\<rparr>)) d)"
  by (simp add: RevokeUserSessions_def revoke_sessions_of_def execute_def exec_update_def bindE_run stmt_run)

definition new_password :: "string \<Rightarrow> instant \<Rightarrow> users_row \<Rightarrow> users_row" where
  "new_password h now r = r\<lparr>users_password_hash := h, users_token_version := users_token_version r + 1,
     users_force_relogin_at := Some (millis now), users_updated_at := millis now\<rparr>"

lemma SetPassword_no_fault:
  assumes "db_faults (srv_db st) = []" "accounts_wf (srv_db st)" "u \<in> set (db_users (srv_db st))"
    and "SetPassword w s (users_id u) password st = (Inr user, st1)"
  obtains h now where
    "HashPassword (world_argon2 w) (world_random w (srv_tick st) argonSaltLength) (world_numCPU w) password = Inr h"
    "user = scanUser (new_password h now u)"
    "srv_db st1 = db_sessions_update (upd_where
        (\<lambda>x. sessions_user_id x = users_id u \<and> sessions_revoked_at x = None)
        (\<lambda>x. x\<lparr>sessions_revoked_at := Some (millis now)\<rparr>))
      (db_users_update (upd_where (\<lambda>r. users_id r = users_id u) (new_password h now)) (srv_db st))"
proof -
  from assms(4) [unfolded SetPassword_def] obtain h st' where
    h: "new_hash w s password st = (Inr h, st')" and
    run: "bindE (now_of w) (\<lambda>now. bindE (sql (UpdateUserPassword (users_id u) h now)) (\<lambda>user.
      thenE (sql (RevokeUserSessions (users_id u) now)) (thenE (publish UserUpdated (PUser user))
      (thenE (publish_revoked_all (users_id u)) (ret user))))) st' = (Inr user, st1)"
    by (auto simp: bindE_Inr_iff)
  have st': "srv_db st' = srv_db st" using h by (rule new_hash_db)
  have "HashPassword (world_argon2 w) (world_random w (srv_tick st) argonSaltLength) (world_numCPU w) password = Inr h"
    using h by (auto simp: new_hash_def hash_password_def service_iffs)
  moreover have "user = scanUser (new_password h (world_clock w (srv_tick st')) u)" "srv_db st1 = db_sessions_update (upd_where
        (\<lambda>x. sessions_user_id x = users_id u \<and> sessions_revoked_at x = None)
        (\<lambda>x. x\<lparr>sessions_revoked_at := Some (millis (world_clock w (srv_tick st')))\<rparr>))
      (db_users_update (upd_where (\<lambda>r. users_id r = users_id u)
        (new_password h (world_clock w (srv_tick st')))) (srv_db st))"
    using run assms(1-3)
    by (auto simp: call_run st' UpdateUserPassword_def update_user_no_fault accounts_wf_keys
        RevokeUserSessions_no_fault publish_revoked_all_def new_password_def [abs_def])
  ultimately show thesis by (rule that)
qed

lemma find_new_password:
  "distinct (map users_id rs) \<Longrightarrow> distinct (map users_username rs) \<Longrightarrow> u \<in> set rs \<Longrightarrow>
   find (\<lambda>r. users_username r = users_username u)
     (upd_where (\<lambda>r. users_id r = users_id u) (new_password h now) rs) = Some (new_password h now u)"
  by (induction rs) (auto simp: new_password_def)

lemma HashPassword_InrD:
  "HashPassword a salt n pw = Inr h \<Longrightarrow> 1 \<le> length pw \<and> length pw \<le> 1024 \<and> (\<exists>r. salt = Inr r)"
  by (auto simp: HashPassword_def not_less Suc_le_eq split: if_splits sum.splits)

section \<open>An example login\<close>

definition example_login :: LoginInput where
  "example_login = \<lparr>LoginInput_Username = ''bob'', LoginInput_Password = [], LoginInput_IP = [],
     LoginInput_UserAgent = [], LoginInput_ClientDeviceID = []\<rparr>"

definition example_login_claims :: Claims where
  "example_login_claims =
     (let user = scanUser (example_user ''u2'' ''bob'' RoleUser) in
      issued_claims (Service_tokens example_service) user
        (login_session example_service ''id2'' user example_login 1) 1)"

lemma example_login_expiry: "Claims_ExpiresAt example_login_claims = Some (60 * Second)"
  by (simp add: example_login_claims_def Let_def issued_claims_def token_expiry_def
      example_service_def NewTokenManager_def login_session_def NewNumericDate_def time_Truncate_def
      zero_time_def Second_def)

lemma example_login_utf8: "utf8_claims example_login_claims"
proof -
  have "list_all ValidString [''id2'', ''bob'', ''u2'', ''art'', [], ''user'']" by code_simp
  then show ?thesis
    by (simp add: utf8_claims_def example_login_claims_def Let_def issued_claims_def login_session_def
        scanUser_def example_user_def example_service_def NewTokenManager_def example_login_def)
qed

lemma example_granted: "granted accounts_example (scanUser (example_user i n RoleUser)) = scanUser (example_user i n RoleUser)"
  by (simp add: granted_def accounts_example_defs)

lemma example_login_run:
  obtains out st1 where "CompleteLogin (example_world example_login_claims) example_service
      (scanUser (example_user ''u2'' ''bob'' RoleUser)) example_login example_server = (Inr out, st1)"
    "LoginOutput_Claims out = example_login_claims" "Session_ID (LoginOutput_Session out) = ''id2''"
    "srv_tick st1 = 3"
proof -
  let ?w = "example_world example_login_claims" and ?user = "scanUser (example_user ''u2'' ''bob'' RoleUser)"
  let ?x = "login_session example_service ''id2'' ?user example_login 1"
  have two: "Suc (Suc 0) = 2" "Suc 2 = 3" by simp_all
  have "dec_nat 2 = ''2''" by code_simp
  then have w: "world_uuid ?w 2 = ''id2''" "world_clock ?w (Suc 0) = 1" by (simp_all add: example_world_def)
  have issue: "Issue ?w (Service_tokens example_service) ?user ?x 1 = Inr (''token'', example_login_claims)"
    by (simp add: Issue_def Let_def example_world_def example_login_claims_def)
  have ins: "sessions_insert_ok accounts_example (sessions_row_of ?x)"
    by (simp add: sessions_insert_ok_def sessions_row_of_def login_session_def accounts_example_defs scanUser_def)
  have nf: "db_faults accounts_example = []" by (simp add: accounts_example_defs)
  show thesis
    by (rule that)
      (simp_all add: CompleteLogin_def withPermissions_no_fault nf call_run example_granted two w
        CreateSession_no_fault UpdateLastLogin_no_fault ins issue Let_def example_server_def,
       simp_all add: login_session_def)
qed

section \<open>Properties\<close>

text \<open>C15: A token authenticates exactly while it should.  On a well-formed store that
  answers, Authenticate accepts a token if and only if the token parses and its rows are
  live: the user exists, is enabled and not rejected and still has the token's version;
  the session exists, belongs to that user, is not revoked and not yet expired.  It then
  returns that user, with the permissions of the role, that session and the claims.\<close>

theorem Authenticate_exact:
  assumes "db_faults (srv_db st) = []" "accounts_wf (srv_db st)"
  shows "fst (Authenticate w s raw st) = Inr (user, session, claims) \<longleftrightarrow>
    Parse w (Service_tokens s) (world_clock w (srv_tick st)) raw = Inr claims \<and>
    (\<exists>u x. token_live (srv_db st) claims (world_clock w (srv_tick st + 1)) u x \<and>
      user = granted (srv_db st) (scanUser u) \<and> session = scanSession x)"
proof
  assume ok: "fst (Authenticate w s raw st) = Inr (user, session, claims)"
  then have "Authenticate w s raw st = (Inr (user, session, claims), snd (Authenticate w s raw st))"
    by (metis prod.collapse)
  from Authenticate_ok [OF this] obtain u x where
    parse: "Parse w (Service_tokens s) (world_clock w (srv_tick st)) raw = Inr claims" and
    live: "token_live (srv_db st) claims (world_clock w (srv_tick st + 1)) u x" by blast
  from Authenticate_live [OF assms parse live] ok
  have "user = granted (srv_db st) (scanUser u)" "session = scanSession x" by simp_all
  with parse live show "Parse w (Service_tokens s) (world_clock w (srv_tick st)) raw = Inr claims \<and>
    (\<exists>u x. token_live (srv_db st) claims (world_clock w (srv_tick st + 1)) u x \<and>
      user = granted (srv_db st) (scanUser u) \<and> session = scanSession x)" by blast
qed (use Authenticate_live [OF assms] in blast)

theorem Authenticate_exact_witness:
  "\<exists>user session. fst (Authenticate (example_world example_claims) example_service ''token'' example_server)
     = Inr (user, session, example_claims)"
proof -
  have "token_live accounts_example example_claims 2 (example_user ''u2'' ''bob'' RoleUser)
      (example_session ''s2'' ''u2'' None)"
    by (simp add: token_live_def example_claims_def accounts_example_defs fromMillis_def)
  moreover have "Parse (example_world example_claims) (Service_tokens example_service) 1 ''token'' = Inr example_claims"
    by (simp add: Parse_def example_world_def example_claims_def)
  ultimately show ?thesis
    using Authenticate_exact [OF example_server_ok(2,3), of "example_world example_claims" example_service "''token''"]
    by (auto simp: example_server_def example_world_def)
qed

text \<open>C16: A token does not survive a forced logout.  Once ForceRelogin, SetPassword,
  UpdateUser or SetUserEnabled has succeeded for a user, no token issued before, that is
  with a token version no higher than the user then had, authenticates again, whatever
  calls of the service and of the account store follow and whatever fails, as long as
  no new identifier equals the user's.\<close>

theorem logged_out_token_refused:
  assumes "logs_out w i st st1" and "(auth_step w)\<^sup>*\<^sup>* st1 st2" and "\<forall>n. world_uuid w n \<noteq> i"
    and "Claims_Subject claims = i"
    and "\<forall>u\<in>set (db_users (srv_db st)). users_id u = i \<longrightarrow> Claims_TokenVersion claims \<le> users_token_version u"
  shows "fst (Authenticate w s raw st2) \<noteq> Inr (user, session, claims)"
proof
  assume ok: "fst (Authenticate w s raw st2) = Inr (user, session, claims)"
  have "version_from i (Claims_TokenVersion claims) (srv_db st)" using assms(5) by (simp add: version_from_def)
  with assms(1) have "version_from i (Claims_TokenVersion claims + 1) (srv_db st1)" by (rule logs_out_raises)
  moreover have "account_run (\<lambda>_. True) (\<lambda>j. j \<noteq> i) (srv_db st1) (srv_db st2)"
    using assms(2,3) by (intro auth_steps_run) auto
  ultimately have v: "version_from i (Claims_TokenVersion claims + 1) (srv_db st2)"
    by (rule account_run_version [rotated])
  from ok have "Authenticate w s raw st2 = (Inr (user, session, claims), snd (Authenticate w s raw st2))"
    by (metis prod.collapse)
  from Authenticate_ok [OF this] v assms(4) show False
    by (auto simp: token_live_def version_from_def)
qed

theorem logged_out_token_refused_witness:
  "\<exists>user st1. Auth_ForceRelogin (example_world example_claims) ''u2'' example_server = (Inr user, st1) \<and>
     (\<forall>user session. fst (Authenticate (example_world example_claims) example_service ''token'' st1)
        \<noteq> Inr (user, session, example_claims))"
proof -
  let ?w = "example_world example_claims"
  obtain user st1 where run: "Auth_ForceRelogin ?w ''u2'' example_server = (Inr user, st1)"
    by (simp add: Auth_ForceRelogin_def ForceRelogin_def update_user_def RevokeUserSessions_def
        revoke_sessions_of_def publish_revoked_all_def call_run example_server_defs)
  from run have out: "logs_out ?w ''u2'' example_server st1" by (rule by_ForceRelogin)
  have "\<forall>u\<in>set (db_users (srv_db example_server)). users_id u = ''u2'' \<longrightarrow>
      Claims_TokenVersion example_claims \<le> users_token_version u"
    by (simp add: example_server_defs example_claims_def)
  with logged_out_token_refused [OF out rtranclp.rtrancl_refl, of example_claims example_service "''token''"]
    example_uuid(1) run
  show ?thesis by (auto simp: example_claims_def)
qed

text \<open>C17: A revoked session is over.  Once RevokeSession of the service has returned without
  an error, no token authenticates with that session again, whatever calls follow and
  whatever fails, as long as no new identifier equals the session's.\<close>

theorem revoked_session_refused:
  assumes "Auth_RevokeSession w i st = (Inr (), st1)" and "(auth_step w)\<^sup>*\<^sup>* st1 st2"
    and "\<forall>n. world_uuid w n \<noteq> i" and "fst (Authenticate w s raw st2) = Inr (user, session, claims)"
  shows "Session_ID session \<noteq> i"
proof -
  have "session_revoked i (srv_db st1)" using assms(1) by (rule Auth_RevokeSession_revokes)
  moreover have "account_run (\<lambda>j. j \<noteq> i) (\<lambda>_. True) (srv_db st1) (srv_db st2)"
    using assms(2,3) by (intro auth_steps_run) auto
  ultimately have v: "session_revoked i (srv_db st2)" by (rule account_run_revoked [rotated])
  from assms(4) have "Authenticate w s raw st2 = (Inr (user, session, claims), snd (Authenticate w s raw st2))"
    by (metis prod.collapse)
  from Authenticate_ok [OF this] v show ?thesis
    by (auto simp: token_live_def session_revoked_def)
qed

theorem revoked_session_refused_witness:
  "\<exists>st1. Auth_RevokeSession (example_world example_claims) ''s1'' example_server = (Inr (), st1) \<and>
     (\<exists>user session. fst (Authenticate (example_world example_claims) example_service ''token'' st1) =
        Inr (user, session, example_claims) \<and> Session_ID session \<noteq> ''s1'')"
proof -
  let ?w = "example_world example_claims"
  obtain st1 where run: "Auth_RevokeSession ?w ''s1'' example_server = (Inr (), st1)"
    and st1: "srv_db st1 = accounts_example" "srv_tick st1 = 2"
    by (simp add: Auth_RevokeSession_def RevokeSession_def call_run example_server_defs)
  have live: "token_live (srv_db st1) example_claims 3 (example_user ''u2'' ''bob'' RoleUser)
      (example_session ''s2'' ''u2'' None)"
    by (simp add: st1 token_live_def example_claims_def accounts_example_defs fromMillis_def)
  have "Parse ?w (Service_tokens example_service) 2 ''token'' = Inr example_claims"
    by (simp add: Parse_def example_world_def example_claims_def)
  then obtain user session where ok: "fst (Authenticate ?w example_service ''token'' st1) =
      Inr (user, session, example_claims)"
    using Authenticate_live [of st1 ?w example_service "''token''" example_claims, OF _ _ _]
      live accounts_example_wf example_server_ok(2) by (simp add: st1 example_world_def example_server_ok(1))
  with revoked_session_refused [OF run rtranclp.rtrancl_refl _ ok] example_uuid(2) run show ?thesis
    by auto
qed

text \<open>C18: A login yields a working token.  When CompleteLogin succeeds for an enabled and
  not rejected user of the store, the access token it returns authenticates right
  afterwards, at any instant from the login until the token's expiry: Authenticate
  returns that user, the new session and the claims of the token.  The token library
  behaves as documented and the strings of the claims are valid UTF-8.\<close>

theorem login_token_authenticates:
  assumes "jwt_faithful w" "accounts_wf (srv_db st)" "db_faults (srv_db st) = []"
    and "u \<in> set (db_users (srv_db st))" "users_enabled u" "users_approval_status u \<noteq> ApprovalRejected"
    and "CompleteLogin w s (scanUser u) input st = (Inr out, st1)"
    and "utf8_claims (LoginOutput_Claims out)" "users_id u \<noteq> []" "Session_ID (LoginOutput_Session out) \<noteq> []"
    and "Claims_ExpiresAt (LoginOutput_Claims out) = Some e"
    and "world_clock w (srv_tick st) \<le> world_clock w (srv_tick st1)" "world_clock w (srv_tick st1) < e"
    and "world_clock w (srv_tick st1 + 1) < e"
  shows "\<exists>user session. fst (Authenticate w s (LoginOutput_AccessToken out) st1) =
      Inr (user, session, LoginOutput_Claims out) \<and> User_ID user = users_id u \<and>
      Session_ID session = Session_ID (LoginOutput_Session out)"
proof -
  define now where "now = world_clock w (srv_tick st)"
  define user where "user = granted (srv_db st) (scanUser u)"
  define x where "x = login_session s (world_uuid w (srv_tick st + 1)) user input now"
  note run = CompleteLogin_no_fault [OF assms(3,7), folded now_def user_def, folded x_def]
  have user: "User_ID user = users_id u" "User_TokenVersion user = users_token_version u"
    by (auto simp: user_def granted_def split: option.splits)
  have claims: "LoginOutput_Claims out = issued_claims (Service_tokens s) user x now"
    using run(3) by (auto simp: Issue_def Let_def split: sum.splits)
  have e: "e = NewNumericDate (token_expiry (Service_tokens s) x now)"
    using assms(11) by (simp add: claims issued_claims_def)
  have parse: "Parse w (Service_tokens s) (world_clock w (srv_tick st1)) (LoginOutput_AccessToken out)
      = Inr (LoginOutput_Claims out)"
    using assms(9,10,12,13) run(2) user(1) e
    by (intro Parse_Issue [OF assms(1) run(3) assms(8)]) (simp_all add: now_def)
  have "e \<le> NewNumericDate (Session_ExpiresAt x)"
    unfolding e token_expiry_def by (simp add: Let_def NewNumericDate_mono)
  also have "\<dots> \<le> fromMillis (millis (Session_ExpiresAt x))" by (rule NewNumericDate_millis)
  finally have live_until: "world_clock w (srv_tick st1 + 1) < fromMillis (millis (Session_ExpiresAt x))"
    using assms(14) by simp
  have "token_live (srv_db st1) (LoginOutput_Claims out) (world_clock w (srv_tick st1 + 1))
      (login_at now u) (sessions_row_of x)"
    using assms(4-6) live_until user
    by (auto simp: token_live_def claims issued_claims_def run(6) sessions_row_of_def x_def
        login_session_def intro!: upd_where_hit)
  moreover have "accounts_wf (srv_db st1)"
    using stepsD [OF CompleteLogin_run assms(7)] assms(2) by (auto simp: on_db_def dest: account_run_wf)
  moreover have "db_faults (srv_db st1) = []" using assms(3) by (simp add: run(6))
  ultimately have "fst (Authenticate w s (LoginOutput_AccessToken out) st1) =
      Inr (granted (srv_db st1) (scanUser (login_at now u)), scanSession (sessions_row_of x), LoginOutput_Claims out)"
    using parse by (intro Authenticate_live)
  moreover have "User_ID (granted (srv_db st1) (scanUser (login_at now u))) = users_id u"
    by (auto simp: granted_def split: option.splits)
  ultimately show ?thesis using run(2) by (auto simp: sessions_row_of_def)
qed

theorem login_token_authenticates_witness:
  "\<exists>out st1 user session. CompleteLogin (example_world example_login_claims) example_service
       (scanUser (example_user ''u2'' ''bob'' RoleUser)) example_login example_server = (Inr out, st1) \<and>
     fst (Authenticate (example_world example_login_claims) example_service (LoginOutput_AccessToken out) st1)
       = Inr (user, session, LoginOutput_Claims out) \<and> User_ID user = ''u2''"
proof -
  let ?w = "example_world example_login_claims" and ?u = "example_user ''u2'' ''bob'' RoleUser"
  obtain out st1 where run: "CompleteLogin ?w example_service (scanUser ?u) example_login example_server = (Inr out, st1)"
    and out: "LoginOutput_Claims out = example_login_claims" "Session_ID (LoginOutput_Session out) = ''id2''"
    and tick: "srv_tick st1 = 3"
    by (rule example_login_run)
  have "jwt_faithful ?w" by (simp add: jwt_faithful_def example_world_def)
  moreover have "?u \<in> set (db_users (srv_db example_server))" "users_enabled ?u"
    "users_approval_status ?u \<noteq> ApprovalRejected" "users_id ?u \<noteq> []"
    by (simp_all add: example_server_defs)
  moreover have "utf8_claims (LoginOutput_Claims out)"
    unfolding out(1) by (rule example_login_utf8)
  moreover have "Claims_ExpiresAt (LoginOutput_Claims out) = Some (60 * Second)"
    unfolding out(1) by (rule example_login_expiry)
  moreover have "world_clock ?w (srv_tick example_server) \<le> world_clock ?w (srv_tick st1)"
    "world_clock ?w (srv_tick st1) < 60 * Second" "world_clock ?w (srv_tick st1 + 1) < 60 * Second"
    by (simp_all add: tick example_world_def example_server_def Second_def)
  moreover have "Session_ID (LoginOutput_Session out) \<noteq> []" by (simp add: out(2))
  ultimately obtain user session where
    "fst (Authenticate ?w example_service (LoginOutput_AccessToken out) st1) =
       Inr (user, session, LoginOutput_Claims out)" "User_ID user = users_id ?u"
    using login_token_authenticates [OF _ example_server_ok(3,2) _ _ _ run] by blast
  then show ?thesis using run by (auto simp: example_user_def)
qed

text \<open>C19: A password change takes effect at once.  When SetPassword has succeeded, VerifyCredentials under the
  user's name answers a candidate that derives the key of the new password, the new password itself included, with
  the user, or with the error for a disabled or a rejected one; every other candidate, the old password included,
  is left to the configured external providers alone, and without one is answered with ErrInvalidCredentials; and
  every session of the user is revoked.  No statement fails, and the key derivation and crypto/rand return as many
  bytes as they are asked for.\<close>

theorem SetPassword_takes_effect:
  assumes "db_faults (srv_db st) = []" "accounts_wf (srv_db st)" "u \<in> set (db_users (srv_db st))"
    and "SetPassword w s (users_id u) password st = (Inr user, st1)"
    and "\<forall>pw x t m p n. length (world_argon2 w pw x t m p n) = n"
    and "\<forall>n k r. world_random w n k = Inr r \<longrightarrow> length r = k"
    and "ToLower name = users_username u" "length candidate \<le> 1024"
  shows "(let key = (\<lambda>pw. world_argon2 w pw (projr (world_random w (srv_tick st) 16)) 3 65536
            (if world_numCPU w = 1 then 1 else 2) 32)
     in fst (VerifyCredentials w s name candidate st1) =
       (if key candidate = key password
        then if \<not> users_enabled u then Inl ErrUserDisabled
             else if users_approval_status u = ApprovalRejected then Inl ErrApprovalRejected
             else Inr (granted (srv_db st1) user)
        else if Service_passwordProviders s = [] then Inl ErrInvalidCredentials
        else fst (try_providers w name candidate (Service_passwordProviders s) st1))) \<and>
    User_ID user = users_id u \<and>
    (\<forall>x\<in>set (db_sessions (srv_db st1)). sessions_user_id x = users_id u \<longrightarrow> sessions_revoked_at x \<noteq> None)"
proof -
  obtain h now where
    h: "HashPassword (world_argon2 w) (world_random w (srv_tick st) argonSaltLength) (world_numCPU w) password = Inr h"
    and user: "user = scanUser (new_password h now u)"
    and db: "srv_db st1 = db_sessions_update (upd_where
        (\<lambda>x. sessions_user_id x = users_id u \<and> sessions_revoked_at x = None)
        (\<lambda>x. x\<lparr>sessions_revoked_at := Some (millis now)\<rparr>))
      (db_users_update (upd_where (\<lambda>r. users_id r = users_id u) (new_password h now)) (srv_db st))"
    using assms(1-4) by (rule SetPassword_no_fault)
  obtain salt where salt: "world_random w (srv_tick st) argonSaltLength = Inr salt"
    "length salt = argonSaltLength" "1 \<le> length password" "length password \<le> 1024"
    using HashPassword_InrD [OF h] assms(6) by blast
  define key where "key = (\<lambda>pw. world_argon2 w pw salt 3 65536 (if world_numCPU w = 1 then 1 else 2) 32)"
  have verify: "VerifyPassword (world_argon2 w) h candidate = Inr (key candidate = key password)"
    using HashPassword_decides [OF salt(3,4) assms(8) salt(2), of "world_argon2 w" "world_numCPU w"]
      assms(5) h salt(1) by (auto simp: key_def)
  have find: "find (\<lambda>r. users_username r = ToLower name) (db_users (srv_db st1)) = Some (new_password h now u)"
    unfolding db assms(7)
    using find_new_password [OF accounts_wf_keys(1,2) [OF assms(2)] assms(3)] by simp
  have nf: "db_faults (srv_db st1) = []" using assms(1) by (simp add: db)
  have "FindUserByUsername name (srv_db st1) = (Inr user, srv_db st1)"
    using nf by (simp add: FindUserByUsername_def find_row_run find user)
  moreover have new: "User_PasswordHash user = h" "User_Enabled user = users_enabled u" "User_ID user = users_id u"
    "User_ApprovalStatus user = users_approval_status u" by (simp_all add: user new_password_def)
  ultimately have "fst (VerifyCredentials w s name candidate st1) = (if key candidate = key password
      then if \<not> users_enabled u then Inl ErrUserDisabled
           else if users_approval_status u = ApprovalRejected then Inl ErrApprovalRejected
           else Inr (granted (srv_db st1) user)
      else if Service_passwordProviders s = [] then Inl ErrInvalidCredentials
      else fst (try_providers w name candidate (Service_passwordProviders s) st1))"
    using verify by (simp add: VerifyCredentials_def attempt_run sql_run validateLoginUser_def withPermissions_no_fault [OF nf])
  moreover have "\<forall>x\<in>set (db_sessions (srv_db st1)). sessions_user_id x = users_id u \<longrightarrow> sessions_revoked_at x \<noteq> None"
    by (simp add: db table_simps)
  ultimately show ?thesis using salt(1) new(3) by (simp add: key_def argonSaltLength_def)
qed

theorem SetPassword_takes_effect_witness:
  "\<exists>user st1. SetPassword (example_world example_claims) example_service ''u2'' ''secret'' example_server
      = (Inr user, st1) \<and>
    is_ok (fst (VerifyCredentials (example_world example_claims) example_service ''bob'' ''secret'' st1)) \<and>
    fst (VerifyCredentials (example_world example_claims) example_service ''bob'' ''wrong'' st1) =
      Inl ErrInvalidCredentials"
proof -
  let ?w = "example_world example_claims" and ?u = "example_user ''u2'' ''bob'' RoleUser"
  have id: "users_id ?u = ''u2''" by (simp add: example_user_def)
  have "Policy_Validate (world_unicode ?w) (Service_passwordPolicy example_service) ''secret'' = Inr ()"
    by (simp add: example_world_def example_service_def) code_simp
  then obtain user st1 where run: "SetPassword ?w example_service (users_id ?u) ''secret'' example_server = (Inr user, st1)"
    by (simp add: SetPassword_def new_hash_def hash_password_def HashPassword_def validatePassword_def
        UpdateUserPassword_def update_user_def RevokeUserSessions_def revoke_sessions_of_def
        publish_revoked_all_def call_run example_server_defs)
  have u: "?u \<in> set (db_users (srv_db example_server))" "users_enabled ?u"
    "users_approval_status ?u \<noteq> ApprovalRejected" "ToLower ''bob'' = users_username ?u"
    by (simp_all add: example_server_defs) code_simp
  have laws: "\<forall>pw x t m p n. length (world_argon2 ?w pw x t m p n) = n"
    "\<forall>n k r. world_random ?w n k = Inr r \<longrightarrow> length r = k"
    by (auto simp: example_world_def)
  have no: "Service_passwordProviders example_service = []" by (simp add: example_service_def)
  note effect = SetPassword_takes_effect [OF example_server_ok(2,3) u(1) run laws u(4), unfolded Let_def]
  show ?thesis using effect [of "''secret''"] effect [of "''wrong''"] run no u(2,3)
    by (auto simp: id) (simp_all add: example_world_def)
qed

end
