(* ===== verification/MFA_Props.thy ===== *)
theory MFA_Props
  imports MFA Auth_Props
begin

text \<open>
  The properties of the second factor: exactly which codes are accepted, that an enrolled
  secret confirms, and that a recovery code works once.
\<close>

section \<open>Secrets\<close>

lemma rand_read_Inr_iff:
  "rand_read w k st = (Inr raw, st') \<longleftrightarrow>
     world_random w (srv_tick st) k = Inr raw \<and> st' = st\<lparr>srv_tick := srv_tick st + 1\<rparr>"
  by (auto simp: rand_read_def bindE_Inr_iff draw_Inr_iff)

definition rand_fills :: "world \<Rightarrow> bool" where
  "rand_fills w \<longleftrightarrow> (\<forall>n k r. world_random w n k = Inr r \<longrightarrow> length r = k)"

lemma decrypt_encrypt:
  assumes "rand_fills w" "encrypt w m value st = (Inr c, st')"
  shows "decrypt m c = Inr value"
proof -
  obtain nonce where n: "length nonce = gcm_nonce_size" "c = Base64URL_Encode (nonce @ gcm_Seal (MFA_key m) nonce value)"
    using assms by (auto simp: encrypt_def bindE_Inr_iff rand_read_Inr_iff rand_fills_def)
  then show ?thesis by (simp add: decrypt_def)
qed

section \<open>Recovery codes\<close>

lemma recovery_code_plain:
  assumes "length raw = 7"
  shows "length (recovery_code raw) = 11" "list_all plain_char (recovery_code raw)"
proof -
  have len: "length (Base32_Encode raw) = 12"
    unfolding Base32_Encode_def length_base32 by (simp add: assms)
  then show "length (recovery_code raw) = 11" by (simp add: recovery_code_def Let_def)
  have "list_all plain_char (CHR ''-'' # alphabet32)" by code_simp
  moreover have "set (Base32_Encode raw) \<subseteq> set alphabet32"
    unfolding Base32_Encode_def by (rule set_encode_bits) (simp_all add: alphabet_facts)
  ultimately show "list_all plain_char (recovery_code raw)"
    by (auto simp: recovery_code_def Let_def list_all_iff dest!: in_set_takeD in_set_dropD)
qed

lemma mapE_Inr_length:
  "mapE xs f st = (Inr ys, st') \<Longrightarrow> length ys = length xs"
  by (induction xs arbitrary: st ys) (auto simp: bindE_Inr_iff)

lemma mapE_rand_read:
  "rand_fills w \<Longrightarrow> mapE xs (\<lambda>_. rand_read w k) st = (Inr ys, st') \<Longrightarrow> y \<in> set ys \<Longrightarrow> length y = k"
proof (induction xs arbitrary: st ys)
  case (Cons x xs)
  then show ?case by (auto simp: bindE_Inr_iff rand_read_Inr_iff rand_fills_def)
qed simp

lemma mapE_rand_read_db:
  "mapE xs (\<lambda>_. rand_read w k) st = (Inr ys, st') \<Longrightarrow> srv_db st' = srv_db st"
  by (induction xs arbitrary: st ys) (fastforce simp: bindE_Inr_iff rand_read_Inr_iff)+

lemma generateRecoveryCodes_ok:
  assumes "rand_fills w" "generateRecoveryCodes w m st = (Inr (codes, hashes), st')"
  shows "hashes = map (recoveryHash m) codes" "srv_db st' = srv_db st"
    "\<forall>c\<in>set codes. length c = 11 \<and> list_all plain_char c"
proof -
  obtain raws where run: "mapE [0..<10 :: nat] (\<lambda>_. rand_read w 7) st = (Inr raws, st')"
    and codes: "codes = map recovery_code raws" "hashes = map (recoveryHash m) codes"
    using assms(2) by (auto simp: generateRecoveryCodes_def bindE_Inr_iff Let_def)
  show "hashes = map (recoveryHash m) codes" by (fact codes)
  show "srv_db st' = srv_db st" using run by (rule mapE_rand_read_db)
  show "\<forall>c\<in>set codes. length c = 11 \<and> list_all plain_char c"
    using mapE_rand_read [OF assms(1) run] recovery_code_plain by (simp add: codes(1))
qed

definition code_row :: "string \<Rightarrow> instant \<Rightarrow> string \<Rightarrow> mfa_recovery_codes_row" where
  "code_row userID now hash = \<lparr>mfa_recovery_codes_user_id = userID, mfa_recovery_codes_code_hash = hash,
     mfa_recovery_codes_created_at = millis now\<rparr>"

lemma insert_codes_ok:
  "db_faults d = [] \<Longrightarrow>
   forE hashes (\<lambda>hash. exec_insert db_mfa_recovery_codes_update mfa_insert_ok (code_row i now hash)) d = (Inr u, d') \<Longrightarrow>
   d' = db_mfa_recovery_codes_update (\<lambda>rs. rs @ map (code_row i now) hashes) d"
proof (induction hashes arbitrary: d)
  case (Cons h hs)
  let ?d = "db_mfa_recovery_codes_update (\<lambda>rs. rs @ [code_row i now h]) d"
  have "forE hs (\<lambda>hash. exec_insert db_mfa_recovery_codes_update mfa_insert_ok (code_row i now hash)) ?d = (Inr u, d')"
    using Cons.prems by (auto simp: thenE_Inr_iff exec_insert_def stmt_run split: if_splits)
  from Cons.IH [OF _ this] Cons.prems(1) show ?case by (simp add: comp_def)
qed simp

lemma ReplaceMFARecoveryCodes_ok:
  assumes "db_faults d = []" "ReplaceMFARecoveryCodes i hashes now d = (Inr u, d')"
  shows "d' = db_mfa_recovery_codes_update (\<lambda>rs. filter (\<lambda>x. mfa_recovery_codes_user_id x \<noteq> i) rs @
    map (code_row i now) hashes) d"
  using assms
  by (auto simp: ReplaceMFARecoveryCodes_def transaction_run thenE_run exec_delete_def stmt_run
      code_row_def [symmetric] comp_def split: prod.splits sum.splits dest!: insert_codes_ok [rotated])

definition enrolled :: "string \<Rightarrow> instant \<Rightarrow> users_row \<Rightarrow> users_row" where
  "enrolled c now r = r\<lparr>users_totp_secret := c, users_totp_enabled := False,
     users_token_version := users_token_version r + (if users_totp_enabled r \<noteq> False then 1 else 0),
     users_updated_at := millis now\<rparr>"

lemma MFA_Begin_no_fault:
  assumes "rand_fills w" "db_faults (srv_db st) = []" "accounts_wf (srv_db st)" "u \<in> set (db_users (srv_db st))"
    and "MFA_Begin w m (scanUser u) st = (Inr e, st1)"
  obtains c now now' where "decrypt m c = Inr (Enrollment_Secret e)"
    "\<forall>code\<in>set (Enrollment_RecoveryCodes e). length code = 11 \<and> list_all plain_char code"
    "srv_db st1 = db_mfa_recovery_codes_update
       (\<lambda>rs. filter (\<lambda>x. mfa_recovery_codes_user_id x \<noteq> users_id u) rs @
          map (code_row (users_id u) now' \<circ> recoveryHash m) (Enrollment_RecoveryCodes e))
       (db_users_update (upd_where (\<lambda>r. users_id r = users_id u) (enrolled c now)) (srv_db st))"
proof -
  from assms(5) obtain raw s1 c s2 d2 user codes hashes s3 d4 where
    enc: "encrypt w m (Base32_Encode raw) s1 = (Inr c, s2)" and s1: "srv_db s1 = srv_db st" and
    set_totp: "SetUserTOTP (users_id u) c False (world_clock w (srv_tick s2)) (srv_db s2) = (Inr user, d2)" and
    gen: "generateRecoveryCodes w m (s2\<lparr>srv_tick := Suc (srv_tick s2), srv_db := d2\<rparr>) = (Inr (codes, hashes), s3)" and
    rep: "ReplaceMFARecoveryCodes (users_id u) hashes (world_clock w (srv_tick s3)) (srv_db s3) = (Inr (), d4)" and
    st1: "srv_db st1 = d4" and e: "Enrollment_Secret e = Base32_Encode raw" "Enrollment_RecoveryCodes e = codes"
    by (auto simp: MFA_Begin_def Let_def bindE_Inr_iff thenE_Inr_iff rand_read_Inr_iff draw_Inr_iff sql_Inr_iff)
  have s2: "srv_db s2 = srv_db st"
    using enc s1 by (auto simp: encrypt_def bindE_Inr_iff rand_read_Inr_iff)
  have d2: "d2 = db_users_update (upd_where (\<lambda>r. users_id r = users_id u)
      (enrolled c (world_clock w (srv_tick s2)))) (srv_db st)"
    using set_totp assms(2-4)
    by (simp add: s2 SetUserTOTP_def update_user_no_fault accounts_wf_keys enrolled_def [abs_def])
  note codes = generateRecoveryCodes_ok [OF assms(1) gen]
  have "db_faults (srv_db s3) = []" using codes(2) assms(2) by (simp add: d2)
  from ReplaceMFARecoveryCodes_ok [OF this rep] codes(1,2) st1 e(2)
  have "srv_db st1 = db_mfa_recovery_codes_update
       (\<lambda>rs. filter (\<lambda>x. mfa_recovery_codes_user_id x \<noteq> users_id u) rs @
          map (code_row (users_id u) (world_clock w (srv_tick s3)) \<circ> recoveryHash m) (Enrollment_RecoveryCodes e))
       (db_users_update (upd_where (\<lambda>r. users_id r = users_id u)
          (enrolled c (world_clock w (srv_tick s2)))) (srv_db st))"
    by (simp add: d2)
  then show thesis using decrypt_encrypt [OF assms(1) enc] codes(3) e by (intro that) simp_all
qed

section \<open>Accepted codes\<close>

lemma totp_accepts:
  assumes "Base32_Decode (ToUpper secret) = Some decoded" "codeForCounter decoded k = code"
    and "\<bar>k - totp_counter now\<bar> \<le> 1"
  shows "TOTP_Validate secret code now"
proof -
  have code: "length code = 6" "list_all is_digit code"
    using codeForCounter_digits [of decoded k] assms(2) by simp_all
  have "TrimSpace code = code" using code(2) by (intro TrimSpace_plain digit_plain)
  moreover have "k = totp_counter now - 1 \<or> k = totp_counter now \<or> k = totp_counter now + 1"
    using assms(3) by linarith
  ultimately show ?thesis
    using assms(1,2) code Atoi_digits [OF code(2,1)] by (auto simp: TOTP_Validate_def Let_def)
qed

lemma filter_key_remove1:
  "distinct (map key xs) \<Longrightarrow> x \<in> set xs \<Longrightarrow> filter (\<lambda>y. key y \<noteq> key x) xs = remove1 x xs"
proof (induction xs)
  case (Cons a xs)
  show ?case
  proof (cases "a = x")
    case True
    then have "key x \<notin> key ` set xs" using Cons.prems(1) by simp
    then have "\<forall>y\<in>set xs. key y \<noteq> key x" by (metis imageI)
    then show ?thesis using True by (simp add: filter_id_conv)
  next
    case False
    then have x: "x \<in> set xs" using Cons.prems(2) by simp
    moreover have "key a \<notin> key ` set xs" using Cons.prems(1) by simp
    ultimately have "key a \<noteq> key x" by (metis imageI)
    then show ?thesis using Cons x False by simp
  qed
qed simp

section \<open>Properties\<close>

text \<open>C20: A six-digit code is accepted exactly when it is the code of the current
  half-minute, of the one before or of the one after, for a secret that is valid
  base32.  In particular the code that Code computes at an instant is accepted at every
  instant at most one half-minute step away.\<close>

theorem totp_validate_exact:
  assumes "length code = 6" "list_all is_digit code"
  shows "TOTP_Validate secret code now \<longleftrightarrow>
    (\<exists>t. \<bar>t - totp_counter now\<bar> \<le> 1 \<and>
      (\<exists>decoded. Base32_Decode (ToUpper secret) = Some decoded \<and> codeForCounter decoded t = code))"
proof -
  have trim: "TrimSpace code = code" using assms(2) by (intro TrimSpace_plain digit_plain)
  have steps: "\<bar>t - totp_counter now\<bar> \<le> 1 \<longleftrightarrow>
      t = totp_counter now - 1 \<or> t = totp_counter now \<or> t = totp_counter now + 1" for t by linarith
  show ?thesis
    using assms Atoi_digits [OF assms(2,1)]
    by (auto simp: TOTP_Validate_def Let_def trim steps split: option.splits)
qed

theorem totp_validate_exact_witness:
  "TOTP_Validate ''gezdgnbvgy3tqojqgezdgnbvgy3tqojq'' (codeForCounter ''12345678901234567890'' 1) (70 * Second)"
proof -
  have "Base32_Decode (ToUpper ''gezdgnbvgy3tqojqgezdgnbvgy3tqojq'') = Some ''12345678901234567890''"
    by code_simp
  moreover have "totp_counter (70 * Second) = 2"
    by (simp add: totp_counter_def go_div_def Unix_def Second_def)
  ultimately show ?thesis
    using totp_validate_exact [OF codeForCounter_digits, of "''gezdgnbvgy3tqojqgezdgnbvgy3tqojq''"
        "''12345678901234567890''" 1 "70 * Second"] by force
qed

text \<open>C21: A signed code passes.  Validate checks the length of the code and reads it with
  strconv.Atoi, which takes a sign: a plus sign stands for a leading zero, and
  \<open>-00000\<close> for \<open>000000\<close>, although these codes are not six digits.\<close>

theorem totp_sign_for_zero:
  assumes "length ds = 5" "list_all is_digit ds"
  shows "TOTP_Validate secret (CHR ''+'' # ds) now = TOTP_Validate secret (CHR ''0'' # ds) now \<and>
    TOTP_Validate secret ''-00000'' now = TOTP_Validate secret ''000000'' now"
proof -
  have plain: "plain_char CHR ''+''" "plain_char CHR ''0''" "list_all plain_char ''-00000''" by code_simp+
  have trim: "TrimSpace (CHR ''+'' # ds) = CHR ''+'' # ds" "TrimSpace (CHR ''0'' # ds) = CHR ''0'' # ds"
    "TrimSpace ''-00000'' = ''-00000''" "TrimSpace ''000000'' = ''000000''"
    using plain assms(2) by (intro TrimSpace_plain; simp add: digit_plain)+
  have "digits_value ds < 100000" using digits_value_bound [OF assms(2)] assms(1) by simp
  then have plus: "Atoi (CHR ''+'' # ds) = Some (int (digits_value ds))" using assms by (auto simp: Atoi_def)
  have "list_all is_digit (CHR ''0'' # ds)" using assms(2) by simp code_simp
  then have zero: "Atoi (CHR ''0'' # ds) = Some (int (digits_value ds))"
    using Atoi_digits(1) [of "CHR ''0'' # ds"] assms(1) digits_value_zeros [of 1 ds] by simp
  have minus: "Atoi ''-00000'' = Some 0" "Atoi ''000000'' = Some 0" by code_simp+
  show ?thesis by (simp add: TOTP_Validate_def Let_def trim plus zero minus assms(1))
qed

theorem totp_sign_for_zero_witness:
  "TOTP_Validate ''gezdgnbv'' ''+12345'' 0 = TOTP_Validate ''gezdgnbv'' ''012345'' 0"
proof -
  have "length ''12345'' = 5" "list_all is_digit ''12345''" by code_simp+
  from totp_sign_for_zero [OF this] show ?thesis by blast
qed

text \<open>C22: A stored secret confirms.  A user of the store whose secret column holds what
  encrypt returned for a secret can confirm the enrolment with the code computed from
  that secret, at every instant at most one half-minute step away: Confirm returns the
  user with the second factor on.  crypto/rand returns as many bytes as it is asked
  for.\<close>

theorem enrolment_confirms:
  assumes "rand_fills w" "encrypt w m secret st0 = (Inr c, st0')"
    and "db_faults (srv_db st) = []" "accounts_wf (srv_db st)" "u \<in> set (db_users (srv_db st))"
    and "users_totp_secret u = c" "TOTP_Code secret t = Inr code"
    and "\<bar>totp_counter t - totp_counter (world_clock w (srv_tick st))\<bar> \<le> 1"
  shows "\<exists>user st1. MFA_Confirm w m (scanUser u) code st = (Inr user, st1) \<and>
    User_ID user = users_id u \<and> User_TOTPEnabled user"
proof -
  obtain decoded where code: "Base32_Decode (ToUpper secret) = Some decoded"
    "codeForCounter decoded (totp_counter t) = code"
    using assms(7) by (auto simp: TOTP_Code_def split: option.splits)
  have "TOTP_Validate secret code (world_clock w (srv_tick st))"
    using totp_accepts [OF code] assms(8) by simp
  moreover have "decrypt m c = Inr secret" using assms(1,2) by (rule decrypt_encrypt)
  ultimately show ?thesis
    using assms(3-6)
    by (simp add: MFA_Confirm_def code_valid_def scanUser_def bindE_run draw_run sql_run SetUserTOTP_def
        update_user_no_fault accounts_wf_keys)
qed

text \<open>C23: A recovery code works once.  When Verify accepted a code as a recovery code of
  a user, the code is gone: exactly its row is deleted from the well-formed store, and
  Verify refuses the same code at any later clock reading at which it is not a valid
  one-time password.\<close>

theorem recovery_code_single_use:
  assumes "db_faults (srv_db st) = []" "accounts_wf (srv_db st)"
    and "MFA_Verify w m user code st = (Inr (True, True), st1)" "length (TrimSpace code) \<noteq> 6"
  shows "fst (MFA_Verify w m user code st1) = Inr (False, False) \<and>
    (\<exists>x\<in>set (db_mfa_recovery_codes (srv_db st)).
       mfa_recovery_codes_user_id x = User_ID user \<and> mfa_recovery_codes_code_hash x = recoveryHash m code \<and>
       db_mfa_recovery_codes (srv_db st1) = remove1 x (db_mfa_recovery_codes (srv_db st)))"
proof -
  let ?p = "\<lambda>x. mfa_recovery_codes_user_id x = User_ID user \<and> mfa_recovery_codes_code_hash x = recoveryHash m code"
  let ?key = "\<lambda>x. (mfa_recovery_codes_user_id x, mfa_recovery_codes_code_hash x)"
  have invalid: "\<not> TOTP_Validate secret code now" for secret now
    using assms(4) by (simp add: TOTP_Validate_def Let_def)
  have enabled: "User_TOTPEnabled user" using assms(3) by (auto simp: MFA_Verify_def split: if_splits)
  have one: "length (filter ?p (db_mfa_recovery_codes (srv_db st))) = 1" and
    db: "srv_db st1 = db_mfa_recovery_codes_update (filter (\<lambda>x. \<not> ?p x)) (srv_db st)"
    using assms(1,3) enabled invalid
    by (auto simp: MFA_Verify_def code_valid_def bindE_run draw_run sql_run ConsumeMFARecoveryCode_def
        exec_delete_def stmt_run split: sum.splits if_splits)
  have again: "fst (MFA_Verify w m user code st1) = Inr (False, False)"
    using assms(1) enabled invalid
    by (simp add: MFA_Verify_def code_valid_def bindE_run draw_run sql_run ConsumeMFARecoveryCode_def
        exec_delete_def stmt_run db filter_empty_conv split: sum.splits)
  obtain x where x: "filter ?p (db_mfa_recovery_codes (srv_db st)) = [x]"
    using one by (cases "filter ?p (db_mfa_recovery_codes (srv_db st))") auto
  then have "x \<in> set (filter ?p (db_mfa_recovery_codes (srv_db st)))" by simp
  then have xin: "x \<in> set (db_mfa_recovery_codes (srv_db st))" "?p x" by simp_all
  have "distinct (map ?key (db_mfa_recovery_codes (srv_db st)))" using assms(2) by (simp add: accounts_wf_def)
  then have "filter (\<lambda>y. ?key y \<noteq> ?key x) (db_mfa_recovery_codes (srv_db st)) =
      remove1 x (db_mfa_recovery_codes (srv_db st))"
    using xin(1) by (rule filter_key_remove1)
  then have "db_mfa_recovery_codes (srv_db st1) = remove1 x (db_mfa_recovery_codes (srv_db st))"
    using xin(2) by (simp add: db)
  then show ?thesis using again xin by blast
qed

text \<open>A server whose user \<open>u2\<close> has the second factor on and one recovery code left.\<close>

definition example_mfa :: MFA_Service where
  "example_mfa = \<lparr>MFA_key = replicate 32 CHR ''k'', MFA_recoveryKey = replicate 32 CHR ''r'',
     MFA_mode = ModeOptional, MFA_issuer = ''art''\<rparr>"

definition mfa_example :: "string \<Rightarrow> string list \<Rightarrow> server" where
  "mfa_example c hashes = example_server\<lparr>srv_db := accounts_example\<lparr>
     db_users := [example_user ''u1'' ''root'' RoleAdmin,
       (example_user ''u2'' ''bob'' RoleUser)\<lparr>users_totp_secret := c, users_totp_enabled := True\<rparr>],
     db_mfa_recovery_codes := map (code_row ''u2'' 0) hashes\<rparr>\<rparr>"

lemma mfa_example_ok:
  "db_faults (srv_db (mfa_example c [])) = []" "accounts_wf (srv_db (mfa_example c []))"
  "db_faults (srv_db (mfa_example c [h])) = []" "accounts_wf (srv_db (mfa_example c [h]))"
  by (simp_all add: mfa_example_def accounts_example_defs accounts_wf_def users_unique_def
      groups_unique_def roles_unique_def member_row_def code_row_def)

lemma mfa_example_rows:
  "db_mfa_recovery_codes (srv_db (mfa_example c [h])) = [code_row ''u2'' 0 h]"
  "mfa_recovery_codes_user_id (code_row i t h) = i" "mfa_recovery_codes_code_hash (code_row i t h) = h"
  by (simp_all add: mfa_example_def code_row_def)

theorem recovery_code_single_use_witness:
  "\<exists>user st1. MFA_Verify (example_world example_claims) example_mfa user ''AAAAA-BBBBB''
       (mfa_example [] [recoveryHash example_mfa ''AAAAA-BBBBB'']) = (Inr (True, True), st1) \<and>
     db_mfa_recovery_codes (srv_db st1) = []"
proof -
  let ?st = "mfa_example [] [recoveryHash example_mfa ''AAAAA-BBBBB'']"
  define user where "user = scanUser ((example_user ''u2'' ''bob'' RoleUser)\<lparr>users_totp_enabled := True\<rparr>)"
  have trim: "TrimSpace ''AAAAA-BBBBB'' = ''AAAAA-BBBBB''" by (rule TrimSpace_plain) code_simp
  have "Base64URL_Decode [] = Some []" by code_simp
  then have dec: "decrypt example_mfa [] = Inl (Errorf ''invalid encrypted TOTP secret'')"
    by (simp add: decrypt_def gcm_nonce_size_def)
  have secret: "User_TOTPSecret user = []" "User_TOTPEnabled user" "User_ID user = ''u2''"
    by (simp_all add: user_def scanUser_def example_user_def)
  obtain st1 where run: "MFA_Verify (example_world example_claims) example_mfa user ''AAAAA-BBBBB'' ?st
      = (Inr (True, True), st1)"
    using mfa_example_ok(3)
    by (simp add: MFA_Verify_def code_valid_def secret dec bindE_run sql_run
        ConsumeMFARecoveryCode_def exec_delete_def stmt_run mfa_example_rows)
  from recovery_code_single_use [OF mfa_example_ok(3,4) run] trim
  have "db_mfa_recovery_codes (srv_db st1) = []" by (auto simp: mfa_example_rows)
  with run show ?thesis by blast
qed

theorem enrolment_confirms_witness:
  "\<exists>c user st1. decrypt example_mfa c = Inr ''gezdgnbv'' \<and>
     MFA_Confirm (example_world example_claims) example_mfa
       (scanUser ((example_user ''u2'' ''bob'' RoleUser)\<lparr>users_totp_secret := c, users_totp_enabled := True\<rparr>))
       (codeForCounter ''12345'' 0) (mfa_example c []) = (Inr user, st1) \<and> User_TOTPEnabled user"
proof -
  let ?w = "example_world example_claims"
  have rand: "rand_fills ?w" by (simp add: rand_fills_def example_world_def)
  obtain c st' where c: "encrypt ?w example_mfa ''gezdgnbv'' example_server = (Inr c, st')"
    by (simp add: encrypt_def bindE_run rand_read_def draw_run example_world_def)
  define u where "u = (example_user ''u2'' ''bob'' RoleUser)\<lparr>users_totp_secret := c, users_totp_enabled := True\<rparr>"
  have u: "u \<in> set (db_users (srv_db (mfa_example c [])))" "users_totp_secret u = c"
    by (simp_all add: u_def mfa_example_def)
  have "Base32_Decode (ToUpper ''gezdgnbv'') = Some ''12345''" by code_simp
  then have code: "TOTP_Code ''gezdgnbv'' 0 = Inr (codeForCounter ''12345'' 0)"
    by (simp add: TOTP_Code_def totp_counter_def Unix_def go_div_def)
  have "\<bar>totp_counter 0 - totp_counter (world_clock ?w (srv_tick (mfa_example c [])))\<bar> \<le> 1"
    by (simp add: mfa_example_def example_server_def example_world_def totp_counter_def Unix_def go_div_def)
  from enrolment_confirms [OF rand c mfa_example_ok(1,2) u code this] decrypt_encrypt [OF rand c]
  show ?thesis unfolding u_def by blast
qed

end
