(* ===== verification/Store_Devices.thy ===== *)
theory Store_Devices
  imports Store_Sessions
begin

text \<open>
  The device inventory of internal/store/sqlstore/store.go.  The lifetime of the online
  mark comes from the environment; time.ParseDuration is the parameter \<open>parse\<close>.
\<close>

section \<open>Rows\<close>

definition device_row_of :: "Device \<Rightarrow> devices_row" where
  "device_row_of v = \<lparr>devices_rustdesk_id = Device_RustDeskID v, devices_client_uuid = Device_ClientUUID v,
     devices_hostname = Device_Hostname v, devices_alias = Device_Alias v,
     devices_platform = Device_Platform v, devices_version = Device_Version v,
     devices_cpu = Device_CPU v, devices_memory = Device_Memory v,
     devices_os_username = Device_Username v, devices_last_seen_ip = Device_LastSeenIP v,
     devices_online = Device_Online v, devices_last_seen = millis (Device_LastSeen v),
     devices_owner_user_id = Device_OwnerUserID v, devices_group_id = Device_GroupID v,
     devices_tags = Device_Tags v, devices_created_at = millis (Device_CreatedAt v),
     devices_public_key = Device_PublicKey v, devices_deployed = Device_Deployed v,
     devices_deployed_by = Device_DeployedBy v, devices_deployed_at = nullableMillis (Device_DeployedAt v),
     devices_archived_at = None\<rparr>"

definition keep_empty :: "string \<Rightarrow> string \<Rightarrow> string" where
  "keep_empty new old = (if new = [] then old else new)"

text \<open>The ON CONFLICT clause: what an empty report keeps, and that a deployed device keeps
  its client identity.\<close>

definition merge_device :: "devices_row \<Rightarrow> devices_row \<Rightarrow> devices_row" where
  "merge_device x r = r\<lparr>
     devices_client_uuid := (if devices_deployed r then devices_client_uuid r else devices_client_uuid x),
     devices_hostname := keep_empty (devices_hostname x) (devices_hostname r),
     devices_platform := keep_empty (devices_platform x) (devices_platform r),
     devices_version := keep_empty (devices_version x) (devices_version r),
     devices_cpu := keep_empty (devices_cpu x) (devices_cpu r),
     devices_memory := keep_empty (devices_memory x) (devices_memory r),
     devices_os_username := keep_empty (devices_os_username x) (devices_os_username r),
     devices_last_seen_ip := keep_empty (devices_last_seen_ip x) (devices_last_seen_ip r),
     devices_online := devices_online x, devices_last_seen := devices_last_seen x,
     devices_owner_user_id := keep_empty (devices_owner_user_id x) (devices_owner_user_id r),
     devices_public_key := keep_empty (devices_public_key x) (devices_public_key r),
     devices_deployed := devices_deployed r \<or> devices_deployed x,
     devices_deployed_by := keep_empty (devices_deployed_by x) (devices_deployed_by r),
     devices_deployed_at := (if devices_deployed_at x = None then devices_deployed_at r else devices_deployed_at x)\<rparr>"

definition UpsertDevice :: "Device \<Rightarrow> (db, unit) prog" where
  "UpsertDevice device = exec_upsert db_devices db_devices_update
     (\<lambda>x y. devices_rustdesk_id x = devices_rustdesk_id y) (\<lambda>_ _. True)
     (merge_device (device_row_of device)) (device_row_of device)"

definition deviceOnlineTTL :: "(string \<Rightarrow> duration option) \<Rightarrow> string \<Rightarrow> duration" where
  "deviceOnlineTTL parse value =
     (if value = [] then 180 * Second
      else case parse value of
        Some d \<Rightarrow> if d \<ge> 30 * Second then d else 180 * Second
      | None \<Rightarrow> 180 * Second)"

definition scan_device :: "instant \<Rightarrow> duration \<Rightarrow> devices_row \<Rightarrow> Device" where
  "scan_device now ttl r = \<lparr>Device_RustDeskID = devices_rustdesk_id r, Device_ClientUUID = devices_client_uuid r,
     Device_Hostname = devices_hostname r, Device_Alias = devices_alias r,
     Device_Platform = devices_platform r, Device_Version = devices_version r,
     Device_CPU = devices_cpu r, Device_Memory = devices_memory r,
     Device_Username = devices_os_username r, Device_LastSeenIP = devices_last_seen_ip r,
     Device_Online = (time_Sub now (fromMillis (devices_last_seen r)) < ttl),
     Device_LastSeen = fromMillis (devices_last_seen r),
     Device_OwnerUserID = devices_owner_user_id r, Device_GroupID = devices_group_id r,
     Device_Tags = devices_tags r, Device_PublicKey = devices_public_key r,
     Device_Deployed = devices_deployed r, Device_DeployedBy = devices_deployed_by r,
     Device_DeployedAt = (case devices_deployed_at r of None \<Rightarrow> zero_time | Some m \<Rightarrow> fromMillis m),
     Device_CreatedAt = fromMillis (devices_created_at r),
     Device_ArchivedAt = map_option fromMillis (devices_archived_at r)\<rparr>"

definition ListDevices :: "instant \<Rightarrow> duration \<Rightarrow> (db, Device list) prog" where
  "ListDevices now ttl = query (\<lambda>d. map (scan_device now ttl) (order_desc devices_last_seen (db_devices d)))"

definition DeviceAuditLabel :: "string \<Rightarrow> (db, string \<times> string) prog" where
  "DeviceAuditLabel rustDeskID = scan_found (\<lambda>r. (devices_hostname r, devices_alias r))
     (query_row (\<lambda>d. find (\<lambda>r. devices_rustdesk_id r = rustDeskID) (db_devices d)))"

text \<open>A NULL subquery compares to nothing.\<close>

definition AuditActorByDevice :: "string \<Rightarrow> instant \<Rightarrow> (db, string \<times> string \<times> string \<times> string) prog" where
  "AuditActorByDevice rustDeskID now =
     scan_found (\<lambda>(s, u). (users_id u, sessions_id s, users_username u, users_display_name u))
     (query_row (\<lambda>d.
        let uuid = map_option devices_client_uuid
              (find (\<lambda>r. devices_rustdesk_id r = rustDeskID) (db_devices d));
            hits = filter (\<lambda>(s, u). sessions_revoked_at s = None \<and> sessions_expires_at s > millis now \<and>
              users_enabled u \<and> (sessions_client_device_id s = rustDeskID \<or>
              Some (sessions_client_device_id s) = uuid)) (sessions_users d)
        in case order_desc (\<lambda>(s, u). sessions_last_seen_at s) hits of [] \<Rightarrow> None | x # _ \<Rightarrow> Some x))"

text \<open>The device of an identifier in the list, after a write that found it.\<close>

definition find_device :: "instant \<Rightarrow> duration \<Rightarrow> string \<Rightarrow> (db, Device) prog" where
  "find_device now ttl i = bindE (ListDevices now ttl) (\<lambda>devices.
     case find (\<lambda>v. Device_RustDeskID v = i) devices of None \<Rightarrow> throw ErrNotFound | Some v \<Rightarrow> ret v)"

definition UpdateDeviceManagement ::
  "instant \<Rightarrow> duration \<Rightarrow> string \<Rightarrow> string \<Rightarrow> string \<Rightarrow> string list \<Rightarrow> (db, Device) prog" where
  "UpdateDeviceManagement now ttl i alias groupID tags =
     thenE (affected (exec_update db_devices db_devices_update (\<lambda>r. devices_rustdesk_id r = i)
              (\<lambda>r. r\<lparr>devices_alias := alias, devices_group_id := groupID, devices_tags := tags\<rparr>)))
           (find_device now ttl i)"

text \<open>The loop over the current and the added tags, with what was seen so far.\<close>

fun merge_loop :: "string list \<Rightarrow> string list \<Rightarrow> string list \<Rightarrow> string list" where
  "merge_loop removed seen [] = []"
| "merge_loop removed seen (t # ts) =
     (let tag = TrimSpace t in
      if tag \<noteq> [] \<and> tag \<notin> set removed \<and> tag \<notin> set seen
      then tag # merge_loop removed (tag # seen) ts
      else merge_loop removed seen ts)"

definition merge_tags :: "string list \<Rightarrow> string list \<Rightarrow> string list \<Rightarrow> string list" where
  "merge_tags current addTags removeTags = merge_loop (map TrimSpace removeTags) [] (current @ addTags)"

definition bulk_update_one :: "string option \<Rightarrow> string list \<Rightarrow> string list \<Rightarrow> string \<Rightarrow> (db, unit) prog" where
  "bulk_update_one groupID addTags removeTags i =
     bindE (scan_found devices_tags (query_row (\<lambda>d. find (\<lambda>r. devices_rustdesk_id r = i) (db_devices d))))
     (\<lambda>current. let merged = merge_tags current addTags removeTags in
        execute (exec_update db_devices db_devices_update (\<lambda>r. devices_rustdesk_id r = i)
          (case groupID of
             None \<Rightarrow> (\<lambda>r. r\<lparr>devices_tags := merged\<rparr>)
           | Some g \<Rightarrow> (\<lambda>r. r\<lparr>devices_group_id := g, devices_tags := merged\<rparr>))))"

definition BulkUpdateDevices ::
  "string list \<Rightarrow> string option \<Rightarrow> string list \<Rightarrow> string list \<Rightarrow> (db, unit) prog" where
  "BulkUpdateDevices ids groupID addTags removeTags =
     transaction (forE ids (bulk_update_one groupID addTags removeTags))"

definition SetDeviceArchived ::
  "instant \<Rightarrow> duration \<Rightarrow> string \<Rightarrow> bool \<Rightarrow> instant \<Rightarrow> (db, Device) prog" where
  "SetDeviceArchived clock ttl i archived now =
     thenE (affected (exec_update db_devices db_devices_update (\<lambda>r. devices_rustdesk_id r = i)
              (\<lambda>r. r\<lparr>devices_archived_at := (if archived then Some (millis now) else None)\<rparr>)))
           (find_device clock ttl i)"

definition DeleteArchivedDevice :: "string \<Rightarrow> (db, unit) prog" where
  "DeleteArchivedDevice i = affected (exec_delete db_devices db_devices_update
     (\<lambda>_ r. devices_rustdesk_id r = i \<and> devices_archived_at r \<noteq> None))"

definition import_one :: "DeviceManagementImport \<Rightarrow> (db, unit) prog" where
  "import_one v =
     bindE (exec_update db_devices db_devices_update
        (\<lambda>r. devices_rustdesk_id r = DeviceManagementImport_RustDeskID v \<and> devices_archived_at r = None)
        (\<lambda>r. r\<lparr>devices_alias := DeviceManagementImport_Alias v,
               devices_group_id := DeviceManagementImport_GroupID v,
               devices_tags := DeviceManagementImport_Tags v\<rparr>))
     (\<lambda>count. if count \<noteq> 1 then throw ErrNotFound else ret ())"

definition ImportDeviceManagement :: "DeviceManagementImport list \<Rightarrow> (db, unit) prog" where
  "ImportDeviceManagement values = transaction (forE values import_one)"

section \<open>Merging tags\<close>

lemma merge_loop_set:
  "set (merge_loop removed seen ts) = {t \<in> TrimSpace ` set ts. t \<noteq> [] \<and> t \<notin> set removed \<and> t \<notin> set seen}"
  by (induction removed seen ts rule: merge_loop.induct) (auto simp: Let_def)

lemma merge_loop_distinct: "distinct (merge_loop removed seen ts)"
  by (induction removed seen ts rule: merge_loop.induct) (auto simp: Let_def merge_loop_set)

section \<open>The client identity of a deployed device\<close>

text \<open>The operations of the store that write the devices table, with any failures: reports and management changes, the
  permanent deletion of an archived device, here of those in \<open>deleted\<close>, and the deletion of a user or a group,
  which clears columns of their devices.\<close>

inductive device_step :: "string set \<Rightarrow> db \<Rightarrow> db \<Rightarrow> bool" for deleted where
  "UpsertDevice v d = (r, d') \<Longrightarrow> device_step deleted d d'"
| "UpdateDeviceManagement now ttl i alias g tags d = (r1, d') \<Longrightarrow> device_step deleted d d'"
| "BulkUpdateDevices ids gr add rem d = (r, d') \<Longrightarrow> device_step deleted d d'"
| "SetDeviceArchived clock ttl i b now d = (r1, d') \<Longrightarrow> device_step deleted d d'"
| "ImportDeviceManagement vs d = (r, d') \<Longrightarrow> device_step deleted d d'"
| "i \<in> deleted \<Longrightarrow> DeleteArchivedDevice i d = (r, d') \<Longrightarrow> device_step deleted d d'"
| "DeleteUser i d = (r, d') \<Longrightarrow> device_step deleted d d'"
| "DeleteGroup i d = (r, d') \<Longrightarrow> device_step deleted d d'"

definition device_pinned :: "string \<Rightarrow> string \<Rightarrow> db \<Rightarrow> bool" where
  "device_pinned i uuid d \<longleftrightarrow> (\<exists>r\<in>set (db_devices d). devices_rustdesk_id r = i) \<and>
     (\<forall>r\<in>set (db_devices d). devices_rustdesk_id r = i \<longrightarrow>
        devices_deployed r \<and> devices_client_uuid r = uuid)"

definition pinned_kept :: "string \<Rightarrow> string \<Rightarrow> db \<Rightarrow> db \<Rightarrow> bool" where
  "pinned_kept i uuid d d' \<longleftrightarrow> (device_pinned i uuid d \<longrightarrow> device_pinned i uuid d')"

lemma device_pinned_set_faults [simp]: "device_pinned i uuid (set_faults fs d) = device_pinned i uuid d"
  by (simp add: device_pinned_def set_faults_def)

interpretation pin: db_rel "pinned_kept i uuid" for i uuid
  by unfold_locales (auto simp: pinned_kept_def)

lemma pinned_kept_update:
  "(\<And>r. devices_rustdesk_id (f r) = devices_rustdesk_id r) \<Longrightarrow>
   (\<And>r. devices_deployed r \<Longrightarrow> devices_deployed (f r) \<and> devices_client_uuid (f r) = devices_client_uuid r) \<Longrightarrow>
   pinned_kept i uuid d (db_devices_update (upd_where p f) d)"
  by (auto simp: pinned_kept_def device_pinned_def table_simps) (metis+)?

lemma pinned_kept_insert:
  "\<forall>x\<in>set (db_devices d). devices_rustdesk_id x \<noteq> devices_rustdesk_id r \<Longrightarrow>
   pinned_kept i uuid d (db_devices_update (\<lambda>rs. rs @ [r]) d)"
  by (auto simp: pinned_kept_def device_pinned_def)

lemma pinned_kept_delete:
  "(\<And>r. r \<in> set (db_devices d) \<Longrightarrow> p r \<Longrightarrow> devices_rustdesk_id r \<noteq> i) \<Longrightarrow>
   pinned_kept i uuid d (db_devices_update (filter (\<lambda>r. \<not> p r)) d)"
  by (auto simp: pinned_kept_def device_pinned_def)

lemma pinned_kept_other:
  "db_devices d' = db_devices d \<Longrightarrow> pinned_kept i uuid d d'"
  by (simp add: pinned_kept_def device_pinned_def)

lemma devices_pinned:
  "steps (pinned_kept i uuid) (UpsertDevice v)" "steps (pinned_kept i uuid) (UpdateDeviceManagement now ttl j alias g tags)"
  "steps (pinned_kept i uuid) (BulkUpdateDevices ids gr add rem)" "steps (pinned_kept i uuid) (SetDeviceArchived clock ttl j b now)"
  "steps (pinned_kept i uuid) (ImportDeviceManagement vs)"
  "j \<noteq> i \<Longrightarrow> steps (pinned_kept i uuid) (DeleteArchivedDevice j)"
  unfolding UpsertDevice_def UpdateDeviceManagement_def find_device_def ListDevices_def BulkUpdateDevices_def
    bulk_update_one_def SetDeviceArchived_def ImportDeviceManagement_def import_one_def DeleteArchivedDevice_def Let_def
  by (intro pin.basic_intros pinned_kept_update pinned_kept_insert pinned_kept_delete;
      (auto simp: merge_device_def split: option.splits)?)+

lemma deletions_pinned:
  "steps (pinned_kept i uuid) (DeleteUser j)" "steps (pinned_kept i uuid) (DeleteGroup j)"
  unfolding DeleteUser_def select_role_def refuse_last_admin_def delete_user_rows_def delete_user_books_def DeleteGroup_def
  by (intro pin.basic_intros pinned_kept_update; simp add: pinned_kept_other)+

lemma device_step_pinned: "device_step deleted d d' \<Longrightarrow> i \<notin> deleted \<Longrightarrow> pinned_kept i uuid d d'"
  by (induction rule: device_step.induct; erule stepsD [rotated]; (rule devices_pinned deletions_pinned; blast?))

section \<open>The effect of a bulk update\<close>

definition bulk_row :: "string set \<Rightarrow> string option \<Rightarrow> string list \<Rightarrow> string list \<Rightarrow> devices_row \<Rightarrow> devices_row" where
  "bulk_row ids groupID addTags removeTags r =
     (if devices_rustdesk_id r \<in> ids
      then r\<lparr>devices_group_id := (case groupID of None \<Rightarrow> devices_group_id r | Some g \<Rightarrow> g),
             devices_tags := merge_tags (devices_tags r) addTags removeTags\<rparr> else r)"

lemma devices_set_faults [simp]: "db_devices (set_faults fs d) = db_devices d"
  by (simp add: set_faults_def)

lemma bulk_row_id [simp]: "devices_rustdesk_id (bulk_row ids g add rem r) = devices_rustdesk_id r"
  by (simp add: bulk_row_def)

lemma bulk_update_one_ok:
  assumes "bulk_update_one g add rem i d = (Inr u, d')" "distinct (map devices_rustdesk_id (db_devices d))"
  shows "db_devices d' = map (bulk_row {i} g add rem) (db_devices d) \<and> i \<in> devices_rustdesk_id ` set (db_devices d)"
proof -
  obtain x where x: "find (\<lambda>r. devices_rustdesk_id r = i) (db_devices d) = Some x"
    and d': "db_devices d' = upd_where (\<lambda>r. devices_rustdesk_id r = i)
      (case g of None \<Rightarrow> (\<lambda>r. r\<lparr>devices_tags := merge_tags (devices_tags x) add rem\<rparr>)
       | Some h \<Rightarrow> (\<lambda>r. r\<lparr>devices_group_id := h, devices_tags := merge_tags (devices_tags x) add rem\<rparr>)) (db_devices d)"
    using assms(1)
    by (auto simp: bulk_update_one_def Let_def result_iffs elim!: query_row_okE exec_update_okE)
  have x': "x \<in> set (db_devices d)" "devices_rustdesk_id x = i" using find_Some_in [OF x] by auto
  have "r = x" if "r \<in> set (db_devices d)" "devices_rustdesk_id r = i" for r
    using distinct_keyD [OF assms(2) that(1) x'(1)] that x' by simp
  then have "db_devices d' = map (bulk_row {i} g add rem) (db_devices d)"
    unfolding d' by (auto simp: upd_where_def bulk_row_def split: option.splits)
  with x' show ?thesis by auto
qed

lemma bulk_update_all_ok:
  "forE ids (bulk_update_one g add rem) d = (Inr u, d') \<Longrightarrow> distinct ids \<Longrightarrow>
   distinct (map devices_rustdesk_id (db_devices d)) \<Longrightarrow>
   db_devices d' = map (bulk_row (set ids) g add rem) (db_devices d) \<and>
   set ids \<subseteq> devices_rustdesk_id ` set (db_devices d)"
proof (induction ids arbitrary: d)
  case (Cons i ids)
  then obtain d1 v where one: "bulk_update_one g add rem i d = (Inr v, d1)"
    and rest: "forE ids (bulk_update_one g add rem) d1 = (Inr u, d')" by (auto simp: thenE_Inr_iff)
  note d1 = bulk_update_one_ok [OF one Cons.prems(3)]
  have "distinct (map devices_rustdesk_id (db_devices d1))" using d1 Cons.prems(3) by (simp add: comp_def)
  with Cons.IH [OF rest] Cons.prems(2)
  have IH: "db_devices d' = map (bulk_row (set ids) g add rem) (db_devices d1)"
    "set ids \<subseteq> devices_rustdesk_id ` set (db_devices d1)" by auto
  have "bulk_row (set ids) g add rem (bulk_row {i} g add rem r) = bulk_row (set (i # ids)) g add rem r" for r
    using Cons.prems(2) by (auto simp: bulk_row_def)
  then show ?case using IH d1 by (simp add: image_image)
qed (auto simp: bulk_row_def map_idI)

section \<open>Properties\<close>

text \<open>C24: A deployed device keeps its identity until it is deleted from the archive.  Once every row of a device
  is deployed under a client UUID, no report of the device, whatever UUID it claims, no management operation, no
  deletion of a user, of a group or of another archived device, in any order and with any failures, changes that
  UUID or the deployed mark; and DeleteArchivedDevice itself leaves the device in place unless it is archived.\<close>

theorem deployed_device_keeps_identity:
  assumes "device_pinned i uuid d" "(device_step deleted)\<^sup>*\<^sup>* d d'" "i \<notin> deleted"
  shows "device_pinned i uuid d' \<and>
    ((\<forall>r\<in>set (db_devices d'). devices_rustdesk_id r = i \<longrightarrow> devices_archived_at r = None) \<longrightarrow>
      device_pinned i uuid (snd (DeleteArchivedDevice i d')))"
proof -
  have pinned: "device_pinned i uuid d'" using assms(2,1)
    by (induction rule: rtranclp_induct) (auto dest!: device_step_pinned [OF _ assms(3), of _ _ uuid] simp: pinned_kept_def)
  moreover have "device_pinned i uuid (snd (DeleteArchivedDevice i d'))"
    if "\<forall>r\<in>set (db_devices d'). devices_rustdesk_id r = i \<longrightarrow> devices_archived_at r = None"
  proof -
    have "db_devices (snd (DeleteArchivedDevice i d')) = db_devices d'"
      using that unfolding DeleteArchivedDevice_def affected_def exec_delete_def bindE_run stmt_def Let_def
      by (auto simp: filter_id_conv split: if_splits sum.splits)
    then show ?thesis using pinned by (simp add: device_pinned_def)
  qed
  ultimately show ?thesis by blast
qed

definition example_device :: "string \<Rightarrow> string \<Rightarrow> bool \<Rightarrow> Device" where
  "example_device i uuid deployed = \<lparr>Device_RustDeskID = i, Device_ClientUUID = uuid, Device_Hostname = [],
     Device_Alias = [], Device_Platform = [], Device_Version = [], Device_CPU = [], Device_Memory = [],
     Device_Username = [], Device_LastSeenIP = [], Device_Online = True, Device_LastSeen = 0,
     Device_OwnerUserID = [], Device_GroupID = [], Device_Tags = [''a''], Device_PublicKey = [],
     Device_Deployed = deployed, Device_DeployedBy = [], Device_DeployedAt = zero_time,
     Device_CreatedAt = 0, Device_ArchivedAt = None\<rparr>"

definition devices_example :: db where
  "devices_example = empty_db\<lparr>db_devices := [device_row_of (example_device ''7'' ''u'' True)]\<rparr>"

theorem deployed_device_keeps_identity_witness:
  "device_pinned ''7'' ''u'' (snd (DeleteArchivedDevice ''8''
     (snd (UpsertDevice (example_device ''7'' ''other'' False) devices_example))))"
proof -
  let ?d = "snd (UpsertDevice (example_device ''7'' ''other'' False) devices_example)"
  have pinned: "device_pinned ''7'' ''u'' devices_example"
    by (simp add: device_pinned_def devices_example_def device_row_of_def example_device_def)
  have "device_step {''8''} devices_example ?d" by (rule device_step.intros(1) [OF surjective_pairing])
  moreover have "device_step {''8''} ?d (snd (DeleteArchivedDevice ''8'' ?d))"
    by (rule device_step.intros(6) [OF singletonI surjective_pairing])
  ultimately have run: "(device_step {''8''})\<^sup>*\<^sup>* devices_example (snd (DeleteArchivedDevice ''8'' ?d))"
    by (rule rtranclp.rtrancl_into_rtrancl [OF r_into_rtranclp])
  have "''7'' \<notin> {''8''}" by simp
  from deployed_device_keeps_identity [OF pinned run this] show ?thesis by (rule conjunct1)
qed

text \<open>C25: A bulk update does what it says.  When BulkUpdateDevices succeeds for distinct
  identifiers, every one of them names a device; each of these devices gets the group,
  if one is given, and as tags its old and the added ones, trimmed, without empty ones,
  without the removed ones and without repetition; and no other device changes.\<close>

theorem BulkUpdateDevices_exact:
  assumes "BulkUpdateDevices ids groupID addTags removeTags d = (Inr u, d')" "distinct ids"
    and "distinct (map devices_rustdesk_id (db_devices d))"
  shows "db_devices d' = map (bulk_row (set ids) groupID addTags removeTags) (db_devices d) \<and>
    set ids \<subseteq> devices_rustdesk_id ` set (db_devices d) \<and>
    (\<forall>current. distinct (merge_tags current addTags removeTags) \<and>
       set (merge_tags current addTags removeTags) =
         TrimSpace ` (set current \<union> set addTags) - {[]} - TrimSpace ` set removeTags)"
proof -
  from assms(1) [unfolded BulkUpdateDevices_def] obtain fs d1 gs where
    run: "forE ids (bulk_update_one groupID addTags removeTags) (set_faults fs d) = (Inr u, d1)"
    and d': "d' = set_faults gs d1" by (rule transaction_InrE)
  have "distinct (map devices_rustdesk_id (db_devices (set_faults fs d)))" using assms(3) by simp
  from bulk_update_all_ok [OF run assms(2) this] show ?thesis
    by (auto simp: d' merge_tags_def merge_loop_set merge_loop_distinct)
qed

theorem BulkUpdateDevices_exact_witness:
  "\<exists>d'. BulkUpdateDevices [''7''] (Some ''g'') [''b'', ''a''] [''c''] devices_example = (Inr (), d') \<and>
     map devices_tags (db_devices d') = [[''a'', ''b'']]"
proof -
  have "TrimSpace ''a'' = ''a''" "TrimSpace ''b'' = ''b''" "TrimSpace ''c'' = ''c''"
    by (rule TrimSpace_plain, code_simp)+
  then have merged: "merge_tags [''a''] [''b'', ''a''] [''c''] = [''a'', ''b'']"
    by (simp add: merge_tags_def)
  obtain d' where run: "BulkUpdateDevices [''7''] (Some ''g'') [''b'', ''a''] [''c''] devices_example = (Inr (), d')"
    by (simp add: BulkUpdateDevices_def bulk_update_one_def statement_run Let_def devices_example_def
        empty_db_def device_row_of_def example_device_def)
  have "distinct [''7'']" "distinct (map devices_rustdesk_id (db_devices devices_example))"
    by (simp_all add: devices_example_def)
  from BulkUpdateDevices_exact [OF run this] have "map devices_tags (db_devices d') = [[''a'', ''b'']]"
    by (simp add: devices_example_def bulk_row_def device_row_of_def example_device_def merged)
  with run show ?thesis by (intro exI conjI)
qed

end
