(* ===== verification/Store_Books.thy ===== *)
theory Store_Books
  imports Store_Sessions
begin

text \<open>
  Address books, their grants, entries and tags, and API tokens, as
  internal/store/sqlstore/store.go keeps them.
\<close>

section \<open>Books\<close>

definition book_row_of :: "AddressBook \<Rightarrow> address_books_row" where
  "book_row_of v = \<lparr>address_books_id = AddressBook_ID v, address_books_name = AddressBook_Name v,
     address_books_kind = AddressBook_Kind v, address_books_owner_user_id = AddressBook_OwnerUserID v,
     address_books_created_at = millis (AddressBook_CreatedAt v),
     address_books_updated_at = millis (AddressBook_UpdatedAt v)\<rparr>"

definition scan_book :: "address_books_row \<Rightarrow> AddressBook" where
  "scan_book r = \<lparr>AddressBook_ID = address_books_id r, AddressBook_Name = address_books_name r,
     AddressBook_Kind = address_books_kind r, AddressBook_OwnerUserID = address_books_owner_user_id r,
     AddressBook_Permission = [], AddressBook_CanManage = False,
     AddressBook_CreatedAt = fromMillis (address_books_created_at r),
     AddressBook_UpdatedAt = fromMillis (address_books_updated_at r)\<rparr>"

definition book_insert_ok :: "db \<Rightarrow> address_books_row \<Rightarrow> bool" where
  "book_insert_ok d r \<longleftrightarrow> (\<forall>x\<in>set (db_address_books d). address_books_id x \<noteq> address_books_id r)"

definition CreateAddressBook :: "AddressBook \<Rightarrow> (db, unit) prog" where
  "CreateAddressBook v = exec_insert db_address_books_update book_insert_ok (book_row_of v)"

definition ListAddressBooks :: "(db, AddressBook list) prog" where
  "ListAddressBooks = query (\<lambda>d. map scan_book (sort_key address_books_name (db_address_books d)))"

definition FindAddressBookByID :: "string \<Rightarrow> (db, AddressBook) prog" where
  "FindAddressBookByID i = scan_found scan_book
     (query_row (\<lambda>d. find (\<lambda>r. address_books_id r = i) (db_address_books d)))"

definition UpdateAddressBook :: "AddressBook \<Rightarrow> (db, unit) prog" where
  "UpdateAddressBook v = affected (exec_update db_address_books db_address_books_update
     (\<lambda>r. address_books_id r = AddressBook_ID v)
     (\<lambda>r. r\<lparr>address_books_name := AddressBook_Name v, address_books_kind := AddressBook_Kind v,
            address_books_updated_at := millis (AddressBook_UpdatedAt v)\<rparr>))"

definition DeleteAddressBook :: "string \<Rightarrow> (db, unit) prog" where
  "DeleteAddressBook i = transaction
     (thenE (exec_delete db_address_book_entries db_address_book_entries_update
               (\<lambda>_ x. address_book_entries_address_book_id x = i))
     (thenE (exec_delete db_address_book_tags db_address_book_tags_update
               (\<lambda>_ x. address_book_tags_address_book_id x = i))
     (thenE (exec_delete db_address_book_grants db_address_book_grants_update
               (\<lambda>_ x. address_book_grants_address_book_id x = i))
            (affected (exec_delete db_address_books db_address_books_update
               (\<lambda>_ x. address_books_id x = i))))))"

section \<open>Grants\<close>

definition grant_row_of :: "AddressBookGrant \<Rightarrow> address_book_grants_row" where
  "grant_row_of v = \<lparr>address_book_grants_id = AddressBookGrant_ID v,
     address_book_grants_address_book_id = AddressBookGrant_AddressBookID v,
     address_book_grants_subject_type = AddressBookGrant_SubjectType v,
     address_book_grants_subject_id = AddressBookGrant_SubjectID v,
     address_book_grants_permission = AddressBookGrant_Permission v,
     address_book_grants_created_at = millis (AddressBookGrant_CreatedAt v),
     address_book_grants_updated_at = millis (AddressBookGrant_UpdatedAt v)\<rparr>"

definition scanAddressBookGrants :: "address_book_grants_row \<Rightarrow> AddressBookGrant" where
  "scanAddressBookGrants r = \<lparr>AddressBookGrant_ID = address_book_grants_id r,
     AddressBookGrant_AddressBookID = address_book_grants_address_book_id r,
     AddressBookGrant_SubjectType = address_book_grants_subject_type r,
     AddressBookGrant_SubjectID = address_book_grants_subject_id r,
     AddressBookGrant_Permission = address_book_grants_permission r,
     AddressBookGrant_CreatedAt = fromMillis (address_book_grants_created_at r),
     AddressBookGrant_UpdatedAt = fromMillis (address_book_grants_updated_at r)\<rparr>"

definition grant_key :: "address_book_grants_row \<Rightarrow> string \<times> string \<times> string" where
  "grant_key x = (address_book_grants_address_book_id x, address_book_grants_subject_type x,
     address_book_grants_subject_id x)"

definition UpsertAddressBookGrant :: "AddressBookGrant \<Rightarrow> (db, unit) prog" where
  "UpsertAddressBookGrant v = exec_upsert db_address_book_grants db_address_book_grants_update
     (\<lambda>x y. grant_key x = grant_key y)
     (\<lambda>d r. \<forall>x\<in>set (db_address_book_grants d). address_book_grants_id x \<noteq> address_book_grants_id r)
     (\<lambda>x. x\<lparr>address_book_grants_permission := AddressBookGrant_Permission v,
            address_book_grants_updated_at := millis (AddressBookGrant_UpdatedAt v)\<rparr>)
     (grant_row_of v)"

definition ListAddressBookGrants :: "string \<Rightarrow> (db, AddressBookGrant list) prog" where
  "ListAddressBookGrants bookID = query (\<lambda>d. map scanAddressBookGrants
     (sort_key (\<lambda>x. (address_book_grants_subject_type x, address_book_grants_subject_id x))
       (filter (\<lambda>x. address_book_grants_address_book_id x = bookID) (db_address_book_grants d))))"

definition ListAllAddressBookGrants :: "(db, AddressBookGrant list) prog" where
  "ListAllAddressBookGrants = query (\<lambda>d. map scanAddressBookGrants
     (sort_key grant_key (db_address_book_grants d)))"

definition DeleteAddressBookGrant :: "string \<Rightarrow> string \<Rightarrow> (db, unit) prog" where
  "DeleteAddressBookGrant bookID grantID = affected
     (exec_delete db_address_book_grants db_address_book_grants_update
       (\<lambda>_ x. address_book_grants_id x = grantID \<and> address_book_grants_address_book_id x = bookID))"

section \<open>Entries\<close>

definition entry_row_of :: "string \<Rightarrow> AddressBookEntry \<Rightarrow> address_book_entries_row" where
  "entry_row_of bookID v = \<lparr>address_book_entries_id = AddressBookEntry_ID v,
     address_book_entries_address_book_id = bookID,
     address_book_entries_rustdesk_id = AddressBookEntry_RustDeskID v,
     address_book_entries_alias = AddressBookEntry_Alias v,
     address_book_entries_folder = AddressBookEntry_Folder v,
     address_book_entries_favourite = AddressBookEntry_Favourite v,
     address_book_entries_tags = AddressBookEntry_Tags v,
     address_book_entries_created_at = millis (AddressBookEntry_CreatedAt v),
     address_book_entries_username = AddressBookEntry_Username v,
     address_book_entries_hostname = AddressBookEntry_Hostname v,
     address_book_entries_platform = AddressBookEntry_Platform v,
     address_book_entries_force_relay = AddressBookEntry_ForceRelay v,
     address_book_entries_rdp_port = AddressBookEntry_RDPPort v,
     address_book_entries_rdp_username = AddressBookEntry_RDPUsername v,
     address_book_entries_login_name = AddressBookEntry_LoginName v,
     address_book_entries_same_server = AddressBookEntry_SameServer v\<rparr>"

definition scan_entry :: "address_book_entries_row \<Rightarrow> AddressBookEntry" where
  "scan_entry r = \<lparr>AddressBookEntry_ID = address_book_entries_id r,
     AddressBookEntry_AddressBookID = address_book_entries_address_book_id r,
     AddressBookEntry_RustDeskID = address_book_entries_rustdesk_id r,
     AddressBookEntry_Alias = address_book_entries_alias r,
     AddressBookEntry_Username = address_book_entries_username r,
     AddressBookEntry_Hostname = address_book_entries_hostname r,
     AddressBookEntry_Platform = address_book_entries_platform r,
     AddressBookEntry_Folder = address_book_entries_folder r,
     AddressBookEntry_Favourite = address_book_entries_favourite r,
     AddressBookEntry_Tags = address_book_entries_tags r,
     AddressBookEntry_ForceRelay = address_book_entries_force_relay r,
     AddressBookEntry_RDPPort = address_book_entries_rdp_port r,
     AddressBookEntry_RDPUsername = address_book_entries_rdp_username r,
     AddressBookEntry_LoginName = address_book_entries_login_name r,
     AddressBookEntry_SameServer = address_book_entries_same_server r,
     AddressBookEntry_CreatedAt = fromMillis (address_book_entries_created_at r)\<rparr>"

definition entry_key :: "address_book_entries_row \<Rightarrow> string \<times> string" where
  "entry_key x = (address_book_entries_address_book_id x, address_book_entries_rustdesk_id x)"

definition entries_unique :: "address_book_entries_row list \<Rightarrow> bool" where
  "entries_unique rs \<longleftrightarrow> distinct (map address_book_entries_id rs) \<and> distinct (map entry_key rs)"

definition entry_insert_ok :: "db \<Rightarrow> address_book_entries_row \<Rightarrow> bool" where
  "entry_insert_ok d r \<longleftrightarrow> (\<forall>x\<in>set (db_address_book_entries d).
     address_book_entries_id x \<noteq> address_book_entries_id r \<and> entry_key x \<noteq> entry_key r)"

definition CreateAddressBookEntry :: "AddressBookEntry \<Rightarrow> (db, unit) prog" where
  "CreateAddressBookEntry v = exec_insert db_address_book_entries_update entry_insert_ok
     (entry_row_of (AddressBookEntry_AddressBookID v) v)"

definition ListAddressBookEntries :: "string \<Rightarrow> (db, AddressBookEntry list) prog" where
  "ListAddressBookEntries bookID = query (\<lambda>d. map scan_entry
     (sort_key (\<lambda>x. (\<not> address_book_entries_favourite x, address_book_entries_alias x, address_book_entries_rustdesk_id x))
       (filter (\<lambda>x. address_book_entries_address_book_id x = bookID) (db_address_book_entries d))))"

definition ReplaceAddressBookEntries :: "string \<Rightarrow> AddressBookEntry list \<Rightarrow> (db, unit) prog" where
  "ReplaceAddressBookEntries bookID values = transaction
     (thenE (exec_delete db_address_book_entries db_address_book_entries_update
               (\<lambda>_ x. address_book_entries_address_book_id x = bookID))
            (forE values (\<lambda>v. exec_insert db_address_book_entries_update entry_insert_ok
               (entry_row_of bookID v))))"

definition UpdateAddressBookEntry :: "AddressBookEntry \<Rightarrow> (db, unit) prog" where
  "UpdateAddressBookEntry v = affected (exec_update_unique db_address_book_entries
     db_address_book_entries_update entries_unique
     (\<lambda>x. address_book_entries_id x = AddressBookEntry_ID v \<and>
          address_book_entries_address_book_id x = AddressBookEntry_AddressBookID v)
     (\<lambda>x. (entry_row_of (address_book_entries_address_book_id x) v)\<lparr>
            address_book_entries_id := address_book_entries_id x,
            address_book_entries_created_at := address_book_entries_created_at x\<rparr>))"

definition DeleteAddressBookEntry :: "string \<Rightarrow> string \<Rightarrow> (db, unit) prog" where
  "DeleteAddressBookEntry bookID entryID = affected
     (exec_delete db_address_book_entries db_address_book_entries_update
       (\<lambda>_ x. address_book_entries_id x = entryID \<and> address_book_entries_address_book_id x = bookID))"

section \<open>Tags\<close>

definition tag_row_of :: "AddressBookTag \<Rightarrow> address_book_tags_row" where
  "tag_row_of v = \<lparr>address_book_tags_id = AddressBookTag_ID v,
     address_book_tags_address_book_id = AddressBookTag_AddressBookID v,
     address_book_tags_name = AddressBookTag_Name v, address_book_tags_color = AddressBookTag_Color v,
     address_book_tags_created_at = millis (AddressBookTag_CreatedAt v),
     address_book_tags_updated_at = millis (AddressBookTag_UpdatedAt v)\<rparr>"

definition scan_tag :: "address_book_tags_row \<Rightarrow> AddressBookTag" where
  "scan_tag r = \<lparr>AddressBookTag_ID = address_book_tags_id r,
     AddressBookTag_AddressBookID = address_book_tags_address_book_id r,
     AddressBookTag_Name = address_book_tags_name r, AddressBookTag_Color = address_book_tags_color r,
     AddressBookTag_CreatedAt = fromMillis (address_book_tags_created_at r),
     AddressBookTag_UpdatedAt = fromMillis (address_book_tags_updated_at r)\<rparr>"

definition tag_key :: "address_book_tags_row \<Rightarrow> string \<times> string" where
  "tag_key x = (address_book_tags_address_book_id x, address_book_tags_name x)"

definition tags_unique :: "address_book_tags_row list \<Rightarrow> bool" where
  "tags_unique rs \<longleftrightarrow> distinct (map address_book_tags_id rs) \<and> distinct (map tag_key rs)"

definition tag_insert_ok :: "db \<Rightarrow> address_book_tags_row \<Rightarrow> bool" where
  "tag_insert_ok d r \<longleftrightarrow> (\<forall>x\<in>set (db_address_book_tags d).
     address_book_tags_id x \<noteq> address_book_tags_id r \<and> tag_key x \<noteq> tag_key r)"

definition CreateAddressBookTag :: "AddressBookTag \<Rightarrow> (db, unit) prog" where
  "CreateAddressBookTag v = exec_insert db_address_book_tags_update tag_insert_ok (tag_row_of v)"

definition ListAddressBookTags :: "string \<Rightarrow> (db, AddressBookTag list) prog" where
  "ListAddressBookTags bookID = query (\<lambda>d. map scan_tag (sort_key address_book_tags_name
     (filter (\<lambda>x. address_book_tags_address_book_id x = bookID) (db_address_book_tags d))))"

definition UpdateAddressBookTag :: "AddressBookTag \<Rightarrow> string \<Rightarrow> (db, unit) prog" where
  "UpdateAddressBookTag v oldName = affected (exec_update_unique db_address_book_tags
     db_address_book_tags_update tags_unique
     (\<lambda>x. address_book_tags_address_book_id x = AddressBookTag_AddressBookID v \<and> address_book_tags_name x = oldName)
     (\<lambda>x. x\<lparr>address_book_tags_name := AddressBookTag_Name v, address_book_tags_color := AddressBookTag_Color v,
            address_book_tags_updated_at := millis (AddressBookTag_UpdatedAt v)\<rparr>))"

definition DeleteAddressBookTag :: "string \<Rightarrow> string \<Rightarrow> (db, unit) prog" where
  "DeleteAddressBookTag bookID name = affected
     (exec_delete db_address_book_tags db_address_book_tags_update
       (\<lambda>_ x. address_book_tags_address_book_id x = bookID \<and> address_book_tags_name x = name))"

section \<open>API tokens\<close>

definition token_row_of :: "APIToken \<Rightarrow> api_tokens_row" where
  "token_row_of v = \<lparr>api_tokens_id = APIToken_ID v, api_tokens_user_id = APIToken_UserID v,
     api_tokens_name = APIToken_Name v, api_tokens_token_hash = APIToken_TokenHash v,
     api_tokens_prefix = APIToken_Prefix v, api_tokens_scopes = APIToken_Scopes v,
     api_tokens_created_at = millis (APIToken_CreatedAt v),
     api_tokens_expires_at = millis (APIToken_ExpiresAt v),
     api_tokens_last_used_at = None, api_tokens_revoked_at = None\<rparr>"

definition scanAPIToken :: "api_tokens_row \<Rightarrow> APIToken" where
  "scanAPIToken r = \<lparr>APIToken_ID = api_tokens_id r, APIToken_UserID = api_tokens_user_id r,
     APIToken_Name = api_tokens_name r, APIToken_TokenHash = api_tokens_token_hash r,
     APIToken_Prefix = api_tokens_prefix r, APIToken_Scopes = api_tokens_scopes r,
     APIToken_CreatedAt = fromMillis (api_tokens_created_at r),
     APIToken_ExpiresAt = fromMillis (api_tokens_expires_at r),
     APIToken_LastUsedAt = map_option fromMillis (api_tokens_last_used_at r),
     APIToken_RevokedAt = map_option fromMillis (api_tokens_revoked_at r)\<rparr>"

definition token_insert_ok :: "db \<Rightarrow> api_tokens_row \<Rightarrow> bool" where
  "token_insert_ok d r \<longleftrightarrow> (\<forall>x\<in>set (db_api_tokens d). api_tokens_id x \<noteq> api_tokens_id r \<and>
     api_tokens_token_hash x \<noteq> api_tokens_token_hash r)"

definition CreateAPIToken :: "APIToken \<Rightarrow> (db, unit) prog" where
  "CreateAPIToken v = exec_insert db_api_tokens_update token_insert_ok (token_row_of v)"

definition ListAPITokens :: "string \<Rightarrow> (db, APIToken list) prog" where
  "ListAPITokens userID = query (\<lambda>d. map scanAPIToken (order_desc api_tokens_created_at
     (filter (\<lambda>x. api_tokens_user_id x = userID) (db_api_tokens d))))"

definition FindAPITokenByHash :: "string \<Rightarrow> (db, APIToken) prog" where
  "FindAPITokenByHash tokenHash = scan_found scanAPIToken
     (query_row (\<lambda>d. find (\<lambda>x. api_tokens_token_hash x = tokenHash) (db_api_tokens d)))"

definition TouchAPIToken :: "string \<Rightarrow> instant \<Rightarrow> (db, unit) prog" where
  "TouchAPIToken i at' = affected (exec_update db_api_tokens db_api_tokens_update
     (\<lambda>x. api_tokens_id x = i \<and> api_tokens_revoked_at x = None)
     (\<lambda>x. x\<lparr>api_tokens_last_used_at := Some (millis at')\<rparr>))"

definition RevokeAPIToken :: "string \<Rightarrow> string \<Rightarrow> instant \<Rightarrow> (db, unit) prog" where
  "RevokeAPIToken userID i at' = affected (exec_update db_api_tokens db_api_tokens_update
     (\<lambda>x. api_tokens_id x = i \<and> api_tokens_user_id x = userID \<and> api_tokens_revoked_at x = None)
     (\<lambda>x. x\<lparr>api_tokens_revoked_at := Some (millis at')\<rparr>))"

end
