(* ===== verification/Store_Relays.thy ===== *)
theory Store_Relays
  imports Store_Sessions Digest
begin

text \<open>
  Relay servers, their metrics and credentials, the delivery protocol between a relay and
  the server, and connection records, as internal/store/sqlstore keeps them (store.go,
  relay_credentials.go, relay_delivery.go, relay_operations.go, connections.go), with the
  types of internal/relaygateway they are written with.  An instant the code reads with
  time.Now is an argument.
\<close>

section \<open>Types of the relay gateway\<close>

record QuarantineEvent =
  QuarantineEvent_ID :: string
  QuarantineEvent_UUID :: string
  QuarantineEvent_Status :: string
  QuarantineEvent_CreatedAt :: "64 word"
  QuarantineEvent_Reason :: string

record DeliveryStatus =
  DeliveryStatus_Pending :: int
  DeliveryStatus_Quarantined :: int
  DeliveryStatus_Reserved :: int
  DeliveryStatus_Capacity :: int
  DeliveryStatus_Healthy :: bool
  DeliveryStatus_Blocked :: bool
  DeliveryStatus_OldestAt :: "64 word"
  DeliveryStatus_Sample :: "QuarantineEvent list"

record QuarantinePage =
  QuarantinePage_Revision :: string
  QuarantinePage_Total :: int
  QuarantinePage_Offset :: int
  QuarantinePage_Events :: "QuarantineEvent list"

record Message =
  Message_Revision :: string
  Message_Offset :: int
  Message_QuarantinePage :: "QuarantinePage option"
  Message_Delivery :: "DeliveryStatus option"
  Message_Reason :: string
  Message_Durable :: bool
  Message_Type :: string
  Message_Session :: string
  Message_RequestID :: string
  Message_UUID :: string
  Message_Action :: string
  Message_Status :: string
  Message_ExpiresAt :: int
  Message_Connections :: int
  Message_Bandwidth :: "64 word"

record Credential =
  Credential_RelayID :: string
  Credential_Hash :: string
  Credential_EnrollmentHash :: string
  Credential_EnrollmentExpires :: instant
  Credential_Generation :: string
  Credential_UpdatedAt :: instant

record DeliveryCounts =
  DeliveryCounts_Authorizations :: int
  DeliveryCounts_Receipts :: int
  DeliveryCounts_Archived :: int
  DeliveryCounts_Eligible :: int

definition Relay_Hash :: "string \<Rightarrow> string" where
  "Relay_Hash value = Hex_Encode (SHA256 value)"

definition Matches :: "Credential \<Rightarrow> string \<Rightarrow> bool" where
  "Matches c token \<longleftrightarrow> length token = 43 \<and> Credential_Hash c \<noteq> [] \<and> Credential_Hash c = Relay_Hash token"

section \<open>Relay servers\<close>

definition relay_row_of :: "RelayServer \<Rightarrow> relay_servers_row" where
  "relay_row_of v = \<lparr>relay_servers_id = RelayServer_ID v, relay_servers_name = RelayServer_Name v,
     relay_servers_hostname = RelayServer_Hostname v, relay_servers_port = RelayServer_Port v,
     relay_servers_region = RelayServer_Region v, relay_servers_enabled = RelayServer_Enabled v,
     relay_servers_health = RelayServer_Health v,
     relay_servers_latency_ms = RelayServer_LatencyMS v,
     relay_servers_connections = RelayServer_Connections v,
     relay_servers_bandwidth = RelayServer_Bandwidth v,
     relay_servers_created_at = millis (RelayServer_CreatedAt v),
     relay_servers_updated_at = millis (RelayServer_UpdatedAt v)\<rparr>"

definition scan_relay :: "relay_servers_row \<Rightarrow> RelayServer" where
  "scan_relay r = \<lparr>RelayServer_ControlMode = [], RelayServer_ControlConnected = False,
     RelayServer_ID = relay_servers_id r, RelayServer_Name = relay_servers_name r,
     RelayServer_Hostname = relay_servers_hostname r, RelayServer_Port = relay_servers_port r,
     RelayServer_Region = relay_servers_region r, RelayServer_Enabled = relay_servers_enabled r,
     RelayServer_Health = relay_servers_health r,
     RelayServer_LatencyMS = relay_servers_latency_ms r,
     RelayServer_Connections = relay_servers_connections r,
     RelayServer_Bandwidth = relay_servers_bandwidth r,
     RelayServer_CreatedAt = fromMillis (relay_servers_created_at r),
     RelayServer_UpdatedAt = fromMillis (relay_servers_updated_at r), RelayServer_Deleted = False\<rparr>"

definition relay_address :: "relay_servers_row \<Rightarrow> string \<times> int" where
  "relay_address r = (relay_servers_hostname r, relay_servers_port r)"

definition relays_unique :: "relay_servers_row list \<Rightarrow> bool" where
  "relays_unique rs \<longleftrightarrow> distinct (map relay_servers_id rs) \<and> distinct (map relay_address rs)"

definition relay_insert_ok :: "db \<Rightarrow> relay_servers_row \<Rightarrow> bool" where
  "relay_insert_ok d r \<longleftrightarrow> (\<forall>x\<in>set (db_relay_servers d).
     relay_servers_id x \<noteq> relay_servers_id r \<and> relay_address x \<noteq> relay_address r)"

definition CreateRelayServer :: "RelayServer \<Rightarrow> (db, unit) prog" where
  "CreateRelayServer v = exec_insert db_relay_servers_update relay_insert_ok (relay_row_of v)"

definition ListRelayServers :: "(db, RelayServer list) prog" where
  "ListRelayServers = query (\<lambda>d. map scan_relay (sort_key (\<lambda>r. (\<not> relay_servers_enabled r,
     relay_servers_region r, relay_servers_name r)) (db_relay_servers d)))"

definition UpdateRelayServer :: "RelayServer \<Rightarrow> (db, unit) prog" where
  "UpdateRelayServer v = affected (exec_update_unique db_relay_servers db_relay_servers_update
     relays_unique (\<lambda>r. relay_servers_id r = RelayServer_ID v)
     (\<lambda>r. r\<lparr>relay_servers_name := RelayServer_Name v, relay_servers_hostname := RelayServer_Hostname v,
            relay_servers_port := RelayServer_Port v, relay_servers_region := RelayServer_Region v,
            relay_servers_enabled := RelayServer_Enabled v, relay_servers_health := RelayServer_Health v,
            relay_servers_updated_at := millis (RelayServer_UpdatedAt v)\<rparr>))"

definition UpdateRelayHealth :: "string \<Rightarrow> string \<Rightarrow> int \<Rightarrow> instant \<Rightarrow> (db, unit) prog" where
  "UpdateRelayHealth i health latencyMS checkedAt = affected
     (exec_update db_relay_servers db_relay_servers_update (\<lambda>r. relay_servers_id r = i)
       (\<lambda>r. r\<lparr>relay_servers_health := health, relay_servers_latency_ms := latencyMS,
              relay_servers_updated_at := millis checkedAt\<rparr>))"

definition telemetry_update :: "RelayServer \<Rightarrow> (relay_servers_row \<Rightarrow> bool) \<Rightarrow> (db, int) prog" where
  "telemetry_update v p = exec_update db_relay_servers db_relay_servers_update p
     (\<lambda>r. r\<lparr>relay_servers_health := ''healthy'', relay_servers_connections := RelayServer_Connections v,
            relay_servers_bandwidth := RelayServer_Bandwidth v,
            relay_servers_updated_at := millis (RelayServer_UpdatedAt v)\<rparr>)"

definition UpsertRelayTelemetry :: "RelayServer \<Rightarrow> (db, RelayServer) prog" where
  "UpsertRelayTelemetry v =
     (let same_id = (\<lambda>r. relay_servers_id r = RelayServer_ID v);
          same_address = (\<lambda>r. relay_address r = (RelayServer_Hostname v, RelayServer_Port v)) in
      transaction (
        bindE (telemetry_update v same_id) (\<lambda>n.
        bindE (if n = 0 then telemetry_update v same_address else ret n) (\<lambda>changed.
        thenE (whenE (changed = 0) (exec_insert db_relay_servers_update relay_insert_ok
                 ((relay_row_of v)\<lparr>relay_servers_enabled := True, relay_servers_health := ''healthy'',
                    relay_servers_latency_ms := 0,
                    relay_servers_created_at := millis (RelayServer_UpdatedAt v)\<rparr>)))
        (bindE (query_row (\<lambda>d. case find same_id (db_relay_servers d) of
                  Some r \<Rightarrow> Some r | None \<Rightarrow> find same_address (db_relay_servers d))) (\<lambda>r.
         ret (scan_relay r)))))))"

text \<open>The tables that refer to a relay do so ON DELETE CASCADE.\<close>

definition cascade_relay :: "string \<Rightarrow> db \<Rightarrow> db" where
  "cascade_relay i d = (if \<exists>r\<in>set (db_relay_servers d). relay_servers_id r = i
     then d\<lparr>db_relay_credentials := filter (\<lambda>x. relay_credentials_relay_id x \<noteq> i) (db_relay_credentials d),
            db_relay_authorizations := filter (\<lambda>x. relay_authorizations_relay_id x \<noteq> i) (db_relay_authorizations d),
            db_relay_event_receipts := filter (\<lambda>x. relay_event_receipts_relay_id x \<noteq> i) (db_relay_event_receipts d),
            db_relay_delivery_archive := filter (\<lambda>x. relay_delivery_archive_relay_id x \<noteq> i) (db_relay_delivery_archive d)\<rparr>
     else d)"

definition DeleteRelayServer :: "string \<Rightarrow> (db, unit) prog" where
  "DeleteRelayServer i = affected (exec_delete db_relay_servers
     (\<lambda>f d. db_relay_servers_update f (cascade_relay i d)) (\<lambda>_ r. relay_servers_id r = i))"

section \<open>Metrics\<close>

definition metric_row_of :: "RelayMetric \<Rightarrow> relay_metrics_row" where
  "metric_row_of v = \<lparr>relay_metrics_relay_id = RelayMetric_RelayID v,
     relay_metrics_recorded_at = millis (RelayMetric_RecordedAt v),
     relay_metrics_health = RelayMetric_Health v,
     relay_metrics_latency_ms = RelayMetric_LatencyMS v,
     relay_metrics_connections = RelayMetric_Connections v,
     relay_metrics_bandwidth = RelayMetric_Bandwidth v\<rparr>"

definition scan_metric :: "relay_metrics_row \<Rightarrow> RelayMetric" where
  "scan_metric r = \<lparr>RelayMetric_RelayID = relay_metrics_relay_id r,
     RelayMetric_RecordedAt = fromMillis (relay_metrics_recorded_at r),
     RelayMetric_Health = relay_metrics_health r,
     RelayMetric_LatencyMS = relay_metrics_latency_ms r,
     RelayMetric_Connections = relay_metrics_connections r,
     RelayMetric_Bandwidth = relay_metrics_bandwidth r\<rparr>"

definition AppendRelayMetric :: "RelayMetric \<Rightarrow> (db, unit) prog" where
  "AppendRelayMetric v = exec_upsert db_relay_metrics db_relay_metrics_update
     (\<lambda>x y. relay_metrics_relay_id x = relay_metrics_relay_id y \<and>
            relay_metrics_recorded_at x = relay_metrics_recorded_at y) (\<lambda>_ _. True)
     (\<lambda>_. metric_row_of v) (metric_row_of v)"

definition ListRelayMetrics :: "string \<Rightarrow> instant \<Rightarrow> int \<Rightarrow> (db, RelayMetric list) prog" where
  "ListRelayMetrics relayID since limit =
     (let limit = (if limit < 1 \<or> limit > 5000 then 1000 else limit) in
      query (\<lambda>d. map scan_metric (take (nat limit) (order_desc relay_metrics_recorded_at
        (filter (\<lambda>x. relay_metrics_relay_id x = relayID \<and> relay_metrics_recorded_at x \<ge> millis since)
          (db_relay_metrics d))))))"

definition PruneRelayMetrics :: "instant \<Rightarrow> (db, unit) prog" where
  "PruneRelayMetrics before = execute (exec_delete db_relay_metrics db_relay_metrics_update
     (\<lambda>_ x. relay_metrics_recorded_at x < millis before))"

section \<open>Credentials\<close>

definition scan_credential :: "relay_credentials_row \<Rightarrow> Credential" where
  "scan_credential r = \<lparr>Credential_RelayID = relay_credentials_relay_id r,
     Credential_Hash = relay_credentials_token_hash r,
     Credential_EnrollmentHash = relay_credentials_enrollment_hash r,
     Credential_EnrollmentExpires = fromMillis (relay_credentials_enrollment_expires r),
     Credential_Generation = relay_credentials_generation r,
     Credential_UpdatedAt = fromMillis (relay_credentials_updated_at r)\<rparr>"

definition RelayCredential :: "string \<Rightarrow> (db, Credential) prog" where
  "RelayCredential i = scan_found scan_credential
     (query_row (\<lambda>d. find (\<lambda>r. relay_credentials_relay_id r = i) (db_relay_credentials d)))"

definition enrollment_row :: "Credential \<Rightarrow> relay_credentials_row" where
  "enrollment_row c = \<lparr>relay_credentials_relay_id = Credential_RelayID c,
     relay_credentials_token_hash = [], relay_credentials_enrollment_hash = Credential_EnrollmentHash c,
     relay_credentials_enrollment_expires = millis (Credential_EnrollmentExpires c),
     relay_credentials_generation = Credential_Generation c,
     relay_credentials_updated_at = millis (Credential_UpdatedAt c)\<rparr>"

definition PutRelayEnrollment :: "Credential \<Rightarrow> (db, unit) prog" where
  "PutRelayEnrollment c = exec_upsert db_relay_credentials db_relay_credentials_update
     (\<lambda>x y. relay_credentials_relay_id x = relay_credentials_relay_id y)
     (\<lambda>d r. \<exists>s\<in>set (db_relay_servers d). relay_servers_id s = relay_credentials_relay_id r)
     (\<lambda>_. enrollment_row c) (enrollment_row c)"

definition relay_enabled :: "db \<Rightarrow> string \<Rightarrow> bool" where
  "relay_enabled d i \<longleftrightarrow> (\<exists>r\<in>set (db_relay_servers d). relay_servers_id r = i \<and> relay_servers_enabled r)"

text \<open>The statement is conditional on another table, so its condition reads the whole
  database.\<close>

definition exec_update_if ::
  "(db \<Rightarrow> 'r list) \<Rightarrow> (('r list \<Rightarrow> 'r list) \<Rightarrow> db \<Rightarrow> db) \<Rightarrow> (db \<Rightarrow> 'r \<Rightarrow> bool) \<Rightarrow> ('r \<Rightarrow> 'r) \<Rightarrow>
   (db, int) prog" where
  "exec_update_if sel upd p f = stmt (\<lambda>d.
     Inr (int (length (filter (p d) (sel d))), upd (upd_where (p d) f) d))"

definition ConsumeRelayEnrollment :: "string \<Rightarrow> string \<Rightarrow> string \<Rightarrow> instant \<Rightarrow> (db, unit) prog" where
  "ConsumeRelayEnrollment i enrollmentHash tokenHash now = affected
     (exec_update_if db_relay_credentials db_relay_credentials_update
       (\<lambda>d r. relay_credentials_relay_id r = i \<and> relay_credentials_enrollment_hash r = enrollmentHash \<and>
              relay_credentials_enrollment_hash r \<noteq> [] \<and>
              relay_credentials_enrollment_expires r > millis now \<and> relay_enabled d i)
       (\<lambda>r. r\<lparr>relay_credentials_token_hash := tokenHash, relay_credentials_enrollment_hash := [],
              relay_credentials_enrollment_expires := 0, relay_credentials_updated_at := millis now\<rparr>))"

definition RevokeRelayCredential :: "string \<Rightarrow> instant \<Rightarrow> (db, unit) prog" where
  "RevokeRelayCredential i now = affected (exec_update db_relay_credentials db_relay_credentials_update
     (\<lambda>r. relay_credentials_relay_id r = i)
     (\<lambda>r. r\<lparr>relay_credentials_token_hash := [], relay_credentials_enrollment_hash := [],
            relay_credentials_enrollment_expires := 0, relay_credentials_updated_at := millis now\<rparr>))"

section \<open>Connection records\<close>

definition connection_row_of :: "ConnectionRecord \<Rightarrow> connection_records_row" where
  "connection_row_of v = \<lparr>connection_records_connection_key = ConnectionRecord_Key v,
     connection_records_actor_user_id = ConnectionRecord_ActorUserID v,
     connection_records_actor_session_id = ConnectionRecord_ActorSessionID v,
     connection_records_controller_device_id = ConnectionRecord_ControllerDevice v,
     connection_records_controller_name = ConnectionRecord_ControllerName v,
     connection_records_controller_login = ConnectionRecord_ControllerLogin v,
     connection_records_target_rustdesk_id = ConnectionRecord_TargetRustDeskID v,
     connection_records_connection_type = ConnectionRecord_ConnectionType v,
     connection_records_ip = ConnectionRecord_IP v,
     connection_records_transport = ConnectionRecord_Transport v,
     connection_records_relay_uuid = ConnectionRecord_RelayUUID v,
     connection_records_relay_server = ConnectionRecord_RelayServer v,
     connection_records_started_at = millis (ConnectionRecord_StartedAt v),
     connection_records_last_seen_at = millis (ConnectionRecord_LastSeenAt v),
     connection_records_closed_at = nullableTimePtrMillis (ConnectionRecord_ClosedAt v)\<rparr>"

definition scan_connection :: "connection_records_row \<Rightarrow> ConnectionRecord" where
  "scan_connection r = \<lparr>ConnectionRecord_Key = connection_records_connection_key r,
     ConnectionRecord_ActorUserID = connection_records_actor_user_id r,
     ConnectionRecord_ActorSessionID = connection_records_actor_session_id r,
     ConnectionRecord_ControllerDevice = connection_records_controller_device_id r,
     ConnectionRecord_ControllerName = connection_records_controller_name r,
     ConnectionRecord_ControllerLogin = connection_records_controller_login r,
     ConnectionRecord_TargetRustDeskID = connection_records_target_rustdesk_id r,
     ConnectionRecord_ConnectionType = connection_records_connection_type r,
     ConnectionRecord_IP = connection_records_ip r,
     ConnectionRecord_Transport = connection_records_transport r,
     ConnectionRecord_RelayUUID = connection_records_relay_uuid r,
     ConnectionRecord_RelayServer = connection_records_relay_server r,
     ConnectionRecord_StartedAt = fromMillis (connection_records_started_at r),
     ConnectionRecord_LastSeenAt = fromMillis (connection_records_last_seen_at r),
     ConnectionRecord_ClosedAt = map_option fromMillis (connection_records_closed_at r)\<rparr>"

definition ConnectionRecord_find :: "string \<Rightarrow> (db, ConnectionRecord) prog" where
  "ConnectionRecord_find key = scan_found scan_connection
     (query_row (\<lambda>d. find (\<lambda>r. connection_records_connection_key r = key) (db_connection_records d)))"

definition non_empty :: "string \<Rightarrow> string \<Rightarrow> string" where
  "non_empty new old = (if new \<noteq> [] then new else old)"

definition merge_connection :: "connection_records_row \<Rightarrow> connection_records_row \<Rightarrow> connection_records_row" where
  "merge_connection v x = x\<lparr>
     connection_records_actor_user_id := non_empty (connection_records_actor_user_id v) (connection_records_actor_user_id x),
     connection_records_actor_session_id := non_empty (connection_records_actor_session_id v) (connection_records_actor_session_id x),
     connection_records_controller_device_id := non_empty (connection_records_controller_device_id v) (connection_records_controller_device_id x),
     connection_records_controller_name := non_empty (connection_records_controller_name v) (connection_records_controller_name x),
     connection_records_controller_login := non_empty (connection_records_controller_login v) (connection_records_controller_login x),
     connection_records_target_rustdesk_id := connection_records_target_rustdesk_id v,
     connection_records_connection_type := connection_records_connection_type v,
     connection_records_ip := non_empty (connection_records_ip v) (connection_records_ip x),
     connection_records_transport := non_empty (connection_records_transport v) (connection_records_transport x),
     connection_records_relay_uuid := non_empty (connection_records_relay_uuid v) (connection_records_relay_uuid x),
     connection_records_relay_server := non_empty (connection_records_relay_server v) (connection_records_relay_server x),
     connection_records_started_at := (if connection_records_started_at v < connection_records_started_at x
       then connection_records_started_at v else connection_records_started_at x),
     connection_records_last_seen_at := (if connection_records_last_seen_at v > connection_records_last_seen_at x
       then connection_records_last_seen_at v else connection_records_last_seen_at x),
     connection_records_closed_at := (if connection_records_closed_at v \<noteq> None
       then connection_records_closed_at v else connection_records_closed_at x)\<rparr>"

definition UpsertConnection :: "ConnectionRecord \<Rightarrow> (db, unit) prog" where
  "UpsertConnection v = exec_upsert db_connection_records db_connection_records_update
     (\<lambda>x y. connection_records_connection_key x = connection_records_connection_key y) (\<lambda>_ _. True)
     (merge_connection (connection_row_of v)) (connection_row_of v)"

definition ListConnectionRecords :: "instant \<Rightarrow> int \<Rightarrow> (db, ConnectionRecord list) prog" where
  "ListConnectionRecords since limit =
     (let limit = (if limit < 1 \<or> limit > 5000 then 1000 else limit) in
      query (\<lambda>d. map scan_connection (take (nat limit) (order_desc connection_records_last_seen_at
        (filter (\<lambda>x. connection_records_last_seen_at x \<ge> millis since) (db_connection_records d))))))"

definition PruneConnectionRecords :: "instant \<Rightarrow> (db, unit) prog" where
  "PruneConnectionRecords before = execute (exec_delete db_connection_records db_connection_records_update
     (\<lambda>_ x. case connection_records_closed_at x of None \<Rightarrow> False | Some t \<Rightarrow> t < millis before))"

section \<open>Delivery of relay events\<close>

text \<open>INSERT ... ON CONFLICT(key) DO NOTHING: a row whose key exists is skipped, another
  violated constraint is an error.  The count is the number of rows inserted.\<close>

definition exec_insert_new ::
  "(('r list \<Rightarrow> 'r list) \<Rightarrow> db \<Rightarrow> db) \<Rightarrow> (db \<Rightarrow> 'r \<Rightarrow> bool) \<Rightarrow> (db \<Rightarrow> 'r \<Rightarrow> bool) \<Rightarrow> 'r \<Rightarrow> (db, int) prog" where
  "exec_insert_new upd skip ok r = stmt (\<lambda>d.
     if skip d r then Inr (0, d)
     else if ok d r then Inr (1, upd (\<lambda>rs. rs @ [r]) d) else Inl ErrConstraint)"

definition relay_exists :: "db \<Rightarrow> string \<Rightarrow> bool" where
  "relay_exists d i \<longleftrightarrow> (\<exists>r\<in>set (db_relay_servers d). relay_servers_id r = i)"

definition authorization_refused :: "Credential \<Rightarrow> db \<Rightarrow> relay_authorizations_row \<Rightarrow> bool" where
  "authorization_refused c d r \<longleftrightarrow>
     \<not> int (length (filter (\<lambda>x. relay_authorizations_relay_id x = relay_authorizations_relay_id r)
             (db_relay_authorizations d))) < 100000 \<or>
     \<not> (\<exists>x\<in>set (db_relay_credentials d). relay_credentials_relay_id x = relay_authorizations_relay_id r \<and>
          relay_credentials_token_hash x = Credential_Hash c \<and>
          relay_credentials_generation x = Credential_Generation c) \<or>
     (\<exists>x\<in>set (db_relay_delivery_archive d). relay_delivery_archive_uuid x = relay_authorizations_uuid r) \<or>
     (\<exists>x\<in>set (db_relay_authorizations d). relay_authorizations_uuid x = relay_authorizations_uuid r)"

definition AuthorizeRelay :: "string \<Rightarrow> string \<Rightarrow> string \<Rightarrow> instant \<Rightarrow> (db, unit) prog" where
  "AuthorizeRelay i token uuid now =
     bindE (RelayCredential i) (\<lambda>c.
     if \<not> Matches c token then throw ErrUnauthorized
     else bindE (exec_insert_new db_relay_authorizations_update (authorization_refused c)
            (\<lambda>d r. relay_exists d (relay_authorizations_relay_id r))
            \<lparr>relay_authorizations_uuid = uuid, relay_authorizations_relay_id = i,
             relay_authorizations_generation = Credential_Generation c,
             relay_authorizations_state = ''permitted'', relay_authorizations_created_at = millis now\<rparr>) (\<lambda>n.
          if n \<noteq> 1 then throw (Errorf ''relay authorization reused or capacity exhausted'') else ret ()))"

definition valid_relay_event :: "Message \<Rightarrow> bool" where
  "valid_relay_event m \<longleftrightarrow> Message_RequestID m \<noteq> [] \<and> length (Message_RequestID m) \<le> 64 \<and>
     8 \<le> length (Message_UUID m) \<and> length (Message_UUID m) \<le> 128 \<and>
     (Message_Status m = ''active'' \<or> Message_Status m = ''closed'')"

text \<open>The rows a holder of the current credential of an enabled relay may report on.\<close>

definition authorization_owned :: "string \<Rightarrow> string \<Rightarrow> string \<Rightarrow> db \<Rightarrow> relay_authorizations_row \<Rightarrow> bool" where
  "authorization_owned i token uuid d a \<longleftrightarrow>
     relay_authorizations_uuid a = uuid \<and> relay_authorizations_relay_id a = i \<and>
     (\<exists>c\<in>set (db_relay_credentials d). relay_credentials_relay_id c = i \<and>
        relay_credentials_generation c = relay_authorizations_generation a \<and>
        relay_credentials_token_hash c = Relay_Hash token \<and> relay_enabled d i)"

definition current_generation :: "string \<Rightarrow> string \<Rightarrow> db \<Rightarrow> string option" where
  "current_generation i token d = map_option relay_credentials_generation
     (find (\<lambda>c. relay_credentials_relay_id c = i \<and> relay_credentials_token_hash c = Relay_Hash token \<and>
                relay_enabled d i) (db_relay_credentials d))"

definition checkArchivedRelayEvent :: "string \<Rightarrow> string \<Rightarrow> Message \<Rightarrow> (db, unit) prog" where
  "checkArchivedRelayEvent i token m =
     attempt (query_row (current_generation i token)) (\<lambda>r. case r of
        Inl e \<Rightarrow> throw (if e = ErrNoRows then ErrUnauthorized else e)
      | Inr generation \<Rightarrow>
     attempt (query_row (\<lambda>d. find (\<lambda>a. relay_authorizations_uuid a = Message_UUID m)
                (db_relay_authorizations d))) (\<lambda>r. case r of
        Inr a \<Rightarrow> throw (if relay_authorizations_relay_id a = i \<and> relay_authorizations_generation a \<noteq> generation
                       then ErrStaleGeneration else ErrUnauthorized)
      | Inl e \<Rightarrow> if e \<noteq> ErrNoRows then throw e else
     attempt (query_row (\<lambda>d. find (\<lambda>x. relay_delivery_archive_uuid x = Message_UUID m)
                (db_relay_delivery_archive d))) (\<lambda>r. case r of
        Inl e \<Rightarrow> throw (if e = ErrNoRows then ErrUnauthorized else e)
      | Inr x \<Rightarrow>
          if relay_delivery_archive_relay_id x \<noteq> i then throw ErrUnauthorized
          else if relay_delivery_archive_generation x \<noteq> generation then throw ErrStaleGeneration
          else if Message_Status m = ''active'' \<and> relay_delivery_archive_active_event_id x \<noteq> [] \<and>
                  Message_RequestID m = relay_delivery_archive_active_event_id x \<or>
                  Message_Status m = ''closed'' \<and>
                  Message_RequestID m = relay_delivery_archive_closed_event_id x
          then ret () else throw ErrUnauthorized)))"

definition same_receipt :: "relay_event_receipts_row \<Rightarrow> relay_event_receipts_row \<Rightarrow> bool" where
  "same_receipt x r \<longleftrightarrow> relay_event_receipts_relay_id x = relay_event_receipts_relay_id r \<and>
     relay_event_receipts_event_id x = relay_event_receipts_event_id r"

definition receipt_ok :: "db \<Rightarrow> relay_event_receipts_row \<Rightarrow> bool" where
  "receipt_ok d r \<longleftrightarrow> relay_exists d (relay_event_receipts_relay_id r) \<and>
     (\<forall>x\<in>set (db_relay_event_receipts d). (relay_event_receipts_uuid x, relay_event_receipts_state x) \<noteq>
        (relay_event_receipts_uuid r, relay_event_receipts_state r))"

definition event_record :: "Message \<Rightarrow> string \<Rightarrow> instant \<Rightarrow> connection_records_row" where
  "event_record m address now = \<lparr>connection_records_connection_key = ''relay:'' @ Message_UUID m,
     connection_records_actor_user_id = [], connection_records_actor_session_id = [],
     connection_records_controller_device_id = [], connection_records_controller_name = [],
     connection_records_controller_login = [], connection_records_target_rustdesk_id = [],
     connection_records_connection_type = 0, connection_records_ip = [],
     connection_records_transport = ''relay'', connection_records_relay_uuid = Message_UUID m,
     connection_records_relay_server = address, connection_records_started_at = millis now,
     connection_records_last_seen_at = millis now,
     connection_records_closed_at = (if Message_Status m = ''closed'' then Some (millis now) else None)\<rparr>"

definition record_event :: "Message \<Rightarrow> string \<Rightarrow> instant \<Rightarrow> (db, int) prog" where
  "record_event m address now = exec_upsert_where db_connection_records db_connection_records_update
     (\<lambda>x y. connection_records_connection_key x = connection_records_connection_key y)
     (\<lambda>x. connection_records_relay_server x = [] \<or> connection_records_relay_server x = address)
     (\<lambda>x. x\<lparr>connection_records_relay_server := address, connection_records_relay_uuid := Message_UUID m,
            connection_records_transport := ''relay'', connection_records_last_seen_at := millis now,
            connection_records_closed_at := (case connection_records_closed_at x of
              None \<Rightarrow> (if Message_Status m = ''closed'' then Some (millis now) else None)
            | Some t \<Rightarrow> Some t)\<rparr>)
     (event_record m address now)"

definition new_event :: "string \<Rightarrow> Message \<Rightarrow> instant \<Rightarrow> (db, unit) prog" where
  "new_event address m now =
     bindE (record_event m address now) (\<lambda>n.
     if n \<noteq> 1 then throw ErrUnauthorized
     else execute (exec_update db_relay_authorizations db_relay_authorizations_update
            (\<lambda>a. relay_authorizations_uuid a = Message_UUID m)
            (\<lambda>a. a\<lparr>relay_authorizations_state := Message_Status m\<rparr>)))"

text \<open>The transaction of ApplyRelayEvent.  The row lock \<open>SET state=state\<close> changes no column,
  so only its count matters.  The early rollback of an event whose authorization is not
  locked is an error of the model's own, which no statement returns: a transaction that
  fails is rolled back.\<close>

definition not_locked :: error where "not_locked = Errorf ''not locked''"

definition apply_relay_event :: "string \<Rightarrow> string \<Rightarrow> string \<Rightarrow> Message \<Rightarrow> instant \<Rightarrow> instant \<Rightarrow> (db, unit) prog" where
  "apply_relay_event i token address m received now =
     bindE (query (\<lambda>d. int (length (filter (authorization_owned i token (Message_UUID m) d)
              (db_relay_authorizations d))))) (\<lambda>n.
     if n \<noteq> 1 then throw not_locked else
     bindE (query_row (\<lambda>d. find (\<lambda>a. relay_authorizations_uuid a = Message_UUID m)
              (db_relay_authorizations d))) (\<lambda>a.
     let r = \<lparr>relay_event_receipts_relay_id = i, relay_event_receipts_event_id = Message_RequestID m,
              relay_event_receipts_uuid = Message_UUID m,
              relay_event_receipts_generation = relay_authorizations_generation a,
              relay_event_receipts_state = Message_Status m,
              relay_event_receipts_received_at = millis received\<rparr> in
     bindE (exec_insert_new db_relay_event_receipts_update
              (\<lambda>d r. \<exists>x\<in>set (db_relay_event_receipts d). same_receipt x r) receipt_ok r) (\<lambda>n.
     if n = 0 then
       bindE (query_row (\<lambda>d. find (\<lambda>x. same_receipt x r) (db_relay_event_receipts d))) (\<lambda>x.
       if relay_event_receipts_uuid x \<noteq> Message_UUID m \<or>
          relay_event_receipts_generation x \<noteq> relay_authorizations_generation a \<or>
          relay_event_receipts_state x \<noteq> Message_Status m
       then throw ErrUnauthorized else ret ())
     else if relay_authorizations_state a = ''closed'' \<and> Message_Status m \<noteq> ''closed''
     then throw ErrUnauthorized
     else new_event address m now)))"

definition ApplyRelayEvent :: "string \<Rightarrow> string \<Rightarrow> string \<Rightarrow> Message \<Rightarrow> instant \<Rightarrow> instant \<Rightarrow> (db, unit) prog" where
  "ApplyRelayEvent i token address m received now =
     (if \<not> valid_relay_event m then throw ErrUnauthorized
      else attempt (transaction (apply_relay_event i token address m received now)) (\<lambda>r. case r of
             Inl e \<Rightarrow> if e = not_locked then checkArchivedRelayEvent i token m else throw e
           | Inr _ \<Rightarrow> ret ()))"

section \<open>Compaction\<close>

definition closed_before :: "string \<Rightarrow> instant \<Rightarrow> db \<Rightarrow> (int \<times> string) list" where
  "closed_before i cutoff d = concat (map (\<lambda>a. map (\<lambda>e. (relay_event_receipts_received_at e, relay_authorizations_uuid a))
       (filter (\<lambda>e. relay_event_receipts_uuid e = relay_authorizations_uuid a \<and>
                    relay_event_receipts_state e = ''closed'' \<and>
                    relay_event_receipts_received_at e < millis cutoff) (db_relay_event_receipts d)))
     (filter (\<lambda>a. relay_authorizations_relay_id a = i \<and> relay_authorizations_state a = ''closed'')
       (db_relay_authorizations d)))"

definition retention :: duration where "retention = 30 * 24 * Hour"

definition RelayDeliveryCounts :: "string \<Rightarrow> instant \<Rightarrow> (db, DeliveryCounts) prog" where
  "RelayDeliveryCounts i now = query (\<lambda>d.
     \<lparr>DeliveryCounts_Authorizations = int (length (filter (\<lambda>x. relay_authorizations_relay_id x = i) (db_relay_authorizations d))),
      DeliveryCounts_Receipts = int (length (filter (\<lambda>x. relay_event_receipts_relay_id x = i) (db_relay_event_receipts d))),
      DeliveryCounts_Archived = int (length (filter (\<lambda>x. relay_delivery_archive_relay_id x = i) (db_relay_delivery_archive d))),
      DeliveryCounts_Eligible = int (length (closed_before i (now - retention) d))\<rparr>)"

definition receipt_of :: "db \<Rightarrow> string \<Rightarrow> string \<Rightarrow> string option" where
  "receipt_of d uuid state = map_option relay_event_receipts_event_id
     (find (\<lambda>x. relay_event_receipts_uuid x = uuid \<and> relay_event_receipts_state x = state)
       (db_relay_event_receipts d))"

definition archive_row :: "db \<Rightarrow> instant \<Rightarrow> relay_authorizations_row \<Rightarrow> string \<Rightarrow> relay_delivery_archive_row" where
  "archive_row d now a closing = \<lparr>relay_delivery_archive_uuid = relay_authorizations_uuid a,
     relay_delivery_archive_relay_id = relay_authorizations_relay_id a,
     relay_delivery_archive_generation = relay_authorizations_generation a,
     relay_delivery_archive_active_event_id = (case receipt_of d (relay_authorizations_uuid a) ''active'' of
       None \<Rightarrow> [] | Some e \<Rightarrow> e),
     relay_delivery_archive_closed_event_id = closing, relay_delivery_archive_archived_at = millis now\<rparr>"

text \<open>INSERT ... SELECT of the one authorization with the identifier: a missing closing
  receipt would be a NULL in a NOT NULL column.\<close>

definition archive_insert :: "instant \<Rightarrow> string \<Rightarrow> (db, unit) prog" where
  "archive_insert now uuid = stmt (\<lambda>d.
     case find (\<lambda>a. relay_authorizations_uuid a = uuid) (db_relay_authorizations d) of
       None \<Rightarrow> Inr ((), d)
     | Some a \<Rightarrow>
         (case receipt_of d uuid ''closed'' of
            None \<Rightarrow> Inl ErrConstraint
          | Some closing \<Rightarrow>
              if (\<exists>x\<in>set (db_relay_delivery_archive d). relay_delivery_archive_uuid x = uuid) \<or>
                 \<not> relay_exists d (relay_authorizations_relay_id a)
              then Inl ErrConstraint
              else Inr ((), db_relay_delivery_archive_update (\<lambda>rs. rs @ [archive_row d now a closing]) d)))"

definition compact_one :: "string \<Rightarrow> instant \<Rightarrow> string \<Rightarrow> (db, int) prog" where
  "compact_one i now uuid =
     bindE (query (\<lambda>d. length (filter (\<lambda>a. relay_authorizations_uuid a = uuid \<and>
              relay_authorizations_relay_id a = i \<and> relay_authorizations_state a = ''closed'')
              (db_relay_authorizations d)))) (\<lambda>n.
     if n = 0 then ret 0 else
     thenE (archive_insert now uuid)
     (thenE (exec_delete db_relay_event_receipts db_relay_event_receipts_update
               (\<lambda>_ x. relay_event_receipts_uuid x = uuid))
     (thenE (exec_delete db_relay_authorizations db_relay_authorizations_update
               (\<lambda>_ x. relay_authorizations_uuid x = uuid))
            (ret 1))))"

text \<open>\<open>clock\<close> gives the instant read for the archive row of each identifier.\<close>

fun compact_loop :: "string \<Rightarrow> (string \<Rightarrow> instant) \<Rightarrow> string list \<Rightarrow> int \<Rightarrow> (db, int) prog" where
  "compact_loop i clock [] count = ret count"
| "compact_loop i clock (uuid # rest) count =
     bindE (compact_one i (clock uuid) uuid) (\<lambda>n. compact_loop i clock rest (count + n))"

definition CompactRelayDelivery :: "string \<Rightarrow> instant \<Rightarrow> (string \<Rightarrow> instant) \<Rightarrow> (db, int) prog" where
  "CompactRelayDelivery i now clock = transaction (
     bindE (query (\<lambda>d. map snd (take 1000 (sort (closed_before i (now - retention) d))))) (\<lambda>ids.
     compact_loop i clock ids 0))"

end
