(* ===== verification/Relay_Runs.thy ===== *)
theory Relay_Runs
  imports Store_Relays
begin

text \<open>
  What the operations of the relay store do to the delivery tables.  \<open>deliver\<close> is the
  protocol on the three tables: an authorization is permitted, an event is received, a
  closed authorization is archived, and the deletion of a relay removes its rows.  Every
  operation is a sequence of such steps, whatever fails.
\<close>

section \<open>The protocol on the tables\<close>

type_synonym delivery =
  "relay_authorizations_row list \<times> relay_event_receipts_row list \<times> relay_delivery_archive_row list"

definition delivery :: "db \<Rightarrow> delivery" where
  "delivery d = (db_relay_authorizations d, db_relay_event_receipts d, db_relay_delivery_archive d)"

abbreviation "a_uuid \<equiv> relay_authorizations_uuid"
abbreviation "r_uuid \<equiv> relay_event_receipts_uuid"
abbreviation "r_state \<equiv> relay_event_receipts_state"
abbreviation "x_uuid \<equiv> relay_delivery_archive_uuid"

text \<open>The event identifier of a receipt of a connection in a state, or the empty string.\<close>

definition event_of :: "relay_event_receipts_row list \<Rightarrow> string \<Rightarrow> string \<Rightarrow> string" where
  "event_of R uuid state = (case find (\<lambda>x. r_uuid x = uuid \<and> r_state x = state) R of
     None \<Rightarrow> [] | Some x \<Rightarrow> relay_event_receipts_event_id x)"

text \<open>The relays in \<open>dropped\<close> may be deleted, which cascades to their rows in all three tables.\<close>

inductive deliver :: "string set \<Rightarrow> delivery \<Rightarrow> delivery \<Rightarrow> bool" for dropped where
  permit: "a_uuid a \<notin> a_uuid ` set A \<Longrightarrow> a_uuid a \<notin> x_uuid ` set X \<Longrightarrow>
     relay_authorizations_state a = ''permitted'' \<Longrightarrow> deliver dropped (A, R, X) (A @ [a], R, X)"
| event: "find (\<lambda>a. a_uuid a = r_uuid r) A = Some a \<Longrightarrow>
     relay_authorizations_relay_id a = relay_event_receipts_relay_id r \<Longrightarrow>
     relay_authorizations_generation a = relay_event_receipts_generation r \<Longrightarrow>
     \<forall>x\<in>set R. \<not> same_receipt x r \<Longrightarrow> (r_uuid r, r_state r) \<notin> (\<lambda>x. (r_uuid x, r_state x)) ` set R \<Longrightarrow>
     r_state r = ''active'' \<or> r_state r = ''closed'' \<Longrightarrow>
     relay_authorizations_state a = ''closed'' \<longrightarrow> r_state r = ''closed'' \<Longrightarrow>
     deliver dropped (A, R, X) (upd_where (\<lambda>a. a_uuid a = r_uuid r)
       (\<lambda>a. a\<lparr>relay_authorizations_state := r_state r\<rparr>) A, R @ [r], X)"
| archive: "find (\<lambda>a. a_uuid a = a_uuid b) A = Some b \<Longrightarrow> relay_authorizations_state b = ''closed'' \<Longrightarrow>
     (a_uuid b, ''closed'') \<in> (\<lambda>x. (r_uuid x, r_state x)) ` set R \<Longrightarrow>
     a_uuid b \<notin> x_uuid ` set X \<Longrightarrow> x_uuid x = a_uuid b \<Longrightarrow>
     relay_delivery_archive_relay_id x = relay_authorizations_relay_id b \<Longrightarrow>
     relay_delivery_archive_generation x = relay_authorizations_generation b \<Longrightarrow>
     relay_delivery_archive_active_event_id x = event_of R (a_uuid b) ''active'' \<Longrightarrow>
     relay_delivery_archive_closed_event_id x = event_of R (a_uuid b) ''closed'' \<Longrightarrow>
     deliver dropped (A, R, X) (filter (\<lambda>a. a_uuid a \<noteq> a_uuid b) A, filter (\<lambda>r. r_uuid r \<noteq> a_uuid b) R, X @ [x])"
| drop: "i \<in> dropped \<Longrightarrow> deliver dropped (A, R, X) (filter (\<lambda>a. relay_authorizations_relay_id a \<noteq> i) A,
     filter (\<lambda>r. relay_event_receipts_relay_id r \<noteq> i) R, filter (\<lambda>x. relay_delivery_archive_relay_id x \<noteq> i) X)"

definition delivers :: "string set \<Rightarrow> db \<Rightarrow> db \<Rightarrow> bool" where
  "delivers dropped d d' \<longleftrightarrow> (deliver dropped)\<^sup>*\<^sup>* (delivery d) (delivery d')"

lemma delivery_set_faults [simp]: "delivery (set_faults fs d) = delivery d"
  by (simp add: delivery_def set_faults_def)

lemma relay_set_faults [simp]:
  "db_relay_authorizations (set_faults fs d) = db_relay_authorizations d"
  "db_relay_event_receipts (set_faults fs d) = db_relay_event_receipts d"
  "db_relay_delivery_archive (set_faults fs d) = db_relay_delivery_archive d"
  "db_relay_credentials (set_faults fs d) = db_relay_credentials d"
  "db_relay_servers (set_faults fs d) = db_relay_servers d"
  by (simp_all add: set_faults_def)

lemma delivers_same: "delivery d' = delivery d \<Longrightarrow> delivers D d d'"
  by (simp add: delivers_def)

lemma delivers_one: "deliver D (delivery d) (delivery d') \<Longrightarrow> delivers D d d'"
  by (simp add: delivers_def r_into_rtranclp)

interpretation dlv: db_rel "delivers D" for D
  by unfold_locales (auto simp: delivers_def)

section \<open>Each operation follows the protocol\<close>

lemma exec_insert_new_okE:
  assumes "exec_insert_new upd skip ok r d = (Inr n, d')"
  obtains fs where "skip (set_faults fs d) r" "n = 0" "d' = set_faults fs d"
  | fs where "\<not> skip (set_faults fs d) r" "ok (set_faults fs d) r" "n = 1"
      "d' = upd (\<lambda>rs. rs @ [r]) (set_faults fs d)"
  using assms by (auto simp: exec_insert_new_def split: if_splits elim!: stmt_InrE)

lemma steps_same_delivery:
  assumes "\<And>d a d'. f d = Inr (a, d') \<Longrightarrow> delivery d' = delivery d"
  shows "steps (delivers D) (stmt f)"
  using assms by (intro dlv.steps_stmt delivers_same) blast

lemma delivery_updates [simp]:
  "delivery (db_relay_servers_update f d) = delivery d"
  "delivery (db_relay_metrics_update g d) = delivery d"
  "delivery (db_relay_credentials_update h d) = delivery d"
  "delivery (db_connection_records_update k d) = delivery d"
  by (simp_all add: delivery_def)

lemmas same_delivery = dlv.basic_intros steps_same_delivery delivers_same

lemma steps_insert_new:
  assumes "\<And>d. \<not> skip d r \<Longrightarrow> ok d r \<Longrightarrow> delivers D d (upd (\<lambda>rs. rs @ [r]) d)"
  shows "steps (delivers D) (exec_insert_new upd skip ok r)"
  unfolding exec_insert_new_def using assms
  by (intro dlv.steps_stmt) (auto split: if_splits intro: delivers_same)

lemma steps_update_if:
  assumes "\<And>d p. delivery (upd (upd_where p f) d) = delivery d"
  shows "steps (delivers D) (exec_update_if sel upd p f)"
  unfolding exec_update_if_def using assms by (intro dlv.steps_stmt delivers_same) auto

lemma deliver_AuthorizeRelay: "steps (delivers D) (AuthorizeRelay i token uuid now)"
  unfolding AuthorizeRelay_def RelayCredential_def
  by (intro dlv.basic_intros steps_insert_new delivers_one)
    (auto simp: delivery_def authorization_refused_def intro!: deliver.permit)

lemma deliver_relays:
  "steps (delivers D) (CreateRelayServer v)" "steps (delivers D) (UpdateRelayServer v)"
  "steps (delivers D) (UpdateRelayHealth i health latency now)" "steps (delivers D) (UpsertRelayTelemetry v)"
  "steps (delivers D) (AppendRelayMetric metric)" "steps (delivers D) (PruneRelayMetrics before)"
  "steps (delivers D) (PutRelayEnrollment c)" "steps (delivers D) (ConsumeRelayEnrollment i eh th now)"
  "steps (delivers D) (RevokeRelayCredential i now)" "steps (delivers D) (UpsertConnection cr)"
  "steps (delivers D) (PruneConnectionRecords before)"
  unfolding CreateRelayServer_def UpdateRelayServer_def UpdateRelayHealth_def UpsertRelayTelemetry_def
    telemetry_update_def AppendRelayMetric_def PruneRelayMetrics_def PutRelayEnrollment_def
    ConsumeRelayEnrollment_def RevokeRelayCredential_def UpsertConnection_def PruneConnectionRecords_def Let_def
  by (intro dlv.db_intros steps_update_if delivers_same delivery_updates)+

lemma record_event_okE:
  assumes "record_event m address now d = (Inr n, d')"
  obtains "delivery d' = delivery d"
  using assms by (auto simp: record_event_def exec_upsert_where_def split: if_splits elim!: stmt_InrE)

lemma new_event_ok:
  assumes "new_event address m now d = (Inr u, d')"
  shows "delivery d' = (upd_where (\<lambda>a. a_uuid a = Message_UUID m)
    (\<lambda>a. a\<lparr>relay_authorizations_state := Message_Status m\<rparr>) (fst (delivery d)), snd (delivery d))"
  using assms
  by (auto simp: new_event_def result_iffs if_run elim!: record_event_okE exec_update_okE split: if_splits)
    (auto simp: delivery_def set_faults_def)

definition receipt_row :: "string \<Rightarrow> string \<Rightarrow> Message \<Rightarrow> instant \<Rightarrow> relay_event_receipts_row" where
  "receipt_row i generation m received = \<lparr>relay_event_receipts_relay_id = i,
     relay_event_receipts_event_id = Message_RequestID m, relay_event_receipts_uuid = Message_UUID m,
     relay_event_receipts_generation = generation, relay_event_receipts_state = Message_Status m,
     relay_event_receipts_received_at = millis received\<rparr>"

lemma apply_relay_event_okE:
  assumes "apply_relay_event i token address m received now d = (Inr u, d')"
    and uuids: "distinct (map a_uuid (db_relay_authorizations d))"
  obtains (repeated) a x where "find (\<lambda>a. a_uuid a = Message_UUID m) (db_relay_authorizations d) = Some a"
      "relay_authorizations_relay_id a = i"
      "x \<in> set (db_relay_event_receipts d)"
      "same_receipt x (receipt_row i (relay_authorizations_generation a) m received)"
      "r_uuid x = Message_UUID m" "relay_event_receipts_generation x = relay_authorizations_generation a"
      "r_state x = Message_Status m" "delivery d' = delivery d"
  | (new) a where "find (\<lambda>a. a_uuid a = Message_UUID m) (db_relay_authorizations d) = Some a"
      "relay_authorizations_relay_id a = i"
      "\<forall>x\<in>set (db_relay_event_receipts d). \<not> same_receipt x (receipt_row i (relay_authorizations_generation a) m received)"
      "(Message_UUID m, Message_Status m) \<notin> (\<lambda>x. (r_uuid x, r_state x)) ` set (db_relay_event_receipts d)"
      "relay_authorizations_state a = ''closed'' \<longrightarrow> Message_Status m = ''closed''"
      "delivery d' = (upd_where (\<lambda>a. a_uuid a = Message_UUID m)
         (\<lambda>a. a\<lparr>relay_authorizations_state := Message_Status m\<rparr>) (db_relay_authorizations d),
         db_relay_event_receipts d @ [receipt_row i (relay_authorizations_generation a) m received],
         db_relay_delivery_archive d)"
proof -
  define r where "r a = receipt_row i (relay_authorizations_generation a) m received"
    for a :: relay_authorizations_row
  from assms obtain n d1 a d2 k d3 where
      q: "query (\<lambda>d. int (length (filter (authorization_owned i token (Message_UUID m) d)
        (db_relay_authorizations d)))) d = (Inr n, d1)" and n: "n = 1"
    and a: "query_row (\<lambda>d. find (\<lambda>a. a_uuid a = Message_UUID m) (db_relay_authorizations d)) d1 = (Inr a, d2)"
    and k: "exec_insert_new db_relay_event_receipts_update
        (\<lambda>d r. \<exists>x\<in>set (db_relay_event_receipts d). same_receipt x r) receipt_ok (r a) d2 = (Inr k, d3)"
    and rest: "(if k = 0 then
       bindE (query_row (\<lambda>d. find (\<lambda>x. same_receipt x (r a)) (db_relay_event_receipts d))) (\<lambda>x.
       if r_uuid x \<noteq> Message_UUID m \<or> relay_event_receipts_generation x \<noteq> relay_authorizations_generation a \<or>
          r_state x \<noteq> Message_Status m then throw ErrUnauthorized else ret ())
     else if relay_authorizations_state a = ''closed'' \<and> Message_Status m \<noteq> ''closed''
     then throw ErrUnauthorized else new_event address m now) d3 = (Inr u, d')"
    by (auto simp: apply_relay_event_def r_def receipt_row_def Let_def ok_iffs if_run split: if_splits)
  from q obtain fs where d1: "d1 = set_faults fs d" and
      count: "n = int (length (filter (authorization_owned i token (Message_UUID m) d1) (db_relay_authorizations d1)))"
    by (rule query_okE) blast
  from count n obtain b where "b \<in> set (filter (authorization_owned i token (Message_UUID m) d1) (db_relay_authorizations d1))"
    by (cases "filter (authorization_owned i token (Message_UUID m) d1) (db_relay_authorizations d1)") auto
  then have b: "b \<in> set (db_relay_authorizations d)" "a_uuid b = Message_UUID m" "relay_authorizations_relay_id b = i"
    by (auto simp: authorization_owned_def d1)
  from a obtain gs where d2: "d2 = set_faults gs d"
      and find: "find (\<lambda>a. a_uuid a = Message_UUID m) (db_relay_authorizations d) = Some a"
    by (elim query_row_okE) (auto simp: d1)
  have owner: "relay_authorizations_relay_id a = i"
    using find find_distinct_key [OF uuids b(1)] b(2,3) by simp
  from k show thesis
  proof (cases rule: exec_insert_new_okE)
    case (1 hs)
    then have d3: "delivery d3 = delivery d" by (simp add: d2)
    from rest 1 obtain x where x: "find (\<lambda>x. same_receipt x (r a)) (db_relay_event_receipts d) = Some x"
        "r_uuid x = Message_UUID m" "relay_event_receipts_generation x = relay_authorizations_generation a"
        "r_state x = Message_Status m" and "delivery d' = delivery d"
      by (auto simp: ok_iffs if_run d2 split: if_splits elim!: query_row_okE)
    then show thesis using repeated [OF find owner, of x] find_Some_in [OF x(1)] by (simp add: r_def)
  next
    case (2 hs)
    then have ok: "receipt_ok (set_faults hs d2) (r a)" "\<forall>x\<in>set (db_relay_event_receipts d). \<not> same_receipt x (r a)"
      by (auto simp: d2)
    from rest 2 have run: "new_event address m now d3 = (Inr u, d')"
        and mono: "relay_authorizations_state a = ''closed'' \<longrightarrow> Message_Status m = ''closed''"
      by (auto simp: if_run split: if_splits)
    have fresh: "(Message_UUID m, Message_Status m) \<notin> (\<lambda>x. (r_uuid x, r_state x)) ` set (db_relay_event_receipts d)"
      using ok(1) by (auto simp: receipt_ok_def r_def receipt_row_def d2)
    show thesis
      using new [OF find owner _ fresh mono] ok(2) new_event_ok [OF run] 2
      by (simp add: delivery_def d2 r_def)
  qed
qed

abbreviation uuids_distinct :: "db \<Rightarrow> bool" where
  "uuids_distinct d \<equiv> distinct (map a_uuid (db_relay_authorizations d))"

lemma delivery_same_tables: "same_tables d d' \<Longrightarrow> delivery d' = delivery d"
  by (erule same_tablesE) (metis delivery_set_faults)

lemma deliver_apply_event:
  assumes "apply_relay_event i token address m received now d = (Inr u, d')" "uuids_distinct d" "valid_relay_event m"
  shows "delivers D d d'"
  using assms(1,2)
proof (cases rule: apply_relay_event_okE)
  case (repeated a x)
  then show ?thesis by (simp add: delivers_same)
next
  case (new a)
  let ?r = "receipt_row i (relay_authorizations_generation a) m received"
  have "deliver D (db_relay_authorizations d, db_relay_event_receipts d, db_relay_delivery_archive d)
    (upd_where (\<lambda>a. a_uuid a = r_uuid ?r) (\<lambda>a. a\<lparr>relay_authorizations_state := r_state ?r\<rparr>)
       (db_relay_authorizations d), db_relay_event_receipts d @ [?r], db_relay_delivery_archive d)"
    using new assms(3) by (intro deliver.event [where a = a]) (auto simp: receipt_row_def valid_relay_event_def)
  then show ?thesis using new(6) by (intro delivers_one) (simp add: delivery_def receipt_row_def)
qed

lemma deliver_checkArchived: "steps (delivers D) (checkArchivedRelayEvent i token m)"
  unfolding checkArchivedRelayEvent_def by (intro dlv.basic_intros)

lemma deliver_ApplyRelayEvent:
  assumes "ApplyRelayEvent i token address m received now d = (r, d')" "uuids_distinct d"
  shows "delivers D d d'"
proof (cases "valid_relay_event m")
  case True
  obtain t d1 where t: "transaction (apply_relay_event i token address m received now) d = (t, d1)" by fastforce
  show ?thesis
  proof (cases t)
    case (Inl e)
    then have "delivers D d d1" using t by (auto intro: delivers_same delivery_same_tables transaction_error_tables)
    moreover have "delivers D d1 d'"
      using assms(1) True t Inl stepsD [OF deliver_checkArchived]
      by (auto simp: ApplyRelayEvent_def attempt_run throw_def dlv.step_refl split: if_splits)
    ultimately show ?thesis by (rule dlv.step_trans)
  next
    case (Inr u)
    with t obtain fs d2 gs where run: "apply_relay_event i token address m received now (set_faults fs d) = (Inr u, d2)"
      and d1: "d1 = set_faults gs d2" by (auto elim: transaction_InrE)
    have "delivers D (set_faults fs d) d2" using deliver_apply_event [OF run _ True] assms(2) by simp
    then show ?thesis using assms(1) True t Inr d1
      by (auto simp: ApplyRelayEvent_def attempt_run ret_def delivers_def)
  qed
qed (use assms(1) in \<open>auto simp: ApplyRelayEvent_def throw_def dlv.step_refl\<close>)

lemma receipt_of_set_faults [simp]:
  "receipt_of (set_faults fs d) = receipt_of d" "archive_row (set_faults fs d) = archive_row d"
  by (auto simp: receipt_of_def archive_row_def fun_eq_iff)

lemma receipt_of_event_of: "receipt_of d uuid state = Some e \<Longrightarrow> event_of (db_relay_event_receipts d) uuid state = e"
  by (auto simp: receipt_of_def event_of_def)

lemma receipt_of_in: "receipt_of d uuid state = Some e \<Longrightarrow>
    (uuid, state) \<in> (\<lambda>x. (r_uuid x, r_state x)) ` set (db_relay_event_receipts d)"
  by (auto simp: receipt_of_def image_iff dest!: find_Some_in)

lemma compact_one_ok:
  assumes "compact_one i now uuid d = (Inr n, d')" "uuids_distinct d"
  shows "delivery d' = delivery d \<or> deliver D (delivery d) (delivery d')"
proof -
  let ?own = "\<lambda>a. a_uuid a = uuid \<and> relay_authorizations_relay_id a = i \<and> relay_authorizations_state a = ''closed''"
  from assms(1) obtain k d1 where q: "query (\<lambda>d. length (filter ?own (db_relay_authorizations d))) d = (Inr k, d1)"
    and rest: "(if k = 0 then ret 0 else
     thenE (archive_insert now uuid)
     (thenE (exec_delete db_relay_event_receipts db_relay_event_receipts_update (\<lambda>_ x. r_uuid x = uuid))
     (thenE (exec_delete db_relay_authorizations db_relay_authorizations_update (\<lambda>_ x. a_uuid x = uuid))
            (ret 1)))) d1 = (Inr n, d')" by (auto simp: compact_one_def bindE_Inr_iff)
  from q obtain fs where d1: "d1 = set_faults fs d" and k: "k = length (filter ?own (db_relay_authorizations d))"
    by (auto elim: query_okE)
  show ?thesis
  proof (cases "k = 0")
    case True
    then have "d' = set_faults fs d" using rest by (simp add: d1 ret_def)
    then show ?thesis by simp
  next
    case False
    then obtain b where b: "b \<in> set (db_relay_authorizations d)" "?own b"
      using k by (auto simp: filter_empty_conv)
    have find: "find (\<lambda>a. a_uuid a = uuid) (db_relay_authorizations d) = Some b"
      using find_distinct_key [OF assms(2) b(1)] b(2) by simp
    from rest False obtain d2 where ins: "archive_insert now uuid d1 = (Inr (), d2)" and
      d': "delivery d' = (filter (\<lambda>x. a_uuid x \<noteq> uuid) (fst (delivery d2)),
          filter (\<lambda>x. r_uuid x \<noteq> uuid) (fst (snd (delivery d2))), snd (snd (delivery d2)))"
      by (auto simp: ok_iffs ret_def delivery_def elim!: exec_delete_okE)
    from ins obtain gs closing where c: "receipt_of d uuid ''closed'' = Some closing"
        "uuid \<notin> x_uuid ` set (db_relay_delivery_archive d)"
        "d2 = db_relay_delivery_archive_update (\<lambda>rs. rs @ [archive_row d now b closing]) (set_faults gs d)"
      unfolding archive_insert_def
      by (elim stmt_InrE) (auto simp: d1 find receipt_of_set_faults split: option.splits if_splits)
    have "deliver D (delivery d) (delivery d')"
      unfolding d' c(3) using find b(2) c(2) receipt_of_in [OF c(1)] receipt_of_event_of [OF c(1)]
      by (auto simp: delivery_def archive_row_def event_of_def receipt_of_def split: option.splits
          intro!: deliver.archive [where b = b, simplified])
    then show ?thesis ..
  qed
qed

lemma deliver_distinct: "deliver D x y \<Longrightarrow> distinct (map a_uuid (fst x)) \<Longrightarrow> distinct (map a_uuid (fst y))"
  by (induction rule: deliver.induct)
    (auto simp: distinct_map_filter upd_where_map_key)

lemma uuids_distinct_iff: "uuids_distinct d \<longleftrightarrow> distinct (map a_uuid (fst (delivery d)))"
  by (simp add: delivery_def)

lemma delivers_distinct:
  assumes "delivers D d d'" "uuids_distinct d"
  shows "uuids_distinct d'"
  using assms(1) [unfolded delivers_def] assms(2) unfolding uuids_distinct_iff
  by (induction rule: rtranclp_induct) (auto intro: deliver_distinct)

lemma deliver_compact_loop:
  assumes "compact_loop i clock ids count d = (Inr n, d')" "uuids_distinct d"
  shows "delivers D d d'"
  using assms
proof (induction ids arbitrary: count d)
  case (Cons uuid rest)
  from Cons.prems(1) obtain k d1 where one: "compact_one i (clock uuid) uuid d = (Inr k, d1)"
    and loop: "compact_loop i clock rest (count + k) d1 = (Inr n, d')" by (auto simp: bindE_Inr_iff)
  have "delivers D d d1" using compact_one_ok [OF one Cons.prems(2)] by (auto intro: delivers_same delivers_one)
  then show ?case using Cons.IH [OF loop] delivers_distinct Cons.prems(2) dlv.step_trans by blast
qed (simp add: ret_def delivers_same)

lemma deliver_CompactRelayDelivery:
  assumes "CompactRelayDelivery i now clock d = (r, d')" "uuids_distinct d"
  shows "delivers D d d'"
proof (cases r)
  case (Inl e)
  then show ?thesis using assms(1) unfolding CompactRelayDelivery_def
    by (auto intro: delivers_same delivery_same_tables transaction_error_tables)
next
  case (Inr n)
  with assms(1) obtain fs d1 gs ids d2 where "query (\<lambda>d. map snd (take 1000 (sort (closed_before i (now - retention) d))))
      (set_faults fs d) = (Inr ids, d2)" and loop: "compact_loop i clock ids 0 d2 = (Inr n, d1)" and
      d': "d' = set_faults gs d1"
    unfolding CompactRelayDelivery_def by (auto simp: bindE_Inr_iff elim!: transaction_InrE)
  then obtain hs where "d2 = set_faults hs d" by (auto elim: query_okE)
  then show ?thesis using deliver_compact_loop [OF loop] assms(2) by (simp add: delivers_def d')
qed

lemma delivers_cascade: "i \<in> D \<Longrightarrow> delivers D d (db_relay_servers_update f (cascade_relay i d))"
  by (cases "\<exists>r\<in>set (db_relay_servers d). relay_servers_id r = i")
    (simp add: cascade_relay_def delivery_def delivers_one deliver.drop, simp add: cascade_relay_def delivers_same)

lemma deliver_DeleteRelayServer: "i \<in> D \<Longrightarrow> steps (delivers D) (DeleteRelayServer i)"
  unfolding DeleteRelayServer_def affected_def exec_delete_def
  by (intro dlv.basic_intros dlv.steps_stmt) (auto intro: delivers_cascade)

section \<open>Runs of the relay store\<close>

text \<open>One call of the relay store, with any arguments and any failures.  The relays in \<open>dropped\<close> may be deleted.\<close>

inductive relay_step :: "string set \<Rightarrow> db \<Rightarrow> db \<Rightarrow> bool" for dropped where
  "AuthorizeRelay i token uuid now d = (r, d') \<Longrightarrow> relay_step dropped d d'"
| "ApplyRelayEvent i token address m received now d = (r, d') \<Longrightarrow> relay_step dropped d d'"
| "CompactRelayDelivery i now clock d = (n, d') \<Longrightarrow> relay_step dropped d d'"
| "CreateRelayServer v d = (r, d') \<Longrightarrow> relay_step dropped d d'"
| "UpdateRelayServer v d = (r, d') \<Longrightarrow> relay_step dropped d d'"
| "UpdateRelayHealth i health latency now d = (r, d') \<Longrightarrow> relay_step dropped d d'"
| "UpsertRelayTelemetry v d = (t, d') \<Longrightarrow> relay_step dropped d d'"
| "i \<in> dropped \<Longrightarrow> DeleteRelayServer i d = (r, d') \<Longrightarrow> relay_step dropped d d'"
| "AppendRelayMetric metric d = (r, d') \<Longrightarrow> relay_step dropped d d'"
| "PruneRelayMetrics before d = (r, d') \<Longrightarrow> relay_step dropped d d'"
| "PutRelayEnrollment c d = (r, d') \<Longrightarrow> relay_step dropped d d'"
| "ConsumeRelayEnrollment i eh th now d = (r, d') \<Longrightarrow> relay_step dropped d d'"
| "RevokeRelayCredential i now d = (r, d') \<Longrightarrow> relay_step dropped d d'"
| "UpsertConnection cr d = (r, d') \<Longrightarrow> relay_step dropped d d'"
| "PruneConnectionRecords before d = (r, d') \<Longrightarrow> relay_step dropped d d'"
| "delivery d' = delivery d \<Longrightarrow> relay_step dropped d d'"

lemma relay_step_delivers: "relay_step D d d' \<Longrightarrow> uuids_distinct d \<Longrightarrow> delivers D d d'"
  by (induction rule: relay_step.induct)
    (auto intro: deliver_ApplyRelayEvent deliver_CompactRelayDelivery delivers_same
      stepsD [OF deliver_AuthorizeRelay] stepsD [OF deliver_DeleteRelayServer] deliver_relays [THEN stepsD])

lemma relay_steps_delivers:
  assumes "(relay_step D)\<^sup>*\<^sup>* d d'" "uuids_distinct d"
  shows "delivers D d d' \<and> uuids_distinct d'"
  using assms
  by (induction rule: rtranclp_induct)
    (use dlv.step_refl dlv.step_trans relay_step_delivers delivers_distinct in blast)+

section \<open>What the protocol keeps\<close>

text \<open>Keys are unique, an archived connection has left the live tables, every receipt belongs
  to its authorization, and the state of an authorization is the last one received.\<close>

definition has_receipt :: "relay_event_receipts_row list \<Rightarrow> string \<Rightarrow> string \<Rightarrow> bool" where
  "has_receipt R uuid state \<longleftrightarrow> (\<exists>x\<in>set R. r_uuid x = uuid \<and> r_state x = state)"

definition state_of :: "relay_event_receipts_row list \<Rightarrow> string \<Rightarrow> string" where
  "state_of R uuid = (if has_receipt R uuid ''closed'' then ''closed''
     else if has_receipt R uuid ''active'' then ''active'' else ''permitted'')"

lemma has_receipt_append [simp]:
  "has_receipt (R @ [r]) uuid state \<longleftrightarrow> has_receipt R uuid state \<or> r_uuid r = uuid \<and> r_state r = state"
  by (auto simp: has_receipt_def)

lemma has_receipt_filter [simp]:
  "has_receipt (filter (\<lambda>r. r_uuid r \<noteq> u) R) uuid state \<longleftrightarrow> uuid \<noteq> u \<and> has_receipt R uuid state"
  by (auto simp: has_receipt_def)

definition receipts_owned :: "relay_authorizations_row list \<Rightarrow> relay_event_receipts_row list \<Rightarrow> bool" where
  "receipts_owned A R \<longleftrightarrow> (\<forall>r\<in>set R. \<exists>a\<in>set A. a_uuid a = r_uuid r \<and>
     relay_authorizations_relay_id a = relay_event_receipts_relay_id r \<and>
     relay_authorizations_generation a = relay_event_receipts_generation r)"

definition delivery_wf :: "delivery \<Rightarrow> bool" where
  "delivery_wf = (\<lambda>(A, R, X). distinct (map a_uuid A) \<and> distinct (map x_uuid X) \<and>
     a_uuid ` set A \<inter> x_uuid ` set X = {} \<and>
     distinct (map (\<lambda>x. (r_uuid x, r_state x)) R) \<and>
     distinct (map (\<lambda>x. (relay_event_receipts_relay_id x, relay_event_receipts_event_id x)) R) \<and>
     receipts_owned A R \<and> (\<forall>a\<in>set A. relay_authorizations_state a = state_of R (a_uuid a)))"

lemma receipts_owned_upd:
  "receipts_owned A R \<Longrightarrow> receipts_owned (upd_where p (\<lambda>a. a\<lparr>relay_authorizations_state := s\<rparr>) A) R"
  unfolding receipts_owned_def
proof (rule ballI)
  fix r assume "\<forall>r\<in>set R. \<exists>a\<in>set A. a_uuid a = r_uuid r \<and>
      relay_authorizations_relay_id a = relay_event_receipts_relay_id r \<and>
      relay_authorizations_generation a = relay_event_receipts_generation r" "r \<in> set R"
  then obtain a where a: "a \<in> set A" "a_uuid a = r_uuid r"
      "relay_authorizations_relay_id a = relay_event_receipts_relay_id r"
      "relay_authorizations_generation a = relay_event_receipts_generation r" by blast
  show "\<exists>b\<in>set (upd_where p (\<lambda>a. a\<lparr>relay_authorizations_state := s\<rparr>) A). a_uuid b = r_uuid r \<and>
      relay_authorizations_relay_id b = relay_event_receipts_relay_id r \<and>
      relay_authorizations_generation b = relay_event_receipts_generation r"
    by (rule bexI [of _ "if p a then a\<lparr>relay_authorizations_state := s\<rparr> else a"])
      (use a in \<open>auto simp: upd_where_def\<close>)
qed

lemma receipts_owned_snoc:
  "receipts_owned A R \<Longrightarrow> find (\<lambda>a. a_uuid a = r_uuid r) A = Some a \<Longrightarrow>
   relay_authorizations_relay_id a = relay_event_receipts_relay_id r \<Longrightarrow>
   relay_authorizations_generation a = relay_event_receipts_generation r \<Longrightarrow> receipts_owned A (R @ [r])"
  by (auto simp: receipts_owned_def dest: find_Some_in)

lemma state_of_other: "r_uuid r \<noteq> uuid \<Longrightarrow> state_of (R @ [r]) uuid = state_of R uuid"
  by (simp add: state_of_def)

lemma state_of_new:
  assumes "r_state r = ''active'' \<or> r_state r = ''closed''" "state_of R (r_uuid r) = ''closed'' \<Longrightarrow> r_state r = ''closed''"
  shows "state_of (R @ [r]) (r_uuid r) = r_state r"
proof (cases "r_state r = ''closed''")
  case False
  then have "\<not> has_receipt R (r_uuid r) ''closed''" using assms(2) by (auto simp: state_of_def)
  then show ?thesis using assms(1) False by (simp add: state_of_def)
qed (simp add: state_of_def)

lemma state_of_unknown:
  assumes "receipts_owned A R" "uuid \<notin> a_uuid ` set A"
  shows "state_of R uuid = ''permitted''"
proof -
  have "\<not> has_receipt R uuid s" for s using assms unfolding has_receipt_def receipts_owned_def by (metis imageI)
  then show ?thesis by (simp add: state_of_def)
qed

lemma state_of_filter: "uuid \<noteq> u \<Longrightarrow> state_of (filter (\<lambda>r. r_uuid r \<noteq> u) R) uuid = state_of R uuid"
  by (simp add: state_of_def)

text \<open>The rows of a deleted relay go together: the receipts of a connection belong to its relay.\<close>

lemma state_of_drop:
  assumes "receipts_owned A R" "distinct (map a_uuid A)" "a \<in> set A" "relay_authorizations_relay_id a \<noteq> i"
  shows "state_of (filter (\<lambda>r. relay_event_receipts_relay_id r \<noteq> i) R) (a_uuid a) = state_of R (a_uuid a)"
proof -
  have "relay_event_receipts_relay_id r \<noteq> i" if "r \<in> set R" "r_uuid r = a_uuid a" for r
    using assms that distinct_keyD [OF assms(2)] unfolding receipts_owned_def by metis
  then have "has_receipt (filter (\<lambda>r. relay_event_receipts_relay_id r \<noteq> i) R) (a_uuid a) s = has_receipt R (a_uuid a) s" for s
    by (auto simp: has_receipt_def)
  then show ?thesis by (simp add: state_of_def)
qed

lemma receipts_owned_drop:
  "receipts_owned A R \<Longrightarrow> receipts_owned (filter (\<lambda>a. relay_authorizations_relay_id a \<noteq> i) A)
     (filter (\<lambda>r. relay_event_receipts_relay_id r \<noteq> i) R)"
  by (force simp: receipts_owned_def)

lemma deliver_wf: "deliver D x y \<Longrightarrow> delivery_wf x \<Longrightarrow> delivery_wf y"
proof (induction rule: deliver.induct)
  case (permit a A X R)
  then have "state_of R (a_uuid a) = ''permitted''" by (auto simp: delivery_wf_def intro: state_of_unknown)
  then show ?case using permit by (auto simp: delivery_wf_def receipts_owned_def)
next
  case (event r A a R X)
  let ?A = "upd_where (\<lambda>a. a_uuid a = r_uuid r) (\<lambda>a. a\<lparr>relay_authorizations_state := r_state r\<rparr>) A"
  have keys: "map a_uuid ?A = map a_uuid A" by (rule upd_where_map_key) simp
  then have ids: "a_uuid ` set ?A = a_uuid ` set A" by (metis set_map)
  have a: "a \<in> set A" "a_uuid a = r_uuid r" using find_Some_in [OF event(1)] by auto
  have "state_of (R @ [r]) (r_uuid r) = r_state r"
    using event(6,7,8) a by (intro state_of_new) (auto simp: delivery_wf_def)
  then have "\<forall>b\<in>set ?A. relay_authorizations_state b = state_of (R @ [r]) (a_uuid b)"
    using event(8) by (auto simp: delivery_wf_def upd_where_def state_of_other)
  moreover have "receipts_owned ?A (R @ [r])"
    using event by (intro receipts_owned_upd receipts_owned_snoc) (auto simp: delivery_wf_def)
  moreover have "(relay_event_receipts_relay_id r, relay_event_receipts_event_id r) \<notin>
      (\<lambda>x. (relay_event_receipts_relay_id x, relay_event_receipts_event_id x)) ` set R"
    using event(4) by (auto simp: same_receipt_def)
  ultimately show ?case using event(5,8) keys ids by (auto simp: delivery_wf_def)
next
  case (archive b A R X x)
  have "receipts_owned (filter (\<lambda>a. a_uuid a \<noteq> a_uuid b) A) (filter (\<lambda>r. r_uuid r \<noteq> a_uuid b) R)"
    using archive(10) by (fastforce simp: delivery_wf_def receipts_owned_def)
  then show ?case using archive by (auto simp: delivery_wf_def distinct_map_filter state_of_filter)
next
  case (drop i A R X)
  then have owned: "receipts_owned A R" "distinct (map a_uuid A)" by (simp_all add: delivery_wf_def)
  then show ?case using drop(2) receipts_owned_drop state_of_drop by (auto simp: delivery_wf_def distinct_map_filter)
qed

lemma delivers_wf: "delivers D d d' \<Longrightarrow> delivery_wf (delivery d) \<Longrightarrow> delivery_wf (delivery d')"
  unfolding delivers_def by (induction rule: rtranclp_induct) (auto intro: deliver_wf)

lemma wf_uuids_distinct: "delivery_wf (delivery d) \<Longrightarrow> uuids_distinct d"
  by (auto simp: delivery_wf_def delivery_def)

end
