(* ===== verification/Relay_Props.thy ===== *)
theory Relay_Props
  imports Relay_Runs
begin

text \<open>
  The delivery protocol between a relay and the server: the store implements a life cycle
  of each relayed connection that only moves forward until its relay is deleted and that the
  compaction of old rows does not touch, and an event that was accepted once is accepted
  again without any effect while the relay keeps its credential.
\<close>

section \<open>The life cycle of a relayed connection\<close>

datatype life = Life_Permitted | Life_Active | Life_Closed

definition life_of :: "string \<Rightarrow> life" where
  "life_of s = (if s = ''closed'' then Life_Closed else if s = ''active'' then Life_Active else Life_Permitted)"

text \<open>The owner, the credential generation and the phase of a connection: an archived one
  is closed.\<close>

definition lives :: "delivery \<Rightarrow> string \<Rightarrow> (string \<times> string \<times> life) option" where
  "lives = (\<lambda>(A, R, X) uuid. case find (\<lambda>a. a_uuid a = uuid) A of
       Some a \<Rightarrow> Some (relay_authorizations_relay_id a, relay_authorizations_generation a,
                      life_of (relay_authorizations_state a))
     | None \<Rightarrow> map_option (\<lambda>x. (relay_delivery_archive_relay_id x, relay_delivery_archive_generation x, Life_Closed))
                 (find (\<lambda>x. x_uuid x = uuid) X))"

text \<open>The life cycle.  Only the deletion of its relay, one of \<open>dropped\<close>, makes the store forget a connection.\<close>

inductive advance :: "string set \<Rightarrow> (string \<times> string \<times> life) option \<Rightarrow> (string \<times> string \<times> life) option \<Rightarrow> bool" for dropped where
  stay: "advance dropped x x"
| permit: "advance dropped None (Some (i, g, Life_Permitted))"
| activate: "advance dropped (Some (i, g, Life_Permitted)) (Some (i, g, Life_Active))"
| close: "advance dropped (Some (i, g, p)) (Some (i, g, Life_Closed))"
| forget: "i \<in> dropped \<Longrightarrow> advance dropped (Some (i, g, p)) None"

lemma find_filter_key:
  "distinct (map key xs) \<Longrightarrow> find (\<lambda>x. key x = k) (filter q xs) =
     (case find (\<lambda>x. key x = k) xs of Some x \<Rightarrow> if q x then Some x else None | None \<Rightarrow> None)"
proof (induction xs)
  case (Cons x xs)
  have "find (\<lambda>y. key y = key x) zs = None" if "set zs \<subseteq> set xs" for zs
    unfolding find_None_iff using Cons.prems that rev_image_eqI [of _ "set xs" "key x" key] by fastforce
  from this [of xs] this [of "filter q xs"] show ?case using Cons by auto
qed simp

lemma lives_drop:
  assumes "delivery_wf (A, R, X)"
  shows "lives (filter (\<lambda>a. relay_authorizations_relay_id a \<noteq> i) A, R', filter (\<lambda>x. relay_delivery_archive_relay_id x \<noteq> i) X) u =
    (case lives (A, R, X) u of Some (j, g, p) \<Rightarrow> if j = i then None else Some (j, g, p) | None \<Rightarrow> None)"
proof -
  have keys: "distinct (map a_uuid A)" "distinct (map x_uuid X)" "a_uuid ` set A \<inter> x_uuid ` set X = {}"
    using assms by (simp_all add: delivery_wf_def)
  have "find (\<lambda>x. x_uuid x = u) X = None" if "find (\<lambda>a. a_uuid a = u) A = Some a" for a
    using keys(3) find_Some_in [OF that] by (force simp: find_None_iff)
  then show ?thesis by (auto simp: lives_def find_filter_key [OF keys(1)] find_filter_key [OF keys(2)] split: option.splits)
qed

lemma deliver_advance:
  assumes "deliver D x y" "delivery_wf x"
  shows "advance D (lives x u) (lives y u)"
  using assms
proof (induction rule: deliver.induct)
  case (permit a A X R)
  have "find (\<lambda>x. x_uuid x = a_uuid a) X = None" "find (\<lambda>b. a_uuid b = a_uuid a) A = None"
    using permit by (auto simp: find_None_iff image_iff)
  then show ?case
    using permit(3) by (auto simp: lives_def find_append life_of_def advance.stay advance.permit split: option.split)
next
  case (event r A a R X)
  show ?case
  proof (cases "u = r_uuid r")
    case True
    have "life_of (r_state r) = Life_Closed \<or> life_of (relay_authorizations_state a) \<noteq> Life_Closed \<and>
        life_of (r_state r) = Life_Active"
      using event(6,7) by (auto simp: life_of_def)
    then show ?thesis using event(1) True
      by (cases "life_of (relay_authorizations_state a)")
        (auto simp: lives_def find_upd_where intro: advance.intros)
  next
    case False
    then have "lives (upd_where (\<lambda>a. a_uuid a = r_uuid r) (\<lambda>a. a\<lparr>relay_authorizations_state := r_state r\<rparr>) A,
        R @ [r], X) u = lives (A, R, X) u"
      by (auto simp: lives_def find_upd_where split: option.split dest: find_Some_in)
    then show ?thesis by (simp add: advance.stay)
  qed
next
  case (archive b A R X x)
  have "find (\<lambda>y. x_uuid y = a_uuid b) X = None" using archive(4) by (auto simp: find_None_iff image_iff)
  then have "lives (filter (\<lambda>a. a_uuid a \<noteq> a_uuid b) A, filter (\<lambda>r. r_uuid r \<noteq> a_uuid b) R, X @ [x]) u = lives (A, R, X) u"
    using archive by (auto simp: lives_def find_filter_same find_append life_of_def split: option.split)
  then show ?case by (simp add: advance.stay)
next
  case (drop i A R X)
  then show ?case by (cases "lives (A, R, X) u") (auto simp: lives_drop intro: advance.stay advance.forget)
qed

lemma delivers_advance:
  assumes "delivers D d d'" "delivery_wf (delivery d)"
  shows "delivery_wf (delivery d') \<and> (advance D)\<^sup>*\<^sup>* (lives (delivery d) u) (lives (delivery d') u)"
  using assms unfolding delivers_def
  by (induction rule: rtranclp_induct) (auto intro: deliver_wf deliver_advance rtranclp.rtrancl_into_rtrancl)

lemma relay_run_advance:
  assumes "(relay_step D)\<^sup>*\<^sup>* d d'" "delivery_wf (delivery d)"
  shows "delivery_wf (delivery d')" "(advance D)\<^sup>*\<^sup>* (lives (delivery d) u) (lives (delivery d') u)"
  using relay_steps_delivers [OF assms(1) wf_uuids_distinct [OF assms(2)]] delivers_advance assms(2) by blast+

lemma advance_closed: "(advance D)\<^sup>*\<^sup>* (Some (i, g, Life_Closed)) y \<Longrightarrow> i \<notin> D \<Longrightarrow> y = Some (i, g, Life_Closed)"
  by (induction rule: rtranclp_induct) (auto elim: advance.cases)

section \<open>Accepted events\<close>

text \<open>What the tables hold of an event that was accepted.\<close>

definition archived_event :: "Message \<Rightarrow> relay_delivery_archive_row \<Rightarrow> bool" where
  "archived_event m x \<longleftrightarrow>
     Message_Status m = ''active'' \<and> relay_delivery_archive_active_event_id x = Message_RequestID m \<or>
     Message_Status m = ''closed'' \<and> relay_delivery_archive_closed_event_id x = Message_RequestID m"

definition received_event :: "string \<Rightarrow> Message \<Rightarrow> relay_event_receipts_row \<Rightarrow> bool" where
  "received_event i m x \<longleftrightarrow> relay_event_receipts_relay_id x = i \<and>
     relay_event_receipts_event_id x = Message_RequestID m \<and> r_uuid x = Message_UUID m \<and> r_state x = Message_Status m"

definition acknowledged :: "string \<Rightarrow> Message \<Rightarrow> delivery \<Rightarrow> bool" where
  "acknowledged i m = (\<lambda>(A, R, X). (\<exists>x\<in>set R. received_event i m x) \<or>
     (\<exists>x\<in>set X. x_uuid x = Message_UUID m \<and> relay_delivery_archive_relay_id x = i \<and> archived_event m x))"

lemma event_of_received:
  assumes "distinct (map (\<lambda>x. (r_uuid x, r_state x)) R)" "x \<in> set R"
  shows "event_of R (r_uuid x) (r_state x) = relay_event_receipts_event_id x"
  using find_distinct_key [OF assms] by (simp add: event_of_def)

lemma deliver_acknowledged:
  assumes "deliver D x y" "delivery_wf x" "acknowledged i m x" "valid_relay_event m" "i \<notin> D"
  shows "acknowledged i m y"
  using assms
proof (induction rule: deliver.induct)
  case (archive b A R X x)
  show ?case
  proof (cases "\<exists>r\<in>set R. received_event i m r \<and> r_uuid r = a_uuid b")
    case True
    then obtain r where r: "r \<in> set R" "received_event i m r" "r_uuid r = a_uuid b" by blast
    have "\<exists>a\<in>set A. a_uuid a = r_uuid r \<and> relay_authorizations_relay_id a = relay_event_receipts_relay_id r"
      using archive(10) r(1) by (auto simp: delivery_wf_def receipts_owned_def)
    moreover have "a = b" if "a \<in> set A" "a_uuid a = a_uuid b" for a
      using that archive(1,10) find_distinct_key [of a_uuid A a] by (simp add: delivery_wf_def)
    ultimately have "relay_authorizations_relay_id b = i" using r by (metis received_event_def)
    moreover have "event_of R (a_uuid b) (Message_Status m) = Message_RequestID m"
      using event_of_received [of R r] archive(10) r by (simp add: delivery_wf_def received_event_def)
    ultimately have "relay_delivery_archive_relay_id x = i \<and> archived_event m x \<and> x_uuid x = Message_UUID m"
      using archive(5-9,12) r by (auto simp: archived_event_def valid_relay_event_def received_event_def)
    then show ?thesis by (simp add: acknowledged_def)
  next
    case False
    then show ?thesis using archive(11) by (auto simp: acknowledged_def)
  qed
qed (force simp: acknowledged_def received_event_def)+

lemma delivers_acknowledged:
  assumes "delivers D d d'" "delivery_wf (delivery d)" "acknowledged i m (delivery d)" "valid_relay_event m" "i \<notin> D"
  shows "acknowledged i m (delivery d')"
proof -
  from assms(1-3) have "delivery_wf (delivery d') \<and> acknowledged i m (delivery d')" unfolding delivers_def
    by (induction rule: rtranclp_induct) (auto intro: deliver_wf deliver_acknowledged [OF _ _ _ assms(4,5)])
  then show ?thesis ..
qed

lemma query_row_errE:
  assumes "query_row f d = (Inl e, d')"
  obtains fs where "d' = set_faults fs d"
  using assms by (auto simp: query_row_def stmt_def Let_def split: if_splits option.splits)

lemma checkArchived_ok:
  assumes "checkArchivedRelayEvent i token m d = (Inr u, d')"
  obtains x where "x \<in> set (db_relay_delivery_archive d)" "x_uuid x = Message_UUID m"
    "relay_delivery_archive_relay_id x = i" "archived_event m x" "delivery d' = delivery d"
  using assms unfolding checkArchivedRelayEvent_def
  by (auto simp: attempt_case_iff if_run throw_def ret_def archived_event_def elim!: query_row_okE query_row_errE
      dest!: find_Some_in split: if_splits)

lemma ApplyRelayEvent_acknowledged:
  assumes "ApplyRelayEvent i token address m received now d = (Inr u, d')" "delivery_wf (delivery d)"
  shows "acknowledged i m (delivery d')" "valid_relay_event m"
proof -
  show valid: "valid_relay_event m" using assms(1) by (auto simp: ApplyRelayEvent_def throw_def split: if_splits)
  from assms(1) valid obtain t d1 where t: "transaction (apply_relay_event i token address m received now) d = (t, d1)"
    and rest: "(case t of Inl e \<Rightarrow> if e = not_locked then checkArchivedRelayEvent i token m else throw e
           | Inr v \<Rightarrow> ret v) d1 = (Inr u, d')"
    by (cases "transaction (apply_relay_event i token address m received now) d")
      (auto simp: ApplyRelayEvent_def attempt_run)
  show "acknowledged i m (delivery d')"
  proof (cases t)
    case (Inl e)
    then have check: "checkArchivedRelayEvent i token m d1 = (Inr u, d')"
      using rest by (auto simp: if_run throw_def split: if_splits)
    have "delivery d1 = delivery d" using t Inl transaction_error_tables delivery_same_tables by blast
    with checkArchived_ok [OF check] show ?thesis
      by (auto simp: acknowledged_def delivery_def)
  next
    case (Inr v)
    with t obtain fs d2 gs where run: "apply_relay_event i token address m received now (set_faults fs d) = (Inr v, d2)"
      and d1: "d1 = set_faults gs d2" by (auto elim: transaction_InrE)
    have dist: "uuids_distinct (set_faults fs d)" using wf_uuids_distinct [OF assms(2)] by simp
    have "acknowledged i m (delivery d2)"
      using run dist
    proof (cases rule: apply_relay_event_okE)
      case (repeated a x)
      then show ?thesis
        by (auto simp: acknowledged_def received_event_def same_receipt_def receipt_row_def delivery_def)
    next
      case (new a)
      then show ?thesis by (auto simp: acknowledged_def received_event_def receipt_row_def)
    qed
    moreover have "d' = set_faults gs d2" using rest Inr d1 by (simp add: ret_def)
    ultimately show ?thesis by simp
  qed
qed

lemma owned_once:
  assumes "delivery_wf (delivery d)" "find (\<lambda>a. a_uuid a = uuid) (db_relay_authorizations d) = Some a"
    "authorization_owned i token uuid d a"
  shows "filter (authorization_owned i token uuid d) (db_relay_authorizations d) = [a]"
proof -
  let ?A = "db_relay_authorizations d"
  have a: "a \<in> set ?A" "a_uuid a = uuid" using find_Some_in [OF assms(2)] by auto
  have dist: "distinct (map a_uuid ?A)" using wf_uuids_distinct [OF assms(1)] .
  have "filter (authorization_owned i token uuid d) ?A = filter (\<lambda>b. a_uuid b = a_uuid a) ?A"
  proof (rule filter_cong [OF refl])
    fix b assume "b \<in> set ?A"
    then have "a_uuid b = a_uuid a \<Longrightarrow> b = a" using distinct_keyD [OF dist] a(1) by blast
    moreover have "authorization_owned i token uuid d b \<Longrightarrow> a_uuid b = a_uuid a"
      unfolding authorization_owned_def a(2) by blast
    ultimately show "authorization_owned i token uuid d b = (a_uuid b = a_uuid a)" using assms(3) by blast
  qed
  also have "\<dots> = [a]" by (rule filter_distinct_key [OF dist a(1)])
  finally show ?thesis .
qed

lemma repeat_live:
  assumes wf: "delivery_wf (delivery d)" and nf: "db_faults d = []"
    and find: "find (\<lambda>a. a_uuid a = Message_UUID m) (db_relay_authorizations d) = Some a"
    and own: "authorization_owned i token (Message_UUID m) d a"
    and x: "x \<in> set (db_relay_event_receipts d)" "received_event i m x"
  shows "apply_relay_event i token address m received now d = (Inr (), d)"
proof -
  let ?r = "receipt_row i (relay_authorizations_generation a) m received"
  have keys: "distinct (map (\<lambda>x. (relay_event_receipts_relay_id x, relay_event_receipts_event_id x)) (db_relay_event_receipts d))"
    and owned: "receipts_owned (db_relay_authorizations d) (db_relay_event_receipts d)"
    and dist: "distinct (map a_uuid (db_relay_authorizations d))"
    using wf by (auto simp: delivery_wf_def delivery_def)
  have gen: "relay_event_receipts_generation x = relay_authorizations_generation a"
    using owned x find_Some_in [OF find] distinct_keyD [OF dist] unfolding receipts_owned_def received_event_def by metis
  have same: "same_receipt y ?r \<longleftrightarrow> (relay_event_receipts_relay_id y, relay_event_receipts_event_id y) =
      (relay_event_receipts_relay_id x, relay_event_receipts_event_id x)" for y
    using x(2) by (auto simp: same_receipt_def receipt_row_def received_event_def)
  have "find (\<lambda>y. same_receipt y ?r) (db_relay_event_receipts d) = Some x"
    unfolding same by (rule find_distinct_key [OF keys x(1)])
  moreover have "\<exists>y\<in>set (db_relay_event_receipts d). same_receipt y ?r" using same x(1) by blast
  ultimately show ?thesis
    using nf find owned_once [OF wf find own] x(2) gen
    by (simp add: apply_relay_event_def statement_run exec_insert_new_def Let_def receipt_row_def received_event_def)
qed

lemma repeat_archived:
  assumes nf: "db_faults d = []" and none: "find (\<lambda>a. a_uuid a = Message_UUID m) (db_relay_authorizations d) = None"
    and gen: "current_generation i token d = Some (relay_delivery_archive_generation x)"
    and x: "find (\<lambda>x. x_uuid x = Message_UUID m) (db_relay_delivery_archive d) = Some x"
      "relay_delivery_archive_relay_id x = i" "archived_event m x" and valid: "valid_relay_event m"
  shows "ApplyRelayEvent i token address m received now d = (Inr (), d)"
proof -
  have "filter (authorization_owned i token (Message_UUID m) d) (db_relay_authorizations d) = []"
    using none by (auto simp: filter_empty_conv authorization_owned_def find_None_iff)
  then have "transaction (apply_relay_event i token address m received now) d = (Inl not_locked, d)"
    using nf by (simp add: apply_relay_event_def statement_run set_faults_nil)
  moreover have "checkArchivedRelayEvent i token m d = (Inr (), d)"
    using nf none gen x valid
    by (auto simp: checkArchivedRelayEvent_def statement_run archived_event_def valid_relay_event_def)
  ultimately show ?thesis using valid by (simp add: ApplyRelayEvent_def attempt_run)
qed

lemma repeat_acknowledged:
  assumes wf: "delivery_wf (delivery d)" and nf: "db_faults d = []" and ack: "acknowledged i m (delivery d)"
    and valid: "valid_relay_event m"
    and live: "current_generation i token d = Some g" "lives (delivery d) (Message_UUID m) = Some (i, g, p)"
  shows "ApplyRelayEvent i token address m received now d = (Inr (), d)"
proof (cases "find (\<lambda>a. a_uuid a = Message_UUID m) (db_relay_authorizations d)")
  case None
  with live(2) obtain x where x: "find (\<lambda>x. x_uuid x = Message_UUID m) (db_relay_delivery_archive d) = Some x"
      "relay_delivery_archive_relay_id x = i" "relay_delivery_archive_generation x = g"
    by (auto simp: lives_def delivery_def)
  have "\<not> received_event i m r" if "r \<in> set (db_relay_event_receipts d)" for r
    using wf that None by (fastforce simp: delivery_wf_def delivery_def receipts_owned_def received_event_def find_None_iff)
  then obtain y where y: "y \<in> set (db_relay_delivery_archive d)" "x_uuid y = Message_UUID m" "archived_event m y"
    using ack by (auto simp: acknowledged_def delivery_def)
  have "distinct (map x_uuid (db_relay_delivery_archive d))" using wf by (simp add: delivery_wf_def delivery_def)
  then have "y = x" using x(1) y find_distinct_key by fastforce
  then show ?thesis using repeat_archived [OF nf None _ x(1,2)] live(1) x(3) y(3) valid by simp
next
  case (Some a)
  with live(2) have a: "relay_authorizations_relay_id a = i" "relay_authorizations_generation a = g"
    by (auto simp: lives_def delivery_def)
  obtain c where c: "c \<in> set (db_relay_credentials d)" "relay_credentials_relay_id c = i" "relay_enabled d i"
      "relay_credentials_token_hash c = Relay_Hash token" "relay_credentials_generation c = g"
    using live(1) by (auto simp: current_generation_def dest!: find_Some_in)
  have own: "authorization_owned i token (Message_UUID m) d a"
    using c a find_Some_in [OF Some] by (auto simp: authorization_owned_def)
  have "a_uuid a \<in> a_uuid ` set (db_relay_authorizations d)" "a_uuid a = Message_UUID m"
    using find_Some_in [OF Some] by (auto intro: rev_image_eqI)
  moreover have "a_uuid ` set (db_relay_authorizations d) \<inter> x_uuid ` set (db_relay_delivery_archive d) = {}"
    using wf by (simp add: delivery_wf_def delivery_def)
  ultimately have "Message_UUID m \<notin> x_uuid ` set (db_relay_delivery_archive d)" by auto
  then obtain x where "x \<in> set (db_relay_event_receipts d)" "received_event i m x"
    using ack by (auto simp: acknowledged_def delivery_def image_iff)
  then have run: "apply_relay_event i token address m received now d = (Inr (), d)"
    by (rule repeat_live [OF wf nf Some own])
  then have "transaction (apply_relay_event i token address m received now) d = (Inr (), d)"
    using nf by (simp add: statement_run)
  then show ?thesis using valid by (simp add: ApplyRelayEvent_def attempt_run)
qed

text \<open>A closed connection is not authorized again and takes no new event.\<close>

lemma closed_not_authorized:
  assumes "delivery_wf (delivery d)" "lives (delivery d) u = Some (i, g, Life_Closed)"
  shows "\<not> is_ok (fst (AuthorizeRelay j token u now d))"
proof
  assume "is_ok (fst (AuthorizeRelay j token u now d))"
  then obtain v d' where "AuthorizeRelay j token u now d = (Inr v, d')"
    by (cases "AuthorizeRelay j token u now d") (auto simp: is_ok_def split: sum.splits)
  then obtain c fs g where "\<not> authorization_refused c (set_faults fs d)
      \<lparr>relay_authorizations_uuid = u, relay_authorizations_relay_id = j, relay_authorizations_generation = g,
       relay_authorizations_state = ''permitted'', relay_authorizations_created_at = millis now\<rparr>"
    by (auto simp: AuthorizeRelay_def RelayCredential_def result_iffs if_run split: if_splits
        elim!: exec_insert_new_okE query_row_okE)
  then have "find (\<lambda>a. a_uuid a = u) (db_relay_authorizations d) = None"
      "find (\<lambda>x. x_uuid x = u) (db_relay_delivery_archive d) = None"
    by (auto simp: authorization_refused_def find_None_iff)
  then show False using assms(2) by (simp add: lives_def delivery_def)
qed

lemma closed_apply_event:
  assumes "delivery_wf (delivery d)" "lives (delivery d) (Message_UUID m) = Some (i, g, Life_Closed)"
    "apply_relay_event j token address m received now d = (Inr u, d')"
  shows "delivery d' = delivery d"
  using assms(3) wf_uuids_distinct [OF assms(1)]
proof (cases rule: apply_relay_event_okE)
  case (new a)
  have a: "a \<in> set (db_relay_authorizations d)" "a_uuid a = Message_UUID m" using find_Some_in [OF new(1)] by auto
  have closed: "relay_authorizations_state a = ''closed''"
    using assms(2) new(1) by (auto simp: lives_def delivery_def life_of_def split: if_splits)
  then have "state_of (db_relay_event_receipts d) (Message_UUID m) = ''closed''"
    using assms(1) a by (auto simp: delivery_wf_def delivery_def)
  then have "has_receipt (db_relay_event_receipts d) (Message_UUID m) ''closed''"
    by (auto simp: state_of_def split: if_splits)
  then show ?thesis using new(4,5) closed by (force simp: has_receipt_def)
qed

interpretation sdl: db_rel "\<lambda>d d'. delivery d' = delivery d"
  by unfold_locales auto

lemma checkArchived_reads: "steps (\<lambda>d d'. delivery d' = delivery d) (checkArchivedRelayEvent i token m)"
  unfolding checkArchivedRelayEvent_def by (intro sdl.basic_intros)

lemma closed_event_no_effect:
  assumes "delivery_wf (delivery d)" "lives (delivery d) u = Some (i, g, Life_Closed)"
  shows "Message_UUID m = u \<longrightarrow> delivery (snd (ApplyRelayEvent j token address m received now d)) = delivery d"
proof
  assume u: "Message_UUID m = u"
  obtain t d1 where t: "transaction (apply_relay_event j token address m received now) d = (t, d1)" by fastforce
  have "delivery d1 = delivery d"
  proof (cases t)
    case (Inl e)
    then show ?thesis using t transaction_error_tables delivery_same_tables by blast
  next
    case (Inr v)
    with t obtain fs d2 gs where run: "apply_relay_event j token address m received now (set_faults fs d) = (Inr v, d2)"
      and "d1 = set_faults gs d2" by (auto elim: transaction_InrE)
    then show ?thesis using closed_apply_event [OF _ _ run] assms u by simp
  qed
  moreover have "delivery (snd (checkArchivedRelayEvent j token m d1)) = delivery d1"
    using checkArchived_reads unfolding steps_def by blast
  ultimately show "delivery (snd (ApplyRelayEvent j token address m received now d)) = delivery d"
    using t by (auto simp: ApplyRelayEvent_def attempt_run throw_def ret_def split: sum.split)
qed

section \<open>Properties\<close>

text \<open>A database with a relay, its credential and three connections: one archived, one
  closed and one permitted.\<close>

definition example_token :: string where "example_token = replicate 43 CHR ''t''"

definition example_receipt :: "string \<Rightarrow> string \<Rightarrow> string \<Rightarrow> relay_event_receipts_row" where
  "example_receipt event uuid state = \<lparr>relay_event_receipts_relay_id = ''r'', relay_event_receipts_event_id = event,
     relay_event_receipts_uuid = uuid, relay_event_receipts_generation = ''g'',
     relay_event_receipts_state = state, relay_event_receipts_received_at = 0\<rparr>"

definition example_authorization :: "string \<Rightarrow> string \<Rightarrow> relay_authorizations_row" where
  "example_authorization uuid state = \<lparr>relay_authorizations_uuid = uuid, relay_authorizations_relay_id = ''r'',
     relay_authorizations_generation = ''g'', relay_authorizations_state = state, relay_authorizations_created_at = 0\<rparr>"

definition relay_example :: db where
  "relay_example = empty_db\<lparr>
     db_relay_servers := [\<lparr>relay_servers_id = ''r'', relay_servers_name = ''r'', relay_servers_hostname = ''h'',
       relay_servers_port = 1, relay_servers_region = [], relay_servers_enabled = True,
       relay_servers_health = ''healthy'', relay_servers_latency_ms = 0, relay_servers_connections = 0,
       relay_servers_bandwidth = 0, relay_servers_created_at = 0, relay_servers_updated_at = 0\<rparr>],
     db_relay_credentials := [\<lparr>relay_credentials_relay_id = ''r'', relay_credentials_token_hash = Relay_Hash example_token,
       relay_credentials_enrollment_hash = [], relay_credentials_enrollment_expires = 0,
       relay_credentials_generation = ''g'', relay_credentials_updated_at = 0\<rparr>],
     db_relay_authorizations := [example_authorization ''closed-1'' ''closed'', example_authorization ''permit-1'' ''permitted''],
     db_relay_event_receipts := [example_receipt ''e1'' ''closed-1'' ''active'', example_receipt ''e2'' ''closed-1'' ''closed'']\<rparr>"

lemma relay_example_wf: "delivery_wf (delivery relay_example)"
  by (simp add: relay_example_def empty_db_def delivery_def delivery_wf_def receipts_owned_def state_of_def has_receipt_def
      example_authorization_def example_receipt_def)

lemma Relay_Hash_nonempty: "Relay_Hash v \<noteq> []"
proof -
  have "word_bytes x \<noteq> []" for x
    using length_be_bytes [of 4 "unat x"] unfolding word_bytes_def by (metis list.size(3) zero_neq_numeral)
  then have "SHA256 v \<noteq> []" by (auto simp: SHA256_def split: prod.split)
  then show ?thesis by (cases "SHA256 v") (auto simp: Relay_Hash_def Hex_Encode_def)
qed

lemma relay_example_tables:
  "db_faults relay_example = []" "relay_exists relay_example ''r''" "relay_enabled relay_example ''r''"
  "db_relay_credentials relay_example = [\<lparr>relay_credentials_relay_id = ''r'',
     relay_credentials_token_hash = Relay_Hash example_token,
     relay_credentials_enrollment_hash = [], relay_credentials_enrollment_expires = 0,
     relay_credentials_generation = ''g'', relay_credentials_updated_at = 0\<rparr>]"
  "db_relay_authorizations relay_example =
     [example_authorization ''closed-1'' ''closed'', example_authorization ''permit-1'' ''permitted'']"
  "db_relay_event_receipts relay_example =
     [example_receipt ''e1'' ''closed-1'' ''active'', example_receipt ''e2'' ''closed-1'' ''closed'']"
  "db_relay_delivery_archive relay_example = []" "db_connection_records relay_example = []"
  by (simp_all add: relay_example_def empty_db_def relay_exists_def relay_enabled_def)

definition example_message :: "string \<Rightarrow> string \<Rightarrow> string \<Rightarrow> Message" where
  "example_message event uuid status = \<lparr>Message_Revision = [], Message_Offset = 0, Message_QuarantinePage = None,
     Message_Delivery = None, Message_Reason = [], Message_Durable = True, Message_Type = ''lifecycle'',
     Message_Session = [], Message_RequestID = event, Message_UUID = uuid, Message_Action = [],
     Message_Status = status, Message_ExpiresAt = 0, Message_Connections = 0, Message_Bandwidth = 0\<rparr>"

text \<open>C26: The relay store implements the life cycle of a relayed connection.  Whatever calls of
  the relay store run, with any arguments and failures, the delivery tables stay
  well-formed, and every connection only moves forward: it is permitted once, becomes
  active and is closed, always for the relay and the credential generation it was
  permitted for.  The store forgets a connection only when its relay, one of \<open>dropped\<close>, is
  deleted; the compaction of old rows is invisible in the life cycle.\<close>

theorem relay_store_refines_life_cycle:
  assumes "(relay_step dropped)\<^sup>*\<^sup>* d d'" "delivery_wf (delivery d)"
  shows "delivery_wf (delivery d') \<and> (advance dropped)\<^sup>*\<^sup>* (lives (delivery d) u) (lives (delivery d') u)"
  using relay_run_advance [OF assms] by blast

theorem relay_store_refines_life_cycle_witness:
  "\<exists>d' d''. AuthorizeRelay ''r'' example_token ''fresh-01'' 0 relay_example = (Inr (), d') \<and>
     DeleteRelayServer ''r'' d' = (Inr (), d'') \<and>
     (advance {''r''})\<^sup>*\<^sup>* (lives (delivery relay_example) ''fresh-01'') (lives (delivery d') ''fresh-01'') \<and>
     (advance {''r''})\<^sup>*\<^sup>* (lives (delivery d') ''fresh-01'') (lives (delivery d'') ''fresh-01'') \<and>
     map (\<lambda>d. lives (delivery d) ''fresh-01'') [relay_example, d', d''] = [None, Some (''r'', ''g'', Life_Permitted), None]"
proof -
  obtain d' where run: "AuthorizeRelay ''r'' example_token ''fresh-01'' 0 relay_example = (Inr (), d')"
    and d': "d' = db_relay_authorizations_update (\<lambda>rs. rs @ [example_authorization ''fresh-01'' ''permitted'']) relay_example"
    using relay_example_tables Relay_Hash_nonempty
    by (simp add: AuthorizeRelay_def RelayCredential_def statement_run exec_insert_new_def scan_credential_def
        Matches_def authorization_refused_def example_token_def [THEN arg_cong, of length]
        example_authorization_def millis_def)
  have faults: "db_faults d' = []" by (simp add: d' relay_example_tables)
  have relay: "\<exists>r\<in>set (db_relay_servers d'). relay_servers_id r = ''r''" by (simp add: d' relay_example_def)
  then obtain d'' where del: "DeleteRelayServer ''r'' d' = (Inr (), d'')"
    and d'': "d'' = db_relay_servers_update (filter (\<lambda>r. relay_servers_id r \<noteq> ''r'')) (cascade_relay ''r'' d')"
    using faults by (simp add: DeleteRelayServer_def affected_def bindE_run exec_delete_def stmt_run filter_empty_conv)
  have steps: "(relay_step {''r''})\<^sup>*\<^sup>* relay_example d'" "(relay_step {''r''})\<^sup>*\<^sup>* d' d''"
    by (rule r_into_rtranclp, rule relay_step.intros(1) [OF run],
        rule r_into_rtranclp, rule relay_step.intros(8) [OF singletonI del])
  note ref1 = relay_store_refines_life_cycle [OF steps(1) relay_example_wf, of "''fresh-01''"]
  note ref2 = relay_store_refines_life_cycle [OF steps(2) conjunct1 [OF ref1], of "''fresh-01''"]
  have "map (\<lambda>d. lives (delivery d) ''fresh-01'') [relay_example, d', d''] = [None, Some (''r'', ''g'', Life_Permitted), None]"
    using relay by (simp add: d'' cascade_relay_def)
      (simp add: d' lives_def delivery_def relay_example_tables example_authorization_def life_of_def)
  then show ?thesis using run del conjunct2 [OF ref1] conjunct2 [OF ref2] by (intro exI [of _ d'] exI [of _ d''] conjI)
qed

text \<open>C27: A closed connection stays closed as long as its relay exists.  Once a relayed
  connection is closed, it remains closed for its owner through all later calls of the relay
  store, compaction and the deletion of other relays, those in \<open>dropped\<close>, included; its
  identifier cannot be authorized again, by any relay, and every event that is still accepted
  for it leaves the delivery tables as they are.\<close>

theorem closed_connection_stays_closed:
  assumes "(relay_step dropped)\<^sup>*\<^sup>* d d'" "delivery_wf (delivery d)" "lives (delivery d) u = Some (i, g, Life_Closed)" "i \<notin> dropped"
  shows "lives (delivery d') u = Some (i, g, Life_Closed) \<and>
    \<not> is_ok (fst (AuthorizeRelay j token u now d')) \<and>
    (Message_UUID m = u \<longrightarrow> delivery (snd (ApplyRelayEvent j token address m received now d')) = delivery d')"
proof -
  have wf: "delivery_wf (delivery d')" and live: "lives (delivery d') u = Some (i, g, Life_Closed)"
    using relay_run_advance(1) [OF assms(1,2)] relay_run_advance(2) [OF assms(1,2), of u] assms(3,4) advance_closed
    by auto
  show ?thesis using live closed_not_authorized [OF wf live] closed_event_no_effect [OF wf live] by blast
qed

theorem closed_connection_stays_closed_witness:
  "\<exists>d'. DeleteRelayServer ''other'' relay_example = (Inl ErrNotFound, d') \<and>
   lives (delivery d') ''closed-1'' = Some (''r'', ''g'', Life_Closed) \<and>
   \<not> is_ok (fst (AuthorizeRelay ''r'' example_token ''closed-1'' 0 d')) \<and>
   delivery (snd (ApplyRelayEvent ''r'' example_token ''h:1'' (example_message ''e9'' ''closed-1'' ''active'') 0 0 d')) = delivery d'"
proof -
  have live: "lives (delivery relay_example) ''closed-1'' = Some (''r'', ''g'', Life_Closed)"
    by (simp add: lives_def delivery_def relay_example_tables example_authorization_def life_of_def)
  obtain d' where del: "DeleteRelayServer ''other'' relay_example = (Inl ErrNotFound, d')"
    by (simp add: DeleteRelayServer_def affected_def bindE_run exec_delete_def stmt_run relay_example_def empty_db_def)
  have run: "(relay_step {''other''})\<^sup>*\<^sup>* relay_example d'"
    by (rule r_into_rtranclp, rule relay_step.intros(8) [OF singletonI del])
  have other: "''r'' \<notin> {''other''}" by simp
  have uuid: "Message_UUID (example_message ''e9'' ''closed-1'' ''active'') = ''closed-1''"
    by (simp add: example_message_def)
  from closed_connection_stays_closed [OF run relay_example_wf live other,
      of "''r''" example_token 0 "example_message ''e9'' ''closed-1'' ''active''" "''h:1''" 0] uuid del
  show ?thesis by blast
qed

text \<open>C28: An accepted event is accepted again while the relay keeps its credential.  When
  ApplyRelayEvent has accepted an event of a relay, the same event is accepted again after
  any further calls of the relay store that do not delete that relay, also when its rows have
  been archived, provided the relay is then enabled, presents a token of the credential
  generation the connection was permitted under, and no statement fails; and the repetition
  changes nothing.\<close>

theorem accepted_event_repeats:
  assumes "ApplyRelayEvent i token address m received now d = (Inr u, d1)" "delivery_wf (delivery d)"
    "(relay_step dropped)\<^sup>*\<^sup>* d1 d2" "i \<notin> dropped" "db_faults d2 = []"
    "current_generation i token2 d2 = Some g" "lives (delivery d2) (Message_UUID m) = Some (i, g, p)"
  shows "ApplyRelayEvent i token2 address2 m received2 now2 d2 = (Inr (), d2)"
proof -
  have ack: "acknowledged i m (delivery d1)" "valid_relay_event m"
    using ApplyRelayEvent_acknowledged [OF assms(1,2)] by auto
  have wf1: "delivery_wf (delivery d1)"
    using delivers_wf [OF deliver_ApplyRelayEvent [OF assms(1) wf_uuids_distinct [OF assms(2)]] assms(2)] .
  have "delivers dropped d1 d2" using relay_steps_delivers [OF assms(3) wf_uuids_distinct [OF wf1]] by blast
  then have "delivery_wf (delivery d2)" "acknowledged i m (delivery d2)"
    using delivers_wf wf1 delivers_acknowledged [OF _ wf1 ack assms(4)] by blast+
  then show ?thesis using repeat_acknowledged assms(5-7) ack(2) by blast
qed

theorem accepted_event_repeats_witness:
  "\<exists>d1. ApplyRelayEvent ''r'' example_token ''h:1'' (example_message ''e3'' ''permit-1'' ''active'') 0 0 relay_example = (Inr (), d1) \<and>
     lives (delivery d1) ''permit-1'' = Some (''r'', ''g'', Life_Active) \<and>
     ApplyRelayEvent ''r'' example_token ''h:1'' (example_message ''e3'' ''permit-1'' ''active'') 5 5 d1 = (Inr (), d1)"
proof -
  let ?m = "example_message ''e3'' ''permit-1'' ''active''"
  define d1 where "d1 = relay_example\<lparr>
    db_relay_authorizations := [example_authorization ''closed-1'' ''closed'', example_authorization ''permit-1'' ''active''],
    db_relay_event_receipts := db_relay_event_receipts relay_example @ [example_receipt ''e3'' ''permit-1'' ''active''],
    db_connection_records := [event_record ?m ''h:1'' 0]\<rparr>"
  have owned: "filter (authorization_owned ''r'' example_token ''permit-1'' relay_example) (db_relay_authorizations relay_example)
      = [example_authorization ''permit-1'' ''permitted'']"
    by (simp add: relay_example_tables authorization_owned_def example_authorization_def)
  have "apply_relay_event ''r'' example_token ''h:1'' ?m 0 0 relay_example = (Inr (), d1)"
    using relay_example_tables owned
    by (simp add: apply_relay_event_def statement_run exec_insert_new_def Let_def same_receipt_def receipt_ok_def
        new_event_def record_event_def example_message_def example_receipt_def example_authorization_def
        event_record_def millis_def upd_where_def d1_def relay_exists_def)
  then have run: "ApplyRelayEvent ''r'' example_token ''h:1'' ?m 0 0 relay_example = (Inr (), d1)"
    using relay_example_tables
    by (simp add: ApplyRelayEvent_def statement_run valid_relay_event_def example_message_def d1_def)
  have gen: "current_generation ''r'' example_token d1 = Some ''g''"
    using relay_example_tables(3) by (simp add: current_generation_def d1_def relay_example_tables(4) relay_enabled_def)
  have live: "lives (delivery d1) (Message_UUID ?m) = Some (''r'', ''g'', Life_Active)"
    by (simp add: lives_def delivery_def d1_def example_message_def example_authorization_def life_of_def)
  have none: "''r'' \<notin> {}" by simp
  have nf: "db_faults d1 = []" by (simp add: d1_def relay_example_tables)
  from accepted_event_repeats [OF run relay_example_wf rtranclp.rtrancl_refl none nf gen live, of "''h:1''" 5 5] run live
  show ?thesis by (auto simp: example_message_def)
qed

end
