(* ===== verification/Store_Events.thy ===== *)
theory Store_Events
  imports Store_Sessions
begin

text \<open>
  Webhooks and their deliveries, notifications, and automation rules with their runs, as
  internal/store/sqlstore keeps them (store.go, automation.go).
\<close>

section \<open>Webhooks\<close>

definition webhook_row_of :: "Webhook \<Rightarrow> webhooks_row" where
  "webhook_row_of v = \<lparr>webhooks_id = Webhook_ID v, webhooks_name = Webhook_Name v, webhooks_url = Webhook_URL v,
     webhooks_events = Webhook_Events v, webhooks_enabled = Webhook_Enabled v,
     webhooks_created_at = millis (Webhook_CreatedAt v),
     webhooks_updated_at = millis (Webhook_UpdatedAt v)\<rparr>"

definition scanWebhook :: "webhooks_row \<Rightarrow> Webhook" where
  "scanWebhook r = \<lparr>Webhook_ID = webhooks_id r, Webhook_Name = webhooks_name r, Webhook_URL = webhooks_url r,
     Webhook_Events = webhooks_events r, Webhook_Enabled = webhooks_enabled r,
     Webhook_CreatedAt = fromMillis (webhooks_created_at r),
     Webhook_UpdatedAt = fromMillis (webhooks_updated_at r)\<rparr>"

definition CreateWebhook :: "Webhook \<Rightarrow> (db, unit) prog" where
  "CreateWebhook v = exec_insert db_webhooks_update
     (\<lambda>d r. \<forall>x\<in>set (db_webhooks d). webhooks_id x \<noteq> webhooks_id r) (webhook_row_of v)"

definition ListWebhooks :: "(db, Webhook list) prog" where
  "ListWebhooks = query (\<lambda>d. map scanWebhook (sort_key webhooks_name (db_webhooks d)))"

definition FindWebhookByID :: "string \<Rightarrow> (db, Webhook) prog" where
  "FindWebhookByID i = scan_found scanWebhook
     (query_row (\<lambda>d. find (\<lambda>r. webhooks_id r = i) (db_webhooks d)))"

definition UpdateWebhook :: "Webhook \<Rightarrow> (db, unit) prog" where
  "UpdateWebhook v = affected (exec_update db_webhooks db_webhooks_update
     (\<lambda>r. webhooks_id r = Webhook_ID v)
     (\<lambda>r. r\<lparr>webhooks_name := Webhook_Name v, webhooks_url := Webhook_URL v, webhooks_events := Webhook_Events v,
            webhooks_enabled := Webhook_Enabled v, webhooks_updated_at := millis (Webhook_UpdatedAt v)\<rparr>))"

definition DeleteWebhook :: "string \<Rightarrow> (db, unit) prog" where
  "DeleteWebhook i = affected (exec_delete db_webhooks db_webhooks_update (\<lambda>_ r. webhooks_id r = i))"

section \<open>Deliveries\<close>

definition delivery_row_of :: "WebhookDelivery \<Rightarrow> webhook_deliveries_row" where
  "delivery_row_of v = \<lparr>webhook_deliveries_id = WebhookDelivery_ID v,
     webhook_deliveries_webhook_id = WebhookDelivery_WebhookID v,
     webhook_deliveries_event_type = WebhookDelivery_EventType v,
     webhook_deliveries_payload = WebhookDelivery_Payload v,
     webhook_deliveries_status = WebhookDelivery_Status v,
     webhook_deliveries_attempts = WebhookDelivery_Attempts v,
     webhook_deliveries_response_code = WebhookDelivery_ResponseCode v,
     webhook_deliveries_last_error = WebhookDelivery_LastError v,
     webhook_deliveries_next_attempt = millis (WebhookDelivery_NextAttempt v),
     webhook_deliveries_created_at = millis (WebhookDelivery_CreatedAt v),
     webhook_deliveries_delivered_at = nullableTimePtrMillis (WebhookDelivery_DeliveredAt v)\<rparr>"

definition scanWebhookDeliveries :: "webhook_deliveries_row \<Rightarrow> WebhookDelivery" where
  "scanWebhookDeliveries r = \<lparr>WebhookDelivery_ID = webhook_deliveries_id r,
     WebhookDelivery_WebhookID = webhook_deliveries_webhook_id r,
     WebhookDelivery_EventType = webhook_deliveries_event_type r,
     WebhookDelivery_Payload = webhook_deliveries_payload r,
     WebhookDelivery_Status = webhook_deliveries_status r,
     WebhookDelivery_Attempts = webhook_deliveries_attempts r,
     WebhookDelivery_ResponseCode = webhook_deliveries_response_code r,
     WebhookDelivery_LastError = webhook_deliveries_last_error r,
     WebhookDelivery_NextAttempt = fromMillis (webhook_deliveries_next_attempt r),
     WebhookDelivery_CreatedAt = fromMillis (webhook_deliveries_created_at r),
     WebhookDelivery_DeliveredAt = map_option fromMillis (webhook_deliveries_delivered_at r)\<rparr>"

definition CreateWebhookDelivery :: "WebhookDelivery \<Rightarrow> (db, unit) prog" where
  "CreateWebhookDelivery v = exec_insert db_webhook_deliveries_update
     (\<lambda>d r. \<forall>x\<in>set (db_webhook_deliveries d). webhook_deliveries_id x \<noteq> webhook_deliveries_id r)
     (delivery_row_of v)"

definition ListWebhookDeliveries :: "string \<Rightarrow> int \<Rightarrow> (db, WebhookDelivery list) prog" where
  "ListWebhookDeliveries webhookID limit = query (\<lambda>d. map scanWebhookDeliveries
     (take (nat (page_limit limit)) (order_desc webhook_deliveries_created_at
       (filter (\<lambda>x. webhook_deliveries_webhook_id x = webhookID) (db_webhook_deliveries d)))))"

definition ListDueWebhookDeliveries :: "instant \<Rightarrow> int \<Rightarrow> (db, WebhookDelivery list) prog" where
  "ListDueWebhookDeliveries now limit = query (\<lambda>d. map scanWebhookDeliveries
     (take (nat limit) (sort_key webhook_deliveries_next_attempt
       (filter (\<lambda>x. webhook_deliveries_status x = ''pending'' \<and> webhook_deliveries_next_attempt x \<le> millis now)
         (db_webhook_deliveries d)))))"

definition UpdateWebhookDelivery :: "WebhookDelivery \<Rightarrow> (db, unit) prog" where
  "UpdateWebhookDelivery v = affected (exec_update db_webhook_deliveries db_webhook_deliveries_update
     (\<lambda>r. webhook_deliveries_id r = WebhookDelivery_ID v)
     (\<lambda>r. r\<lparr>webhook_deliveries_status := WebhookDelivery_Status v, webhook_deliveries_attempts := WebhookDelivery_Attempts v,
            webhook_deliveries_response_code := WebhookDelivery_ResponseCode v,
            webhook_deliveries_last_error := WebhookDelivery_LastError v,
            webhook_deliveries_next_attempt := millis (WebhookDelivery_NextAttempt v),
            webhook_deliveries_delivered_at := nullableTimePtrMillis (WebhookDelivery_DeliveredAt v)\<rparr>))"

section \<open>Notifications\<close>

definition notification_row_of :: "Notification \<Rightarrow> notifications_row" where
  "notification_row_of v = \<lparr>notifications_id = Notification_ID v, notifications_type = Notification_Type v,
     notifications_severity = Notification_Severity v, notifications_title = Notification_Title v,
     notifications_message = Notification_Message v,
     notifications_resource = Notification_Resource v,
     notifications_created_at = millis (Notification_CreatedAt v),
     notifications_read_at = nullableTimePtrMillis (Notification_ReadAt v)\<rparr>"

definition scan_notification :: "notifications_row \<Rightarrow> Notification" where
  "scan_notification r = \<lparr>Notification_ID = notifications_id r, Notification_Type = notifications_type r,
     Notification_Severity = notifications_severity r, Notification_Title = notifications_title r,
     Notification_Message = notifications_message r,
     Notification_Resource = notifications_resource r,
     Notification_CreatedAt = fromMillis (notifications_created_at r),
     Notification_ReadAt = map_option fromMillis (notifications_read_at r)\<rparr>"

definition CreateNotification :: "Notification \<Rightarrow> (db, unit) prog" where
  "CreateNotification v = exec_insert db_notifications_update
     (\<lambda>d r. \<forall>x\<in>set (db_notifications d). notifications_id x \<noteq> notifications_id r) (notification_row_of v)"

definition ListNotifications :: "int \<Rightarrow> bool \<Rightarrow> (db, Notification list) prog" where
  "ListNotifications limit unreadOnly = query (\<lambda>d. map scan_notification
     (take (nat (page_limit limit)) (order_desc notifications_created_at
       (filter (\<lambda>x. unreadOnly \<longrightarrow> notifications_read_at x = None) (db_notifications d)))))"

definition MarkNotificationRead :: "string \<Rightarrow> instant \<Rightarrow> (db, unit) prog" where
  "MarkNotificationRead i at' =
     bindE (exec_update db_notifications db_notifications_update
              (\<lambda>r. notifications_id r = i \<and> notifications_read_at r = None)
              (\<lambda>r. r\<lparr>notifications_read_at := Some (millis at')\<rparr>)) (\<lambda>count.
     whenE (count = 0) (scan_found (\<lambda>_. ())
       (query_row (\<lambda>d. find (\<lambda>r. notifications_id r = i) (db_notifications d)))))"

definition MarkAllNotificationsRead :: "instant \<Rightarrow> (db, unit) prog" where
  "MarkAllNotificationsRead at' = execute (exec_update db_notifications db_notifications_update
     (\<lambda>r. notifications_read_at r = None) (\<lambda>r. r\<lparr>notifications_read_at := Some (millis at')\<rparr>))"

section \<open>Automation\<close>

definition rule_row_of :: "AutomationRule \<Rightarrow> automation_rules_row" where
  "rule_row_of v = \<lparr>automation_rules_id = AutomationRule_ID v, automation_rules_name = AutomationRule_Name v,
     automation_rules_event_types = AutomationRule_EventTypes v,
     automation_rules_conditions = AutomationRule_Conditions v,
     automation_rules_actions = AutomationRule_Actions v,
     automation_rules_severity = AutomationRule_Severity v,
     automation_rules_throttle_seconds = AutomationRule_ThrottleSeconds v,
     automation_rules_enabled = AutomationRule_Enabled v,
     automation_rules_created_at = millis (AutomationRule_CreatedAt v),
     automation_rules_updated_at = millis (AutomationRule_UpdatedAt v)\<rparr>"

definition scan_rule :: "automation_rules_row \<Rightarrow> AutomationRule" where
  "scan_rule r = \<lparr>AutomationRule_ID = automation_rules_id r, AutomationRule_Name = automation_rules_name r,
     AutomationRule_EventTypes = automation_rules_event_types r,
     AutomationRule_Conditions = automation_rules_conditions r,
     AutomationRule_Actions = automation_rules_actions r,
     AutomationRule_Severity = automation_rules_severity r,
     AutomationRule_ThrottleSeconds = automation_rules_throttle_seconds r,
     AutomationRule_Enabled = automation_rules_enabled r,
     AutomationRule_CreatedAt = fromMillis (automation_rules_created_at r),
     AutomationRule_UpdatedAt = fromMillis (automation_rules_updated_at r)\<rparr>"

definition CreateAutomationRule :: "AutomationRule \<Rightarrow> (db, unit) prog" where
  "CreateAutomationRule v = exec_insert db_automation_rules_update
     (\<lambda>d r. \<forall>x\<in>set (db_automation_rules d). automation_rules_id x \<noteq> automation_rules_id r) (rule_row_of v)"

definition ListAutomationRules :: "(db, AutomationRule list) prog" where
  "ListAutomationRules = query (\<lambda>d. map scan_rule
     (sort_key (\<lambda>r. (automation_rules_name r, automation_rules_id r)) (db_automation_rules d)))"

definition UpdateAutomationRule :: "AutomationRule \<Rightarrow> (db, unit) prog" where
  "UpdateAutomationRule v = affected (exec_update db_automation_rules db_automation_rules_update
     (\<lambda>r. automation_rules_id r = AutomationRule_ID v)
     (\<lambda>r. (rule_row_of v)\<lparr>automation_rules_created_at := automation_rules_created_at r\<rparr>))"

text \<open>The runs of a rule go with it, ON DELETE CASCADE.\<close>

definition DeleteAutomationRule :: "string \<Rightarrow> (db, unit) prog" where
  "DeleteAutomationRule i = affected (exec_delete db_automation_rules
     (\<lambda>f d. if \<exists>r\<in>set (db_automation_rules d). automation_rules_id r = i
            then db_automation_runs_update (filter (\<lambda>x. automation_runs_rule_id x \<noteq> i)) (db_automation_rules_update f d)
            else d)
     (\<lambda>_ r. automation_rules_id r = i))"

definition run_row_of :: "AutomationRun \<Rightarrow> automation_runs_row" where
  "run_row_of v = \<lparr>automation_runs_id = AutomationRun_ID v, automation_runs_rule_id = AutomationRun_RuleID v,
     automation_runs_event_type = AutomationRun_EventType v,
     automation_runs_event_id = AutomationRun_EventID v,
     automation_runs_status = AutomationRun_Status v,
     automation_runs_message = AutomationRun_Message v,
     automation_runs_created_at = millis (AutomationRun_CreatedAt v)\<rparr>"

definition scan_run :: "automation_runs_row \<Rightarrow> AutomationRun" where
  "scan_run r = \<lparr>AutomationRun_ID = automation_runs_id r, AutomationRun_RuleID = automation_runs_rule_id r,
     AutomationRun_EventType = automation_runs_event_type r,
     AutomationRun_EventID = automation_runs_event_id r,
     AutomationRun_Status = automation_runs_status r,
     AutomationRun_Message = automation_runs_message r,
     AutomationRun_CreatedAt = fromMillis (automation_runs_created_at r)\<rparr>"

definition CreateAutomationRun :: "AutomationRun \<Rightarrow> (db, unit) prog" where
  "CreateAutomationRun v = exec_insert db_automation_runs_update
     (\<lambda>d r. (\<forall>x\<in>set (db_automation_runs d). automation_runs_id x \<noteq> automation_runs_id r) \<and>
            (\<exists>x\<in>set (db_automation_rules d). automation_rules_id x = automation_runs_rule_id r)) (run_row_of v)"

definition ListAutomationRuns :: "string \<Rightarrow> int \<Rightarrow> (db, AutomationRun list) prog" where
  "ListAutomationRuns ruleID limit = query (\<lambda>d. map scan_run
     (take (nat (page_limit limit)) (order_desc automation_runs_created_at
       (filter (\<lambda>x. ruleID \<noteq> [] \<longrightarrow> automation_runs_rule_id x = ruleID) (db_automation_runs d)))))"

definition LastAutomationRun :: "string \<Rightarrow> (db, instant) prog" where
  "LastAutomationRun ruleID = attempt (query_row (\<lambda>d. case order_desc automation_runs_created_at
       (filter (\<lambda>x. automation_runs_rule_id x = ruleID \<and> automation_runs_status x = ''completed'')
         (db_automation_runs d)) of [] \<Rightarrow> None | r # _ \<Rightarrow> Some r)) (\<lambda>r. case r of
      Inl e \<Rightarrow> if e = ErrNoRows then ret zero_time else throw e
    | Inr x \<Rightarrow> ret (fromMillis (automation_runs_created_at x)))"

end
