(* ===== verification/Store_Clients.thy ===== *)
theory Store_Clients
  imports Store_Sessions
begin

text \<open>
  Client profiles and their assignments, client builds and the builder workers that lease
  them, as internal/store/sqlstore/store.go keeps them.
\<close>

section \<open>Profiles\<close>

definition profile_row_of :: "ClientProfile \<Rightarrow> client_profiles_row" where
  "profile_row_of v = \<lparr>client_profiles_id = ClientProfile_ID v, client_profiles_name = ClientProfile_Name v,
     client_profiles_description = ClientProfile_Description v,
     client_profiles_platform = ClientProfile_Platform v,
     client_profiles_settings = ClientProfile_Settings v,
     client_profiles_branding = ClientProfile_Branding v,
     client_profiles_version = ClientProfile_Version v,
     client_profiles_enabled = ClientProfile_Enabled v,
     client_profiles_created_at = millis (ClientProfile_CreatedAt v),
     client_profiles_updated_at = millis (ClientProfile_UpdatedAt v)\<rparr>"

definition scanClientProfile :: "client_profiles_row \<Rightarrow> ClientProfile" where
  "scanClientProfile r = \<lparr>ClientProfile_ID = client_profiles_id r, ClientProfile_Name = client_profiles_name r,
     ClientProfile_Description = client_profiles_description r,
     ClientProfile_Platform = client_profiles_platform r,
     ClientProfile_Settings = client_profiles_settings r,
     ClientProfile_Branding = client_profiles_branding r,
     ClientProfile_Version = client_profiles_version r,
     ClientProfile_Enabled = client_profiles_enabled r,
     ClientProfile_CreatedAt = fromMillis (client_profiles_created_at r),
     ClientProfile_UpdatedAt = fromMillis (client_profiles_updated_at r)\<rparr>"

definition profiles_unique :: "client_profiles_row list \<Rightarrow> bool" where
  "profiles_unique rs \<longleftrightarrow> distinct (map client_profiles_id rs) \<and> distinct (map client_profiles_name rs)"

definition profile_insert_ok :: "db \<Rightarrow> client_profiles_row \<Rightarrow> bool" where
  "profile_insert_ok d r \<longleftrightarrow> (\<forall>x\<in>set (db_client_profiles d).
     client_profiles_id x \<noteq> client_profiles_id r \<and> client_profiles_name x \<noteq> client_profiles_name r)"

definition CreateClientProfile :: "ClientProfile \<Rightarrow> (db, unit) prog" where
  "CreateClientProfile v = exec_insert db_client_profiles_update profile_insert_ok (profile_row_of v)"

definition ListClientProfiles :: "(db, ClientProfile list) prog" where
  "ListClientProfiles = query (\<lambda>d. map scanClientProfile (sort_key client_profiles_name (db_client_profiles d)))"

definition FindClientProfileByID :: "string \<Rightarrow> (db, ClientProfile) prog" where
  "FindClientProfileByID i = scan_found scanClientProfile
     (query_row (\<lambda>d. find (\<lambda>r. client_profiles_id r = i) (db_client_profiles d)))"

definition UpdateClientProfile :: "ClientProfile \<Rightarrow> (db, unit) prog" where
  "UpdateClientProfile v = affected (exec_update_unique db_client_profiles db_client_profiles_update
     profiles_unique (\<lambda>r. client_profiles_id r = ClientProfile_ID v)
     (\<lambda>r. (profile_row_of v)\<lparr>client_profiles_created_at := client_profiles_created_at r\<rparr>))"

definition DeleteClientProfile :: "string \<Rightarrow> (db, unit) prog" where
  "DeleteClientProfile i = transaction
     (thenE (exec_delete db_client_profile_assignments db_client_profile_assignments_update
               (\<lambda>_ x. client_profile_assignments_profile_id x = i))
            (affected (exec_delete db_client_profiles db_client_profiles_update (\<lambda>_ x. client_profiles_id x = i))))"

definition assignment_row_of :: "ClientProfileAssignment \<Rightarrow> client_profile_assignments_row" where
  "assignment_row_of v = \<lparr>client_profile_assignments_id = ClientProfileAssignment_ID v,
     client_profile_assignments_profile_id = ClientProfileAssignment_ProfileID v,
     client_profile_assignments_scope_type = ClientProfileAssignment_ScopeType v,
     client_profile_assignments_scope_id = ClientProfileAssignment_ScopeID v,
     client_profile_assignments_priority = ClientProfileAssignment_Priority v,
     client_profile_assignments_created_at = millis (ClientProfileAssignment_CreatedAt v)\<rparr>"

definition scan_assignment :: "client_profile_assignments_row \<Rightarrow> ClientProfileAssignment" where
  "scan_assignment r = \<lparr>ClientProfileAssignment_ID = client_profile_assignments_id r,
     ClientProfileAssignment_ProfileID = client_profile_assignments_profile_id r,
     ClientProfileAssignment_ScopeType = client_profile_assignments_scope_type r,
     ClientProfileAssignment_ScopeID = client_profile_assignments_scope_id r,
     ClientProfileAssignment_Priority = client_profile_assignments_priority r,
     ClientProfileAssignment_CreatedAt = fromMillis (client_profile_assignments_created_at r)\<rparr>"

definition CreateClientProfileAssignment :: "ClientProfileAssignment \<Rightarrow> (db, unit) prog" where
  "CreateClientProfileAssignment v = exec_insert db_client_profile_assignments_update
     (\<lambda>d r. \<forall>x\<in>set (db_client_profile_assignments d).
        client_profile_assignments_id x \<noteq> client_profile_assignments_id r) (assignment_row_of v)"

definition ListClientProfileAssignments :: "(db, ClientProfileAssignment list) prog" where
  "ListClientProfileAssignments = query (\<lambda>d. map scan_assignment
     (sort_key (\<lambda>r. (client_profile_assignments_priority r, client_profile_assignments_id r))
       (db_client_profile_assignments d)))"

definition DeleteClientProfileAssignment :: "string \<Rightarrow> (db, unit) prog" where
  "DeleteClientProfileAssignment i = affected (exec_delete db_client_profile_assignments
     db_client_profile_assignments_update (\<lambda>_ x. client_profile_assignments_id x = i))"

section \<open>Builds\<close>

definition build_row_of :: "ClientBuild \<Rightarrow> client_builds_row" where
  "build_row_of v = \<lparr>client_builds_id = ClientBuild_ID v, client_builds_profile_id = ClientBuild_ProfileID v,
     client_builds_target_os = ClientBuild_TargetOS v,
     client_builds_architecture = ClientBuild_Architecture v,
     client_builds_format = ClientBuild_Format v, client_builds_status = ClientBuild_Status v,
     client_builds_artifact_name = ClientBuild_ArtifactName v,
     client_builds_media_type = ClientBuild_MediaType v,
     client_builds_sha256 = ClientBuild_SHA256 v, client_builds_error = ClientBuild_Error v,
     client_builds_artifact = ClientBuild_Artifact v,
     client_builds_created_by = ClientBuild_CreatedBy v,
     client_builds_worker_id = ClientBuild_WorkerID v,
     client_builds_attempts = ClientBuild_Attempts v,
     client_builds_created_at = millis (ClientBuild_CreatedAt v),
     client_builds_started_at = nullableTimePtrMillis (ClientBuild_StartedAt v),
     client_builds_lease_until = nullableTimePtrMillis (ClientBuild_LeaseUntil v),
     client_builds_completed_at = nullableTimePtrMillis (ClientBuild_CompletedAt v)\<rparr>"

definition scanClientBuild :: "client_builds_row \<Rightarrow> ClientBuild" where
  "scanClientBuild r = \<lparr>ClientBuild_ID = client_builds_id r, ClientBuild_ProfileID = client_builds_profile_id r,
     ClientBuild_TargetOS = client_builds_target_os r,
     ClientBuild_Architecture = client_builds_architecture r,
     ClientBuild_Format = client_builds_format r, ClientBuild_Status = client_builds_status r,
     ClientBuild_ArtifactName = client_builds_artifact_name r,
     ClientBuild_MediaType = client_builds_media_type r,
     ClientBuild_SHA256 = client_builds_sha256 r, ClientBuild_Error = client_builds_error r,
     ClientBuild_Artifact = client_builds_artifact r,
     ClientBuild_CreatedBy = client_builds_created_by r,
     ClientBuild_WorkerID = client_builds_worker_id r,
     ClientBuild_Attempts = client_builds_attempts r,
     ClientBuild_CreatedAt = fromMillis (client_builds_created_at r),
     ClientBuild_StartedAt = map_option fromMillis (client_builds_started_at r),
     ClientBuild_LeaseUntil = map_option fromMillis (client_builds_lease_until r),
     ClientBuild_CompletedAt = map_option fromMillis (client_builds_completed_at r)\<rparr>"

definition CreateClientBuild :: "ClientBuild \<Rightarrow> (db, unit) prog" where
  "CreateClientBuild v = exec_insert db_client_builds_update
     (\<lambda>d r. \<forall>x\<in>set (db_client_builds d). client_builds_id x \<noteq> client_builds_id r) (build_row_of v)"

definition ListClientBuilds :: "int \<Rightarrow> (db, ClientBuild list) prog" where
  "ListClientBuilds limit = query (\<lambda>d. map scanClientBuild
     (take (nat (page_limit limit)) (order_desc client_builds_created_at (db_client_builds d))))"

definition FindClientBuildByID :: "string \<Rightarrow> (db, ClientBuild) prog" where
  "FindClientBuildByID i = scan_found scanClientBuild
     (query_row (\<lambda>d. find (\<lambda>r. client_builds_id r = i) (db_client_builds d)))"

definition build_progress :: "ClientBuild \<Rightarrow> client_builds_row \<Rightarrow> client_builds_row" where
  "build_progress v r = r\<lparr>client_builds_status := ClientBuild_Status v,
     client_builds_artifact_name := ClientBuild_ArtifactName v, client_builds_media_type := ClientBuild_MediaType v,
     client_builds_sha256 := ClientBuild_SHA256 v, client_builds_error := ClientBuild_Error v,
     client_builds_artifact := ClientBuild_Artifact v, client_builds_attempts := ClientBuild_Attempts v,
     client_builds_started_at := nullableTimePtrMillis (ClientBuild_StartedAt v),
     client_builds_lease_until := nullableTimePtrMillis (ClientBuild_LeaseUntil v),
     client_builds_completed_at := nullableTimePtrMillis (ClientBuild_CompletedAt v)\<rparr>"

definition UpdateClientBuild :: "ClientBuild \<Rightarrow> (db, unit) prog" where
  "UpdateClientBuild v = affected (exec_update db_client_builds db_client_builds_update
     (\<lambda>r. client_builds_id r = ClientBuild_ID v)
     (\<lambda>r. (build_progress v r)\<lparr>client_builds_worker_id := ClientBuild_WorkerID v\<rparr>))"

definition lease_before :: "int option \<Rightarrow> int \<Rightarrow> bool" where
  "lease_before lease now = (case lease of None \<Rightarrow> False | Some t \<Rightarrow> t < now)"

definition running_status :: "string \<Rightarrow> bool" where
  "running_status s \<longleftrightarrow> s = ''leased'' \<or> s = ''building'' \<or> s = ''uploading''"

text \<open>The build the subquery of ClaimClientBuild selects: the oldest one the worker can build
  that is queued or whose lease has run out, with attempts left.\<close>

definition claimable :: "string list \<Rightarrow> string list \<Rightarrow> string list \<Rightarrow> int \<Rightarrow> client_builds_row \<Rightarrow> bool" where
  "claimable formats platforms architectures now r \<longleftrightarrow>
     client_builds_format r \<in> set formats \<and> client_builds_target_os r \<in> set platforms \<and>
     client_builds_architecture r \<in> set architectures \<and> client_builds_attempts r < 5 \<and>
     (client_builds_status r = ''queued'' \<or>
      running_status (client_builds_status r) \<and> lease_before (client_builds_lease_until r) now)"

definition next_build :: "string list \<Rightarrow> string list \<Rightarrow> string list \<Rightarrow> int \<Rightarrow> db \<Rightarrow> string option" where
  "next_build formats platforms architectures now d =
     (case sort_key client_builds_created_at (filter (claimable formats platforms architectures now) (db_client_builds d)) of
        [] \<Rightarrow> None | r # _ \<Rightarrow> Some (client_builds_id r))"

definition claim_row :: "string \<Rightarrow> int \<Rightarrow> int \<Rightarrow> client_builds_row \<Rightarrow> client_builds_row" where
  "claim_row workerID now leaseUntil r = r\<lparr>client_builds_status := ''leased'', client_builds_worker_id := workerID,
     client_builds_attempts := client_builds_attempts r + 1,
     client_builds_started_at := (case client_builds_started_at r of None \<Rightarrow> Some now | Some t \<Rightarrow> Some t),
     client_builds_lease_until := Some leaseUntil, client_builds_error := []\<rparr>"

definition claim_build :: "string \<Rightarrow> string list \<Rightarrow> string list \<Rightarrow> string list \<Rightarrow> int \<Rightarrow> int \<Rightarrow> (db, int) prog" where
  "claim_build workerID formats platforms architectures now leaseUntil = stmt (\<lambda>d.
     let p = (\<lambda>r. next_build formats platforms architectures now d = Some (client_builds_id r) \<and>
                  client_builds_attempts r < 5 \<and>
                  (client_builds_status r = ''queued'' \<or> lease_before (client_builds_lease_until r) now))
     in Inr (int (length (filter p (db_client_builds d))),
             db_client_builds_update (upd_where p (claim_row workerID now leaseUntil)) d))"

definition ClaimClientBuild ::
  "string \<Rightarrow> string list \<Rightarrow> string list \<Rightarrow> string list \<Rightarrow> instant \<Rightarrow> instant \<Rightarrow> (db, ClientBuild) prog" where
  "ClaimClientBuild workerID formats platforms architectures now leaseUntil =
     (if formats = [] \<or> platforms = [] \<or> architectures = [] then throw ErrNotFound
      else bindE (claim_build workerID formats platforms architectures (millis now) (millis leaseUntil)) (\<lambda>count.
           if count = 0 then throw ErrNotFound
           else scan_found scanClientBuild (query_row (\<lambda>d.
             case sort_key client_builds_created_at (filter (\<lambda>r. client_builds_worker_id r = workerID \<and>
                    client_builds_status r = ''leased'' \<and> client_builds_lease_until r = Some (millis leaseUntil))
                  (db_client_builds d)) of [] \<Rightarrow> None | r # _ \<Rightarrow> Some r))))"

definition UpdateClaimedClientBuild :: "ClientBuild \<Rightarrow> string \<Rightarrow> instant \<Rightarrow> (db, unit) prog" where
  "UpdateClaimedClientBuild v workerID now = affected (exec_update db_client_builds db_client_builds_update
     (\<lambda>r. client_builds_id r = ClientBuild_ID v \<and> client_builds_worker_id r = workerID \<and>
          running_status (client_builds_status r) \<and>
          (case client_builds_lease_until r of None \<Rightarrow> False | Some t \<Rightarrow> t > millis now))
     (build_progress v))"

section \<open>Builder workers\<close>

definition worker_row_of :: "BuilderWorker \<Rightarrow> builder_workers_row" where
  "worker_row_of v = \<lparr>builder_workers_id = BuilderWorker_ID v, builder_workers_name = BuilderWorker_Name v,
     builder_workers_hostname = BuilderWorker_Hostname v,
     builder_workers_version = BuilderWorker_Version v,
     builder_workers_formats = BuilderWorker_Formats v,
     builder_workers_platforms = BuilderWorker_Platforms v,
     builder_workers_architectures = BuilderWorker_Architectures v,
     builder_workers_concurrency = BuilderWorker_Concurrency v,
     builder_workers_status = BuilderWorker_Status v,
     builder_workers_token_hash = BuilderWorker_TokenHash v,
     builder_workers_last_seen_at = millis (BuilderWorker_LastSeenAt v),
     builder_workers_created_at = millis (BuilderWorker_CreatedAt v),
     builder_workers_updated_at = millis (BuilderWorker_UpdatedAt v)\<rparr>"

definition scan_worker :: "builder_workers_row \<Rightarrow> BuilderWorker" where
  "scan_worker r = \<lparr>BuilderWorker_ID = builder_workers_id r, BuilderWorker_Name = builder_workers_name r,
     BuilderWorker_Hostname = builder_workers_hostname r,
     BuilderWorker_Version = builder_workers_version r,
     BuilderWorker_Formats = builder_workers_formats r,
     BuilderWorker_Platforms = builder_workers_platforms r,
     BuilderWorker_Architectures = builder_workers_architectures r,
     BuilderWorker_Concurrency = builder_workers_concurrency r,
     BuilderWorker_Status = builder_workers_status r,
     BuilderWorker_LastSeenAt = fromMillis (builder_workers_last_seen_at r),
     BuilderWorker_CreatedAt = fromMillis (builder_workers_created_at r),
     BuilderWorker_UpdatedAt = fromMillis (builder_workers_updated_at r),
     BuilderWorker_TokenHash = []\<rparr>"

definition merge_worker :: "builder_workers_row \<Rightarrow> builder_workers_row \<Rightarrow> builder_workers_row" where
  "merge_worker v x = v\<lparr>builder_workers_id := builder_workers_id x,
     builder_workers_token_hash := (if builder_workers_token_hash v = [] then builder_workers_token_hash x
       else builder_workers_token_hash v),
     builder_workers_created_at := builder_workers_created_at x\<rparr>"

text \<open>The token hashes that are not empty are under a partial unique index, for the inserted
  row and for the updated one.\<close>

definition worker_tokens_ok :: "builder_workers_row list \<Rightarrow> bool" where
  "worker_tokens_ok rs \<longleftrightarrow> distinct (filter (\<lambda>h. h \<noteq> []) (map builder_workers_token_hash rs))"

definition UpsertBuilderWorker :: "BuilderWorker \<Rightarrow> (db, unit) prog" where
  "UpsertBuilderWorker v = stmt (\<lambda>d.
     let r = worker_row_of v;
         rs = (if \<exists>x\<in>set (db_builder_workers d). builder_workers_id x = builder_workers_id r
               then upd_where (\<lambda>x. builder_workers_id x = builder_workers_id r) (merge_worker r) (db_builder_workers d)
               else db_builder_workers d @ [r])
     in if worker_tokens_ok rs then Inr ((), d\<lparr>db_builder_workers := rs\<rparr>) else Inl ErrConstraint)"

definition FindBuilderWorkerByTokenHash :: "string \<Rightarrow> (db, BuilderWorker) prog" where
  "FindBuilderWorkerByTokenHash tokenHash = scan_found
     (\<lambda>r. (scan_worker r)\<lparr>BuilderWorker_Formats := [], BuilderWorker_Platforms := [], BuilderWorker_Architectures := []\<rparr>)
     (query_row (\<lambda>d. find (\<lambda>r. builder_workers_token_hash r = tokenHash) (db_builder_workers d)))"

definition ListBuilderWorkers :: "(db, BuilderWorker list) prog" where
  "ListBuilderWorkers = query (\<lambda>d. map scan_worker
     (sort_key (\<lambda>r. (builder_workers_name r, builder_workers_id r)) (db_builder_workers d)))"

section \<open>Leasing a build\<close>

lemma next_build_cases:
  obtains (none) "next_build fs ps as now d = None" "\<forall>x\<in>set (db_client_builds d). \<not> claimable fs ps as now x"
  | (some) x where "next_build fs ps as now d = Some (client_builds_id x)" "x \<in> set (db_client_builds d)"
      "claimable fs ps as now x"
      "\<forall>y\<in>set (db_client_builds d). claimable fs ps as now y \<longrightarrow> client_builds_created_at x \<le> client_builds_created_at y"
proof (cases "sort_key client_builds_created_at (filter (claimable fs ps as now) (db_client_builds d))")
  case Nil
  then have "filter (claimable fs ps as now) (db_client_builds d) = []" by (metis set_empty set_sort)
  then show thesis using none Nil by (auto simp: next_build_def filter_empty_conv)
next
  case (Cons x xs)
  have set: "set (x # xs) = {y \<in> set (db_client_builds d). claimable fs ps as now y}"
    using arg_cong [OF Cons, of set] by auto
  have "sorted (map client_builds_created_at (x # xs))" using sorted_sort_key by (metis Cons)
  then have "client_builds_created_at x \<le> client_builds_created_at y" if "y \<in> set (x # xs)" for y
    using that by auto
  then show thesis using some [of x] Cons set by (auto simp: next_build_def)
qed

lemma claim_build_run:
  assumes "distinct (map client_builds_id (db_client_builds d))" "db_faults d = []"
    "next_build fs ps as now d = Some (client_builds_id x)" "x \<in> set (db_client_builds d)" "claimable fs ps as now x"
  shows "claim_build w fs ps as now until d =
    (Inr 1, db_client_builds_update (upd_where (\<lambda>r. client_builds_id r = client_builds_id x) (claim_row w now until)) d)"
proof -
  let ?p = "\<lambda>r. client_builds_id x = client_builds_id r \<and> client_builds_attempts r < 5 \<and>
    (client_builds_status r = ''queued'' \<or> lease_before (client_builds_lease_until r) now)"
  have p: "?p r \<longleftrightarrow> client_builds_id r = client_builds_id x" if "r \<in> set (db_client_builds d)" for r
    using distinct_keyD [OF assms(1) assms(4) that] assms(5) by (auto simp: claimable_def)
  have "filter ?p (db_client_builds d) = [x]"
    using filter_distinct_key [OF assms(1,4)] p by (simp cong: filter_cong)
  moreover have "upd_where ?p f (db_client_builds d) = upd_where (\<lambda>r. client_builds_id r = client_builds_id x) f (db_client_builds d)" for f
    unfolding upd_where_def using p by (intro map_cong) auto
  ultimately show ?thesis
    using assms(2,3) by (simp add: claim_build_def stmt_run Let_def cong: client_builds_row.fold_congs)
qed

text \<open>C29: A worker leases the oldest build it can build.  On a store that answers,
  ClaimClientBuild leases the oldest build that matches the worker's capabilities, has
  attempts left and is queued or has a lease that has run out: exactly this row is
  changed, and a build leased to the worker until the asked instant is returned.  A build
  whose lease is still running is never taken.  When there is no such build it answers
  ErrNotFound and changes nothing.\<close>

theorem ClaimClientBuild_exact:
  assumes "distinct (map client_builds_id (db_client_builds d))" "db_faults d = []"
    "ClaimClientBuild w fs ps as now until d = (r, d')"
  shows "(\<exists>x b. x \<in> set (db_client_builds d) \<and> claimable fs ps as (millis now) x \<and>
       (\<forall>y\<in>set (db_client_builds d). claimable fs ps as (millis now) y \<longrightarrow>
          client_builds_created_at x \<le> client_builds_created_at y) \<and>
       d' = db_client_builds_update (upd_where (\<lambda>y. client_builds_id y = client_builds_id x)
              (claim_row w (millis now) (millis until))) d \<and>
       r = Inr b \<and> ClientBuild_WorkerID b = w \<and> ClientBuild_Status b = ''leased'' \<and>
       ClientBuild_LeaseUntil b = Some (fromMillis (millis until))) \<or>
    (\<forall>x\<in>set (db_client_builds d). \<not> claimable fs ps as (millis now) x) \<and> r = Inl ErrNotFound \<and> d' = d"
proof (rule next_build_cases [of fs ps as "millis now" d])
  assume none: "next_build fs ps as (millis now) d = None"
    "\<forall>x\<in>set (db_client_builds d). \<not> claimable fs ps as (millis now) x"
  have "claim_build w fs ps as (millis now) (millis until) d = (Inr 0, d)"
    using none(1) assms(2) by (simp add: claim_build_def stmt_run Let_def upd_where_none)
  then show ?thesis using assms(3) none(2) by (auto simp: ClaimClientBuild_def statement_run split: if_splits)
next
  fix x assume x: "next_build fs ps as (millis now) d = Some (client_builds_id x)" "x \<in> set (db_client_builds d)"
    "claimable fs ps as (millis now) x"
    "\<forall>y\<in>set (db_client_builds d). claimable fs ps as (millis now) y \<longrightarrow> client_builds_created_at x \<le> client_builds_created_at y"
  define e where "e = db_client_builds_update (upd_where (\<lambda>r. client_builds_id r = client_builds_id x)
    (claim_row w (millis now) (millis until))) d"
  let ?mine = "\<lambda>r. client_builds_worker_id r = w \<and> client_builds_status r = ''leased'' \<and>
    client_builds_lease_until r = Some (millis until)"
  have claim: "claim_build w fs ps as (millis now) (millis until) d = (Inr 1, e)"
    using claim_build_run [OF assms(1,2) x(1-3)] by (simp add: e_def)
  have "claim_row w (millis now) (millis until) x \<in> set (filter ?mine (db_client_builds e))"
    using x(2) by (auto simp: e_def upd_where_def claim_row_def)
  then have "set (sort_key client_builds_created_at (filter ?mine (db_client_builds e))) \<noteq> {}"
    unfolding set_sort by (metis empty_iff)
  then obtain y ys where y: "sort_key client_builds_created_at (filter ?mine (db_client_builds e)) = y # ys"
    unfolding set_empty neq_Nil_conv by blast
  have "y \<in> set (filter ?mine (db_client_builds e))" using arg_cong [OF y, of set] by auto
  then have mine: "?mine y" by simp
  have "fs \<noteq> []" "ps \<noteq> []" "as \<noteq> []" using x(3) by (auto simp: claimable_def)
  then have "r = Inr (scanClientBuild y) \<and> d' = e"
    using assms(2,3) claim y by (simp add: ClaimClientBuild_def statement_run e_def)
  then show ?thesis using x(2-4) mine
    by (intro disjI1 exI [of _ x] exI [of _ "scanClientBuild y"]) (simp add: e_def scanClientBuild_def)
qed

definition example_build :: "string \<Rightarrow> string \<Rightarrow> int option \<Rightarrow> int \<Rightarrow> client_builds_row" where
  "example_build i status lease created = \<lparr>client_builds_id = i, client_builds_profile_id = ''p'',
     client_builds_target_os = ''linux'', client_builds_architecture = ''x86_64'', client_builds_format = ''deb'',
     client_builds_status = status, client_builds_artifact_name = [], client_builds_media_type = [],
     client_builds_sha256 = [], client_builds_error = [], client_builds_artifact = [], client_builds_created_by = ''u'',
     client_builds_worker_id = ''other'', client_builds_attempts = 1, client_builds_created_at = created,
     client_builds_started_at = None, client_builds_lease_until = lease, client_builds_completed_at = None\<rparr>"

definition builds_example :: db where
  "builds_example = empty_db\<lparr>db_client_builds :=
     [example_build ''b1'' ''building'' (Some 100) 1, example_build ''b2'' ''leased'' (Some 5) 2]\<rparr>"

theorem ClaimClientBuild_exact_witness:
  "\<exists>b. fst (ClaimClientBuild ''w'' [''deb''] [''linux''] [''x86_64''] (fromMillis 10) (fromMillis 90) builds_example) = Inr b \<and>
     ClientBuild_WorkerID b = ''w'' \<and>
     db_client_builds (snd (ClaimClientBuild ''w'' [''deb''] [''linux''] [''x86_64''] (fromMillis 10) (fromMillis 90) builds_example)) =
       [example_build ''b1'' ''building'' (Some 100) 1,
        claim_row ''w'' 10 90 (example_build ''b2'' ''leased'' (Some 5) 2)]"
proof -
  obtain r d' where run: "ClaimClientBuild ''w'' [''deb''] [''linux''] [''x86_64''] (fromMillis 10) (fromMillis 90) builds_example = (r, d')"
    by fastforce
  have rows: "db_client_builds builds_example =
      [example_build ''b1'' ''building'' (Some 100) 1, example_build ''b2'' ''leased'' (Some 5) 2]"
    by (simp add: builds_example_def)
  have claim: "claimable [''deb''] [''linux''] [''x86_64''] 10 x \<longleftrightarrow> x = example_build ''b2'' ''leased'' (Some 5) 2"
    if "x \<in> set (db_client_builds builds_example)" for x
    using that by (auto simp: rows claimable_def example_build_def running_status_def lease_before_def)
  have "distinct (map client_builds_id (db_client_builds builds_example))" "db_faults builds_example = []"
    by (simp_all add: rows example_build_def) (simp add: builds_example_def empty_db_def)
  from ClaimClientBuild_exact [OF this run] claim
  obtain b where "r = Inr b" "ClientBuild_WorkerID b = ''w''" and
    d': "d' = db_client_builds_update (upd_where (\<lambda>y. client_builds_id y = ''b2'') (claim_row ''w'' 10 90)) builds_example"
    by (auto simp: rows example_build_def)
  then show ?thesis using run by (simp add: d' rows upd_where_def example_build_def)
qed

end
