(* ===== verification/Store_Policies.thy ===== *)
theory Store_Policies
  imports Store_Sessions
begin

text \<open>
  Access rules, strategies, runtime settings and user preferences, as
  internal/store/sqlstore/store.go keeps them.
\<close>

section \<open>Access rules\<close>

definition acl_row_of :: "ACLRule \<Rightarrow> acl_rules_row" where
  "acl_row_of v = \<lparr>acl_rules_id = ACLRule_ID v, acl_rules_name = ACLRule_Name v,
     acl_rules_subject_type = ACLRule_SubjectType v, acl_rules_subject_id = ACLRule_SubjectID v,
     acl_rules_target_type = ACLRule_TargetType v, acl_rules_target_id = ACLRule_TargetID v,
     acl_rules_permissions = ACLRule_Permissions v, acl_rules_effect = ACLRule_Effect v,
     acl_rules_enabled = ACLRule_Enabled v, acl_rules_priority = ACLRule_Priority v,
     acl_rules_created_at = millis (ACLRule_CreatedAt v),
     acl_rules_updated_at = millis (ACLRule_UpdatedAt v)\<rparr>"

definition scan_acl :: "acl_rules_row \<Rightarrow> ACLRule" where
  "scan_acl r = \<lparr>ACLRule_ID = acl_rules_id r, ACLRule_Name = acl_rules_name r,
     ACLRule_SubjectType = acl_rules_subject_type r, ACLRule_SubjectID = acl_rules_subject_id r,
     ACLRule_TargetType = acl_rules_target_type r, ACLRule_TargetID = acl_rules_target_id r,
     ACLRule_Permissions = acl_rules_permissions r, ACLRule_Effect = acl_rules_effect r,
     ACLRule_Enabled = acl_rules_enabled r, ACLRule_Priority = acl_rules_priority r,
     ACLRule_CreatedAt = fromMillis (acl_rules_created_at r),
     ACLRule_UpdatedAt = fromMillis (acl_rules_updated_at r), ACLRule_Deleted = False\<rparr>"

definition CreateACLRule :: "ACLRule \<Rightarrow> (db, unit) prog" where
  "CreateACLRule v = exec_insert db_acl_rules_update
     (\<lambda>d r. \<forall>x\<in>set (db_acl_rules d). acl_rules_id x \<noteq> acl_rules_id r) (acl_row_of v)"

definition ListACLRules :: "(db, ACLRule list) prog" where
  "ListACLRules = query (\<lambda>d. map scan_acl
     (sort_key (\<lambda>r. (acl_rules_priority r, acl_rules_name r)) (db_acl_rules d)))"

definition UpdateACLRule :: "ACLRule \<Rightarrow> (db, unit) prog" where
  "UpdateACLRule v = affected (exec_update db_acl_rules db_acl_rules_update
     (\<lambda>r. acl_rules_id r = ACLRule_ID v)
     (\<lambda>r. (acl_row_of v)\<lparr>acl_rules_created_at := acl_rules_created_at r\<rparr>))"

definition DeleteACLRule :: "string \<Rightarrow> (db, unit) prog" where
  "DeleteACLRule i = affected (exec_delete db_acl_rules db_acl_rules_update (\<lambda>_ r. acl_rules_id r = i))"

section \<open>Strategies\<close>

definition strategy_row_of :: "Strategy \<Rightarrow> strategies_row" where
  "strategy_row_of v = \<lparr>strategies_id = Strategy_ID v, strategies_name = Strategy_Name v,
     strategies_scope_type = Strategy_ScopeType v, strategies_scope_id = Strategy_ScopeID v,
     strategies_priority = Strategy_Priority v, strategies_settings = Strategy_Settings v,
     strategies_enabled = Strategy_Enabled v,
     strategies_created_at = millis (Strategy_CreatedAt v),
     strategies_updated_at = millis (Strategy_UpdatedAt v),
     strategies_deleted = Strategy_Deleted v\<rparr>"

definition scan_strategy :: "strategies_row \<Rightarrow> Strategy" where
  "scan_strategy r = \<lparr>Strategy_ID = strategies_id r, Strategy_Name = strategies_name r,
     Strategy_ScopeType = strategies_scope_type r, Strategy_ScopeID = strategies_scope_id r,
     Strategy_Priority = strategies_priority r, Strategy_Settings = strategies_settings r,
     Strategy_Enabled = strategies_enabled r,
     Strategy_CreatedAt = fromMillis (strategies_created_at r),
     Strategy_UpdatedAt = fromMillis (strategies_updated_at r),
     Strategy_Deleted = strategies_deleted r\<rparr>"

definition CreateStrategy :: "Strategy \<Rightarrow> (db, unit) prog" where
  "CreateStrategy v = exec_insert db_strategies_update
     (\<lambda>d r. \<forall>x\<in>set (db_strategies d). strategies_id x \<noteq> strategies_id r)
     ((strategy_row_of v)\<lparr>strategies_deleted := False\<rparr>)"

definition ListStrategies :: "(db, Strategy list) prog" where
  "ListStrategies = query (\<lambda>d. map scan_strategy
     (sort_key (\<lambda>r. (strategies_priority r, strategies_name r)) (db_strategies d)))"

definition UpdateStrategy :: "Strategy \<Rightarrow> (db, unit) prog" where
  "UpdateStrategy v = affected (exec_update db_strategies db_strategies_update
     (\<lambda>r. strategies_id r = Strategy_ID v)
     (\<lambda>r. (strategy_row_of v)\<lparr>strategies_created_at := strategies_created_at r, strategies_deleted := False\<rparr>))"

definition DeleteStrategy :: "string \<Rightarrow> instant \<Rightarrow> (db, unit) prog" where
  "DeleteStrategy i now = affected (exec_update db_strategies db_strategies_update
     (\<lambda>r. strategies_id r = i \<and> \<not> strategies_deleted r)
     (\<lambda>r. r\<lparr>strategies_enabled := False, strategies_deleted := True, strategies_updated_at := millis now\<rparr>))"

section \<open>Settings and preferences\<close>

definition ListRuntimeSettings :: "(db, (string \<times> string) list) prog" where
  "ListRuntimeSettings = query (\<lambda>d. map (\<lambda>r. (runtime_settings_key r, runtime_settings_value r))
     (sort_key runtime_settings_key (db_runtime_settings d)))"

text \<open>The order in which Go iterates over the map is the order of the list.\<close>

definition UpsertRuntimeSettings :: "(string \<times> string) list \<Rightarrow> instant \<Rightarrow> (db, unit) prog" where
  "UpsertRuntimeSettings values now = transaction (forE values (\<lambda>(key, value).
     exec_upsert db_runtime_settings db_runtime_settings_update
       (\<lambda>x y. runtime_settings_key x = runtime_settings_key y) (\<lambda>_ _. True)
       (\<lambda>x. x\<lparr>runtime_settings_value := value, runtime_settings_updated_at := millis now\<rparr>)
       \<lparr>runtime_settings_key = key, runtime_settings_value = value, runtime_settings_updated_at = millis now\<rparr>))"

definition GetUserPreference :: "string \<Rightarrow> string \<Rightarrow> (db, string) prog" where
  "GetUserPreference userID key = scan_found user_preferences_value (query_row (\<lambda>d.
     find (\<lambda>r. user_preferences_user_id r = userID \<and> user_preferences_key r = key) (db_user_preferences d)))"

definition UpsertUserPreference :: "string \<Rightarrow> string \<Rightarrow> string \<Rightarrow> instant \<Rightarrow> (db, unit) prog" where
  "UpsertUserPreference userID key value now = exec_upsert db_user_preferences db_user_preferences_update
     (\<lambda>x y. user_preferences_user_id x = user_preferences_user_id y \<and> user_preferences_key x = user_preferences_key y)
     (\<lambda>_ _. True)
     (\<lambda>x. x\<lparr>user_preferences_value := value, user_preferences_updated_at := millis now\<rparr>)
     \<lparr>user_preferences_user_id = userID, user_preferences_key = key, user_preferences_value = value,
      user_preferences_updated_at = millis now\<rparr>"

end
