(* ===== verification/Audit_Service.thy ===== *)
theory Audit_Service
  imports Auth_Runs Store_Audit Store_Events
begin

text \<open>
  The audit service of internal/audit/service.go: an event gets an identifier and an
  instant, is appended to the log, projected into a notification for the security team and
  published.
\<close>

definition AuditRecorded :: string where "AuditRecorded = ''AUDIT_RECORDED''"

text \<open>Severity, title and message of the notification for an event type.\<close>

definition notification_text :: "string \<Rightarrow> (string \<times> string \<times> string) option" where
  "notification_text t =
     (if t = ''login_failed'' then Some (''warning'', ''Failed sign-in'', ''A sign-in attempt was denied'')
      else if t = ''device_identity_mismatch'' then
        Some (''critical'', ''Device identity mismatch'', ''A client presented an unexpected device identity'')
      else if t = ''user_registration'' then
        Some (''info'', ''Registration pending'', ''A new user registration requires approval'')
      else if t = ''mfa_disabled'' \<or> t = ''mfa_admin_reset'' then
        Some (''warning'', ''Multi-factor authentication changed'', ''Multi-factor authentication was disabled or reset'')
      else if t = ''api_token_create'' then
        Some (''info'', ''API token created'', ''A new deployment API token was created'')
      else if t = ''server_control_command'' then
        Some (''info'', ''Server command queued'', ''An authenticated server-control command was queued'')
      else None)"

definition notificationFor :: "world \<Rightarrow> AuditEvent \<Rightarrow> (server, Notification option) prog" where
  "notificationFor w event = (case notification_text (AuditEvent_Type event) of
      None \<Rightarrow> ret None
    | Some (severity, title, message) \<Rightarrow>
        bindE (new_uuid w) (\<lambda>uid.
        ret (Some \<lparr>Notification_ID = uid, Notification_Type = AuditEvent_Type event,
          Notification_Severity = severity, Notification_Title = title, Notification_Message = message,
          Notification_Resource = (if AuditEvent_TargetRustDeskID event = [] then AuditEvent_ActorUserID event
            else AuditEvent_TargetRustDeskID event),
          Notification_CreatedAt = AuditEvent_OccurredAt event, Notification_ReadAt = None\<rparr>)))"

definition same_recent :: "Notification \<Rightarrow> duration \<Rightarrow> Notification \<Rightarrow> bool" where
  "same_recent candidate window value \<longleftrightarrow>
     Notification_Type value = Notification_Type candidate \<and>
     Notification_Resource value = Notification_Resource candidate \<and>
     time_Sub (Notification_CreatedAt candidate) (Notification_CreatedAt value) \<ge> 0 \<and>
     time_Sub (Notification_CreatedAt candidate) (Notification_CreatedAt value) < window"

definition hasRecentNotification :: "Notification \<Rightarrow> duration \<Rightarrow> (server, bool) prog" where
  "hasRecentNotification candidate window = attempt (sql (ListNotifications 100 False)) (\<lambda>r. case r of
      Inl _ \<Rightarrow> ret False
    | Inr values \<Rightarrow> ret (list_ex (same_recent candidate window) values))"

definition notify :: "Notification option \<Rightarrow> (server, unit) prog" where
  "notify n = (case n of
      None \<Rightarrow> ret ()
    | Some notification \<Rightarrow>
        bindE (if Notification_Type notification \<noteq> ''device_identity_mismatch'' then ret False
               else hasRecentNotification notification (15 * Minute)) (\<lambda>recent.
        if recent then ret () else ignoreE (sql (CreateNotification notification)) (ret ())))"

text \<open>The service that main builds has the hub.\<close>

definition Record :: "world \<Rightarrow> AuditEvent \<Rightarrow> (server, unit) prog" where
  "Record w event0 =
     bindE (if AuditEvent_ID event0 = [] then new_uuid w else ret (AuditEvent_ID event0)) (\<lambda>uid.
     bindE (if IsZero (AuditEvent_OccurredAt event0) then now_of w else ret (AuditEvent_OccurredAt event0)) (\<lambda>now.
     let event = event0\<lparr>AuditEvent_ID := uid, AuditEvent_OccurredAt := now\<rparr> in
     thenE (sql (AppendAudit event))
     (bindE (notificationFor w event) (\<lambda>n.
      thenE (notify n)
            (publish AuditRecorded (PAudit event))))))"

text \<open>An event literal of the callers: the fields it leaves out are zero.\<close>

definition audit_event :: "string \<Rightarrow> string \<Rightarrow> string \<Rightarrow> (string \<times> json) list \<Rightarrow> AuditEvent" where
  "audit_event t actor result metadata = \<lparr>AuditEvent_ID = [], AuditEvent_OccurredAt = zero_time, AuditEvent_Type = t,
     AuditEvent_ActorUserID = actor, AuditEvent_ActorSessionID = [], AuditEvent_ControllerDevice = [],
     AuditEvent_TargetRustDeskID = [], AuditEvent_IP = [], AuditEvent_Result = result, AuditEvent_Reason = [],
     AuditEvent_Metadata = metadata\<rparr>"

section \<open>What an audit record leaves alone\<close>

text \<open>Every table but the audit log and the notifications.\<close>

definition audited :: "db \<Rightarrow> db \<Rightarrow> bool" where
  "audited d d' \<longleftrightarrow> same_tables (d\<lparr>db_audit_events := [], db_notifications := []\<rparr>)
     (d'\<lparr>db_audit_events := [], db_notifications := []\<rparr>)"

lemma audited_updates [simp]:
  "audited d (db_audit_events_update f e) = audited d e"
  "audited d (db_notifications_update g e) = audited d e"
  by (simp_all add: audited_def)

interpretation aud: db_rel audited
  by unfold_locales (auto simp: audited_def same_tables_def set_faults_def)

interpretation auds: server_rel audited
  by unfold_locales

lemma audited_Record: "steps (on_db audited) (Record w event)"
  unfolding Record_def notificationFor_def notify_def hasRecentNotification_def Let_def
  by (intro auds.lifted_intros auds.steps_sql auds.steps_publish auds.steps_draw)
    (auto simp: AppendAudit_def CreateNotification_def ListNotifications_def
      intro!: aud.basic_intros aud.step_refl)

lemma audited_same:
  assumes "audited d d'"
    and "\<And>fs d. f (set_faults fs d) = f d"
    and "\<And>g d. f (db_audit_events_update g d) = f d" "\<And>g d. f (db_notifications_update g d) = f d"
  shows "f d' = f d"
proof -
  from assms(1) have "d'\<lparr>db_audit_events := [], db_notifications := []\<rparr> = set_faults (db_faults d')
      (d\<lparr>db_audit_events := [], db_notifications := []\<rparr>)"
    by (auto simp: audited_def elim!: same_tablesE)
  then have "f (d'\<lparr>db_audit_events := [], db_notifications := []\<rparr>) = f (d\<lparr>db_audit_events := [], db_notifications := []\<rparr>)"
    using assms(2) by simp
  then show ?thesis using assms(3,4) by simp
qed

end
