(* ===== verification/Http.thy ===== *)
theory Http
  imports Audit_Service
begin

text \<open>
  What the handlers of internal/httpapi share: the reply, the error branches and the
  middleware.  A handler is a program of the server that returns its reply; the decoded body
  of a request is an argument, None where decodeJSON fails.
\<close>

section \<open>Replies\<close>

text \<open>\<open>WriteErr n e\<close> is writeError with the text of the error \<open>e\<close>.\<close>

datatype 'a reply =
    WriteJSON int 'a
  | WriteError int string
  | WriteErr int error
  | WriteHeader int

primrec status :: "'a reply \<Rightarrow> int" where
  "status (WriteJSON n _) = n"
| "status (WriteError n _) = n"
| "status (WriteErr n _) = n"
| "status (WriteHeader n) = n"

text \<open>The branch \<open>if err != nil { ...; return }\<close>.\<close>

definition handleE :: "('s, 'a) prog \<Rightarrow> (error \<Rightarrow> 'b) \<Rightarrow> ('a \<Rightarrow> ('s, 'b) prog) \<Rightarrow> ('s, 'b) prog" where
  "handleE m h k = attempt m (\<lambda>r. case r of Inl e \<Rightarrow> ret (h e) | Inr a \<Rightarrow> k a)"

definition statusForStore :: "error \<Rightarrow> int" where
  "statusForStore err = (if errors_Is err ErrNotFound then 404 else 500)"

text \<open>\<open>xs[from:to]\<close>: out of range it panics, and the recoverer answers 500.\<close>

definition slice :: "'a list \<Rightarrow> int \<Rightarrow> int \<Rightarrow> 'a list option" where
  "slice xs from to = (if 0 \<le> from \<and> from \<le> to \<and> to \<le> int (length xs)
     then Some (take (nat to - nat from) (drop (nat from) xs)) else None)"

definition recovered :: "'a reply" where "recovered = WriteError 500 ''internal server error''"

section \<open>Principals\<close>

record Principal =
  Principal_User :: User
  Principal_Session :: Session
  Principal_Claims :: Claims

definition authErrorMessage :: "error \<Rightarrow> string" where
  "authErrorMessage err =
     (if errors_Is err ErrTokenExpired \<or> errors_Is err ErrSessionExpired then ''session expired''
      else if errors_Is err ErrSessionRevoked then ''session revoked''
      else if errors_Is err ErrUserDisabled then ''user disabled''
      else if errors_Is err ErrApprovalRejected then ''registration rejected''
      else if errors_Is err ErrStaleToken then ''force re-login required''
      else ''invalid token'')"

text \<open>\<open>header\<close> is the Authorization header, empty when absent.\<close>

definition requireAuth ::
  "world \<Rightarrow> Service \<Rightarrow> (Principal \<Rightarrow> (server, 'a reply) prog) \<Rightarrow> string \<Rightarrow> (server, 'a reply) prog" where
  "requireAuth w svc next header =
     (if \<not> HasPrefix header ''Bearer '' then ret (WriteError 401 ''authentication required'')
      else handleE (Authenticate w svc (TrimSpace (TrimPrefix header ''Bearer ''))) (\<lambda>err. WriteError 401 (authErrorMessage err))
        (\<lambda>(user, session, claims).
           next \<lparr>Principal_User = user, Principal_Session = session, Principal_Claims = claims\<rparr>))"

definition hasPermission :: "User \<Rightarrow> string \<Rightarrow> bool" where
  "hasPermission user permission \<longleftrightarrow> User_Role user = RoleAdmin \<or>
     list_ex (\<lambda>candidate. candidate = PermissionAll \<or> candidate = permission) (User_Permissions user)"

definition requirePermission ::
  "world \<Rightarrow> Service \<Rightarrow> string \<Rightarrow> (Principal \<Rightarrow> (server, 'a reply) prog) \<Rightarrow> string \<Rightarrow> (server, 'a reply) prog" where
  "requirePermission w svc permission next = requireAuth w svc (\<lambda>principal.
     if \<not> hasPermission (Principal_User principal) permission then ret (WriteError 403 ''forbidden'')
     else next principal)"

text \<open>subtle.ConstantTimeCompare of slices of one length is equality.\<close>

definition requireInternal ::
  "string \<Rightarrow> (server, 'a reply) prog \<Rightarrow> string \<Rightarrow> string \<Rightarrow> (server, 'a reply) prog" where
  "requireInternal internalSecret next rds art =
     (let header = (if rds = [] then art else rds) in
      if length header \<noteq> length internalSecret \<or> header \<noteq> internalSecret
      then ret (WriteError 401 ''unauthorized'') else next)"

definition requireBuilder :: "string \<Rightarrow> (server, 'a reply) prog \<Rightarrow> string \<Rightarrow> (server, 'a reply) prog" where
  "requireBuilder builderToken next authorization =
     (let candidate = TrimSpace (TrimPrefix (TrimSpace authorization) ''Bearer '') in
      if length builderToken < 32 \<or> length candidate \<noteq> length builderToken \<or> candidate \<noteq> builderToken
      then ret (WriteError 401 ''unauthorized'') else next)"

section \<open>Rules\<close>

lemma handleE_run [prog_simps]:
  "handleE m h k s = (case fst (m s) of Inl e \<Rightarrow> (Inr (h e), snd (m s)) | Inr a \<Rightarrow> k a (snd (m s)))"
  by (simp add: handleE_def attempt_run split: sum.split)

context step_rel
begin

lemma steps_handleE: "steps R m \<Longrightarrow> (\<And>a. steps R (k a)) \<Longrightarrow> steps R (handleE m h k)"
  unfolding handleE_def by (intro steps_attempt steps_sum steps_ret)

lemma steps_handleE_post:
  assumes m: "steps R m" and post: "\<And>s a s'. m s = (Inr a, s') \<Longrightarrow> P a" and k: "\<And>a. P a \<Longrightarrow> steps R (k a)"
  shows "steps R (handleE m h k)"
proof (rule stepsI)
  fix s
  obtain r s' where r: "m s = (r, s')" by fastforce
  show "R s (snd (handleE m h k s))"
  proof (cases r)
    case (Inr a)
    then show ?thesis using r stepsD [OF m r] post k step_trans by (simp add: handleE_run steps_def)
  qed (use r stepsD [OF m r] in \<open>simp add: handleE_run\<close>)
qed

end

context server_rel
begin

lemmas steps_handle = step_rel.steps_handleE [OF lifted]

lemmas steps_post = step_rel.steps_bindE_post [OF lifted] step_rel.steps_handleE_post [OF lifted]

lemmas handler_intros = steps_handle server_intros

end

lemma handleE_bindE: "handleE (bindE m k) h n = handleE m h (\<lambda>a. handleE (k a) h n)"
  by (rule ext) (simp add: handleE_run bindE_run split: sum.split)

end
