(* ===== verification/AddressBook.thy ===== *)
theory AddressBook
  imports Auth_Runs Store_Books
begin

text \<open>
  The address-book service of internal/addressbook/service.go: who may read, write and manage
  a book, and the grants of shared books.  The rule that the service implements is
  \<open>book_rank\<close>.
\<close>

section \<open>Permissions\<close>

definition PermissionRead :: string where "PermissionRead = ''read''"
definition PermissionWrite :: string where "PermissionWrite = ''write''"
definition PermissionManage :: string where "PermissionManage = ''manage''"

definition permissionRank :: "string \<Rightarrow> int" where
  "permissionRank value = (if value = PermissionRead then 1 else if value = PermissionWrite then 2
     else if value = PermissionManage then 3 else 0)"

definition grant_matches :: "User \<Rightarrow> string list \<Rightarrow> AddressBookGrant \<Rightarrow> bool" where
  "grant_matches user groups grant =
     (if AddressBookGrant_SubjectType grant = ''user_group'' then AddressBookGrant_SubjectID grant \<in> set groups
      else AddressBookGrant_SubjectType grant = ''user'' \<and> AddressBookGrant_SubjectID grant = User_ID user)"

definition better_grant :: "User \<Rightarrow> string list \<Rightarrow> AddressBookGrant \<Rightarrow> string \<Rightarrow> string" where
  "better_grant user groups grant best =
     (if grant_matches user groups grant \<and> permissionRank (AddressBookGrant_Permission grant) > permissionRank best
      then AddressBookGrant_Permission grant else best)"

definition permissionFrom ::
  "User \<Rightarrow> AddressBook \<Rightarrow> AddressBookGrant list \<Rightarrow> UserGroupMembership list \<Rightarrow> error + string" where
  "permissionFrom user book grants memberships =
     (if User_Role user = RoleAdmin \<or> User_ID user = AddressBook_OwnerUserID book then Inr PermissionManage
      else if AddressBook_Kind book \<noteq> ''shared'' then Inl ErrForbidden
      else let groups = map UserGroupMembership_GroupID
                 (filter (\<lambda>m. UserGroupMembership_Active m \<and> UserGroupMembership_UserID m = User_ID user) memberships);
               best = fold (better_grant user groups) grants []
           in if best = [] then Inl ErrForbidden else Inr best)"

definition AddressBook_permission :: "User \<Rightarrow> AddressBook \<Rightarrow> (server, string) prog" where
  "AddressBook_permission user book =
     (if User_Role user = RoleAdmin \<or> User_ID user = AddressBook_OwnerUserID book then ret PermissionManage
      else if AddressBook_Kind book \<noteq> ''shared'' then throw ErrForbidden
      else bindE (sql (ListAddressBookGrants (AddressBook_ID book))) (\<lambda>grants.
           bindE (sql ListUserGroupMemberships) (\<lambda>memberships.
           liftE (permissionFrom user book grants memberships))))"

definition with_permission :: "string \<Rightarrow> AddressBook \<Rightarrow> AddressBook" where
  "with_permission permission book =
     book\<lparr>AddressBook_Permission := permission, AddressBook_CanManage := (permission = PermissionManage)\<rparr>"

section \<open>The operations\<close>

text \<open>The turn of List's loop for one book: permissionFrom fails with ErrForbidden only, on
  which the loop goes on.\<close>

definition book_access ::
  "User \<Rightarrow> AddressBookGrant list \<Rightarrow> UserGroupMembership list \<Rightarrow> AddressBook \<Rightarrow> AddressBook option" where
  "book_access user grants memberships book =
     (case permissionFrom user book (filter (\<lambda>g. AddressBookGrant_AddressBookID g = AddressBook_ID book) grants) memberships of
        Inl _ \<Rightarrow> None
      | Inr permission \<Rightarrow> Some (with_permission permission book))"

definition AddressBook_List :: "User \<Rightarrow> (server, AddressBook list) prog" where
  "AddressBook_List user =
     bindE (sql ListAddressBooks) (\<lambda>books.
     bindE (sql ListAllAddressBookGrants) (\<lambda>grants.
     bindE (sql ListUserGroupMemberships) (\<lambda>memberships.
     ret (List.map_filter (book_access user grants memberships) books))))"

definition Authorize :: "User \<Rightarrow> string \<Rightarrow> string \<Rightarrow> (server, AddressBook) prog" where
  "Authorize user bookID required =
     bindE (sql (FindAddressBookByID bookID)) (\<lambda>book.
     bindE (AddressBook_permission user book) (\<lambda>permission.
     if permissionRank permission < permissionRank required then throw ErrForbidden
     else ret (with_permission permission book)))"

definition Grants :: "User \<Rightarrow> string \<Rightarrow> (server, AddressBookGrant list) prog" where
  "Grants user bookID =
     bindE (Authorize user bookID PermissionManage) (\<lambda>book.
     if AddressBook_Kind book \<noteq> ''shared'' then throw ErrForbidden
     else sql (ListAddressBookGrants bookID))"

definition grant_refused :: "AddressBook \<Rightarrow> AddressBookGrant \<Rightarrow> bool" where
  "grant_refused book grant \<longleftrightarrow> AddressBook_Kind book \<noteq> ''shared'' \<or>
     (AddressBookGrant_SubjectType grant \<noteq> ''user'' \<and> AddressBookGrant_SubjectType grant \<noteq> ''user_group'') \<or>
     (AddressBookGrant_Permission grant \<noteq> PermissionRead \<and> AddressBookGrant_Permission grant \<noteq> PermissionWrite)"

definition check_subject :: "AddressBookGrant \<Rightarrow> (server, unit) prog" where
  "check_subject grant =
     (if AddressBookGrant_SubjectType grant = ''user''
      then thenE (sql (FindUserByID (AddressBookGrant_SubjectID grant))) (ret ())
      else bindE (sql (FindGroupByID (AddressBookGrant_SubjectID grant))) (\<lambda>group.
           if Group_Kind group \<noteq> GroupKindUser then throw ErrForbidden else ret ()))"

definition same_subject :: "AddressBookGrant \<Rightarrow> AddressBookGrant \<Rightarrow> bool" where
  "same_subject grant current \<longleftrightarrow> AddressBookGrant_SubjectType current = AddressBookGrant_SubjectType grant \<and>
     AddressBookGrant_SubjectID current = AddressBookGrant_SubjectID grant"

definition PutGrant :: "world \<Rightarrow> User \<Rightarrow> AddressBookGrant \<Rightarrow> (server, AddressBookGrant) prog" where
  "PutGrant w user grant0 =
     bindE (Authorize user (AddressBookGrant_AddressBookID grant0) PermissionManage) (\<lambda>book.
     if grant_refused book grant0 then throw ErrForbidden
     else let grant = grant0\<lparr>AddressBookGrant_SubjectID := TrimSpace (AddressBookGrant_SubjectID grant0)\<rparr> in
     if AddressBookGrant_SubjectID grant = [] \<or> AddressBookGrant_SubjectID grant = AddressBook_OwnerUserID book
     then throw ErrForbidden
     else thenE (check_subject grant)
     (bindE (now_of w) (\<lambda>now.
      bindE (new_uuid w) (\<lambda>uid.
      let grant = grant\<lparr>AddressBookGrant_ID := uid, AddressBookGrant_CreatedAt := now, AddressBookGrant_UpdatedAt := now\<rparr> in
      thenE (sql (UpsertAddressBookGrant grant))
      (bindE (sql (ListAddressBookGrants (AddressBookGrant_AddressBookID grant))) (\<lambda>grants.
       ret (case find (same_subject grant) grants of None \<Rightarrow> grant | Some current \<Rightarrow> current)))))))"

definition DeleteGrant :: "User \<Rightarrow> string \<Rightarrow> string \<Rightarrow> (server, unit) prog" where
  "DeleteGrant user bookID grantID =
     bindE (Authorize user bookID PermissionManage) (\<lambda>book.
     if AddressBook_Kind book \<noteq> ''shared'' then throw ErrForbidden
     else sql (DeleteAddressBookGrant bookID grantID))"

section \<open>The rule\<close>

text \<open>A user reaches a grant directly or as a member of the group it names.  Administrators
  and the owner manage a book; on a shared book the best grant decides.\<close>

definition reaches :: "db \<Rightarrow> User \<Rightarrow> address_book_grants_row \<Rightarrow> bool" where
  "reaches d user g \<longleftrightarrow>
     address_book_grants_subject_type g = ''user'' \<and> address_book_grants_subject_id g = User_ID user \<or>
     address_book_grants_subject_type g = ''user_group'' \<and>
       (\<exists>m\<in>set (db_user_group_memberships d). user_group_memberships_user_id m = User_ID user \<and>
          user_group_memberships_group_id m = address_book_grants_subject_id g)"

definition book_rank :: "db \<Rightarrow> User \<Rightarrow> address_books_row \<Rightarrow> int" where
  "book_rank d user b =
     (if User_Role user = RoleAdmin \<or> User_ID user = address_books_owner_user_id b then 3
      else if address_books_kind b \<noteq> ''shared'' then 0
      else Max (insert 0 {permissionRank (address_book_grants_permission g) | g.
             g \<in> set (db_address_book_grants d) \<and> address_book_grants_address_book_id g = address_books_id b \<and>
             reaches d user g}))"

section \<open>The best grant\<close>

lemma permissionRank_cases: "permissionRank p \<in> {0, 1, 2, 3}"
  by (simp add: permissionRank_def)

lemma permissionRank_values [simp]:
  "permissionRank [] = 0" "permissionRank PermissionRead = 1" "permissionRank PermissionWrite = 2"
  "permissionRank PermissionManage = 3"
  by (simp_all add: permissionRank_def PermissionRead_def PermissionWrite_def PermissionManage_def)

lemma permissionRank_inj: "permissionRank p = permissionRank q \<Longrightarrow> permissionRank p > 0 \<Longrightarrow> p = q"
  by (auto simp: permissionRank_def split: if_splits)

lemma permissionRank_nonneg: "0 \<le> permissionRank p"
  by (simp add: permissionRank_def)

lemma Max_insert_max: "finite S \<Longrightarrow> Max (insert a (insert b S)) = Max (insert (max a b) S)"
  by (cases "S = {}") (simp_all add: max.assoc)

text \<open>The loop over the grants computes the best rank of those that match.\<close>

lemma fold_better_grant:
  "permissionRank (fold (better_grant user groups) gs best) =
     Max (insert (permissionRank best)
       (permissionRank ` AddressBookGrant_Permission ` {g \<in> set gs. grant_matches user groups g}))"
proof (induction gs arbitrary: best)
  case (Cons g gs)
  let ?r = "permissionRank (AddressBookGrant_Permission g)"
  let ?S = "permissionRank ` AddressBookGrant_Permission ` {g \<in> set gs. grant_matches user groups g}"
  have S: "permissionRank ` AddressBookGrant_Permission ` {x \<in> set (g # gs). grant_matches user groups x} =
      (if grant_matches user groups g then insert ?r ?S else ?S)" by auto
  have M: "Max (insert a (insert b ?S)) = Max (insert (max a b) ?S)" for a b
    by (rule Max_insert_max) simp
  show ?case
  proof (cases "grant_matches user groups g")
    case True
    then have "permissionRank (better_grant user groups g best) = max (permissionRank best) ?r"
      by (simp add: better_grant_def max_def)
    then show ?thesis unfolding S fold_simps Cons.IH by (simp only: True M if_True)
  next
    case False
    then have "better_grant user groups g best = best" by (simp add: better_grant_def)
    then show ?thesis unfolding S fold_simps Cons.IH by (simp only: False if_False)
  qed
qed simp

lemma fold_better_grant_Nil: "fold (better_grant user groups) gs [] = [] \<longleftrightarrow>
    permissionRank (fold (better_grant user groups) gs []) = 0"
proof -
  have "fold (better_grant user groups) gs best = best \<or>
      0 < permissionRank (fold (better_grant user groups) gs best)" for best
  proof (induction gs arbitrary: best)
    case (Cons g gs)
    show ?case
    proof (cases "better_grant user groups g best = best")
      case True
      then show ?thesis using Cons [of best] by simp
    next
      case False
      then have "0 < permissionRank (better_grant user groups g best)"
        using permissionRank_nonneg [of best] by (auto simp: better_grant_def split: if_splits)
      then show ?thesis using Cons [of "better_grant user groups g best"] by fastforce
    qed
  qed simp
  from this [of "[]"] show ?thesis by auto
qed

text \<open>What the queries give the service.\<close>

definition membership_of :: "user_group_memberships_row \<Rightarrow> UserGroupMembership" where
  "membership_of x = \<lparr>UserGroupMembership_GroupID = user_group_memberships_group_id x,
     UserGroupMembership_UserID = user_group_memberships_user_id x, UserGroupMembership_Active = True\<rparr>"

lemma grant_matches_reaches:
  assumes "set ms = membership_of ` set (db_user_group_memberships d)"
  shows "grant_matches user (map UserGroupMembership_GroupID
      (filter (\<lambda>m. UserGroupMembership_Active m \<and> UserGroupMembership_UserID m = User_ID user) ms))
      (scanAddressBookGrants g) \<longleftrightarrow> reaches d user g"
proof -
  have "set (map UserGroupMembership_GroupID (filter (\<lambda>m. UserGroupMembership_Active m \<and>
      UserGroupMembership_UserID m = User_ID user) ms)) = user_group_memberships_group_id `
      {m \<in> set (db_user_group_memberships d). user_group_memberships_user_id m = User_ID user}"
  proof -
    have "{m \<in> membership_of ` A. P m} = membership_of ` {x \<in> A. P (membership_of x)}" for A P by blast
    then show ?thesis unfolding set_map set_filter assms
      by (simp add: image_image) (simp add: membership_of_def)
  qed
  then have "x \<in> set (map UserGroupMembership_GroupID (filter (\<lambda>m. UserGroupMembership_Active m \<and>
      UserGroupMembership_UserID m = User_ID user) ms)) \<longleftrightarrow>
      (\<exists>m\<in>set (db_user_group_memberships d). user_group_memberships_user_id m = User_ID user \<and>
        user_group_memberships_group_id m = x)" for x by (simp only:) blast
  then show ?thesis by (simp add: grant_matches_def reaches_def scanAddressBookGrants_def del: set_map set_filter)
qed

text \<open>permissionFrom on the rows of a database computes the rule.\<close>

lemma permissionFrom_rank:
  assumes ms: "set ms = membership_of ` set (db_user_group_memberships d)"
    and gs: "set gs = scanAddressBookGrants ` {g \<in> set (db_address_book_grants d).
      address_book_grants_address_book_id g = address_books_id b}"
  shows "permissionFrom user (scan_book b) gs ms = Inr p \<longleftrightarrow>
      0 < book_rank d user b \<and> permissionRank p = book_rank d user b"
    and "permissionFrom user (scan_book b) gs ms = Inl e \<longleftrightarrow> e = ErrForbidden \<and> book_rank d user b = 0"
proof -
  let ?groups = "map UserGroupMembership_GroupID
      (filter (\<lambda>m. UserGroupMembership_Active m \<and> UserGroupMembership_UserID m = User_ID user) ms)"
  define best where "best = fold (better_grant user ?groups) gs []"
  let ?R = "{permissionRank (address_book_grants_permission g) | g.
             g \<in> set (db_address_book_grants d) \<and> address_book_grants_address_book_id g = address_books_id b \<and>
             reaches d user g}"
  have "{g \<in> set gs. grant_matches user ?groups g} = scanAddressBookGrants ` {g \<in> set (db_address_book_grants d).
      address_book_grants_address_book_id g = address_books_id b \<and> reaches d user g}"
    using gs grant_matches_reaches [OF ms] by auto
  then have "permissionRank ` AddressBookGrant_Permission ` {g \<in> set gs. grant_matches user ?groups g} = ?R"
    by (auto simp: image_image scanAddressBookGrants_def)
  then have rank: "book_rank d user b = (if User_Role user = RoleAdmin \<or> User_ID user = address_books_owner_user_id b then 3
      else if address_books_kind b \<noteq> ''shared'' then 0 else permissionRank best)"
    by (simp add: fold_better_grant book_rank_def best_def)
  have perm: "permissionFrom user (scan_book b) gs ms =
      (if User_Role user = RoleAdmin \<or> User_ID user = address_books_owner_user_id b then Inr PermissionManage
       else if address_books_kind b \<noteq> ''shared'' then Inl ErrForbidden
       else if best = [] then Inl ErrForbidden else Inr best)"
    by (simp add: permissionFrom_def scan_book_def Let_def best_def)
  have manage: "p = PermissionManage \<longleftrightarrow> permissionRank p = 3"
    using permissionRank_inj [of p PermissionManage] by auto
  have same: "best = p \<longleftrightarrow> permissionRank p = permissionRank best" if "permissionRank best > 0"
    using permissionRank_inj [of p best] that by auto
  have none: "best = [] \<longleftrightarrow> permissionRank best = 0" unfolding best_def by (rule fold_better_grant_Nil)
  have pos: "0 \<le> permissionRank best" by (rule permissionRank_nonneg)
  show "permissionFrom user (scan_book b) gs ms = Inr p \<longleftrightarrow>
      0 < book_rank d user b \<and> permissionRank p = book_rank d user b"
    using manage same none pos by (auto simp: perm rank)
  show "permissionFrom user (scan_book b) gs ms = Inl e \<longleftrightarrow> e = ErrForbidden \<and> book_rank d user b = 0"
    using none by (auto simp: perm rank)
qed

end
