(* ===== verification/Http_Books.thy ===== *)
theory Http_Books
  imports Http AddressBook
begin

text \<open>
  The address-book handlers: those of internal/httpapi/server.go for the administration
  console and those of internal/httpapi/address_books.go for the RustDesk clients.
\<close>

section \<open>The console\<close>

definition writeAddressBookError :: "error \<Rightarrow> 'a reply" where
  "writeAddressBookError err =
     (if errors_Is err ErrForbidden then WriteError 403 ''address book access denied''
      else if errors_Is err ErrNotFound then WriteError 404 ''address book not found''
      else WriteError 500 ''address book unavailable'')"

abbreviation actor :: "Principal \<Rightarrow> string" where "actor p \<equiv> User_ID (Principal_User p)"

text \<open>An audit event of a handler, whose failure it ignores, before the reply.\<close>

definition audited_reply :: "world \<Rightarrow> AuditEvent \<Rightarrow> 'a reply \<Rightarrow> (server, 'a reply) prog" where
  "audited_reply w event r = ignoreE (Record w event) (ret r)"

definition listAddressBooks :: "Principal \<Rightarrow> (server, AddressBook list reply) prog" where
  "listAddressBooks p = handleE (AddressBook_List (Principal_User p))
     (\<lambda>_. WriteError 500 ''failed to list address books'') (\<lambda>values. ret (WriteJSON 200 values))"

definition listAddressBookEntries :: "Principal \<Rightarrow> string \<Rightarrow> (server, AddressBookEntry list reply) prog" where
  "listAddressBookEntries p bookID =
     handleE (Authorize (Principal_User p) bookID PermissionRead) writeAddressBookError (\<lambda>_.
     handleE (sql (ListAddressBookEntries bookID)) (\<lambda>_. WriteError 500 ''failed to list address book entries'') (\<lambda>values.
     ret (WriteJSON 200 values)))"

definition trimmed_entry :: "AddressBookEntry \<Rightarrow> AddressBookEntry" where
  "trimmed_entry v = v\<lparr>AddressBookEntry_RustDeskID := TrimSpace (AddressBookEntry_RustDeskID v),
     AddressBookEntry_Alias := TrimSpace (AddressBookEntry_Alias v),
     AddressBookEntry_Folder := TrimSpace (AddressBookEntry_Folder v)\<rparr>"

definition validAddressBookEntry :: "AddressBookEntry \<Rightarrow> bool" where
  "validAddressBookEntry v \<longleftrightarrow> 3 \<le> length (AddressBookEntry_RustDeskID v) \<and>
     length (AddressBookEntry_RustDeskID v) \<le> 64 \<and> length (AddressBookEntry_Alias v) \<le> 128 \<and>
     length (AddressBookEntry_Folder v) \<le> 128"

definition createAddressBookEntry ::
  "world \<Rightarrow> Principal \<Rightarrow> string \<Rightarrow> AddressBookEntry option \<Rightarrow> (server, AddressBookEntry reply) prog" where
  "createAddressBookEntry w p bookID body =
     handleE (Authorize (Principal_User p) bookID PermissionWrite) writeAddressBookError (\<lambda>_.
     case body of None \<Rightarrow> ret (WriteError 400 ''invalid address book entry'') | Some v0 \<Rightarrow>
     let v = trimmed_entry v0 in
     if \<not> validAddressBookEntry v then ret (WriteError 400 ''invalid address book entry'')
     else bindE (new_uuid w) (\<lambda>uid. bindE (now_of w) (\<lambda>now.
       let v = v\<lparr>AddressBookEntry_ID := uid, AddressBookEntry_AddressBookID := bookID, AddressBookEntry_CreatedAt := now\<rparr> in
       handleE (sql (CreateAddressBookEntry v)) (\<lambda>_. WriteError 409 ''device is already in this address book'') (\<lambda>_.
       audited_reply w ((audit_event ''address_book_update'' (actor p) ''success'' [])
         \<lparr>AuditEvent_TargetRustDeskID := AddressBookEntry_RustDeskID v\<rparr>) (WriteJSON 201 v)))))"

definition validAddressBook :: "AddressBook \<Rightarrow> bool" where
  "validAddressBook v \<longleftrightarrow> 2 \<le> length (AddressBook_Name v) \<and> length (AddressBook_Name v) \<le> 128 \<and>
     (AddressBook_Kind v = ''personal'' \<or> AddressBook_Kind v = ''shared'')"

definition trimmed_book :: "AddressBook \<Rightarrow> AddressBook" where
  "trimmed_book v = v\<lparr>AddressBook_Name := TrimSpace (AddressBook_Name v)\<rparr>"

definition createAddressBook ::
  "world \<Rightarrow> Principal \<Rightarrow> AddressBook option \<Rightarrow> (server, AddressBook reply) prog" where
  "createAddressBook w p body =
     (case body of None \<Rightarrow> ret (WriteError 400 ''invalid address book'') | Some v0 \<Rightarrow>
      let v = trimmed_book v0 in
      if \<not> validAddressBook v then ret (WriteError 400 ''invalid address book'')
      else if AddressBook_Kind v = ''shared'' \<and> User_Role (Principal_User p) \<noteq> RoleAdmin
      then ret (WriteError 403 ''only administrators can create shared address books'')
      else bindE (now_of w) (\<lambda>now. bindE (new_uuid w) (\<lambda>uid.
        let v = v\<lparr>AddressBook_ID := uid, AddressBook_OwnerUserID := actor p, AddressBook_Permission := PermissionManage,
              AddressBook_CanManage := True, AddressBook_CreatedAt := now, AddressBook_UpdatedAt := now\<rparr> in
        handleE (sql (CreateAddressBook v)) (\<lambda>_. WriteError 500 ''failed to create address book'') (\<lambda>_.
        audited_reply w (audit_event ''address_book_create'' (actor p) ''success'' []) (WriteJSON 201 v)))))"

definition updateAddressBook ::
  "world \<Rightarrow> Principal \<Rightarrow> string \<Rightarrow> AddressBook option \<Rightarrow> (server, AddressBook reply) prog" where
  "updateAddressBook w p bookID body =
     handleE (Authorize (Principal_User p) bookID PermissionManage) writeAddressBookError (\<lambda>existing.
     case body of None \<Rightarrow> ret (WriteError 400 ''invalid address book'') | Some v0 \<Rightarrow>
     let v = trimmed_book v0 in
     if \<not> validAddressBook v then ret (WriteError 400 ''invalid address book'')
     else if User_Role (Principal_User p) \<noteq> RoleAdmin \<and> AddressBook_Kind v \<noteq> AddressBook_Kind existing
     then ret (WriteError 403 ''only administrators can change address book type'')
     else bindE (now_of w) (\<lambda>now.
       let v = v\<lparr>AddressBook_ID := AddressBook_ID existing, AddressBook_OwnerUserID := AddressBook_OwnerUserID existing,
             AddressBook_CreatedAt := AddressBook_CreatedAt existing, AddressBook_UpdatedAt := now,
             AddressBook_Permission := PermissionManage, AddressBook_CanManage := True\<rparr> in
       handleE (sql (UpdateAddressBook v)) (\<lambda>err. WriteError (statusForStore err) ''address book not found'') (\<lambda>_.
       audited_reply w (audit_event ''address_book_update'' (actor p) ''success'' []) (WriteJSON 200 v))))"

definition deleteAddressBook :: "world \<Rightarrow> Principal \<Rightarrow> string \<Rightarrow> (server, unit reply) prog" where
  "deleteAddressBook w p bookID =
     handleE (Authorize (Principal_User p) bookID PermissionManage) writeAddressBookError (\<lambda>_.
     handleE (sql (DeleteAddressBook bookID)) (\<lambda>err. WriteError (statusForStore err) ''address book not found'') (\<lambda>_.
     audited_reply w (audit_event ''address_book_delete'' (actor p) ''success'' []) (WriteHeader 204)))"

definition updateAddressBookEntry ::
  "world \<Rightarrow> Principal \<Rightarrow> string \<Rightarrow> string \<Rightarrow> AddressBookEntry option \<Rightarrow> (server, AddressBookEntry reply) prog" where
  "updateAddressBookEntry w p bookID entryID body =
     handleE (Authorize (Principal_User p) bookID PermissionWrite) writeAddressBookError (\<lambda>_.
     case body of None \<Rightarrow> ret (WriteError 400 ''invalid address book entry'') | Some v0 \<Rightarrow>
     let v = trimmed_entry v0 in
     if \<not> validAddressBookEntry v then ret (WriteError 400 ''invalid address book entry'')
     else let v = v\<lparr>AddressBookEntry_ID := entryID, AddressBookEntry_AddressBookID := bookID\<rparr> in
       handleE (sql (UpdateAddressBookEntry v)) (\<lambda>err. WriteError (statusForStore err) ''address book entry not found'') (\<lambda>_.
       audited_reply w ((audit_event ''address_book_entry_update'' (actor p) ''success'' [])
         \<lparr>AuditEvent_TargetRustDeskID := AddressBookEntry_RustDeskID v\<rparr>) (WriteJSON 200 v)))"

definition deleteAddressBookEntry :: "world \<Rightarrow> Principal \<Rightarrow> string \<Rightarrow> string \<Rightarrow> (server, unit reply) prog" where
  "deleteAddressBookEntry w p bookID entryID =
     handleE (Authorize (Principal_User p) bookID PermissionWrite) writeAddressBookError (\<lambda>_.
     handleE (sql (DeleteAddressBookEntry bookID entryID)) (\<lambda>err. WriteError (statusForStore err) ''address book entry not found'') (\<lambda>_.
     audited_reply w (audit_event ''address_book_entry_delete'' (actor p) ''success'' []) (WriteHeader 204)))"

section \<open>Grants\<close>

definition listAddressBookGrants :: "Principal \<Rightarrow> string \<Rightarrow> (server, AddressBookGrant list reply) prog" where
  "listAddressBookGrants p bookID = handleE (Grants (Principal_User p) bookID) writeAddressBookError
     (\<lambda>values. ret (WriteJSON 200 values))"

definition putAddressBookGrant ::
  "world \<Rightarrow> Principal \<Rightarrow> string \<Rightarrow> AddressBookGrant option \<Rightarrow> (server, AddressBookGrant reply) prog" where
  "putAddressBookGrant w p bookID body =
     (case body of None \<Rightarrow> ret (WriteError 400 ''invalid address book grant'') | Some grant \<Rightarrow>
      handleE (PutGrant w (Principal_User p) (grant\<lparr>AddressBookGrant_AddressBookID := bookID\<rparr>))
        (\<lambda>err. if errors_Is err ErrNotFound then WriteError 400 ''grant subject not found'' else writeAddressBookError err)
        (\<lambda>value. audited_reply w (audit_event ''address_book_grant_update'' (actor p) ''success''
           [(''address_book_id'', JStr (AddressBookGrant_AddressBookID value)), (''subject_type'', JStr (AddressBookGrant_SubjectType value)),
            (''subject_id'', JStr (AddressBookGrant_SubjectID value)), (''permission'', JStr (AddressBookGrant_Permission value))])
           (WriteJSON 200 value)))"

definition deleteAddressBookGrant :: "world \<Rightarrow> Principal \<Rightarrow> string \<Rightarrow> string \<Rightarrow> (server, unit reply) prog" where
  "deleteAddressBookGrant w p bookID grantID =
     handleE (DeleteGrant (Principal_User p) bookID grantID) writeAddressBookError (\<lambda>_.
     audited_reply w (audit_event ''address_book_grant_delete'' (actor p) ''success''
       [(''address_book_id'', JStr bookID), (''grant_id'', JStr grantID)]) (WriteHeader 204))"

section \<open>Peers and pages of the RustDesk clients\<close>

text \<open>ForceAlwaysRelay has Go type any: a JSON value.\<close>

record rustDeskAddressBookPeer =
  Peer_ID :: string
  Peer_Username :: string
  Peer_Hostname :: string
  Peer_Alias :: string
  Peer_Platform :: string
  Peer_Tags :: "string list"
  Peer_Hash :: string
  Peer_Password :: string
  Peer_ForceAlwaysRelay :: json
  Peer_RDPPort :: string
  Peer_RDPUsername :: string
  Peer_LoginName :: string
  Peer_SameServer :: bool

definition validAddressBookTag :: "string \<Rightarrow> bool" where
  "validAddressBookTag value \<longleftrightarrow> TrimSpace value \<noteq> [] \<and> length (TrimSpace value) \<le> 64"

definition ParseBool :: "string \<Rightarrow> bool option" where
  "ParseBool str = (if str \<in> set [''1'', ''t'', ''T'', ''TRUE'', ''true'', ''True''] then Some True
     else if str \<in> set [''0'', ''f'', ''F'', ''FALSE'', ''false'', ''False''] then Some False else None)"

definition clientBool :: "json \<Rightarrow> bool" where
  "clientBool value = (case value of JBool b \<Rightarrow> b | JStr t \<Rightarrow> ParseBool (TrimSpace t) = Some True | _ \<Rightarrow> False)"

definition normalize_tag :: "string \<Rightarrow> string list \<Rightarrow> string list" where
  "normalize_tag value out = (let value = TrimSpace value in
     if \<not> validAddressBookTag value \<or> value \<in> set out then out else out @ [value])"

definition normalizeAddressBookTags :: "string list \<Rightarrow> string list" where
  "normalizeAddressBookTags values = fold normalize_tag values []"

definition clientPermissionRule :: "string \<Rightarrow> int" where
  "clientPermissionRule permission =
     (if permission = PermissionRead then 1 else if permission = PermissionWrite then 2 else 3)"

definition clientPeers :: "AddressBookEntry list \<Rightarrow> rustDeskAddressBookPeer list" where
  "clientPeers = map (\<lambda>entry. \<lparr>Peer_ID = AddressBookEntry_RustDeskID entry, Peer_Username = AddressBookEntry_Username entry,
     Peer_Hostname = AddressBookEntry_Hostname entry, Peer_Alias = AddressBookEntry_Alias entry,
     Peer_Platform = AddressBookEntry_Platform entry, Peer_Tags = AddressBookEntry_Tags entry, Peer_Hash = [], Peer_Password = [],
     Peer_ForceAlwaysRelay = JStr (if AddressBookEntry_ForceRelay entry then ''true'' else ''false''),
     Peer_RDPPort = AddressBookEntry_RDPPort entry, Peer_RDPUsername = AddressBookEntry_RDPUsername entry,
     Peer_LoginName = AddressBookEntry_LoginName entry, Peer_SameServer = AddressBookEntry_SameServer entry\<rparr>)"

definition peer_entry :: "string \<Rightarrow> string \<Rightarrow> instant \<Rightarrow> rustDeskAddressBookPeer \<Rightarrow> AddressBookEntry" where
  "peer_entry uid bookID now peer = \<lparr>AddressBookEntry_ID = uid, AddressBookEntry_AddressBookID = bookID,
     AddressBookEntry_RustDeskID = TrimSpace (Peer_ID peer), AddressBookEntry_Alias = TrimSpace (Peer_Alias peer),
     AddressBookEntry_Username = TrimSpace (Peer_Username peer), AddressBookEntry_Hostname = TrimSpace (Peer_Hostname peer),
     AddressBookEntry_Platform = TrimSpace (Peer_Platform peer), AddressBookEntry_Folder = [], AddressBookEntry_Favourite = False,
     AddressBookEntry_Tags = normalizeAddressBookTags (Peer_Tags peer), AddressBookEntry_ForceRelay = clientBool (Peer_ForceAlwaysRelay peer),
     AddressBookEntry_RDPPort = TrimSpace (Peer_RDPPort peer), AddressBookEntry_RDPUsername = TrimSpace (Peer_RDPUsername peer),
     AddressBookEntry_LoginName = TrimSpace (Peer_LoginName peer), AddressBookEntry_SameServer = Peer_SameServer peer,
     AddressBookEntry_CreatedAt = now\<rparr>"

definition peer_refused :: "string list \<Rightarrow> rustDeskAddressBookPeer \<Rightarrow> bool" where
  "peer_refused seen peer \<longleftrightarrow> length (TrimSpace (Peer_ID peer)) < 3 \<or> 64 < length (TrimSpace (Peer_ID peer)) \<or>
     128 < length (TrimSpace (Peer_Alias peer)) \<or> TrimSpace (Peer_ID peer) \<in> set seen"

primrec client_entries ::
  "world \<Rightarrow> string \<Rightarrow> instant \<Rightarrow> string list \<Rightarrow> rustDeskAddressBookPeer list \<Rightarrow> (server, AddressBookEntry list option) prog" where
  "client_entries w bookID now seen [] = ret (Some [])"
| "client_entries w bookID now seen (peer # peers) =
     (if peer_refused seen peer then ret None
      else bindE (new_uuid w) (\<lambda>uid.
           bindE (client_entries w bookID now (TrimSpace (Peer_ID peer) # seen) peers) (\<lambda>entries.
           ret (map_option ((#) (peer_entry uid bookID now peer)) entries))))"

definition entriesFromClientPeers ::
  "world \<Rightarrow> string \<Rightarrow> rustDeskAddressBookPeer list \<Rightarrow> (server, AddressBookEntry list option) prog" where
  "entriesFromClientPeers w bookID peers = bindE (now_of w) (\<lambda>now. client_entries w bookID now [] peers)"

text \<open>\<open>q\<close> is the query of the URL: the first value of each key it has.\<close>

definition query_Get :: "(string \<rightharpoonup> string) \<Rightarrow> string \<Rightarrow> string" where
  "query_Get q key = (case q key of None \<Rightarrow> [] | Some v \<Rightarrow> v)"

definition clientPageBounds :: "(string \<rightharpoonup> string) \<Rightarrow> int \<Rightarrow> error + int \<times> int" where
  "clientPageBounds q count =
     (if q ''current'' = None \<and> q ''pageSize'' = None then Inr (0, count)
      else case (Atoi (query_Get q ''current''), Atoi (query_Get q ''pageSize'')) of
        (Some current, Some psize) \<Rightarrow>
          (if current < 1 \<or> psize < 1 \<or> 1000 < psize then Inl (Errorf ''invalid pagination'')
           else if current - 1 > count div psize then Inr (count, count)
           else Inr ((current - 1) * psize, min ((current - 1) * psize + psize) count))
      | _ \<Rightarrow> Inl (Errorf ''invalid pagination''))"

text \<open>The page of a reply, and the reply itself.\<close>

definition page_reply :: "(string \<rightharpoonup> string) \<Rightarrow> 'b list \<Rightarrow> ('b list \<Rightarrow> 'a) \<Rightarrow> 'a reply" where
  "page_reply q values body = (case clientPageBounds q (int (length values)) of
      Inl _ \<Rightarrow> WriteError 400 ''invalid pagination''
    | Inr (start, fin) \<Rightarrow> (case slice values start fin of None \<Rightarrow> recovered | Some page \<Rightarrow> WriteJSON 200 (body page)))"

section \<open>The handlers of the RustDesk clients\<close>

definition is_personal :: "User \<Rightarrow> AddressBook \<Rightarrow> bool" where
  "is_personal user book \<longleftrightarrow> AddressBook_OwnerUserID book = User_ID user \<and> AddressBook_Kind book = ''personal''"

text \<open>None is the book not found and not created.\<close>

definition personalAddressBook :: "world \<Rightarrow> User \<Rightarrow> bool \<Rightarrow> (server, AddressBook option) prog" where
  "personalAddressBook w user create = bindE (sql ListAddressBooks) (\<lambda>books.
     case find (is_personal user) books of
       Some book \<Rightarrow> ret (Some (book\<lparr>AddressBook_Permission := PermissionManage, AddressBook_CanManage := True\<rparr>))
     | None \<Rightarrow>
         if \<not> create then ret None
         else bindE (now_of w) (\<lambda>now. bindE (new_uuid w) (\<lambda>uid.
           let book = \<lparr>AddressBook_ID = uid, AddressBook_Name = User_Username user, AddressBook_Kind = ''personal'',
                 AddressBook_OwnerUserID = User_ID user, AddressBook_Permission = PermissionManage, AddressBook_CanManage = True,
                 AddressBook_CreatedAt = now, AddressBook_UpdatedAt = now\<rparr> in
           thenE (sql (CreateAddressBook book)) (ret (Some book)))))"

text \<open>The peers of the reply; its JSON text has no tags.\<close>

definition legacyAddressBook :: "world \<Rightarrow> Principal \<Rightarrow> (server, rustDeskAddressBookPeer list reply) prog" where
  "legacyAddressBook w p = handleE (personalAddressBook w (Principal_User p) False) writeAddressBookError (\<lambda>found.
     case found of None \<Rightarrow> ret (WriteJSON 200 [])
     | Some book \<Rightarrow> handleE (sql (ListAddressBookEntries (AddressBook_ID book)))
         (\<lambda>_. WriteError 500 ''address book unavailable'') (\<lambda>entries. ret (WriteJSON 200 (clientPeers entries))))"

text \<open>The body is an envelope with the JSON text of the peers, and \<open>unmarshal\<close> decodes it.\<close>

definition updateLegacyAddressBook ::
  "world \<Rightarrow> Principal \<Rightarrow> (string \<Rightarrow> rustDeskAddressBookPeer list option) \<Rightarrow> string option \<Rightarrow> (server, unit reply) prog" where
  "updateLegacyAddressBook w p unmarshal body =
     (case body of None \<Rightarrow> ret (WriteError 400 ''invalid address book'') | Some data \<Rightarrow>
      if data = [] then ret (WriteError 400 ''invalid address book'') else
      case unmarshal data of None \<Rightarrow> ret (WriteError 400 ''invalid address book data'') | Some peers \<Rightarrow>
      handleE (personalAddressBook w (Principal_User p) True) writeAddressBookError (\<lambda>found.
      let bookID = (case found of None \<Rightarrow> [] | Some book \<Rightarrow> AddressBook_ID book) in
      bindE (entriesFromClientPeers w bookID peers) (\<lambda>entries.
      case entries of None \<Rightarrow> ret (WriteError 400 ''invalid address book peer'') | Some es \<Rightarrow>
      handleE (sql (ReplaceAddressBookEntries bookID es)) (\<lambda>_. WriteError 409 ''address book contains duplicate peers'') (\<lambda>_.
      audited_reply w (audit_event ''address_book_sync'' (actor p) ''success''
        [(''address_book_id'', JStr bookID), (''peer_count'', JNum (of_nat (length es)))]) (WriteHeader 200)))))"

definition clientPersonalAddressBook :: "world \<Rightarrow> Principal \<Rightarrow> (server, json reply) prog" where
  "clientPersonalAddressBook w p = handleE (personalAddressBook w (Principal_User p) True) writeAddressBookError (\<lambda>found.
     let (i, name) = (case found of None \<Rightarrow> ([], []) | Some book \<Rightarrow> (AddressBook_ID book, AddressBook_Name book)) in
     ret (WriteJSON 200 (JObj [(''guid'', JStr i), (''name'', JStr name),
       (''owner'', JStr (User_Username (Principal_User p))), (''rule'', JNum 3)])))"

definition clientAddressBookSettings :: "(server, json reply) prog" where
  "clientAddressBookSettings = ret (WriteJSON 200 (JObj [(''max_peer_one_ab'', JNum 0)]))"

definition owner_name :: "User list \<Rightarrow> string \<Rightarrow> string" where
  "owner_name users i = (case find (\<lambda>u. User_ID u = i) (rev users) of None \<Rightarrow> [] | Some u \<Rightarrow> User_Username u)"

definition shared_profile :: "User list \<Rightarrow> AddressBook \<Rightarrow> json" where
  "shared_profile users book = JObj [(''guid'', JStr (AddressBook_ID book)), (''name'', JStr (AddressBook_Name book)),
     (''owner'', JStr (owner_name users (AddressBook_OwnerUserID book))), (''note'', JStr []),
     (''rule'', JNum (of_int (clientPermissionRule (AddressBook_Permission book))))]"

definition clientSharedAddressBooks :: "Principal \<Rightarrow> (string \<rightharpoonup> string) \<Rightarrow> (server, json reply) prog" where
  "clientSharedAddressBooks p q = handleE (AddressBook_List (Principal_User p)) writeAddressBookError (\<lambda>books.
     handleE (sql ListUsers) (\<lambda>_. WriteError 500 ''address book owners unavailable'') (\<lambda>users.
     let profiles = map (shared_profile users) (sort_key AddressBook_ID (filter (\<lambda>b. AddressBook_Kind b = ''shared'') books)) in
     ret (page_reply q profiles (\<lambda>page. JObj [(''total'', JNum (of_nat (length profiles))), (''data'', JArr page)]))))"

definition clientAddressBookPeers ::
  "Principal \<Rightarrow> (string \<rightharpoonup> string) \<Rightarrow> (server, (int \<times> rustDeskAddressBookPeer list) reply) prog" where
  "clientAddressBookPeers p q = (let bookID = TrimSpace (query_Get q ''ab'') in
     handleE (Authorize (Principal_User p) bookID PermissionRead) writeAddressBookError (\<lambda>_.
     handleE (sql (ListAddressBookEntries bookID)) (\<lambda>_. WriteError 500 ''address book unavailable'') (\<lambda>entries.
     ret (page_reply q (sort_key AddressBookEntry_RustDeskID entries)
       (\<lambda>page. (int (length entries), clientPeers page))))))"

definition clientAddressBookTags :: "Principal \<Rightarrow> string \<Rightarrow> (server, AddressBookTag list reply) prog" where
  "clientAddressBookTags p bookID =
     handleE (Authorize (Principal_User p) bookID PermissionRead) writeAddressBookError (\<lambda>_.
     handleE (sql (ListAddressBookTags bookID)) (\<lambda>_. WriteError 500 ''address book tags unavailable'') (\<lambda>tags.
     ret (WriteJSON 200 tags)))"

section \<open>Tags\<close>

definition clientAddAddressBookTag ::
  "world \<Rightarrow> Principal \<Rightarrow> string \<Rightarrow> (string \<times> int) option \<Rightarrow> (server, unit reply) prog" where
  "clientAddAddressBookTag w p bookID body =
     handleE (Authorize (Principal_User p) bookID PermissionWrite) writeAddressBookError (\<lambda>_.
     case body of None \<Rightarrow> ret (WriteError 400 ''invalid address book tag'') | Some (name, color) \<Rightarrow>
     if \<not> validAddressBookTag name then ret (WriteError 400 ''invalid address book tag'')
     else bindE (now_of w) (\<lambda>now. bindE (new_uuid w) (\<lambda>uid.
       handleE (sql (CreateAddressBookTag \<lparr>AddressBookTag_ID = uid, AddressBookTag_AddressBookID = bookID,
           AddressBookTag_Name = TrimSpace name, AddressBookTag_Color = color, AddressBookTag_CreatedAt = now,
           AddressBookTag_UpdatedAt = now\<rparr>))
         (\<lambda>_. WriteError 409 ''address book tag already exists'') (\<lambda>_. ret (WriteHeader 200)))))"

text \<open>\<open>entries, _ := ListAddressBookEntries\<close>.\<close>

definition entries_of :: "string \<Rightarrow> (server, AddressBookEntry list) prog" where
  "entries_of bookID = attempt (sql (ListAddressBookEntries bookID)) (\<lambda>r. ret (case r of Inl _ \<Rightarrow> [] | Inr es \<Rightarrow> es))"

definition rename_entry_tag :: "string \<Rightarrow> string \<Rightarrow> AddressBookEntry \<Rightarrow> (server, unit) prog" where
  "rename_entry_tag oldName newName entry =
     (if oldName \<in> set (AddressBookEntry_Tags entry)
      then ignoreE (sql (UpdateAddressBookEntry (entry\<lparr>AddressBookEntry_Tags :=
             map (\<lambda>tag. if tag = oldName then newName else tag) (AddressBookEntry_Tags entry)\<rparr>))) (ret ())
      else ret ())"

definition clientRenameAddressBookTag ::
  "world \<Rightarrow> Principal \<Rightarrow> string \<Rightarrow> (string \<times> string) option \<Rightarrow> (server, unit reply) prog" where
  "clientRenameAddressBookTag w p bookID body =
     handleE (Authorize (Principal_User p) bookID PermissionWrite) writeAddressBookError (\<lambda>_.
     case body of None \<Rightarrow> ret (WriteError 400 ''invalid address book tag'') | Some (old, new) \<Rightarrow>
     if \<not> validAddressBookTag old \<or> \<not> validAddressBookTag new then ret (WriteError 400 ''invalid address book tag'')
     else handleE (sql (ListAddressBookTags bookID)) (\<lambda>_. WriteError 500 ''address book tags unavailable'') (\<lambda>tags.
     case find (\<lambda>tag. AddressBookTag_Name tag = TrimSpace old) tags of
       None \<Rightarrow> ret (WriteError 404 ''address book tag not found'')
     | Some value \<Rightarrow>
         if AddressBookTag_ID value = [] then ret (WriteError 404 ''address book tag not found'')
         else bindE (now_of w) (\<lambda>now.
           handleE (sql (UpdateAddressBookTag (value\<lparr>AddressBookTag_Name := TrimSpace new, AddressBookTag_UpdatedAt := now\<rparr>)
               (AddressBookTag_Name value)))
             (\<lambda>_. WriteError 409 ''address book tag already exists'') (\<lambda>_.
           bindE (entries_of bookID) (\<lambda>entries.
           thenE (forE entries (rename_entry_tag (AddressBookTag_Name value) (TrimSpace new)))
                 (ret (WriteHeader 200)))))))"

definition clientUpdateAddressBookTag ::
  "world \<Rightarrow> Principal \<Rightarrow> string \<Rightarrow> (string \<times> int) option \<Rightarrow> (server, unit reply) prog" where
  "clientUpdateAddressBookTag w p bookID body =
     handleE (Authorize (Principal_User p) bookID PermissionWrite) writeAddressBookError (\<lambda>_.
     case body of None \<Rightarrow> ret (WriteError 400 ''invalid address book tag'') | Some (name, color) \<Rightarrow>
     if \<not> validAddressBookTag name then ret (WriteError 400 ''invalid address book tag'')
     else handleE (sql (ListAddressBookTags bookID)) (\<lambda>_. WriteError 500 ''address book tags unavailable'') (\<lambda>tags.
     case find (\<lambda>tag. AddressBookTag_Name tag = TrimSpace name) tags of
       None \<Rightarrow> ret (WriteError 404 ''address book tag not found'')
     | Some value \<Rightarrow> bindE (now_of w) (\<lambda>now.
         handleE (sql (UpdateAddressBookTag (value\<lparr>AddressBookTag_Color := color, AddressBookTag_UpdatedAt := now\<rparr>)
             (AddressBookTag_Name value)))
           writeAddressBookError (\<lambda>_. ret (WriteHeader 200)))))"

text \<open>The loop over the names returns the reply of the first one it refuses.\<close>

primrec delete_tags :: "string \<Rightarrow> string list \<Rightarrow> (server, unit reply option) prog" where
  "delete_tags bookID [] = ret None"
| "delete_tags bookID (name # names) =
     (if \<not> validAddressBookTag (TrimSpace name) then ret (Some (WriteError 400 ''invalid address book tag''))
      else attempt (sql (DeleteAddressBookTag bookID (TrimSpace name))) (\<lambda>r. case r of
          Inl err \<Rightarrow> (if \<not> errors_Is err ErrNotFound then ret (Some (writeAddressBookError err)) else delete_tags bookID names)
        | Inr _ \<Rightarrow> delete_tags bookID names))"

definition drop_entry_tags :: "string list \<Rightarrow> AddressBookEntry \<Rightarrow> (server, unit) prog" where
  "drop_entry_tags removed entry =
     (let filtered = filter (\<lambda>tag. tag \<notin> set removed) (AddressBookEntry_Tags entry) in
      if length filtered \<noteq> length (AddressBookEntry_Tags entry)
      then ignoreE (sql (UpdateAddressBookEntry (entry\<lparr>AddressBookEntry_Tags := filtered\<rparr>))) (ret ())
      else ret ())"

definition clientDeleteAddressBookTags :: "Principal \<Rightarrow> string \<Rightarrow> string list option \<Rightarrow> (server, unit reply) prog" where
  "clientDeleteAddressBookTags p bookID body =
     handleE (Authorize (Principal_User p) bookID PermissionWrite) writeAddressBookError (\<lambda>_.
     case body of None \<Rightarrow> ret (WriteError 400 ''invalid address book tags'') | Some names \<Rightarrow>
     if names = [] then ret (WriteError 400 ''invalid address book tags'')
     else bindE (delete_tags bookID names) (\<lambda>stopped. case stopped of
         Some r \<Rightarrow> ret r
       | None \<Rightarrow> bindE (entries_of bookID) (\<lambda>entries.
           thenE (forE entries (drop_entry_tags (map TrimSpace names))) (ret (WriteHeader 200)))))"

section \<open>Peers\<close>

definition clientAddAddressBookPeer ::
  "world \<Rightarrow> Principal \<Rightarrow> string \<Rightarrow> rustDeskAddressBookPeer option \<Rightarrow> (server, unit reply) prog" where
  "clientAddAddressBookPeer w p bookID body =
     handleE (Authorize (Principal_User p) bookID PermissionWrite) writeAddressBookError (\<lambda>_.
     case body of None \<Rightarrow> ret (WriteError 400 ''invalid address book peer'') | Some peer \<Rightarrow>
     bindE (entriesFromClientPeers w bookID [peer]) (\<lambda>entries. case entries of
         Some [entry] \<Rightarrow> handleE (sql (CreateAddressBookEntry entry)) (\<lambda>_. WriteError 409 ''peer already exists'')
           (\<lambda>_. ret (WriteHeader 200))
       | _ \<Rightarrow> ret (WriteError 400 ''invalid address book peer'')))"

definition updated_entry :: "rustDeskAddressBookPeer \<Rightarrow> AddressBookEntry \<Rightarrow> AddressBookEntry" where
  "updated_entry peer entry = entry\<lparr>AddressBookEntry_Alias := TrimSpace (Peer_Alias peer),
     AddressBookEntry_Username := TrimSpace (Peer_Username peer), AddressBookEntry_Hostname := TrimSpace (Peer_Hostname peer),
     AddressBookEntry_Platform := TrimSpace (Peer_Platform peer), AddressBookEntry_Tags := normalizeAddressBookTags (Peer_Tags peer),
     AddressBookEntry_ForceRelay := clientBool (Peer_ForceAlwaysRelay peer), AddressBookEntry_RDPPort := TrimSpace (Peer_RDPPort peer),
     AddressBookEntry_RDPUsername := TrimSpace (Peer_RDPUsername peer), AddressBookEntry_LoginName := TrimSpace (Peer_LoginName peer),
     AddressBookEntry_SameServer := Peer_SameServer peer\<rparr>"

definition clientUpdateAddressBookPeer ::
  "Principal \<Rightarrow> string \<Rightarrow> rustDeskAddressBookPeer option \<Rightarrow> (server, unit reply) prog" where
  "clientUpdateAddressBookPeer p bookID body =
     handleE (Authorize (Principal_User p) bookID PermissionWrite) writeAddressBookError (\<lambda>_.
     case body of None \<Rightarrow> ret (WriteError 400 ''invalid address book peer'') | Some peer \<Rightarrow>
     if TrimSpace (Peer_ID peer) = [] then ret (WriteError 400 ''invalid address book peer'')
     else handleE (sql (ListAddressBookEntries bookID)) (\<lambda>_. WriteError 500 ''address book unavailable'') (\<lambda>entries.
     case find (\<lambda>entry. AddressBookEntry_RustDeskID entry = Peer_ID peer) entries of
       None \<Rightarrow> ret (WriteError 404 ''address book peer not found'')
     | Some entry \<Rightarrow> handleE (sql (UpdateAddressBookEntry (updated_entry peer entry)))
         (\<lambda>err. WriteError (statusForStore err) ''address book peer not found'') (\<lambda>_. ret (WriteHeader 200))))"

primrec delete_peers :: "string \<Rightarrow> AddressBookEntry list \<Rightarrow> string list \<Rightarrow> (server, unit reply) prog" where
  "delete_peers bookID entries [] = ret (WriteHeader 200)"
| "delete_peers bookID entries (rustDeskID # ids) =
     (case find (\<lambda>entry. AddressBookEntry_RustDeskID entry = rustDeskID) (rev entries) of
        None \<Rightarrow> ret (WriteError 404 ''address book peer not found'')
      | Some entry \<Rightarrow> handleE (sql (DeleteAddressBookEntry bookID (AddressBookEntry_ID entry)))
          (\<lambda>err. WriteError (statusForStore err) ''address book peer not found'') (\<lambda>_. delete_peers bookID entries ids))"

definition clientDeleteAddressBookPeer :: "Principal \<Rightarrow> string \<Rightarrow> string list option \<Rightarrow> (server, unit reply) prog" where
  "clientDeleteAddressBookPeer p bookID body =
     handleE (Authorize (Principal_User p) bookID PermissionWrite) writeAddressBookError (\<lambda>_.
     case body of None \<Rightarrow> ret (WriteError 400 ''invalid address book peer list'') | Some ids \<Rightarrow>
     if ids = [] then ret (WriteError 400 ''invalid address book peer list'')
     else handleE (sql (ListAddressBookEntries bookID)) (\<lambda>_. WriteError 500 ''address book unavailable'') (\<lambda>entries.
       delete_peers bookID entries ids))"

end
