(* ===== verification/Http_Users.thy ===== *)
theory Http_Users
  imports Http_Books
begin

text \<open>
  The handlers that administer sessions, users and roles: internal/httpapi/server.go and
  internal/httpapi/rbac.go.
\<close>

section \<open>Users as the clients see them\<close>

definition displayName :: "User \<Rightarrow> string" where
  "displayName user = (if TrimSpace (User_DisplayName user) \<noteq> [] then User_DisplayName user else User_Username user)"

text \<open>A nil slice of permissions is the empty one.\<close>

definition clientUser :: "User \<Rightarrow> json" where
  "clientUser user = JObj [(''id'', JStr (User_ID user)), (''name'', JStr (displayName user)),
     (''username'', JStr (User_Username user)), (''email'', JStr (User_Email user)), (''phone'', JStr (User_Phone user)),
     (''display_name'', JStr (User_DisplayName user)), (''status'', JNum (if User_Enabled user then 1 else 0)),
     (''avatar'', JStr (''/api/avatar/'' @ User_ID user)), (''enabled'', JBool (User_Enabled user)),
     (''approval_status'', JStr (User_ApprovalStatus user)), (''is_admin'', JBool (User_Role user = RoleAdmin)),
     (''role'', JStr (User_Role user)), (''permissions'', JArr (map JStr (User_Permissions user))),
     (''totp_enabled'', JBool (User_TOTPEnabled user)), (''note'', JStr [])]"

definition user_event :: "Principal \<Rightarrow> string \<Rightarrow> string \<Rightarrow> string \<Rightarrow> AuditEvent" where
  "user_event p t result userID = (audit_event t (actor p) result [(''user_id'', JStr userID)])
     \<lparr>AuditEvent_ActorSessionID := Session_ID (Principal_Session p)\<rparr>"

section \<open>Sessions\<close>

text \<open>\<open>ip\<close> is the address of the client.\<close>

definition logout :: "world \<Rightarrow> Principal \<Rightarrow> string \<Rightarrow> (server, unit reply) prog" where
  "logout w p ip =
     handleE (Auth_RevokeSession w (Session_ID (Principal_Session p))) (\<lambda>_. WriteError 500 ''logout failed'') (\<lambda>_.
     audited_reply w ((audit_event ''logout'' (actor p) ''success'' [])
       \<lparr>AuditEvent_ActorSessionID := Session_ID (Principal_Session p), AuditEvent_IP := ip\<rparr>) (WriteJSON 200 ()))"

definition logoutAll :: "world \<Rightarrow> Principal \<Rightarrow> (server, unit reply) prog" where
  "logoutAll w p =
     handleE (RevokeAll w (actor p)) (\<lambda>_. WriteError 500 ''logout failed'') (\<lambda>_.
     audited_reply w ((audit_event ''session_revoke_all'' (actor p) ''success'' [])
       \<lparr>AuditEvent_ActorSessionID := Session_ID (Principal_Session p)\<rparr>) (WriteJSON 200 ()))"

definition Http_revokeSession :: "world \<Rightarrow> Principal \<Rightarrow> string \<Rightarrow> (server, unit reply) prog" where
  "Http_revokeSession w p sessionID =
     (if sessionID \<noteq> Session_ID (Principal_Session p) \<and> \<not> hasPermission (Principal_User p) ''sessions.revoke''
      then ret (WriteError 403 ''forbidden'')
      else handleE (Auth_RevokeSession w sessionID) (\<lambda>_. WriteError 500 ''session revoke failed'') (\<lambda>_.
        audited_reply w ((audit_event ''session_revoke'' (actor p) ''success'' [(''revoked_session_id'', JStr sessionID)])
          \<lparr>AuditEvent_ActorSessionID := Session_ID (Principal_Session p)\<rparr>) (WriteJSON 200 ())))"

section \<open>Users\<close>

definition Http_setUserEnabled :: "world \<Rightarrow> Principal \<Rightarrow> string \<Rightarrow> bool \<Rightarrow> (server, json reply) prog" where
  "Http_setUserEnabled w p userID enabled =
     handleE (Auth_SetUserEnabled w userID enabled) (\<lambda>_. WriteError 404 ''user not found'') (\<lambda>user.
     audited_reply w (user_event p (if enabled then ''user_enable'' else ''user_disable'') ''success'' (User_ID user))
       (WriteJSON 200 (clientUser user)))"

definition Http_forceRelogin :: "world \<Rightarrow> Principal \<Rightarrow> string \<Rightarrow> (server, json reply) prog" where
  "Http_forceRelogin w p userID =
     handleE (Auth_ForceRelogin w userID) (\<lambda>_. WriteError 404 ''user not found'') (\<lambda>user.
     audited_reply w (user_event p ''force_relogin'' ''success'' (User_ID user)) (WriteJSON 200 (clientUser user)))"

text \<open>Each user with the groups of their memberships.\<close>

definition Http_listUsers :: "(server, (json \<times> string list) list reply) prog" where
  "Http_listUsers =
     handleE (sql ListUsers) (\<lambda>_. WriteError 500 ''users unavailable'') (\<lambda>users.
     handleE (sql ListUserGroupMemberships) (\<lambda>_. WriteError 500 ''users unavailable'') (\<lambda>memberships.
     ret (WriteJSON 200 (map (\<lambda>user. (clientUser user, map UserGroupMembership_GroupID
       (filter (\<lambda>m. UserGroupMembership_UserID m = User_ID user) memberships))) users))))"

record createUserRequest =
  CreateReq_Username :: string
  CreateReq_Email :: string
  CreateReq_Password :: string
  CreateReq_DisplayName :: string
  CreateReq_Phone :: string
  CreateReq_GroupIDs :: "string list"
  CreateReq_Role :: Role
  CreateReq_Enabled :: "bool option"

record updateUserRequest =
  UpdateReq_Username :: string
  UpdateReq_Email :: string
  UpdateReq_Phone :: string
  UpdateReq_Password :: string
  UpdateReq_DisplayName :: string
  UpdateReq_Role :: Role
  UpdateReq_Enabled :: "bool option"
  UpdateReq_GroupIDs :: "string list"

definition validUsername :: "string \<Rightarrow> bool" where
  "validUsername username \<longleftrightarrow> 2 \<le> length username \<and> length username \<le> 128 \<and>
     list_all (\<lambda>c. in_range 97 122 (byte c) \<or> in_range 48 57 (byte c) \<or> c \<in> {CHR ''.'', CHR ''_'', CHR ''-''}) username"

text \<open>\<open>parseAddress\<close> is mail.ParseAddress, None on an error.\<close>

definition validEmail :: "(string \<Rightarrow> string option) \<Rightarrow> string \<Rightarrow> bool" where
  "validEmail parseAddress email \<longleftrightarrow> email = [] \<or> length email \<le> 320 \<and> parseAddress email = Some email"

definition canGrant :: "User \<Rightarrow> string list \<Rightarrow> bool" where
  "canGrant user permissions \<longleftrightarrow> User_Role user = RoleAdmin \<or> list_all (hasPermission user) permissions"

definition validRole :: "Role \<Rightarrow> (server, bool) prog" where
  "validRole role = (if role = RoleAdmin \<or> role = RoleUser then ret True
     else attempt (sql (FindRoleByID role)) (\<lambda>r. ret (is_ok r)))"

definition canAssignRole :: "User \<Rightarrow> Role \<Rightarrow> (server, bool) prog" where
  "canAssignRole user role = bindE (validRole role) (\<lambda>valid.
     if \<not> valid then ret False
     else if User_Role user = RoleAdmin then ret True
     else if role = RoleAdmin then ret False
     else attempt (sql (FindRoleByID role)) (\<lambda>r. ret (case r of
         Inl _ \<Rightarrow> False | Inr definition \<Rightarrow> canGrant user (RoleDefinition_Permissions definition))))"

definition bad_new_user :: "(string \<Rightarrow> string option) \<Rightarrow> createUserRequest \<Rightarrow> bool" where
  "bad_new_user parseAddress input \<longleftrightarrow> \<not> validUsername (CreateReq_Username input) \<or>
     length (CreateReq_Password input) < 1 \<or> 1024 < length (CreateReq_Password input) \<or>
     256 < length (CreateReq_DisplayName input) \<or> 64 < length (CreateReq_Phone input) \<or>
     128 < length (CreateReq_GroupIDs input) \<or> \<not> validEmail parseAddress (CreateReq_Email input)"

definition trimmed_new_user :: "createUserRequest \<Rightarrow> createUserRequest" where
  "trimmed_new_user input = input\<lparr>CreateReq_Username := ToLower (TrimSpace (CreateReq_Username input)),
     CreateReq_Email := TrimSpace (CreateReq_Email input), CreateReq_DisplayName := TrimSpace (CreateReq_DisplayName input),
     CreateReq_Phone := TrimSpace (CreateReq_Phone input)\<rparr>"

text \<open>The phone and the groups of a new user are set by an update.\<close>

definition complete_new_user :: "world \<Rightarrow> Service \<Rightarrow> createUserRequest \<Rightarrow> User \<Rightarrow> (server, User) prog" where
  "complete_new_user w svc input user =
     (if CreateReq_Phone input \<noteq> [] \<or> CreateReq_GroupIDs input \<noteq> []
      then Auth_UpdateUser w svc (User_ID user) \<lparr>UserUpdate_Username = User_Username user, UserUpdate_Email = User_Email user,
        UserUpdate_Phone = CreateReq_Phone input, UserUpdate_DisplayName = User_DisplayName user, UserUpdate_PasswordHash = [],
        UserUpdate_Role = User_Role user, UserUpdate_Enabled = User_Enabled user, UserUpdate_GroupIDs = CreateReq_GroupIDs input\<rparr> []
      else ret user)"

definition Http_createUser ::
  "world \<Rightarrow> Service \<Rightarrow> (string \<Rightarrow> string option) \<Rightarrow> Principal \<Rightarrow> createUserRequest option \<Rightarrow> (server, json reply) prog" where
  "Http_createUser w svc parseAddress p body = (case body of None \<Rightarrow> ret (WriteError 400 ''invalid request'') | Some input0 \<Rightarrow>
     let input = trimmed_new_user input0 in
     if bad_new_user parseAddress input then ret (WriteError 400 ''invalid user'') else
     bindE (canAssignRole (Principal_User p) (CreateReq_Role input)) (\<lambda>assignable.
     if \<not> assignable then ret (WriteError 400 ''invalid user'') else
     handleE (CreateLocalUser w svc \<lparr>CreateUserInput_Username = CreateReq_Username input, CreateUserInput_Email = CreateReq_Email input,
         CreateUserInput_Password = CreateReq_Password input, CreateUserInput_DisplayName = CreateReq_DisplayName input,
         CreateUserInput_Role = CreateReq_Role input,
         CreateUserInput_Enabled = (case CreateReq_Enabled input of None \<Rightarrow> True | Some b \<Rightarrow> b)\<rparr>)
       (\<lambda>err. if errors_Is err ErrPasswordPolicy then WriteErr 400 err else WriteError 409 ''user could not be created'') (\<lambda>user.
     handleE (complete_new_user w svc input user) (\<lambda>_. WriteError 409 ''user groups could not be assigned'') (\<lambda>user.
     audited_reply w (user_event p ''user_create'' ''success'' (User_ID user)) (WriteJSON 201 (clientUser user))))))"

definition trimmed_update :: "updateUserRequest \<Rightarrow> updateUserRequest" where
  "trimmed_update input = input\<lparr>UpdateReq_Username := ToLower (TrimSpace (UpdateReq_Username input)),
     UpdateReq_Email := TrimSpace (UpdateReq_Email input), UpdateReq_Phone := TrimSpace (UpdateReq_Phone input),
     UpdateReq_DisplayName := TrimSpace (UpdateReq_DisplayName input)\<rparr>"

definition Http_updateUser ::
  "world \<Rightarrow> Service \<Rightarrow> (string \<Rightarrow> string option) \<Rightarrow> Principal \<Rightarrow> string \<Rightarrow> updateUserRequest option \<Rightarrow> (server, json reply) prog" where
  "Http_updateUser w svc parseAddress p userID body =
     (case body of None \<Rightarrow> ret (WriteError 400 ''invalid user update'') | Some input0 \<Rightarrow>
     let input = trimmed_update input0 in
     case UpdateReq_Enabled input of None \<Rightarrow> ret (WriteError 400 ''invalid user update'') | Some enabled \<Rightarrow>
     if \<not> validUsername (UpdateReq_Username input) \<or> \<not> validEmail parseAddress (UpdateReq_Email input) \<or>
        64 < length (UpdateReq_Phone input) \<or> 256 < length (UpdateReq_DisplayName input) \<or> 1024 < length (UpdateReq_Password input)
     then ret (WriteError 400 ''invalid user update'') else
     bindE (canAssignRole (Principal_User p) (UpdateReq_Role input)) (\<lambda>assignable.
     if \<not> assignable \<or> 128 < length (UpdateReq_GroupIDs input) then ret (WriteError 400 ''invalid user update'') else
     handleE (Auth_UpdateUser w svc userID \<lparr>UserUpdate_Username = UpdateReq_Username input, UserUpdate_Email = UpdateReq_Email input,
         UserUpdate_Phone = UpdateReq_Phone input, UserUpdate_DisplayName = UpdateReq_DisplayName input, UserUpdate_PasswordHash = [],
         UserUpdate_Role = UpdateReq_Role input, UserUpdate_Enabled = enabled, UserUpdate_GroupIDs = UpdateReq_GroupIDs input\<rparr>
         (UpdateReq_Password input))
       (\<lambda>err. if errors_Is err ErrLastAdmin then WriteError 409 ''last administrator cannot be changed''
         else if errors_Is err ErrNotFound then WriteError 404 ''user or group not found''
         else WriteError 409 ''user could not be updated'') (\<lambda>user.
     audited_reply w (user_event p ''user_update'' ''success'' (User_ID user)) (WriteJSON 200 (clientUser user)))))"

definition Http_deleteUser :: "world \<Rightarrow> Principal \<Rightarrow> string \<Rightarrow> (server, unit reply) prog" where
  "Http_deleteUser w p userID =
     (if userID = actor p then ret (WriteError 409 ''current administrator cannot be deleted'')
      else handleE (Auth_DeleteUser userID)
        (\<lambda>err. if errors_Is err ErrLastAdmin then WriteError 409 ''last administrator cannot be deleted''
          else if errors_Is err ErrNotFound then WriteError 404 ''user not found''
          else WriteError 409 ''user could not be deleted'') (\<lambda>_.
        audited_reply w (user_event p ''user_delete'' ''success'' userID) (WriteHeader 204)))"

definition Http_setUserApproval :: "world \<Rightarrow> Principal \<Rightarrow> string \<Rightarrow> ApprovalStatus \<Rightarrow> (server, json reply) prog" where
  "Http_setUserApproval w p userID approval =
     handleE (Auth_SetUserApproval w userID approval) (\<lambda>_. WriteError 404 ''user not found'') (\<lambda>user.
     audited_reply w (user_event p ''user_approval_update'' approval (User_ID user)) (WriteJSON 200 (clientUser user)))"

definition Http_setUserPassword ::
  "world \<Rightarrow> Service \<Rightarrow> Principal \<Rightarrow> string \<Rightarrow> string option \<Rightarrow> (server, unit reply) prog" where
  "Http_setUserPassword w svc p userID body =
     (case body of None \<Rightarrow> ret (WriteError 400 ''invalid password'') | Some password \<Rightarrow>
      if length password < 1 \<or> 1024 < length password then ret (WriteError 400 ''invalid password'')
      else handleE (SetPassword w svc userID password) (\<lambda>_. WriteError 404 ''user not found'') (\<lambda>user.
        audited_reply w (user_event p ''user_password_reset'' ''success'' (User_ID user)) (WriteJSON 200 ())))"

section \<open>Roles\<close>

record roleRequest =
  RoleReq_ID :: Role
  RoleReq_Name :: string
  RoleReq_Description :: string
  RoleReq_Permissions :: "string list"

text \<open>The pattern \<^verbatim>\<open>^[a-z][a-z0-9_-]{1,63}$\<close>.\<close>

definition roleIDPattern :: "string \<Rightarrow> bool" where
  "roleIDPattern i = (case i of [] \<Rightarrow> False
     | c # cs \<Rightarrow> in_range 97 122 (byte c) \<and> 1 \<le> length cs \<and> length cs \<le> 63 \<and>
         list_all (\<lambda>c. in_range 97 122 (byte c) \<or> in_range 48 57 (byte c) \<or> c \<in> {CHR ''_'', CHR ''-''}) cs)"

definition normalizeRole :: "roleRequest \<Rightarrow> roleRequest option" where
  "normalizeRole input0 =
     (let input = input0\<lparr>RoleReq_ID := ToLower (TrimSpace (RoleReq_ID input0)), RoleReq_Name := TrimSpace (RoleReq_Name input0),
            RoleReq_Description := TrimSpace (RoleReq_Description input0)\<rparr>;
          permissions = map TrimSpace (RoleReq_Permissions input) in
      if \<not> roleIDPattern (RoleReq_ID input) \<or> length (RoleReq_Name input) < 2 \<or> 128 < length (RoleReq_Name input) \<or>
         512 < length (RoleReq_Description input) \<or> length AvailablePermissions < length permissions \<or>
         list_ex (\<lambda>q. q = PermissionAll \<or> q \<notin> set AvailablePermissions) permissions
      then None else Some (input\<lparr>RoleReq_Permissions := sort (remdups permissions)\<rparr>))"

definition listPermissions :: "(server, string list reply) prog" where
  "listPermissions = ret (WriteJSON 200 AvailablePermissions)"

definition Http_listRoles :: "(server, RoleDefinition list reply) prog" where
  "Http_listRoles = handleE (sql ListRoles) (\<lambda>_. WriteError 500 ''roles unavailable'') (\<lambda>roles. ret (WriteJSON 200 roles))"

definition Http_createRole :: "world \<Rightarrow> Principal \<Rightarrow> roleRequest option \<Rightarrow> (server, RoleDefinition reply) prog" where
  "Http_createRole w p body = (case Option.bind body normalizeRole of None \<Rightarrow> ret (WriteError 400 ''invalid role'') | Some input \<Rightarrow>
     if \<not> canGrant (Principal_User p) (RoleReq_Permissions input) \<or> RoleReq_ID input = RoleAdmin \<or> RoleReq_ID input = RoleUser
     then ret (WriteError 400 ''invalid role'')
     else bindE (now_of w) (\<lambda>now.
       let role = \<lparr>RoleDefinition_ID = RoleReq_ID input, RoleDefinition_Name = RoleReq_Name input,
             RoleDefinition_Description = RoleReq_Description input, RoleDefinition_Permissions = RoleReq_Permissions input,
             RoleDefinition_System = False, RoleDefinition_CreatedAt = now, RoleDefinition_UpdatedAt = now\<rparr> in
       handleE (sql (CreateRole role)) (\<lambda>_. WriteError 409 ''role already exists'') (\<lambda>_.
       audited_reply w (audit_event ''role_create'' (actor p) ''success'' [(''role_id'', JStr (RoleDefinition_ID role))])
         (WriteJSON 201 role))))"

text \<open>\<open>users, _ := ListUsers\<close>.\<close>

definition users_or_none :: "(server, User list) prog" where
  "users_or_none = attempt (sql ListUsers) (\<lambda>r. ret (case r of Inl _ \<Rightarrow> [] | Inr users \<Rightarrow> users))"

definition Http_updateRole :: "world \<Rightarrow> Principal \<Rightarrow> Role \<Rightarrow> roleRequest option \<Rightarrow> (server, RoleDefinition reply) prog" where
  "Http_updateRole w p roleID body =
     (case Option.bind body (\<lambda>input. normalizeRole (input\<lparr>RoleReq_ID := roleID\<rparr>)) of
        None \<Rightarrow> ret (WriteError 400 ''invalid role'') | Some input \<Rightarrow>
     if \<not> canGrant (Principal_User p) (RoleReq_Permissions input) then ret (WriteError 400 ''invalid role'') else
     handleE (sql (FindRoleByID (RoleReq_ID input))) (\<lambda>_. WriteError 409 ''system role cannot be changed'') (\<lambda>existing.
     if RoleDefinition_System existing then ret (WriteError 409 ''system role cannot be changed'') else
     bindE (now_of w) (\<lambda>now.
     let role = existing\<lparr>RoleDefinition_Name := RoleReq_Name input, RoleDefinition_Description := RoleReq_Description input,
           RoleDefinition_Permissions := RoleReq_Permissions input, RoleDefinition_UpdatedAt := now\<rparr> in
     handleE (sql (UpdateRole role)) (\<lambda>_. WriteError 404 ''role not found'') (\<lambda>_.
     bindE users_or_none (\<lambda>users.
     thenE (forE users (\<lambda>user. if User_Role user = RoleDefinition_ID role
              then ignoreE (Auth_ForceRelogin w (User_ID user)) (ret ()) else ret ()))
     (audited_reply w (audit_event ''role_update'' (actor p) ''success'' [(''role_id'', JStr (RoleDefinition_ID role))])
       (WriteJSON 200 role)))))))"

definition announce_user :: "User \<Rightarrow> (server, unit) prog" where
  "announce_user user = attempt (sql (FindUserByID (User_ID user))) (\<lambda>r. case r of
      Inl _ \<Rightarrow> ret ()
    | Inr updated \<Rightarrow> thenE (publish UserUpdated (PUser updated)) (publish_revoked_all (User_ID user)))"

definition Http_deleteRole :: "world \<Rightarrow> Principal \<Rightarrow> Role \<Rightarrow> (server, unit reply) prog" where
  "Http_deleteRole w p i = bindE users_or_none (\<lambda>users.
     handleE (sql (DeleteRole i)) (\<lambda>err. if errors_Is err ErrNotFound then WriteError 404 ''role not found'' else WriteErr 409 err) (\<lambda>_.
     thenE (forE users (\<lambda>user. if User_Role user = i then announce_user user else ret ()))
     (audited_reply w (audit_event ''role_delete'' (actor p) ''success'' [(''role_id'', JStr i)]) (WriteHeader 204))))"

end
