(* ===== verification/Books_Props.thy ===== *)
theory Books_Props
  imports Http_Books Auth_Props
begin

text \<open>
  What the address-book handlers guarantee: List and Authorize implement one rule, a request
  changes only what the rule gives its user, managing a book stays with its owner and the
  administrators, and the pages of a list are within it.
\<close>

section \<open>List and Authorize\<close>

definition rank_name :: "int \<Rightarrow> string" where
  "rank_name n = (if n = 1 then PermissionRead else if n = 2 then PermissionWrite
     else if n = 3 then PermissionManage else [])"

text \<open>What a user sees of a book.\<close>

definition book_view :: "db \<Rightarrow> User \<Rightarrow> address_books_row \<Rightarrow> AddressBook" where
  "book_view d user r = with_permission (rank_name (book_rank d user r)) (scan_book r)"

lemma rank_name_rank [simp]: "rank_name (permissionRank p) = (if permissionRank p = 0 then [] else p)"
  by (simp add: rank_name_def permissionRank_def)

lemma permissionFrom_eq:
  assumes "set ms = membership_of ` set (db_user_group_memberships d)"
    and "set gs = scanAddressBookGrants ` {g \<in> set (db_address_book_grants d).
      address_book_grants_address_book_id g = address_books_id b}"
  shows "permissionFrom user (scan_book b) gs ms =
      (if book_rank d user b = 0 then Inl ErrForbidden else Inr (rank_name (book_rank d user b)))"
proof (cases "permissionFrom user (scan_book b) gs ms")
  case (Inl e)
  then show ?thesis using permissionFrom_rank(2) [OF assms, of user e] by simp
next
  case (Inr p)
  then show ?thesis using permissionFrom_rank(1) [OF assms, of user p] by (metis rank_name_rank less_irrefl)
qed

lemma memberships_query: "set (map (\<lambda>x. \<lparr>UserGroupMembership_GroupID = user_group_memberships_group_id x,
    UserGroupMembership_UserID = user_group_memberships_user_id x, UserGroupMembership_Active = True\<rparr>)
    (sort_key k (db_user_group_memberships d))) = membership_of ` set (db_user_group_memberships d)"
  by (simp add: membership_of_def)

lemma scan_book_fields [simp]:
  "AddressBook_ID (scan_book r) = address_books_id r"
  "AddressBook_OwnerUserID (scan_book r) = address_books_owner_user_id r"
  "AddressBook_Kind (scan_book r) = address_books_kind r"
  by (simp_all add: scan_book_def)

lemma scan_grant_book [simp]:
  "AddressBookGrant_AddressBookID (scanAddressBookGrants g) = address_book_grants_address_book_id g"
  by (simp add: scanAddressBookGrants_def)

lemma book_tables_set_faults [simp]:
  "db_address_books (set_faults fs d) = db_address_books d"
  "db_address_book_grants (set_faults fs d) = db_address_book_grants d"
  "db_address_book_entries (set_faults fs d) = db_address_book_entries d"
  "db_address_book_tags (set_faults fs d) = db_address_book_tags d"
  "db_user_group_memberships (set_faults fs d) = db_user_group_memberships d"
  by (simp_all add: set_faults_def)

lemma book_rank_set_faults [simp]: "book_rank (set_faults fs d) user r = book_rank d user r"
  by (simp add: book_rank_def reaches_def)

text \<open>The permission of a user on a book, whatever the engine does: it is the rule's or an
  error.\<close>

lemma AddressBook_permission_ok:
  assumes "AddressBook_permission user (scan_book r) s = (Inr p, s')"
  shows "permissionRank p = book_rank (srv_db s) user r"
proof (cases "User_Role user = RoleAdmin \<or> User_ID user = address_books_owner_user_id r")
  case True
  then show ?thesis using assms by (auto simp: AddressBook_permission_def book_rank_def)
next
  case False
  with assms obtain gs s1 ms s2 where shared: "address_books_kind r = ''shared''"
    and g: "sql (ListAddressBookGrants (address_books_id r)) s = (Inr gs, s1)"
    and m: "sql ListUserGroupMemberships s1 = (Inr ms, s2)"
    and p: "permissionFrom user (scan_book r) gs ms = Inr p"
    by (auto simp: AddressBook_permission_def bindE_Inr_iff split: if_splits)
  from g obtain fs where s1: "srv_db s1 = set_faults fs (srv_db s)"
    and gs: "set gs = scanAddressBookGrants ` {g \<in> set (db_address_book_grants (srv_db s)).
      address_book_grants_address_book_id g = address_books_id r}"
    by (auto simp: sql_Inr_iff ListAddressBookGrants_def elim!: query_okE)
  from m s1 have ms: "set ms = membership_of ` set (db_user_group_memberships (srv_db s))"
    by (auto simp: sql_Inr_iff ListUserGroupMemberships_def membership_of_def elim!: query_okE)
  show ?thesis using permissionFrom_rank(1) [OF ms gs, of user p] p by simp
qed

lemma AddressBook_permission_run:
  assumes "db_faults (srv_db s) = []"
  shows "AddressBook_permission user (scan_book r) s =
      (if book_rank (srv_db s) user r = 0 then Inl ErrForbidden else Inr (rank_name (book_rank (srv_db s) user r)), s)"
proof (cases "User_Role user = RoleAdmin \<or> User_ID user = address_books_owner_user_id r")
  case True
  then show ?thesis by (auto simp: AddressBook_permission_def book_rank_def rank_name_def)
next
  case F: False
  show ?thesis
  proof (cases "address_books_kind r = ''shared''")
    case False
    then show ?thesis using F by (simp add: AddressBook_permission_def book_rank_def)
  next
    case True
    have "permissionFrom user (scan_book r) (map scanAddressBookGrants
        (sort_key (\<lambda>x. (address_book_grants_subject_type x, address_book_grants_subject_id x))
        (filter (\<lambda>x. address_book_grants_address_book_id x = address_books_id r) (db_address_book_grants (srv_db s)))))
        (map (\<lambda>x. \<lparr>UserGroupMembership_GroupID = user_group_memberships_group_id x,
           UserGroupMembership_UserID = user_group_memberships_user_id x, UserGroupMembership_Active = True\<rparr>)
         (sort_key (\<lambda>x. (user_group_memberships_group_id x, user_group_memberships_user_id x))
           (db_user_group_memberships (srv_db s)))) =
        (if book_rank (srv_db s) user r = 0 then Inl ErrForbidden else Inr (rank_name (book_rank (srv_db s) user r)))"
      by (rule permissionFrom_eq [OF memberships_query]) auto
    then show ?thesis using F True assms
      by (simp add: AddressBook_permission_def ListAddressBookGrants_def ListUserGroupMemberships_def statement_run sql_run)
  qed
qed

lemma book_rank_range: "book_rank d user r \<in> {0, 1, 2, 3}"
proof -
  let ?R = "{permissionRank (address_book_grants_permission g) | g.
             g \<in> set (db_address_book_grants d) \<and> address_book_grants_address_book_id g = address_books_id r \<and>
             reaches d user g}"
  have "finite ?R" by simp
  then have "Max (insert 0 ?R) \<in> insert 0 ?R" by (intro Max_in) auto
  then consider "Max (insert 0 ?R) = 0" | p where "Max (insert 0 ?R) = permissionRank p" by blast
  then have "Max (insert 0 ?R) \<in> {0, 1, 2, 3}" using permissionRank_cases by cases auto
  then show ?thesis by (simp add: book_rank_def)
qed

lemma rank_of_rank_name [simp]: "permissionRank (rank_name (book_rank d user r)) = book_rank d user r"
  using book_rank_range [of d user r] by (auto simp: rank_name_def)

section \<open>Isolation\<close>

text \<open>The rows of one book.\<close>

definition book_rows :: "db \<Rightarrow> string \<Rightarrow> address_books_row list" where
  "book_rows d i = filter (\<lambda>r. address_books_id r = i) (db_address_books d)"

definition grant_rows :: "db \<Rightarrow> string \<Rightarrow> address_book_grants_row list" where
  "grant_rows d i = filter (\<lambda>r. address_book_grants_address_book_id r = i) (db_address_book_grants d)"

definition entry_rows :: "db \<Rightarrow> string \<Rightarrow> address_book_entries_row list" where
  "entry_rows d i = filter (\<lambda>r. address_book_entries_address_book_id r = i) (db_address_book_entries d)"

definition tag_rows :: "db \<Rightarrow> string \<Rightarrow> address_book_tags_row list" where
  "tag_rows d i = filter (\<lambda>r. address_book_tags_address_book_id r = i) (db_address_book_tags d)"

text \<open>The rank of a user on the book \<open>i\<close>, 0 when there is none.\<close>

definition rank_on :: "db \<Rightarrow> User \<Rightarrow> string \<Rightarrow> int" where
  "rank_on d user i = (case find (\<lambda>r. address_books_id r = i) (db_address_books d) of
     None \<Rightarrow> 0 | Some r \<Rightarrow> book_rank d user r)"

definition books_pk :: "db \<Rightarrow> bool" where
  "books_pk d \<longleftrightarrow> distinct (map address_books_id (db_address_books d))"

text \<open>Three relations between databases: the keys and memberships stay, the book \<open>i\<close> and its
  grants stay too, and its entries and tags stay as well.\<close>

definition keys_kept :: "db \<Rightarrow> db \<Rightarrow> bool" where
  "keys_kept d d' \<longleftrightarrow> db_user_group_memberships d' = db_user_group_memberships d \<and> (books_pk d \<longrightarrow> books_pk d')"

definition book_kept :: "string \<Rightarrow> db \<Rightarrow> db \<Rightarrow> bool" where
  "book_kept i d d' \<longleftrightarrow> keys_kept d d' \<and> grant_rows d' i = grant_rows d i \<and>
     (book_rows d i \<noteq> [] \<longrightarrow> book_rows d' i = book_rows d i)"

definition content_kept :: "string \<Rightarrow> db \<Rightarrow> db \<Rightarrow> bool" where
  "content_kept i d d' \<longleftrightarrow> book_kept i d d' \<and> entry_rows d' i = entry_rows d i \<and> tag_rows d' i = tag_rows d i"

lemmas kept_defs = content_kept_def book_kept_def keys_kept_def

lemma kept_set_faults [simp]:
  "books_pk (set_faults fs d) = books_pk d" "book_rows (set_faults fs d) = book_rows d"
  "grant_rows (set_faults fs d) = grant_rows d" "entry_rows (set_faults fs d) = entry_rows d"
  "tag_rows (set_faults fs d) = tag_rows d" "rank_on (set_faults fs d) = rank_on d"
  by (simp_all add: books_pk_def book_rows_def grant_rows_def entry_rows_def tag_rows_def rank_on_def fun_eq_iff
      split: option.split)

interpretation kys: db_rel keys_kept
  by unfold_locales (auto simp: keys_kept_def)

interpretation bks: db_rel "book_kept i" for i
  by unfold_locales (auto simp: kept_defs)

interpretation cnt: db_rel "content_kept i" for i
  by unfold_locales (auto simp: kept_defs)

interpretation ksr: server_rel keys_kept
  by unfold_locales

interpretation bsr: server_rel "book_kept i" for i
  by unfold_locales

interpretation csr: server_rel "content_kept i" for i
  by unfold_locales

text \<open>The statements on one book leave the others alone.\<close>

lemma audited_kept: "audited d d' \<Longrightarrow> content_kept i d d'"
proof -
  assume a: "audited d d'"
  have "(books_pk d', book_rows d', grant_rows d', entry_rows d', tag_rows d', db_user_group_memberships d') =
      (books_pk d, book_rows d, grant_rows d, entry_rows d, tag_rows d, db_user_group_memberships d)"
    by (rule audited_same [OF a])
      (simp_all add: books_pk_def book_rows_def grant_rows_def entry_rows_def tag_rows_def fun_eq_iff)
  then show ?thesis by (simp add: kept_defs)
qed

lemmas rows_defs = books_pk_def book_rows_def grant_rows_def entry_rows_def tag_rows_def

lemma CreateAddressBook_kept: "steps (content_kept i) (CreateAddressBook v)"
  unfolding CreateAddressBook_def
  by (intro cnt.db_intros) (auto simp: kept_defs rows_defs book_insert_ok_def book_row_of_def filter_empty_conv)

lemma entries_content_kept:
  "AddressBookEntry_AddressBookID v \<noteq> i \<Longrightarrow> steps (content_kept i) (CreateAddressBookEntry v)"
  "AddressBookEntry_AddressBookID v \<noteq> i \<Longrightarrow> steps (content_kept i) (UpdateAddressBookEntry v)"
  "bk \<noteq> i \<Longrightarrow> steps (content_kept i) (DeleteAddressBookEntry bk e)"
  "bk \<noteq> i \<Longrightarrow> steps (content_kept i) (ReplaceAddressBookEntries bk es)"
  unfolding CreateAddressBookEntry_def UpdateAddressBookEntry_def DeleteAddressBookEntry_def ReplaceAddressBookEntries_def
  by (intro cnt.db_intros; auto simp: kept_defs rows_defs entry_row_of_def intro!: filter_upd_where_other filter_cong)+

lemma tags_content_kept:
  "AddressBookTag_AddressBookID t \<noteq> i \<Longrightarrow> steps (content_kept i) (CreateAddressBookTag t)"
  "AddressBookTag_AddressBookID t \<noteq> i \<Longrightarrow> steps (content_kept i) (UpdateAddressBookTag t old)"
  "bk \<noteq> i \<Longrightarrow> steps (content_kept i) (DeleteAddressBookTag bk n)"
  unfolding CreateAddressBookTag_def UpdateAddressBookTag_def DeleteAddressBookTag_def
  by (intro cnt.db_intros; auto simp: kept_defs rows_defs tag_row_of_def intro!: filter_upd_where_other filter_cong)+

lemma books_content_kept:
  "AddressBook_ID v \<noteq> i \<Longrightarrow> steps (content_kept i) (UpdateAddressBook v)"
  "bk \<noteq> i \<Longrightarrow> steps (content_kept i) (DeleteAddressBook bk)"
  "AddressBookGrant_AddressBookID g \<noteq> i \<Longrightarrow> steps (content_kept i) (UpsertAddressBookGrant g)"
  "bk \<noteq> i \<Longrightarrow> steps (content_kept i) (DeleteAddressBookGrant bk gi)"
  unfolding UpdateAddressBook_def DeleteAddressBook_def UpsertAddressBookGrant_def DeleteAddressBookGrant_def
  by (intro cnt.db_intros; auto simp: kept_defs rows_defs grant_row_of_def grant_key_def upd_where_map_key distinct_map_filter
    intro!: filter_upd_where_other filter_cong)+

lemma entries_book_kept:
  "steps (book_kept i) (CreateAddressBookEntry v)" "steps (book_kept i) (UpdateAddressBookEntry v)"
  "steps (book_kept i) (DeleteAddressBookEntry bk e)" "steps (book_kept i) (ReplaceAddressBookEntries bk es)"
  "steps (book_kept i) (CreateAddressBookTag t)" "steps (book_kept i) (UpdateAddressBookTag t old)"
  "steps (book_kept i) (DeleteAddressBookTag bk n)"
  unfolding CreateAddressBookEntry_def UpdateAddressBookEntry_def DeleteAddressBookEntry_def ReplaceAddressBookEntries_def
    CreateAddressBookTag_def UpdateAddressBookTag_def DeleteAddressBookTag_def
  by (intro bks.db_intros; auto simp: kept_defs rows_defs)+

lemma books_keys_kept:
  "steps keys_kept (UpdateAddressBook v)" "steps keys_kept (DeleteAddressBook bk)"
  "steps keys_kept (UpsertAddressBookGrant g)" "steps keys_kept (DeleteAddressBookGrant bk gi)"
  unfolding UpdateAddressBook_def DeleteAddressBook_def UpsertAddressBookGrant_def DeleteAddressBookGrant_def
  by (intro kys.db_intros; auto simp: kept_defs rows_defs upd_where_map_key distinct_map_filter)+

text \<open>What an operation on the book \<open>bk\<close> may change of the book \<open>i\<close>, once its user is
  authorized.\<close>

definition scope_kept :: "string \<Rightarrow> string \<Rightarrow> string \<Rightarrow> db \<Rightarrow> db \<Rightarrow> bool" where
  "scope_kept required bk i = (if bk \<noteq> i then content_kept i
     else if required = PermissionManage then keys_kept else book_kept i)"

interpretation scp: db_rel "scope_kept required bk i" for required bk i
  by (simp add: scope_kept_def cnt.db_rel_axioms kys.db_rel_axioms bks.db_rel_axioms)

interpretation scs: server_rel "scope_kept required bk i" for required bk i
  by unfold_locales

lemma content_scope: "content_kept i d d' \<Longrightarrow> scope_kept required bk i d d'"
  by (simp add: scope_kept_def kept_defs)

lemma book_scope: "book_kept i d d' \<Longrightarrow> bk = i \<Longrightarrow> scope_kept required bk i d d'"
  by (simp add: scope_kept_def kept_defs)

lemma in_scope:
  assumes "bk \<noteq> i \<Longrightarrow> steps (content_kept i) m" and "steps (book_kept i) m"
  shows "steps (scope_kept required bk i) m"
  using assms by (cases "bk = i") (auto intro: steps_mono content_scope book_scope)

lemma scope_operations:
  "AddressBookEntry_AddressBookID v = bk \<Longrightarrow> steps (scope_kept required bk i) (CreateAddressBookEntry v)"
  "AddressBookEntry_AddressBookID v = bk \<Longrightarrow> steps (scope_kept required bk i) (UpdateAddressBookEntry v)"
  "steps (scope_kept required bk i) (DeleteAddressBookEntry bk e)"
  "steps (scope_kept required bk i) (ReplaceAddressBookEntries bk es)"
  "AddressBookTag_AddressBookID t = bk \<Longrightarrow> steps (scope_kept required bk i) (CreateAddressBookTag t)"
  "AddressBookTag_AddressBookID t = bk \<Longrightarrow> steps (scope_kept required bk i) (UpdateAddressBookTag t old)"
  "steps (scope_kept required bk i) (DeleteAddressBookTag bk n)"
  "AddressBook_ID b = bk \<Longrightarrow> steps (scope_kept PermissionManage bk i) (UpdateAddressBook b)"
  "steps (scope_kept PermissionManage bk i) (DeleteAddressBook bk)"
  "AddressBookGrant_AddressBookID g = bk \<Longrightarrow> steps (scope_kept PermissionManage bk i) (UpsertAddressBookGrant g)"
  "steps (scope_kept PermissionManage bk i) (DeleteAddressBookGrant bk gi)"
            apply (blast intro: in_scope entries_content_kept entries_book_kept tags_content_kept)+
     apply (auto simp: scope_kept_def intro: books_content_kept books_keys_kept)
  done

lemma Record_scope: "steps (on_db (scope_kept required bk i)) (Record w event)"
  by (rule steps_mono [OF audited_Record]) (auto simp: on_db_def intro: audited_kept content_scope)

section \<open>The guard\<close>

text \<open>What the access of a user keeps of the book \<open>i\<close>.\<close>

definition access_kept :: "User \<Rightarrow> string \<Rightarrow> db \<Rightarrow> db \<Rightarrow> bool" where
  "access_kept user i d d' \<longleftrightarrow> (books_pk d \<and> book_rows d i \<noteq> [] \<longrightarrow>
     (rank_on d user i < 3 \<longrightarrow> book_rows d' i = book_rows d i \<and> grant_rows d' i = grant_rows d i) \<and>
     (rank_on d user i < 2 \<longrightarrow> entry_rows d' i = entry_rows d i \<and> tag_rows d' i = tag_rows d i))"

lemma content_access: "content_kept i d d' \<Longrightarrow> access_kept user i d d'"
  by (simp add: access_kept_def kept_defs)

lemma same_content: "same_tables d d' \<Longrightarrow> content_kept i d d'"
  by (metis cnt.rel_faults same_tablesE)

lemma sql_reads: "steps same_tables m \<Longrightarrow> steps (on_db same_tables) (sql m)"
  by (rule rdo.steps_sql)

lemma book_queries:
  "steps same_tables (FindAddressBookByID i)" "steps same_tables ListAddressBooks"
  "steps same_tables (ListAddressBookGrants i)" "steps same_tables ListAllAddressBookGrants"
  "steps same_tables ListUserGroupMemberships" "steps same_tables (ListAddressBookEntries i)"
  "steps same_tables (ListAddressBookTags i)" "steps same_tables ListUsers"
  "steps same_tables (FindUserByID u)" "steps same_tables (FindGroupByID g)"
  unfolding FindAddressBookByID_def ListAddressBooks_def ListAddressBookGrants_def ListAllAddressBookGrants_def
    ListUserGroupMemberships_def ListAddressBookEntries_def ListAddressBookTags_def ListUsers_def FindUserByID_def
    FindGroupByID_def
  by (intro stb.basic_intros)+

lemma Authorize_reads: "steps (on_db same_tables) (Authorize user bk required)"
  unfolding Authorize_def AddressBook_permission_def
  by (intro rdo.lifted_intros rdo.steps_sql book_queries)

lemma Authorize_ok:
  assumes "Authorize user bk required s = (Inr b, s')"
  shows "permissionRank required \<le> rank_on (srv_db s) user bk" "AddressBook_ID b = bk"
proof -
  from assms obtain r s1 p where f: "sql (FindAddressBookByID bk) s = (Inr (scan_book r), s1)"
    and r: "find (\<lambda>r. address_books_id r = bk) (db_address_books (srv_db s)) = Some r"
    and s1: "same_tables (srv_db s) (srv_db s1)"
    and p: "AddressBook_permission user (scan_book r) s1 = (Inr p, s')" "permissionRank required \<le> permissionRank p"
    and b: "b = with_permission p (scan_book r)"
    by (auto simp: Authorize_def bindE_Inr_iff sql_Inr_iff FindAddressBookByID_def scan_found_Inr_iff not_less
        split: if_splits elim!: query_row_okE)
  have "book_rank (srv_db s1) user r = book_rank (srv_db s) user r"
    using s1 by (metis book_rank_set_faults same_tablesE)
  with AddressBook_permission_ok [OF p(1)] p(2) r show "permissionRank required \<le> rank_on (srv_db s) user bk"
    by (simp add: rank_on_def)
  show "AddressBook_ID b = bk" using b r find_Some_in [OF r] by (simp add: with_permission_def)
qed

text \<open>A handler that authorizes its user on \<open>bk\<close> first.\<close>

lemma guarded:
  assumes req: "required \<in> {PermissionWrite, PermissionManage}"
    and k: "\<And>b. AddressBook_ID b = bk \<Longrightarrow> steps (on_db (scope_kept required bk i)) (k b)"
  shows "steps (on_db (access_kept user i)) (handleE (Authorize user bk required) h k)"
proof (rule stepsI)
  fix s
  obtain r s1 where a: "Authorize user bk required s = (r, s1)" by fastforce
  from stepsD [OF Authorize_reads a] have same: "same_tables (srv_db s) (srv_db s1)"
    by (simp add: on_db_def)
  show "on_db (access_kept user i) s (snd (handleE (Authorize user bk required) h k s))"
  proof (cases r)
    case (Inl e)
    then show ?thesis using a same by (simp add: handleE_run on_db_def content_access same_content)
  next
    case (Inr b)
    note ok = Authorize_ok [OF a [unfolded Inr]]
    have "scope_kept required bk i (srv_db s) (srv_db (snd (k b s1)))"
      using k [OF ok(2)] scp.step_trans [OF content_scope [OF same_content [OF same]]]
      by (auto simp: steps_def on_db_def)
    then have "access_kept user i (srv_db s) (srv_db (snd (k b s1)))"
      using ok(1) req by (auto simp: scope_kept_def access_kept_def kept_defs split: if_splits)
    then show ?thesis using a Inr by (simp add: handleE_run on_db_def)
  qed
qed

section \<open>The handlers\<close>

lemma entries_listed:
  "sql (ListAddressBookEntries bk) s = (Inr es, s') \<Longrightarrow> \<forall>e\<in>set es. AddressBookEntry_AddressBookID e = bk"
  by (auto simp: sql_Inr_iff ListAddressBookEntries_def scan_entry_def elim!: query_okE)

lemma entries_of_listed: "entries_of bk s = (Inr es, s') \<Longrightarrow> \<forall>e\<in>set es. AddressBookEntry_AddressBookID e = bk"
  using entries_listed by (auto simp: entries_of_def attempt_run split: sum.splits) (metis prod.collapse)

lemma tags_listed:
  "sql (ListAddressBookTags bk) s = (Inr ts, s') \<Longrightarrow> \<forall>t\<in>set ts. AddressBookTag_AddressBookID t = bk"
  by (auto simp: sql_Inr_iff ListAddressBookTags_def scan_tag_def elim!: query_okE)

lemma client_entries_book:
  "client_entries w bk now seen peers s = (Inr (Some es), s') \<Longrightarrow> \<forall>e\<in>set es. AddressBookEntry_AddressBookID e = bk"
  by (induction peers arbitrary: seen s es s')
    (fastforce simp: bindE_Inr_iff draw_Inr_iff peer_entry_def split: if_splits)+

lemma entriesFromClientPeers_book:
  "entriesFromClientPeers w bk peers s = (Inr es, s') \<Longrightarrow>
     \<forall>xs e. es = Some xs \<longrightarrow> e \<in> set xs \<longrightarrow> AddressBookEntry_AddressBookID e = bk"
  using client_entries_book by (fastforce simp: entriesFromClientPeers_def bindE_Inr_iff)

lemma reads_scope: "steps (on_db same_tables) m \<Longrightarrow> steps (on_db (scope_kept required bk i)) m"
  by (erule steps_mono) (simp add: on_db_def content_scope same_content)

lemma query_scope: "steps same_tables m \<Longrightarrow> steps (scope_kept required bk i) m"
  by (erule steps_mono) (simp add: content_scope same_content)

lemmas queries_scope = book_queries [THEN query_scope]

lemma audited_reply_scope: "steps (on_db (scope_kept required bk i)) (audited_reply w event r)"
  unfolding audited_reply_def by (intro scs.lifted_intros Record_scope)

lemmas scope_intros = audited_reply_scope scs.handler_intros scs.steps_sql scope_operations queries_scope

lemma write_handlers_access:
  "steps (on_db (access_kept (Principal_User p) i)) (createAddressBookEntry w p bk entry)"
  "steps (on_db (access_kept (Principal_User p) i)) (updateAddressBookEntry w p bk e entry)"
  "steps (on_db (access_kept (Principal_User p) i)) (deleteAddressBookEntry w p bk e)"
  "steps (on_db (access_kept (Principal_User p) i)) (clientAddAddressBookTag w p bk tag)"
  unfolding createAddressBookEntry_def updateAddressBookEntry_def deleteAddressBookEntry_def clientAddAddressBookTag_def
  by (rule guarded; (intro scope_intros)?; simp)+

lemma manage_handlers_access:
  "steps (on_db (access_kept (Principal_User p) i)) (updateAddressBook w p bk book)"
  "steps (on_db (access_kept (Principal_User p) i)) (deleteAddressBook w p bk)"
  unfolding updateAddressBook_def deleteAddressBook_def
  by (rule guarded; (intro scope_intros)?; simp)+

lemma grant_handlers_access:
  "steps (on_db (access_kept (Principal_User p) i)) (putAddressBookGrant w p bk grant)"
  "steps (on_db (access_kept (Principal_User p) i)) (deleteAddressBookGrant w p bk gi)"
proof -
  have reads: "steps (on_db (access_kept u i)) (ret r)" for u r
    by (simp add: steps_def on_db_def access_kept_def)
  show "steps (on_db (access_kept (Principal_User p) i)) (deleteAddressBookGrant w p bk gi)"
    unfolding deleteAddressBookGrant_def DeleteGrant_def handleE_bindE
    by (rule guarded; (intro scope_intros)?; simp)
  show "steps (on_db (access_kept (Principal_User p) i)) (putAddressBookGrant w p bk grant)"
  proof (cases grant)
    case None
    then show ?thesis by (simp add: putAddressBookGrant_def reads)
  next
    case (Some g)
    show ?thesis
      unfolding putAddressBookGrant_def Some option.case PutGrant_def handleE_bindE check_subject_def
      by (rule guarded; (intro scope_intros)?; simp)
  qed
qed

lemma tag_loops_scope:
  "\<forall>e\<in>set es. AddressBookEntry_AddressBookID e = bk \<Longrightarrow>
     steps (on_db (scope_kept required bk i)) (forE es (rename_entry_tag old new))"
  "\<forall>e\<in>set es. AddressBookEntry_AddressBookID e = bk \<Longrightarrow>
     steps (on_db (scope_kept required bk i)) (forE es (drop_entry_tags removed))"
  unfolding rename_entry_tag_def drop_entry_tags_def
  by (intro scope_intros; simp)+

lemma entries_of_reads: "steps (on_db same_tables) (entries_of bk)"
  unfolding entries_of_def by (intro rdo.lifted_intros rdo.steps_sql book_queries)

lemma delete_tags_scope: "steps (on_db (scope_kept required bk i)) (delete_tags bk names)"
  by (induction names) (simp_all only: delete_tags.simps, (intro scope_intros; assumption?)+)

lemma delete_peers_scope: "steps (on_db (scope_kept required bk i)) (delete_peers bk entries ids)"
  by (induction ids) (simp_all only: delete_peers.simps, (intro scope_intros; assumption?)+)

lemma client_entries_reads: "steps (on_db same_tables) (client_entries w bk now seen peers)"
  by (induction peers arbitrary: seen)
    (simp_all only: client_entries.simps, (intro rdo.lifted_intros rdo.steps_draw; assumption?)+)

lemma entriesFromClientPeers_reads: "steps (on_db same_tables) (entriesFromClientPeers w bk peers)"
  unfolding entriesFromClientPeers_def by (intro rdo.lifted_intros rdo.steps_draw client_entries_reads)

lemma find_in_entries: "\<forall>e\<in>set es. AddressBookEntry_AddressBookID e = bk \<Longrightarrow> find p es = Some e \<Longrightarrow>
    AddressBookEntry_AddressBookID e = bk"
  using find_Some_in by metis

lemma find_in_tags: "\<forall>t\<in>set ts. AddressBookTag_AddressBookID t = bk \<Longrightarrow> find p ts = Some t \<Longrightarrow>
    AddressBookTag_AddressBookID t = bk"
  using find_Some_in by metis

lemma tag_handlers_access:
  "steps (on_db (access_kept (Principal_User p) i)) (clientRenameAddressBookTag w p bk names)"
  "steps (on_db (access_kept (Principal_User p) i)) (clientUpdateAddressBookTag w p bk tag)"
  "steps (on_db (access_kept (Principal_User p) i)) (clientDeleteAddressBookTags p bk removed)"
  unfolding clientRenameAddressBookTag_def clientUpdateAddressBookTag_def clientDeleteAddressBookTags_def
  by (rule guarded; (intro tag_loops_scope delete_tags_scope
        scs.steps_post(1) [OF reads_scope [OF entries_of_reads] entries_of_listed]
        scs.steps_post(2) [OF scs.steps_sql [OF queries_scope(7)] tags_listed] scope_intros)?;
        (simp; fail | simp, erule (1) find_in_tags))+

lemma peer_handlers_access:
  "steps (on_db (access_kept (Principal_User p) i)) (clientAddAddressBookPeer w p bk peer)"
  "steps (on_db (access_kept (Principal_User p) i)) (clientUpdateAddressBookPeer p bk peer)"
  "steps (on_db (access_kept (Principal_User p) i)) (clientDeleteAddressBookPeer p bk ids)"
  unfolding clientAddAddressBookPeer_def clientUpdateAddressBookPeer_def clientDeleteAddressBookPeer_def
  by (rule guarded; (intro delete_peers_scope
        scs.steps_post(1) [OF reads_scope [OF entriesFromClientPeers_reads] entriesFromClientPeers_book]
        scs.steps_post(2) [OF scs.steps_sql [OF queries_scope(6)] entries_listed] scope_intros)?;
        (simp; fail | (simp add: updated_entry_def, erule (1) find_in_entries) | (auto; fail)))+

lemma Record_content: "steps (on_db (content_kept i)) (Record w event)"
  by (rule steps_mono [OF audited_Record]) (simp add: on_db_def audited_kept)

lemma content_steps_access: "steps (on_db (content_kept i)) m \<Longrightarrow> steps (on_db (access_kept user i)) m"
  by (erule steps_mono) (simp add: on_db_def content_access)

lemma query_content: "steps same_tables m \<Longrightarrow> steps (content_kept i) m"
  by (erule steps_mono) (rule same_content)

lemma personalAddressBook_content: "steps (on_db (content_kept i)) (personalAddressBook w user create)"
  unfolding personalAddressBook_def
  by (intro csr.handler_intros csr.steps_sql query_content [OF book_queries(2)] CreateAddressBook_kept)

lemma createAddressBook_access: "steps (on_db (access_kept user i)) (createAddressBook w p book)"
  unfolding createAddressBook_def audited_reply_def
  by (intro content_steps_access csr.handler_intros csr.steps_sql CreateAddressBook_kept Record_content)

text \<open>The personal book is the user's own, or a new one.\<close>

lemma rank_on_own:
  assumes "books_pk d" "r \<in> set (db_address_books d)" "address_books_owner_user_id r = User_ID user"
  shows "rank_on d user (address_books_id r) = 3"
proof -
  have "find (\<lambda>x. address_books_id x = address_books_id r) (db_address_books d) = Some r"
    using assms(1,2) by (intro find_distinct_key) (auto simp: books_pk_def)
  then show ?thesis using assms(3) by (simp add: rank_on_def book_rank_def)
qed

lemma personalAddressBook_ok:
  assumes "personalAddressBook w user True s = (Inr found, s')" "books_pk (srv_db s)"
  obtains b where "found = Some b"
    "book_rows (srv_db s) (AddressBook_ID b) \<noteq> [] \<Longrightarrow> rank_on (srv_db s) user (AddressBook_ID b) = 3"
proof -
  from assms(1) obtain books s1 where l: "sql ListAddressBooks s = (Inr books, s1)"
    by (auto simp: personalAddressBook_def bindE_Inr_iff)
  then obtain fs where s1: "s1 = s\<lparr>srv_db := set_faults fs (srv_db s)\<rparr>"
    and books: "set books = scan_book ` set (db_address_books (srv_db s))"
    by (auto simp: sql_Inr_iff ListAddressBooks_def elim!: query_okE)
  show thesis
  proof (cases "find (is_personal user) books")
    case (Some b)
    then obtain r where r: "b = scan_book r" "r \<in> set (db_address_books (srv_db s))"
        "address_books_owner_user_id r = User_ID user"
      using find_Some_in [OF Some] books by (auto simp: is_personal_def)
    have "found = Some (b\<lparr>AddressBook_Permission := PermissionManage, AddressBook_CanManage := True\<rparr>)"
      using assms(1) l Some by (simp add: personalAddressBook_def bindE_run)
    then show thesis using that rank_on_own [OF assms(2) r(2,3)] r(1) by simp
  next
    case None
    with assms(1) l s1 obtain b d' where b: "found = Some b" and c: "CreateAddressBook b (set_faults fs (srv_db s)) = (Inr (), d')"
      by (auto simp: personalAddressBook_def bindE_Inr_iff thenE_Inr_iff draw_Inr_iff sql_Inr_iff Let_def)
    from c have "book_rows (srv_db s) (AddressBook_ID b) = []"
      by (auto simp: CreateAddressBook_def book_insert_ok_def book_row_of_def book_rows_def filter_empty_conv
          elim!: exec_insert_okE)
    then show thesis using that b by simp
  qed
qed

lemma updateLegacyAddressBook_access:
  "steps (on_db (access_kept (Principal_User p) i)) (updateLegacyAddressBook w p unmarshal body)"
proof -
  have rest: "steps (on_db (scope_kept PermissionManage bk i)) (bindE (entriesFromClientPeers w bk peers) (\<lambda>entries.
      case entries of None \<Rightarrow> ret (WriteError 400 ''invalid address book peer'') | Some es \<Rightarrow>
      handleE (sql (ReplaceAddressBookEntries bk es)) (\<lambda>_. WriteError 409 ''address book contains duplicate peers'') (\<lambda>_.
      audited_reply w (audit_event ''address_book_sync'' (actor p) ''success''
        [(''address_book_id'', JStr bk), (''peer_count'', JNum (of_nat (length es)))]) (WriteHeader 200))))" for bk peers
    by (intro scope_intros reads_scope [OF entriesFromClientPeers_reads])
  have step: "steps (on_db (access_kept (Principal_User p) i))
      (handleE (personalAddressBook w (Principal_User p) True) writeAddressBookError k)"
    if k: "\<And>b. steps (on_db (scope_kept PermissionManage (AddressBook_ID b) i)) (k (Some b))" for k
  proof (rule stepsI)
    fix s :: server
    let ?d = "srv_db s"
    obtain r s1 where a: "personalAddressBook w (Principal_User p) True s = (r, s1)" by fastforce
    then have content: "content_kept i ?d (srv_db s1)"
      using stepsD [OF personalAddressBook_content a] by (simp add: on_db_def)
    show "on_db (access_kept (Principal_User p) i) s
        (snd (handleE (personalAddressBook w (Principal_User p) True) writeAddressBookError k s))"
    proof (cases "\<exists>found. r = Inr found \<and> books_pk ?d")
      case True
      then obtain b where b: "r = Inr (Some b)"
        and own: "book_rows ?d (AddressBook_ID b) \<noteq> [] \<Longrightarrow> rank_on ?d (Principal_User p) (AddressBook_ID b) = 3"
        using personalAddressBook_ok a by metis
      have "scope_kept PermissionManage (AddressBook_ID b) i ?d (srv_db (snd (k (Some b) s1)))"
        using k [of b] scp.step_trans [OF content_scope [OF content]] by (auto simp: steps_def on_db_def)
      then show ?thesis using a b own
        by (auto simp: handleE_run on_db_def access_kept_def scope_kept_def kept_defs split: if_splits)
    next
      case False
      then show ?thesis using a content_access [OF content]
        by (cases r) (auto simp: handleE_run on_db_def access_kept_def)
    qed
  qed
  have reads: "steps (on_db (access_kept u i)) (ret r)" for u r
    by (simp add: steps_def on_db_def access_kept_def)
  show ?thesis
    unfolding updateLegacyAddressBook_def
    by (cases body; simp only: option.case Let_def split: option.split if_split)
      (auto intro!: reads step rest)
qed

lemma read_handlers_content:
  "steps (on_db (content_kept i)) (listAddressBooks p)" "steps (on_db (content_kept i)) (listAddressBookEntries p bk)"
  "steps (on_db (content_kept i)) (listAddressBookGrants p bk)" "steps (on_db (content_kept i)) (legacyAddressBook w p)"
  "steps (on_db (content_kept i)) (clientPersonalAddressBook w p)" "steps (on_db (content_kept i)) (clientSharedAddressBooks p q)"
  "steps (on_db (content_kept i)) (clientAddressBookPeers p q)" "steps (on_db (content_kept i)) (clientAddressBookTags p bk)"
  unfolding listAddressBooks_def listAddressBookEntries_def listAddressBookGrants_def legacyAddressBook_def
    clientPersonalAddressBook_def clientSharedAddressBooks_def clientAddressBookPeers_def clientAddressBookTags_def
    AddressBook_List_def Grants_def Authorize_def AddressBook_permission_def
  by (intro csr.handler_intros csr.steps_sql personalAddressBook_content query_content book_queries)+

text \<open>The requests of a user on the address books.\<close>

inductive book_call :: "world \<Rightarrow> Principal \<Rightarrow> server \<Rightarrow> server \<Rightarrow> bool" for w p where
  "book_call w p s (snd (listAddressBooks p s))"
| "book_call w p s (snd (listAddressBookEntries p bk s))"
| "book_call w p s (snd (createAddressBookEntry w p bk entry s))"
| "book_call w p s (snd (createAddressBook w p book s))"
| "book_call w p s (snd (updateAddressBook w p bk book s))"
| "book_call w p s (snd (deleteAddressBook w p bk s))"
| "book_call w p s (snd (updateAddressBookEntry w p bk e entry s))"
| "book_call w p s (snd (deleteAddressBookEntry w p bk e s))"
| "book_call w p s (snd (listAddressBookGrants p bk s))"
| "book_call w p s (snd (putAddressBookGrant w p bk grant s))"
| "book_call w p s (snd (deleteAddressBookGrant w p bk gi s))"
| "book_call w p s (snd (legacyAddressBook w p s))"
| "book_call w p s (snd (updateLegacyAddressBook w p unmarshal body s))"
| "book_call w p s (snd (clientPersonalAddressBook w p s))"
| "book_call w p s (snd (clientSharedAddressBooks p q s))"
| "book_call w p s (snd (clientAddressBookPeers p q s))"
| "book_call w p s (snd (clientAddressBookTags p bk s))"
| "book_call w p s (snd (clientAddAddressBookTag w p bk tag s))"
| "book_call w p s (snd (clientRenameAddressBookTag w p bk names s))"
| "book_call w p s (snd (clientUpdateAddressBookTag w p bk tag s))"
| "book_call w p s (snd (clientDeleteAddressBookTags p bk removed s))"
| "book_call w p s (snd (clientAddAddressBookPeer w p bk peer s))"
| "book_call w p s (snd (clientUpdateAddressBookPeer p bk peer s))"
| "book_call w p s (snd (clientDeleteAddressBookPeer p bk ids s))"

lemmas handlers_access = write_handlers_access manage_handlers_access grant_handlers_access tag_handlers_access
  peer_handlers_access createAddressBook_access updateLegacyAddressBook_access
  read_handlers_content [THEN content_steps_access]

lemma book_call_access: "book_call w p s s' \<Longrightarrow> access_kept (Principal_User p) i (srv_db s) (srv_db s')"
  by (induction rule: book_call.induct)
    (rule handlers_access [unfolded steps_def on_db_def, rule_format])+

section \<open>Grants give read or write\<close>

definition grants_plain :: "db \<Rightarrow> bool" where
  "grants_plain d \<longleftrightarrow> (\<forall>g\<in>set (db_address_book_grants d).
     address_book_grants_permission g = PermissionRead \<or> address_book_grants_permission g = PermissionWrite)"

definition plain_kept :: "db \<Rightarrow> db \<Rightarrow> bool" where
  "plain_kept d d' \<longleftrightarrow> (grants_plain d \<longrightarrow> grants_plain d')"

lemma grants_plain_set_faults [simp]: "grants_plain (set_faults fs d) = grants_plain d"
  by (simp add: grants_plain_def)

interpretation pln: db_rel plain_kept
  by unfold_locales (auto simp: plain_kept_def)

interpretation pls: server_rel plain_kept
  by unfold_locales

lemma plain_other: "db_address_book_grants d' = db_address_book_grants d \<Longrightarrow> plain_kept d d'"
  by (simp add: plain_kept_def grants_plain_def)

lemma plain_operations:
  "steps plain_kept (CreateAddressBook v)" "steps plain_kept (UpdateAddressBook v)" "steps plain_kept (DeleteAddressBook bk)"
  "steps plain_kept (CreateAddressBookEntry e)" "steps plain_kept (UpdateAddressBookEntry e)"
  "steps plain_kept (DeleteAddressBookEntry bk i)" "steps plain_kept (ReplaceAddressBookEntries bk es)"
  "steps plain_kept (CreateAddressBookTag t)" "steps plain_kept (UpdateAddressBookTag t old)"
  "steps plain_kept (DeleteAddressBookTag bk n)" "steps plain_kept (DeleteAddressBookGrant bk i)"
  unfolding CreateAddressBook_def UpdateAddressBook_def DeleteAddressBook_def CreateAddressBookEntry_def
    UpdateAddressBookEntry_def DeleteAddressBookEntry_def ReplaceAddressBookEntries_def CreateAddressBookTag_def
    UpdateAddressBookTag_def DeleteAddressBookTag_def DeleteAddressBookGrant_def
  by (intro pln.db_intros; simp add: plain_kept_def grants_plain_def)+

lemma plain_UpsertAddressBookGrant:
  "\<not> grant_refused book g \<Longrightarrow> steps plain_kept (UpsertAddressBookGrant (g\<lparr>AddressBookGrant_SubjectID := u,
     AddressBookGrant_ID := i, AddressBookGrant_CreatedAt := t, AddressBookGrant_UpdatedAt := t\<rparr>))"
  unfolding UpsertAddressBookGrant_def
  by (intro pln.db_intros)
    (simp_all add: plain_kept_def grants_plain_def grant_refused_def grant_row_of_def ball_upd_where)

lemma same_plain: "same_tables d d' \<Longrightarrow> plain_kept d d'"
  by (metis pln.rel_faults same_tablesE)

lemma query_plain: "steps same_tables m \<Longrightarrow> steps plain_kept m"
  by (erule steps_mono) (rule same_plain)

lemma Record_plain: "steps (on_db plain_kept) (Record w event)"
proof (rule steps_mono [OF audited_Record])
  fix s t
  assume "on_db audited s t"
  then have "audited (srv_db s) (srv_db t)" by (simp add: on_db_def)
  then have "grants_plain (srv_db t) = grants_plain (srv_db s)"
    by (rule audited_same [where f = grants_plain]) (simp_all add: grants_plain_def)
  then show "on_db plain_kept s t" by (simp add: on_db_def plain_kept_def)
qed

lemma reads_plain: "steps (on_db same_tables) m \<Longrightarrow> steps (on_db plain_kept) m"
  by (erule steps_mono) (simp add: on_db_def same_plain)

lemma delete_loops_plain:
  "steps (on_db plain_kept) (delete_tags bk names)" "steps (on_db plain_kept) (delete_peers bk entries ids)"
  subgoal by (induction names)
    (simp_all only: delete_tags.simps, (intro pls.handler_intros pls.steps_sql plain_operations; assumption?)+)
  subgoal by (induction ids)
    (simp_all only: delete_peers.simps, (intro pls.handler_intros pls.steps_sql plain_operations; assumption?)+)
  done

lemmas plain_intros = pls.handler_intros pls.steps_sql plain_operations Record_plain query_plain [OF book_queries(1)]
  book_queries [THEN query_plain] reads_plain [OF entries_of_reads] reads_plain [OF entriesFromClientPeers_reads]
  delete_loops_plain reads_plain [OF Authorize_reads]

lemma handlers_plain:
  "steps (on_db plain_kept) (listAddressBooks p)" "steps (on_db plain_kept) (listAddressBookEntries p bk)"
  "steps (on_db plain_kept) (createAddressBookEntry w p bk entry)" "steps (on_db plain_kept) (createAddressBook w p book)"
  "steps (on_db plain_kept) (updateAddressBook w p bk book)" "steps (on_db plain_kept) (deleteAddressBook w p bk)"
  "steps (on_db plain_kept) (updateAddressBookEntry w p bk e entry)" "steps (on_db plain_kept) (deleteAddressBookEntry w p bk e)"
  "steps (on_db plain_kept) (listAddressBookGrants p bk)" "steps (on_db plain_kept) (deleteAddressBookGrant w p bk gi)"
  "steps (on_db plain_kept) (clientAddressBookTags p bk)" "steps (on_db plain_kept) (clientAddAddressBookTag w p bk tag)"
  unfolding listAddressBooks_def listAddressBookEntries_def createAddressBookEntry_def createAddressBook_def updateAddressBook_def
    deleteAddressBook_def updateAddressBookEntry_def deleteAddressBookEntry_def listAddressBookGrants_def deleteAddressBookGrant_def
    clientAddressBookTags_def clientAddAddressBookTag_def AddressBook_List_def Grants_def DeleteGrant_def audited_reply_def
  by (intro plain_intros)+

lemma put_grant_plain: "steps (on_db plain_kept) (putAddressBookGrant w p bk grant)"
  unfolding putAddressBookGrant_def PutGrant_def check_subject_def audited_reply_def Let_def
  by (intro plain_intros plain_UpsertAddressBookGrant)

lemma client_handlers_plain:
  "steps (on_db plain_kept) (legacyAddressBook w p)" "steps (on_db plain_kept) (updateLegacyAddressBook w p unmarshal body)"
  "steps (on_db plain_kept) (clientPersonalAddressBook w p)" "steps (on_db plain_kept) (clientSharedAddressBooks p q)"
  "steps (on_db plain_kept) (clientAddressBookPeers p q)" "steps (on_db plain_kept) (clientRenameAddressBookTag w p bk names)"
  "steps (on_db plain_kept) (clientUpdateAddressBookTag w p bk tag)" "steps (on_db plain_kept) (clientDeleteAddressBookTags p bk removed)"
  "steps (on_db plain_kept) (clientAddAddressBookPeer w p bk peer)" "steps (on_db plain_kept) (clientUpdateAddressBookPeer p bk peer)"
  "steps (on_db plain_kept) (clientDeleteAddressBookPeer p bk ids)"
  unfolding legacyAddressBook_def updateLegacyAddressBook_def clientPersonalAddressBook_def clientSharedAddressBooks_def
    clientAddressBookPeers_def clientRenameAddressBookTag_def clientUpdateAddressBookTag_def clientDeleteAddressBookTags_def
    clientAddAddressBookPeer_def clientUpdateAddressBookPeer_def clientDeleteAddressBookPeer_def personalAddressBook_def
    AddressBook_List_def rename_entry_tag_def drop_entry_tags_def audited_reply_def
  by (intro plain_intros)+

lemma book_call_plain: "book_call w p s s' \<Longrightarrow> plain_kept (srv_db s) (srv_db s')"
  by (induction rule: book_call.induct)
    (rule handlers_plain [unfolded steps_def on_db_def, rule_format]
      put_grant_plain [unfolded steps_def on_db_def, rule_format]
      client_handlers_plain [unfolded steps_def on_db_def, rule_format])+

lemma book_calls_plain: "(\<lambda>s s'. \<exists>p. book_call w p s s')\<^sup>*\<^sup>* s s' \<Longrightarrow> grants_plain (srv_db s) \<Longrightarrow> grants_plain (srv_db s')"
  by (induction rule: rtranclp_induct) (auto dest: book_call_plain simp: plain_kept_def)

lemma plain_rank:
  assumes "grants_plain d" "\<not> (User_Role user = RoleAdmin \<or> User_ID user = address_books_owner_user_id r)"
  shows "book_rank d user r < 3"
proof -
  let ?R = "{permissionRank (address_book_grants_permission g) | g.
             g \<in> set (db_address_book_grants d) \<and> address_book_grants_address_book_id g = address_books_id r \<and>
             reaches d user g}"
  have "Max (insert 0 ?R) \<in> insert 0 ?R" by (intro Max_in) auto
  moreover have "x < 3" if "x \<in> insert 0 ?R" for x
    using that assms(1) by (auto simp: grants_plain_def)
  ultimately have "Max (insert 0 ?R) < 3" by blast
  then show ?thesis using assms(2) by (simp add: book_rank_def)
qed

section \<open>An example\<close>

text \<open>Bob has a shared book with one entry, which he shares with nobody; Eve is another user.\<close>

definition books_example :: db where
  "books_example = accounts_example\<lparr>
     db_address_books := [\<lparr>address_books_id = ''b1'', address_books_name = ''lab'', address_books_kind = ''shared'',
       address_books_owner_user_id = ''u2'', address_books_created_at = 0, address_books_updated_at = 0\<rparr>],
     db_address_book_tags := [\<lparr>address_book_tags_id = ''t1'', address_book_tags_address_book_id = ''b1'',
       address_book_tags_name = ''x'', address_book_tags_color = 0, address_book_tags_created_at = 0,
       address_book_tags_updated_at = 0\<rparr>]\<rparr>"

definition books_server :: server where
  "books_server = \<lparr>srv_db = books_example, srv_hub = NewHub ''h'' (\<lambda>n. n), srv_tick = 0\<rparr>"

definition example_principal :: "string \<Rightarrow> Principal" where
  "example_principal i = \<lparr>Principal_User = scanUser (example_user i i RoleUser),
     Principal_Session = scanSession (example_session ''s9'' i None), Principal_Claims = example_claims\<rparr>"

definition write_grant :: AddressBookGrant where
  "write_grant = \<lparr>AddressBookGrant_ID = [], AddressBookGrant_AddressBookID = [], AddressBookGrant_SubjectType = ''user'',
     AddressBookGrant_SubjectID = ''u1'', AddressBookGrant_Permission = PermissionWrite,
     AddressBookGrant_CreatedAt = 0, AddressBookGrant_UpdatedAt = 0\<rparr>"

lemmas books_example_defs = books_server_def books_example_def example_principal_def scanUser_def accounts_example_defs Let_def

lemma books_example_rank:
  "rank_on (srv_db books_server) (Principal_User (example_principal ''u3'')) ''b1'' = 0"
  by (simp add: books_example_defs rank_on_def book_rank_def)

section \<open>Properties\<close>

text \<open>C30: without engine faults, Authorize answers exactly by the rule, 404, 403 or the book
  with the user's permission, and List returns exactly the books on which the rule gives the
  user something, each with the same permission that Authorize returns for it.\<close>

theorem address_book_access_exact:
  assumes "db_faults (srv_db s) = []" and "permissionRank required > 0"
  shows "fst (Authorize user i required s) =
      (case find (\<lambda>r. address_books_id r = i) (db_address_books (srv_db s)) of
         None \<Rightarrow> Inl ErrNotFound
       | Some r \<Rightarrow> if book_rank (srv_db s) user r < permissionRank required then Inl ErrForbidden
                    else Inr (book_view (srv_db s) user r)) \<and>
    fst (AddressBook_List user s) = Inr (map (book_view (srv_db s) user)
      (filter (\<lambda>r. book_rank (srv_db s) user r > 0) (sort_key address_books_name (db_address_books (srv_db s)))))"
proof
  let ?d = "srv_db s"
  show "fst (Authorize user i required s) =
      (case find (\<lambda>r. address_books_id r = i) (db_address_books ?d) of
         None \<Rightarrow> Inl ErrNotFound
       | Some r \<Rightarrow> if book_rank ?d user r < permissionRank required then Inl ErrForbidden
                    else Inr (book_view ?d user r))"
    using assms AddressBook_permission_run [OF assms(1)]
    by (auto simp: Authorize_def FindAddressBookByID_def statement_run sql_run book_view_def split: option.split)
next
  let ?d = "srv_db s"
  let ?gs = "map scanAddressBookGrants (sort_key grant_key (db_address_book_grants ?d))"
  let ?ms = "map (\<lambda>x. \<lparr>UserGroupMembership_GroupID = user_group_memberships_group_id x,
       UserGroupMembership_UserID = user_group_memberships_user_id x, UserGroupMembership_Active = True\<rparr>)
     (sort_key (\<lambda>x. (user_group_memberships_group_id x, user_group_memberships_user_id x)) (db_user_group_memberships ?d))"
  have "book_access user ?gs ?ms (scan_book r) =
      (if book_rank ?d user r > 0 then Some (book_view ?d user r) else None)" for r
  proof -
    have "permissionFrom user (scan_book r)
        (filter (\<lambda>g. AddressBookGrant_AddressBookID g = AddressBook_ID (scan_book r)) ?gs) ?ms =
        (if book_rank ?d user r = 0 then Inl ErrForbidden else Inr (rank_name (book_rank ?d user r)))"
      by (rule permissionFrom_eq [OF memberships_query]) (auto simp: filter_map)
    then show ?thesis using book_rank_range [of ?d user r]
      by (auto simp: book_access_def book_view_def simp del: filter_map)
  qed
  then have "List.map_filter (book_access user ?gs ?ms) (map scan_book rs) =
      map (book_view ?d user) (filter (\<lambda>r. book_rank ?d user r > 0) rs)" for rs
    by (induction rs) (simp_all add: map_filter_simps)
  then show "fst (AddressBook_List user s) = Inr (map (book_view ?d user)
      (filter (\<lambda>r. book_rank ?d user r > 0) (sort_key address_books_name (db_address_books ?d))))"
    using assms(1) by (simp add: AddressBook_List_def ListAddressBooks_def ListAllAddressBookGrants_def
        ListUserGroupMemberships_def statement_run sql_run)
qed

theorem address_book_access_exact_witness:
  "fst (Authorize (Principal_User (example_principal ''u3'')) ''b1'' PermissionRead books_server) = Inl ErrForbidden \<and>
   fst (AddressBook_List (Principal_User (example_principal ''u3'')) books_server) = Inr []"
  using address_book_access_exact [of books_server PermissionRead "Principal_User (example_principal ''u3'')" "''b1''"]
  by (simp add: books_example_defs book_rank_def)

text \<open>C31: No request of a user changes what the rule denies them.  Whatever the request, its
  body and the engine's failures, a book that exists keeps its row and its grants when the user
  does not manage it, and its entries and tags when the user may not write to it.\<close>

theorem address_book_isolation:
  assumes "book_call w p s s'" "books_pk (srv_db s)" "book_rows (srv_db s) i \<noteq> []"
  shows "(rank_on (srv_db s) (Principal_User p) i < permissionRank PermissionManage \<longrightarrow>
      book_rows (srv_db s') i = book_rows (srv_db s) i \<and> grant_rows (srv_db s') i = grant_rows (srv_db s) i) \<and>
    (rank_on (srv_db s) (Principal_User p) i < permissionRank PermissionWrite \<longrightarrow>
      entry_rows (srv_db s') i = entry_rows (srv_db s) i \<and> tag_rows (srv_db s') i = tag_rows (srv_db s) i)"
  using book_call_access [OF assms(1), of i] assms(2,3) by (simp add: access_kept_def)

theorem address_book_isolation_witness:
  "book_rows (srv_db (snd (deleteAddressBook (example_world example_claims) (example_principal ''u3'') ''b1'' books_server))) ''b1'' =
     book_rows (srv_db books_server) ''b1''"
  using address_book_isolation [of "example_world example_claims" "example_principal ''u3''" books_server
      "snd (deleteAddressBook (example_world example_claims) (example_principal ''u3'') ''b1'' books_server)" "''b1''"]
    book_call.intros(6) [of "example_world example_claims" "example_principal ''u3''" books_server "''b1''"] books_example_rank
  by (simp add: books_server_def books_example_def books_pk_def book_rows_def)

text \<open>C32: Managing a book cannot be delegated.  From a database whose grants give read or
  write, any sequence of requests of any users leads to one in which only administrators and
  the owner of a book manage it.\<close>

theorem only_owner_or_admin_manages:
  assumes "(\<lambda>s s'. \<exists>p. book_call w p s s')\<^sup>*\<^sup>* s s'" "grants_plain (srv_db s)"
  shows "grants_plain (srv_db s') \<and> (book_rank (srv_db s') user r = permissionRank PermissionManage \<longleftrightarrow>
    User_Role user = RoleAdmin \<or> User_ID user = address_books_owner_user_id r)"
  using book_calls_plain [OF assms] plain_rank [of "srv_db s'" user r] by (auto simp: book_rank_def)

theorem only_owner_or_admin_manages_witness:
  "grants_plain (srv_db (snd (putAddressBookGrant (example_world example_claims) (example_principal ''u2'') ''b1'' (Some write_grant) books_server)))"
proof -
  have "\<exists>p. book_call (example_world example_claims) p books_server (snd (putAddressBookGrant (example_world example_claims) (example_principal ''u2'') ''b1'' (Some write_grant) books_server))"
    using book_call.intros(10) by blast
  then have "(\<lambda>s s'. \<exists>p. book_call (example_world example_claims) p s s')\<^sup>*\<^sup>* books_server
      (snd (putAddressBookGrant (example_world example_claims) (example_principal ''u2'') ''b1'' (Some write_grant) books_server))"
    by (rule r_into_rtranclp)
  moreover have "grants_plain (srv_db books_server)"
    by (simp add: grants_plain_def books_example_defs)
  ultimately show ?thesis using only_owner_or_admin_manages by blast
qed

lemma page_length:
  "0 \<le> s \<Longrightarrow> s \<le> int n \<Longrightarrow> 1 \<le> z \<Longrightarrow> nat (min (s + z) (int n)) - nat s = min (nat z) (n - nat s)"
  by (cases "s + z \<le> int n") (simp_all add: min_def nat_add_distrib le_nat_iff nat_le_iff of_nat_diff)

lemma page_reply_paged:
  assumes paged: "\<not> (q ''current'' = None \<and> q ''pageSize'' = None)"
    and ats: "Atoi (query_Get q ''current'') = Some c" "Atoi (query_Get q ''pageSize'') = Some z"
    and cz: "1 \<le> c" "1 \<le> z" "z \<le> 1000"
  shows "page_reply q xs body = WriteJSON 200 (body (take (nat z) (drop (nat (c - 1) * nat z) xs)))"
proof -
  let ?n = "int (length xs)" and ?s = "(c - 1) * z"
  have start: "nat (c - 1) * nat z = nat ?s" using cz by (simp add: nat_mult_distrib)
  show ?thesis
  proof (cases "c - 1 > ?n div z")
    case True
    then have "?n div z * z + z \<le> ?s" using cz mult_right_mono [of "?n div z + 1" "c - 1" z] by (simp add: algebra_simps)
    moreover have "?n < ?n div z * z + z" using cz pos_mod_bound [of z ?n] div_mult_mod_eq [of ?n z] by linarith
    ultimately have "length xs \<le> nat ?s" by simp
    moreover have "clientPageBounds q ?n = Inr (?n, ?n)"
      unfolding clientPageBounds_def if_not_P [OF paged] using True ats cz by simp
    ultimately show ?thesis by (simp add: page_reply_def slice_def start)
  next
    case False
    then have "?s \<le> ?n div z * z" using cz by (intro mult_right_mono) auto
    also have "\<dots> \<le> ?n" using cz by (simp add: minus_mod_eq_div_mult [symmetric])
    finally have s: "0 \<le> ?s" "?s \<le> ?n" using cz by simp_all
    then have "nat (min (?s + z) ?n) - nat ?s = min (nat z) (length xs - nat ?s)" using cz page_length by simp
    then have "slice xs ?s (min (?s + z) ?n) = Some (take (nat z) (drop (nat ?s) xs))" using s cz by (simp add: slice_def min_def)
    moreover have "clientPageBounds q ?n = Inr (?s, min (?s + z) ?n)"
      unfolding clientPageBounds_def if_not_P [OF paged] using False ats cz by simp
    ultimately show ?thesis by (simp add: page_reply_def start)
  qed
qed

lemma page_reply_refused:
  assumes "\<not> (q ''current'' = None \<and> q ''pageSize'' = None)"
    and "\<not> (\<exists>c z. Atoi (query_Get q ''current'') = Some c \<and> Atoi (query_Get q ''pageSize'') = Some z \<and> 1 \<le> c \<and> 1 \<le> z \<and> z \<le> 1000)"
  shows "page_reply q xs body = WriteError 400 ''invalid pagination''"
proof -
  have bad: "c < 1 \<or> z < 1 \<or> 1000 < z" if "Atoi (query_Get q ''current'') = Some c" "Atoi (query_Get q ''pageSize'') = Some z" for c z
    using that assms(2) not_less by blast
  have "clientPageBounds q (int (length xs)) = Inl (Errorf ''invalid pagination'')"
    unfolding clientPageBounds_def if_not_P [OF assms(1)] by (simp split: option.split) (blast dest: bad)
  then show ?thesis by (simp add: page_reply_def)
qed

text \<open>The page of a number and a size, and that the pages of one size make up the list.\<close>

definition page_of :: "nat \<Rightarrow> nat \<Rightarrow> 'a list \<Rightarrow> 'a list" where
  "page_of c z xs = take z (drop ((c - 1) * z) xs)"

lemma pages_make_up: "concat (map (\<lambda>c. page_of c z xs) [1..<Suc k]) = take (k * z) xs"
proof (induction k)
  case (Suc k)
  have "take (Suc k * z) xs = take (k * z) xs @ take z (drop (k * z) xs)" using take_add [of "k * z" z xs] by (simp add: add.commute)
  then show ?case using Suc by (simp add: page_of_def)
qed simp

text \<open>C33: Pagination is exact.  Without the parameters a list request is answered with the complete list; with a
  page number from 1 and a page size from 1 to 1000 it is answered with exactly the values of that page, none
  beyond the end of the list, so with at most 1000 of them; everything else is refused with 400.  No reply slices
  out of range, and the pages of one size, in order, make up the list.\<close>

theorem client_pages_exact:
  "page_reply q xs body =
     (if q ''current'' = None \<and> q ''pageSize'' = None then WriteJSON 200 (body xs)
      else case (Atoi (query_Get q ''current''), Atoi (query_Get q ''pageSize'')) of
        (Some c, Some z) \<Rightarrow>
          if 1 \<le> c \<and> 1 \<le> z \<and> z \<le> 1000 then WriteJSON 200 (body (page_of (nat c) (nat z) xs))
          else WriteError 400 ''invalid pagination''
      | _ \<Rightarrow> WriteError 400 ''invalid pagination'') \<and>
   concat (map (\<lambda>c. page_of c n xs) [1..<Suc k]) = take (k * n) xs"
proof (cases "q ''current'' = None \<and> q ''pageSize'' = None")
  case True
  then show ?thesis using pages_make_up [of n xs k] by (simp add: page_reply_def clientPageBounds_def slice_def)
next
  case paged: False
  show ?thesis
  proof (cases "\<exists>c z. Atoi (query_Get q ''current'') = Some c \<and> Atoi (query_Get q ''pageSize'') = Some z \<and> 1 \<le> c \<and> 1 \<le> z \<and> z \<le> 1000")
    case True
    then obtain c z where cz: "Atoi (query_Get q ''current'') = Some c" "Atoi (query_Get q ''pageSize'') = Some z"
      "1 \<le> c" "1 \<le> z" "z \<le> 1000" by blast
    have "nat (c - 1) = nat c - 1" by simp
    then show ?thesis unfolding if_not_P [OF paged] using page_reply_paged [OF paged cz, of xs body] cz pages_make_up [of n xs k]
      by (simp add: page_of_def)
  next
    case False
    then show ?thesis unfolding if_not_P [OF paged] using page_reply_refused [OF paged False, of xs body] pages_make_up [of n xs k]
      by (auto split: option.split)
  qed
qed

end
