(* ===== verification/Users_Props.thy ===== *)
theory Users_Props
  imports Http_Users Books_Props
begin

text \<open>
  Delegated administration: whoever administers users and roles without being an
  administrator gives nobody a permission they do not have themselves.
\<close>

section \<open>Effective permissions\<close>

text \<open>What withPermissions and hasPermission make of a role.\<close>

definition role_gives :: "db \<Rightarrow> Role \<Rightarrow> string \<Rightarrow> bool" where
  "role_gives d role q \<longleftrightarrow> role = RoleAdmin \<or> (\<exists>r\<in>set (db_roles d). roles_id r = role \<and>
     (PermissionAll \<in> set (roles_permissions r) \<or> q \<in> set (roles_permissions r)))"

definition holds :: "db \<Rightarrow> string \<Rightarrow> string \<Rightarrow> bool" where
  "holds d i q \<longleftrightarrow> (\<exists>u\<in>set (db_users d). users_id u = i \<and> role_gives d (users_role u) q)"

text \<open>The roles as Migrate seeds them and the store keeps them: distinct, and the built-in role
  of users gives nothing.\<close>

definition roles_seeded :: "db \<Rightarrow> bool" where
  "roles_seeded d \<longleftrightarrow> distinct (map roles_id (db_roles d)) \<and>
     (\<forall>r\<in>set (db_roles d). roles_id r = RoleUser \<longrightarrow> roles_system r \<and> roles_permissions r = [])"

text \<open>No user gains a permission outside \<open>P\<close>, provided the role \<open>\<rho>\<close> gives none.\<close>

definition capped :: "(string \<Rightarrow> bool) \<Rightarrow> Role \<Rightarrow> db \<Rightarrow> bool" where
  "capped P \<rho> d \<longleftrightarrow> (\<forall>q. role_gives d \<rho> q \<longrightarrow> P q)"

definition no_gain :: "(string \<Rightarrow> bool) \<Rightarrow> Role \<Rightarrow> db \<Rightarrow> db \<Rightarrow> bool" where
  "no_gain P \<rho> d d' \<longleftrightarrow> (roles_seeded d \<and> capped P \<rho> d \<longrightarrow>
     roles_seeded d' \<and> capped P \<rho> d' \<and> (\<forall>i q. holds d' i q \<longrightarrow> holds d i q \<or> P q))"

lemma role_tables_set_faults [simp]:
  "db_users (set_faults fs d) = db_users d" "db_roles (set_faults fs d) = db_roles d"
  by (simp_all add: set_faults_def)

lemma gain_set_faults [simp]:
  "role_gives (set_faults fs d) = role_gives d" "holds (set_faults fs d) = holds d"
  "roles_seeded (set_faults fs d) = roles_seeded d" "capped P \<rho> (set_faults fs d) = capped P \<rho> d"
  by (simp_all add: role_gives_def holds_def roles_seeded_def capped_def fun_eq_iff)

interpretation gn: db_rel "no_gain P \<rho>" for P \<rho>
  by unfold_locales (auto simp: no_gain_def)

interpretation gns: server_rel "no_gain P \<rho>" for P \<rho>
  by unfold_locales

lemma user_role_gives_nothing: "roles_seeded d \<Longrightarrow> \<not> role_gives d RoleUser q"
  by (auto simp: roles_seeded_def role_gives_def)

lemma no_gain_users:
  assumes "db_roles d' = db_roles d"
    and "\<And>u'. u' \<in> set (db_users d') \<Longrightarrow>
      (\<exists>u\<in>set (db_users d). users_id u = users_id u' \<and> users_role u = users_role u') \<or> users_role u' \<in> {\<rho>, RoleUser}"
  shows "no_gain P \<rho> d d'"
proof -
  have gives: "role_gives d' = role_gives d" using assms(1) by (simp add: role_gives_def fun_eq_iff)
  have "holds d i q \<or> P q" if "roles_seeded d" "capped P \<rho> d" and h: "holds d' i q" for i q
  proof -
    from h obtain u' where u': "u' \<in> set (db_users d')" "users_id u' = i" "role_gives d (users_role u') q"
      by (auto simp: holds_def gives)
    show ?thesis
    proof (cases "users_role u' \<in> {\<rho>, RoleUser}")
      case True
      then show ?thesis using u'(3) that(1,2) user_role_gives_nothing by (auto simp: capped_def)
    next
      case False
      then show ?thesis using assms(2) [OF u'(1)] u' by (auto simp: holds_def)
    qed
  qed
  then show ?thesis using assms(1) by (simp add: no_gain_def roles_seeded_def capped_def gives)
qed

lemma no_gain_same: "db_roles d' = db_roles d \<Longrightarrow> db_users d' = db_users d \<Longrightarrow> no_gain P \<rho> d d'"
  by (rule no_gain_users) auto

lemma no_gain_roles:
  assumes "db_users d' = db_users d"
    and "roles_seeded d \<Longrightarrow> distinct (map roles_id (db_roles d'))"
    and "\<And>r. roles_seeded d \<Longrightarrow> r \<in> set (db_roles d') \<Longrightarrow> r \<in> set (db_roles d) \<or>
      (roles_id r \<noteq> RoleUser \<and> PermissionAll \<notin> set (roles_permissions r) \<and> (\<forall>q\<in>set (roles_permissions r). P q))"
  shows "no_gain P \<rho> d d'"
proof -
  have gives: "role_gives d role q \<or> P q" if "roles_seeded d" "role_gives d' role q" for role q
    using that assms(3) by (auto simp: role_gives_def)
  have "roles_seeded d'" if "roles_seeded d" using that assms(2,3) by (auto simp: roles_seeded_def)
  then show ?thesis using gives assms(1) unfolding no_gain_def capped_def holds_def by metis
qed

section \<open>The store\<close>

lemma no_gain_update:
  assumes "\<And>x. p x \<Longrightarrow> users_id (f x) = users_id x \<and> (users_role (f x) = users_role x \<or> users_role (f x) \<in> {\<rho>, RoleUser})"
  shows "no_gain P \<rho> d (db_users_update (upd_where p f) d)"
proof (rule no_gain_users)
  fix u'
  assume "u' \<in> set (db_users (db_users_update (upd_where p f) d))"
  then obtain u where u: "u \<in> set (db_users d)" "u' = (if p u then f u else u)"
    by (auto simp: upd_where_def)
  then show "(\<exists>u\<in>set (db_users d). users_id u = users_id u' \<and> users_role u = users_role u') \<or> users_role u' \<in> {\<rho>, RoleUser}"
    using assms [of u] by (cases "p u") auto
qed simp

lemma update_user_no_gain:
  "(\<And>x. users_id (f x) = users_id x \<and> users_role (f x) = users_role x) \<Longrightarrow> steps (no_gain P \<rho>) (update_user i f)"
  unfolding update_user_def by (intro gn.db_intros no_gain_update) blast

lemma insert_user_no_gain: "User_Role u = \<rho> \<Longrightarrow> steps (no_gain P \<rho>) (insert_user u)"
  unfolding insert_user_def by (intro gn.db_intros no_gain_users) (auto simp: users_row_of_def)

lemma member_no_gain: "steps (no_gain P \<rho>) (insert_member g u t)" "steps (no_gain P \<rho>) (join_user_group i now g)"
  unfolding insert_member_def join_user_group_def by (intro gn.db_intros no_gain_same; simp)+

lemma CreateUser_no_gain: "User_Role u = \<rho> \<Longrightarrow> steps (no_gain P \<rho>) (CreateUser u)"
  unfolding CreateUser_def by (intro gn.db_intros insert_user_no_gain member_no_gain) auto

lemma UpdateUser_no_gain: "UserUpdate_Role input = \<rho> \<Longrightarrow> steps (no_gain P \<rho>) (UpdateUser i input now)"
  unfolding UpdateUser_def select_role_def refuse_last_admin_def revoke_sessions_of_def
  by (intro gn.db_intros member_no_gain no_gain_update; simp add: apply_user_update_def Let_def no_gain_same)

lemma DeleteUser_no_gain: "steps (no_gain P \<rho>) (DeleteUser i)"
  unfolding DeleteUser_def select_role_def refuse_last_admin_def delete_user_rows_def delete_user_books_def
  by (intro gn.db_intros; (rule no_gain_same; simp; fail)?) (auto intro!: no_gain_users)

lemma users_no_gain:
  "steps (no_gain P \<rho>) (SetUserEnabled i b now)" "steps (no_gain P \<rho>) (SetUserApproval i st now)"
  "steps (no_gain P \<rho>) (ForceRelogin i now)" "steps (no_gain P \<rho>) (UpdateUserPassword i h now)"
  "steps (no_gain P \<rho>) (RevokeUserSessions i now)" "steps (no_gain P \<rho>) (RevokeSession j now)"
  unfolding SetUserEnabled_def SetUserApproval_def ForceRelogin_def UpdateUserPassword_def RevokeUserSessions_def
    revoke_sessions_of_def RevokeSession_def
  by (intro gn.db_intros update_user_no_gain member_no_gain; simp add: no_gain_same)+

lemma role_queries:
  "steps same_tables (FindRoleByID role)" "steps same_tables ListRoles"
  unfolding FindRoleByID_def ListRoles_def by (intro stb.basic_intros)+

lemma CreateRole_no_gain:
  assumes "RoleDefinition_ID r \<noteq> RoleUser" "PermissionAll \<notin> set (RoleDefinition_Permissions r)"
    "\<forall>q\<in>set (RoleDefinition_Permissions r). P q"
  shows "steps (no_gain P \<rho>) (CreateRole r)"
  unfolding CreateRole_def
  by (intro gn.db_intros no_gain_roles)
    (use assms in \<open>auto simp: roles_row_of_def roles_insert_ok_def roles_seeded_def\<close>)

lemma UpdateRole_no_gain:
  assumes "PermissionAll \<notin> set (RoleDefinition_Permissions r)" "\<forall>q\<in>set (RoleDefinition_Permissions r). P q"
  shows "steps (no_gain P \<rho>) (UpdateRole r)"
  unfolding UpdateRole_def
proof (intro gn.db_intros no_gain_roles)
  fix d x
  let ?p = "\<lambda>x. roles_id x = RoleDefinition_ID r \<and> \<not> roles_system x"
  let ?f = "\<lambda>x. x\<lparr>roles_name := RoleDefinition_Name r, roles_description := RoleDefinition_Description r,
      roles_permissions := RoleDefinition_Permissions r, roles_updated_at := millis (RoleDefinition_UpdatedAt r)\<rparr>"
  assume seeded: "roles_seeded d" and "x \<in> set (db_roles (db_roles_update (upd_where ?p ?f) d))"
  then obtain y where y: "y \<in> set (db_roles d)" "x = (if ?p y then ?f y else y)" by (auto simp: upd_where_def)
  show "x \<in> set (db_roles d) \<or> roles_id x \<noteq> RoleUser \<and> PermissionAll \<notin> set (roles_permissions x) \<and>
      (\<forall>q\<in>set (roles_permissions x). P q)"
  proof (cases "?p y")
    case True
    then have "roles_id y \<noteq> RoleUser" using seeded y(1) by (auto simp: roles_seeded_def)
    then show ?thesis using y(2) True assms by simp
  next
    case False
    then have "x = y" using y(2) by (simp only: if_False)
    then show ?thesis using y(1) by simp
  qed
qed (simp_all add: roles_seeded_def upd_where_map_key)

lemma DeleteRole_no_gain: "steps (no_gain P \<rho>) (DeleteRole i)"
  unfolding DeleteRole_def
  by (intro gn.db_intros no_gain_update no_gain_roles) (auto simp: roles_seeded_def distinct_map_filter)

section \<open>The handlers\<close>

lemma Record_no_gain: "steps (on_db (no_gain P \<rho>)) (Record w event)"
proof (rule steps_mono [OF audited_Record])
  fix s t
  assume "on_db audited s t"
  then have a: "audited (srv_db s) (srv_db t)" by (simp add: on_db_def)
  have "db_users (srv_db t) = db_users (srv_db s)" "db_roles (srv_db t) = db_roles (srv_db s)"
    by (rule audited_same [OF a]; simp)+
  then show "on_db (no_gain P \<rho>) s t" by (simp add: on_db_def no_gain_same)
qed

lemma reply_no_gain: "steps (on_db (no_gain P \<rho>)) (audited_reply w event r)"
  unfolding audited_reply_def by (intro gns.lifted_intros Record_no_gain)

lemma same_no_gain: "same_tables d d' \<Longrightarrow> no_gain P \<rho> d d'"
  by (metis gn.rel_faults same_tablesE)

lemma query_no_gain: "steps same_tables m \<Longrightarrow> steps (no_gain P \<rho>) m"
  by (erule steps_mono) (rule same_no_gain)

lemma new_hash_no_gain: "steps (on_db (no_gain P \<rho>)) (new_hash w svc password)"
  unfolding new_hash_def by (intro gns.server_intros)

lemmas gain_intros = gns.handler_intros gns.steps_sql reply_no_gain new_hash_no_gain users_no_gain DeleteUser_no_gain
  DeleteRole_no_gain book_queries [THEN query_no_gain] role_queries [THEN query_no_gain]

lemma plain_services_no_gain:
  "steps (on_db (no_gain P \<rho>)) (Auth_SetUserEnabled w i b)" "steps (on_db (no_gain P \<rho>)) (Auth_ForceRelogin w i)"
  "steps (on_db (no_gain P \<rho>)) (Auth_DeleteUser i)" "steps (on_db (no_gain P \<rho>)) (Auth_SetUserApproval w i st)"
  "steps (on_db (no_gain P \<rho>)) (SetPassword w svc i password)" "steps (on_db (no_gain P \<rho>)) (Auth_RevokeSession w j)"
  "steps (on_db (no_gain P \<rho>)) (RevokeAll w i)"
  unfolding Auth_SetUserEnabled_def Auth_ForceRelogin_def Auth_DeleteUser_def Auth_SetUserApproval_def SetPassword_def
    Auth_RevokeSession_def RevokeAll_def publish_revoked_all_def publish_member_def
  by (intro gain_intros)+

lemma CreateLocalUser_no_gain:
  "CreateUserInput_Role input = \<rho> \<Longrightarrow> steps (on_db (no_gain P \<rho>)) (CreateLocalUser w svc input)"
  unfolding CreateLocalUser_def by (intro gain_intros CreateUser_no_gain) (simp add: local_user_def)

lemma Auth_UpdateUser_no_gain:
  assumes "UserUpdate_Role input = \<rho>"
  shows "steps (on_db (no_gain P \<rho>)) (Auth_UpdateUser w svc i input password)"
  unfolding Auth_UpdateUser_def publish_revoked_all_def publish_memberships_of_def
proof (rule gns.steps_post(1) [where P = "\<lambda>a. UserUpdate_Role a = \<rho>"])
  fix a :: UserUpdate
  assume "UserUpdate_Role a = \<rho>"
  then show "steps (on_db (no_gain P \<rho>)) (bindE (now_of w) (\<lambda>now. bindE (sql (UpdateUser i a now)) (\<lambda>user.
      thenE (publish UserUpdated (PUser user)) (thenE (publish SessionRevokedAll (PUserRef i))
      (thenE (attempt (sql ListUserGroupMemberships) (\<lambda>r. case r of Inl _ \<Rightarrow> ret ()
        | Inr memberships \<Rightarrow> forE memberships (\<lambda>m. whenE (UserGroupMembership_UserID m = i)
            (publish UserGroupMembershipUpdated (PMembership m))))) (ret user))))))"
    by (intro gain_intros UpdateUser_no_gain)
qed (use assms in \<open>intro gain_intros | auto simp: bindE_Inr_iff split: if_splits\<close>)+

text \<open>The role handlers, and those that assign no role.\<close>

lemma normalizeRole_permissions: "normalizeRole input = Some r \<Longrightarrow> PermissionAll \<notin> set (RoleReq_Permissions r)"
proof -
  assume "normalizeRole input = Some r"
  then have "\<not> list_ex (\<lambda>q. q = PermissionAll \<or> q \<notin> set AvailablePermissions) (map TrimSpace (RoleReq_Permissions input))"
    and "RoleReq_Permissions r = sort (remdups (map TrimSpace (RoleReq_Permissions input)))"
    by (auto simp: normalizeRole_def Let_def split: if_splits)
  then show ?thesis unfolding list_ex_iff by (simp only: set_sort set_remdups) blast
qed

lemma canGrant_permissions:
  "canGrant user qs \<Longrightarrow> User_Role user \<noteq> RoleAdmin \<Longrightarrow> \<forall>q\<in>set qs. hasPermission user q"
  by (simp add: canGrant_def list_all_iff)

lemma users_or_none_no_gain: "steps (on_db (no_gain P \<rho>)) users_or_none"
  unfolding users_or_none_def by (intro gain_intros)

lemma plain_handlers_no_gain:
  "steps (on_db (no_gain P \<rho>)) (logout w p ip)" "steps (on_db (no_gain P \<rho>)) (logoutAll w p)"
  "steps (on_db (no_gain P \<rho>)) (Http_revokeSession w p j)" "steps (on_db (no_gain P \<rho>)) (Http_setUserEnabled w p i b)"
  "steps (on_db (no_gain P \<rho>)) (Http_forceRelogin w p i)" "steps (on_db (no_gain P \<rho>)) Http_listUsers"
  "steps (on_db (no_gain P \<rho>)) (Http_deleteUser w p i)" "steps (on_db (no_gain P \<rho>)) (Http_setUserApproval w p i st)"
  "steps (on_db (no_gain P \<rho>)) (Http_setUserPassword w svc p i pw)" "steps (on_db (no_gain P \<rho>)) Http_listRoles"
  "steps (on_db (no_gain P \<rho>)) (Http_deleteRole w p role)"
  unfolding logout_def logoutAll_def Http_revokeSession_def Http_setUserEnabled_def Http_forceRelogin_def Http_listUsers_def
    Http_deleteUser_def Http_setUserApproval_def Http_setUserPassword_def Http_listRoles_def Http_deleteRole_def
    announce_user_def publish_revoked_all_def
  by (intro gain_intros plain_services_no_gain users_or_none_no_gain)+

lemma createRole_no_gain:
  assumes "User_Role (Principal_User p) \<noteq> RoleAdmin"
  shows "steps (on_db (no_gain (hasPermission (Principal_User p)) \<rho>)) (Http_createRole w p body)"
  unfolding Http_createRole_def
  by (intro gain_intros CreateRole_no_gain)
    (use assms in \<open>auto simp: bind_eq_Some_conv dest: normalizeRole_permissions canGrant_permissions\<close>)

lemma updateRole_no_gain:
  assumes "User_Role (Principal_User p) \<noteq> RoleAdmin"
  shows "steps (on_db (no_gain (hasPermission (Principal_User p)) \<rho>)) (Http_updateRole w p role body)"
  unfolding Http_updateRole_def
  by (intro gain_intros UpdateRole_no_gain users_or_none_no_gain plain_services_no_gain)
    (use assms in \<open>auto simp: bind_eq_Some_conv dest: normalizeRole_permissions canGrant_permissions\<close>)

text \<open>The handlers that assign a role check it first.\<close>

lemma canAssignRole_reads: "steps (on_db same_tables) (canAssignRole user role)"
  unfolding canAssignRole_def validRole_def by (intro rdo.lifted_intros rdo.steps_sql role_queries)

lemma canAssignRole_capped:
  assumes "canAssignRole user role s = (Inr True, s')" "User_Role user \<noteq> RoleAdmin" "roles_seeded (srv_db s)"
  shows "capped (hasPermission user) role (srv_db s)"
proof -
  from assms(1) obtain valid s1 where s1: "validRole role s = (Inr valid, s1)"
    and rest: "(if \<not> valid then ret False else if User_Role user = RoleAdmin then ret True
      else if role = RoleAdmin then ret False else attempt (sql (FindRoleByID role)) (\<lambda>r. ret (case r of
         Inl _ \<Rightarrow> False | Inr definition \<Rightarrow> canGrant user (RoleDefinition_Permissions definition)))) s1 = (Inr True, s')"
    unfolding canAssignRole_def bindE_Inr_iff by blast
  obtain x t where f: "sql (FindRoleByID role) s1 = (x, t)" by fastforce
  from rest assms(2) have role: "role \<noteq> RoleAdmin" by (auto split: if_splits)
  from rest role assms(2) f obtain r where r: "sql (FindRoleByID role) s1 = (Inr r, s')"
      "canGrant user (RoleDefinition_Permissions r)"
    by (cases x) (auto simp: attempt_run split: if_splits)
  have "steps (on_db same_tables) (validRole role)"
    unfolding validRole_def by (intro rdo.lifted_intros rdo.steps_sql role_queries)
  from stepsD [OF this s1] have "db_roles (srv_db s1) = db_roles (srv_db s)"
    by (metis on_db_def role_tables_set_faults(2) same_tablesE)
  with r(1) obtain x where x: "find (\<lambda>x. roles_id x = role) (db_roles (srv_db s)) = Some x" "r = scanRole x"
    by (auto simp: sql_Inr_iff FindRoleByID_def scan_found_Inr_iff elim!: query_row_okE)
  have "y = x" if "y \<in> set (db_roles (srv_db s))" "roles_id y = role" for y
    using that x(1) assms(3) find_Some_in [OF x(1)] by (auto simp: roles_seeded_def dest: distinct_keyD)
  then have "role_gives (srv_db s) role q \<Longrightarrow> hasPermission user q" for q
    using role r(2) assms(2) x(2) canGrant_permissions [OF r(2) assms(2)]
    by (auto simp: role_gives_def scanRole_def hasPermission_def list_ex_iff)
  then show ?thesis by (simp add: capped_def)
qed

lemma assigning:
  assumes nonadmin: "User_Role user \<noteq> RoleAdmin" and P: "P = hasPermission user"
    and k: "steps (on_db (no_gain P role)) (k True)" and no: "k False = ret r"
  shows "steps (on_db (no_gain P RoleUser)) (bindE (canAssignRole user role) k)"
proof (rule stepsI)
  fix s
  obtain x s1 where x: "canAssignRole user role s = (x, s1)" by fastforce
  from stepsD [OF canAssignRole_reads x] have same: "same_tables (srv_db s) (srv_db s1)" by (simp add: on_db_def)
  show "on_db (no_gain P RoleUser) s (snd (bindE (canAssignRole user role) k s))"
  proof (cases "x = Inr True")
    case True
    have "no_gain P role (srv_db s) (srv_db (snd (k True s1)))"
      using k gn.step_trans [OF same_no_gain [OF same]] by (auto simp: steps_def on_db_def)
    moreover have "capped P role (srv_db s)" if "roles_seeded (srv_db s)"
      using canAssignRole_capped [OF x [unfolded True] nonadmin that] P by simp
    ultimately have "no_gain P RoleUser (srv_db s) (srv_db (snd (k True s1)))"
      using user_role_gives_nothing by (auto simp: no_gain_def capped_def)
    then show ?thesis using x True by (simp add: bindE_run on_db_def)
  next
    case False
    then have "snd (bindE (canAssignRole user role) k s) = s1"
      using x no by (cases x) (auto simp: bindE_run)
    then show ?thesis using same by (simp add: on_db_def same_no_gain)
  qed
qed

lemma complete_new_user_no_gain:
  "User_Role user = \<rho> \<Longrightarrow> steps (on_db (no_gain P \<rho>)) (complete_new_user w svc input user)"
  unfolding complete_new_user_def by (intro gain_intros Auth_UpdateUser_no_gain) simp

lemma CreateLocalUser_role:
  "CreateLocalUser w svc \<lparr>CreateUserInput_Username = a, CreateUserInput_Email = b, CreateUserInput_Password = c,
     CreateUserInput_DisplayName = n, CreateUserInput_Role = \<rho>, CreateUserInput_Enabled = e\<rparr> s = (Inr user, s') \<Longrightarrow>
   User_Role user = \<rho>"
  by (auto simp: CreateLocalUser_def bindE_Inr_iff thenE_Inr_iff local_user_def Let_def)

lemma assigning_handlers_no_gain:
  assumes "User_Role (Principal_User p) \<noteq> RoleAdmin"
  shows "steps (on_db (no_gain (hasPermission (Principal_User p)) RoleUser)) (Http_createUser w svc pa p new)"
    and "steps (on_db (no_gain (hasPermission (Principal_User p)) RoleUser)) (Http_updateUser w svc pa p i upd)"
  unfolding Http_createUser_def Http_updateUser_def
  by (intro assigning [OF assms refl] gns.steps_post(2) [OF CreateLocalUser_no_gain CreateLocalUser_role]
      complete_new_user_no_gain Auth_UpdateUser_no_gain gain_intros; simp)+

section \<open>Requests\<close>

text \<open>The calls of a principal on the administration of sessions, users and roles.\<close>

inductive admin_call :: "world \<Rightarrow> Service \<Rightarrow> (string \<Rightarrow> string option) \<Rightarrow> Principal \<Rightarrow> server \<Rightarrow> server \<Rightarrow> bool" for w svc pa p where
  "admin_call w svc pa p s (snd (logout w p ip s))"
| "admin_call w svc pa p s (snd (logoutAll w p s))"
| "admin_call w svc pa p s (snd (Http_revokeSession w p j s))"
| "admin_call w svc pa p s (snd (Http_setUserEnabled w p i b s))"
| "admin_call w svc pa p s (snd (Http_forceRelogin w p i s))"
| "admin_call w svc pa p s (snd (Http_listUsers s))"
| "admin_call w svc pa p s (snd (Http_createUser w svc pa p new s))"
| "admin_call w svc pa p s (snd (Http_updateUser w svc pa p i upd s))"
| "admin_call w svc pa p s (snd (Http_deleteUser w p i s))"
| "admin_call w svc pa p s (snd (Http_setUserApproval w p i st s))"
| "admin_call w svc pa p s (snd (Http_setUserPassword w svc p i pw s))"
| "admin_call w svc pa p s (snd (Http_listRoles s))"
| "admin_call w svc pa p s (snd (Http_createRole w p body s))"
| "admin_call w svc pa p s (snd (Http_updateRole w p role body s))"
| "admin_call w svc pa p s (snd (Http_deleteRole w p role s))"

lemma admin_call_no_gain:
  assumes "admin_call w svc pa p s s'" "User_Role (Principal_User p) \<noteq> RoleAdmin"
  shows "no_gain (hasPermission (Principal_User p)) RoleUser (srv_db s) (srv_db s')"
  using assms(1)
  by (induction rule: admin_call.induct)
    (rule plain_handlers_no_gain [unfolded steps_def on_db_def, rule_format]
      createRole_no_gain [OF assms(2), unfolded steps_def on_db_def, rule_format]
      updateRole_no_gain [OF assms(2), unfolded steps_def on_db_def, rule_format]
      assigning_handlers_no_gain [OF assms(2), unfolded steps_def on_db_def, rule_format])+

text \<open>A request authenticates its user first; its principal has what the user's role gives.\<close>

inductive admin_request ::
  "world \<Rightarrow> Service \<Rightarrow> (string \<Rightarrow> string option) \<Rightarrow> string set \<Rightarrow> server \<Rightarrow> server \<Rightarrow> bool" for w svc pa A where
  request: "Authenticate w svc token s = (Inr (u, t, c), s1) \<Longrightarrow> User_ID u \<in> A \<Longrightarrow> User_Role u \<noteq> RoleAdmin \<Longrightarrow>
    admin_call w svc pa \<lparr>Principal_User = u, Principal_Session = t, Principal_Claims = c\<rparr> s1 s' \<Longrightarrow>
    admin_request w svc pa A s s'"

lemma Authenticate_no_gain: "steps (on_db (no_gain P \<rho>)) (Authenticate w svc token)"
proof -
  have "steps (no_gain P \<rho>) (TouchSession i now)" "steps (no_gain P \<rho>) (FindSession i)" for i now
    unfolding TouchSession_def FindSession_def by (intro gn.db_intros no_gain_same; simp)+
  then show ?thesis unfolding Authenticate_def withPermissions_def by (intro gain_intros)
qed

lemma withPermissions_holds:
  assumes "withPermissions u s = (Inr u', s')" and "hasPermission u' q" and "User_Permissions u = []"
  shows "role_gives (srv_db s) (User_Role u) q \<and> User_ID u' = User_ID u \<and> User_Role u' = User_Role u"
proof (cases "User_Role u = RoleAdmin")
  case True
  then show ?thesis using assms(1) by (auto simp: withPermissions_def role_gives_def)
next
  case False
  obtain r d where r: "FindRoleByID (User_Role u) (srv_db s) = (r, d)" by fastforce
  show ?thesis
  proof (cases r)
    case (Inl e)
    then show ?thesis using assms False r
      by (auto simp: withPermissions_def hasPermission_def attempt_run sql_run)
  next
    case (Inr role)
    obtain row where row: "find (\<lambda>r. roles_id r = User_Role u) (db_roles (srv_db s)) = Some row" "role = scanRole row"
      by (rule find_row_ok [OF r [unfolded FindRoleByID_def Inr]]) (simp_all add: set_faults_def)
    from find_Some_in [OF row(1)] row(2) have "row \<in> set (db_roles (srv_db s))" "roles_id row = User_Role u"
      "RoleDefinition_Permissions role = roles_permissions row" by (simp_all add: scanRole_def)
    then show ?thesis using assms False r Inr
      by (auto simp: withPermissions_def hasPermission_def attempt_run sql_run role_gives_def list_ex_iff)
  qed
qed

lemma Authenticate_holds:
  assumes "Authenticate w svc token s = (Inr (u, t, c), s1)" and "hasPermission u q"
  shows "holds (srv_db s) (User_ID u) q"
proof -
  from assms(1) [unfolded Authenticate_def service_iffs, simplified]
  obtain u0 d1 d2 s3 where *: "FindUserByID (Claims_Subject c) (srv_db s) = (Inr u0, d1)"
      "FindSession (Claims_SessionID c) d1 = (Inr t, d2)"
      "withPermissions u0 (s\<lparr>srv_db := d2, srv_tick := Suc (Suc (srv_tick s))\<rparr>) = (Inr u, s3)"
    by (auto simp: service_iffs split: if_splits)
  obtain r where r: "find (\<lambda>r. users_id r = Claims_Subject c) (db_users (srv_db s)) = Some r"
      "u0 = scanUser r" "same_tables (srv_db s) d1" using FindUserByID_ok [OF *(1)] by blast
  have "steps same_tables (FindSession (Claims_SessionID c))"
    unfolding FindSession_def by (intro stb.basic_intros)
  from stepsD [OF this, of d1] have "same_tables d1 d2" using *(2) by simp
  with r(3) have "role_gives d2 = role_gives (srv_db s)" by (metis same_tablesE gain_set_faults(1))
  moreover have "User_Permissions u0 = []" "User_Role u0 = users_role r" "User_ID u0 = users_id r"
    by (simp_all add: r(2) scanUser_def)
  ultimately show ?thesis
    using withPermissions_holds [OF *(3) assms(2)] find_Some_in [OF r(1)] by (auto simp: holds_def)
qed

text \<open>C34: No escalation of privileges.  In every run of authenticated requests, in whatever
  order, by users of the set \<open>A\<close> who are not administrators, on sessions, users and roles, a
  permission that any user holds at the end was held by that user, or by one of \<open>A\<close>, at the
  start: a delegated administrator hands out only what it has, also by way of a role it
  creates or edits, and several of them together only what one of them has.\<close>

theorem no_privilege_escalation:
  assumes "roles_seeded (srv_db s)" and "(admin_request w svc pa A)\<^sup>*\<^sup>* s s'" and "holds (srv_db s') i q"
  shows "holds (srv_db s) i q \<or> (\<exists>a\<in>A. holds (srv_db s) a q)"
proof -
  have step: "roles_seeded (srv_db z) \<and> (\<forall>i q. holds (srv_db z) i q \<longrightarrow> holds (srv_db y) i q \<or> (\<exists>a\<in>A. holds (srv_db y) a q))"
    if "admin_request w svc pa A y z" and seeded: "roles_seeded (srv_db y)" for y z
    using that(1)
  proof cases
    case (request token u t c s1)
    let ?P = "hasPermission u"
    have "no_gain ?P RoleUser (srv_db y) (srv_db s1)"
      using stepsD [OF Authenticate_no_gain [of ?P RoleUser w svc token], of y] request(1) by (simp add: on_db_def)
    moreover have "no_gain ?P RoleUser (srv_db s1) (srv_db z)"
      using admin_call_no_gain [OF request(4)] request(3) by simp
    moreover have "capped ?P RoleUser (srv_db y)" by (simp add: capped_def user_role_gives_nothing [OF seeded])
    ultimately have "roles_seeded (srv_db z) \<and> (\<forall>i q. holds (srv_db z) i q \<longrightarrow> holds (srv_db y) i q \<or> ?P q)"
      using seeded unfolding no_gain_def by blast
    then show ?thesis using Authenticate_holds [OF request(1)] request(2) by blast
  qed
  from assms(2) have "roles_seeded (srv_db s') \<and>
      (\<forall>i q. holds (srv_db s') i q \<longrightarrow> holds (srv_db s) i q \<or> (\<exists>a\<in>A. holds (srv_db s) a q))"
    by (induction rule: rtranclp_induct) (use assms(1) step in blast)+
  then show ?thesis using assms(3) by blast
qed

theorem no_privilege_escalation_witness:
  "\<exists>s'. (admin_request (example_world example_claims) example_service Some {''u2''})\<^sup>*\<^sup>* example_server s' \<and>
     \<not> holds (srv_db s') ''u2'' ''users.write''"
proof -
  let ?w = "example_world example_claims"
  obtain u t s1 where a: "Authenticate ?w example_service ''token'' example_server = (Inr (u, t, example_claims), s1)"
      "User_ID u = ''u2''" "User_Role u = RoleUser"
  proof -
    let ?u = "example_user ''u2'' ''bob'' RoleUser" and ?x = "example_session ''s2'' ''u2'' None"
    have "token_live accounts_example example_claims 2 ?u ?x"
      by (simp add: token_live_def example_claims_def accounts_example_defs fromMillis_def)
    moreover have "Parse ?w (Service_tokens example_service) 1 ''token'' = Inr example_claims"
      by (simp add: Parse_def example_world_def example_claims_def)
    ultimately have "fst (Authenticate ?w example_service ''token'' example_server) =
        Inr (granted accounts_example (scanUser ?u), scanSession ?x, example_claims)"
      using Authenticate_live [OF example_server_ok(2,3), of ?w example_service "''token''" example_claims ?u ?x]
      by (simp add: example_server_def example_world_def)
    then have "Authenticate ?w example_service ''token'' example_server = (Inr (scanUser ?u, scanSession ?x, example_claims),
        snd (Authenticate ?w example_service ''token'' example_server))"
      by (simp add: example_granted prod_eq_iff)
    then show thesis by (rule that) (simp_all add: scanUser_def example_user_def)
  qed
  let ?p = "\<lparr>Principal_User = u, Principal_Session = t, Principal_Claims = example_claims\<rparr>"
  let ?s = "snd (Http_createRole ?w ?p (Some \<lparr>RoleReq_ID = ''boss'', RoleReq_Name = ''Boss'',
      RoleReq_Description = [], RoleReq_Permissions = [''users.write'']\<rparr>) s1)"
  have "admin_request ?w example_service Some {''u2''} example_server ?s"
    using a by (intro request [OF a(1)] admin_call.intros) auto
  then have run: "(admin_request ?w example_service Some {''u2''})\<^sup>*\<^sup>* example_server ?s" by blast
  have seeded: "roles_seeded (srv_db example_server)" and
    none: "\<not> holds (srv_db example_server) ''u2'' ''users.write''"
    by (simp_all add: roles_seeded_def holds_def role_gives_def example_server_def accounts_example_defs)
  show ?thesis using no_privilege_escalation [OF seeded run, of "''u2''" "''users.write''"] none run by blast
qed

end
