(* ===== verification/Access.thy ===== *)
theory Access
  imports Http_Books Store_Policies Store_Devices
begin

text \<open>
  Access rules: the handlers of internal/httpapi/server.go that administer and evaluate them.
  The liveness window of ListDevices is the argument \<open>ttl\<close>.
\<close>

definition ACLUpdated :: string where "ACLUpdated = ''ACL_UPDATED''"

definition aclPermissions :: "string list" where
  "aclPermissions = [''remote_control'', ''file_transfer'', ''clipboard'', ''tcp_tunnel'', ''terminal'', ''audio'',
     ''camera'', ''view'', ''manage'']"

definition Http_listACLRules :: "(server, ACLRule list reply) prog" where
  "Http_listACLRules = handleE (sql ListACLRules) (\<lambda>_. WriteError 500 ''failed to list ACL rules'')
     (\<lambda>values. ret (WriteJSON 200 values))"

section \<open>Evaluation\<close>

record ACLQuery =
  ACLQuery_UserID :: string
  ACLQuery_TargetID :: string
  ACLQuery_Permission :: string

record ACLTrace =
  ACLTrace_RuleID :: string
  ACLTrace_Name :: string
  ACLTrace_Priority :: int
  ACLTrace_Effect :: string
  ACLTrace_SubjectMatched :: bool
  ACLTrace_TargetMatched :: bool
  ACLTrace_PermissionMatched :: bool
  ACLTrace_Matched :: bool

text \<open>The variables of the loop over the rules.\<close>

record ACLWinner =
  ACLWinner_matched :: "string list"
  ACLWinner_trace :: "ACLTrace list"
  ACLWinner_enabledCount :: int
  ACLWinner_winningPriority :: int
  ACLWinner_winningEffect :: string

record ACLVerdict =
  ACLVerdict_Allowed :: bool
  ACLVerdict_Reason :: string
  ACLVerdict_Winner :: ACLWinner
  ACLVerdict_UserID :: string
  ACLVerdict_UserGroupIDs :: "string list"
  ACLVerdict_TargetID :: string
  ACLVerdict_TargetGroupID :: string
  ACLVerdict_Permission :: string

definition subject_matches :: "User \<Rightarrow> string list \<Rightarrow> ACLRule \<Rightarrow> bool" where
  "subject_matches user userGroups rule \<longleftrightarrow> ACLRule_SubjectID rule = [] \<or>
     (ACLRule_SubjectType rule = ''user'' \<and> ACLRule_SubjectID rule = User_ID user) \<or>
     (ACLRule_SubjectType rule = ''user_group'' \<and> ACLRule_SubjectID rule \<in> set userGroups)"

definition target_matches :: "Device \<Rightarrow> ACLRule \<Rightarrow> bool" where
  "target_matches device rule \<longleftrightarrow> ACLRule_TargetID rule = [] \<or>
     (ACLRule_TargetType rule = ''device'' \<and> ACLRule_TargetID rule = Device_RustDeskID device) \<or>
     (ACLRule_TargetType rule = ''device_group'' \<and> Device_GroupID device \<noteq> [] \<and>
      ACLRule_TargetID rule = Device_GroupID device)"

definition rule_matches :: "User \<Rightarrow> string list \<Rightarrow> Device \<Rightarrow> string \<Rightarrow> ACLRule \<Rightarrow> bool" where
  "rule_matches user userGroups device permission rule \<longleftrightarrow> subject_matches user userGroups rule \<and>
     target_matches device rule \<and> list_ex (\<lambda>p. p = permission) (ACLRule_Permissions rule)"

definition acl_trace :: "User \<Rightarrow> string list \<Rightarrow> Device \<Rightarrow> string \<Rightarrow> ACLRule \<Rightarrow> ACLTrace" where
  "acl_trace user userGroups device permission rule =
     \<lparr>ACLTrace_RuleID = ACLRule_ID rule, ACLTrace_Name = ACLRule_Name rule, ACLTrace_Priority = ACLRule_Priority rule,
      ACLTrace_Effect = ACLRule_Effect rule, ACLTrace_SubjectMatched = subject_matches user userGroups rule,
      ACLTrace_TargetMatched = target_matches device rule,
      ACLTrace_PermissionMatched = list_ex (\<lambda>p. p = permission) (ACLRule_Permissions rule),
      ACLTrace_Matched = rule_matches user userGroups device permission rule\<rparr>"

definition acl_step :: "User \<Rightarrow> string list \<Rightarrow> Device \<Rightarrow> string \<Rightarrow> ACLRule \<Rightarrow> ACLWinner \<Rightarrow> ACLWinner" where
  "acl_step user userGroups device permission rule v =
     (if \<not> ACLRule_Enabled rule then v else
      let v = v\<lparr>ACLWinner_enabledCount := ACLWinner_enabledCount v + 1,
                ACLWinner_trace := ACLWinner_trace v @ [acl_trace user userGroups device permission rule]\<rparr> in
      if \<not> rule_matches user userGroups device permission rule then v else
      let v = v\<lparr>ACLWinner_matched := ACLWinner_matched v @ [ACLRule_ID rule]\<rparr> in
      if ACLRule_Priority rule < ACLWinner_winningPriority v \<or>
         (ACLRule_Priority rule = ACLWinner_winningPriority v \<and> ACLRule_Effect rule = ''deny'')
      then v\<lparr>ACLWinner_winningPriority := ACLRule_Priority rule, ACLWinner_winningEffect := ACLRule_Effect rule\<rparr>
      else v)"

definition no_winner :: ACLWinner where
  "no_winner = \<lparr>ACLWinner_matched = [], ACLWinner_trace = [], ACLWinner_enabledCount = 0,
     ACLWinner_winningPriority = 2 ^ 63 - 1, ACLWinner_winningEffect = []\<rparr>"

definition acl_winner :: "User \<Rightarrow> string list \<Rightarrow> Device \<Rightarrow> string \<Rightarrow> ACLRule list \<Rightarrow> ACLWinner" where
  "acl_winner user userGroups device permission rules = fold (acl_step user userGroups device permission) rules no_winner"

definition acl_allowed :: "User \<Rightarrow> ACLWinner \<Rightarrow> bool" where
  "acl_allowed user v \<longleftrightarrow> User_Enabled user \<and> User_ApprovalStatus user = ApprovalApproved \<and>
     (User_Role user = RoleAdmin \<or> ACLWinner_enabledCount v = 0 \<or> ACLWinner_winningEffect v = ''allow'')"

definition acl_reason :: "User \<Rightarrow> ACLWinner \<Rightarrow> string" where
  "acl_reason user v =
     (if \<not> User_Enabled user then ''user_disabled''
      else if User_ApprovalStatus user \<noteq> ApprovalApproved then ''user_not_approved''
      else if User_Role user = RoleAdmin then ''administrator_bypass''
      else if ACLWinner_enabledCount v = 0 then ''no_acl_rules_configured''
      else if ACLWinner_winningEffect v = ''deny'' then ''explicit_deny''
      else if \<not> acl_allowed user v then ''no_matching_acl_rule''
      else ''matched_acl_rule'')"

definition evaluateACL :: "world \<Rightarrow> duration \<Rightarrow> ACLQuery option \<Rightarrow> (server, ACLVerdict reply) prog" where
  "evaluateACL w ttl body = (case body of None \<Rightarrow> ret (WriteError 400 ''invalid request'') | Some input \<Rightarrow>
     handleE (sql (FindUserByID (ACLQuery_UserID input))) (\<lambda>_. WriteError 404 ''user not found'') (\<lambda>user.
     if ACLQuery_Permission input \<notin> set aclPermissions then ret (WriteError 400 ''invalid permission'') else
     bindE (now_of w) (\<lambda>now.
     handleE (sql (ListDevices now ttl)) (\<lambda>_. WriteError 500 ''devices unavailable'') (\<lambda>devices.
     case find (\<lambda>d. Device_RustDeskID d = ACLQuery_TargetID input) devices of
       None \<Rightarrow> ret (WriteError 404 ''device not found'')
     | Some device \<Rightarrow>
     handleE (sql ListACLRules) (\<lambda>_. WriteError 500 ''ACL unavailable'') (\<lambda>rules.
     handleE (sql ListUserGroupMemberships) (\<lambda>_. WriteError 500 ''memberships unavailable'') (\<lambda>memberships.
     let userGroups = map UserGroupMembership_GroupID
           (filter (\<lambda>m. UserGroupMembership_Active m \<and> UserGroupMembership_UserID m = User_ID user) memberships);
         v = acl_winner user userGroups device (ACLQuery_Permission input) rules in
     ret (WriteJSON 200 \<lparr>ACLVerdict_Allowed = acl_allowed user v, ACLVerdict_Reason = acl_reason user v,
        ACLVerdict_Winner = v, ACLVerdict_UserID = User_ID user, ACLVerdict_UserGroupIDs = userGroups,
        ACLVerdict_TargetID = Device_RustDeskID device, ACLVerdict_TargetGroupID = Device_GroupID device,
        ACLVerdict_Permission = ACLQuery_Permission input\<rparr>)))))))"

section \<open>Administration\<close>

definition validACLRule :: "ACLRule \<Rightarrow> bool" where
  "validACLRule v \<longleftrightarrow> \<not> (length (TrimSpace (ACLRule_Name v)) < 2 \<or> 128 < length (ACLRule_Name v) \<or>
     ACLRule_Permissions v = [] \<or> ACLRule_Priority v < 1 \<or> 10000 < ACLRule_Priority v \<or>
     (ACLRule_Effect v \<noteq> ''allow'' \<and> ACLRule_Effect v \<noteq> ''deny'') \<or>
     (ACLRule_SubjectType v \<noteq> ''user'' \<and> ACLRule_SubjectType v \<noteq> ''user_group'') \<or>
     (ACLRule_TargetType v \<noteq> ''device'' \<and> ACLRule_TargetType v \<noteq> ''device_group'')) \<and>
     list_all (\<lambda>p. p \<in> set aclPermissions) (ACLRule_Permissions v)"

definition normalizeACLEffect :: "string \<Rightarrow> string" where
  "normalizeACLEffect value = (if TrimSpace value = [] then ''allow'' else ToLower (TrimSpace value))"

text \<open>The checks that a scope names something that exists; the result is the text of the error.\<close>

definition user_exists :: "string \<Rightarrow> string \<Rightarrow> (server, string option) prog" where
  "user_exists i message = handleE (sql (FindUserByID i)) (\<lambda>_. Some message) (\<lambda>_. ret None)"

definition group_exists :: "string \<Rightarrow> GroupKind \<Rightarrow> string \<Rightarrow> (server, string option) prog" where
  "group_exists i kind message = handleE (sql (FindGroupByID i)) (\<lambda>_. Some message)
     (\<lambda>g. ret (if Group_Kind g \<noteq> kind then Some message else None))"

definition device_exists :: "world \<Rightarrow> duration \<Rightarrow> string \<Rightarrow> string \<Rightarrow> (server, string option) prog" where
  "device_exists w ttl i message = bindE (now_of w) (\<lambda>now.
     handleE (sql (ListDevices now ttl)) (\<lambda>_. Some ''devices unavailable'')
       (\<lambda>devices. ret (if list_ex (\<lambda>d. Device_RustDeskID d = i) devices then None else Some message)))"

definition validateACLRule :: "world \<Rightarrow> duration \<Rightarrow> ACLRule \<Rightarrow> (server, string option) prog" where
  "validateACLRule w ttl v =
     (if \<not> validACLRule v then ret (Some ''invalid ACL rule'') else
      bindE (if ACLRule_SubjectID v = [] then ret None
             else if ACLRule_SubjectType v = ''user'' then user_exists (ACLRule_SubjectID v) ''ACL subject not found''
             else group_exists (ACLRule_SubjectID v) GroupKindUser ''user group not found'') (\<lambda>problem.
      if problem \<noteq> None then ret problem
      else if ACLRule_TargetID v = [] then ret None
      else if ACLRule_TargetType v = ''device'' then device_exists w ttl (ACLRule_TargetID v) ''target device not found''
      else group_exists (ACLRule_TargetID v) GroupKindDevice ''device group not found''))"

definition createACLRule :: "world \<Rightarrow> duration \<Rightarrow> Principal \<Rightarrow> ACLRule option \<Rightarrow> (server, ACLRule reply) prog" where
  "createACLRule w ttl p body = (case body of None \<Rightarrow> ret (WriteError 400 ''invalid ACL rule'') | Some v0 \<Rightarrow>
     let v = v0\<lparr>ACLRule_Name := TrimSpace (ACLRule_Name v0), ACLRule_Effect := normalizeACLEffect (ACLRule_Effect v0),
                ACLRule_Priority := (if ACLRule_Priority v0 = 0 then 100 else ACLRule_Priority v0)\<rparr> in
     bindE (validateACLRule w ttl v) (\<lambda>problem. case problem of Some text \<Rightarrow> ret (WriteError 400 text) | None \<Rightarrow>
     bindE (now_of w) (\<lambda>now.
     bindE (new_uuid w) (\<lambda>i.
     let v = v\<lparr>ACLRule_ID := i, ACLRule_Enabled := True, ACLRule_CreatedAt := now, ACLRule_UpdatedAt := now\<rparr> in
     handleE (sql (CreateACLRule v)) (\<lambda>_. WriteError 500 ''failed to create ACL rule'') (\<lambda>_.
     thenE (publish ACLUpdated (PACLRule v))
     (audited_reply w (audit_event ''acl_update'' (actor p) ''success'' []) (WriteJSON 201 v)))))))"

definition updateACLRule ::
  "world \<Rightarrow> duration \<Rightarrow> Principal \<Rightarrow> string \<Rightarrow> ACLRule option \<Rightarrow> (server, ACLRule reply) prog" where
  "updateACLRule w ttl p ruleID body = (case body of None \<Rightarrow> ret (WriteError 400 ''invalid ACL rule'') | Some v0 \<Rightarrow>
     let v = v0\<lparr>ACLRule_Name := TrimSpace (ACLRule_Name v0), ACLRule_Effect := normalizeACLEffect (ACLRule_Effect v0)\<rparr> in
     bindE (validateACLRule w ttl v) (\<lambda>problem. case problem of Some text \<Rightarrow> ret (WriteError 400 text) | None \<Rightarrow>
     bindE (now_of w) (\<lambda>now.
     let v = v\<lparr>ACLRule_ID := ruleID, ACLRule_UpdatedAt := now\<rparr> in
     handleE (sql (UpdateACLRule v)) (\<lambda>err. if errors_Is err ErrNotFound then WriteError 404 ''ACL rule not found''
         else WriteError 500 ''failed to update ACL rule'') (\<lambda>_.
     thenE (publish ACLUpdated (PACLRule v))
     (audited_reply w (audit_event ''acl_update'' (actor p) ''success'' [(''rule_id'', JStr ruleID)]) (WriteJSON 200 v))))))"

definition deleted_rule :: "string \<Rightarrow> ACLRule" where
  "deleted_rule i = \<lparr>ACLRule_ID = i, ACLRule_Name = [], ACLRule_SubjectType = [], ACLRule_SubjectID = [],
     ACLRule_TargetType = [], ACLRule_TargetID = [], ACLRule_Permissions = [], ACLRule_Effect = [], ACLRule_Enabled = False,
     ACLRule_Priority = 0, ACLRule_CreatedAt = zero_time, ACLRule_UpdatedAt = zero_time, ACLRule_Deleted = True\<rparr>"

definition deleteACLRule :: "world \<Rightarrow> Principal \<Rightarrow> string \<Rightarrow> (server, unit reply) prog" where
  "deleteACLRule w p i =
     handleE (sql (DeleteACLRule i)) (\<lambda>err. if errors_Is err ErrNotFound then WriteError 404 ''ACL rule not found''
         else WriteError 500 ''failed to delete ACL rule'') (\<lambda>_.
     thenE (publish ACLUpdated (PACLRule (deleted_rule i)))
     (audited_reply w (audit_event ''acl_delete'' (actor p) ''success'' [(''rule_id'', JStr i)]) (WriteHeader 204)))"

end
