(* ===== verification/Strategy_Service.thy ===== *)
theory Strategy_Service
  imports Access Maps
begin

text \<open>
  Strategies: the service of internal/strategy and the handlers of internal/httpapi/server.go
  that administer and evaluate them.  A Go map of settings is the list of its entries in the
  order of one iteration; the format verb g of a float64 is the argument \<open>fmtG\<close>.
\<close>

definition StrategyUpdated :: string where "StrategyUpdated = ''STRATEGY_UPDATED''"

section \<open>The service\<close>

record StrategyResult =
  StrategyResult_ModifiedAt :: int
  StrategyResult_ConfigOptions :: "(string, string) gomap"
  StrategyResult_EffectiveSettings :: "(string, json) gomap"
  StrategyResult_MatchedStrategyIDs :: "string list"

text \<open>The settings and their kinds; the labels are texts of the console.\<close>

definition setting_kinds :: "(string, string) gomap" where
  "setting_kinds = [(''require_login'', ''boolean''), (''require_managed_device'', ''boolean''),
     (''allow_remote_control'', ''boolean''), (''allow_file_transfer'', ''boolean''), (''allow_clipboard'', ''boolean''),
     (''allow_tcp_tunnel'', ''boolean''), (''force_relay'', ''boolean''), (''disable_direct_ip'', ''boolean''),
     (''disable_lan_discovery'', ''boolean''), (''disable_settings'', ''boolean''),
     (''id_server'', ''string''), (''relay_server'', ''string''), (''api_server'', ''string'')]"

definition yn :: "bool \<Rightarrow> string" where "yn value = (if value then ''Y'' else ''N'')"

definition has_space :: "string \<Rightarrow> bool" where
  "has_space s = list_ex (\<lambda>c. c \<in> {CHR '' '', CHR 0x09, CHR 0x0D, CHR 0x0A}) s"

definition stringOption :: "string \<Rightarrow> json \<Rightarrow> (string \<times> string) option" where
  "stringOption option raw = (case raw of
       JStr value \<Rightarrow> if length (TrimSpace value) \<le> 2048 then Some (option, TrimSpace value) else None
     | _ \<Rightarrow> None)"

text \<open>The boolean settings: the client option of each, and whether it is the negation.\<close>

definition boolean_options :: "(string, string \<times> bool) gomap" where
  "boolean_options = [(''allow_remote_control'', (''enable-keyboard'', False)),
     (''allow_file_transfer'', (''enable-file-transfer'', False)), (''allow_clipboard'', (''enable-clipboard'', False)),
     (''allow_tcp_tunnel'', (''enable-tunnel'', False)), (''force_relay'', (''force-relay'', False)),
     (''disable_direct_ip'', (''direct-server'', True)), (''disable_lan_discovery'', (''enable-lan-discovery'', True)),
     (''disable_settings'', (''disable-settings'', False))]"

definition clientOption :: "(rat \<Rightarrow> string) \<Rightarrow> string \<Rightarrow> json \<Rightarrow> (string \<times> string) option" where
  "clientOption fmtG key raw = (case map_get boolean_options key of
       Some (option, negated) \<Rightarrow> (case raw of JBool b \<Rightarrow> Some (option, yn (if negated then \<not> b else b)) | _ \<Rightarrow> None)
     | None \<Rightarrow>
       if key = ''id_server'' then stringOption ''custom-rendezvous-server'' raw
       else if key = ''relay_server'' then stringOption ''relay-server'' raw
       else if key = ''api_server'' then stringOption ''api-server'' raw
       else if key = ''require_login'' \<or> key = ''require_managed_device'' then None
       else if HasPrefix key ''rustdesk.'' then
         (let option = TrimPrefix key ''rustdesk.'' in
          if option = [] \<or> 128 < length option \<or> has_space option then None
          else case raw of
             JBool b \<Rightarrow> Some (option, yn b)
           | JStr value \<Rightarrow> if length value \<le> 2048 then Some (option, value) else None
           | JNum x \<Rightarrow> Some (option, fmtG x)
           | _ \<Rightarrow> None)
       else None)"

text \<open>One assignment \<open>result[option] = value\<close> per setting that has an option.\<close>

definition put_option :: "(rat \<Rightarrow> string) \<Rightarrow> string \<times> json \<Rightarrow> (string, string) gomap \<Rightarrow> (string, string) gomap" where
  "put_option fmtG = (\<lambda>(key, raw) m. case clientOption fmtG key raw of None \<Rightarrow> m | Some (option, value) \<Rightarrow> map_put option value m)"

definition ClientOptions :: "(rat \<Rightarrow> string) \<Rightarrow> (string, json) gomap \<Rightarrow> (string, string) gomap" where
  "ClientOptions fmtG settings = fold (put_option fmtG) settings []"

definition strategy_in_scope :: "Strategy \<Rightarrow> Device \<Rightarrow> string list \<Rightarrow> bool" where
  "strategy_in_scope v device userGroups =
     (if Strategy_ScopeType v = ''global'' then True
      else if Strategy_ScopeType v = ''user'' then Device_OwnerUserID device \<noteq> [] \<and> Strategy_ScopeID v = Device_OwnerUserID device
      else if Strategy_ScopeType v = ''user_group'' then Strategy_ScopeID v \<in> set userGroups
      else if Strategy_ScopeType v = ''device_group'' then Device_GroupID device \<noteq> [] \<and> Strategy_ScopeID v = Device_GroupID device
      else if Strategy_ScopeType v = ''device'' then Strategy_ScopeID v = Device_RustDeskID device
      else False)"

definition specificity :: "string \<Rightarrow> int" where
  "specificity scope =
     (if scope = ''global'' then 0 else if scope = ''user_group'' then 1 else if scope = ''user'' then 2
      else if scope = ''device_group'' then 3 else if scope = ''device'' then 4 else -1)"

text \<open>The first loop: the modification time and the options of every strategy in scope, reset.\<close>

definition reset_option :: "(rat \<Rightarrow> string) \<Rightarrow> string \<times> json \<Rightarrow> (string, string) gomap \<Rightarrow> (string, string) gomap" where
  "reset_option fmtG = (\<lambda>(key, raw) m. case clientOption fmtG key raw of None \<Rightarrow> m | Some (option, _) \<Rightarrow> map_put option [] m)"

definition note_strategy :: "(rat \<Rightarrow> string) \<Rightarrow> Strategy \<Rightarrow> StrategyResult \<Rightarrow> StrategyResult" where
  "note_strategy fmtG v r = r\<lparr>
     StrategyResult_ModifiedAt := max (StrategyResult_ModifiedAt r) (millis (Strategy_UpdatedAt v)),
     StrategyResult_ConfigOptions := fold (reset_option fmtG) (Strategy_Settings v) (StrategyResult_ConfigOptions r)\<rparr>"

text \<open>The second loop, over the enabled ones in the order of precedence.\<close>

definition merge_strategy :: "(rat \<Rightarrow> string) \<Rightarrow> Strategy \<Rightarrow> StrategyResult \<Rightarrow> StrategyResult" where
  "merge_strategy fmtG v r = r\<lparr>
     StrategyResult_ConfigOptions := fold (put_option fmtG) (Strategy_Settings v) (StrategyResult_ConfigOptions r),
     StrategyResult_EffectiveSettings :=
       fold (\<lambda>(key, raw). map_put key raw) (Strategy_Settings v) (StrategyResult_EffectiveSettings r),
     StrategyResult_MatchedStrategyIDs := StrategyResult_MatchedStrategyIDs r @ [Strategy_ID v]\<rparr>"

definition strategy_rank :: "Strategy \<Rightarrow> int \<times> int \<times> instant" where
  "strategy_rank v = (Strategy_Priority v, specificity (Strategy_ScopeType v), Strategy_UpdatedAt v)"

definition Resolve :: "(rat \<Rightarrow> string) \<Rightarrow> Strategy list \<Rightarrow> Device \<Rightarrow> string list \<Rightarrow> StrategyResult" where
  "Resolve fmtG values device userGroups =
     (let inscope = filter (\<lambda>v. strategy_in_scope v device userGroups) values;
          matched = sort_key strategy_rank (filter (\<lambda>v. Strategy_Enabled v \<and> \<not> Strategy_Deleted v) inscope) in
      fold (merge_strategy fmtG) matched (fold (note_strategy fmtG) inscope
        \<lparr>StrategyResult_ModifiedAt = 0, StrategyResult_ConfigOptions = [], StrategyResult_EffectiveSettings = [],
         StrategyResult_MatchedStrategyIDs = []\<rparr>))"

definition EffectiveForDevice :: "(rat \<Rightarrow> string) \<Rightarrow> Device \<Rightarrow> (server, StrategyResult) prog" where
  "EffectiveForDevice fmtG device =
     bindE (sql ListStrategies) (\<lambda>values.
     bindE (sql ListUserGroupMemberships) (\<lambda>memberships.
     ret (Resolve fmtG values device (map UserGroupMembership_GroupID
       (filter (\<lambda>m. UserGroupMembership_Active m \<and> UserGroupMembership_UserID m = Device_OwnerUserID device) memberships)))))"

text \<open>The text of an error leaves out the key that the code quotes in it.\<close>

definition setting_error :: "string \<Rightarrow> json \<Rightarrow> string option" where
  "setting_error key raw = (case map_get setting_kinds key of
       None \<Rightarrow>
         if \<not> HasPrefix key ''rustdesk.'' \<or> 136 < length key \<or> has_space key then Some ''unsupported setting''
         else (case raw of JBool _ \<Rightarrow> None | JNum _ \<Rightarrow> None
           | JStr value \<Rightarrow> if 2048 < length value then Some ''setting is too long'' else None
           | _ \<Rightarrow> Some ''invalid value'')
     | Some kind \<Rightarrow>
         if kind = ''boolean'' then (case raw of JBool _ \<Rightarrow> None | _ \<Rightarrow> Some ''setting must be boolean'')
         else (case raw of JStr value \<Rightarrow> if 2048 < length value then Some ''setting must be a string'' else None
           | _ \<Rightarrow> Some ''setting must be a string''))"

definition ValidateSettings :: "(string, json) gomap \<Rightarrow> string option" where
  "ValidateSettings settings =
     (if settings = [] \<or> 64 < length settings then Some ''strategy must contain 1 to 64 settings''
      else case List.map_filter (\<lambda>(key, raw). setting_error key raw) settings of [] \<Rightarrow> None | e # _ \<Rightarrow> Some e)"

section \<open>Handlers\<close>

definition Http_listStrategies :: "(server, Strategy list reply) prog" where
  "Http_listStrategies = handleE (sql ListStrategies) (\<lambda>_. WriteError 500 ''failed to list strategies'')
     (\<lambda>values. ret (WriteJSON 200 (filter (\<lambda>v. \<not> Strategy_Deleted v) values)))"

definition evaluateStrategy :: "world \<Rightarrow> duration \<Rightarrow> (rat \<Rightarrow> string) \<Rightarrow> string option \<Rightarrow> (server, StrategyResult reply) prog" where
  "evaluateStrategy w ttl fmtG body = (case body of None \<Rightarrow> ret (WriteError 400 ''invalid request'') | Some deviceID \<Rightarrow>
     if deviceID = [] then ret (WriteError 400 ''invalid request'') else
     bindE (now_of w) (\<lambda>now.
     handleE (sql (ListDevices now ttl)) (\<lambda>_. WriteError 500 ''devices unavailable'') (\<lambda>devices.
     case find (\<lambda>d. Device_RustDeskID d = deviceID) devices of
       None \<Rightarrow> ret (WriteError 404 ''device not found'')
     | Some device \<Rightarrow> handleE (EffectiveForDevice fmtG device) (\<lambda>_. WriteError 500 ''strategy evaluation unavailable'')
         (\<lambda>r. ret (WriteJSON 200 r)))))"

definition validStrategy :: "Strategy \<Rightarrow> bool" where
  "validStrategy v =
     (if length (TrimSpace (Strategy_Name v)) < 2 \<or> 128 < length (Strategy_Name v) \<or>
         Strategy_ScopeType v \<notin> {''global'', ''user'', ''user_group'', ''device'', ''device_group''} \<or>
         Strategy_Settings v = [] \<or> 64 < length (Strategy_Settings v) \<or>
         Strategy_Priority v < 1 \<or> 100000 < Strategy_Priority v then False
      else if Strategy_ScopeType v = ''global'' \<and> Strategy_ScopeID v \<noteq> [] \<or>
         Strategy_ScopeType v \<noteq> ''global'' \<and> (Strategy_ScopeID v = [] \<or> 128 < length (Strategy_ScopeID v)) then False
      else ValidateSettings (Strategy_Settings v) = None)"

definition validateStrategy :: "world \<Rightarrow> duration \<Rightarrow> Strategy \<Rightarrow> (server, string option) prog" where
  "validateStrategy w ttl v =
     (if \<not> validStrategy v then ret (Some ''invalid strategy'')
      else if Strategy_ScopeType v = ''global'' then ret None
      else if Strategy_ScopeType v = ''user'' then user_exists (Strategy_ScopeID v) ''strategy user not found''
      else if Strategy_ScopeType v = ''user_group'' then group_exists (Strategy_ScopeID v) GroupKindUser ''strategy group not found''
      else if Strategy_ScopeType v = ''device_group'' then group_exists (Strategy_ScopeID v) GroupKindDevice ''strategy group not found''
      else if Strategy_ScopeType v = ''device'' then device_exists w ttl (Strategy_ScopeID v) ''strategy device not found''
      else ret None)"

definition createStrategy :: "world \<Rightarrow> duration \<Rightarrow> Principal \<Rightarrow> Strategy option \<Rightarrow> (server, Strategy reply) prog" where
  "createStrategy w ttl p body = (case body of None \<Rightarrow> ret (WriteError 400 ''invalid strategy'') | Some v0 \<Rightarrow>
     let v = v0\<lparr>Strategy_Name := TrimSpace (Strategy_Name v0),
                Strategy_Priority := (if Strategy_Priority v0 = 0 then 100 else Strategy_Priority v0)\<rparr> in
     bindE (validateStrategy w ttl v) (\<lambda>problem. case problem of Some text \<Rightarrow> ret (WriteError 400 text) | None \<Rightarrow>
     bindE (now_of w) (\<lambda>now.
     bindE (new_uuid w) (\<lambda>i.
     let v = v\<lparr>Strategy_ID := i, Strategy_Enabled := True, Strategy_CreatedAt := now, Strategy_UpdatedAt := now\<rparr> in
     handleE (sql (CreateStrategy v)) (\<lambda>_. WriteError 500 ''failed to create strategy'') (\<lambda>_.
     thenE (publish StrategyUpdated (PStrategy v))
     (audited_reply w (audit_event ''strategy_update'' (actor p) ''success'' []) (WriteJSON 201 v)))))))"

definition updateStrategy ::
  "world \<Rightarrow> duration \<Rightarrow> Principal \<Rightarrow> string \<Rightarrow> Strategy option \<Rightarrow> (server, Strategy reply) prog" where
  "updateStrategy w ttl p strategyID body = (case body of None \<Rightarrow> ret (WriteError 400 ''invalid strategy'') | Some v0 \<Rightarrow>
     bindE (validateStrategy w ttl v0) (\<lambda>problem. case problem of Some text \<Rightarrow> ret (WriteError 400 text) | None \<Rightarrow>
     bindE (now_of w) (\<lambda>now.
     let v = v0\<lparr>Strategy_ID := strategyID, Strategy_Name := TrimSpace (Strategy_Name v0), Strategy_UpdatedAt := now\<rparr> in
     handleE (sql (UpdateStrategy v)) (\<lambda>err. if errors_Is err ErrNotFound then WriteError 404 ''strategy not found''
         else WriteError 500 ''failed to update strategy'') (\<lambda>_.
     thenE (publish StrategyUpdated (PStrategy v))
     (audited_reply w (audit_event ''strategy_update'' (actor p) ''success'' [(''strategy_id'', JStr strategyID)])
       (WriteJSON 200 v))))))"

definition deleted_strategy :: "string \<Rightarrow> Strategy" where
  "deleted_strategy i = \<lparr>Strategy_ID = i, Strategy_Name = [], Strategy_ScopeType = [], Strategy_ScopeID = [],
     Strategy_Priority = 0, Strategy_Settings = [], Strategy_Enabled = False, Strategy_CreatedAt = zero_time,
     Strategy_UpdatedAt = zero_time, Strategy_Deleted = True\<rparr>"

definition Http_deleteStrategy :: "world \<Rightarrow> Principal \<Rightarrow> string \<Rightarrow> (server, unit reply) prog" where
  "Http_deleteStrategy w p i = bindE (now_of w) (\<lambda>now.
     handleE (sql (DeleteStrategy i now)) (\<lambda>err. if errors_Is err ErrNotFound then WriteError 404 ''strategy not found''
         else WriteError 500 ''failed to delete strategy'') (\<lambda>_.
     thenE (publish StrategyUpdated (PStrategy (deleted_strategy i)))
     (audited_reply w (audit_event ''strategy_delete'' (actor p) ''success'' [(''strategy_id'', JStr i)]) (WriteHeader 204))))"

end
