(* ===== verification/Enforcement.thy ===== *)
theory Enforcement
  imports Strategy_Service
begin

text \<open>
  The state of the authorization cache of the rendezvous server, art-core/src/auth/cache.rs,
  and its policy decision: what the cached copies of the access rules and strategies permit.
  A HashMap is the list of its entries in the order in which it is iterated over.
\<close>

section \<open>State\<close>

text \<open>The text of a timestamp is represented by the instant it denotes, None where it is not an RFC 3339
  date.\<close>

record UserState =
  UserState_id :: string
  UserState_username :: string
  UserState_role :: string
  UserState_enabled :: bool
  UserState_approval_status :: string
  UserState_token_version :: int

record SessionState =
  SessionState_id :: string
  SessionState_user_id :: string
  SessionState_expires_at :: "instant option"
  SessionState_revoked_at :: "instant option"
  SessionState_client_device_id :: string

record UserGroupMembershipState =
  UserGroupMembershipState_group_id :: string
  UserGroupMembershipState_user_id :: string
  UserGroupMembershipState_active :: bool

record DeviceState =
  DeviceState_rustdesk_id :: string
  DeviceState_client_uuid :: string
  DeviceState_public_key :: string
  DeviceState_deployed :: bool
  DeviceState_owner_user_id :: string
  DeviceState_group_id :: string

record AclRuleState =
  AclRuleState_id :: string
  AclRuleState_subject_type :: string
  AclRuleState_subject_id :: string
  AclRuleState_target_type :: string
  AclRuleState_target_id :: string
  AclRuleState_permissions :: "string list"
  AclRuleState_effect :: string
  AclRuleState_enabled :: bool
  AclRuleState_priority :: int
  AclRuleState_deleted :: bool

record StrategyState =
  StrategyState_id :: string
  StrategyState_scope_type :: string
  StrategyState_scope_id :: string
  StrategyState_priority :: int
  StrategyState_settings :: "(string, json) gomap"
  StrategyState_enabled :: bool
  StrategyState_deleted :: bool

record RelayState =
  RelayState_id :: string
  RelayState_hostname :: string
  RelayState_port :: int
  RelayState_region :: string
  RelayState_enabled :: bool
  RelayState_health :: string
  RelayState_latency_ms :: int
  RelayState_connections :: int
  RelayState_deleted :: bool

record CacheState =
  CacheState_require_login :: "bool option"
  CacheState_require_device_deployment :: "bool option"
  CacheState_source_id :: string
  CacheState_revision :: int
  CacheState_users :: "(string, UserState) gomap"
  CacheState_sessions :: "(string, SessionState) gomap"
  CacheState_devices :: "(string, DeviceState) gomap"
  CacheState_acl_rules :: "(string, AclRuleState) gomap"
  CacheState_strategies :: "(string, StrategyState) gomap"
  CacheState_user_groups :: "(string, string list) gomap"
  CacheState_relay_servers :: "(string, RelayState) gomap"

text \<open>CacheState::default.\<close>

definition empty_cache :: CacheState where
  "empty_cache = \<lparr>CacheState_require_login = None, CacheState_require_device_deployment = None, CacheState_source_id = [],
     CacheState_revision = 0, CacheState_users = [], CacheState_sessions = [], CacheState_devices = [],
     CacheState_acl_rules = [], CacheState_strategies = [], CacheState_user_groups = [], CacheState_relay_servers = []\<rparr>"

record AuthDecision =
  AuthDecision_user_id :: string
  AuthDecision_session_id :: string
  AuthDecision_username :: string
  AuthDecision_role :: string
  AuthDecision_controller_device_id :: string

datatype AuthError =
    LoginRequired | InvalidToken | SessionExpired | SessionRevokedError | UserDisabledError | ApprovalPendingError
  | ApprovalRejectedError | ForceReloginError | AccessDenied | StrategyDenied

section \<open>Policies\<close>

definition permission_for :: "int \<Rightarrow> string" where
  "permission_for connection_type =
     (if connection_type = 1 then ''file_transfer'' else if connection_type = 2 \<or> connection_type = 3 then ''tcp_tunnel''
      else if connection_type = 4 then ''camera'' else if connection_type = 5 then ''terminal'' else ''remote_control'')"

definition strategy_permission_for :: "int \<Rightarrow> string" where
  "strategy_permission_for connection_type =
     (if connection_type = 1 then ''allow_file_transfer''
      else if connection_type = 2 \<or> connection_type = 3 then ''allow_tcp_tunnel''
      else if connection_type = 4 then ''allow_camera'' else if connection_type = 5 then ''allow_terminal''
      else ''allow_remote_control'')"

definition strategy_matches :: "StrategyState \<Rightarrow> AuthDecision \<Rightarrow> string \<Rightarrow> string \<Rightarrow> string list \<Rightarrow> bool" where
  "strategy_matches v decision target device_group user_groups =
     (if StrategyState_scope_type v = ''global'' then True
      else if StrategyState_scope_type v = ''user'' then StrategyState_scope_id v = AuthDecision_user_id decision
      else if StrategyState_scope_type v = ''device'' then StrategyState_scope_id v = target
      else if StrategyState_scope_type v = ''device_group'' then device_group \<noteq> [] \<and> StrategyState_scope_id v = device_group
      else if StrategyState_scope_type v = ''user_group'' then StrategyState_scope_id v \<in> set user_groups
      else StrategyState_scope_id v = [])"

definition strategy_specificity :: "StrategyState \<Rightarrow> int" where
  "strategy_specificity v =
     (if StrategyState_scope_type v = ''device'' then 0 else if StrategyState_scope_type v = ''user'' then 1
      else if StrategyState_scope_type v = ''device_group'' then 2
      else if StrategyState_scope_type v = ''user_group'' then 3 else 4)"

definition acl_matching :: "AuthDecision \<Rightarrow> string \<Rightarrow> string \<Rightarrow> string list \<Rightarrow> string \<Rightarrow> AclRuleState \<Rightarrow> bool" where
  "acl_matching decision target device_group user_groups permission rule \<longleftrightarrow>
     (AclRuleState_subject_id rule = [] \<or>
      (AclRuleState_subject_type rule = ''user'' \<and> AclRuleState_subject_id rule = AuthDecision_user_id decision) \<or>
      (AclRuleState_subject_type rule = ''user_group'' \<and> AclRuleState_subject_id rule \<in> set user_groups)) \<and>
     (AclRuleState_target_id rule = [] \<or>
      (AclRuleState_target_type rule = ''device'' \<and> AclRuleState_target_id rule = target) \<or>
      (AclRuleState_target_type rule = ''device_group'' \<and> device_group \<noteq> [] \<and> AclRuleState_target_id rule = device_group)) \<and>
     list_ex (\<lambda>value. value = permission) (AclRuleState_permissions rule)"

definition bool_setting :: "string \<Rightarrow> StrategyState \<Rightarrow> bool option" where
  "bool_setting key v = (case map_get (StrategyState_settings v) key of Some (JBool b) \<Rightarrow> Some b | _ \<Rightarrow> None)"

text \<open>The loop over the strategies: the last one that sets the key decides.\<close>

definition last_setting :: "string \<Rightarrow> StrategyState list \<Rightarrow> bool option" where
  "last_setting key strategies =
     fold (\<lambda>v acc. case bool_setting key v of Some b \<Rightarrow> Some b | None \<Rightarrow> acc) strategies None"

definition authorize_policy :: "CacheState \<Rightarrow> AuthDecision \<Rightarrow> string \<Rightarrow> int \<Rightarrow> AuthError + bool" where
  "authorize_policy state decision target connection_type =
     (let user_groups = (case map_get (CacheState_user_groups state) (AuthDecision_user_id decision) of
            Some groups \<Rightarrow> groups | None \<Rightarrow> []);
          device_group = (case map_get (CacheState_devices state) target of Some d \<Rightarrow> DeviceState_group_id d | None \<Rightarrow> []);
          matching = sort_key (\<lambda>rule. (AclRuleState_priority rule, AclRuleState_effect rule \<noteq> ''deny''))
            (filter (acl_matching decision target device_group user_groups (permission_for connection_type))
              (filter AclRuleState_enabled (map snd (CacheState_acl_rules state))));
          strategies = sort_key (\<lambda>v. (StrategyState_priority v, strategy_specificity v))
            (filter (\<lambda>v. StrategyState_enabled v \<and> strategy_matches v decision target device_group user_groups)
              (map snd (CacheState_strategies state)))
      in if AuthDecision_role decision \<noteq> ''admin'' \<and> CacheState_acl_rules state \<noteq> [] \<and>
            (case matching of rule # _ \<Rightarrow> AclRuleState_effect rule \<noteq> ''allow'' | [] \<Rightarrow> True)
         then Inl AccessDenied
         else if last_setting (strategy_permission_for connection_type) strategies = Some False then Inl StrategyDenied
         else Inr (last_setting ''force_relay'' strategies = Some True))"

section \<open>The encoding of policies\<close>

text \<open>A rule and a strategy as the cache decodes their JSON encoding.\<close>

definition acl_state :: "ACLRule \<Rightarrow> AclRuleState" where
  "acl_state r = \<lparr>AclRuleState_id = ACLRule_ID r, AclRuleState_subject_type = ACLRule_SubjectType r,
     AclRuleState_subject_id = ACLRule_SubjectID r, AclRuleState_target_type = ACLRule_TargetType r,
     AclRuleState_target_id = ACLRule_TargetID r, AclRuleState_permissions = ACLRule_Permissions r,
     AclRuleState_effect = ACLRule_Effect r, AclRuleState_enabled = ACLRule_Enabled r,
     AclRuleState_priority = ACLRule_Priority r, AclRuleState_deleted = ACLRule_Deleted r\<rparr>"

definition strategy_state :: "Strategy \<Rightarrow> StrategyState" where
  "strategy_state v = \<lparr>StrategyState_id = Strategy_ID v, StrategyState_scope_type = Strategy_ScopeType v,
     StrategyState_scope_id = Strategy_ScopeID v, StrategyState_priority = Strategy_Priority v,
     StrategyState_settings = Strategy_Settings v, StrategyState_enabled = Strategy_Enabled v,
     StrategyState_deleted = Strategy_Deleted v\<rparr>"

end
