(* ===== verification/Policy_Props.thy ===== *)
theory Policy_Props
  imports Enforcement Books_Props "HOL-Library.Multiset"
begin

text \<open>
  Policies as the API evaluates them and as the rendezvous server enforces them.
\<close>

section \<open>The winning rule\<close>

text \<open>Rules are compared by priority, a deny before an allow of the same priority.\<close>

definition rule_key :: "ACLRule \<Rightarrow> int \<times> bool" where
  "rule_key r = (ACLRule_Priority r, ACLRule_Effect r \<noteq> ''deny'')"

definition winning :: "ACLRule list \<Rightarrow> ACLRule \<Rightarrow> bool" where
  "winning rules r \<longleftrightarrow> r \<in> set rules \<and> (\<forall>x\<in>set rules. rule_key r \<le> rule_key x)"

definition applicable :: "User \<Rightarrow> string list \<Rightarrow> Device \<Rightarrow> string \<Rightarrow> ACLRule list \<Rightarrow> ACLRule list" where
  "applicable user groups device permission = filter (\<lambda>r. ACLRule_Enabled r \<and> rule_matches user groups device permission r)"

lemma acl_winner_snoc:
  "acl_winner u g d p (rules @ [r]) = acl_step u g d p r (acl_winner u g d p rules)"
  by (simp add: acl_winner_def)

lemma acl_winner_enabled:
  "ACLWinner_enabledCount (acl_winner u g d p rules) = int (length (filter ACLRule_Enabled rules))"
  by (induction rules rule: rev_induct) (simp_all add: acl_winner_snoc acl_step_def Let_def acl_winner_def no_winner_def)

lemma winning_snoc:
  "winning rules r \<Longrightarrow> rule_key r \<le> rule_key x \<Longrightarrow> winning (rules @ [x]) r"
  "winning rules r \<Longrightarrow> rule_key x \<le> rule_key r \<Longrightarrow> winning (rules @ [x]) x"
  by (auto simp: winning_def intro: order_trans)

lemma acl_winner_wins:
  assumes "\<forall>r\<in>set rules. ACLRule_Priority r < 2 ^ 63 - 1"
  shows "if applicable u g d p rules = [] then ACLWinner_winningPriority (acl_winner u g d p rules) = 2 ^ 63 - 1 \<and>
       ACLWinner_winningEffect (acl_winner u g d p rules) = []
     else \<exists>r. winning (applicable u g d p rules) r \<and> ACLWinner_winningPriority (acl_winner u g d p rules) = ACLRule_Priority r \<and>
       ACLWinner_winningEffect (acl_winner u g d p rules) = ACLRule_Effect r"
  using assms
proof (induction rules rule: rev_induct)
  case Nil
  then show ?case by (simp add: acl_winner_def no_winner_def applicable_def)
next
  case (snoc x rules)
  let ?v = "acl_winner u g d p rules" and ?A = "applicable u g d p rules"
  show ?case
  proof (cases "ACLRule_Enabled x \<and> rule_matches u g d p x")
    case False
    then show ?thesis using snoc by (auto simp: acl_winner_snoc acl_step_def Let_def applicable_def)
  next
    case True
    then have A: "applicable u g d p (rules @ [x]) = ?A @ [x]" by (simp add: applicable_def)
    show ?thesis
    proof (cases "?A = []")
      case True
      then show ?thesis using snoc \<open>ACLRule_Enabled x \<and> _\<close> A
        by (auto simp: acl_winner_snoc acl_step_def Let_def winning_def)
    next
      case False
      then obtain r where r: "winning ?A r" "ACLWinner_winningPriority ?v = ACLRule_Priority r"
        "ACLWinner_winningEffect ?v = ACLRule_Effect r" using snoc by auto
      let ?better = "ACLRule_Priority x < ACLRule_Priority r \<or>
        (ACLRule_Priority x = ACLRule_Priority r \<and> ACLRule_Effect x = ''deny'')"
      define w where "w = (if ?better then x else r)"
      have "winning (?A @ [x]) w"
        using winning_snoc [OF r(1), of x] by (auto simp: w_def rule_key_def less_eq_prod_def)
      moreover have "ACLWinner_winningPriority (acl_winner u g d p (rules @ [x])) = ACLRule_Priority w"
          "ACLWinner_winningEffect (acl_winner u g d p (rules @ [x])) = ACLRule_Effect w"
        using r \<open>ACLRule_Enabled x \<and> _\<close> by (simp_all add: acl_winner_snoc acl_step_def Let_def w_def)
      ultimately show ?thesis unfolding A by auto
    qed
  qed
qed

lemma winning_same_effect:
  assumes "winning rules r" "winning rules x" "\<forall>r\<in>set rules. ACLRule_Effect r = ''allow'' \<or> ACLRule_Effect r = ''deny''"
  shows "ACLRule_Effect r = ACLRule_Effect x"
proof -
  have "rule_key r = rule_key x" using assms(1,2) by (intro order_antisym) (simp_all add: winning_def)
  then have "ACLRule_Effect r = ''deny'' \<longleftrightarrow> ACLRule_Effect x = ''deny''" by (simp add: rule_key_def)
  moreover have "ACLRule_Effect r = ''allow'' \<or> ACLRule_Effect r = ''deny''" "ACLRule_Effect x = ''allow'' \<or> ACLRule_Effect x = ''deny''"
    using assms by (simp_all add: winning_def)
  ultimately show ?thesis by argo
qed

section \<open>The cached rules\<close>

lemma hd_sort_key:
  assumes "sort_key k xs = y # ys"
  shows "y \<in> set xs \<and> (\<forall>x\<in>set xs. k y \<le> k x)"
proof -
  have "sorted (map k (y # ys))" using sorted_sort_key [of k xs] assms by simp
  moreover have "set xs = set (y # ys)" using set_sort [of k xs] assms by simp
  ultimately show ?thesis by auto
qed

text \<open>A cache that has the rules, memberships and device groups of the database, in any order.\<close>

definition cached_groups :: "CacheState \<Rightarrow> string \<Rightarrow> string list" where
  "cached_groups c i = (case map_get (CacheState_user_groups c) i of Some groups \<Rightarrow> groups | None \<Rightarrow> [])"

definition cached_device_group :: "CacheState \<Rightarrow> string \<Rightarrow> string" where
  "cached_device_group c i = (case map_get (CacheState_devices c) i of Some d \<Rightarrow> DeviceState_group_id d | None \<Rightarrow> [])"

definition policy_cache :: "CacheState \<Rightarrow> db \<Rightarrow> bool" where
  "policy_cache c d \<longleftrightarrow>
     mset (map snd (CacheState_acl_rules c)) = mset (map (acl_state \<circ> scan_acl) (db_acl_rules d)) \<and>
     (\<forall>i. set (cached_groups c i) =
        user_group_memberships_group_id ` {m \<in> set (db_user_group_memberships d). user_group_memberships_user_id m = i}) \<and>
     (\<forall>r\<in>set (db_devices d). cached_device_group c (devices_rustdesk_id r) = devices_group_id r)"

text \<open>Rules as validateACLRule admits them.\<close>

definition acl_rules_valid :: "db \<Rightarrow> bool" where
  "acl_rules_valid d \<longleftrightarrow> (\<forall>r\<in>set (db_acl_rules d). validACLRule (scan_acl r))"

definition acl_denies :: "CacheState \<Rightarrow> AuthDecision \<Rightarrow> string \<Rightarrow> string \<Rightarrow> bool" where
  "acl_denies c dec target permission \<longleftrightarrow> AuthDecision_role dec \<noteq> ''admin'' \<and> CacheState_acl_rules c \<noteq> [] \<and>
     (case sort_key (\<lambda>rule. (AclRuleState_priority rule, AclRuleState_effect rule \<noteq> ''deny''))
        (filter (acl_matching dec target (cached_device_group c target) (cached_groups c (AuthDecision_user_id dec)) permission)
          (filter AclRuleState_enabled (map snd (CacheState_acl_rules c)))) of
        rule # _ \<Rightarrow> AclRuleState_effect rule \<noteq> ''allow'' | [] \<Rightarrow> True)"

lemma authorize_policy_denies:
  "authorize_policy c dec target ct = Inl AccessDenied \<longleftrightarrow> acl_denies c dec target (permission_for ct)"
  by (simp add: authorize_policy_def acl_denies_def cached_groups_def cached_device_group_def Let_def)

lemma acl_matching_state:
  assumes "AuthDecision_user_id dec = User_ID u" "set groups = set g" "target = Device_RustDeskID d" "dg = Device_GroupID d"
  shows "acl_matching dec target dg groups p (acl_state r) \<longleftrightarrow> rule_matches u g d p r"
  using assms by (simp add: acl_matching_def rule_matches_def subject_matches_def target_matches_def acl_state_def)

text \<open>The first of the sorted cached rules is the state of a winning rule.\<close>

lemma cached_winner:
  assumes cache: "mset (map snd (CacheState_acl_rules c)) = mset (map acl_state rules)"
    and sorted: "sort_key (\<lambda>rule. (AclRuleState_priority rule, AclRuleState_effect rule \<noteq> ''deny''))
      (filter (acl_matching dec target dg groups p) (filter AclRuleState_enabled (map snd (CacheState_acl_rules c)))) = l"
    and same: "AuthDecision_user_id dec = User_ID u" "set groups = set g" "target = Device_RustDeskID d" "dg = Device_GroupID d"
  shows "case l of [] \<Rightarrow> applicable u g d p rules = [] | x # _ \<Rightarrow> \<exists>r. winning (applicable u g d p rules) r \<and> x = acl_state r"
proof -
  let ?k = "\<lambda>rule. (AclRuleState_priority rule, AclRuleState_effect rule \<noteq> ''deny'')"
  let ?xs = "filter (acl_matching dec target dg groups p) (filter AclRuleState_enabled (map snd (CacheState_acl_rules c)))"
  have k: "?k (acl_state r) = rule_key r" for r by (simp add: acl_state_def rule_key_def)
  have enabled: "AclRuleState_enabled (acl_state r) = ACLRule_Enabled r" for r by (simp add: acl_state_def)
  have rules: "set (map snd (CacheState_acl_rules c)) = acl_state ` set rules"
    using arg_cong [OF cache, of set_mset] by simp
  have xs: "set ?xs = acl_state ` set (applicable u g d p rules)"
    unfolding set_filter rules applicable_def using acl_matching_state [OF same, of p] by (auto simp: enabled)
  show ?thesis
  proof (cases l)
    case Nil
    then have "set ?xs = {}" using sorted set_sort [of ?k ?xs] by simp
    then show ?thesis using xs Nil by simp
  next
    case (Cons x l')
    then have x: "x \<in> set ?xs" "\<forall>y\<in>set ?xs. ?k x \<le> ?k y" using hd_sort_key [of ?k ?xs x l'] sorted by auto
    then obtain r where r: "r \<in> set (applicable u g d p rules)" "x = acl_state r" unfolding xs by blast
    have "winning (applicable u g d p rules) r"
      unfolding winning_def using r x(2) [unfolded xs] by (simp add: k [symmetric])
    then show ?thesis using r(2) Cons by auto
  qed
qed

lemma validACLRule_bounds:
  assumes "validACLRule r"
  shows "ACLRule_Priority r < 2 ^ 63 - 1" "ACLRule_Effect r = ''allow'' \<or> ACLRule_Effect r = ''deny''"
  using assms by (simp_all add: validACLRule_def)

lemma acl_denies_exact:
  assumes cache: "mset (map snd (CacheState_acl_rules c)) = mset (map acl_state rules)"
    and valid: "\<forall>r\<in>set rules. validACLRule r"
    and same: "AuthDecision_user_id dec = User_ID u" "set (cached_groups c (AuthDecision_user_id dec)) = set g"
      "target = Device_RustDeskID d" "cached_device_group c target = Device_GroupID d"
  shows "acl_denies c dec target p \<longleftrightarrow> AuthDecision_role dec \<noteq> ''admin'' \<and> rules \<noteq> [] \<and>
    ACLWinner_winningEffect (acl_winner u g d p rules) \<noteq> ''allow''"
proof -
  have empty: "CacheState_acl_rules c = [] \<longleftrightarrow> rules = []" using arg_cong [OF cache, of size] by auto
  have wins: "\<forall>r\<in>set rules. ACLRule_Priority r < 2 ^ 63 - 1" using valid validACLRule_bounds(1) by blast
  have effects: "\<forall>r\<in>set (applicable u g d p rules). ACLRule_Effect r = ''allow'' \<or> ACLRule_Effect r = ''deny''"
    using valid validACLRule_bounds(2) by (auto simp: applicable_def)
  let ?l = "sort_key (\<lambda>rule. (AclRuleState_priority rule, AclRuleState_effect rule \<noteq> ''deny''))
    (filter (acl_matching dec target (cached_device_group c target) (cached_groups c (AuthDecision_user_id dec)) p)
      (filter AclRuleState_enabled (map snd (CacheState_acl_rules c))))"
  have "(case ?l of rule # _ \<Rightarrow> AclRuleState_effect rule \<noteq> ''allow'' | [] \<Rightarrow> True) \<longleftrightarrow>
      ACLWinner_winningEffect (acl_winner u g d p rules) \<noteq> ''allow''"
  proof (cases ?l)
    case Nil
    have "applicable u g d p rules = []" using cached_winner [OF cache Nil same] by simp
    then show ?thesis using acl_winner_wins [OF wins, of u g d p] Nil by simp
  next
    case (Cons x l)
    obtain r where r: "winning (applicable u g d p rules) r" "x = acl_state r"
      using cached_winner [OF cache Cons same] by auto
    then have "applicable u g d p rules \<noteq> []" by (auto simp: winning_def)
    then obtain r' where r': "winning (applicable u g d p rules) r'"
      "ACLWinner_winningEffect (acl_winner u g d p rules) = ACLRule_Effect r'"
      using acl_winner_wins [OF wins, of u g d p] by auto
    have "ACLRule_Effect r = ACLRule_Effect r'" using winning_same_effect [OF r(1) r'(1) effects] .
    then show ?thesis using Cons r(2) r'(2) by (simp add: acl_state_def)
  qed
  then show ?thesis by (simp add: acl_denies_def empty)
qed

section \<open>The evaluation handler\<close>

lemma handleE_JSON:
  "handleE m (\<lambda>e. WriteError n t) k s = (Inr (WriteJSON c v), s') \<longleftrightarrow>
   (\<exists>a s1. m s = (Inr a, s1) \<and> k a s1 = (Inr (WriteJSON c v), s'))"
  by (cases "m s") (auto simp: handleE_run split: sum.split)

text \<open>The groups of a user.\<close>

definition groups_of :: "db \<Rightarrow> string \<Rightarrow> string set" where
  "groups_of d i = user_group_memberships_group_id ` {m \<in> set (db_user_group_memberships d). user_group_memberships_user_id m = i}"

lemma policy_tables_set_faults [simp]:
  "db_acl_rules (set_faults fs d) = db_acl_rules d" "db_devices (set_faults fs d) = db_devices d"
  "db_strategies (set_faults fs d) = db_strategies d" "groups_of (set_faults fs d) i = groups_of d i"
  by (simp_all add: set_faults_def groups_of_def)

lemma evaluateACL_ok:
  assumes "evaluateACL w ttl (Some q) s = (Inr (WriteJSON 200 v), s')"
  obtains ur dr now g where
    "find (\<lambda>r. users_id r = ACLQuery_UserID q) (db_users (srv_db s)) = Some ur"
    "dr \<in> set (db_devices (srv_db s))" "devices_rustdesk_id dr = ACLQuery_TargetID q"
    "set g = groups_of (srv_db s) (users_id ur)"
    "ACLVerdict_Allowed v = acl_allowed (scanUser ur) (acl_winner (scanUser ur) g (scan_device now ttl dr) (ACLQuery_Permission q)
       (map scan_acl (sort_key (\<lambda>r. (acl_rules_priority r, acl_rules_name r)) (db_acl_rules (srv_db s)))))"
proof -
  from assms obtain u s1 devices s3 device rules s4 ms where
      u: "sql (FindUserByID (ACLQuery_UserID q)) s = (Inr u, s1)"
    and devs: "sql (ListDevices (world_clock w (srv_tick s1)) ttl) (s1\<lparr>srv_tick := Suc (srv_tick s1)\<rparr>) = (Inr devices, s3)"
    and dev: "find (\<lambda>d. Device_RustDeskID d = ACLQuery_TargetID q) devices = Some device"
    and rules: "sql ListACLRules s3 = (Inr rules, s4)" and ms: "sql ListUserGroupMemberships s4 = (Inr ms, s')"
    and v: "ACLVerdict_Allowed v = acl_allowed u (acl_winner u (map UserGroupMembership_GroupID
       (filter (\<lambda>m. UserGroupMembership_Active m \<and> UserGroupMembership_UserID m = User_ID u) ms)) device (ACLQuery_Permission q) rules)"
    by (auto simp: evaluateACL_def handleE_JSON draw_Inr_iff bindE_Inr_iff Let_def split: if_splits option.splits)
  from u obtain ur where ur: "find (\<lambda>r. users_id r = ACLQuery_UserID q) (db_users (srv_db s)) = Some ur" "u = scanUser ur"
    and st: "same_tables (srv_db s) (srv_db s1)" by (auto simp: sql_Inr_iff dest!: FindUserByID_ok)
  from same_tablesE [OF st] obtain fs0 where s1: "srv_db s1 = set_faults fs0 (srv_db s)" by metis
  from devs s1 obtain fs where s3: "srv_db s3 = set_faults fs (srv_db s)"
    and ds: "set devices = scan_device (world_clock w (srv_tick s1)) ttl ` set (db_devices (srv_db s))"
    by (auto simp: sql_Inr_iff ListDevices_def order_desc_def elim!: query_okE)
  from rules s3 obtain fs' where s4: "srv_db s4 = set_faults fs' (srv_db s)"
    and rs: "rules = map scan_acl (sort_key (\<lambda>r. (acl_rules_priority r, acl_rules_name r)) (db_acl_rules (srv_db s)))"
    by (auto simp: sql_Inr_iff ListACLRules_def elim!: query_okE)
  from ms s4 have g: "set (map UserGroupMembership_GroupID
      (filter (\<lambda>m. UserGroupMembership_Active m \<and> UserGroupMembership_UserID m = User_ID u) ms)) = groups_of (srv_db s) (users_id ur)"
    by (force simp: sql_Inr_iff ListUserGroupMemberships_def groups_of_def ur(2) scanUser_def elim!: query_okE)
  from find_Some_in [OF dev] ds obtain dr where dr: "dr \<in> set (db_devices (srv_db s))"
    "device = scan_device (world_clock w (srv_tick s1)) ttl dr" "Device_RustDeskID device = ACLQuery_TargetID q" by auto
  show thesis
    by (rule that [OF ur(1) dr(1) _ g]) (use dr v ur(2) rs in \<open>simp_all add: scan_device_def\<close>)
qed

text \<open>C35: The console predicts what is enforced.  When the evaluation handler answers for a
  user who may connect, with rules as the handlers admit them, the rendezvous server, whose
  cache has the same rules, memberships and device groups in whatever order, denies access for
  a connection of that permission exactly when the answer is that it is not allowed, with one
  exception: where rules exist and all are disabled, the handler allows everybody and the
  server denies everybody but administrators.\<close>

theorem acl_simulation_exact:
  assumes cache: "policy_cache c (srv_db s)" and valid: "acl_rules_valid (srv_db s)"
    and run: "evaluateACL w ttl (Some q) s = (Inr (WriteJSON 200 v), s')"
    and user: "find (\<lambda>r. users_id r = ACLQuery_UserID q) (db_users (srv_db s)) = Some u" "users_enabled u"
      "users_approval_status u = ApprovalApproved"
    and dec: "AuthDecision_user_id dec = users_id u" "AuthDecision_role dec = users_role u"
    and perm: "ACLQuery_Permission q = permission_for ct"
  shows "authorize_policy c dec (ACLQuery_TargetID q) ct = Inl AccessDenied \<longleftrightarrow> \<not> ACLVerdict_Allowed v \<or>
    (users_role u \<noteq> RoleAdmin \<and> db_acl_rules (srv_db s) \<noteq> [] \<and> (\<forall>r\<in>set (db_acl_rules (srv_db s)). \<not> acl_rules_enabled r))"
proof -
  let ?d = "srv_db s"
  let ?rules = "map scan_acl (sort_key (\<lambda>r. (acl_rules_priority r, acl_rules_name r)) (db_acl_rules ?d))"
  obtain dr now g where dr: "dr \<in> set (db_devices ?d)" "devices_rustdesk_id dr = ACLQuery_TargetID q"
    and g: "set g = groups_of ?d (users_id u)"
    and v: "ACLVerdict_Allowed v = acl_allowed (scanUser u)
      (acl_winner (scanUser u) g (scan_device now ttl dr) (ACLQuery_Permission q) ?rules)"
    by (rule evaluateACL_ok [OF run]) (use user(1) in auto)
  let ?w = "acl_winner (scanUser u) g (scan_device now ttl dr) (permission_for ct) ?rules"
  have "mset (map snd (CacheState_acl_rules c)) = mset (map acl_state ?rules)"
    using cache by (simp add: policy_cache_def image_mset.compositionality comp_def)
  moreover have "\<forall>r\<in>set ?rules. validACLRule r" using valid by (simp add: acl_rules_valid_def)
  moreover have "AuthDecision_user_id dec = User_ID (scanUser u)" "ACLQuery_TargetID q = Device_RustDeskID (scan_device now ttl dr)"
    "set (cached_groups c (AuthDecision_user_id dec)) = set g"
    "cached_device_group c (ACLQuery_TargetID q) = Device_GroupID (scan_device now ttl dr)"
    using cache dec(1) dr g by (auto simp: policy_cache_def scanUser_def scan_device_def groups_of_def)
  ultimately have denies: "acl_denies c dec (ACLQuery_TargetID q) (permission_for ct) \<longleftrightarrow>
      AuthDecision_role dec \<noteq> ''admin'' \<and> ?rules \<noteq> [] \<and> ACLWinner_winningEffect ?w \<noteq> ''allow''"
    by (intro acl_denies_exact)
  have none: "ACLWinner_enabledCount ?w = 0 \<longleftrightarrow> (\<forall>r\<in>set (db_acl_rules ?d). \<not> acl_rules_enabled r)"
    by (simp add: acl_winner_enabled filter_empty_conv scan_acl_def)
  have "applicable (scanUser u) g (scan_device now ttl dr) (permission_for ct) ?rules = []" if "ACLWinner_enabledCount ?w = 0"
    using that by (auto simp: none applicable_def scan_acl_def)
  moreover have "\<forall>r\<in>set ?rules. ACLRule_Priority r < 2 ^ 63 - 1"
    using valid validACLRule_bounds(1) by (auto simp: acl_rules_valid_def)
  ultimately have "ACLWinner_winningEffect ?w \<noteq> ''allow''" if "ACLWinner_enabledCount ?w = 0"
    using that acl_winner_wins [of ?rules "scanUser u" g "scan_device now ttl dr" "permission_for ct"] by simp
  moreover have "acl_allowed (scanUser u) ?w \<longleftrightarrow>
      users_role u = RoleAdmin \<or> ACLWinner_enabledCount ?w = 0 \<or> ACLWinner_winningEffect ?w = ''allow''"
    using user(2,3) by (simp add: acl_allowed_def scanUser_def)
  moreover have "?rules = [] \<longleftrightarrow> db_acl_rules ?d = []" by (simp only: length_0_conv [symmetric] length_map length_sort)
  moreover have "db_acl_rules ?d = [] \<Longrightarrow> ACLWinner_enabledCount ?w = 0" unfolding none by simp
  ultimately show ?thesis
    unfolding authorize_policy_denies denies v perm dec(2) none [symmetric] by blast
qed

text \<open>A rule that denies Bob remote control of device d1, beside one that allows everything.\<close>

definition example_rule :: "string \<Rightarrow> string \<Rightarrow> string \<Rightarrow> acl_rules_row" where
  "example_rule i subject effect = \<lparr>acl_rules_id = i, acl_rules_name = ''rule'', acl_rules_subject_type = ''user'',
     acl_rules_subject_id = subject, acl_rules_target_type = ''device'', acl_rules_target_id = [],
     acl_rules_permissions = [''remote_control''], acl_rules_effect = effect, acl_rules_enabled = True,
     acl_rules_priority = 100, acl_rules_created_at = 0, acl_rules_updated_at = 0\<rparr>"

definition policy_example :: server where
  "policy_example = example_server\<lparr>srv_db := accounts_example\<lparr>
     db_devices := [device_row_of (example_device ''7'' ''u'' True)],
     db_acl_rules := [example_rule ''r1'' [] ''allow'', example_rule ''r2'' ''u2'' ''deny'']\<rparr>\<rparr>"

definition cache_example :: CacheState where
  "cache_example = empty_cache\<lparr>CacheState_acl_rules :=
     [(''r2'', acl_state (scan_acl (example_rule ''r2'' ''u2'' ''deny''))),
      (''r1'', acl_state (scan_acl (example_rule ''r1'' [] ''allow'')))],
     CacheState_user_groups := [(''u2'', [ApprovedUsersGroupID])]\<rparr>"

definition decision_example :: AuthDecision where
  "decision_example = \<lparr>AuthDecision_user_id = ''u2'', AuthDecision_session_id = ''s2'', AuthDecision_username = ''bob'',
     AuthDecision_role = RoleUser, AuthDecision_controller_device_id = []\<rparr>"

lemmas policy_example_defs = policy_example_def example_rule_def example_server_def accounts_example_defs

theorem acl_simulation_exact_witness:
  "\<exists>v s'. evaluateACL (example_world example_claims) 0 (Some \<lparr>ACLQuery_UserID = ''u2'', ACLQuery_TargetID = ''7'',
     ACLQuery_Permission = ''remote_control''\<rparr>) policy_example = (Inr (WriteJSON 200 v), s') \<and>
     authorize_policy cache_example decision_example ''7'' 0 = Inl AccessDenied \<and> \<not> ACLVerdict_Allowed v"
proof -
  let ?q = "\<lparr>ACLQuery_UserID = ''u2'', ACLQuery_TargetID = ''7'', ACLQuery_Permission = ''remote_control''\<rparr>"
  have "policy_cache cache_example (srv_db policy_example)"
    by (auto simp: policy_cache_def cache_example_def empty_cache_def policy_example_defs cached_groups_def cached_device_group_def
        map_get_def member_row_def device_row_of_def example_device_def add_mset_commute)
  moreover have "acl_rules_valid (srv_db policy_example)"
    by (simp add: acl_rules_valid_def validACLRule_def scan_acl_def policy_example_defs aclPermissions_def TrimSpace_plain
        plain_char_def byte_def)
  moreover obtain v s' where run: "evaluateACL (example_world example_claims) 0 (Some ?q) policy_example = (Inr (WriteJSON 200 v), s')"
    by (simp add: evaluateACL_def handleE_run sql_run draw_run bindE_run FindUserByID_def find_row_run ListDevices_def ListACLRules_def
        ListUserGroupMemberships_def statement_run order_desc_def policy_example_defs aclPermissions_def device_row_of_def
        example_device_def scan_device_def Let_def)
  moreover have "find (\<lambda>r. users_id r = ACLQuery_UserID ?q) (db_users (srv_db policy_example)) =
      Some (example_user ''u2'' ''bob'' RoleUser)" by (simp add: policy_example_defs)
  ultimately have "authorize_policy cache_example decision_example ''7'' 0 = Inl AccessDenied \<longleftrightarrow> \<not> ACLVerdict_Allowed v"
    using acl_simulation_exact [of cache_example policy_example "example_world example_claims" 0 ?q v s'
        "example_user ''u2'' ''bob'' RoleUser" decision_example 0]
    by (simp add: permission_for_def decision_example_def policy_example_defs)
  moreover have "authorize_policy cache_example decision_example ''7'' 0 = Inl AccessDenied"
    by (simp add: authorize_policy_def Let_def cache_example_def empty_cache_def decision_example_def map_get_def acl_matching_def acl_state_def
        scan_acl_def example_rule_def permission_for_def)
  ultimately show ?thesis using run by blast
qed

end
