(* ===== verification/Strategy_Props.thy ===== *)
theory Strategy_Props
  imports Policy_Props
begin

text \<open>
  Strategies: which value is effective, its type, and where the rendezvous server differs.
\<close>

section \<open>Precedence\<close>

abbreviation active_strategy :: "Device \<Rightarrow> string list \<Rightarrow> Strategy \<Rightarrow> bool" where
  "active_strategy device groups v \<equiv> strategy_in_scope v device groups \<and> Strategy_Enabled v \<and> \<not> Strategy_Deleted v"

lemma get_put_all:
  assumes "map_ok kvs"
  shows "map_get (fold (\<lambda>(k, v). map_put k v) kvs m) x = (case map_get kvs x of Some v \<Rightarrow> Some v | None \<Rightarrow> map_get m x)"
  using assms
proof (induction kvs arbitrary: m)
  case (Cons kv kvs)
  obtain k v where kv: "kv = (k, v)" by (cases kv)
  have "map_get kvs k = None" "map_ok kvs" using Cons.prems by (auto simp: map_ok_def map_get_def kv map_of_eq_None_iff)
  moreover have "map_get ((k, v) # kvs) x = (if x = k then Some v else map_get kvs x)" by (simp add: map_get_def)
  ultimately show ?case using Cons.IH [of "map_put k v m"] by (auto simp: kv map_get_put split: option.splits)
qed (simp add: map_get_def)

lemma merged_settings:
  assumes "\<forall>v\<in>set vs. map_ok (Strategy_Settings v)"
  shows "map_get (StrategyResult_EffectiveSettings (fold (merge_strategy fmtG) vs r)) k =
    (case find (\<lambda>v. map_get (Strategy_Settings v) k \<noteq> None) (rev vs) of
       Some v \<Rightarrow> map_get (Strategy_Settings v) k | None \<Rightarrow> map_get (StrategyResult_EffectiveSettings r) k)"
  using assms
proof (induction vs rule: rev_induct)
  case (snoc v vs)
  then show ?case by (auto simp: merge_strategy_def get_put_all split: option.splits)
qed simp

lemma noted_settings:
  "StrategyResult_EffectiveSettings (fold (note_strategy fmtG) vs r) = StrategyResult_EffectiveSettings r"
  by (induction vs arbitrary: r) (simp_all add: note_strategy_def)

lemma find_rev_sort_key:
  assumes "find P (rev (sort_key f xs)) = Some v"
  shows "v \<in> set xs \<and> P v \<and> (\<forall>u\<in>set xs. P u \<longrightarrow> f u \<le> f v)"
proof -
  obtain i where i: "i < length xs" "P (rev (sort_key f xs) ! i)" "v = rev (sort_key f xs) ! i"
      "\<forall>j<i. \<not> P (rev (sort_key f xs) ! j)"
    using assms by (auto simp: find_Some_iff)
  have "f u \<le> f v" if "u \<in> set xs" "P u" for u
  proof -
    from that(1) obtain j where j: "j < length xs" "u = rev (sort_key f xs) ! j"
      by (metis in_set_conv_nth length_rev length_sort set_rev set_sort)
    with that(2) i(4) have "i \<le> j" by (meson not_le_imp_less)
    then show ?thesis
      using i j sorted_nth_mono [OF sorted_sort_key [of f xs], of "length xs - Suc j" "length xs - Suc i"]
      by (simp add: rev_nth)
  qed
  then show ?thesis using i by (metis length_rev length_sort nth_mem set_rev set_sort)
qed

text \<open>C36: Which strategy decides.  The effective value of a setting is that of a strategy in scope,
  enabled and not deleted, that sets it, and no other such strategy has a higher priority, or
  the same priority and a more specific scope, or both the same and a later update; a setting
  is absent exactly when no such strategy sets it.\<close>

theorem strategy_precedence:
  assumes "\<forall>v\<in>set values. map_ok (Strategy_Settings v)"
  shows "case map_get (StrategyResult_EffectiveSettings (Resolve fmtG values device groups)) k of
      None \<Rightarrow> \<forall>v\<in>set values. active_strategy device groups v \<longrightarrow> map_get (Strategy_Settings v) k = None
    | Some raw \<Rightarrow> \<exists>v\<in>set values. active_strategy device groups v \<and> map_get (Strategy_Settings v) k = Some raw \<and>
        (\<forall>u\<in>set values. active_strategy device groups u \<and> map_get (Strategy_Settings u) k \<noteq> None \<longrightarrow>
           strategy_rank u \<le> strategy_rank v)"
proof -
  let ?A = "filter (\<lambda>v. Strategy_Enabled v \<and> \<not> Strategy_Deleted v) (filter (\<lambda>v. strategy_in_scope v device groups) values)"
  let ?P = "\<lambda>v. map_get (Strategy_Settings v) k \<noteq> None"
  have "\<forall>v\<in>set (sort_key strategy_rank ?A). map_ok (Strategy_Settings v)" using assms by simp
  from merged_settings [OF this]
  have eff: "map_get (StrategyResult_EffectiveSettings (Resolve fmtG values device groups)) k =
      (case find ?P (rev (sort_key strategy_rank ?A)) of Some v \<Rightarrow> map_get (Strategy_Settings v) k | None \<Rightarrow> None)"
    unfolding Resolve_def Let_def noted_settings by (simp only: StrategyResult.simps noted_settings map_get_Nil)
  show ?thesis
  proof (cases "find ?P (rev (sort_key strategy_rank ?A))")
    case None
    then have "\<forall>v\<in>set ?A. \<not> ?P v" unfolding find_None_iff set_rev set_sort by blast
    then have "\<forall>v\<in>set values. active_strategy device groups v \<longrightarrow> map_get (Strategy_Settings v) k = None"
      unfolding set_filter by blast
    then show ?thesis unfolding eff None by simp
  next
    case (Some v)
    from find_rev_sort_key [OF this] obtain raw where raw: "map_get (Strategy_Settings v) k = Some raw"
      and v: "v \<in> set ?A" "\<forall>u\<in>set ?A. ?P u \<longrightarrow> strategy_rank u \<le> strategy_rank v" by blast
    show ?thesis unfolding eff Some option.case raw
      using v raw unfolding set_filter by (intro bexI [of _ v] conjI) blast+
  qed
qed

definition example_strategy :: "string \<Rightarrow> string \<Rightarrow> string \<Rightarrow> bool \<Rightarrow> Strategy" where
  "example_strategy i scope target allow = \<lparr>Strategy_ID = i, Strategy_Name = ''policy'', Strategy_ScopeType = scope,
     Strategy_ScopeID = target, Strategy_Priority = 100, Strategy_Settings = [(''allow_remote_control'', JBool allow)],
     Strategy_Enabled = True, Strategy_CreatedAt = 0, Strategy_UpdatedAt = 0, Strategy_Deleted = False\<rparr>"

theorem strategy_precedence_witness:
  "map_get (StrategyResult_EffectiveSettings (Resolve (\<lambda>_. ''0'')
     [example_strategy ''a'' ''device'' ''7'' False, example_strategy ''b'' ''global'' [] True]
     (example_device ''7'' ''u'' True) [])) ''allow_remote_control'' = Some (JBool False)"
proof -
  let ?vs = "[example_strategy ''a'' ''device'' ''7'' False, example_strategy ''b'' ''global'' [] True]"
  let ?d = "example_device ''7'' ''u'' True"
  have "\<forall>v\<in>set ?vs. map_ok (Strategy_Settings v)" by (simp add: example_strategy_def map_ok_def)
  from strategy_precedence [OF this, where fmtG = "\<lambda>_. ''0''" and device = ?d and groups = "[]" and k = "''allow_remote_control''"]
  show ?thesis
    by (simp add: example_strategy_def example_device_def strategy_in_scope_def map_get_def strategy_rank_def specificity_def
        split: option.splits)
qed

section \<open>The rendezvous server\<close>

text \<open>At equal priority the server lets the most general scope decide, not the most specific one: it
  permits the remote control of a device that the strategy of the device forbids and the global
  strategy allows, where the service resolves the setting to false.\<close>

lemma enforcement_prefers_global:
  "authorize_policy (empty_cache\<lparr>CacheState_strategies :=
     [(''a'', strategy_state (example_strategy ''a'' ''device'' ''7'' False)),
      (''b'', strategy_state (example_strategy ''b'' ''global'' [] True))]\<rparr>)
     decision_example ''7'' 0 = Inr False"
  by (simp add: authorize_policy_def empty_cache_def strategy_state_def example_strategy_def decision_example_def map_get_def
      strategy_matches_def strategy_specificity_def strategy_permission_for_def last_setting_def bool_setting_def)

section \<open>Types\<close>

text \<open>The type that a setting has: its kind, or for a setting of the client one of the scalar types.\<close>

definition well_typed :: "string \<Rightarrow> json \<Rightarrow> bool" where
  "well_typed key raw \<longleftrightarrow> (case map_get setting_kinds key of
       Some kind \<Rightarrow> if kind = ''boolean'' then (\<exists>b. raw = JBool b) else (\<exists>t. raw = JStr t \<and> length t \<le> 2048)
     | None \<Rightarrow> HasPrefix key ''rustdesk.'' \<and> ((\<exists>b. raw = JBool b) \<or> (\<exists>x. raw = JNum x) \<or> (\<exists>t. raw = JStr t \<and> length t \<le> 2048)))"

definition strategies_typed :: "db \<Rightarrow> bool" where
  "strategies_typed d \<longleftrightarrow> (\<forall>r\<in>set (db_strategies d). \<forall>(key, raw)\<in>set (strategies_settings r). well_typed key raw)"

definition keeps_typed :: "db \<Rightarrow> db \<Rightarrow> bool" where
  "keeps_typed d d' \<longleftrightarrow> (strategies_typed d \<longrightarrow> strategies_typed d')"

interpretation tyd: db_rel keeps_typed
  by unfold_locales (auto simp: keeps_typed_def strategies_typed_def)

interpretation tys: server_rel keeps_typed
  by unfold_locales

lemma setting_error_typed: "setting_error key raw = None \<Longrightarrow> well_typed key raw"
  by (auto simp: setting_error_def well_typed_def split: option.splits json.splits if_splits)

lemma ValidateSettings_typed: "ValidateSettings settings = None \<Longrightarrow> (key, raw) \<in> set settings \<Longrightarrow> well_typed key raw"
  by (rule setting_error_typed) (auto simp: ValidateSettings_def map_filter_def filter_empty_conv split: if_splits list.splits)

lemma typed_same: "db_strategies d' = db_strategies d \<Longrightarrow> keeps_typed d d'"
  by (simp add: keeps_typed_def strategies_typed_def)

lemma typed_strategies:
  assumes "\<And>r. r \<in> set (db_strategies d') \<Longrightarrow> (\<exists>x\<in>set (db_strategies d). strategies_settings x = strategies_settings r) \<or>
    (\<forall>(key, raw)\<in>set (strategies_settings r). well_typed key raw)"
  shows "keeps_typed d d'"
  using assms unfolding keeps_typed_def strategies_typed_def by metis

lemma strategy_statements_typed:
  assumes "ValidateSettings (Strategy_Settings v) = None"
  shows "steps keeps_typed (CreateStrategy v)" "steps keeps_typed (UpdateStrategy v)"
proof -
  have "\<forall>(key, raw)\<in>set (Strategy_Settings v). well_typed key raw" using ValidateSettings_typed [OF assms] by blast
  then show "steps keeps_typed (CreateStrategy v)" "steps keeps_typed (UpdateStrategy v)"
    unfolding CreateStrategy_def UpdateStrategy_def
    by (intro tyd.db_intros typed_strategies; auto simp: strategy_row_of_def upd_where_def)+
qed

lemma DeleteStrategy_typed: "steps keeps_typed (DeleteStrategy i now)"
  unfolding DeleteStrategy_def by (intro tyd.db_intros typed_strategies) (auto simp: upd_where_def)

lemma Record_typed: "steps (on_db keeps_typed) (Record w event)"
  by (rule steps_mono [OF audited_Record]) (auto simp: on_db_def intro!: typed_same elim: audited_same)

lemma typed_query: "steps same_tables m \<Longrightarrow> steps keeps_typed m"
  by (erule steps_mono) (metis tyd.rel_faults same_tablesE)

lemma policy_queries:
  "steps same_tables (FindUserByID i)" "steps same_tables (FindGroupByID i)" "steps same_tables (ListDevices now ttl)"
  "steps same_tables ListStrategies" "steps same_tables ListUserGroupMemberships"
  unfolding FindUserByID_def FindGroupByID_def ListDevices_def ListStrategies_def ListUserGroupMemberships_def
  by (intro stb.basic_intros)+

lemma validateStrategy_typed: "steps (on_db keeps_typed) (validateStrategy w ttl v)"
  unfolding validateStrategy_def user_exists_def group_exists_def device_exists_def
  by (intro tys.handler_intros tys.steps_sql policy_queries [THEN typed_query])

lemma validateStrategy_valid: "validateStrategy w ttl v s = (Inr None, s') \<Longrightarrow> ValidateSettings (Strategy_Settings v) = None"
  by (auto simp: validateStrategy_def validStrategy_def split: if_splits)

lemma validated:
  assumes "ValidateSettings (Strategy_Settings v) = None \<Longrightarrow> steps (on_db keeps_typed) m"
  shows "steps (on_db keeps_typed) (bindE (validateStrategy w ttl v)
    (\<lambda>problem. case problem of Some text \<Rightarrow> ret (WriteError 400 text) | None \<Rightarrow> m))"
  by (rule tys.steps_post(1) [where P = "\<lambda>problem. problem = None \<longrightarrow> ValidateSettings (Strategy_Settings v) = None"])
    (auto intro: validateStrategy_typed validateStrategy_valid intro!: tys.handler_intros assms)

lemma strategy_handlers_typed:
  "steps (on_db keeps_typed) (createStrategy w ttl p body)" "steps (on_db keeps_typed) (updateStrategy w ttl p i body)"
  "steps (on_db keeps_typed) (Http_deleteStrategy w p i)"
  unfolding createStrategy_def updateStrategy_def Http_deleteStrategy_def audited_reply_def
  by (intro validated tys.handler_intros tys.steps_sql strategy_statements_typed DeleteStrategy_typed Record_typed; simp)+

text \<open>The calls of a principal on the strategies.\<close>

inductive strategy_call :: "world \<Rightarrow> duration \<Rightarrow> server \<Rightarrow> server \<Rightarrow> bool" for w ttl where
  "strategy_call w ttl s (snd (createStrategy w ttl p body s))"
| "strategy_call w ttl s (snd (updateStrategy w ttl p i body s))"
| "strategy_call w ttl s (snd (Http_deleteStrategy w p i s))"

lemma strategy_calls_typed:
  assumes "(strategy_call w ttl)\<^sup>*\<^sup>* s s'" "strategies_typed (srv_db s)"
  shows "strategies_typed (srv_db s')"
  using assms
proof (induction rule: rtranclp_induct)
  case (step y z)
  from step(2) have "keeps_typed (srv_db y) (srv_db z)"
    by cases (use strategy_handlers_typed [unfolded steps_def on_db_def] in blast)+
  then show ?case using step by (simp add: keeps_typed_def)
qed

lemma clientOption_bound:
  assumes "\<And>x. length (fmtG x) \<le> 2048" and "clientOption fmtG key raw = Some (option, value)"
  shows "length value \<le> 2048"
  using assms(2)
  by (auto simp: clientOption_def stringOption_def yn_def Let_def assms(1) split: option.splits json.splits if_splits)

text \<open>What every entry of a result has.\<close>

definition short_option :: "string \<times> string \<Rightarrow> bool" where
  "short_option x \<longleftrightarrow> length (snd x) \<le> 2048"

definition typed_setting :: "string \<times> json \<Rightarrow> bool" where
  "typed_setting x \<longleftrightarrow> well_typed (fst x) (snd x)"

definition result_ok :: "StrategyResult \<Rightarrow> bool" where
  "result_ok r \<longleftrightarrow> (\<forall>x\<in>set (StrategyResult_EffectiveSettings r). typed_setting x) \<and>
     (\<forall>x\<in>set (StrategyResult_ConfigOptions r). short_option x)"

lemma put_all:
  assumes "\<forall>x\<in>set m. Q x" and "\<And>x m. x \<in> set kvs \<Longrightarrow> \<forall>y\<in>set m. Q y \<Longrightarrow> \<forall>y\<in>set (f x m). Q y"
  shows "\<forall>y\<in>set (fold f kvs m). Q y"
  using assms
proof (induction kvs arbitrary: m)
  case (Cons x kvs)
  have "\<forall>y\<in>set (f x m). Q y" by (rule Cons.prems(2)) (use Cons.prems(1) in simp_all)
  then have "\<forall>y\<in>set (fold f kvs (f x m)). Q y" by (rule Cons.IH) (rule Cons.prems(2); simp)
  then show ?case by simp
qed simp

lemma put_one: "\<forall>y\<in>set m. Q y \<Longrightarrow> Q (k, v) \<Longrightarrow> \<forall>y\<in>set (map_put k v m). Q y"
  using map_put_subset [of k v m] by blast

lemma option_short:
  assumes "\<forall>x\<in>set m. short_option x"
  shows "\<forall>x\<in>set (reset_option fmtG kv m). short_option x"
    and "(\<And>x. length (fmtG x) \<le> 2048) \<Longrightarrow> \<forall>x\<in>set (put_option fmtG kv m). short_option x"
proof -
  obtain k v where kv: "kv = (k, v)" by (cases kv)
  show "\<forall>x\<in>set (reset_option fmtG kv m). short_option x"
  proof (cases "clientOption fmtG k v")
    case (Some ov)
    obtain x y where "ov = (x, y)" by (cases ov)
    then show ?thesis using Some put_one [OF assms, of x "[]"] by (simp add: kv reset_option_def short_option_def)
  qed (use assms in \<open>simp add: kv reset_option_def\<close>)
  assume fmtG: "\<And>x. length (fmtG x) \<le> 2048"
  show "\<forall>x\<in>set (put_option fmtG kv m). short_option x"
  proof (cases "clientOption fmtG k v")
    case (Some ov)
    obtain x y where "ov = (x, y)" by (cases ov)
    then show ?thesis using Some fmtG clientOption_bound [of fmtG k v x y] put_one [OF assms, of x y]
      by (simp add: kv put_option_def short_option_def)
  qed (use assms in \<open>simp add: kv put_option_def\<close>)
qed

lemma note_strategy_ok:
  assumes "result_ok r"
  shows "result_ok (note_strategy fmtG v r)"
proof -
  have "\<forall>x\<in>set (fold (reset_option fmtG) (Strategy_Settings v) (StrategyResult_ConfigOptions r)). short_option x"
    by (rule put_all) (use assms option_short(1) in \<open>auto simp: result_ok_def\<close>)
  then show ?thesis using assms by (simp add: result_ok_def note_strategy_def)
qed

lemma merge_strategy_ok:
  assumes "result_ok r" "\<And>x. length (fmtG x) \<le> 2048" "\<forall>x\<in>set (Strategy_Settings v). typed_setting x"
  shows "result_ok (merge_strategy fmtG v r)"
proof -
  have "\<forall>x\<in>set (fold (put_option fmtG) (Strategy_Settings v) (StrategyResult_ConfigOptions r)). short_option x"
    by (rule put_all) (use assms(1) in \<open>simp add: result_ok_def\<close>, erule option_short(2) [OF _ assms(2)])
  moreover have "\<forall>x\<in>set (fold (\<lambda>(key, raw). map_put key raw) (Strategy_Settings v) (StrategyResult_EffectiveSettings r)). typed_setting x"
  proof (rule put_all)
    fix x and m :: "(string, json) gomap"
    assume "x \<in> set (Strategy_Settings v)" "\<forall>x\<in>set m. typed_setting x"
    then show "\<forall>y\<in>set ((case x of (key, raw) \<Rightarrow> map_put key raw) m). typed_setting y"
      unfolding case_prod_beta by (intro put_one) (use assms(3) in simp_all)
  qed (use assms(1) in \<open>simp add: result_ok_def\<close>)
  ultimately show ?thesis by (simp add: result_ok_def merge_strategy_def)
qed

lemma Resolve_ok:
  assumes "\<forall>x. length (fmtG x) \<le> 2048" "\<forall>v\<in>set values. \<forall>x\<in>set (Strategy_Settings v). typed_setting x"
  shows "result_ok (Resolve fmtG values device groups)"
proof -
  have note_all: "result_ok (fold (note_strategy fmtG) vs r)" if "result_ok r" for vs r
    using that by (induction vs arbitrary: r) (simp_all add: note_strategy_ok)
  have merge_all: "result_ok (fold (merge_strategy fmtG) vs r)" if "result_ok r" "set vs \<subseteq> set values" for vs r
    using that
  proof (induction vs arbitrary: r)
    case (Cons v vs)
    then have "result_ok (merge_strategy fmtG v r)" using assms by (intro merge_strategy_ok) auto
    then show ?case using Cons by simp
  qed simp
  show ?thesis unfolding Resolve_def Let_def by (rule merge_all, rule note_all) (auto simp: result_ok_def)
qed

text \<open>C37: Effective settings are well-typed.  Whatever sequence of requests creates, updates and
  deletes strategies, the settings that EffectiveForDevice returns have the types of their
  definitions, boolean or a text of at most 2048 bytes, or are scalars of the client's own, and
  no option sent to a client is longer than 2048 bytes, the texts of numbers being shorter.\<close>

theorem effective_settings_typed:
  assumes "strategies_typed (srv_db s)" and "(strategy_call w ttl)\<^sup>*\<^sup>* s s'"
    and "EffectiveForDevice fmtG device s' = (Inr r, s'')" and "\<forall>x. length (fmtG x) \<le> 2048"
  shows "(\<forall>x\<in>set (StrategyResult_EffectiveSettings r). well_typed (fst x) (snd x)) \<and>
    (\<forall>x\<in>set (StrategyResult_ConfigOptions r). length (snd x) \<le> 2048)"
proof -
  have typed: "strategies_typed (srv_db s')" by (rule strategy_calls_typed [OF assms(2,1)])
  from assms(3) obtain vs s1 ms s2 where vs: "sql ListStrategies s' = (Inr vs, s1)"
    and "sql ListUserGroupMemberships s1 = (Inr ms, s2)"
    and r: "ret (Resolve fmtG vs device (map UserGroupMembership_GroupID (filter (\<lambda>m. UserGroupMembership_Active m \<and>
      UserGroupMembership_UserID m = Device_OwnerUserID device) ms))) s2 = (Inr r, s'')"
    unfolding EffectiveForDevice_def bindE_Inr_iff by blast
  from vs have vs: "set vs = scan_strategy ` set (db_strategies (srv_db s'))"
    by (auto simp: sql_Inr_iff ListStrategies_def elim!: query_okE)
  have "\<forall>v\<in>set vs. \<forall>x\<in>set (Strategy_Settings v). typed_setting x"
    using typed unfolding vs by (simp add: strategies_typed_def typed_setting_def scan_strategy_def case_prod_beta)
  from Resolve_ok [OF assms(4) this] r
  show ?thesis by (auto simp: result_ok_def typed_setting_def short_option_def)
qed

definition strategy_server :: server where
  "strategy_server = example_server\<lparr>srv_db := accounts_example\<lparr>
     db_strategies := [strategy_row_of (example_strategy ''b'' ''global'' [] True)]\<rparr>\<rparr>"

theorem effective_settings_typed_witness:
  "\<exists>r s''. EffectiveForDevice (\<lambda>_. ''0'') (example_device ''7'' ''u'' True)
     (snd (Http_deleteStrategy (example_world example_claims) (example_principal ''u1'') ''x'' strategy_server)) = (Inr r, s'') \<and>
     StrategyResult_MatchedStrategyIDs r = [''b''] \<and> list_all (\<lambda>x. well_typed (fst x) (snd x)) (StrategyResult_EffectiveSettings r)"
proof -
  let ?w = "example_world example_claims"
  let ?s = "snd (Http_deleteStrategy ?w (example_principal ''u1'') ''x'' strategy_server)"
  let ?d = "example_device ''7'' ''u'' True"
  let ?r = "Resolve (\<lambda>_. ''0'') [example_strategy ''b'' ''global'' [] True] ?d []"
  note defs = strategy_server_def example_server_def accounts_example_defs example_strategy_def strategy_row_of_def
  have typed: "strategies_typed (srv_db strategy_server)"
    by (auto simp: strategies_typed_def well_typed_def setting_kinds_def map_get_def defs)
  have run: "(strategy_call ?w 0)\<^sup>*\<^sup>* strategy_server ?s" by (rule r_into_rtranclp, rule strategy_call.intros)
  have s: "srv_db ?s = srv_db strategy_server"
    by (simp add: Http_deleteStrategy_def handleE_run draw_run bindE_run sql_run DeleteStrategy_def affected_def statement_run defs)
  have "db_faults (srv_db ?s) = []" by (simp add: s) (simp add: defs)
  then have "fst (EffectiveForDevice (\<lambda>_. ''0'') ?d ?s) = Inr ?r"
    by (simp add: EffectiveForDevice_def bindE_run sql_run ListStrategies_def ListUserGroupMemberships_def statement_run s)
      (simp add: defs scan_strategy_def example_device_def member_row_def fromMillis_def millis_def)
  then have r: "EffectiveForDevice (\<lambda>_. ''0'') ?d ?s = (Inr ?r, snd (EffectiveForDevice (\<lambda>_. ''0'') ?d ?s))"
    by (simp only: prod_eq_iff fst_conv snd_conv)
  have "StrategyResult_MatchedStrategyIDs ?r = [''b'']"
    by (simp add: Resolve_def Let_def strategy_in_scope_def merge_strategy_def note_strategy_def example_strategy_def)
  moreover have "list_all (\<lambda>x. well_typed (fst x) (snd x)) (StrategyResult_EffectiveSettings ?r)"
    using effective_settings_typed [OF typed run r] unfolding list_all_iff by simp
  ultimately show ?thesis using r by blast
qed

end
