(* ===== verification/Gateway.thy ===== *)
theory Gateway
  imports Store_Relays Maps
begin

text \<open>
  The control channel of the relays, internal/relaygateway.  A peer is an object that the
  connection's goroutine, the commands and the timer share, so peers live in a store and the
  gateway maps relay identifiers to addresses.  What a goroutine does while it holds the mutex
  is one operation; what the wire and the relay do (a message, a reply, a failing write) is an
  argument.  The functions a gateway is given are programs of the state \<open>'s\<close> behind them.
\<close>

section \<open>State\<close>

record waiter =
  waiter_uuid :: string
  waiter_result :: "Message option"

text \<open>\<open>peer_closed\<close> stands for the cancelled context.  The last three fields are the local
  variables of the loop of Serve: its window, its count and the lifecycle event it has
  checked and not reported yet.\<close>

record peer =
  peer_session :: string
  peer_token :: string
  peer_ready :: bool
  peer_pending :: "(string, waiter) gomap"
  peer_issued :: "(string, instant) gomap"
  peer_closed :: bool
  peer_reports :: "(string, Message) gomap"
  peer_delivery :: "DeliveryStatus option"
  peer_observedAt :: instant
  peer_window :: instant
  peer_count :: int
  peer_checked :: "Message option"

record Gateway =
  Gateway_peers :: "(string, nat) gomap"
  Gateway_heap :: "(nat, peer) gomap"

record 's Gateway_functions =
  Gateway_Check :: "string \<Rightarrow> string \<Rightarrow> ('s, unit) prog"
  Gateway_Report :: "(string \<Rightarrow> Message \<Rightarrow> ('s, unit) prog) option"
  Gateway_Authorize :: "(string \<Rightarrow> string \<Rightarrow> string \<Rightarrow> ('s, unit) prog) option"
  Gateway_DurableReport :: "(string \<Rightarrow> string \<Rightarrow> Message \<Rightarrow> ('s, unit) prog) option"

definition NewGateway :: Gateway where
  "NewGateway = \<lparr>Gateway_peers = [], Gateway_heap = []\<rparr>"

definition peer_of :: "Gateway \<Rightarrow> string \<Rightarrow> peer option" where
  "peer_of g i = Option.bind (map_get (Gateway_peers g) i) (map_get (Gateway_heap g))"

definition set_peer :: "nat \<Rightarrow> (peer \<Rightarrow> peer) \<Rightarrow> Gateway \<Rightarrow> Gateway" where
  "set_peer a f g = (case map_get (Gateway_heap g) a of None \<Rightarrow> g
     | Some p \<Rightarrow> g\<lparr>Gateway_heap := map_put a (f p) (Gateway_heap g)\<rparr>)"

definition Online :: "string \<Rightarrow> Gateway \<Rightarrow> bool" where
  "Online i g = (case peer_of g i of None \<Rightarrow> False | Some p \<Rightarrow> peer_ready p)"

definition Disconnect :: "string \<Rightarrow> Gateway \<Rightarrow> Gateway" where
  "Disconnect i g = (case map_get (Gateway_peers g) i of
       None \<Rightarrow> g
     | Some a \<Rightarrow> set_peer a (\<lambda>p. p\<lparr>peer_closed := True\<rparr>) (g\<lparr>Gateway_peers := map_del i (Gateway_peers g)\<rparr>))"

record Observation =
  Observation_Connected :: bool
  Observation_ObservedAt :: instant
  Observation_Delivery :: "DeliveryStatus option"

definition DeliveryObservation :: "string \<Rightarrow> Gateway \<Rightarrow> Observation" where
  "DeliveryObservation i g = (case peer_of g i of
       None \<Rightarrow> \<lparr>Observation_Connected = False, Observation_ObservedAt = zero_time, Observation_Delivery = None\<rparr>
     | Some p \<Rightarrow> \<lparr>Observation_Connected = peer_ready p, Observation_ObservedAt = peer_observedAt p,
                 Observation_Delivery = peer_delivery p\<rparr>)"

section \<open>Delivery status\<close>

definition valid_event :: "QuarantineEvent \<Rightarrow> bool" where
  "valid_event e \<longleftrightarrow> \<not> (64 < length (QuarantineEvent_ID e) \<or> length (QuarantineEvent_ID e) = 0 \<or>
     128 < length (QuarantineEvent_UUID e) \<or> length (QuarantineEvent_UUID e) < 8 \<or>
     (QuarantineEvent_Status e \<noteq> ''active'' \<and> QuarantineEvent_Status e \<noteq> ''closed'') \<or>
     QuarantineEvent_Reason e \<noteq> ''credential_rotated'')"

definition valid_status :: "instant \<Rightarrow> DeliveryStatus option \<Rightarrow> bool" where
  "valid_status now delivery = (case delivery of None \<Rightarrow> True | Some v \<Rightarrow>
     let soon = word_of_int (UnixMilli (now + 5 * Minute)) in
     \<not> (DeliveryStatus_Capacity v \<noteq> 4096 \<or> DeliveryStatus_Pending v < 0 \<or> 4096 < DeliveryStatus_Pending v \<or>
       DeliveryStatus_Quarantined v < 0 \<or> 4096 < DeliveryStatus_Quarantined v \<or>
       DeliveryStatus_Reserved v < 0 \<or> 4096 < DeliveryStatus_Reserved v \<or>
       4096 < DeliveryStatus_Pending v + DeliveryStatus_Quarantined v + DeliveryStatus_Reserved v \<or>
       5 < length (DeliveryStatus_Sample v) \<or> DeliveryStatus_Quarantined v < int (length (DeliveryStatus_Sample v)) \<or>
       soon < DeliveryStatus_OldestAt v) \<and>
     list_all (\<lambda>e. valid_event e \<and> \<not> soon < QuarantineEvent_CreatedAt e) (DeliveryStatus_Sample v))"

section \<open>Serve\<close>

definition message :: Message where
  "message = \<lparr>Message_Revision = [], Message_Offset = 0, Message_QuarantinePage = None, Message_Delivery = None,
     Message_Reason = [], Message_Durable = False, Message_Type = [], Message_Session = [], Message_RequestID = [],
     Message_UUID = [], Message_Action = [], Message_Status = [], Message_ExpiresAt = 0, Message_Connections = 0,
     Message_Bandwidth = 0\<rparr>"

definition new_peer :: "string \<Rightarrow> string \<Rightarrow> instant \<Rightarrow> peer" where
  "new_peer session token now = \<lparr>peer_session = session, peer_token = token, peer_ready = False, peer_pending = [],
     peer_issued = [], peer_closed = False, peer_reports = [], peer_delivery = None, peer_observedAt = zero_time,
     peer_window = now, peer_count = 0, peer_checked = None\<rparr>"

text \<open>A connection whose credential was checked takes the place of its relay, if it is free; \<open>a\<close>
  is the address of the new object.\<close>

definition serve_connect :: "nat \<Rightarrow> string \<Rightarrow> string \<Rightarrow> string \<Rightarrow> instant \<Rightarrow> Gateway \<Rightarrow> Gateway option" where
  "serve_connect a i token session now g =
     (if map_get (Gateway_peers g) i \<noteq> None then None
      else Some (g\<lparr>Gateway_peers := map_put i a (Gateway_peers g),
                   Gateway_heap := map_put a (new_peer session token now) (Gateway_heap g)\<rparr>))"

definition hello :: "'s Gateway_functions \<Rightarrow> peer \<Rightarrow> Message" where
  "hello fs p = message\<lparr>Message_Type := ''hello'', Message_Session := peer_session p,
     Message_Durable := Gateway_DurableReport fs \<noteq> None\<rparr>"

text \<open>The deferred function of Serve.\<close>

definition serve_leave :: "nat \<Rightarrow> string \<Rightarrow> Gateway \<Rightarrow> Gateway" where
  "serve_leave a i g = (let g = set_peer a (\<lambda>p. p\<lparr>peer_closed := True\<rparr>) g in
     if map_get (Gateway_peers g) i = Some a then g\<lparr>Gateway_peers := map_del i (Gateway_peers g)\<rparr> else g)"

text \<open>The timer: permits that were not used expire.\<close>

definition serve_tick :: "instant \<Rightarrow> peer \<Rightarrow> peer" where
  "serve_tick now p = p\<lparr>peer_issued := filter (\<lambda>(key, expiry). \<not> (\<not> IsZero expiry \<and> expiry < now)) (peer_issued p)\<rparr>"

text \<open>In the operations below an error ends the loop of Serve.  The result is the peer and the
  messages written; \<open>sent\<close> says whether the write succeeds.\<close>

definition report :: "'s Gateway_functions \<Rightarrow> string \<Rightarrow> Message \<Rightarrow> ('s, unit) prog" where
  "report fs i m = (case Gateway_Report fs of None \<Rightarrow> ret () | Some f \<Rightarrow> f i m)"

definition lifecycle_ack :: "Message \<Rightarrow> Message" where
  "lifecycle_ack m = message\<lparr>Message_Type := ''lifecycle_ack'', Message_Session := Message_Session m,
     Message_RequestID := Message_RequestID m, Message_UUID := Message_UUID m, Message_Status := Message_Status m\<rparr>"

definition write_to :: "bool \<Rightarrow> Message \<Rightarrow> peer \<Rightarrow> ('s, peer \<times> Message list) prog" where
  "write_to sent out p = (if sent then ret (p, [out]) else throw ErrOffline)"

definition acknowledgeLifecycle :: "bool \<Rightarrow> Message \<Rightarrow> peer \<Rightarrow> ('s, peer \<times> Message list) prog" where
  "acknowledgeLifecycle sent m p = write_to sent (lifecycle_ack m) p"

definition deliver_reply :: "Message \<Rightarrow> peer \<Rightarrow> peer" where
  "deliver_reply m p = (case map_get (peer_pending p) (Message_RequestID m) of
       None \<Rightarrow> p
     | Some wait \<Rightarrow> if waiter_uuid wait = Message_UUID m \<and> waiter_result wait = None
         then p\<lparr>peer_pending := map_put (Message_RequestID m) (wait\<lparr>waiter_result := Some m\<rparr>) (peer_pending p)\<rparr>
         else p)"

definition serve_telemetry :: "'s Gateway_functions \<Rightarrow> string \<Rightarrow> instant \<Rightarrow> Message \<Rightarrow> peer \<Rightarrow> ('s, peer \<times> Message list) prog" where
  "serve_telemetry fs i now m p =
     (if \<not> valid_status now (Message_Delivery m) then throw ErrOffline
      else if Message_Connections m < 0 \<or> 1000000 < Message_Connections m \<or> 2 ^ 50 < Message_Bandwidth m then throw ErrOffline
      else thenE (report fs i m)
        (ret (p\<lparr>peer_delivery := Message_Delivery m, peer_observedAt := now\<rparr>, [])))"

text \<open>An event with an identifier, where events are stored durably.\<close>

definition serve_durable ::
  "(string \<Rightarrow> string \<Rightarrow> Message \<Rightarrow> ('s, unit) prog) \<Rightarrow> bool \<Rightarrow> string \<Rightarrow> Message \<Rightarrow> peer \<Rightarrow> ('s, peer \<times> Message list) prog" where
  "serve_durable f sent i m p = attempt (f i (peer_token p) m) (\<lambda>r. case r of
       Inl err \<Rightarrow>
         if errors_Is err ErrStaleGeneration
         then write_to sent (message\<lparr>Message_Type := ''lifecycle_rejected'', Message_Session := Message_Session m,
                Message_RequestID := Message_RequestID m, Message_UUID := Message_UUID m, Message_Status := Message_Status m,
                Message_Reason := ''credential_rotated''\<rparr>) p
         else throw err
     | Inr _ \<Rightarrow> acknowledgeLifecycle sent m
         (if Message_Status m = ''closed'' then p\<lparr>peer_issued := map_del (Message_UUID m) (peer_issued p)\<rparr>
          else if map_get (peer_issued p) (Message_UUID m) \<noteq> None
          then p\<lparr>peer_issued := map_put (Message_UUID m) zero_time (peer_issued p)\<rparr> else p))"

text \<open>Any other event is checked first, under the mutex, and reported afterwards.\<close>

definition serve_lifecycle ::
  "'s Gateway_functions \<Rightarrow> bool \<Rightarrow> string \<Rightarrow> Message \<Rightarrow> peer \<Rightarrow> ('s, peer \<times> Message list) prog" where
  "serve_lifecycle fs sent i m p = (case (Gateway_DurableReport fs, Message_RequestID m = []) of
       (Some f, False) \<Rightarrow> serve_durable f sent i m p
     | _ \<Rightarrow>
       if 64 < length (Message_RequestID m) then throw ErrOffline
       else case (if Message_RequestID m = [] then None else map_get (peer_reports p) (Message_RequestID m)) of
         Some previous \<Rightarrow>
           if Message_UUID previous \<noteq> Message_UUID m \<or> Message_Status previous \<noteq> Message_Status m then throw ErrOffline
           else acknowledgeLifecycle sent m p
       | None \<Rightarrow>
           if Message_RequestID m \<noteq> [] \<and> 8192 \<le> length (peer_reports p) then throw ErrOffline
           else if map_get (peer_issued p) (Message_UUID m) = None \<or>
                   (Message_Status m \<noteq> ''active'' \<and> Message_Status m \<noteq> ''closed'') then throw ErrOffline
           else ret (p\<lparr>peer_checked := Some m\<rparr>, []))"

definition serve_commit ::
  "'s Gateway_functions \<Rightarrow> bool \<Rightarrow> string \<Rightarrow> Message \<Rightarrow> peer \<Rightarrow> ('s, peer \<times> Message list) prog" where
  "serve_commit fs sent i m p0 = thenE (report fs i m)
     (let p = p0\<lparr>peer_checked := None, peer_issued := (if Message_Status m = ''active''
            then map_put (Message_UUID m) zero_time (peer_issued p0) else map_del (Message_UUID m) (peer_issued p0))\<rparr> in
      if Message_RequestID m = [] then ret (p, [])
      else acknowledgeLifecycle sent m (p\<lparr>peer_reports := map_put (Message_RequestID m) m (peer_reports p)\<rparr>))"

text \<open>One message of the loop.\<close>

definition serve_message ::
  "'s Gateway_functions \<Rightarrow> bool \<Rightarrow> string \<Rightarrow> instant \<Rightarrow> Message \<Rightarrow> peer \<Rightarrow> ('s, peer \<times> Message list) prog" where
  "serve_message fs sent i now m p0 =
     (if Message_Session m \<noteq> peer_session p0 then throw ErrOffline else
      let p1 = (if time_Sub now (peer_window p0) > Second then p0\<lparr>peer_window := now, peer_count := 0\<rparr> else p0);
          p = p1\<lparr>peer_count := peer_count p1 + 1\<rparr> in
      if 100 < peer_count p then throw ErrOffline
      else if \<not> peer_ready p \<and> Message_Type m \<noteq> ''ready'' then throw ErrOffline
      else if Message_Type m = ''ready'' then (if peer_ready p then throw ErrOffline else ret (p\<lparr>peer_ready := True\<rparr>, []))
      else if Message_Type m = ''ack'' \<or> Message_Type m = ''quarantine_reply'' then ret (deliver_reply m p, [])
      else if Message_Type m = ''telemetry'' then serve_telemetry fs i now m p
      else if Message_Type m = ''lifecycle'' then serve_lifecycle fs sent i m p
      else throw ErrOffline)"

section \<open>Commands\<close>

text \<open>The state of a command: the gateway and what its functions work on.\<close>

record 's control =
  control_gateway :: Gateway
  control_env :: 's

definition on_gateway :: "(Gateway, 'a) prog \<Rightarrow> ('s control, 'a) prog" where
  "on_gateway = zoom control_gateway (\<lambda>g s. s\<lparr>control_gateway := g\<rparr>)"

definition on_env :: "('s, 'a) prog \<Rightarrow> ('s control, 'a) prog" where
  "on_env = zoom control_env (\<lambda>e s. s\<lparr>control_env := e\<rparr>)"

text \<open>The second critical section of Command: the command is entered as pending, a permit as
  issued for two minutes.\<close>

definition command_register ::
  "nat \<Rightarrow> string \<Rightarrow> string \<Rightarrow> string \<Rightarrow> string \<Rightarrow> instant \<Rightarrow> (Gateway, peer) prog" where
  "command_register a i action relayUUID requestID now g = (case map_get (Gateway_heap g) a of
       None \<Rightarrow> (Inl ErrOffline, g)
     | Some p \<Rightarrow>
         if map_get (Gateway_peers g) i \<noteq> Some a \<or> \<not> peer_ready p \<or> 64 \<le> length (peer_pending p) \<or>
            (action = ''permit'' \<and> 4096 \<le> length (peer_issued p)) then (Inl ErrOffline, g)
         else (Inr p, set_peer a (\<lambda>p. p\<lparr>
            peer_pending := map_put requestID \<lparr>waiter_uuid = relayUUID, waiter_result = None\<rparr> (peer_pending p),
            peer_issued := (if action = ''permit'' then map_put relayUUID (now + 2 * Minute) (peer_issued p)
              else peer_issued p)\<rparr>) g))"

definition command_unissue :: "nat \<Rightarrow> string \<Rightarrow> Gateway \<Rightarrow> Gateway" where
  "command_unissue a relayUUID = set_peer a (\<lambda>p. p\<lparr>peer_issued := map_del relayUUID (peer_issued p)\<rparr>)"

definition command_finish :: "nat \<Rightarrow> string \<Rightarrow> Gateway \<Rightarrow> Gateway" where
  "command_finish a requestID = set_peer a (\<lambda>p. p\<lparr>peer_pending := map_del requestID (peer_pending p)\<rparr>)"

text \<open>How the wait for the reply ends.\<close>

datatype wait = Reply Message | DeadlineExceeded | PeerClosed | WriteFailed

definition command_message :: "peer \<Rightarrow> string \<Rightarrow> string \<Rightarrow> string \<Rightarrow> instant \<Rightarrow> Message" where
  "command_message p requestID relayUUID action now = message\<lparr>Message_Type := ''command'', Message_Session := peer_session p,
     Message_RequestID := requestID, Message_UUID := relayUUID, Message_Action := action,
     Message_ExpiresAt := UnixMilli (now + 5 * Second)\<rparr>"

definition command_result :: "string \<Rightarrow> wait \<Rightarrow> error + string" where
  "command_result action end = (case end of
       Reply reply \<Rightarrow>
         if (action = ''permit'' \<and> Message_Status reply = ''permitted'') \<or>
            (action = ''terminate'' \<and> (Message_Status reply = ''terminated'' \<or> Message_Status reply = ''not_found''))
         then Inr (Message_Status reply) else Inl (Errorf ''relay rejected command'')
     | DeadlineExceeded \<Rightarrow> Inl (Errorf ''context deadline exceeded'')
     | PeerClosed \<Rightarrow> Inl ErrOffline
     | WriteFailed \<Rightarrow> Inl (Errorf ''write failed''))"

text \<open>\<open>wire\<close> gives the end of the wait for the message that is written.\<close>

definition Command ::
  "'s Gateway_functions \<Rightarrow> (Message \<Rightarrow> wait) \<Rightarrow> string \<Rightarrow> instant \<Rightarrow> string \<Rightarrow> string \<Rightarrow> string \<Rightarrow> ('s control, string) prog" where
  "Command fs wire requestID now i action relayUUID =
     (if action \<noteq> ''permit'' \<and> action \<noteq> ''terminate'' then throw (Errorf ''unsupported command'') else
      bindE (on_gateway (gets (\<lambda>g. (map_get (Gateway_peers g) i, peer_of g i)))) (\<lambda>found. case found of
        (Some a, Some p) \<Rightarrow>
          attempt (on_env (Gateway_Check fs i (peer_token p))) (\<lambda>r. case r of
            Inl err \<Rightarrow> thenE (on_gateway (modifies (Disconnect i))) (throw err)
          | Inr _ \<Rightarrow>
          bindE (on_gateway (command_register a i action relayUUID requestID now)) (\<lambda>p.
          attempt (case Gateway_Authorize fs of
              Some authorize \<Rightarrow> if action = ''permit'' then on_env (authorize i (peer_token p) relayUUID) else ret ()
            | None \<Rightarrow> ret ()) (\<lambda>r. case r of
            Inl err \<Rightarrow> thenE (on_gateway (modifies (command_unissue a relayUUID)))
              (thenE (on_gateway (modifies (command_finish a requestID))) (throw err))
          | Inr _ \<Rightarrow> thenE (on_gateway (modifies (command_finish a requestID)))
              (liftE (command_result action (wire (command_message p requestID relayUUID action now)))))))
      | _ \<Rightarrow> throw ErrOffline))"

section \<open>Quarantine\<close>

definition quarantine_register :: "nat \<Rightarrow> string \<Rightarrow> string \<Rightarrow> (Gateway, peer) prog" where
  "quarantine_register a i requestID g = (case map_get (Gateway_heap g) a of
       None \<Rightarrow> (Inl ErrOffline, g)
     | Some p \<Rightarrow>
         if map_get (Gateway_peers g) i \<noteq> Some a \<or> \<not> peer_ready p \<or> 64 \<le> length (peer_pending p) then (Inl ErrOffline, g)
         else (Inr p, set_peer a (\<lambda>p. p\<lparr>
            peer_pending := map_put requestID \<lparr>waiter_uuid = [], waiter_result = None\<rparr> (peer_pending p)\<rparr>) g))"

text \<open>The argument \<open>uuid_Parse\<close> says which texts are UUIDs.\<close>

definition quarantine_request :: "(string \<Rightarrow> bool) \<Rightarrow> string \<Rightarrow> string \<Rightarrow> int \<Rightarrow> error option" where
  "quarantine_request uuid_Parse action revision offset =
     (if (action \<noteq> ''list'' \<and> action \<noteq> ''archive'') \<or> offset < 0 \<or> 4096 < offset then Some (Errorf ''invalid quarantine request'')
      else if revision \<noteq> [] \<and> \<not> uuid_Parse revision then Some (Errorf ''invalid UUID'')
      else if action = ''archive'' \<and> revision = [] then Some (Errorf ''revision required'')
      else None)"

definition quarantine_page :: "(string \<Rightarrow> bool) \<Rightarrow> string \<Rightarrow> string \<Rightarrow> int \<Rightarrow> Message \<Rightarrow> error + QuarantinePage" where
  "quarantine_page uuid_Parse action revision offset reply = (case Message_QuarantinePage reply of
       None \<Rightarrow> Inl (Errorf ''quarantine changed or unavailable'')
     | Some page \<Rightarrow>
       if Message_Type reply \<noteq> ''quarantine_reply'' \<or> Message_Status reply \<noteq> ''ok'' then Inl (Errorf ''quarantine changed or unavailable'')
       else if \<not> uuid_Parse (QuarantinePage_Revision page) then Inl (Errorf ''invalid revision'')
       else if revision \<noteq> [] \<and> QuarantinePage_Revision page \<noteq> revision then Inl (Errorf ''revision mismatch'')
       else if QuarantinePage_Total page < 0 \<or> 4096 < QuarantinePage_Total page \<or> QuarantinePage_Offset page \<noteq> offset \<or>
               10 < length (QuarantinePage_Events page) \<or>
               (action = ''list'' \<and> int (length (QuarantinePage_Events page)) \<noteq> min 10 (QuarantinePage_Total page - offset))
       then Inl (Errorf ''invalid quarantine page'')
       else if \<not> list_all valid_event (QuarantinePage_Events page) then Inl (Errorf ''invalid quarantine event'')
       else Inr page)"

definition quarantine_result :: "(string \<Rightarrow> bool) \<Rightarrow> string \<Rightarrow> string \<Rightarrow> int \<Rightarrow> wait \<Rightarrow> error + QuarantinePage" where
  "quarantine_result uuid_Parse action revision offset end = (case end of
       Reply reply \<Rightarrow> quarantine_page uuid_Parse action revision offset reply
     | DeadlineExceeded \<Rightarrow> Inl (Errorf ''context deadline exceeded'')
     | PeerClosed \<Rightarrow> Inl ErrOffline
     | WriteFailed \<Rightarrow> Inl (Errorf ''write failed''))"

definition Quarantine ::
  "'s Gateway_functions \<Rightarrow> (string \<Rightarrow> bool) \<Rightarrow> (Message \<Rightarrow> wait) \<Rightarrow> string \<Rightarrow> instant \<Rightarrow>
   string \<Rightarrow> string \<Rightarrow> string \<Rightarrow> int \<Rightarrow> ('s control, QuarantinePage) prog" where
  "Quarantine fs uuid_Parse wire requestID now i action revision offset =
     (case quarantine_request uuid_Parse action revision offset of Some err \<Rightarrow> throw err | None \<Rightarrow>
      bindE (on_gateway (gets (\<lambda>g. (map_get (Gateway_peers g) i, peer_of g i)))) (\<lambda>found. case found of
        (Some a, Some p) \<Rightarrow>
          thenE (on_env (Gateway_Check fs i (peer_token p)))
         (bindE (on_gateway (quarantine_register a i requestID)) (\<lambda>p.
          thenE (on_gateway (modifies (command_finish a requestID)))
          (liftE (quarantine_result uuid_Parse action revision offset
            (wire (message\<lparr>Message_Type := ''quarantine'', Message_Session := peer_session p,
                Message_RequestID := requestID, Message_Action := action, Message_Revision := revision,
                Message_Offset := offset, Message_ExpiresAt := UnixMilli (now + 10 * Second)\<rparr>))))))
      | _ \<Rightarrow> throw ErrOffline))"

end
