(* ===== verification/Gateway_Props.thy ===== *)
theory Gateway_Props
  imports Gateway
begin

text \<open>
  The gateway under every interleaving of its connections, commands and timers.
\<close>

section \<open>Steps\<close>

text \<open>A step is one operation; a peer handles a message only when the event before it has been
  reported.  The functions of the gateway may answer anything.\<close>

inductive gateway_step :: "'s Gateway_functions \<Rightarrow> Gateway \<Rightarrow> Gateway \<Rightarrow> bool" for fs where
  connect: "map_get (Gateway_heap g) a = None \<Longrightarrow> serve_connect a i token session now g = Some g' \<Longrightarrow> gateway_step fs g g'"
| handle: "map_get (Gateway_heap g) a = Some p \<Longrightarrow> peer_checked p = None \<Longrightarrow>
    serve_message fs sent i now m p e = (Inr (p', out), e') \<Longrightarrow> gateway_step fs g (set_peer a (\<lambda>_. p') g)"
| commit: "map_get (Gateway_heap g) a = Some p \<Longrightarrow> peer_checked p = Some m \<Longrightarrow>
    serve_commit fs sent i m p e = (Inr (p', out), e') \<Longrightarrow> gateway_step fs g (set_peer a (\<lambda>_. p') g)"
| leave: "gateway_step fs g (serve_leave a i g)"
| tick: "gateway_step fs g (set_peer a (serve_tick now) g)"
| disconnect: "gateway_step fs g (Disconnect i g)"
| register: "command_register a i action uuid requestID now g = (Inr p, g') \<Longrightarrow> gateway_step fs g g'"
| unissue: "gateway_step fs g (command_unissue a uuid g)"
| finish: "gateway_step fs g (command_finish a requestID g)"
| quarantine: "quarantine_register a i requestID g = (Inr p, g') \<Longrightarrow> gateway_step fs g g'"

section \<open>Sizes\<close>

text \<open>An event that has been checked and whose permit has expired since is entered again when it
  is reported, on top of the permits the commands may have issued.\<close>

definition peer_ok :: "peer \<Rightarrow> bool" where
  "peer_ok p \<longleftrightarrow> length (peer_pending p) \<le> 64 \<and> length (peer_issued p) \<le> 4097 \<and> length (peer_reports p) \<le> 8192 \<and>
     peer_count p \<le> 100 \<and>
     (\<forall>m. peer_checked p = Some m \<longrightarrow>
        (map_get (peer_issued p) (Message_UUID m) = None \<longrightarrow> length (peer_issued p) \<le> 4096) \<and>
        (Message_RequestID m \<noteq> [] \<longrightarrow> length (peer_reports p) < 8192))"

definition gateway_ok :: "Gateway \<Rightarrow> bool" where
  "gateway_ok g \<longleftrightarrow> (\<forall>a p. map_get (Gateway_heap g) a = Some p \<longrightarrow> peer_ok p)"

lemma length_map_put: "length (map_put k v m) = (if map_get m k = None then Suc (length m) else length m)"
  by (auto simp: map_put_def map_get_def map_of_eq_None_iff)

lemma length_filter_key:
  assumes "map_get m k \<noteq> None" "map_get (filter P m) k = None"
  shows "length (filter P m) < length m"
proof -
  from assms(1) obtain v where "(k, v) \<in> set m" by (auto simp: map_get_def dest: map_of_SomeD)
  moreover have "(k, v) \<notin> set (filter P m)" using assms(2) by (auto simp: map_get_def map_of_eq_None_iff image_iff)
  ultimately show ?thesis by (intro length_filter_less [of "(k, v)"]) auto
qed

text \<open>Dropping permits keeps the bounds.\<close>

lemma peer_ok_drop:
  assumes "peer_ok p" "peer_issued p' = filter P (peer_issued p)" "peer_pending p' = peer_pending p"
    "peer_reports p' = peer_reports p" "peer_count p' = peer_count p" "peer_checked p' = peer_checked p"
  shows "peer_ok p'"
proof -
  have le: "length (peer_issued p') \<le> length (peer_issued p)" by (simp add: assms(2))
  have "length (peer_issued p') \<le> 4096" if m: "peer_checked p = Some m" "map_get (peer_issued p') (Message_UUID m) = None" for m
  proof (cases "map_get (peer_issued p) (Message_UUID m) = None")
    case True
    then have "length (peer_issued p) \<le> 4096" using assms(1) m(1) by (simp add: peer_ok_def)
    then show ?thesis using le by simp
  next
    case False
    then have "length (peer_issued p') < length (peer_issued p)"
      using length_filter_key m(2) by (simp add: assms(2))
    moreover have "length (peer_issued p) \<le> 4097" using assms(1) by (simp add: peer_ok_def)
    ultimately show ?thesis by simp
  qed
  moreover have "length (peer_issued p') \<le> 4097" using assms(1) le by (simp add: peer_ok_def)
  ultimately show ?thesis using assms(1) by (simp add: peer_ok_def assms(3-6))
qed

lemma set_peer_ok:
  assumes "gateway_ok g" "\<And>p. map_get (Gateway_heap g) a = Some p \<Longrightarrow> peer_ok p \<Longrightarrow> peer_ok (f p)"
  shows "gateway_ok (set_peer a f g)"
  using assms by (auto simp: gateway_ok_def set_peer_def map_get_put split: option.splits)

lemma peers_ok [simp]: "gateway_ok (g\<lparr>Gateway_peers := ps\<rparr>) = gateway_ok g"
  by (simp add: gateway_ok_def)

lemma deliver_reply_ok: "peer_ok p \<Longrightarrow> peer_ok (deliver_reply m p)"
  by (auto simp: deliver_reply_def peer_ok_def length_map_put split: option.split)

lemma serve_durable_ok:
  assumes "peer_ok p" "peer_checked p = None" "serve_durable f sent i m p e = (Inr (p', out), e')"
  shows "peer_ok p'"
proof -
  have "peer_ok (p\<lparr>peer_issued := map_del k (peer_issued p)\<rparr>)" for k
    by (rule peer_ok_drop [OF assms(1)]) (simp_all add: map_del_def)
  moreover have "map_get (peer_issued p) k \<noteq> None \<Longrightarrow> peer_ok (p\<lparr>peer_issued := map_put k v (peer_issued p)\<rparr>)" for k v
    using assms(1,2) by (auto simp: peer_ok_def length_map_put)
  ultimately show ?thesis using assms(1,3)
    by (auto simp: serve_durable_def attempt_case_iff acknowledgeLifecycle_def write_to_def if_run split: if_splits)
qed

lemma serve_lifecycle_ok:
  assumes "peer_ok p" "peer_checked p = None" "serve_lifecycle fs sent i m p e = (Inr (p', out), e')"
  shows "peer_ok p'"
proof (cases "Gateway_DurableReport fs = None \<or> Message_RequestID m = []")
  case True
  have "peer_ok (p\<lparr>peer_checked := Some m\<rparr>)"
    if "map_get (peer_issued p) (Message_UUID m) \<noteq> None" "Message_RequestID m \<noteq> [] \<Longrightarrow> length (peer_reports p) < 8192"
    using assms(1) that by (auto simp: peer_ok_def)
  then show ?thesis using assms True
    by (auto simp: serve_lifecycle_def acknowledgeLifecycle_def write_to_def split: option.splits if_splits bool.splits)
next
  case False
  then show ?thesis using assms serve_durable_ok by (auto simp: serve_lifecycle_def)
qed

lemma serve_message_ok:
  assumes "peer_ok p" "peer_checked p = None" "serve_message fs sent i now m p e = (Inr (p', out), e')"
  shows "peer_ok p'"
proof -
  define p1 where "p1 = (if time_Sub now (peer_window p) > Second then p\<lparr>peer_window := now, peer_count := 0\<rparr> else p)"
  define p2 where "p2 = p1\<lparr>peer_count := peer_count p1 + 1\<rparr>"
  have p2: "peer_checked p2 = None" "peer_count p2 \<le> 100 \<Longrightarrow> peer_ok p2"
    using assms(1,2) by (auto simp: p2_def p1_def peer_ok_def)
  have run: "peer_count p2 \<le> 100" and cases: "p' = p2\<lparr>peer_ready := True\<rparr> \<or> p' = deliver_reply m p2 \<or>
      serve_telemetry fs i now m p2 e = (Inr (p', out), e') \<or> serve_lifecycle fs sent i m p2 e = (Inr (p', out), e')"
    using assms(3) unfolding serve_message_def Let_def p1_def [symmetric] p2_def [symmetric]
    by (auto split: if_splits)
  have ok: "peer_ok p2" by (rule p2(2) [OF run])
  from cases show ?thesis
  proof (elim disjE)
    assume "serve_telemetry fs i now m p2 e = (Inr (p', out), e')"
    then show ?thesis using ok by (auto simp: serve_telemetry_def thenE_Inr_iff peer_ok_def split: if_splits)
  next
    assume "serve_lifecycle fs sent i m p2 e = (Inr (p', out), e')"
    then show ?thesis by (rule serve_lifecycle_ok [OF ok p2(1)])
  next
    assume "p' = deliver_reply m p2"
    then show ?thesis using deliver_reply_ok [OF ok] by simp
  next
    assume "p' = p2\<lparr>peer_ready := True\<rparr>"
    then show ?thesis using ok by (simp add: peer_ok_def)
  qed
qed

lemma serve_commit_ok:
  assumes "peer_ok p" "peer_checked p = Some m" "serve_commit fs sent i m p e = (Inr (p', out), e')"
  shows "peer_ok p'"
proof -
  define issued where "issued = (if Message_Status m = ''active'' then map_put (Message_UUID m) zero_time (peer_issued p)
    else map_del (Message_UUID m) (peer_issued p))"
  have "length (map_del (Message_UUID m) (peer_issued p)) \<le> length (peer_issued p)" by (simp add: map_del_def)
  then have "length issued \<le> 4097"
    using assms(1,2) by (simp add: issued_def peer_ok_def length_map_put)
  then show ?thesis using assms
    by (auto simp: serve_commit_def issued_def [symmetric] Let_def thenE_Inr_iff if_run acknowledgeLifecycle_def write_to_def
        peer_ok_def length_map_put split: if_splits)
qed

lemma register_ok:
  assumes "peer_ok q" "length (peer_pending q) < 64"
  shows "peer_ok (q\<lparr>peer_pending := map_put k w (peer_pending q)\<rparr>)"
    and "length (peer_issued q) < 4096 \<Longrightarrow>
      peer_ok (q\<lparr>peer_pending := map_put k w (peer_pending q), peer_issued := map_put u t (peer_issued q)\<rparr>)"
proof -
  have pending: "length (map_put k w (peer_pending q)) \<le> 64" using assms(2) by (simp add: length_map_put)
  then show "peer_ok (q\<lparr>peer_pending := map_put k w (peer_pending q)\<rparr>)" using assms(1) by (simp add: peer_ok_def)
  assume "length (peer_issued q) < 4096"
  then have "length (map_put u t (peer_issued q)) \<le> 4096" by (simp add: length_map_put)
  then show "peer_ok (q\<lparr>peer_pending := map_put k w (peer_pending q), peer_issued := map_put u t (peer_issued q)\<rparr>)"
    using pending assms(1) by (simp add: peer_ok_def)
qed

lemma gateway_step_ok:
  assumes "gateway_step fs g g'" "gateway_ok g"
  shows "gateway_ok g'"
  using assms
proof induction
  case (connect g a i token session now g')
  then show ?case
    by (auto simp: serve_connect_def gateway_ok_def map_get_put new_peer_def peer_ok_def split: if_splits)
next
  case (handle g a p sent i now m e p' out e')
  then show ?case by (intro set_peer_ok) (auto intro: serve_message_ok [OF _ handle(2,3)])
next
  case (commit g a p m sent i e p' out e')
  then show ?case by (intro set_peer_ok) (auto intro: serve_commit_ok [OF _ commit(2,3)])
next
  case (leave g a i)
  then have "gateway_ok (set_peer a (\<lambda>p. p\<lparr>peer_closed := True\<rparr>) g)" by (intro set_peer_ok) (simp_all add: peer_ok_def)
  then show ?case by (simp add: serve_leave_def Let_def)
next
  case (tick g a now)
  then show ?case by (intro set_peer_ok) (assumption, erule peer_ok_drop, simp_all add: serve_tick_def)
next
  case (disconnect g i)
  then have "gateway_ok (set_peer a (\<lambda>p. p\<lparr>peer_closed := True\<rparr>) (g\<lparr>Gateway_peers := ps\<rparr>))" for a ps
    by (intro set_peer_ok) (simp_all add: peer_ok_def)
  then show ?case using disconnect by (simp add: Disconnect_def split: option.split)
next
  case (register a i action uuid requestID now g p g')
  then obtain q where q: "map_get (Gateway_heap g) a = Some q" "length (peer_pending q) < 64"
      "action = ''permit'' \<longrightarrow> length (peer_issued q) < 4096" and g': "g' = set_peer a (\<lambda>p. p\<lparr>
        peer_pending := map_put requestID \<lparr>waiter_uuid = uuid, waiter_result = None\<rparr> (peer_pending p),
        peer_issued := (if action = ''permit'' then map_put uuid (now + 2 * Minute) (peer_issued p) else peer_issued p)\<rparr>) g"
    by (auto simp: command_register_def split: option.splits if_splits)
  show ?case unfolding g' by (rule set_peer_ok [OF register(2)])
      (use q register_ok in \<open>cases "action = ''permit''"; simp\<close>)
next
  case (unissue g a uuid)
  then show ?case unfolding command_unissue_def
    by (intro set_peer_ok) (assumption, erule peer_ok_drop, simp_all add: map_del_def)
next
  case (finish g a requestID)
  then show ?case unfolding command_finish_def
    by (intro set_peer_ok) (simp_all add: peer_ok_def map_del_def le_trans [OF length_filter_le])
next
  case (quarantine a i requestID g p g')
  then obtain q where q: "map_get (Gateway_heap g) a = Some q" "length (peer_pending q) < 64" and g': "g' = set_peer a (\<lambda>p. p\<lparr>
        peer_pending := map_put requestID \<lparr>waiter_uuid = [], waiter_result = None\<rparr> (peer_pending p)\<rparr>) g"
    by (auto simp: quarantine_register_def split: option.splits if_splits)
  show ?case unfolding g' by (rule set_peer_ok [OF quarantine(2)]) (use q register_ok in simp)
qed

text \<open>C38: The tables of a control connection are bounded.  In every interleaving of connections,
  messages, commands, quarantine requests, timers and disconnections, whatever the relay sends
  and the gateway's functions answer, a connection has at most 64 pending requests, 4097
  issued permits and 8192 remembered event identifiers, and has handled at most 100 messages
  in its current window.\<close>

theorem gateway_bounded:
  assumes "(gateway_step fs)\<^sup>*\<^sup>* NewGateway g" and "map_get (Gateway_heap g) a = Some p"
  shows "length (peer_pending p) \<le> 64 \<and> length (peer_issued p) \<le> 4097 \<and> length (peer_reports p) \<le> 8192 \<and> peer_count p \<le> 100"
proof -
  have "gateway_ok NewGateway" by (simp add: gateway_ok_def NewGateway_def)
  with assms(1) have "gateway_ok g" by (induction rule: rtranclp_induct) (auto intro: gateway_step_ok)
  then show ?thesis using assms(2) by (auto simp: gateway_ok_def peer_ok_def)
qed

definition no_functions :: "unit Gateway_functions" where
  "no_functions = \<lparr>Gateway_Check = (\<lambda>_ _. ret ()), Gateway_Report = None, Gateway_Authorize = None,
     Gateway_DurableReport = None\<rparr>"

theorem gateway_bounded_witness:
  "\<exists>g p. (gateway_step no_functions)\<^sup>*\<^sup>* NewGateway g \<and> map_get (Gateway_heap g) 0 = Some p \<and>
     peer_issued p = [(''u'', 2 * Minute)] \<and> length (peer_pending p) \<le> 64"
proof -
  let ?p1 = "new_peer ''s'' ''t'' 0"
  let ?p2 = "?p1\<lparr>peer_ready := True, peer_count := 1\<rparr>"
  let ?p3 = "?p2\<lparr>peer_pending := [(''q'', \<lparr>waiter_uuid = ''u'', waiter_result = None\<rparr>)], peer_issued := [(''u'', 2 * Minute)]\<rparr>"
  let ?g = "\<lambda>p. \<lparr>Gateway_peers = [(''r'', 0)], Gateway_heap = [(0, p)]\<rparr>"
  have 1: "gateway_step no_functions NewGateway (?g ?p1)"
    by (rule connect [of _ 0 "''r''" "''t''" "''s''" 0]) (simp_all add: NewGateway_def serve_connect_def map_put_def map_get_def)
  have 2: "gateway_step no_functions (?g ?p1) (?g ?p2)"
    using handle [of "?g ?p1" 0 ?p1 no_functions True "''r''" 0 "message\<lparr>Message_Session := ''s'', Message_Type := ''ready''\<rparr>" "()" ?p2 "[]" "()"]
    by (simp add: map_get_def new_peer_def serve_message_def message_def set_peer_def map_put_def time_Sub_def Second_def)
  have 3: "gateway_step no_functions (?g ?p2) (?g ?p3)"
    by (rule register [of 0 "''r''" "''permit''" "''u''" "''q''" 0 _ ?p2])
      (simp add: command_register_def map_get_def set_peer_def map_put_def new_peer_def)
  have run: "(gateway_step no_functions)\<^sup>*\<^sup>* NewGateway (?g ?p3)"
    by (rule converse_rtranclp_into_rtranclp, rule 1, rule converse_rtranclp_into_rtranclp, rule 2, rule r_into_rtranclp, rule 3)
  have p: "map_get (Gateway_heap (?g ?p3)) 0 = Some ?p3" by (simp add: map_get_def)
  show ?thesis using run p gateway_bounded [OF run p] by (intro exI [of _ "?g ?p3"] exI [of _ ?p3]) simp
qed

end
