(* ===== verification/Http_Quarantine.thy ===== *)
theory Http_Quarantine
  imports Gateway_Props Http_Books
begin

text \<open>
  The quarantine handlers of internal/httpapi/relay_quarantine.go, over the gateway and the
  server behind it.  What the wire does in a request is the argument \<open>wire\<close>, the identifier
  and the instant of the request are \<open>rid\<close> and \<open>now\<close>; in the export they depend on the round.
\<close>

type_synonym control_server = "server control"

section \<open>Listing\<close>

text \<open>\<open>param\<close> gives the parameters of the URL, empty when absent.\<close>

definition relayQuarantine ::
  "server Gateway_functions \<Rightarrow> (string \<Rightarrow> bool) \<Rightarrow> (Message \<Rightarrow> wait) \<Rightarrow> string \<Rightarrow> instant \<Rightarrow> (string \<Rightarrow> string) \<Rightarrow> string \<Rightarrow>
   (control_server, QuarantinePage reply) prog" where
  "relayQuarantine fs uuid_Parse wire rid now param relayID =
     (case (if param ''offset'' = [] then Some 0 else Atoi (param ''offset'')) of
        None \<Rightarrow> ret (WriteError 400 ''invalid offset'')
      | Some offset \<Rightarrow>
          if offset < 0 \<or> 4096 < offset then ret (WriteError 400 ''invalid offset'')
          else handleE (Quarantine fs uuid_Parse wire rid now relayID ''list'' (param ''revision'') offset)
            (\<lambda>_. WriteError 409 ''quarantine changed or relay unavailable; refresh'') (\<lambda>page. ret (WriteJSON 200 page)))"

section \<open>Export\<close>

datatype export_end = ExportTimedOut | ExportChanged | Exported "QuarantineEvent list" int

text \<open>The loop of the export: \<open>ask n offset\<close> is the request of round \<open>n\<close>, \<open>expired n\<close> whether the
  deadline of the handler is found to have passed in round \<open>n\<close>.\<close>

partial_function (option) export_loop ::
  "(nat \<Rightarrow> int \<Rightarrow> (control_server, QuarantinePage) prog) \<Rightarrow> (nat \<Rightarrow> bool) \<Rightarrow> nat \<Rightarrow> QuarantineEvent list \<Rightarrow> int \<Rightarrow>
   control_server \<Rightarrow> (export_end \<times> control_server) option" where
  "export_loop ask expired n events expected s =
     (if expired n then Some (ExportTimedOut, s)
      else case ask n (int (length events)) s of
        (Inl _, s) \<Rightarrow> Some (ExportChanged, s)
      | (Inr page, s) \<Rightarrow>
          if 0 \<le> expected \<and> QuarantinePage_Total page \<noteq> expected then Some (ExportChanged, s)
          else if int (length (events @ QuarantinePage_Events page)) = QuarantinePage_Total page
          then Some (Exported (events @ QuarantinePage_Events page) (QuarantinePage_Total page), s)
          else export_loop ask expired (Suc n) (events @ QuarantinePage_Events page) (QuarantinePage_Total page) s)"

record export_reply =
  export_relay_id :: string
  export_revision :: string
  export_total :: int
  export_events :: "QuarantineEvent list"

text \<open>None is the handler that does not return.\<close>

definition exportRelayQuarantine ::
  "world \<Rightarrow> server Gateway_functions \<Rightarrow> (string \<Rightarrow> bool) \<Rightarrow> (nat \<Rightarrow> Message \<Rightarrow> wait) \<Rightarrow> (nat \<Rightarrow> string) \<Rightarrow> (nat \<Rightarrow> instant) \<Rightarrow>
   (nat \<Rightarrow> bool) \<Rightarrow> Principal \<Rightarrow> string \<Rightarrow> string \<Rightarrow> control_server \<Rightarrow> (export_reply reply \<times> control_server) option" where
  "exportRelayQuarantine w fs uuid_Parse wire rid now expired p relayID revision s =
     (if \<not> uuid_Parse revision then Some (WriteError 400 ''revision required'', s)
      else case on_env (Record w (audit_event ''relay_quarantine_export_requested'' (actor p) ''requested''
             [(''relay_id'', JStr relayID), (''revision'', JStr revision)])) s of
        (Inl _, s) \<Rightarrow> Some (WriteError 503 ''audit unavailable'', s)
      | (Inr _, s) \<Rightarrow>
      case export_loop (\<lambda>n. Quarantine fs uuid_Parse (wire n) (rid n) (now n) relayID ''list'' revision) expired 0 [] (-1) s of
        None \<Rightarrow> None
      | Some (ExportTimedOut, s) \<Rightarrow> Some (WriteError 504 ''export timed out'', s)
      | Some (ExportChanged, s) \<Rightarrow> Some (WriteError 409 ''quarantine changed or relay unavailable; refresh'', s)
      | Some (Exported events expected, s) \<Rightarrow>
          (case on_env (Record w (audit_event ''relay_quarantine_exported'' (actor p) ''success''
             [(''relay_id'', JStr relayID), (''revision'', JStr revision), (''count'', JNum (of_int expected))])) s of
             (Inl _, s) \<Rightarrow> Some (WriteError 503 ''audit unavailable'', s)
           | (Inr _, s) \<Rightarrow> Some (WriteJSON 200 \<lparr>export_relay_id = relayID, export_revision = revision, export_total = expected,
               export_events = events\<rparr>, s)))"

section \<open>Archive\<close>

record archiveRequest =
  ArchiveReq_Revision :: string
  ArchiveReq_Confirm :: bool

definition archiveRelayQuarantine ::
  "world \<Rightarrow> server Gateway_functions \<Rightarrow> (string \<Rightarrow> bool) \<Rightarrow> (Message \<Rightarrow> wait) \<Rightarrow> string \<Rightarrow> instant \<Rightarrow> Principal \<Rightarrow> string \<Rightarrow>
   archiveRequest option \<Rightarrow> (control_server, (string \<times> string) reply) prog" where
  "archiveRelayQuarantine w fs uuid_Parse wire rid now p relayID body =
     (case body of None \<Rightarrow> ret (WriteError 400 ''explicit confirmation required'') | Some input \<Rightarrow>
      if \<not> ArchiveReq_Confirm input then ret (WriteError 400 ''explicit confirmation required'')
      else if \<not> uuid_Parse (ArchiveReq_Revision input) then ret (WriteError 400 ''invalid revision'') else
      bindE (on_env (new_uuid w)) (\<lambda>operation.
      let metadata = [(''relay_id'', JStr relayID), (''revision'', JStr (ArchiveReq_Revision input)), (''operation_id'', JStr operation)] in
      handleE (on_env (Record w ((audit_event ''relay_quarantine_archive_requested'' (actor p) ''requested'' metadata)
          \<lparr>AuditEvent_ID := operation\<rparr>))) (\<lambda>_. WriteError 503 ''audit unavailable; command not sent'') (\<lambda>_.
      attempt (Quarantine fs uuid_Parse wire rid now relayID ''archive'' (ArchiveReq_Revision input) 0) (\<lambda>r.
      attempt (on_env (Record w (audit_event ''relay_quarantine_archived'' (actor p) (if is_ok r then ''success'' else ''unknown'') metadata)))
        (\<lambda>audit. ret (
          if \<not> is_ok r then WriteError 409 ''outcome uncertain or quarantine changed; refresh, retry same revision only''
          else if \<not> is_ok audit then WriteError 503 ''relay archived; result audit unavailable; request audit retained''
          else WriteJSON 200 (ArchiveReq_Revision input, ''quarantine-'' @ ArchiveReq_Revision input @ ''.json'')))))))"

section \<open>Termination of the export\<close>

text \<open>A page that a list request returns: its events are the next ten, or the rest.\<close>

lemma Quarantine_list:
  assumes "Quarantine fs uuid_Parse wire rid now i ''list'' revision offset s = (Inr page, s')"
  shows "QuarantinePage_Total page \<le> 4096 \<and> int (length (QuarantinePage_Events page)) = min 10 (QuarantinePage_Total page - offset) \<and>
    list_all valid_event (QuarantinePage_Events page)"
proof -
  have "quarantine_request uuid_Parse ''list'' revision offset = None"
    using assms by (auto simp: Quarantine_def split: option.splits)
  with assms obtain r where "quarantine_result uuid_Parse ''list'' revision offset r = Inr page"
    by (cases "map_get (Gateway_peers (control_gateway s)) i"; cases "peer_of (control_gateway s) i")
      (auto simp: Quarantine_def bindE_Inr_iff thenE_Inr_iff on_gateway_def zoom_run)
  then obtain reply where "quarantine_page uuid_Parse ''list'' revision offset reply = Inr page"
    by (auto simp: quarantine_result_def split: wait.splits)
  then show ?thesis by (auto simp: quarantine_page_def split: option.splits if_splits)
qed

text \<open>What the loop returns, however it ends.\<close>

definition export_ok :: "(nat \<Rightarrow> bool) \<Rightarrow> export_end \<Rightarrow> bool" where
  "export_ok expired r \<longleftrightarrow> (case r of
       ExportTimedOut \<Rightarrow> \<exists>n\<le>409. expired n
     | ExportChanged \<Rightarrow> True
     | Exported events expected \<Rightarrow> int (length events) = expected \<and> expected \<le> 4096 \<and> list_all valid_event events)"

lemma export_loop_returns:
  assumes "length events = 10 * n" "n \<le> 409" "list_all valid_event events"
  shows "\<exists>r s'. export_loop (\<lambda>n. Quarantine fs uuid_Parse (wire n) (rid n) (now n) i ''list'' revision) expired n events expected s
      = Some (r, s') \<and> export_ok expired r"
  using assms
proof (induction "410 - n" arbitrary: n events expected s)
  case (Suc k)
  let ?ask = "\<lambda>n. Quarantine fs uuid_Parse (wire n) (rid n) (now n) i ''list'' revision"
  show ?case
  proof (cases "expired n")
    case True
    then show ?thesis using Suc.prems(2) by (subst export_loop.simps) (auto simp: export_ok_def)
  next
    case False
    obtain r s1 where r: "?ask n (int (length events)) s = (r, s1)" by fastforce
    show ?thesis
    proof (cases r)
      case (Inl e)
      then show ?thesis using r False by (subst export_loop.simps) (simp add: export_ok_def)
    next
      case (Inr page)
      let ?events = "events @ QuarantinePage_Events page" and ?t = "QuarantinePage_Total page"
      from Quarantine_list [OF r [unfolded Inr]]
      have page: "?t \<le> 4096" "int (length ?events) = int (10 * n) + min 10 (?t - int (10 * n))" "list_all valid_event ?events"
        using Suc.prems(1,3) by auto
      show ?thesis
      proof (cases "(0 \<le> expected \<and> ?t \<noteq> expected) \<or> int (length ?events) = ?t")
        case True
        then show ?thesis using r Inr False page by (subst export_loop.simps) (auto simp: export_ok_def)
      next
        case go: False
        then have "length ?events = 10 * Suc n" "Suc n \<le> 409" using page(1,2) by auto
        then have "\<exists>r s'. export_loop ?ask expired (Suc n) ?events ?t s1 = Some (r, s') \<and> export_ok expired r"
          using Suc.hyps(2) page(3) by (intro Suc.hyps(1)) auto
        then show ?thesis using r Inr False go by (subst export_loop.simps) auto
      qed
    qed
  qed
qed simp

text \<open>C39: the export of a quarantine returns, whatever the relay answers, however long the requests take and whatever
  the gateway and the stores do: the paging loop ends after at most 410 rounds, since a page that is accepted is either
  full or the last one.  When it answers 200, the file names the relay and the revision that were asked for, holds
  exactly as many events as the total it states, at most 4096, and each of them has passed the validation of the
  gateway; and it answers 504 only when the deadline was found to have passed in one of those rounds.\<close>
theorem export_terminates:
  "\<exists>reply s'. exportRelayQuarantine w fs uuid_Parse wire rid now expired p relayID revision s = Some (reply, s') \<and>
    (case reply of
       WriteJSON code file \<Rightarrow> code = 200 \<and> uuid_Parse revision \<and> export_relay_id file = relayID \<and>
         export_revision file = revision \<and> int (length (export_events file)) = export_total file \<and>
         export_total file \<le> 4096 \<and> list_all valid_event (export_events file)
     | WriteError code _ \<Rightarrow> code \<in> {400, 409, 503} \<or> code = 504 \<and> (\<exists>n\<le>409. expired n)
     | _ \<Rightarrow> False)"
proof (cases "uuid_Parse revision")
  case uuid: True
  obtain a s1 where a: "on_env (Record w (audit_event ''relay_quarantine_export_requested'' (actor p) ''requested''
      [(''relay_id'', JStr relayID), (''revision'', JStr revision)])) s = (a, s1)" by fastforce
  obtain r s2 where r: "export_loop (\<lambda>n. Quarantine fs uuid_Parse (wire n) (rid n) (now n) relayID ''list'' revision) expired 0 [] (-1) s1
      = Some (r, s2)" "export_ok expired r"
    using export_loop_returns [of "[]" 0] by fastforce
  show ?thesis
  proof (cases a)
    case (Inl e)
    then show ?thesis using uuid a by (simp add: exportRelayQuarantine_def)
  next
    case (Inr x)
    show ?thesis
    proof (cases r)
      case (Exported events expected)
      obtain b s3 where "on_env (Record w (audit_event ''relay_quarantine_exported'' (actor p) ''success''
          [(''relay_id'', JStr relayID), (''revision'', JStr revision), (''count'', JNum (of_int expected))])) s2 = (b, s3)"
        by fastforce
      then show ?thesis using uuid a r Inr Exported
        by (cases b) (simp_all add: exportRelayQuarantine_def export_ok_def)
    qed (use uuid a r Inr in \<open>auto simp: exportRelayQuarantine_def export_ok_def\<close>)
  qed
qed (simp add: exportRelayQuarantine_def)

end
