(* ===== verification/Hbbs.thy ===== *)
theory Hbbs
  imports Enforcement Hub
begin

text \<open>
  The authorization cache of the rendezvous server: art-core/src/auth/claims.rs, the operations
  of art-core/src/auth/cache.rs, and the event consumer of art-core/src/sync.rs.  The state is
  only touched under its lock, so each operation is a function of the state.  Third-party code
  (base64, serde_json, hmac) is the record \<open>crates\<close>; the clock is the argument \<open>now\<close>, in seconds
  since the epoch.
\<close>

section \<open>Tokens\<close>

datatype Audience = One string | Many "string list"

definition Audience_contains :: "Audience \<Rightarrow> string \<Rightarrow> bool" where
  "Audience_contains a expected = (case a of One v \<Rightarrow> v = expected | Many vs \<Rightarrow> list_ex (\<lambda>v. v = expected) vs)"

record JwtClaims =
  Jwt_sub :: string
  Jwt_sid :: string
  Jwt_iat :: int
  Jwt_exp :: int
  Jwt_iss :: string
  Jwt_aud :: Audience
  Jwt_username :: string
  Jwt_role :: string
  Jwt_token_version :: int
  Jwt_device_id :: string

record JwtVerifier =
  JwtVerifier_secret :: bytes
  JwtVerifier_issuer :: string
  JwtVerifier_audience :: string

text \<open>Decoding of unpadded URL-safe base64, of the algorithm of a JSON header and of JSON claims,
  and the MAC; None where the library returns an error.\<close>

record crates =
  crates_base64 :: "string \<Rightarrow> bytes option"
  crates_header :: "bytes \<Rightarrow> string option"
  crates_claims :: "bytes \<Rightarrow> JwtClaims option"
  crates_hmac :: "bytes \<Rightarrow> string \<Rightarrow> bytes"

definition hs256 :: "bytes \<Rightarrow> string \<Rightarrow> string \<Rightarrow> JwtVerifier option" where
  "hs256 secret issuer audience =
     (if length secret < 32 then None
      else Some \<lparr>JwtVerifier_secret = secret, JwtVerifier_issuer = issuer, JwtVerifier_audience = audience\<rparr>)"

definition u64_max :: int where "u64_max = 2 ^ 64 - 1"

definition checked_claims :: "JwtVerifier \<Rightarrow> int \<Rightarrow> JwtClaims \<Rightarrow> AuthError + JwtClaims" where
  "checked_claims v now claims =
     (if Jwt_sub claims = [] \<or> Jwt_sid claims = [] \<or> Jwt_iss claims \<noteq> JwtVerifier_issuer v \<or>
         \<not> Audience_contains (Jwt_aud claims) (JwtVerifier_audience v) then Inl InvalidToken
      else if Jwt_exp claims \<le> now then Inl SessionExpired
      else if min u64_max (now + 60) < Jwt_iat claims \<or> Jwt_exp claims \<le> Jwt_iat claims then Inl InvalidToken
      else Inr claims)"

definition verify :: "crates \<Rightarrow> JwtVerifier \<Rightarrow> int \<Rightarrow> string \<Rightarrow> AuthError + JwtClaims" where
  "verify cr v now token =
     (if 16 * 1024 < length token then Inl InvalidToken
      else case split_on (CHR ''.'') token of
        [header, claims, signature] \<Rightarrow>
          (case Option.bind (crates_base64 cr header) (crates_header cr) of
             None \<Rightarrow> Inl InvalidToken
           | Some alg \<Rightarrow>
               if alg \<noteq> ''HS256'' then Inl InvalidToken
               else if crates_base64 cr signature \<noteq> Some (crates_hmac cr (JwtVerifier_secret v) (header @ ''.'' @ claims))
               then Inl InvalidToken
               else (case Option.bind (crates_base64 cr claims) (crates_claims cr) of
                  None \<Rightarrow> Inl InvalidToken
                | Some c \<Rightarrow> checked_claims v now c))
      | _ \<Rightarrow> Inl InvalidToken)"

section \<open>Authorization\<close>

record AuthCache =
  AuthCache_verifier :: JwtVerifier
  AuthCache_require_login :: bool
  AuthCache_state :: CacheState

definition NewAuthCache :: "JwtVerifier \<Rightarrow> bool \<Rightarrow> AuthCache" where
  "NewAuthCache verifier require_login = \<lparr>AuthCache_verifier = verifier, AuthCache_require_login = require_login,
     AuthCache_state = empty_cache\<rparr>"

text \<open>\<open>unix_timestamp\<close>: the whole seconds of an instant.\<close>

definition unix_timestamp :: "instant \<Rightarrow> int" where "unix_timestamp t = t div Second"

definition authorize_claims :: "CacheState \<Rightarrow> int \<Rightarrow> JwtClaims \<Rightarrow> AuthError + AuthDecision" where
  "authorize_claims state now claims =
     (case map_get (CacheState_users state) (Jwt_sub claims) of None \<Rightarrow> Inl SessionRevokedError | Some user \<Rightarrow>
      if \<not> UserState_enabled user then Inl UserDisabledError
      else if UserState_approval_status user = ''pending'' then Inl ApprovalPendingError
      else if UserState_approval_status user \<noteq> ''approved'' then Inl ApprovalRejectedError
      else case map_get (CacheState_sessions state) (Jwt_sid claims) of None \<Rightarrow> Inl SessionRevokedError | Some session \<Rightarrow>
      if SessionState_user_id session \<noteq> UserState_id user then Inl SessionRevokedError
      else if SessionState_revoked_at session \<noteq> None then Inl SessionRevokedError
      else if UserState_token_version user \<noteq> Jwt_token_version claims then Inl ForceReloginError
      else case SessionState_expires_at session of None \<Rightarrow> Inl SessionExpired | Some session_expiry \<Rightarrow>
      if Jwt_exp claims \<le> now \<or> unix_timestamp session_expiry \<le> now then Inl SessionExpired
      else Inr \<lparr>AuthDecision_user_id = UserState_id user, AuthDecision_session_id = SessionState_id session,
        AuthDecision_username = UserState_username user, AuthDecision_role = UserState_role user,
        AuthDecision_controller_device_id =
          (if Jwt_device_id claims = [] then SessionState_client_device_id session else Jwt_device_id claims)\<rparr>)"

definition authorize :: "crates \<Rightarrow> AuthCache \<Rightarrow> int \<Rightarrow> string option \<Rightarrow> AuthError + AuthDecision option" where
  "authorize cr cache now token =
     (case (case token of Some v \<Rightarrow> if TrimSpace v = [] then None else Some v | None \<Rightarrow> None) of
        None \<Rightarrow>
          if (case CacheState_require_login (AuthCache_state cache) of Some b \<Rightarrow> b | None \<Rightarrow> AuthCache_require_login cache)
          then Inl LoginRequired else Inr None
      | Some v \<Rightarrow>
          (case verify cr (AuthCache_verifier cache) now v of
             Inl e \<Rightarrow> Inl e
           | Inr claims \<Rightarrow> map_sum id Some (authorize_claims (AuthCache_state cache) now claims)))"

section \<open>Snapshots\<close>

record HbbsSnapshot =
  HbbsSnapshot_require_login :: "bool option"
  HbbsSnapshot_require_device_deployment :: "bool option"
  HbbsSnapshot_source_id :: string
  HbbsSnapshot_revision :: int
  HbbsSnapshot_users :: "UserState list"
  HbbsSnapshot_sessions :: "SessionState list"
  HbbsSnapshot_devices :: "DeviceState list"
  HbbsSnapshot_acl_rules :: "AclRuleState list"
  HbbsSnapshot_strategies :: "StrategyState list"
  HbbsSnapshot_user_group_memberships :: "UserGroupMembershipState list"
  HbbsSnapshot_relay_servers :: "RelayState list"

text \<open>Collecting values into a HashMap: a later value of a key replaces an earlier one.\<close>

definition collect :: "('v \<Rightarrow> string) \<Rightarrow> 'v list \<Rightarrow> (string, 'v) gomap" where
  "collect key vs = fold (\<lambda>v m. map_put (key v) v m) vs []"

definition groups_entry :: "(string, string list) gomap \<Rightarrow> string \<Rightarrow> string list" where
  "groups_entry m i = (case map_get m i of Some groups \<Rightarrow> groups | None \<Rightarrow> [])"

definition push_membership :: "UserGroupMembershipState \<Rightarrow> (string, string list) gomap \<Rightarrow> (string, string list) gomap" where
  "push_membership m groups =
     (if UserGroupMembershipState_active m
      then map_put (UserGroupMembershipState_user_id m)
        (groups_entry groups (UserGroupMembershipState_user_id m) @ [UserGroupMembershipState_group_id m]) groups
      else groups)"

definition replace :: "HbbsSnapshot \<Rightarrow> CacheState \<Rightarrow> CacheState" where
  "replace snapshot state =
     (if HbbsSnapshot_source_id snapshot = CacheState_source_id state \<and> HbbsSnapshot_revision snapshot < CacheState_revision state
      then state
      else \<lparr>CacheState_require_login = HbbsSnapshot_require_login snapshot,
        CacheState_require_device_deployment = HbbsSnapshot_require_device_deployment snapshot,
        CacheState_source_id = HbbsSnapshot_source_id snapshot, CacheState_revision = HbbsSnapshot_revision snapshot,
        CacheState_users = collect UserState_id (HbbsSnapshot_users snapshot),
        CacheState_sessions = collect SessionState_id (HbbsSnapshot_sessions snapshot),
        CacheState_devices = collect DeviceState_rustdesk_id (HbbsSnapshot_devices snapshot),
        CacheState_acl_rules = collect AclRuleState_id (HbbsSnapshot_acl_rules snapshot),
        CacheState_strategies = collect StrategyState_id (HbbsSnapshot_strategies snapshot),
        CacheState_user_groups = fold push_membership (HbbsSnapshot_user_group_memberships snapshot) [],
        CacheState_relay_servers = collect RelayState_id (HbbsSnapshot_relay_servers snapshot)\<rparr>)"

section \<open>Events\<close>

text \<open>An event is applied once: accept_revision answers whether it is new, and moves the cursor then.\<close>

definition accept_revision :: "string \<Rightarrow> int \<Rightarrow> CacheState \<Rightarrow> bool \<times> CacheState" where
  "accept_revision source_id revision state =
     (if CacheState_source_id state \<noteq> source_id then
        (True, state\<lparr>CacheState_source_id := source_id, CacheState_revision := revision\<rparr>)
      else if CacheState_revision state < revision then (True, state\<lparr>CacheState_revision := revision\<rparr>)
      else (False, state))"

definition accepted :: "string \<Rightarrow> int \<Rightarrow> (CacheState \<Rightarrow> CacheState) \<Rightarrow> CacheState \<Rightarrow> CacheState" where
  "accepted source_id revision f state =
     (case accept_revision source_id revision state of (True, state) \<Rightarrow> f state | (False, state) \<Rightarrow> state)"

definition apply_configuration :: "bool \<Rightarrow> bool \<Rightarrow> string \<Rightarrow> int \<Rightarrow> CacheState \<Rightarrow> CacheState" where
  "apply_configuration require_login require_device_deployment source_id revision = accepted source_id revision
     (\<lambda>state. state\<lparr>CacheState_require_login := Some require_login,
        CacheState_require_device_deployment := Some require_device_deployment\<rparr>)"

definition upsert_device :: "DeviceState \<Rightarrow> string \<Rightarrow> int \<Rightarrow> CacheState \<Rightarrow> CacheState" where
  "upsert_device v source_id revision = accepted source_id revision
     (CacheState_devices_update (map_put (DeviceState_rustdesk_id v) v))"

definition upsert_acl :: "AclRuleState \<Rightarrow> string \<Rightarrow> int \<Rightarrow> CacheState \<Rightarrow> CacheState" where
  "upsert_acl v source_id revision = accepted source_id revision
     (CacheState_acl_rules_update
       (if AclRuleState_deleted v then map_del (AclRuleState_id v) else map_put (AclRuleState_id v) v))"

definition upsert_strategy :: "StrategyState \<Rightarrow> string \<Rightarrow> int \<Rightarrow> CacheState \<Rightarrow> CacheState" where
  "upsert_strategy v source_id revision = accepted source_id revision
     (CacheState_strategies_update
       (if StrategyState_deleted v then map_del (StrategyState_id v) else map_put (StrategyState_id v) v))"

definition upsert_relay :: "RelayState \<Rightarrow> string \<Rightarrow> int \<Rightarrow> CacheState \<Rightarrow> CacheState" where
  "upsert_relay v source_id revision = accepted source_id revision
     (CacheState_relay_servers_update
       (if RelayState_deleted v then map_del (RelayState_id v) else map_put (RelayState_id v) v))"

definition upsert_user_group_membership :: "UserGroupMembershipState \<Rightarrow> string \<Rightarrow> int \<Rightarrow> CacheState \<Rightarrow> CacheState" where
  "upsert_user_group_membership v source_id revision = accepted source_id revision
     (CacheState_user_groups_update (\<lambda>m.
        let i = UserGroupMembershipState_user_id v; g = UserGroupMembershipState_group_id v;
            groups = filter (\<lambda>group_id. group_id \<noteq> g) (groups_entry m i)
        in map_put i (if UserGroupMembershipState_active v then groups @ [g] else groups) m))"

definition upsert_user :: "UserState \<Rightarrow> string \<Rightarrow> int \<Rightarrow> CacheState \<Rightarrow> CacheState" where
  "upsert_user v source_id revision = accepted source_id revision (CacheState_users_update (map_put (UserState_id v) v))"

definition upsert_session :: "SessionState \<Rightarrow> string \<Rightarrow> int \<Rightarrow> CacheState \<Rightarrow> CacheState" where
  "upsert_session v source_id revision = accepted source_id revision (CacheState_sessions_update (map_put (SessionState_id v) v))"

definition revoke_user_sessions :: "string \<Rightarrow> string \<Rightarrow> int \<Rightarrow> CacheState \<Rightarrow> CacheState" where
  "revoke_user_sessions user_id source_id revision = accepted source_id revision
     (CacheState_sessions_update (filter (\<lambda>(_, session). SessionState_user_id session \<noteq> user_id)))"

definition cursor :: "CacheState \<Rightarrow> string \<times> int" where
  "cursor state = (CacheState_source_id state, CacheState_revision state)"

section \<open>Queries\<close>

definition require_device_deployment :: "bool \<Rightarrow> CacheState \<Rightarrow> bool" where
  "require_device_deployment fallback state =
     (case CacheState_require_device_deployment state of Some b \<Rightarrow> b | None \<Rightarrow> fallback)"

definition device_registration_allowed :: "string \<Rightarrow> string \<Rightarrow> CacheState \<Rightarrow> bool" where
  "device_registration_allowed i public_key state = (case map_get (CacheState_devices state) i of
       None \<Rightarrow> False
     | Some d \<Rightarrow> DeviceState_deployed d \<and> DeviceState_public_key d \<noteq> [] \<and> DeviceState_public_key d = public_key)"

definition format_relay_address :: "string \<Rightarrow> int \<Rightarrow> string" where
  "format_relay_address hostname port =
     (if CHR '':'' \<in> set hostname \<and> \<not> HasPrefix hostname ''['' then ''['' @ hostname @ '']:'' @ dec_nat (nat port)
      else hostname @ '':'' @ dec_nat (nat port))"

definition relay_key :: "RelayState \<Rightarrow> int \<times> int \<times> string" where
  "relay_key v = (RelayState_connections v, RelayState_latency_ms v, RelayState_id v)"

definition select_relay :: "CacheState \<Rightarrow> string option" where
  "select_relay state =
     (case sort_key relay_key (filter (\<lambda>v. RelayState_enabled v \<and> RelayState_health v = ''healthy'')
        (map snd (CacheState_relay_servers state))) of
        [] \<Rightarrow> None
      | v # _ \<Rightarrow> Some (format_relay_address (RelayState_hostname v) (RelayState_port v)))"

section \<open>The event stream\<close>

text \<open>The payloads of the hub as the consumer decodes their JSON encoding.\<close>

definition user_state :: "User \<Rightarrow> UserState" where
  "user_state u = \<lparr>UserState_id = User_ID u, UserState_username = User_Username u, UserState_role = User_Role u,
     UserState_enabled = User_Enabled u, UserState_approval_status = User_ApprovalStatus u,
     UserState_token_version = User_TokenVersion u\<rparr>"

definition session_state :: "Session \<Rightarrow> SessionState" where
  "session_state x = \<lparr>SessionState_id = Session_ID x, SessionState_user_id = Session_UserID x,
     SessionState_expires_at = Some (Session_ExpiresAt x), SessionState_revoked_at = Session_RevokedAt x,
     SessionState_client_device_id = Session_ClientDeviceID x\<rparr>"

definition membership_state :: "UserGroupMembership \<Rightarrow> UserGroupMembershipState" where
  "membership_state m = \<lparr>UserGroupMembershipState_group_id = UserGroupMembership_GroupID m,
     UserGroupMembershipState_user_id = UserGroupMembership_UserID m,
     UserGroupMembershipState_active = UserGroupMembership_Active m\<rparr>"

definition device_state :: "Device \<Rightarrow> DeviceState" where
  "device_state d = \<lparr>DeviceState_rustdesk_id = Device_RustDeskID d, DeviceState_client_uuid = Device_ClientUUID d,
     DeviceState_public_key = Device_PublicKey d, DeviceState_deployed = Device_Deployed d,
     DeviceState_owner_user_id = Device_OwnerUserID d, DeviceState_group_id = Device_GroupID d\<rparr>"

definition relay_state :: "RelayServer \<Rightarrow> RelayState" where
  "relay_state r = \<lparr>RelayState_id = RelayServer_ID r, RelayState_hostname = RelayServer_Hostname r,
     RelayState_port = RelayServer_Port r, RelayState_region = RelayServer_Region r,
     RelayState_enabled = RelayServer_Enabled r, RelayState_health = RelayServer_Health r,
     RelayState_latency_ms = RelayServer_LatencyMS r, RelayState_connections = RelayServer_Connections r,
     RelayState_deleted = RelayServer_Deleted r\<rparr>"

definition is_i32 :: "int \<Rightarrow> bool" where "is_i32 n \<longleftrightarrow> - (2 ^ 31) \<le> n \<and> n < 2 ^ 31"

text \<open>Decoding fails on a number that does not fit the field.  The only rule and the only strategy
  published with no permissions and no settings are those of a deletion: their nil slice and nil map
  are encoded as null, which the vector and the map of the cache do not accept.\<close>

definition decode_acl :: "ACLRule \<Rightarrow> AclRuleState option" where
  "decode_acl r = (if ACLRule_Permissions r = [] \<or> \<not> is_i32 (ACLRule_Priority r) then None else Some (acl_state r))"

definition decode_strategy :: "Strategy \<Rightarrow> StrategyState option" where
  "decode_strategy v =
     (if Strategy_Settings v = [] \<or> \<not> is_i32 (Strategy_Priority v) then None else Some (strategy_state v))"

definition decode_relay :: "RelayServer \<Rightarrow> RelayState option" where
  "decode_relay r =
     (if RelayServer_Port r < 0 \<or> 2 ^ 16 \<le> RelayServer_Port r \<or> \<not> is_i32 (RelayServer_LatencyMS r) \<or>
         \<not> is_i32 (RelayServer_Connections r) then None else Some (relay_state r))"

definition decode_configuration :: "json \<Rightarrow> (bool \<times> bool) option" where
  "decode_configuration j = (case j of
       JObj m \<Rightarrow> (case (map_get m ''require_login'', map_get m ''require_device_deployment'') of
          (Some (JBool a), Some (JBool b)) \<Rightarrow> Some (a, b)
        | _ \<Rightarrow> None)
     | _ \<Rightarrow> None)"

text \<open>None is the error that ends the stream; an event of another kind is skipped.\<close>

definition apply_event :: "Event \<Rightarrow> CacheState \<Rightarrow> CacheState option" where
  "apply_event e state =
     (let source_id = Event_SourceID e; revision = Event_Revision e in
      if Event_Type e \<in> {''USER_UPDATED'', ''USER_DISABLED''} then
        (case Event_Payload e of PUser u \<Rightarrow> Some (upsert_user (user_state u) source_id revision state) | _ \<Rightarrow> None)
      else if Event_Type e \<in> {''SESSION_CREATED'', ''SESSION_REVOKED''} then
        (case Event_Payload e of PSession x \<Rightarrow> Some (upsert_session (session_state x) source_id revision state) | _ \<Rightarrow> None)
      else if Event_Type e = ''SESSION_REVOKED_ALL'' then
        (case Event_Payload e of PUserRef i \<Rightarrow> Some (revoke_user_sessions i source_id revision state) | _ \<Rightarrow> None)
      else if Event_Type e = ''ACL_UPDATED'' then
        (case Event_Payload e of PACLRule r \<Rightarrow> map_option (\<lambda>v. upsert_acl v source_id revision state) (decode_acl r) | _ \<Rightarrow> None)
      else if Event_Type e = ''STRATEGY_UPDATED'' then
        (case Event_Payload e of PStrategy v \<Rightarrow>
           map_option (\<lambda>v. upsert_strategy v source_id revision state) (decode_strategy v) | _ \<Rightarrow> None)
      else if Event_Type e = ''RELAY_UPDATED'' then
        (case Event_Payload e of PRelay r \<Rightarrow> map_option (\<lambda>v. upsert_relay v source_id revision state) (decode_relay r) | _ \<Rightarrow> None)
      else if Event_Type e = ''DEVICE_UPDATED'' then
        (case Event_Payload e of PDevice d \<Rightarrow> Some (upsert_device (device_state d) source_id revision state) | _ \<Rightarrow> None)
      else if Event_Type e = ''USER_GROUP_MEMBERSHIP_UPDATED'' then
        (case Event_Payload e of PMembership m \<Rightarrow>
           Some (upsert_user_group_membership (membership_state m) source_id revision state) | _ \<Rightarrow> None)
      else if Event_Type e = ''CONFIGURATION_UPDATED'' then
        (case Event_Payload e of PJSON j \<Rightarrow>
           map_option (\<lambda>(a, b). apply_configuration a b source_id revision state) (decode_configuration j) | _ \<Rightarrow> None)
      else Some state)"

text \<open>The events of one connection, in order: whether all of them were applied, and the cache at its
  end.\<close>

fun consume :: "Event list \<Rightarrow> CacheState \<Rightarrow> bool \<times> CacheState" where
  "consume [] state = (True, state)"
| "consume (e # es) state = (case apply_event e state of None \<Rightarrow> (False, state) | Some state' \<Rightarrow> consume es state')"

text \<open>A connection of consume_event_stream: the request carries the cursor, and the hub answers with
  the events it keeps after it.\<close>

definition consume_backlog :: "Hub \<Rightarrow> CacheState \<Rightarrow> bool \<times> CacheState" where
  "consume_backlog h state = (case cursor state of (source_id, revision) \<Rightarrow>
     consume (snd (fst (SubscribeAfter source_id revision h))) state)"

section \<open>The gate\<close>

text \<open>art-hbbs/src/gate.rs.  The text of an error is represented by the error; the audit records
  handed to the sender are the second result.\<close>

record GateDecision =
  GateDecision_force_relay :: bool
  GateDecision_user_id :: string
  GateDecision_session_id :: string
  GateDecision_controller_device_id :: string

record ConnectionAudit =
  ConnectionAudit_event_type :: string
  ConnectionAudit_actor_user_id :: string
  ConnectionAudit_actor_session_id :: string
  ConnectionAudit_controller_device_id :: string
  ConnectionAudit_target_rustdesk_id :: string
  ConnectionAudit_ip :: string
  ConnectionAudit_result :: string
  ConnectionAudit_reason :: "AuthError option"
  ConnectionAudit_metadata :: "(string \<times> json) list"

definition connection_metadata :: "int \<Rightarrow> string \<Rightarrow> string \<Rightarrow> (string \<times> json) list" where
  "connection_metadata connection_type request_kind stage = [(''connection_type'', JNum (of_int connection_type)),
     (''request_kind'', JStr request_kind), (''authorization_stage'', JStr stage)]"

definition gate_authorize ::
  "crates \<Rightarrow> AuthCache \<Rightarrow> int \<Rightarrow> string \<Rightarrow> string \<Rightarrow> int \<Rightarrow> string \<Rightarrow> string \<Rightarrow> (AuthError + GateDecision) \<times> ConnectionAudit" where
  "gate_authorize cr cache now token target connection_type peer_ip request_kind =
     (let metadata = connection_metadata connection_type request_kind;
          anonymous = (\<lambda>type result reason extra. \<lparr>ConnectionAudit_event_type = type, ConnectionAudit_actor_user_id = [],
            ConnectionAudit_actor_session_id = [], ConnectionAudit_controller_device_id = [],
            ConnectionAudit_target_rustdesk_id = target, ConnectionAudit_ip = peer_ip, ConnectionAudit_result = result,
            ConnectionAudit_reason = reason, ConnectionAudit_metadata = metadata ''pre_rendezvous'' @ extra\<rparr>)
      in case authorize cr cache now (Some token) of
        Inl e \<Rightarrow> (Inl e, anonymous ''connection_denied'' ''denied'' (Some e) [])
      | Inr None \<Rightarrow> (Inr \<lparr>GateDecision_force_relay = False, GateDecision_user_id = [], GateDecision_session_id = [],
            GateDecision_controller_device_id = []\<rparr>,
          anonymous ''connection_allowed'' ''allowed'' None [(''anonymous'', JBool True)])
      | Inr (Some decision) \<Rightarrow>
          let record = (\<lambda>type result reason stage. \<lparr>ConnectionAudit_event_type = type,
            ConnectionAudit_actor_user_id = AuthDecision_user_id decision,
            ConnectionAudit_actor_session_id = AuthDecision_session_id decision,
            ConnectionAudit_controller_device_id = AuthDecision_controller_device_id decision,
            ConnectionAudit_target_rustdesk_id = target, ConnectionAudit_ip = peer_ip, ConnectionAudit_result = result,
            ConnectionAudit_reason = reason, ConnectionAudit_metadata = metadata stage\<rparr>)
          in (case authorize_policy (AuthCache_state cache) decision target connection_type of
             Inl e \<Rightarrow> (Inl e, record ''connection_denied'' ''denied'' (Some e) ''policy'')
           | Inr force_relay \<Rightarrow> (Inr \<lparr>GateDecision_force_relay = force_relay,
                 GateDecision_user_id = AuthDecision_user_id decision, GateDecision_session_id = AuthDecision_session_id decision,
                 GateDecision_controller_device_id = AuthDecision_controller_device_id decision\<rparr>,
               record ''connection_allowed'' ''allowed'' None ''pre_rendezvous'')))"

definition registration_allowed :: "bool \<Rightarrow> string \<Rightarrow> string \<Rightarrow> CacheState \<Rightarrow> bool" where
  "registration_allowed configured i public_key state \<longleftrightarrow>
     \<not> require_device_deployment configured state \<or> device_registration_allowed i public_key state"

definition gate_select_relay :: "string \<Rightarrow> CacheState \<Rightarrow> string" where
  "gate_select_relay fallback state = (case select_relay state of Some v \<Rightarrow> v | None \<Rightarrow> fallback)"

end
