(* ===== verification/Hbbs_Sync.thy ===== *)
theory Hbbs_Sync
  imports Hbbs Auth_Props Limiter_Props
begin

text \<open>
  How the authorization cache follows the account tables: what an event does to the cached users
  and sessions, that a reconnecting consumer receives exactly the events after its cursor, and
  when the cache accepts the claims of a token.
\<close>

section \<open>What the cache holds of users and sessions\<close>

text \<open>Of a user: whether enabled, the approval, the token version and the role.  Of a session: its
  user, its expiry in milliseconds and whether it is revoked.\<close>

type_synonym user_view = "bool \<times> string \<times> int \<times> string"
type_synonym session_view = "string \<times> int \<times> bool"
type_synonym view = "(string \<Rightarrow> user_view option) \<times> (string \<Rightarrow> session_view option)"

definition view_of_user :: "User \<Rightarrow> user_view" where
  "view_of_user u = (User_Enabled u, User_ApprovalStatus u, User_TokenVersion u, User_Role u)"

definition view_of_session :: "Session \<Rightarrow> session_view" where
  "view_of_session x = (Session_UserID x, millis (Session_ExpiresAt x), Session_RevokedAt x \<noteq> None)"

definition cached_user :: "UserState \<Rightarrow> user_view" where
  "cached_user u = (UserState_enabled u, UserState_approval_status u, UserState_token_version u, UserState_role u)"

definition cached_session :: "SessionState \<Rightarrow> session_view" where
  "cached_session x = (SessionState_user_id x, (case SessionState_expires_at x of Some t \<Rightarrow> millis t | None \<Rightarrow> 0),
     SessionState_revoked_at x \<noteq> None)"

definition cache_view :: "CacheState \<Rightarrow> view" where
  "cache_view c = (\<lambda>i. map_option cached_user (map_get (CacheState_users c) i),
     \<lambda>j. map_option cached_session (map_get (CacheState_sessions c) j))"

definition cache_ok :: "CacheState \<Rightarrow> bool" where
  "cache_ok c \<longleftrightarrow> map_ok (CacheState_sessions c) \<and>
     (\<forall>i u. map_get (CacheState_users c) i = Some u \<longrightarrow> UserState_id u = i) \<and>
     (\<forall>j x. map_get (CacheState_sessions c) j = Some x \<longrightarrow> SessionState_expires_at x \<noteq> None)"

text \<open>What an event of the account service does to the view.\<close>

fun view_event :: "string \<times> payload \<Rightarrow> view \<Rightarrow> view" where
  "view_event (t, PUser u) (U, S) = (U(User_ID u \<mapsto> view_of_user u), S)"
| "view_event (t, PSession x) (U, S) = (U, S(Session_ID x \<mapsto> view_of_session x))"
| "view_event (t, PUserRef i) (U, S) =
     (U, \<lambda>j. case S j of Some (u, e, r) \<Rightarrow> if u = i then None else Some (u, e, r) | None \<Rightarrow> None)"
| "view_event (t, p) V = V"

text \<open>The events the account service publishes.\<close>

definition account_event :: "string \<times> payload \<Rightarrow> bool" where
  "account_event tp = (case snd tp of
       PUser _ \<Rightarrow> fst tp \<in> {UserUpdated, UserDisabled}
     | PSession _ \<Rightarrow> fst tp \<in> {SessionCreated, SessionRevoked}
     | PUserRef _ \<Rightarrow> fst tp = SessionRevokedAll
     | PMembership _ \<Rightarrow> fst tp = UserGroupMembershipUpdated
     | _ \<Rightarrow> False)"

lemmas account_kinds = UserUpdated_def UserDisabled_def SessionCreated_def SessionRevoked_def SessionRevokedAll_def
  UserGroupMembershipUpdated_def

lemma accepted_new:
  "CacheState_source_id c = src \<Longrightarrow> CacheState_revision c < n \<Longrightarrow>
   accepted src n f c = f (c\<lparr>CacheState_revision := n\<rparr>)"
  by (simp add: accepted_def accept_revision_def)

lemma cached_states [simp]:
  "cached_user (user_state u) = view_of_user u" "UserState_id (user_state u) = User_ID u"
  "cached_session (session_state x) = view_of_session x" "SessionState_id (session_state x) = Session_ID x"
  "SessionState_expires_at (session_state x) = Some (Session_ExpiresAt x)"
  by (simp_all add: user_state_def cached_user_def view_of_user_def session_state_def cached_session_def view_of_session_def)

lemma map_ok_put: "map_ok m \<Longrightarrow> map_ok (map_put k v m)"
  by (auto simp: map_ok_def map_put_def comp_def case_prod_beta)

lemma map_ok_filter: "map_ok m \<Longrightarrow> map_ok (filter p m)"
  by (simp add: map_ok_def distinct_map_filter)

lemma apply_account_event:
  assumes "account_event (t, p)" "cache_ok c" "cursor c = (src, n)" "n < n'"
    and e: "Event_SourceID e = src" "Event_Revision e = n'" "Event_Type e = t" "Event_Payload e = p"
  shows "\<exists>c'. apply_event e c = Some c' \<and> cache_ok c' \<and> cursor c' = (src, n') \<and> cache_view c' = view_event (t, p) (cache_view c)"
proof (cases p)
  case (PUser u)
  then have "t = ''USER_UPDATED'' \<or> t = ''USER_DISABLED''" using assms(1) by (simp add: account_event_def account_kinds)
  then have "apply_event e c = Some (c\<lparr>CacheState_revision := n', CacheState_users := map_put (User_ID u) (user_state u) (CacheState_users c)\<rparr>)"
    using assms PUser by (auto simp: apply_event_def Let_def upsert_user_def accepted_new cursor_def)
  then show ?thesis using assms(2,3) PUser
    by (auto simp: cache_ok_def cursor_def cache_view_def map_get_put fun_eq_iff)
next
  case (PSession x)
  then have "t = ''SESSION_CREATED'' \<or> t = ''SESSION_REVOKED''" using assms(1) by (simp add: account_event_def account_kinds)
  then have "apply_event e c = Some (c\<lparr>CacheState_revision := n', CacheState_sessions := map_put (Session_ID x) (session_state x) (CacheState_sessions c)\<rparr>)"
    using assms PSession by (auto simp: apply_event_def Let_def upsert_session_def accepted_new cursor_def)
  then show ?thesis using assms(2,3) PSession
    by (auto simp: cache_ok_def cursor_def cache_view_def map_get_put fun_eq_iff map_ok_put)
next
  case (PUserRef i)
  then have "t = ''SESSION_REVOKED_ALL''" using assms(1) by (simp add: account_event_def account_kinds)
  then have "apply_event e c = Some (c\<lparr>CacheState_revision := n',
      CacheState_sessions := filter (\<lambda>(_, x). SessionState_user_id x \<noteq> i) (CacheState_sessions c)\<rparr>)"
    using assms PUserRef by (simp add: apply_event_def Let_def revoke_user_sessions_def accepted_new cursor_def)
  then show ?thesis using assms(2,3) PUserRef
    by (auto simp: cache_ok_def cursor_def cache_view_def map_get_filter fun_eq_iff map_ok_filter cached_session_def
        split: option.splits)
next
  case (PMembership m)
  then have "t = ''USER_GROUP_MEMBERSHIP_UPDATED''" using assms(1) by (simp add: account_event_def account_kinds)
  then obtain f where "apply_event e c = Some (CacheState_user_groups_update f (c\<lparr>CacheState_revision := n'\<rparr>))"
    using assms PMembership
    by (auto simp: apply_event_def Let_def upsert_user_group_membership_def accepted_new cursor_def)
  then show ?thesis using assms(2,3) PMembership by (auto simp: cache_ok_def cursor_def cache_view_def)
qed (use assms(1) in \<open>simp_all add: account_event_def\<close>)

section \<open>The events of a connection\<close>

abbreviation publish_all :: "(string \<times> payload) list \<Rightarrow> Hub \<Rightarrow> Hub" where
  "publish_all tps h \<equiv> foldl (\<lambda>h (t, p). Publish t p h) h tps"

text \<open>The events of a sequence of publications.\<close>

fun events_of :: "(string \<times> payload) list \<Rightarrow> Hub \<Rightarrow> Event list" where
  "events_of [] h = []"
| "events_of ((t, p) # tps) h = next_event t p h # events_of tps (Publish t p h)"

lemma Publish_simps [simp]:
  "Hub_sourceID (Publish t p h) = Hub_sourceID h" "Hub_revision (Publish t p h) = Hub_revision h + 1"
  by (simp_all add: Publish_eq)

lemma publish_all_simps [simp]:
  "Hub_sourceID (publish_all tps h) = Hub_sourceID h" "Hub_revision (publish_all tps h) = Hub_revision h + int (length tps)"
  by (induction tps arbitrary: h) (auto simp: case_prod_beta)

lemma length_events_of [simp]: "length (events_of tps h) = length tps"
  by (induction tps h rule: events_of.induct) auto

lemma events_of_snoc: "events_of (tps @ [(t, p)]) h = events_of tps h @ [next_event t p (publish_all tps h)]"
  by (induction tps h rule: events_of.induct) auto

lemma events_of_new: "e \<in> set (events_of tps h) \<Longrightarrow> Hub_revision h < Event_Revision e"
  by (induction tps h rule: events_of.induct) (force simp: next_event_def)+

text \<open>The history after the publications ends with their events.\<close>

lemma history_publish_all:
  assumes "length tps \<le> historyLimit"
  shows "\<exists>old. Hub_history (publish_all tps h) = old @ events_of tps h \<and> set old \<subseteq> set (Hub_history h)"
  using assms
proof (induction tps rule: rev_induct)
  case (snoc tp tps)
  obtain t p where tp: "tp = (t, p)" by (cases tp)
  let ?h = "publish_all tps h"
  obtain old where old: "Hub_history ?h = old @ events_of tps h" "set old \<subseteq> set (Hub_history h)" using snoc by auto
  let ?es = "old @ events_of (tps @ [tp]) h"
  have all: "Hub_history ?h @ [next_event t p ?h] = ?es" using old(1) by (simp add: tp events_of_snoc)
  have "length (events_of (tps @ [tp]) h) \<le> historyLimit" using snoc.prems by simp
  then have "trim_history ?es = drop (length ?es - historyLimit) old @ events_of (tps @ [tp]) h"
    by (auto simp: trim_history_def)
  moreover have "Hub_history (publish_all (tps @ [tp]) h) = trim_history ?es"
    using all by (simp add: tp Publish_eq)
  moreover have "set (drop (length ?es - historyLimit) old) \<subseteq> set (Hub_history h)"
    using old(2) by (auto dest: in_set_dropD)
  ultimately show ?case by (metis (no_types, lifting))
qed (use exI [of _ "Hub_history h"] in simp)

lemma backlog_exact:
  assumes "hub_past h" "length tps \<le> 1024"
  shows "snd (fst (SubscribeAfter (Hub_sourceID h) (Hub_revision h) (publish_all tps h))) = events_of tps h"
proof -
  obtain old where old: "Hub_history (publish_all tps h) = old @ events_of tps h" "set old \<subseteq> set (Hub_history h)"
    using history_publish_all [of tps h] assms(2) unfolding historyLimit_def by blast
  have "set (map Event_Revision (Hub_history h)) \<subseteq> {..Hub_revision h}" using assms(1) by (auto simp: hub_past_def)
  then have "\<forall>e\<in>set old. \<not> Hub_revision h < Event_Revision e" using old(2) by force
  moreover have "\<forall>e\<in>set (events_of tps h). Hub_revision h < Event_Revision e" using events_of_new by blast
  ultimately show ?thesis by (simp add: SubscribeAfter_def Let_def old(1) filter_id_conv)
qed

lemma consume_account_events:
  assumes "list_all account_event tps" "cache_ok c" "cursor c = (Hub_sourceID h, Hub_revision h)"
  shows "\<exists>c'. consume (events_of tps h) c = (True, c') \<and> cache_ok c' \<and>
    cursor c' = (Hub_sourceID h, Hub_revision h + int (length tps)) \<and> cache_view c' = fold view_event tps (cache_view c)"
  using assms
proof (induction tps h arbitrary: c rule: events_of.induct)
  case (2 t p tps h)
  obtain c1 where c1: "apply_event (next_event t p h) c = Some c1" "cache_ok c1"
    "cursor c1 = (Hub_sourceID h, Hub_revision h + 1)" "cache_view c1 = view_event (t, p) (cache_view c)"
    using apply_account_event [of t p c "Hub_sourceID h" "Hub_revision h" "Hub_revision h + 1" "next_event t p h"] "2.prems"
    by (auto simp: next_event_def)
  then obtain c2 where "consume (events_of tps (Publish t p h)) c1 = (True, c2)" "cache_ok c2"
    "cursor c2 = (Hub_sourceID h, Hub_revision h + 1 + int (length tps))" "cache_view c2 = fold view_event tps (cache_view c1)"
    using "2.IH" [of c1] "2.prems"(1) by auto
  then show ?case using c1 by (simp add: algebra_simps)
qed auto

section \<open>Acceptance\<close>

text \<open>The view agrees with the tables: every user and every live session that had not expired at \<open>t0\<close>
  is cached as it is stored, and nothing else is cached as enabled or as live.\<close>

definition users_agree :: "(string \<Rightarrow> user_view option) \<Rightarrow> users_row list \<Rightarrow> bool" where
  "users_agree U rs \<longleftrightarrow> (\<forall>r\<in>set rs. U (users_id r) = Some (view_of_user (scanUser r))) \<and>
     (\<forall>i v. U i = Some v \<longrightarrow> fst v \<longrightarrow> (\<exists>r\<in>set rs. users_id r = i))"

definition sessions_agree :: "instant \<Rightarrow> (string \<Rightarrow> session_view option) \<Rightarrow> sessions_row list \<Rightarrow> bool" where
  "sessions_agree t0 S xs \<longleftrightarrow>
     (\<forall>x\<in>set xs. sessions_revoked_at x = None \<longrightarrow> millis t0 < sessions_expires_at x \<longrightarrow>
        S (sessions_id x) = Some (view_of_session (scanSession x))) \<and>
     (\<forall>j u e. S j = Some (u, e, False) \<longrightarrow> (\<exists>x\<in>set xs. sessions_id x = j \<and>
        sessions_revoked_at x = None \<and> sessions_user_id x = u \<and> sessions_expires_at x = e))"

definition in_step :: "instant \<Rightarrow> view \<Rightarrow> db \<Rightarrow> bool" where
  "in_step t0 V d \<longleftrightarrow> users_agree (fst V) (db_users d) \<and> sessions_agree t0 (snd V) (db_sessions d)"

text \<open>The rows that the claims need are live, the user is approved, and the token and the session have
  at least one more whole second.\<close>

definition hbbs_live :: "db \<Rightarrow> int \<Rightarrow> JwtClaims \<Rightarrow> users_row \<Rightarrow> sessions_row \<Rightarrow> bool" where
  "hbbs_live d now claims u x \<longleftrightarrow>
     u \<in> set (db_users d) \<and> users_id u = Jwt_sub claims \<and> users_enabled u \<and> users_approval_status u = ApprovalApproved \<and>
     users_token_version u = Jwt_token_version claims \<and>
     x \<in> set (db_sessions d) \<and> sessions_id x = Jwt_sid claims \<and> sessions_revoked_at x = None \<and>
     sessions_user_id x = users_id u \<and> now < Jwt_exp claims \<and> now < unix_timestamp (fromMillis (sessions_expires_at x))"

lemma unix_timestamp_millis: "unix_timestamp (fromMillis (millis t)) = unix_timestamp t"
proof -
  have "t div 1000000 * 1000000 div 1000000000 = t div 1000000000"
    using zdiv_zmult2_eq [of 1000 t 1000000] by simp
  then show ?thesis by (simp add: unix_timestamp_def fromMillis_def millis_def Second_def)
qed

lemma authorize_claims_cached:
  fixes now :: int
  assumes "map_get (CacheState_users c) (Jwt_sub claims) = Some user" "map_get (CacheState_sessions c) (Jwt_sid claims) = Some x"
    "SessionState_expires_at x = Some t"
  defines "ok \<equiv> UserState_enabled user \<and> UserState_approval_status user = ''approved'' \<and> SessionState_user_id x = UserState_id user \<and>
    SessionState_revoked_at x = None \<and> UserState_token_version user = Jwt_token_version claims \<and> now < Jwt_exp claims \<and>
    now < unix_timestamp t"
  shows "ok \<Longrightarrow> \<exists>dec. authorize_claims c now claims = Inr dec \<and> AuthDecision_user_id dec = UserState_id user \<and>
      AuthDecision_role dec = UserState_role user"
    and "authorize_claims c now claims = Inr dec \<Longrightarrow> ok"
  using assms(1-3) unfolding ok_def authorize_claims_def by (simp, simp split: if_split_asm)

lemma authorize_claims_view:
  assumes "cache_ok c"
  shows "(\<exists>dec. authorize_claims c now claims = Inr dec \<and> AuthDecision_user_id dec = Jwt_sub claims \<and> AuthDecision_role dec = role) \<longleftrightarrow>
    (\<exists>e. fst (cache_view c) (Jwt_sub claims) = Some (True, ''approved'', Jwt_token_version claims, role) \<and>
      snd (cache_view c) (Jwt_sid claims) = Some (Jwt_sub claims, e, False) \<and> now < Jwt_exp claims \<and>
      now < unix_timestamp (fromMillis e))" (is "?l \<longleftrightarrow> ?r")
proof (cases "map_get (CacheState_users c) (Jwt_sub claims)")
  case user: (Some user)
  then have i: "UserState_id user = Jwt_sub claims" using assms by (simp add: cache_ok_def)
  show ?thesis
  proof (cases "map_get (CacheState_sessions c) (Jwt_sid claims)")
    case None
    then have "authorize_claims c now claims \<noteq> Inr dec" for dec using user by (simp add: authorize_claims_def)
    then show ?thesis using None by (simp add: cache_view_def)
  next
    case session: (Some x)
    then obtain t where t: "SessionState_expires_at x = Some t" using assms unfolding cache_ok_def by blast
    let ?ok = "UserState_enabled user \<and> UserState_approval_status user = ''approved'' \<and> SessionState_user_id x = UserState_id user \<and>
      SessionState_revoked_at x = None \<and> UserState_token_version user = Jwt_token_version claims \<and> now < Jwt_exp claims \<and>
      now < unix_timestamp t"
    have r: "?r \<longleftrightarrow> ?ok \<and> UserState_role user = role"
      using user session t i unfolding cache_view_def cached_user_def cached_session_def
      by (simp add: unix_timestamp_millis) blast
    note cached = authorize_claims_cached [OF user session t, of now]
    show ?thesis
    proof (cases ?ok)
      case True
      then show ?thesis using cached(1) r i by fastforce
    next
      case False
      then show ?thesis using cached(2) r by fastforce
    qed
  qed
next
  case None
  then have "authorize_claims c now claims \<noteq> Inr dec" for dec by (simp add: authorize_claims_def)
  then show ?thesis using None by (simp add: cache_view_def)
qed

lemma not_expired_before:
  assumes "t0 \<le> now * Second" "now < unix_timestamp (fromMillis e)"
  shows "millis t0 < e"
proof -
  have "e * 1000000 div 1000000000 = e div 1000" using div_mult_mult2 [of 1000000 e 1000] by simp
  then have "now < e div 1000" using assms(2) by (simp add: unix_timestamp_def fromMillis_def Second_def)
  then have "now * 1000 < e" by linarith
  moreover have "millis t0 \<le> now * 1000" using millis_mono [OF assms(1)] by (simp add: millis_def Second_def)
  ultimately show ?thesis by simp
qed

lemma in_stepD:
  assumes "in_step t0 V d"
  shows "r \<in> set (db_users d) \<Longrightarrow> fst V (users_id r) = Some (view_of_user (scanUser r))"
    and "fst V i = Some v \<Longrightarrow> fst v \<Longrightarrow> \<exists>r\<in>set (db_users d). users_id r = i"
    and "x \<in> set (db_sessions d) \<Longrightarrow> sessions_revoked_at x = None \<Longrightarrow> millis t0 < sessions_expires_at x \<Longrightarrow>
      snd V (sessions_id x) = Some (view_of_session (scanSession x))"
    and "snd V j = Some (u, e, False) \<Longrightarrow> \<exists>x\<in>set (db_sessions d). sessions_id x = j \<and>
      sessions_revoked_at x = None \<and> sessions_user_id x = u \<and> sessions_expires_at x = e"
  using assms unfolding in_step_def users_agree_def sessions_agree_def by blast+

lemma in_step_accepts:
  assumes step: "in_step t0 V d" and t0: "t0 \<le> now * Second"
  shows "(\<exists>e. fst V (Jwt_sub claims) = Some (True, ''approved'', Jwt_token_version claims, role) \<and>
      snd V (Jwt_sid claims) = Some (Jwt_sub claims, e, False) \<and> now < Jwt_exp claims \<and> now < unix_timestamp (fromMillis e)) \<longleftrightarrow>
    (\<exists>u x. hbbs_live d now claims u x \<and> users_role u = role)"
proof
  assume "\<exists>e. fst V (Jwt_sub claims) = Some (True, ''approved'', Jwt_token_version claims, role) \<and>
      snd V (Jwt_sid claims) = Some (Jwt_sub claims, e, False) \<and> now < Jwt_exp claims \<and> now < unix_timestamp (fromMillis e)"
  then obtain e where e: "fst V (Jwt_sub claims) = Some (True, ''approved'', Jwt_token_version claims, role)"
    "snd V (Jwt_sid claims) = Some (Jwt_sub claims, e, False)" "now < Jwt_exp claims" "now < unix_timestamp (fromMillis e)" by blast
  from in_stepD(2) [OF step e(1)] obtain u where u: "u \<in> set (db_users d)" "users_id u = Jwt_sub claims" by auto
  from in_stepD(1) [OF step u(1)] e(1) u(2)
  have view: "(users_enabled u, users_approval_status u, users_token_version u, users_role u)
      = (True, ''approved'', Jwt_token_version claims, role)" by (simp add: view_of_user_def)
  from in_stepD(4) [OF step e(2)] obtain x where x: "x \<in> set (db_sessions d)" "sessions_id x = Jwt_sid claims"
    "sessions_revoked_at x = None" "sessions_user_id x = Jwt_sub claims" "sessions_expires_at x = e" by blast
  have "hbbs_live d now claims u x" using e(3,4) u x view by (simp add: hbbs_live_def)
  then show "\<exists>u x. hbbs_live d now claims u x \<and> users_role u = role" using view by blast
next
  assume "\<exists>u x. hbbs_live d now claims u x \<and> users_role u = role"
  then obtain u x where live: "hbbs_live d now claims u x" "users_role u = role" by blast
  then have "millis t0 < sessions_expires_at x" using not_expired_before [OF t0] by (simp add: hbbs_live_def)
  then have "fst V (users_id u) = Some (view_of_user (scanUser u))" "snd V (sessions_id x) = Some (view_of_session (scanSession x))"
    using live(1) unfolding hbbs_live_def by (blast intro: in_stepD(1,3) [OF step])+
  then show "\<exists>e. fst V (Jwt_sub claims) = Some (True, ''approved'', Jwt_token_version claims, role) \<and>
      snd V (Jwt_sid claims) = Some (Jwt_sub claims, e, False) \<and> now < Jwt_exp claims \<and> now < unix_timestamp (fromMillis e)"
    using live by (simp add: hbbs_live_def view_of_user_def view_of_session_def)
qed

end
