(* ===== verification/Coherence.thy ===== *)
theory Coherence
  imports Hbbs_Sync
begin

text \<open>
  The authorization cache and the account tables, operation by operation: when no statement
  fails, the events that an operation of the account service publishes make the cache agree
  with the tables as the operation leaves them.
\<close>

section \<open>Changes of the tables and their events\<close>

text \<open>What the cache sees of a row.\<close>

definition user_key :: "users_row \<Rightarrow> string \<times> user_view" where
  "user_key r = (users_id r, view_of_user (scanUser r))"

definition session_key :: "sessions_row \<Rightarrow> string \<times> string \<times> int \<times> int option" where
  "session_key x = (sessions_id x, sessions_user_id x, sessions_expires_at x, sessions_revoked_at x)"

lemma users_agree_cong:
  assumes "users_agree U rs" "user_key ` set rs' = user_key ` set rs"
  shows "users_agree U rs'"
proof -
  have "user_key r' \<in> user_key ` set rs" if "r' \<in> set rs'" for r' using that assms(2) by blast
  then have "\<exists>r\<in>set rs. users_id r' = users_id r \<and> view_of_user (scanUser r') = view_of_user (scanUser r)" if "r' \<in> set rs'" for r'
    using that by (fastforce simp: user_key_def)
  moreover have "user_key r \<in> user_key ` set rs'" if "r \<in> set rs" for r using that assms(2) by blast
  then have "\<exists>r'\<in>set rs'. users_id r' = users_id r" if "r \<in> set rs" for r
    using that by (fastforce simp: user_key_def)
  ultimately show ?thesis using assms(1) unfolding users_agree_def by metis
qed

lemma sessions_agree_cong:
  assumes "sessions_agree t0 S xs" "session_key ` set xs' = session_key ` set xs"
  shows "sessions_agree t0 S xs'"
proof -
  have key: "session_key x = session_key y \<longleftrightarrow> sessions_id x = sessions_id y \<and> sessions_user_id x = sessions_user_id y \<and>
      sessions_expires_at x = sessions_expires_at y \<and> sessions_revoked_at x = sessions_revoked_at y" for x y
    by (simp add: session_key_def)
  have a: "\<exists>x\<in>set xs. session_key x = session_key x'" if "x' \<in> set xs'" for x' using that assms(2) by (metis image_iff)
  have b: "\<exists>x'\<in>set xs'. session_key x = session_key x'" if "x \<in> set xs" for x using that assms(2) by (metis image_iff)
  show ?thesis unfolding sessions_agree_def
  proof (intro conjI ballI impI allI)
    fix x' assume x': "x' \<in> set xs'" "sessions_revoked_at x' = None" "millis t0 < sessions_expires_at x'"
    with a obtain x where "x \<in> set xs" "session_key x = session_key x'" by blast
    with x' assms(1) show "S (sessions_id x') = Some (view_of_session (scanSession x'))"
      by (auto simp: key sessions_agree_def view_of_session_def)
  next
    fix j u e assume "S j = Some (u, e, False)"
    with assms(1) obtain x where "x \<in> set xs" "sessions_id x = j" "sessions_revoked_at x = None" "sessions_user_id x = u"
      "sessions_expires_at x = e" unfolding sessions_agree_def by blast
    with b show "\<exists>x\<in>set xs'. sessions_id x = j \<and> sessions_revoked_at x = None \<and> sessions_user_id x = u \<and> sessions_expires_at x = e"
      unfolding key by metis
  qed
qed

text \<open>A change of one user, with the event of that user.\<close>

lemma users_agree_update:
  assumes "users_agree U rs" "distinct (map users_id rs)" "r \<in> set rs" "\<And>r. users_id (f r) = users_id r"
  shows "users_agree (U(users_id r \<mapsto> view_of_user (scanUser (f r)))) (upd_where (\<lambda>x. users_id x = users_id r) f rs)"
proof -
  have "x = r" if "x \<in> set rs" "users_id x = users_id r" for x using that assms(2,3) distinct_keyD by metis
  moreover have ids: "(\<exists>x\<in>set (upd_where (\<lambda>x. users_id x = users_id r) f rs). users_id x = i) \<longleftrightarrow> (\<exists>x\<in>set rs. users_id x = i)" for i
    unfolding bex_upd_where by (rule bex_cong) (simp_all add: assms(4))
  ultimately show ?thesis using assms(1,3,4) unfolding users_agree_def ids by (auto simp: ball_upd_where)
qed

lemma users_agree_insert:
  assumes "users_agree U rs" "\<forall>x\<in>set rs. users_id x \<noteq> users_id r"
  shows "users_agree (U(users_id r \<mapsto> view_of_user (scanUser r))) (rs @ [r])"
  using assms by (auto simp: users_agree_def)

lemma users_agree_delete:
  assumes "users_agree U rs" "\<not> fst v"
  shows "users_agree (U(i \<mapsto> v)) (filter (\<lambda>r. users_id r \<noteq> i) rs)"
  using assms by (force simp: users_agree_def simp del: split_paired_All)

text \<open>The sessions of a user are revoked, or removed, and forgotten.\<close>

definition forget :: "string \<Rightarrow> (string \<Rightarrow> session_view option) \<Rightarrow> string \<Rightarrow> session_view option" where
  "forget i S = (\<lambda>j. case S j of Some (u, e, r) \<Rightarrow> if u = i then None else Some (u, e, r) | None \<Rightarrow> None)"

lemma forget_Some: "forget i S j = Some (u, e, r) \<longleftrightarrow> S j = Some (u, e, r) \<and> u \<noteq> i"
  by (auto simp: forget_def split: option.splits)

lemma sessions_agree_revoke_all:
  assumes "sessions_agree t0 S xs"
  shows "sessions_agree t0 (forget i S) (upd_where (\<lambda>x. sessions_user_id x = i \<and> sessions_revoked_at x = None)
     (\<lambda>x. x\<lparr>sessions_revoked_at := Some now\<rparr>) xs)"
  unfolding sessions_agree_def
proof (intro conjI allI impI)
  fix j u e assume "forget i S j = Some (u, e, False)"
  then have "S j = Some (u, e, False)" "u \<noteq> i" by (simp_all add: forget_Some)
  with assms obtain x where "x \<in> set xs" "sessions_id x = j \<and> sessions_revoked_at x = None \<and> sessions_user_id x = u \<and> sessions_expires_at x = e"
    unfolding sessions_agree_def by blast
  with \<open>u \<noteq> i\<close> show "\<exists>x\<in>set (upd_where (\<lambda>x. sessions_user_id x = i \<and> sessions_revoked_at x = None)
      (\<lambda>x. x\<lparr>sessions_revoked_at := Some now\<rparr>) xs). sessions_id x = j \<and> sessions_revoked_at x = None \<and> sessions_user_id x = u \<and>
      sessions_expires_at x = e"
    by (intro bexI [of _ x]) (auto intro: upd_where_miss)
qed (use assms in \<open>auto simp: sessions_agree_def ball_upd_where view_of_session_def forget_Some\<close>)

lemma sessions_agree_delete:
  assumes "sessions_agree t0 S xs"
  shows "sessions_agree t0 (forget i S) (filter (\<lambda>x. sessions_user_id x \<noteq> i) xs)"
  unfolding sessions_agree_def
proof (intro conjI allI impI)
  fix j u e assume "forget i S j = Some (u, e, False)"
  then have "S j = Some (u, e, False)" "u \<noteq> i" by (simp_all add: forget_Some)
  with assms obtain x where "x \<in> set xs" "sessions_id x = j \<and> sessions_revoked_at x = None \<and> sessions_user_id x = u \<and> sessions_expires_at x = e"
    unfolding sessions_agree_def by blast
  with \<open>u \<noteq> i\<close> show "\<exists>x\<in>set (filter (\<lambda>x. sessions_user_id x \<noteq> i) xs). sessions_id x = j \<and> sessions_revoked_at x = None \<and>
      sessions_user_id x = u \<and> sessions_expires_at x = e" by auto
qed (use assms in \<open>auto simp: sessions_agree_def view_of_session_def forget_Some\<close>)

lemma sessions_agree_insert:
  assumes "sessions_agree t0 S xs" "\<forall>y\<in>set xs. sessions_id y \<noteq> sessions_id x"
  shows "sessions_agree t0 (S(sessions_id x \<mapsto> view_of_session (scanSession x))) (xs @ [x])"
  using assms unfolding sessions_agree_def by (auto simp: view_of_session_def)

lemma sessions_agree_insert_revoked:
  assumes "sessions_agree t0 S xs" "sessions_revoked_at x \<noteq> None"
  shows "sessions_agree t0 S (xs @ [x])"
  using assms unfolding sessions_agree_def by auto

lemma sessions_agree_revoke:
  fixes now :: int
  assumes "sessions_agree t0 S xs" "distinct (map sessions_id xs)" "x \<in> set xs" "sessions_revoked_at x = None"
  defines "revoke \<equiv> \<lambda>x. x\<lparr>sessions_revoked_at := Some now\<rparr>"
  shows "sessions_agree t0 (S(sessions_id x \<mapsto> view_of_session (scanSession (revoke x))))
     (upd_where (\<lambda>y. sessions_id y = sessions_id x \<and> sessions_revoked_at y = None) revoke xs)"
  unfolding sessions_agree_def
proof (intro conjI allI impI)
  fix j u e assume S: "(S(sessions_id x \<mapsto> view_of_session (scanSession (revoke x)))) j = Some (u, e, False)"
  then have "S j = Some (u, e, False)" "j \<noteq> sessions_id x" by (auto simp: view_of_session_def revoke_def split: if_splits)
  with assms(1) obtain y where "y \<in> set xs" "sessions_id y = j \<and> sessions_revoked_at y = None \<and> sessions_user_id y = u \<and> sessions_expires_at y = e"
    unfolding sessions_agree_def by blast
  with \<open>j \<noteq> sessions_id x\<close> show "\<exists>y\<in>set (upd_where (\<lambda>y. sessions_id y = sessions_id x \<and> sessions_revoked_at y = None) revoke xs).
      sessions_id y = j \<and> sessions_revoked_at y = None \<and> sessions_user_id y = u \<and> sessions_expires_at y = e"
    by (intro bexI [of _ y]) (auto intro: upd_where_miss)
qed (use assms(1) in \<open>auto simp: sessions_agree_def ball_upd_where revoke_def\<close>)

section \<open>Operations\<close>

text \<open>No statement fails, and the account tables are well-formed.\<close>

definition quiet :: "server \<Rightarrow> bool" where
  "quiet st \<longleftrightarrow> db_faults (srv_db st) = [] \<and> accounts_wf (srv_db st)"

text \<open>Whatever view agreed with the tables before agrees with them afterwards, once the events published
  meanwhile are applied to it.\<close>

definition follows :: "instant \<Rightarrow> server \<Rightarrow> server \<Rightarrow> bool" where
  "follows t0 st st' \<longleftrightarrow> (quiet st \<longrightarrow> quiet st' \<and> (\<exists>tps. list_all account_event tps \<and>
     srv_hub st' = publish_all tps (srv_hub st) \<and>
     (\<forall>V. in_step t0 V (srv_db st) \<longrightarrow> in_step t0 (fold view_event tps V) (srv_db st'))))"

lemma follows_refl: "follows t0 st st"
  unfolding follows_def by (intro impI conjI exI [of _ "[]"]) simp_all

lemma follows_trans:
  assumes "follows t0 a b" "follows t0 b c"
  shows "follows t0 a c"
  unfolding follows_def
proof
  assume "quiet a"
  with assms(1) obtain es where b: "quiet b" "list_all account_event es" "srv_hub b = publish_all es (srv_hub a)"
    "\<forall>V. in_step t0 V (srv_db a) \<longrightarrow> in_step t0 (fold view_event es V) (srv_db b)" unfolding follows_def by blast
  with assms(2) obtain es' where "quiet c" "list_all account_event es'" "srv_hub c = publish_all es' (srv_hub b)"
    "\<forall>V. in_step t0 V (srv_db b) \<longrightarrow> in_step t0 (fold view_event es' V) (srv_db c)" unfolding follows_def by blast
  with b show "quiet c \<and> (\<exists>tps. list_all account_event tps \<and> srv_hub c = publish_all tps (srv_hub a) \<and>
      (\<forall>V. in_step t0 V (srv_db a) \<longrightarrow> in_step t0 (fold view_event tps V) (srv_db c)))"
    by (intro conjI exI [of _ "es @ es'"]) (simp_all del: split_paired_All)
qed

interpretation fol: step_rel "follows t0" for t0
  by unfold_locales (rule follows_refl, rule follows_trans)

text \<open>A statement that does not fail leaves no failure behind.\<close>

definition faultless :: "db \<Rightarrow> db \<Rightarrow> bool" where
  "faultless d d' \<longleftrightarrow> (db_faults d = [] \<longrightarrow> db_faults d' = [])"

interpretation flt: step_rel faultless
  by unfold_locales (simp_all add: faultless_def)

lemma faultless_stmt:
  "(\<And>d a d'. f d = Inr (a, d') \<Longrightarrow> db_faults d' = db_faults d) \<Longrightarrow> steps faultless (stmt f)"
  by (rule stepsI) (fastforce simp: faultless_def stmt_run split: sum.splits)

lemma faultless_transaction:
  assumes "steps faultless m"
  shows "steps faultless (transaction m)"
proof (rule stepsI)
  fix d
  obtain r d1 where "m d = (r, d1)" by fastforce
  with stepsD [OF assms this] show "faultless d (snd (transaction m d))"
    by (auto simp: faultless_def transaction_run stmt_run split: sum.splits)
qed

lemma faultless_statements:
  assumes "\<And>g d. db_faults (upd g d) = db_faults d"
  shows "steps faultless (exec_insert upd ok r)" "steps faultless (exec_upsert sel upd same ok merge r)"
    "steps faultless (exec_update sel upd p f)" "steps faultless (update_returning sel upd p f)"
    "steps faultless (update_returning_unique sel upd un p f)" "steps faultless (exec_delete sel upd q)"
    "steps faultless (exec_delete_restrict sel upd refd p)" "steps faultless (delete_returning sel upd p)"
  unfolding exec_insert_def exec_upsert_def exec_update_def update_returning_def update_returning_unique_def exec_delete_def
    exec_delete_restrict_def delete_returning_def
  by (rule faultless_stmt, auto simp: assms split: if_splits list.splits)+

lemma faultless_queries: "steps faultless (query f)" "steps faultless (query_row g)"
  unfolding query_def query_row_def by (rule faultless_stmt, auto split: option.splits)+

lemmas faultless_intros = faultless_transaction faultless_statements faultless_queries flt.steps_intros

lemma faultless_store:
  "steps faultless (CreateUser u)" "steps faultless (CreateRegisteredUser u)" "steps faultless (CreateSession x)"
  "steps faultless (update_user i f)" "steps faultless (SetUserApproval i approval now)" "steps faultless (UpdateUser i input now)"
  "steps faultless (DeleteUser i)" "steps faultless (UpdateLastLogin i now)" "steps faultless (SetUserGroupMember g i b now)"
  "steps faultless (TouchSession i now)" "steps faultless (RevokeSession i now)" "steps faultless (RevokeUserSessions i now)"
  "steps faultless (CreateOIDCIdentity idn)"
  unfolding CreateUser_def CreateRegisteredUser_def CreateSession_def update_user_def SetUserApproval_def UpdateUser_def DeleteUser_def
    UpdateLastLogin_def SetUserGroupMember_def TouchSession_def RevokeSession_def RevokeUserSessions_def CreateOIDCIdentity_def
    insert_user_def insert_member_def select_role_def refuse_last_admin_def join_user_group_def revoke_sessions_of_def
    delete_user_rows_def delete_user_books_def scan_found_def affected_def execute_def Let_def
  by (intro faultless_intros; simp)+

lemma faultless_reads:
  "steps faultless (FindUserByUsername n)" "steps faultless (FindUserByID i)" "steps faultless (FindSession i)"
  "steps faultless (FindRoleByID role)" "steps faultless (FindGroupByID i)" "steps faultless (FindOIDCIdentity p sub)"
  "steps faultless ListUserGroupMemberships"
  unfolding FindUserByUsername_def FindUserByID_def FindSession_def FindRoleByID_def
    FindGroupByID_def FindOIDCIdentity_def ListUserGroupMemberships_def scan_found_def
  by (intro faultless_intros)+

text \<open>What the cache sees is not changed.\<close>

definition same_accounts :: "db \<Rightarrow> db \<Rightarrow> bool" where
  "same_accounts d d' \<longleftrightarrow> map user_key (db_users d') = map user_key (db_users d) \<and>
     map session_key (db_sessions d') = map session_key (db_sessions d)"

interpretation sac: db_rel same_accounts
  by unfold_locales (simp_all add: same_accounts_def set_faults_def)

lemma in_step_same:
  assumes "in_step t0 V d" "same_accounts d d'"
  shows "in_step t0 V d'"
proof -
  have "set (map user_key (db_users d')) = set (map user_key (db_users d))"
    "set (map session_key (db_sessions d')) = set (map session_key (db_sessions d))"
    using assms(2) by (simp_all only: same_accounts_def)
  then have "user_key ` set (db_users d') = user_key ` set (db_users d)"
    "session_key ` set (db_sessions d') = session_key ` set (db_sessions d)" by (simp_all only: set_map)
  then show ?thesis using assms(1) unfolding in_step_def by (auto elim: users_agree_cong sessions_agree_cong)
qed

abbreviation anyone :: "string \<Rightarrow> bool" where "anyone \<equiv> \<lambda>_. True"

lemma follows_silent:
  assumes "steps (account_run anyone anyone) m" "steps faultless m" "steps same_accounts m"
  shows "steps (follows t0) (sql m)"
proof (rule stepsI)
  fix st :: server
  obtain r d where m: "m (srv_db st) = (r, d)" by fastforce
  have "accounts_wf (srv_db st) \<Longrightarrow> accounts_wf d" by (rule account_run_wf [OF stepsD [OF assms(1) m]])
  moreover have "faultless (srv_db st) d" "same_accounts (srv_db st) d" using stepsD [OF assms(2) m] stepsD [OF assms(3) m] by auto
  ultimately show "follows t0 st (snd (sql m st))"
    using in_step_same [of t0 _ "srv_db st" d]
    by (auto simp: follows_def quiet_def faultless_def sql_run m simp del: split_paired_All intro!: exI [of _ "[]"])
qed

lemma same_accounts_updates:
  "same_accounts d (db_user_group_memberships_update g d)" "same_accounts d (db_oidc_identities_update h d)"
  "(\<And>r. user_key (f r) = user_key r) \<Longrightarrow> same_accounts d (db_users_update (upd_where p f) d)"
  "(\<And>x. session_key (k x) = session_key x) \<Longrightarrow> same_accounts d (db_sessions_update (upd_where q k) d)"
  by (simp_all add: same_accounts_def upd_where_map_key)

lemma same_accounts_store:
  "steps same_accounts (SetUserGroupMember g i b now)" "steps same_accounts (CreateOIDCIdentity idn)"
  "steps same_accounts (UpdateLastLogin i now)" "steps same_accounts (TouchSession i now)"
  unfolding SetUserGroupMember_def CreateOIDCIdentity_def UpdateLastLogin_def TouchSession_def
  by (intro sac.db_intros same_accounts_updates; simp add: user_key_def view_of_user_def session_key_def)+

lemma same_accounts_reads:
  "steps same_accounts (FindUserByUsername n)" "steps same_accounts (FindUserByID i)" "steps same_accounts (FindSession i)"
  "steps same_accounts (FindRoleByID role)" "steps same_accounts (FindGroupByID i)" "steps same_accounts (FindOIDCIdentity p sub)"
  "steps same_accounts ListUserGroupMemberships"
  unfolding FindUserByUsername_def FindUserByID_def FindSession_def FindRoleByID_def
    FindGroupByID_def FindOIDCIdentity_def ListUserGroupMemberships_def
  by (intro sac.basic_intros)+

lemmas follows_quietly = follows_silent [OF reads_run(1) faultless_reads(1) same_accounts_reads(1)]
  follows_silent [OF reads_run(2) faultless_reads(2) same_accounts_reads(2)]
  follows_silent [OF reads_run(3) faultless_reads(3) same_accounts_reads(3)]
  follows_silent [OF reads_run(4) faultless_reads(4) same_accounts_reads(4)]
  follows_silent [OF reads_run(5) faultless_reads(5) same_accounts_reads(5)]
  follows_silent [OF reads_run(6) faultless_reads(6) same_accounts_reads(6)]
  follows_silent [OF reads_run(7) faultless_reads(7) same_accounts_reads(7)]
  follows_silent [OF account_runs(11) faultless_store(9) same_accounts_store(1)]
  follows_silent [OF account_runs(15) faultless_store(13) same_accounts_store(2)]
  follows_silent [OF account_runs(10) faultless_store(8) same_accounts_store(3)]
  follows_silent [OF account_runs(12) faultless_store(10) same_accounts_store(4)]

section \<open>Effects of the store\<close>

text \<open>One user changes, the sessions do not.\<close>

definition user_changed :: "db \<Rightarrow> User \<Rightarrow> db \<Rightarrow> bool" where
  "user_changed d u d' \<longleftrightarrow> (\<exists>r f. r \<in> set (db_users d) \<and> (\<forall>r. users_id (f r) = users_id r) \<and> u = scanUser (f r) \<and>
     db_users d' = upd_where (\<lambda>x. users_id x = users_id r) f (db_users d)) \<and> db_sessions d' = db_sessions d"

abbreviation revoke_all :: "string \<Rightarrow> int \<Rightarrow> sessions_row list \<Rightarrow> sessions_row list" where
  "revoke_all i t \<equiv> upd_where (\<lambda>x. sessions_user_id x = i \<and> sessions_revoked_at x = None) (\<lambda>x. x\<lparr>sessions_revoked_at := Some t\<rparr>)"

definition same_core :: "db \<Rightarrow> db \<Rightarrow> bool" where
  "same_core d d' \<longleftrightarrow> db_users d' = db_users d \<and> db_sessions d' = db_sessions d"

interpretation cor: db_rel same_core
  by unfold_locales (simp_all add: same_core_def set_faults_def)

lemma same_core_memberships: "same_core d (db_user_group_memberships_update g d)"
  by (simp add: same_core_def)

lemma update_user_effect:
  assumes "update_user i f d = (Inr u, d')" "\<And>r. users_id (f r) = users_id r"
  shows "user_changed d u d'"
proof -
  from assms(1) obtain r rs fs where r: "filter (\<lambda>r. users_id r = i) (db_users d) = r # rs" "u = scanUser (f r)"
    "d' = db_users_update (upd_where (\<lambda>r. users_id r = i) f) (set_faults fs d)"
    by (auto simp: update_user_def scan_found_Inr_iff update_returning_def set_faults_def stmt_def Let_def split: list.splits if_splits sum.splits)
  have "r \<in> set (filter (\<lambda>r. users_id r = i) (db_users d))" by (simp add: r(1))
  then have "r \<in> set (db_users d)" "users_id r = i" by simp_all
  with r assms(2) show ?thesis by (auto simp: user_changed_def set_faults_def)
qed

lemma user_changed_core: "user_changed d u d1 \<Longrightarrow> same_core d1 d' \<Longrightarrow> user_changed d u d'"
  by (simp add: user_changed_def same_core_def)

lemma user_changed_from: "same_core d d0 \<Longrightarrow> user_changed d0 u d' \<Longrightarrow> user_changed d u d'"
  by (simp add: user_changed_def same_core_def)

lemma same_core_tables: "same_tables d d' \<Longrightarrow> same_core d d'"
  by (erule same_tablesE) (metis cor.rel_faults)

lemma same_core_set_faults [simp]: "same_core (set_faults fs d) d' = same_core d d'" "same_core d (set_faults fs d') = same_core d d'"
  by (simp_all add: same_core_def set_faults_def)

lemma SetUserApproval_effect:
  assumes "SetUserApproval i approval now d = (Inr u, d')"
  shows "user_changed d u d'"
proof -
  let ?f = "\<lambda>r. r\<lparr>users_approval_status := approval, users_updated_at := millis now\<rparr>"
  let ?rest = "\<lambda>user. thenE (exec_delete db_user_group_memberships db_user_group_memberships_update (\<lambda>_ x. user_group_memberships_user_id x = i \<and>
      user_group_memberships_group_id x \<in> {PendingUsersGroupID, ApprovedUsersGroupID}))
    (let groupID = (if approval = ApprovalPending then PendingUsersGroupID
        else if approval = ApprovalApproved then ApprovedUsersGroupID else [])
      in thenE (whenE (groupID \<noteq> []) (insert_member groupID i now)) (ret user))"
  from assms [unfolded SetUserApproval_def] obtain fs d1 gs user d0 where
    d0: "update_user i ?f (set_faults fs d) = (Inr user, d0)" and rest: "?rest user d0 = (Inr u, d1)" and d': "d' = set_faults gs d1"
    by (elim transaction_InrE) (auto simp: bindE_Inr_iff)
  have "u = user" using rest by (auto simp: thenE_Inr_iff Let_def)
  moreover have "user_changed (set_faults fs d) user d0" by (rule update_user_effect [OF d0]) simp
  moreover have "steps same_core (?rest user)"
    unfolding insert_member_def Let_def by (intro cor.db_intros same_core_memberships)
  from stepsD [OF this rest] have "same_core d0 d'" by (simp add: d')
  ultimately show ?thesis using user_changed_core user_changed_from same_core_set_faults(2) cor.step_refl by metis
qed

lemma apply_user_update_id: "users_id (apply_user_update input now r) = users_id r"
  by (simp add: apply_user_update_def Let_def)

lemma UpdateUser_effect:
  assumes "UpdateUser i input now d = (Inr u, d')"
  shows "\<exists>e. user_changed d u e \<and> db_users d' = db_users e \<and> db_sessions d' = revoke_all i (millis now) (db_sessions d)"
proof -
  let ?upd = "update_returning_unique db_users db_users_update users_unique (\<lambda>r. users_id r = i) (apply_user_update input now)"
  let ?groups = "thenE (exec_delete db_user_group_memberships db_user_group_memberships_update
    (\<lambda>_ x. user_group_memberships_user_id x = i \<and> user_group_memberships_group_id x \<notin> {PendingUsersGroupID, ApprovedUsersGroupID}))
    (forE (UserUpdate_GroupIDs input) (join_user_group i now))"
  from assms [unfolded UpdateUser_def] obtain fs d1 gs role e1 x e2 y e3 n e4 m where
    d': "d' = set_faults gs d1" and sel: "select_role i (set_faults fs d) = (Inr role, e1)" and
    chk: "whenE (role = RoleAdmin \<and> UserUpdate_Role input \<noteq> RoleAdmin) refuse_last_admin e1 = (Inr x, e2)" and
    upd: "?upd e2 = (Inr y, e3)" and u: "u = scanUser y" and
    groups: "?groups e3 = (Inr n, e4)" and revoke: "revoke_sessions_of i now e4 = (Inr m, d1)"
    by (elim transaction_InrE) (auto simp: bindE_Inr_iff thenE_Inr_iff scan_found_Inr_iff)
  have "same_tables (set_faults fs d) e2"
    using stepsD [OF select_role_same sel] stepsD [OF refuse_same chk] stb.step_trans by blast
  then have e2: "same_core d e2" using same_core_tables by fastforce
  from upd obtain r rs fs where r: "filter (\<lambda>r. users_id r = i) (db_users e2) = r # rs" "y = apply_user_update input now r"
    "e3 = db_users_update (upd_where (\<lambda>r. users_id r = i) (apply_user_update input now)) (set_faults fs e2)"
    by (auto simp: update_returning_unique_def set_faults_def stmt_def Let_def split: list.splits if_splits sum.splits)
  have "r \<in> set (filter (\<lambda>r. users_id r = i) (db_users e2))" by (simp add: r(1))
  then have "r \<in> set (db_users e2)" "users_id r = i" by simp_all
  then have "user_changed e2 u e3"
    unfolding user_changed_def using r(2,3) u
    by (intro conjI exI [of _ r] exI [of _ "apply_user_update input now"]) (simp_all add: set_faults_def apply_user_update_id)
  then have "user_changed d u e3" using e2 user_changed_from by blast
  moreover have "steps same_core ?groups"
    unfolding join_user_group_def by (intro cor.db_intros same_core_memberships)
  from stepsD [OF this groups] have "same_core e3 e4" .
  moreover have "db_users d1 = db_users e4" "db_sessions d1 = revoke_all i (millis now) (db_sessions e4)"
    using revoke by (auto simp: revoke_sessions_of_def set_faults_def elim!: exec_update_okE)
  ultimately show ?thesis by (auto simp: d' set_faults_def same_core_def user_changed_def)
qed

lemma insert_user_effect:
  assumes "insert_user u d = (Inr x, d')"
  shows "users_insert_ok d (users_row_of u) \<and> db_users d' = db_users d @ [users_row_of u] \<and> db_sessions d' = db_sessions d"
  using assms by (auto simp: insert_user_def set_faults_def users_insert_ok_def elim!: exec_insert_okE)

lemma insert_member_core: "steps same_core (insert_member g i t)"
  unfolding insert_member_def by (intro cor.db_intros same_core_memberships)

lemma CreateUser_effect:
  assumes "CreateUser u d = (Inr x, d')" "User_ApprovalStatus u \<noteq> []"
  shows "users_insert_ok d (users_row_of u) \<and> db_users d' = db_users d @ [users_row_of u] \<and> db_sessions d' = db_sessions d"
proof -
  from assms obtain fs d1 gs y d0 z where ins: "insert_user u (set_faults fs d) = (Inr y, d0)"
    and mem: "whenE (User_ApprovalStatus u = ApprovalApproved) (insert_member ApprovedUsersGroupID (User_ID u) (User_CreatedAt u)) d0 = (Inr z, d1)"
    and d': "d' = set_faults gs d1"
    by (auto simp: CreateUser_def Let_def thenE_Inr_iff elim!: transaction_InrE)
  have "steps same_core (whenE (User_ApprovalStatus u = ApprovalApproved) (insert_member ApprovedUsersGroupID (User_ID u) (User_CreatedAt u)))"
    by (intro cor.steps_intros insert_member_core)
  from stepsD [OF this mem] insert_user_effect [OF ins] show ?thesis
    by (simp add: d' same_core_def set_faults_def users_insert_ok_def)
qed

lemma CreateRegisteredUser_effect:
  assumes "CreateRegisteredUser u d = (Inr x, d')" "User_ApprovalStatus u = ApprovalPending"
  shows "users_insert_ok d (users_row_of u) \<and> db_users d' = db_users d @ [users_row_of u] \<and> db_sessions d' = db_sessions d"
proof -
  have u: "u\<lparr>User_ApprovalStatus := ApprovalPending\<rparr> = u" using assms(2) by (cases u) simp
  from assms(1) obtain fs d1 gs y d0 z where ins: "insert_user u (set_faults fs d) = (Inr y, d0)"
    and mem: "insert_member PendingUsersGroupID (User_ID u) (User_CreatedAt u) d0 = (Inr z, d1)" and d': "d' = set_faults gs d1"
    unfolding CreateRegisteredUser_def u Let_def by (auto simp: thenE_Inr_iff elim!: transaction_InrE)
  from stepsD [OF insert_member_core mem] insert_user_effect [OF ins] show ?thesis
    by (simp add: d' same_core_def set_faults_def users_insert_ok_def)
qed

lemma DeleteUser_effect:
  assumes "DeleteUser i d = (Inr x, d')"
  shows "db_users d' = filter (\<lambda>r. users_id r \<noteq> i) (db_users d) \<and> db_sessions d' = filter (\<lambda>x. sessions_user_id x \<noteq> i) (db_sessions d)"
proof -
  from assms obtain fs role d1 u2 d2 n d3 u4 d4 gs where sel: "select_role i (set_faults fs d) = (Inr role, d1)"
    and chk: "whenE (role = RoleAdmin) refuse_last_admin d1 = (Inr u2, d2)" and refs: "delete_user_refs i d2 = (Inr n, d3)"
    and del: "affected (exec_delete_restrict db_users db_users_update users_referenced (\<lambda>r. users_id r = i)) d3 = (Inr u4, d4)"
    and d': "d' = set_faults gs d4" by (rule DeleteUser_ok)
  have "same_tables (set_faults fs d) d2"
    using stepsD [OF select_role_same sel] stepsD [OF refuse_same chk] stb.step_trans by blast
  then have "same_core d d2" using same_core_tables by fastforce
  moreover have "db_sessions d3 = filter (\<lambda>x. sessions_user_id x \<noteq> i) (db_sessions d2) \<and> db_users d3 = db_users d2"
    using refs unfolding delete_user_refs_def delete_user_rows_def delete_user_books_def thenE_Inr_iff
    by (elim exE conjE exec_delete_okE exec_update_okE) (simp add: set_faults_def)
  moreover have "db_users d4 = filter (\<lambda>r. users_id r \<noteq> i) (db_users d3) \<and> db_sessions d4 = db_sessions d3"
    using del by (auto simp: affected_Inr_iff set_faults_def elim!: exec_delete_restrict_okE)
  ultimately show ?thesis by (simp add: d' same_core_def set_faults_def)
qed

lemma CreateSession_effect:
  assumes "CreateSession x d = (Inr y, d')"
  shows "sessions_insert_ok d (sessions_row_of x) \<and> db_users d' = db_users d \<and> db_sessions d' = db_sessions d @ [sessions_row_of x]"
  using assms by (auto simp: CreateSession_def set_faults_def sessions_insert_ok_def elim!: exec_insert_okE)

lemma RevokeSession_effect:
  assumes "RevokeSession i now d = (Inr x, d')"
  defines "revoke \<equiv> \<lambda>r. r\<lparr>sessions_revoked_at := Some (millis now)\<rparr>"
  shows "\<exists>r\<in>set (db_sessions d). sessions_id r = i \<and> sessions_revoked_at r = None \<and> x = scanSession (revoke r) \<and>
    db_users d' = db_users d \<and> db_sessions d' = upd_where (\<lambda>r. sessions_id r = i \<and> sessions_revoked_at r = None) revoke (db_sessions d)"
proof -
  from assms(1) obtain r rs fs where r: "filter (\<lambda>r. sessions_id r = i \<and> sessions_revoked_at r = None) (db_sessions d) = r # rs"
    "x = scanSession (revoke r)"
    "d' = db_sessions_update (upd_where (\<lambda>r. sessions_id r = i \<and> sessions_revoked_at r = None) revoke) (set_faults fs d)"
    by (auto simp: RevokeSession_def scan_found_Inr_iff update_returning_def set_faults_def stmt_def Let_def revoke_def
        split: list.splits if_splits sum.splits)
  have "r \<in> set (filter (\<lambda>r. sessions_id r = i \<and> sessions_revoked_at r = None) (db_sessions d))" by (simp add: r(1))
  then show ?thesis using r(2,3) by (intro bexI [of _ r]) (auto simp: set_faults_def)
qed

text \<open>An operation of the store that fails has changed no table.\<close>

lemma store_errors:
  "update_user i f d = (Inl e, d') \<Longrightarrow> same_tables d d'" "SetUserApproval i approval now d = (Inl e, d') \<Longrightarrow> same_tables d d'"
  "UpdateUser i input now d = (Inl e, d') \<Longrightarrow> same_tables d d'" "CreateUser u d = (Inl e, d') \<Longrightarrow> same_tables d d'"
  "CreateRegisteredUser u d = (Inl e, d') \<Longrightarrow> same_tables d d'" "DeleteUser i d = (Inl e, d') \<Longrightarrow> same_tables d d'"
  "CreateSession x d = (Inl e, d') \<Longrightarrow> same_tables d d'" "RevokeSession i now d = (Inl e, d') \<Longrightarrow> same_tables d d'"
  by (auto simp: SetUserApproval_def UpdateUser_def CreateUser_def CreateRegisteredUser_def DeleteUser_def Let_def
      update_user_def CreateSession_def RevokeSession_def scan_found_def attempt_run exec_insert_def update_returning_def stmt_def
      dest: transaction_error_tables split: if_splits list.splits sum.splits)

section \<open>A change and its events\<close>

lemma follows_change:
  assumes "quiet st \<Longrightarrow> db_faults (srv_db st') = [] \<and> accounts_wf (srv_db st') \<and> list_all account_event tps \<and>
      srv_hub st' = publish_all tps (srv_hub st) \<and>
      (\<forall>V. in_step t0 V (srv_db st) \<longrightarrow> in_step t0 (fold view_event tps V) (srv_db st'))"
  shows "follows t0 st st'"
  unfolding follows_def quiet_def using assms [unfolded quiet_def] by blast

text \<open>A program that begins with an operation of the store: the rest runs after the change.\<close>

lemma follows_store:
  assumes m: "steps (account_run anyone anyone) m" "steps faultless m"
    and err: "\<And>d e d'. m d = (Inl e, d') \<Longrightarrow> same_tables d d'"
    and ok: "\<And>st a d'. quiet st \<Longrightarrow> db_faults d' = [] \<Longrightarrow> accounts_wf d' \<Longrightarrow> m (srv_db st) = (Inr a, d') \<Longrightarrow>
      follows t0 st (snd (k (Inr a) (st\<lparr>srv_db := d'\<rparr>)))"
    and err_rest: "\<And>e. steps (follows t0) (k (Inl e))"
  shows "steps (follows t0) (attempt (sql m) k)"
proof (rule stepsI)
  fix st :: server
  obtain r d' where r: "m (srv_db st) = (r, d')" by fastforce
  have quiet: "db_faults d' = [] \<and> accounts_wf d'" if "quiet st"
    using that stepsD [OF m(2) r] account_run_wf [OF stepsD [OF m(1) r]] by (simp add: quiet_def faultless_def)
  show "follows t0 st (snd (attempt (sql m) k st))"
  proof (cases r)
    case (Inl e)
    then have "same_accounts (srv_db st) d'" using err [of "srv_db st" e d'] r sac.rel_faults by (metis same_tablesE)
    then have "follows t0 st (st\<lparr>srv_db := d'\<rparr>)"
      using quiet in_step_same [of t0 _ "srv_db st" d'] by (intro follows_change [where tps = "[]"]) simp
    moreover have "follows t0 (st\<lparr>srv_db := d'\<rparr>) (snd (k (Inl e) (st\<lparr>srv_db := d'\<rparr>)))" using err_rest by (simp add: steps_def)
    ultimately show ?thesis using r Inl follows_trans by (simp add: attempt_run sql_run)
  next
    case (Inr a)
    then show ?thesis using ok [of st d' a] quiet r by (cases "quiet st") (simp_all add: attempt_run sql_run follows_def)
  qed
qed

lemma view_event_eqs:
  "view_event (t, PUser u) V = ((fst V)(User_ID u \<mapsto> view_of_user u), snd V)"
  "view_event (t, PSession x) V = (fst V, (snd V)(Session_ID x \<mapsto> view_of_session x))"
  "view_event (t, PUserRef i) V = (fst V, forget i (snd V))"
  by (cases V; simp add: forget_def)+

lemma in_step_user_changed:
  assumes "in_step t0 V d" "accounts_wf d" "user_changed d u d'"
  shows "in_step t0 (view_event (t, PUser u) V) d'"
proof -
  obtain r f where r: "r \<in> set (db_users d)" "\<And>r. users_id (f r) = users_id r" "u = scanUser (f r)"
    "db_users d' = upd_where (\<lambda>x. users_id x = users_id r) f (db_users d)" "db_sessions d' = db_sessions d"
    using assms(3) unfolding user_changed_def by blast
  have "users_agree ((fst V)(users_id r \<mapsto> view_of_user (scanUser (f r)))) (db_users d')"
    unfolding r(4) using assms(1) accounts_wf_keys(1) [OF assms(2)] r(1,2) unfolding in_step_def
    by (intro users_agree_update) auto
  then show ?thesis using assms(1) r(2,3,5) by (simp add: in_step_def view_event_eqs)
qed

lemma in_step_revoked_all:
  assumes "in_step t0 V d" "db_users d' = db_users d" "db_sessions d' = revoke_all i t (db_sessions d)"
  shows "in_step t0 (view_event (s, PUserRef i) V) d'"
  using assms sessions_agree_revoke_all by (simp add: in_step_def view_event_eqs)

lemma account_event_simps [simp]:
  "account_event (t, PUser u) \<longleftrightarrow> t = UserUpdated \<or> t = UserDisabled"
  "account_event (t, PSession x) \<longleftrightarrow> t = SessionCreated \<or> t = SessionRevoked"
  "account_event (t, PUserRef i) \<longleftrightarrow> t = SessionRevokedAll"
  "account_event (t, PMembership m) \<longleftrightarrow> t = UserGroupMembershipUpdated"
  by (simp_all add: account_event_def)

text \<open>The operations of the store that change one user.\<close>

definition user_operation :: "(db, User) prog \<Rightarrow> bool" where
  "user_operation m \<longleftrightarrow> steps (account_run anyone anyone) m \<and> steps faultless m \<and>
     (\<forall>d e d'. m d = (Inl e, d') \<longrightarrow> same_tables d d') \<and> (\<forall>d u d'. m d = (Inr u, d') \<longrightarrow> user_changed d u d')"

lemma user_operationD:
  assumes "user_operation m"
  shows "steps (account_run anyone anyone) m" "steps faultless m" "m d = (Inl e, d') \<Longrightarrow> same_tables d d'"
    "m d = (Inr u, d') \<Longrightarrow> user_changed d u d'"
  using assms unfolding user_operation_def by blast+

lemma update_user_operation:
  "steps (account_run anyone anyone) (update_user i f) \<Longrightarrow> (\<And>r. users_id (f r) = users_id r) \<Longrightarrow> user_operation (update_user i f)"
  unfolding user_operation_def using store_errors(1) update_user_effect faultless_store(4) by blast

lemma user_operations:
  "user_operation (UpdateUserPassword i h now)" "user_operation (ForceRelogin i now)" "user_operation (SetUserEnabled i b now)"
  unfolding UpdateUserPassword_def ForceRelogin_def SetUserEnabled_def
  by (rule update_user_operation [OF account_runs(7) [unfolded UpdateUserPassword_def]], simp,
      rule update_user_operation [OF account_runs(6) [unfolded ForceRelogin_def]], simp,
      rule update_user_operation [OF account_runs(4) [unfolded SetUserEnabled_def]], simp)

lemma approval_operation: "user_operation (SetUserApproval i approval now)"
  unfolding user_operation_def using account_runs(5) store_errors(2) SetUserApproval_effect faultless_store(5) by blast

text \<open>A change of a user is published.\<close>

lemma follows_user:
  assumes m: "user_operation m" and rest: "\<And>u. steps (follows t0) (rest u)"
  shows "steps (follows t0) (bindE (sql m) (\<lambda>u. thenE (publish UserUpdated (PUser u)) (rest u)))"
  unfolding bindE_def
proof (rule follows_store [OF user_operationD(1-3) [OF m]]; simp)
  fix st :: server and u d'
  assume *: "quiet st" "db_faults d' = []" "accounts_wf d'" "m (srv_db st) = (Inr u, d')"
  let ?st = "st\<lparr>srv_db := d', srv_hub := Publish UserUpdated (PUser u) (srv_hub st)\<rparr>"
  have "follows t0 st ?st"
    using * in_step_user_changed [OF _ _ user_operationD(4) [OF m *(4)]]
    by (intro follows_change [where tps = "[(UserUpdated, PUser u)]"]) (simp add: quiet_def)
  moreover have "follows t0 ?st (snd (rest u ?st))" using rest by (simp add: steps_def)
  ultimately show "follows t0 st (snd (thenE (publish UserUpdated (PUser u)) (rest u) (st\<lparr>srv_db := d'\<rparr>)))"
    using follows_trans by (simp add: thenE_run publish_run)
qed (rule fol.steps_throw)

text \<open>A change of a user, the revocation of all sessions of that user, and both events in either order.\<close>

lemma change_and_revoke:
  assumes st: "quiet st" and d': "db_faults d' = []" "accounts_wf d'" and eff: "user_changed (srv_db st) u d'"
    and d2: "RevokeUserSessions i now d' = (Inr (), d2)" and t: "t = UserUpdated \<or> t = UserDisabled"
    and tps: "tps = [(t, PUser u), (SessionRevokedAll, PUserRef i)] \<or> tps = [(SessionRevokedAll, PUserRef i), (t, PUser u)]"
  shows "follows t0 st (st\<lparr>srv_db := d2, srv_hub := publish_all tps (srv_hub st)\<rparr>)"
proof (rule follows_change [where tps = tps], intro conjI allI impI)
  have d2': "d2 = db_sessions_update (revoke_all i (millis now)) d'" using d2 d'(1) by (simp add: RevokeUserSessions_no_fault)
  then show "db_faults (srv_db (st\<lparr>srv_db := d2, srv_hub := publish_all tps (srv_hub st)\<rparr>)) = []" using d'(1) by simp
  show "accounts_wf (srv_db (st\<lparr>srv_db := d2, srv_hub := publish_all tps (srv_hub st)\<rparr>))"
    using account_run_wf [OF stepsD [OF account_runs(14) d2]] d'(2) by simp
  fix V assume "in_step t0 V (srv_db st)"
  with st eff have "in_step t0 (view_event (t, PUser u) V) d'" by (intro in_step_user_changed) (auto simp: quiet_def)
  then have "in_step t0 (view_event (SessionRevokedAll, PUserRef i) (view_event (t, PUser u) V)) d2"
    by (rule in_step_revoked_all [where t = "millis now"]) (simp_all add: d2')
  then show "in_step t0 (fold view_event tps V) (srv_db (st\<lparr>srv_db := d2, srv_hub := publish_all tps (srv_hub st)\<rparr>))"
    using tps by (auto simp: view_event_eqs)
qed (use tps t in auto)

lemma follows_user_revoke:
  assumes m: "user_operation m" and rest: "\<And>u. steps (follows t0) (rest u)" and t: "t = UserUpdated \<or> t = UserDisabled"
    and k: "\<And>u. k u = thenE (publish t (PUser u)) (thenE (publish_revoked_all i) (rest u)) \<or>
      k u = thenE (publish_revoked_all i) (thenE (publish t (PUser u)) (rest u))"
  shows "steps (follows t0) (bindE (sql m) (\<lambda>u. thenE (sql (RevokeUserSessions i now)) (k u)))"
  unfolding bindE_def
proof (rule follows_store [OF user_operationD(1-3) [OF m]]; simp)
  fix st :: server and u d'
  assume *: "quiet st" "db_faults d' = []" "accounts_wf d'" "m (srv_db st) = (Inr u, d')"
  obtain d2 where d2: "RevokeUserSessions i now d' = (Inr (), d2)" using *(2) by (simp add: RevokeUserSessions_no_fault)
  obtain tps where tps: "tps = [(t, PUser u), (SessionRevokedAll, PUserRef i)] \<or> tps = [(SessionRevokedAll, PUserRef i), (t, PUser u)]"
    and k: "k u (st\<lparr>srv_db := d2\<rparr>) = rest u (st\<lparr>srv_db := d2, srv_hub := publish_all tps (srv_hub st)\<rparr>)"
    using k [of u] by (fastforce simp: thenE_run publish_run publish_revoked_all_def)
  have "follows t0 st (st\<lparr>srv_db := d2, srv_hub := publish_all tps (srv_hub st)\<rparr>)"
    by (rule change_and_revoke [OF *(1-3) user_operationD(4) [OF m *(4)] d2 t tps])
  then show "follows t0 st (snd (thenE (sql (RevokeUserSessions i now)) (k u) (st\<lparr>srv_db := d'\<rparr>)))"
    using follows_trans rest [of u] by (simp add: thenE_run sql_run d2 k steps_def)
qed (rule fol.steps_throw)

section \<open>The operations of the account service\<close>

lemma follows_publish_member: "steps (follows t0) (publish UserGroupMembershipUpdated (PMembership m))"
  by (rule stepsI, rule follows_change [where tps = "[(UserGroupMembershipUpdated, PMembership m)]"])
    (simp add: quiet_def publish_run)

lemma follows_draw: "(\<And>n. steps (follows t0) (k (f n))) \<Longrightarrow> steps (follows t0) (bindE (draw f) k)"
proof (rule stepsI)
  fix st :: server
  let ?st = "st\<lparr>srv_tick := srv_tick st + 1\<rparr>"
  assume "\<And>n. steps (follows t0) (k (f n))"
  then have "follows t0 ?st (snd (k (f (srv_tick st)) ?st))" by (simp add: steps_def)
  moreover have "follows t0 st ?st" by (rule follows_change [where tps = "[]"]) (simp add: quiet_def)
  ultimately show "follows t0 st (snd (bindE (draw f) k st))" using follows_trans by (simp add: bindE_run draw_run)
qed

lemma follows_hash: "steps (follows t0) (hash_password w pw)" "steps (follows t0) (new_hash w s pw)"
  unfolding new_hash_def hash_password_def by (intro follows_draw fol.steps_intros)+

lemmas follows_intros = follows_quietly follows_publish_member follows_draw follows_hash fol.steps_intros

lemma follows_reads: "steps (follows t0) (withPermissions user)" "steps (follows t0) (validateLoginUser user)"
  unfolding validateLoginUser_def withPermissions_def by (intro follows_intros)+

lemma follows_SetPassword: "steps (follows t0) (SetPassword w s i password)"
  unfolding SetPassword_def
  by (rule fol.steps_bindE [OF follows_hash(2)], rule follows_draw,
      rule follows_user_revoke [OF user_operations(1) fol.steps_ret disjI1 [OF refl] disjI1 [OF refl]])

lemma follows_ForceRelogin: "steps (follows t0) (Auth_ForceRelogin w i)"
  unfolding Auth_ForceRelogin_def
  by (rule follows_draw, rule follows_user_revoke [OF user_operations(2) fol.steps_ret disjI1 [OF refl] disjI1 [OF refl]])

lemma follows_SetUserEnabled: "steps (follows t0) (Auth_SetUserEnabled w i b)"
proof (cases b)
  case True
  show ?thesis unfolding Auth_SetUserEnabled_def
    by (rule follows_draw) (simp only: True not_True_eq_False if_False follows_user [OF user_operations(3) fol.steps_ret])
next
  case False
  have "steps (follows t0) (bindE (sql (SetUserEnabled i b now)) (\<lambda>user. thenE (sql (RevokeUserSessions i now))
      (thenE (publish UserDisabled (PUser user)) (thenE (publish_revoked_all i) (ret user)))))" for now
    by (rule follows_user_revoke [OF user_operations(3) fol.steps_ret disjI2 [OF refl] disjI1 [OF refl]])
  then show ?thesis unfolding Auth_SetUserEnabled_def
    by (intro follows_draw) (simp only: False not_False_eq_True if_True thenE_assoc)
qed

lemma follows_publish_members: "steps (follows t0) (publish_member g i b)" "steps (follows t0) (publish_memberships_of i)"
  unfolding publish_member_def publish_memberships_of_def by (intro follows_intros)+

lemma follows_SetUserApproval: "steps (follows t0) (Auth_SetUserApproval w i approval)"
proof -
  let ?rest = "\<lambda>user. thenE (publish_member PendingUsersGroupID i False)
    (thenE (publish_member ApprovedUsersGroupID i (approval = ApprovalApproved)) (ret user))"
  have rest: "steps (follows t0) (?rest user)" for user by (intro fol.steps_intros follows_publish_members)
  have skip: "thenE (ret ()) m = m" for m :: "(server, User) prog" by (rule ext) (simp add: thenE_run)
  show ?thesis
  proof (cases "approval = ApprovalRejected")
    case True
    show ?thesis unfolding Auth_SetUserApproval_def whenE_def if_P [OF True] thenE_assoc
      by (rule follows_draw, rule follows_user_revoke [OF approval_operation rest disjI1 [OF refl] disjI2 [OF refl]])
  next
    case False
    show ?thesis unfolding Auth_SetUserApproval_def whenE_def if_not_P [OF False] skip
      by (rule follows_draw, rule follows_user [OF approval_operation rest])
  qed
qed

lemma follows_UpdateUser: "steps (follows t0) (Auth_UpdateUser w s i input password)"
proof -
  have "steps (follows t0) (bindE (sql (UpdateUser i upd now)) (\<lambda>user. thenE (publish UserUpdated (PUser user))
      (thenE (publish_revoked_all i) (thenE (publish_memberships_of i) (ret user)))))" for upd now
    unfolding bindE_def
  proof (rule follows_store [OF account_runs(8) faultless_store(6) store_errors(3)]; simp)
    fix st :: server and u d'
    assume *: "quiet st" "db_faults d' = []" "accounts_wf d'" "UpdateUser i upd now (srv_db st) = (Inr u, d')"
    let ?tps = "[(UserUpdated, PUser u), (SessionRevokedAll, PUserRef i)]"
    let ?st = "st\<lparr>srv_db := d', srv_hub := publish_all ?tps (srv_hub st)\<rparr>"
    obtain e where e: "user_changed (srv_db st) u e" "db_users d' = db_users e" "db_sessions d' = revoke_all i (millis now) (db_sessions (srv_db st))"
      using UpdateUser_effect [OF *(4)] by blast
    have sessions: "db_sessions e = db_sessions (srv_db st)" using e(1) by (simp add: user_changed_def)
    have "in_step t0 (fold view_event ?tps V) d'" if "in_step t0 V (srv_db st)" for V
      using in_step_revoked_all [OF in_step_user_changed [OF that _ e(1)] e(2)] e(3) sessions *(1) by (simp add: quiet_def)
    then have "follows t0 st ?st" using *(2,3) by (intro follows_change [where tps = ?tps]) simp
    moreover have "steps (follows t0) (thenE (publish_memberships_of i) (ret u))" by (intro fol.steps_intros follows_publish_members)
    ultimately show "follows t0 st (snd (thenE (publish UserUpdated (PUser u)) (thenE (publish_revoked_all i)
        (thenE (publish_memberships_of i) (ret u))) (st\<lparr>srv_db := d'\<rparr>)))"
      using follows_trans by (simp add: thenE_run [of "publish _ _"] publish_run publish_revoked_all_def steps_def)
  qed (rule fol.steps_throw)
  moreover have "steps (follows t0) (if password \<noteq> [] then bindE (new_hash w s password) (\<lambda>h. ret (input\<lparr>UserUpdate_PasswordHash := h\<rparr>))
      else ret input)"
    by (intro fol.steps_intros follows_hash)
  ultimately show ?thesis unfolding Auth_UpdateUser_def
    by (intro fol.steps_bindE [where m = "if _ then _ else _"] follows_draw)
qed

lemma follows_DeleteUser: "steps (follows t0) (Auth_DeleteUser i)"
  unfolding Auth_DeleteUser_def thenE_def [of "sql _"] bindE_def
proof (rule follows_store [OF account_runs(9) faultless_store(7) store_errors(6)]; simp)
  fix st :: server and d'
  assume *: "quiet st" "db_faults d' = []" "accounts_wf d'" "DeleteUser i (srv_db st) = (Inr (), d')"
  let ?tps = "[(UserUpdated, PUser (deleted_user i)), (SessionRevokedAll, PUserRef i)]"
  have "in_step t0 (fold view_event ?tps V) d'" if "in_step t0 V (srv_db st)" for V
    using that DeleteUser_effect [OF *(4)]
    by (simp add: in_step_def view_event_eqs sessions_agree_delete users_agree_delete deleted_user_def view_of_user_def)
  then have "follows t0 st (st\<lparr>srv_db := d', srv_hub := publish_all ?tps (srv_hub st)\<rparr>)"
    using *(2,3) by (intro follows_change [where tps = ?tps]) simp
  then show "follows t0 st (snd (thenE (publish UserUpdated (PUser (deleted_user i))) (publish_revoked_all i) (st\<lparr>srv_db := d'\<rparr>)))"
    by (simp add: thenE_run publish_run publish_revoked_all_def)
qed (rule fol.steps_throw)

lemma follows_RevokeSession: "steps (follows t0) (Auth_RevokeSession w i)"
  unfolding Auth_RevokeSession_def
proof (rule follows_draw, rule follows_store [OF account_runs(13) faultless_store(11) store_errors(8)]; simp)
  fix n and st :: server and x d'
  assume *: "quiet st" "db_faults d' = []" "accounts_wf d'" "RevokeSession i (world_clock w n) (srv_db st) = (Inr x, d')"
  from RevokeSession_effect [OF *(4)] obtain r where r: "r \<in> set (db_sessions (srv_db st))" "sessions_id r = i" "sessions_revoked_at r = None"
    "x = scanSession (r\<lparr>sessions_revoked_at := Some (millis (world_clock w n))\<rparr>)" "db_users d' = db_users (srv_db st)"
    "db_sessions d' = upd_where (\<lambda>r. sessions_id r = i \<and> sessions_revoked_at r = None)
       (\<lambda>r. r\<lparr>sessions_revoked_at := Some (millis (world_clock w n))\<rparr>) (db_sessions (srv_db st))" by blast
  have "in_step t0 (view_event (SessionRevoked, PSession x) V) d'" if "in_step t0 V (srv_db st)" for V
    using that sessions_agree_revoke [OF _ _ r(1,3), of t0 "snd V" "millis (world_clock w n)"] accounts_wf_keys(3) *(1) r
    by (simp add: in_step_def view_event_eqs quiet_def)
  then show "follows t0 st (snd (publish SessionRevoked (PSession x) (st\<lparr>srv_db := d'\<rparr>)))"
    using *(2,3) by (intro follows_change [where tps = "[(SessionRevoked, PSession x)]"]) (simp add: publish_run)
qed (simp add: fol.steps_ret fol.steps_throw)

lemma RevokeUserSessions_error: "RevokeUserSessions i now d = (Inl e, d') \<Longrightarrow> same_tables d d'"
  by (auto simp: RevokeUserSessions_def revoke_sessions_of_def execute_def bindE_run exec_update_def stmt_def split: if_splits sum.splits)

lemma follows_RevokeAll: "steps (follows t0) (RevokeAll w i)"
  unfolding RevokeAll_def thenE_def bindE_def [of "sql _"]
proof (rule follows_draw, rule follows_store [OF account_runs(14) faultless_store(12) RevokeUserSessions_error]; simp)
  fix n and st :: server and d'
  assume *: "quiet st" "db_faults d' = []" "accounts_wf d'" "RevokeUserSessions i (world_clock w n) (srv_db st) = (Inr (), d')"
  have "d' = db_sessions_update (revoke_all i (millis (world_clock w n))) (srv_db st)"
    using *(1,4) by (simp add: quiet_def RevokeUserSessions_no_fault)
  then have "in_step t0 (view_event (SessionRevokedAll, PUserRef i) V) d'" if "in_step t0 V (srv_db st)" for V
    by (intro in_step_revoked_all [OF that, where t = "millis (world_clock w n)"]) simp_all
  then show "follows t0 st (snd (publish_revoked_all i (st\<lparr>srv_db := d'\<rparr>)))"
    using *(2,3) by (intro follows_change [where tps = "[(SessionRevokedAll, PUserRef i)]"]) (simp add: publish_run publish_revoked_all_def)
qed (rule fol.steps_throw)

text \<open>A new user is published.\<close>

lemma in_step_new_user:
  assumes "in_step t0 V d" "users_insert_ok d (users_row_of u)" "db_users d' = db_users d @ [users_row_of u]" "db_sessions d' = db_sessions d"
  shows "in_step t0 (view_event (t, PUser u) V) d'"
proof -
  have row: "users_id (users_row_of u) = User_ID u" "view_of_user (scanUser (users_row_of u)) = view_of_user u"
    by (simp_all add: view_of_user_def users_row_of_def)
  have "users_agree ((fst V)(users_id (users_row_of u) \<mapsto> view_of_user (scanUser (users_row_of u)))) (db_users d @ [users_row_of u])"
    using assms(1,2) by (intro users_agree_insert) (auto simp: in_step_def users_insert_ok_def)
  then show ?thesis using assms unfolding row by (simp add: in_step_def view_event_eqs)
qed

lemma follows_new_user:
  assumes m: "steps (account_run anyone anyone) m" "steps faultless m" "\<And>d e d'. m d = (Inl e, d') \<Longrightarrow> same_tables d d'"
    and eff: "\<And>d x d'. m d = (Inr x, d') \<Longrightarrow> users_insert_ok d (users_row_of u) \<and>
      db_users d' = db_users d @ [users_row_of u] \<and> db_sessions d' = db_sessions d"
    and rest: "steps (follows t0) rest"
  shows "steps (follows t0) (thenE (sql m) (thenE (publish UserUpdated (PUser u)) rest))"
  unfolding thenE_def [of "sql _"] bindE_def
proof (rule follows_store [OF m]; simp)
  fix st :: server and x d'
  assume *: "quiet st" "db_faults d' = []" "accounts_wf d'" "m (srv_db st) = (Inr x, d')"
  let ?st = "st\<lparr>srv_db := d', srv_hub := Publish UserUpdated (PUser u) (srv_hub st)\<rparr>"
  have "follows t0 st ?st"
    using *(2,3) in_step_new_user eff [OF *(4)] by (intro follows_change [where tps = "[(UserUpdated, PUser u)]"]) simp
  then show "follows t0 st (snd (thenE (publish UserUpdated (PUser u)) rest (st\<lparr>srv_db := d'\<rparr>)))"
    using rest follows_trans by (simp add: thenE_run publish_run steps_def)
qed (rule fol.steps_throw)

lemma follows_CreateLocalUser: "steps (follows t0) (CreateLocalUser w s input)"
  unfolding CreateLocalUser_def Let_def
proof (intro fol.steps_bindE [OF follows_hash(2)] follows_draw, rule follows_new_user)
  fix h n m and d d' :: db and x
  assume "CreateUser (local_user (world_uuid w m) input h (CreateUserInput_Role input) (CreateUserInput_Enabled input) ApprovalApproved
      (world_clock w n)) d = (Inr x, d')"
  then show "users_insert_ok d (users_row_of (local_user (world_uuid w m) input h (CreateUserInput_Role input) (CreateUserInput_Enabled input)
      ApprovalApproved (world_clock w n))) \<and> db_users d' = db_users d @ [users_row_of (local_user (world_uuid w m) input h
      (CreateUserInput_Role input) (CreateUserInput_Enabled input) ApprovalApproved (world_clock w n))] \<and> db_sessions d' = db_sessions d"
    by (rule CreateUser_effect) (simp add: local_user_def)
qed (auto intro: account_runs faultless_store fol.steps_ret dest: store_errors)

lemma follows_Register: "steps (follows t0) (Register w s input auto)"
proof -
  have "steps (follows t0) (thenE (sql (if auto then CreateUser user else CreateRegisteredUser user))
      (thenE (publish UserUpdated (PUser user)) (thenE (publish_member g uid True) (ret user))))"
    if user: "user = local_user uid input h RoleUser True (if auto then ApprovalApproved else ApprovalPending) now" for user uid h now g
  proof (rule follows_new_user)
    show "steps (account_run anyone anyone) (if auto then CreateUser user else CreateRegisteredUser user)" by (simp add: account_runs)
    show "steps faultless (if auto then CreateUser user else CreateRegisteredUser user)" by (simp add: faultless_store)
    show "same_tables d d'" if "(if auto then CreateUser user else CreateRegisteredUser user) d = (Inl e, d')" for d e d'
      using that store_errors(4,5) by (metis (full_types))
    show "users_insert_ok d (users_row_of user) \<and> db_users d' = db_users d @ [users_row_of user] \<and> db_sessions d' = db_sessions d"
      if "(if auto then CreateUser user else CreateRegisteredUser user) d = (Inr x, d')" for d x d'
      using that CreateUser_effect [of user d x d'] CreateRegisteredUser_effect [of user d x d'] by (cases auto) (simp_all add: user local_user_def)
  qed (intro fol.steps_intros follows_publish_members)
  then show ?thesis unfolding Register_def Let_def by (intro fol.steps_bindE [OF follows_hash(2)] follows_draw) blast
qed

section \<open>Logging in\<close>

lemma in_step_new_session:
  assumes "in_step t0 V d" "sessions_insert_ok d (sessions_row_of x)" "Session_RevokedAt x = None"
    "map user_key (db_users d') = map user_key (db_users d)" "db_sessions d' = db_sessions d @ [sessions_row_of x]"
  shows "in_step t0 (view_event (t, PSession x) V) d'"
proof -
  have row: "sessions_id (sessions_row_of x) = Session_ID x" "view_of_session (scanSession (sessions_row_of x)) = view_of_session x"
    using assms(3) by (simp_all add: view_of_session_def sessions_row_of_def)
  have "sessions_agree t0 ((snd V)(sessions_id (sessions_row_of x) \<mapsto> view_of_session (scanSession (sessions_row_of x))))
      (db_sessions d @ [sessions_row_of x])"
    using assms(1,2) by (intro sessions_agree_insert) (auto simp: in_step_def sessions_insert_ok_def)
  moreover have "set (map user_key (db_users d')) = set (map user_key (db_users d))" by (simp only: assms(4))
  then have "users_agree (fst V) (db_users d')" using assms(1) by (auto simp: in_step_def elim: users_agree_cong)
  ultimately show ?thesis using assms(5) unfolding row by (simp add: in_step_def view_event_eqs)
qed

lemma in_step_dead_session:
  assumes "in_step t0 V d" "sessions_insert_ok d (sessions_row_of x)" "map user_key (db_users d') = map user_key (db_users d)"
    "db_sessions d' = upd_where (\<lambda>r. sessions_id r = Session_ID x \<and> sessions_revoked_at r = None)
      (\<lambda>r. r\<lparr>sessions_revoked_at := Some t\<rparr>) (db_sessions d @ [sessions_row_of x])"
  shows "in_step t0 V d'"
proof -
  have row: "sessions_id (sessions_row_of x) = Session_ID x" "sessions_revoked_at (sessions_row_of x) = None"
    by (simp_all add: sessions_row_of_def)
  have "upd_where (\<lambda>r. sessions_id r = Session_ID x \<and> sessions_revoked_at r = None) (\<lambda>r. r\<lparr>sessions_revoked_at := Some t\<rparr>) (db_sessions d)
      = db_sessions d"
    using assms(2) by (intro upd_where_none) (auto simp: sessions_insert_ok_def row)
  then have "db_sessions d' = db_sessions d @ [(sessions_row_of x)\<lparr>sessions_revoked_at := Some t\<rparr>]"
    using assms(4) row by (simp add: upd_where_def)
  moreover have "set (map user_key (db_users d')) = set (map user_key (db_users d))" by (simp only: assms(3))
  ultimately show ?thesis using assms(1)
    by (auto simp: in_step_def elim: users_agree_cong intro: sessions_agree_insert_revoked)
qed

lemma RevokeSession_new:
  assumes "db_faults d = []" "x \<in> set (db_sessions d)" "sessions_id x = i" "sessions_revoked_at x = None"
  shows "\<exists>y. RevokeSession i now d = (Inr y, db_sessions_update (upd_where (\<lambda>r. sessions_id r = i \<and> sessions_revoked_at r = None)
    (\<lambda>r. r\<lparr>sessions_revoked_at := Some (millis now)\<rparr>)) d)"
proof -
  have "x \<in> set (filter (\<lambda>r. sessions_id r = i \<and> sessions_revoked_at r = None) (db_sessions d))" using assms by simp
  then obtain y ys where "filter (\<lambda>r. sessions_id r = i \<and> sessions_revoked_at r = None) (db_sessions d) = y # ys"
    by (cases "filter (\<lambda>r. sessions_id r = i \<and> sessions_revoked_at r = None) (db_sessions d)") auto
  then show ?thesis using assms(1) by (simp add: RevokeSession_def scan_found_def attempt_run update_returning_def stmt_run)
qed

lemma user_key_login_at: "user_key (login_at now r) = user_key r"
  by (simp add: user_key_def login_at_def view_of_user_def)

text \<open>The session is stored and the login recorded.\<close>

lemma login_recorded:
  fixes i now d'
  assumes "db_faults d' = []" "accounts_wf d'" "CreateSession x d = (Inr (), d')"
  defines "d1 \<equiv> db_users_update (upd_where (\<lambda>r. users_id r = i) (login_at now)) d'"
  shows "UpdateLastLogin i now d' = (Inr (), d1)" "db_faults d1 = []" "accounts_wf d1" "sessions_insert_ok d (sessions_row_of x)"
    "map user_key (db_users d1) = map user_key (db_users d)" "db_sessions d1 = db_sessions d @ [sessions_row_of x]"
proof -
  show upd: "UpdateLastLogin i now d' = (Inr (), d1)" unfolding d1_def by (rule UpdateLastLogin_no_fault [OF assms(1)])
  show "accounts_wf d1" using account_run_wf [OF stepsD [OF account_runs(10) upd]] assms(2) by blast
  show "db_faults d1 = []" "sessions_insert_ok d (sessions_row_of x)"
    "map user_key (db_users d1) = map user_key (db_users d)" "db_sessions d1 = db_sessions d @ [sessions_row_of x]"
    using CreateSession_effect [OF assms(3)] assms(1) by (simp_all add: d1_def upd_where_map_key user_key_login_at)
qed

text \<open>The token is not issued: the session is revoked, and no event is published.\<close>

lemma follows_login_undone:
  fixes i now d'
  assumes "quiet st" "db_faults d' = []" "accounts_wf d'" "CreateSession x (srv_db st) = (Inr (), d')"
    and x: "Session_ID x = uid" "Session_RevokedAt x = None"
  defines "d1 \<equiv> db_users_update (upd_where (\<lambda>r. users_id r = i) (login_at now)) d'"
  shows "follows t0 st (snd (ignoreE (sql (RevokeSession uid now)) (throw e) (st\<lparr>srv_db := d1\<rparr>)))"
proof -
  note d1 = login_recorded(1-3) [OF assms(2-4), where i = i and now = now, folded d1_def]
    login_recorded(4) [OF assms(2-4)] login_recorded(5,6) [OF assms(2-4), where i = i and now = now, folded d1_def]
  have "sessions_row_of x \<in> set (db_sessions d1)" "sessions_id (sessions_row_of x) = uid" "sessions_revoked_at (sessions_row_of x) = None"
    using d1(6) x by (simp_all add: sessions_row_of_def)
  then obtain y d3 where rev: "RevokeSession uid now d1 = (Inr y, d3)" and d3: "d3 = db_sessions_update (upd_where
      (\<lambda>r. sessions_id r = uid \<and> sessions_revoked_at r = None) (\<lambda>r. r\<lparr>sessions_revoked_at := Some (millis now)\<rparr>)) d1"
    using RevokeSession_new [of d1 "sessions_row_of x" uid now] d1(2) by auto
  have "accounts_wf d3" using account_run_wf [OF stepsD [OF account_runs(13) rev]] d1(3) by blast
  moreover have "in_step t0 V d3" if "in_step t0 V (srv_db st)" for V
    by (rule in_step_dead_session [OF that d1(4), where t = "millis now"]) (use d1(5,6) x(1) d3 in simp_all)
  ultimately have "follows t0 st (st\<lparr>srv_db := d3\<rparr>)" using d1(2) d3 by (intro follows_change [where tps = "[]"]) simp
  then show ?thesis by (simp add: sql_run ignoreE_run rev throw_def)
qed

lemma follows_login_done:
  fixes i now d'
  assumes "quiet st" "db_faults d' = []" "accounts_wf d'" "CreateSession x (srv_db st) = (Inr (), d')"
    and x: "Session_RevokedAt x = None"
  defines "d1 \<equiv> db_users_update (upd_where (\<lambda>r. users_id r = i) (login_at now)) d'"
  shows "follows t0 st (snd (thenE (publish SessionCreated (PSession x)) (ret v) (st\<lparr>srv_db := d1\<rparr>)))"
proof -
  note d1 = login_recorded(1-3) [OF assms(2-4), where i = i and now = now, folded d1_def]
    login_recorded(4) [OF assms(2-4)] login_recorded(5,6) [OF assms(2-4), where i = i and now = now, folded d1_def]
  have "in_step t0 (view_event (SessionCreated, PSession x) V) d1" if "in_step t0 V (srv_db st)" for V
    by (rule in_step_new_session [OF that d1(4) x d1(5,6)])
  then have "follows t0 st (st\<lparr>srv_db := d1, srv_hub := Publish SessionCreated (PSession x) (srv_hub st)\<rparr>)"
    using d1(2,3) by (intro follows_change [where tps = "[(SessionCreated, PSession x)]"]) simp
  then show ?thesis by (simp add: thenE_run publish_run ret_def)
qed

lemma follows_session:
  assumes x: "Session_ID x = uid" "Session_RevokedAt x = None"
  shows "steps (follows t0) (attempt (sql (CreateSession x)) (\<lambda>r. case r of
        Inl e \<Rightarrow> throw (Wrap ''create session'' e)
      | Inr _ \<Rightarrow>
     attempt (sql (UpdateLastLogin i now)) (\<lambda>r. case r of
        Inl e \<Rightarrow> ignoreE (sql (RevokeSession uid now)) (throw (Wrap ''update last login'' e))
      | Inr _ \<Rightarrow>
     (case tk of
        Inl e \<Rightarrow> ignoreE (sql (RevokeSession uid now)) (throw (Wrap ''issue access token'' e))
      | Inr (token, claims) \<Rightarrow> thenE (publish SessionCreated (PSession x)) (ret (out token claims))))))"
proof (rule follows_store [OF account_runs(3) faultless_store(3) store_errors(7)]; simp)
  fix st :: server and d'
  assume *: "quiet st" "db_faults d' = []" "accounts_wf d'" "CreateSession x (srv_db st) = (Inr (), d')"
  show "follows t0 st (snd (attempt (sql (UpdateLastLogin i now)) (\<lambda>r. case r of
        Inl e \<Rightarrow> ignoreE (sql (RevokeSession uid now)) (throw (Wrap ''update last login'' e))
      | Inr _ \<Rightarrow> (case tk of Inl e \<Rightarrow> ignoreE (sql (RevokeSession uid now)) (throw (Wrap ''issue access token'' e))
         | Inr (token, claims) \<Rightarrow> thenE (publish SessionCreated (PSession x)) (ret (out token claims)))) (st\<lparr>srv_db := d'\<rparr>)))"
    by (simp add: attempt_run sql_run login_recorded(1) [OF *(2-4)] follows_login_undone [OF * x] follows_login_done [OF * x(2)]
        split: sum.splits prod.splits)
qed (rule fol.steps_throw)

lemma follows_CompleteLogin: "steps (follows t0) (CompleteLogin w s user0 input)"
  unfolding CompleteLogin_def Let_def
  by (intro fol.steps_bindE [OF follows_reads(1)] follows_draw, rule follows_session; simp add: login_session_def)

section \<open>Password providers\<close>

text \<open>A program that succeeds when no statement fails.\<close>

definition succeeds :: "(db, 'a) prog \<Rightarrow> bool" where
  "succeeds m \<longleftrightarrow> (\<forall>d. db_faults d = [] \<longrightarrow> (\<exists>a d'. m d = (Inr a, d') \<and> db_faults d' = []))"

lemma succeeds_thenE: "succeeds m \<Longrightarrow> succeeds k \<Longrightarrow> succeeds (thenE m k)"
  unfolding succeeds_def thenE_run by fastforce

lemma succeeds_statements:
  assumes "\<And>g d. db_faults (upd g d) = db_faults d"
  shows "succeeds (exec_delete sel upd q)" "succeeds (exec_update sel upd p f)"
  by (simp_all add: succeeds_def exec_delete_def exec_update_def stmt_run assms)

lemma delete_user_refs_succeeds: "succeeds (delete_user_refs i)"
  unfolding delete_user_refs_def delete_user_rows_def delete_user_books_def
  by (intro succeeds_thenE succeeds_statements; simp)

lemma DeleteUser_succeeds:
  assumes d: "db_faults d = []" and u: "u \<in> set (db_users d)" "distinct (map users_id (db_users d))" "users_role u \<noteq> RoleAdmin"
  shows "\<exists>d'. DeleteUser (users_id u) d = (Inr (), d')"
proof -
  let ?del = "affected (exec_delete_restrict db_users db_users_update users_referenced (\<lambda>r. users_id r = users_id u))"
  have "find (\<lambda>r. users_id r = users_id u) (db_users d) = Some u" by (rule find_distinct_key [OF u(2,1)])
  then have sel: "select_role (users_id u) d = (Inr (users_role u), d)" using d by (simp add: select_role_def find_row_run)
  obtain n d3 where refs: "delete_user_refs (users_id u) d = (Inr n, d3)" "db_faults d3 = []"
    using delete_user_refs_succeeds d unfolding succeeds_def by blast
  have "user_deleted (users_id u) (db_users_update (filter (\<lambda>r. users_id r \<noteq> users_id u)) d)
      (db_users_update (filter (\<lambda>r. users_id r \<noteq> users_id u)) d3)" by (rule delete_user_refs_ok [OF refs(1)])
  then have unref: "\<not> users_referenced d3 r" if "users_id r = users_id u" for r
    using that by (simp add: user_deleted_def users_referenced_def)
  have "db_users d3 = db_users d"
    using refs(1) unfolding delete_user_refs_def delete_user_rows_def delete_user_books_def thenE_Inr_iff
    by (elim exE conjE exec_delete_okE exec_update_okE) (simp add: set_faults_def)
  then have "filter (\<lambda>r. users_id r = users_id u) (db_users d3) \<noteq> []" using u(1) by (auto simp: filter_empty_conv)
  then obtain d4 where del: "?del d3 = (Inr (), d4)" "db_faults d4 = []"
    using unref refs(2) by (simp add: affected_def bindE_run exec_delete_restrict_def stmt_run)
  have "thenE (delete_user_refs (users_id u)) ?del d = (Inr (), d4)" using refs(1) del by (simp add: thenE_run)
  then show ?thesis using d del(2) u(3) sel
    by (simp add: DeleteUser_refs transaction_run stmt_run bindE_run thenE_run [of "whenE _ _"] whenE_run)
qed

lemma CreateOIDCIdentity_error: "CreateOIDCIdentity idn d = (Inl e, d') \<Longrightarrow> same_tables d d'"
  by (auto simp: CreateOIDCIdentity_def exec_insert_def stmt_def Let_def split: if_splits sum.splits)

text \<open>A provisioned user whose identity is not stored is removed again, and no event is published.\<close>

lemma follows_provision_undone:
  assumes st: "quiet st" and d1: "db_faults d1 = []" "accounts_wf d1" "CreateUser u (srv_db st) = (Inr (), d1)"
    and u: "User_ApprovalStatus u \<noteq> []" "User_Role u \<noteq> RoleAdmin" "User_ID u = uid" and d2: "same_tables d1 d2" "db_faults d2 = []" "accounts_wf d2"
  shows "follows t0 st (snd (ignoreE (sql (DeleteUser uid)) (throw e) (st\<lparr>srv_db := d2\<rparr>)))"
proof -
  let ?d = "srv_db st" and ?r = "users_row_of u"
  have eff: "users_insert_ok ?d ?r" "db_users d2 = db_users ?d @ [?r]" "db_sessions d2 = db_sessions ?d"
    using CreateUser_effect [OF d1(3) u(1)] same_core_tables [OF d2(1)] by (auto simp: same_core_def)
  have r: "users_id ?r = uid" "users_role ?r \<noteq> RoleAdmin" using u by (simp_all add: users_row_of_def)
  have new: "\<forall>x\<in>set (db_users ?d). users_id x \<noteq> uid" using eff(1) r(1) by (auto simp: users_insert_ok_def)
  have "?r \<in> set (db_users d2)" "distinct (map users_id (db_users d2))" using eff(2) accounts_wf_keys(1) [OF d2(3)] by simp_all
  from DeleteUser_succeeds [OF d2(2) this r(2)] obtain d3 where del: "DeleteUser uid d2 = (Inr (), d3)" unfolding r(1) by blast
  have "\<forall>x\<in>set (db_sessions ?d). sessions_user_id x \<noteq> uid"
    using st new unfolding quiet_def accounts_wf_def by metis
  then have "db_sessions d3 = db_sessions ?d" "db_users d3 = db_users ?d"
    using DeleteUser_effect [OF del] eff(2,3) new r(1) by (simp_all add: filter_id_conv)
  then have "in_step t0 V ?d \<Longrightarrow> in_step t0 V d3" for V by (simp add: in_step_def)
  moreover have "db_faults d3 = []" using stepsD [OF faultless_store(7) del] d2(2) by (simp add: faultless_def)
  moreover have "accounts_wf d3" using account_run_wf [OF stepsD [OF account_runs(9) del]] d2(3) by blast
  ultimately have "follows t0 st (st\<lparr>srv_db := d3\<rparr>)" by (intro follows_change [where tps = "[]"]) simp
  then show ?thesis by (simp add: sql_run ignoreE_run del throw_def)
qed

lemma follows_provision_done:
  assumes d1: "CreateUser u (srv_db st) = (Inr (), d1)" and u: "User_ApprovalStatus u \<noteq> []"
    and d2: "same_core d1 d2" "db_faults d2 = []" "accounts_wf d2"
  shows "follows t0 st (snd (bindE (now_of w) (\<lambda>t. ignoreE (sql (SetUserGroupMember g uid True t))
    (thenE (publish UserUpdated (PUser u)) (thenE (publish_member g uid True) (ret u)))) (st\<lparr>srv_db := d2\<rparr>)))"
proof -
  let ?t = "world_clock w (srv_tick st)"
  obtain r d3 where mem: "SetUserGroupMember g uid True ?t d2 = (r, d3)" by fastforce
  have "steps same_core (SetUserGroupMember g uid True ?t)"
    unfolding SetUserGroupMember_def by (intro cor.db_intros same_core_memberships)
  from stepsD [OF this mem] have d3: "same_core d2 d3" .
  have eff: "users_insert_ok (srv_db st) (users_row_of u)" "db_users d3 = db_users (srv_db st) @ [users_row_of u]"
    "db_sessions d3 = db_sessions (srv_db st)" using CreateUser_effect [OF d1 u] d2(1) d3 by (auto simp: same_core_def)
  let ?st = "st\<lparr>srv_tick := srv_tick st + 1, srv_db := d3, srv_hub := Publish UserUpdated (PUser u) (srv_hub st)\<rparr>"
  have "db_faults d3 = []" using stepsD [OF faultless_store(9) mem] d2(2) by (simp add: faultless_def)
  moreover have "accounts_wf d3" using account_run_wf [OF stepsD [OF account_runs(11) mem]] d2(3) by blast
  ultimately have "follows t0 st ?st"
    using in_step_new_user [OF _ eff] by (intro follows_change [where tps = "[(UserUpdated, PUser u)]"]) simp
  moreover have "steps (follows t0) (thenE (publish_member g uid True) (ret u))" by (intro fol.steps_intros follows_publish_members)
  ultimately show ?thesis
    using follows_trans by (simp add: bindE_run draw_run ignoreE_run sql_run mem thenE_run [of "publish _ _"] publish_run steps_def)
qed

lemma follows_provision:
  assumes u: "User_ApprovalStatus u \<noteq> []" "User_Role u \<noteq> RoleAdmin" "User_ID u = uid"
  shows "steps (follows t0) (thenE (sql (CreateUser u)) (attempt (sql (CreateOIDCIdentity idn)) (\<lambda>r. case r of
      Inl e \<Rightarrow> ignoreE (sql (DeleteUser uid)) (throw e)
    | Inr _ \<Rightarrow> bindE (now_of w) (\<lambda>t. ignoreE (sql (SetUserGroupMember g uid True t))
        (thenE (publish UserUpdated (PUser u)) (thenE (publish_member g uid True) (ret u)))))))"
  unfolding thenE_def [of "sql (CreateUser u)"] bindE_def [of "sql (CreateUser u)"]
proof (rule follows_store [OF account_runs(1) faultless_store(1) store_errors(4)]; simp)
  fix st :: server and d1
  assume *: "quiet st" "db_faults d1 = []" "accounts_wf d1" "CreateUser u (srv_db st) = (Inr (), d1)"
  obtain r d2 where idn: "CreateOIDCIdentity idn d1 = (r, d2)" by fastforce
  have d2: "db_faults d2 = []" "accounts_wf d2"
    using stepsD [OF faultless_store(13) idn] account_run_wf [OF stepsD [OF account_runs(15) idn]] *(2,3) by (auto simp: faultless_def)
  have "same_core d (db_oidc_identities_update h d)" for d h by (simp add: same_core_def)
  then have "steps same_core (CreateOIDCIdentity idn)" unfolding CreateOIDCIdentity_def by (intro cor.db_intros)
  from stepsD [OF this idn] have core: "same_core d1 d2" .
  show "follows t0 st (snd (attempt (sql (CreateOIDCIdentity idn)) (\<lambda>r. case r of
      Inl e \<Rightarrow> ignoreE (sql (DeleteUser uid)) (throw e)
    | Inr _ \<Rightarrow> bindE (now_of w) (\<lambda>t. ignoreE (sql (SetUserGroupMember g uid True t))
        (thenE (publish UserUpdated (PUser u)) (thenE (publish_member g uid True) (ret u))))) (st\<lparr>srv_db := d1\<rparr>)))"
  proof (cases r)
    case (Inl e)
    then have "same_tables d1 d2" using idn CreateOIDCIdentity_error by blast
    from follows_provision_undone [OF * u this d2] show ?thesis using Inl by (simp add: attempt_run sql_run idn)
  next
    case (Inr a)
    from follows_provision_done [OF *(4) u(1) core d2] show ?thesis using Inr by (simp add: attempt_run sql_run idn)
  qed
qed (rule fol.steps_throw)

lemma follows_provisionExternalUser: "steps (follows t0) (provisionExternalUser w name profile)"
  unfolding provisionExternalUser_def Let_def
  by (intro fol.steps_bindE [OF follows_hash(1)] follows_draw, rule follows_provision;
      simp add: provisioned_user_def)

lemma follows_sync_targets: "steps (follows t0) (sync_targets w userID wanted targets seen)"
  by (induction w userID wanted targets seen rule: sync_targets.induct)
    (simp_all only: sync_targets.simps, (intro follows_intros follows_publish_members; assumption)+)

lemma follows_syncExternalGroups: "steps (follows t0) (syncExternalGroups w i gs m)"
  unfolding syncExternalGroups_def by (intro fol.steps_intros follows_sync_targets)

lemma follows_or_invalid:
  "steps (follows t0) m \<Longrightarrow> (\<And>a. steps (follows t0) (k a)) \<Longrightarrow> steps (follows t0) (or_invalid m k)"
  unfolding or_invalid_def by (intro fol.steps_intros)

lemma follows_provider_login: "steps (follows t0) (provider_login w c profile)"
  unfolding provider_login_def Let_def
  by (intro follows_intros follows_or_invalid follows_syncExternalGroups follows_reads follows_provisionExternalUser)

lemma follows_try_providers: "steps (follows t0) (try_providers w u p cs)"
proof (induction cs)
  case Nil
  show ?case unfolding try_providers.simps by (rule fol.steps_throw)
next
  case (Cons c cs)
  have "steps (follows t0) (case answer of Inl e \<Rightarrow> try_providers w u p cs | Inr profile \<Rightarrow> provider_login w c profile)" for answer
    using Cons follows_provider_login by (cases answer) simp_all
  then show ?case unfolding try_providers.simps by (intro follows_draw)
qed

lemma follows_VerifyCredentials: "steps (follows t0) (VerifyCredentials w s u p)"
  unfolding VerifyCredentials_def by (intro follows_intros follows_reads follows_try_providers)

lemma follows_Login: "steps (follows t0) (Login w s input)"
  unfolding Login_def by (intro fol.steps_intros follows_VerifyCredentials follows_CompleteLogin)

lemma follows_Authenticate: "steps (follows t0) (Authenticate w s raw)"
  unfolding Authenticate_def by (intro follows_intros follows_reads)

end
