(* ===== verification/Snapshot.thy ===== *)
theory Snapshot
  imports Coherence Gateway Store_Policies
begin

text \<open>
  The snapshot that internal/httpapi/server.go takes for the rendezvous server, and what the cache
  accepts from then on: authSnapshot, the reconciliation of art-core/src/sync.rs, and the property
  that the snapshot followed by the events of the account service makes the cache accept exactly
  the live sessions.  The login and deployment switches in force are the argument \<open>configured\<close>.
\<close>

section \<open>Taking a snapshot\<close>

definition relay_mode :: "Gateway \<Rightarrow> RelayServer \<Rightarrow> error + Credential \<Rightarrow> RelayServer" where
  "relay_mode g v r = (case r of
       Inl err \<Rightarrow> if errors_Is err ErrNotFound then v\<lparr>RelayServer_ControlMode := ''legacy''\<rparr>
         else v\<lparr>RelayServer_ControlMode := ''wss'', RelayServer_ControlConnected := False, RelayServer_Health := ''offline''\<rparr>
     | Inr credential \<Rightarrow>
         (let connected = (Credential_Hash credential \<noteq> [] \<and> Online (RelayServer_ID v) g);
              v = v\<lparr>RelayServer_ControlMode := ''wss'', RelayServer_ControlConnected := connected\<rparr>
          in if connected then v else v\<lparr>RelayServer_Health := ''offline''\<rparr>))"

primrec relayControlState :: "Gateway \<Rightarrow> RelayServer list \<Rightarrow> (server, RelayServer list) prog" where
  "relayControlState g [] = ret []"
| "relayControlState g (v # vs) = attempt (sql (RelayCredential (RelayServer_ID v))) (\<lambda>r.
     bindE (relayControlState g vs) (\<lambda>vs. ret (relay_mode g v r # vs)))"

abbreviation or_none :: "error + 'a list \<Rightarrow> 'a list" where
  "or_none r \<equiv> (case r of Inl _ \<Rightarrow> [] | Inr xs \<Rightarrow> xs)"

text \<open>The loop: \<open>n\<close> attempts are left.\<close>

primrec capture :: "world \<Rightarrow> Gateway \<Rightarrow> duration \<Rightarrow> bool \<times> bool \<Rightarrow> nat \<Rightarrow> (server, AuthSnapshot reply) prog" where
  "capture w g ttl configured 0 = ret (WriteError 503 ''snapshot changed during capture; retry'')"
| "capture w g ttl configured (Suc n) =
     bindE (gets (\<lambda>s. Hub_revision (srv_hub s))) (\<lambda>revisionBefore.
     bindE (now_of w) (\<lambda>now.
     handleE (sql (ListAuthState now)) (\<lambda>_. WriteError 500 ''snapshot unavailable'') (\<lambda>(users, sessions).
     bindE (now_of w) (\<lambda>seen.
     attempt (sql (ListDevices seen ttl)) (\<lambda>devices.
     attempt (sql ListACLRules) (\<lambda>aclRules.
     attempt (sql ListStrategies) (\<lambda>strategies.
     attempt (sql ListUserGroupMemberships) (\<lambda>memberships.
     attempt (sql ListRelayServers) (\<lambda>relays.
     bindE (relayControlState g (or_none relays)) (\<lambda>servers.
     if \<not> is_ok devices \<or> \<not> is_ok aclRules \<or> \<not> is_ok strategies \<or> \<not> is_ok memberships \<or> \<not> is_ok relays
     then ret (WriteError 500 ''policy snapshot unavailable'')
     else bindE (gets (\<lambda>s. (Hub_sourceID (srv_hub s), Hub_revision (srv_hub s)))) (\<lambda>(sourceID, revisionAfter).
       if revisionBefore = revisionAfter
       then bindE (now_of w) (\<lambda>created. ret (WriteJSON 200
         \<lparr>AuthSnapshot_RequireLogin = fst configured, AuthSnapshot_RequireDeviceDeployment = snd configured,
          AuthSnapshot_SourceID = sourceID, AuthSnapshot_Revision = revisionAfter,
          AuthSnapshot_CreatedAt = created, AuthSnapshot_Users = users, AuthSnapshot_Sessions = sessions,
          AuthSnapshot_Devices = or_none devices, AuthSnapshot_ACLRules = or_none aclRules,
          AuthSnapshot_Strategies = or_none strategies, AuthSnapshot_UserGroupMemberships = or_none memberships,
          AuthSnapshot_RelayServers = servers\<rparr>))
       else capture w g ttl configured n)))))))))))"

definition authSnapshot :: "world \<Rightarrow> Gateway \<Rightarrow> duration \<Rightarrow> bool \<times> bool \<Rightarrow> (server, AuthSnapshot reply) prog" where
  "authSnapshot w g ttl configured = capture w g ttl configured 3"

section \<open>Reconciliation\<close>

text \<open>The rules and strategies of the tables have permissions and settings (validACLRule and
  validStrategy), so the decoders of the events serve here too.\<close>

definition decode_all :: "('a \<Rightarrow> 'b option) \<Rightarrow> 'a list \<Rightarrow> 'b list option" where
  "decode_all f xs = (if list_all (\<lambda>x. f x \<noteq> None) xs then Some (map (\<lambda>x. the (f x)) xs) else None)"

definition decode_snapshot :: "AuthSnapshot \<Rightarrow> HbbsSnapshot option" where
  "decode_snapshot s =
     (case (decode_all decode_acl (AuthSnapshot_ACLRules s), decode_all decode_strategy (AuthSnapshot_Strategies s),
            decode_all decode_relay (AuthSnapshot_RelayServers s)) of
        (Some acl_rules, Some strategies, Some relay_servers) \<Rightarrow> Some
          \<lparr>HbbsSnapshot_require_login = Some (AuthSnapshot_RequireLogin s),
           HbbsSnapshot_require_device_deployment = Some (AuthSnapshot_RequireDeviceDeployment s),
           HbbsSnapshot_source_id = AuthSnapshot_SourceID s, HbbsSnapshot_revision = AuthSnapshot_Revision s,
           HbbsSnapshot_users = map user_state (AuthSnapshot_Users s),
           HbbsSnapshot_sessions = map session_state (AuthSnapshot_Sessions s),
           HbbsSnapshot_devices = map device_state (AuthSnapshot_Devices s),
           HbbsSnapshot_acl_rules = acl_rules, HbbsSnapshot_strategies = strategies,
           HbbsSnapshot_user_group_memberships = map membership_state (AuthSnapshot_UserGroupMemberships s),
           HbbsSnapshot_relay_servers = relay_servers\<rparr>
      | _ \<Rightarrow> None)"

text \<open>Any other reply, and a body that does not decode, is an error: the cache stays as it is.\<close>

definition reconcile_cache :: "AuthSnapshot reply \<Rightarrow> CacheState \<Rightarrow> CacheState option" where
  "reconcile_cache reply c = (case reply of
       WriteJSON n s \<Rightarrow> if n = 200 then map_option (\<lambda>v. replace v c) (decode_snapshot s) else None
     | _ \<Rightarrow> None)"

section \<open>What a snapshot holds\<close>

lemma relayControlState_run:
  "db_faults (srv_db st) = [] \<Longrightarrow> \<exists>vs'. relayControlState g vs st = (Inr vs', st)"
  by (induction vs) (auto simp: attempt_run bindE_run sql_run RelayCredential_def statement_run split: option.splits)

lemma lists_run:
  assumes "db_faults d = []"
  shows "ListAuthState now d = (Inr (map scanUser (db_users d),
      map scanSession (filter (\<lambda>r. millis now < sessions_expires_at r) (db_sessions d))), d)"
    and "\<exists>xs. ListDevices now ttl d = (Inr xs, d)" and "\<exists>xs. ListACLRules d = (Inr xs, d)"
    and "\<exists>xs. ListStrategies d = (Inr xs, d)" and "\<exists>xs. ListUserGroupMemberships d = (Inr xs, d)"
    and "\<exists>xs. ListRelayServers d = (Inr xs, d)"
  using assms by (simp_all add: ListAuthState_def ListDevices_def ListACLRules_def ListStrategies_def
      ListUserGroupMemberships_def ListRelayServers_def statement_run)

text \<open>When no statement fails, the snapshot is taken, with every user and every session that has not
  expired, at the revision of the hub.\<close>

lemma authSnapshot_run:
  assumes "db_faults (srv_db st) = []"
  shows "\<exists>snap n. authSnapshot w g ttl configured st = (Inr (WriteJSON 200 snap), st\<lparr>srv_tick := n\<rparr>) \<and>
    AuthSnapshot_SourceID snap = Hub_sourceID (srv_hub st) \<and> AuthSnapshot_Revision snap = Hub_revision (srv_hub st) \<and>
    AuthSnapshot_Users snap = map scanUser (db_users (srv_db st)) \<and>
    AuthSnapshot_Sessions snap = map scanSession
      (filter (\<lambda>r. millis (world_clock w (srv_tick st)) < sessions_expires_at r) (db_sessions (srv_db st)))"
proof -
  note quiet = assms
  let ?t = "srv_tick st" and ?d = "srv_db st"
  obtain devices where 1: "ListDevices (world_clock w (Suc ?t)) ttl ?d = (Inr devices, ?d)" using lists_run(2) [OF quiet] by blast
  obtain rules where 2: "ListACLRules ?d = (Inr rules, ?d)" using lists_run(3) [OF quiet] by blast
  obtain strategies where 3: "ListStrategies ?d = (Inr strategies, ?d)" using lists_run(4) [OF quiet] by blast
  obtain members where 4: "ListUserGroupMemberships ?d = (Inr members, ?d)" using lists_run(5) [OF quiet] by blast
  obtain relays where 5: "ListRelayServers ?d = (Inr relays, ?d)" using lists_run(6) [OF quiet] by blast
  have "db_faults (srv_db (st\<lparr>srv_tick := Suc (Suc ?t)\<rparr>)) = []" using quiet by simp
  from relayControlState_run [OF this, of g relays] obtain servers
    where 6: "relayControlState g relays (st\<lparr>srv_tick := Suc (Suc ?t)\<rparr>) = (Inr servers, st\<lparr>srv_tick := Suc (Suc ?t)\<rparr>)" by blast
  show ?thesis
    by (simp add: authSnapshot_def numeral_3_eq_3 bindE_run attempt_run handleE_run sql_run draw_run
        lists_run(1) [OF quiet] 1 2 3 4 5 6) blast
qed

section \<open>The cache after a snapshot\<close>

lemma map_get_fold:
  "map_get (fold (\<lambda>v m. map_put (key v) v m) vs m) k =
     (case find (\<lambda>v. key v = k) (rev vs) of Some v \<Rightarrow> Some v | None \<Rightarrow> map_get m k)"
  by (induction vs arbitrary: m) (auto simp: map_get_put find_append split: option.splits)

lemma map_get_collect: "map_get (collect key vs) k = find (\<lambda>v. key v = k) (rev vs)"
  by (simp add: collect_def map_get_fold split: option.split)

lemma map_ok_collect: "map_ok (collect key vs)"
proof -
  have "map_ok m \<Longrightarrow> map_ok (fold (\<lambda>v m. map_put (key v) v m) vs m)" for m
    by (induction vs arbitrary: m) (simp_all add: map_ok_put)
  then show ?thesis by (simp add: collect_def)
qed

lemma findSomeD: "find p xs = Some v \<Longrightarrow> v \<in> set xs \<and> p v"
  by (induction xs) (auto split: if_splits)

lemma find_distinct:
  assumes "distinct (map key vs)" "v \<in> set vs" "key v = k"
  shows "find (\<lambda>v. key v = k) (rev vs) = Some v"
proof -
  obtain u where u: "find (\<lambda>v. key v = k) (rev vs) = Some u" using assms(2,3) by (fastforce simp: find_None_iff)
  then have "u \<in> set vs" "key u = k" using findSomeD by fastforce+
  then have "u = v" using assms by (auto simp: distinct_map dest: inj_onD)
  then show ?thesis using u by simp
qed

lemma collected:
  assumes "distinct (map key vs)"
  shows "v \<in> set vs \<Longrightarrow> map_get (collect key vs) (key v) = Some v"
    and "map_get (collect key vs) k = Some v \<Longrightarrow> v \<in> set vs \<and> key v = k"
  using find_distinct [OF assms] by (simp_all add: map_get_collect) (use findSomeD in fastforce)

lemma replaced_agrees:
  assumes wf: "accounts_wf d"
    and users: "HbbsSnapshot_users s = map (\<lambda>r. user_state (scanUser r)) (db_users d)"
    and sessions: "HbbsSnapshot_sessions s =
      map (\<lambda>x. session_state (scanSession x)) (filter (\<lambda>x. millis t0 < sessions_expires_at x) (db_sessions d))"
    and new: "\<not> (HbbsSnapshot_source_id s = CacheState_source_id c \<and> HbbsSnapshot_revision s < CacheState_revision c)"
  shows "cache_ok (replace s c) \<and> cursor (replace s c) = (HbbsSnapshot_source_id s, HbbsSnapshot_revision s) \<and>
    in_step t0 (cache_view (replace s c)) d"
proof -
  have ids: "distinct (map UserState_id (HbbsSnapshot_users s))" "distinct (map SessionState_id (HbbsSnapshot_sessions s))"
    using wf by (simp_all add: users sessions accounts_wf_def users_unique_def comp_def distinct_map_filter)
  note u = collected [OF ids(1)] and x = collected [OF ids(2)]
  have c': "CacheState_users (replace s c) = collect UserState_id (HbbsSnapshot_users s)"
    "CacheState_sessions (replace s c) = collect SessionState_id (HbbsSnapshot_sessions s)"
    "cursor (replace s c) = (HbbsSnapshot_source_id s, HbbsSnapshot_revision s)"
    unfolding replace_def if_not_P [OF new] by (simp_all add: cursor_def)
  have "cache_ok (replace s c)"
    using u(2) x(2) by (fastforce simp: cache_ok_def c' map_ok_collect sessions)
  moreover have "users_agree (fst (cache_view (replace s c))) (db_users d)"
    unfolding users_agree_def cache_view_def c' fst_conv
  proof (intro conjI ballI allI impI)
    fix r assume "r \<in> set (db_users d)"
    then show "map_option cached_user (map_get (collect UserState_id (HbbsSnapshot_users s)) (users_id r)) =
        Some (view_of_user (scanUser r))"
      using u(1) [of "user_state (scanUser r)"] by (simp add: users)
  next
    fix i v assume "map_option cached_user (map_get (collect UserState_id (HbbsSnapshot_users s)) i) = Some v"
    then show "\<exists>r\<in>set (db_users d). users_id r = i" using u(2) [of i] by (force simp: users)
  qed
  moreover have "sessions_agree t0 (snd (cache_view (replace s c))) (db_sessions d)"
    unfolding sessions_agree_def cache_view_def c' snd_conv
  proof (intro conjI ballI allI impI)
    fix y assume "y \<in> set (db_sessions d)" "millis t0 < sessions_expires_at y"
    then show "map_option cached_session (map_get (collect SessionState_id (HbbsSnapshot_sessions s)) (sessions_id y)) =
        Some (view_of_session (scanSession y))"
      using x(1) [of "session_state (scanSession y)"] by (simp add: sessions)
  next
    fix j i e
    assume "map_option cached_session (map_get (collect SessionState_id (HbbsSnapshot_sessions s)) j) = Some (i, e, False)"
    then obtain y where "y \<in> set (db_sessions d)" "sessions_id y = j" "view_of_session (scanSession y) = (i, e, False)"
      using x(2) [of j] by (force simp: sessions)
    then show "\<exists>y\<in>set (db_sessions d). sessions_id y = j \<and> sessions_revoked_at y = None \<and> sessions_user_id y = i \<and>
        sessions_expires_at y = e" by (intro bexI [of _ y]) (simp_all add: view_of_session_def)
  qed
  ultimately show ?thesis using c'(3) by (simp add: in_step_def)
qed

section \<open>Calls of the account service\<close>

text \<open>One call, under any configuration of the service, that no other call overlaps.\<close>

inductive service_call :: "world \<Rightarrow> server \<Rightarrow> server \<Rightarrow> bool" for w where
  "VerifyCredentials w s u p st = (r, st') \<Longrightarrow> service_call w st st'"
| "CompleteLogin w s user input st = (r2, st') \<Longrightarrow> service_call w st st'"
| "Login w s input st = (r2, st') \<Longrightarrow> service_call w st st'"
| "Authenticate w s raw st = (r3, st') \<Longrightarrow> service_call w st st'"
| "CreateLocalUser w s cu st = (r, st') \<Longrightarrow> service_call w st st'"
| "Register w s cu b st = (r, st') \<Longrightarrow> service_call w st st'"
| "Auth_SetUserApproval w i approval st = (r, st') \<Longrightarrow> service_call w st st'"
| "SetPassword w s i password st = (r, st') \<Longrightarrow> service_call w st st'"
| "Auth_UpdateUser w s i upd password st = (r, st') \<Longrightarrow> service_call w st st'"
| "Auth_DeleteUser i st = (r1, st') \<Longrightarrow> service_call w st st'"
| "Auth_RevokeSession w i st = (r1, st') \<Longrightarrow> service_call w st st'"
| "RevokeAll w i st = (r1, st') \<Longrightarrow> service_call w st st'"
| "Auth_SetUserEnabled w i b st = (r, st') \<Longrightarrow> service_call w st st'"
| "Auth_ForceRelogin w i st = (r, st') \<Longrightarrow> service_call w st st'"

lemmas follows_services = follows_VerifyCredentials follows_CompleteLogin follows_Login follows_Authenticate
  follows_CreateLocalUser follows_Register follows_SetUserApproval follows_SetPassword follows_UpdateUser
  follows_DeleteUser follows_RevokeSession follows_RevokeAll follows_SetUserEnabled follows_ForceRelogin

lemma service_call_follows: "service_call w st st' \<Longrightarrow> follows t0 st st'"
  by (induction rule: service_call.induct) (erule follows_services [THEN stepsD])+

lemma service_calls_follow: "(service_call w)\<^sup>*\<^sup>* st st' \<Longrightarrow> follows t0 st st'"
  by (induction rule: rtranclp_induct) (blast intro: follows_refl follows_trans service_call_follows)+

text \<open>The consumer of the events stays in step.\<close>

lemma consumer_in_step:
  assumes "follows t0 st st'" "quiet st" "hub_past (srv_hub st)" "cache_ok c"
    "cursor c = (Hub_sourceID (srv_hub st), Hub_revision (srv_hub st))" "in_step t0 (cache_view c) (srv_db st)"
    and few: "Hub_revision (srv_hub st') \<le> Hub_revision (srv_hub st) + 1024"
  shows "\<exists>c'. consume_backlog (srv_hub st') c = (True, c') \<and> cache_ok c' \<and> in_step t0 (cache_view c') (srv_db st')"
proof -
  obtain tps where tps: "list_all account_event tps" "srv_hub st' = publish_all tps (srv_hub st)"
    "in_step t0 (fold view_event tps (cache_view c)) (srv_db st')"
    using assms(1,2,6) unfolding follows_def by blast
  have "length tps \<le> 1024" using few tps(2) by simp
  then have "consume_backlog (srv_hub st') c = consume (events_of tps (srv_hub st)) c"
    by (simp add: consume_backlog_def assms(5) tps(2) backlog_exact [OF assms(3)])
  then show ?thesis using consume_account_events [OF tps(1) assms(4,5)] tps(3) by auto
qed

section \<open>The cache accepts exactly the live sessions\<close>

lemma authorize_claims_user:
  assumes "cache_ok c" "authorize_claims c now claims = Inr dec"
  shows "AuthDecision_user_id dec = Jwt_sub claims"
proof -
  obtain user where user: "map_get (CacheState_users c) (Jwt_sub claims) = Some user"
    using assms(2) by (cases "map_get (CacheState_users c) (Jwt_sub claims)") (simp_all add: authorize_claims_def)
  then have "UserState_id user = Jwt_sub claims" using assms(1) by (simp add: cache_ok_def)
  then show ?thesis using assms(2) by (auto simp: authorize_claims_def user split: if_splits option.splits)
qed

lemma in_step_decides:
  assumes "cache_ok c" "in_step t0 (cache_view c) d" "t0 \<le> now * Second"
  shows "authorize_claims c now claims = Inr dec \<Longrightarrow> AuthDecision_user_id dec = Jwt_sub claims \<and>
      (\<exists>u x. hbbs_live d now claims u x \<and> users_role u = AuthDecision_role dec)"
    and "hbbs_live d now claims u x \<Longrightarrow> \<exists>dec. authorize_claims c now claims = Inr dec \<and>
      AuthDecision_user_id dec = users_id u \<and> AuthDecision_role dec = users_role u"
proof -
  note iff = authorize_claims_view [OF assms(1), of now claims] in_step_accepts [OF assms(2,3), of claims]
  show "AuthDecision_user_id dec = Jwt_sub claims \<and> (\<exists>u x. hbbs_live d now claims u x \<and> users_role u = AuthDecision_role dec)"
    if "authorize_claims c now claims = Inr dec"
    using iff [of "AuthDecision_role dec"] that authorize_claims_user [OF assms(1) that] by blast
  show "\<exists>dec. authorize_claims c now claims = Inr dec \<and> AuthDecision_user_id dec = users_id u \<and> AuthDecision_role dec = users_role u"
    if "hbbs_live d now claims u x"
  proof -
    have "users_id u = Jwt_sub claims" using that by (simp add: hbbs_live_def)
    then show ?thesis using iff [of "users_role u"] that by auto
  qed
qed

text \<open>C3: The rendezvous server enforces the account tables.  The authorization cache of HBBS takes a
  snapshot from the API server; the account service then runs any calls (logins, token checks, new and
  changed users, passwords, approvals, deletions, revocations), one after the other and no statement
  failing; and HBBS consumes the events published meanwhile, at most 1024, from its cursor on.  Then every
  event is applied, and at every second not before the snapshot the cache accepts the claims of a token,
  with a role, exactly when the tables hold the user with that role, enabled, approved and with the
  token's version, and the session, of that user, not revoked, and neither token nor session has expired.
  The hub has drawn every revision of its history, as in every state it reaches (\<open>hub_past_run\<close>), and the
  cache has not been ahead of it.\<close>

theorem hbbs_accepts_exactly_live:
  assumes quiet: "quiet st0" and past: "hub_past (srv_hub st0)"
    and snapshot: "authSnapshot w g ttl configured st0 = (Inr reply, st1)" and taken: "reconcile_cache reply c = Some c1"
    and old: "\<not> (CacheState_source_id c = Hub_sourceID (srv_hub st0) \<and> Hub_revision (srv_hub st0) < CacheState_revision c)"
    and calls: "(service_call w)\<^sup>*\<^sup>* st1 st2" and few: "Hub_revision (srv_hub st2) \<le> Hub_revision (srv_hub st1) + 1024"
  shows "\<exists>c2. consume_backlog (srv_hub st2) c1 = (True, c2) \<and>
    (\<forall>now claims. world_clock w (srv_tick st0) \<le> now * Second \<longrightarrow>
       (\<forall>dec. authorize_claims c2 now claims = Inr dec \<longrightarrow> AuthDecision_user_id dec = Jwt_sub claims \<and>
          (\<exists>u x. hbbs_live (srv_db st2) now claims u x \<and> users_role u = AuthDecision_role dec)) \<and>
       (\<forall>u x. hbbs_live (srv_db st2) now claims u x \<longrightarrow> (\<exists>dec. authorize_claims c2 now claims = Inr dec \<and>
          AuthDecision_user_id dec = users_id u \<and> AuthDecision_role dec = users_role u)))"
proof -
  let ?t0 = "world_clock w (srv_tick st0)"
  from quiet have "db_faults (srv_db st0) = []" by (simp add: quiet_def)
  from authSnapshot_run [OF this, of w g ttl configured] obtain snap n where snap:
    "reply = WriteJSON 200 snap" "st1 = st0\<lparr>srv_tick := n\<rparr>" "AuthSnapshot_SourceID snap = Hub_sourceID (srv_hub st0)"
    "AuthSnapshot_Revision snap = Hub_revision (srv_hub st0)" "AuthSnapshot_Users snap = map scanUser (db_users (srv_db st0))"
    "AuthSnapshot_Sessions snap = map scanSession (filter (\<lambda>r. millis ?t0 < sessions_expires_at r) (db_sessions (srv_db st0)))"
    using snapshot by auto
  obtain s where s: "decode_snapshot snap = Some s" "c1 = replace s c" using taken by (auto simp: reconcile_cache_def snap(1))
  then have "HbbsSnapshot_users s = map (\<lambda>r. user_state (scanUser r)) (db_users (srv_db st0))"
    "HbbsSnapshot_sessions s = map (\<lambda>x. session_state (scanSession x))
      (filter (\<lambda>x. millis ?t0 < sessions_expires_at x) (db_sessions (srv_db st0)))"
    "HbbsSnapshot_source_id s = Hub_sourceID (srv_hub st0)" "HbbsSnapshot_revision s = Hub_revision (srv_hub st0)"
    using snap(3-6) by (auto simp: decode_snapshot_def split: option.splits)
  with replaced_agrees [of "srv_db st0" s ?t0 c] quiet old
  have c1: "cache_ok c1" "cursor c1 = (Hub_sourceID (srv_hub st1), Hub_revision (srv_hub st1))"
    "in_step ?t0 (cache_view c1) (srv_db st1)"
    by (simp_all add: s(2) snap(2) quiet_def eq_commute)
  have "quiet st1" "hub_past (srv_hub st1)" using quiet past by (simp_all add: snap(2) quiet_def)
  from consumer_in_step [OF service_calls_follow [OF calls] this c1 few] obtain c2 where
    c2: "consume_backlog (srv_hub st2) c1 = (True, c2)" "cache_ok c2" "in_step ?t0 (cache_view c2) (srv_db st2)" by blast
  then show ?thesis using in_step_decides [OF c2(2,3)] by blast
qed

text \<open>The claims of the second session of the example, before and after it is revoked.\<close>

definition bob_claims :: JwtClaims where
  "bob_claims = \<lparr>Jwt_sub = ''u2'', Jwt_sid = ''s2'', Jwt_iat = 0, Jwt_exp = 8, Jwt_iss = ''art'',
     Jwt_aud = One ''art'', Jwt_username = ''bob'', Jwt_role = RoleUser, Jwt_token_version = 1, Jwt_device_id = []\<rparr>"

lemma example_snapshot:
  "\<exists>reply c1. authSnapshot (example_world c) NewGateway 0 (True, True) example_server = (Inr reply, example_server\<lparr>srv_tick := 4\<rparr>) \<and>
     reconcile_cache reply empty_cache = Some c1"
proof -
  have tables: "db_faults accounts_example = []" "db_acl_rules accounts_example = []" "db_strategies accounts_example = []"
    "db_relay_servers accounts_example = []" by (simp_all add: accounts_example_defs)
  then have none: "ListACLRules accounts_example = (Inr [], accounts_example)" "ListStrategies accounts_example = (Inr [], accounts_example)"
    "ListRelayServers accounts_example = (Inr [], accounts_example)"
    by (simp_all add: ListACLRules_def ListStrategies_def ListRelayServers_def statement_run)
  have rest: "\<exists>xs. ListDevices now ttl accounts_example = (Inr xs, accounts_example)" "\<exists>xs. ListUserGroupMemberships accounts_example = (Inr xs, accounts_example)"
    for now ttl by (rule lists_run, rule tables)+
  then obtain ds ms where "ListDevices (world_clock (example_world c) 2) 0 accounts_example = (Inr ds, accounts_example)"
    "ListUserGroupMemberships accounts_example = (Inr ms, accounts_example)" by blast
  then show ?thesis
    by (simp add: authSnapshot_def numeral_3_eq_3 bindE_run attempt_run handleE_run sql_run draw_run lists_run(1) [OF tables(1)] none
        example_server_def numeral_2_eq_2 reconcile_cache_def decode_snapshot_def decode_all_def)
qed

lemma example_revoke:
  "\<exists>st2. Auth_RevokeSession (example_world c) ''s2'' (example_server\<lparr>srv_tick := n\<rparr>) = (Inr (), st2) \<and>
     (\<forall>x\<in>set (db_sessions (srv_db st2)). sessions_revoked_at x \<noteq> None) \<and> Hub_revision (srv_hub st2) = 1"
  by (simp add: Auth_RevokeSession_def RevokeSession_def FindSession_def call_run example_server_defs upd_where_def NewHub_def)

theorem hbbs_accepts_exactly_live_witness:
  "\<exists>reply st1 st2 c1 c2. authSnapshot (example_world example_claims) NewGateway 0 (True, True) example_server = (Inr reply, st1) \<and>
     reconcile_cache reply empty_cache = Some c1 \<and> Auth_RevokeSession (example_world example_claims) ''s2'' st1 = (Inr (), st2) \<and>
     consume_backlog (srv_hub st2) c1 = (True, c2) \<and>
     (\<exists>dec. authorize_claims c1 1 bob_claims = Inr dec) \<and> (\<forall>dec. authorize_claims c2 1 bob_claims \<noteq> Inr dec)"
proof -
  let ?w = "example_world example_claims" and ?u = "example_user ''u2'' ''bob'' RoleUser" and ?x = "example_session ''s2'' ''u2'' None"
  obtain reply st1 c1 where snap: "authSnapshot ?w NewGateway 0 (True, True) example_server = (Inr reply, st1)"
    "reconcile_cache reply empty_cache = Some c1" and st1: "st1 = example_server\<lparr>srv_tick := 4\<rparr>"
    using example_snapshot by blast
  obtain st2 where run: "Auth_RevokeSession ?w ''s2'' st1 = (Inr (), st2)"
    and st2: "\<forall>x\<in>set (db_sessions (srv_db st2)). sessions_revoked_at x \<noteq> None" "Hub_revision (srv_hub st2) = 1"
    using example_revoke unfolding st1 by blast
  have base: "quiet example_server" "hub_past (srv_hub example_server)"
    "\<not> (CacheState_source_id empty_cache = Hub_sourceID (srv_hub example_server) \<and>
        Hub_revision (srv_hub example_server) < CacheState_revision empty_cache)"
    "Hub_revision (srv_hub st1) = 0" "world_clock ?w (srv_tick example_server) \<le> 1 * Second"
    using example_server_ok by (simp_all add: quiet_def hub_past_def example_server_def NewHub_def empty_cache_def st1 example_world_def Second_def)
  note live = hbbs_accepts_exactly_live [OF base(1,2) snap base(3)]
  have calls: "(service_call ?w)\<^sup>*\<^sup>* st1 st2" by (rule r_into_rtranclp, rule service_call.intros(11), rule run)
  have few: "Hub_revision (srv_hub st2) \<le> Hub_revision (srv_hub st1) + 1024" by (simp add: st2(2) base(4))
  obtain c2 where c2: "consume_backlog (srv_hub st2) c1 = (True, c2)"
    "\<And>dec. authorize_claims c2 1 bob_claims = Inr dec \<Longrightarrow> \<exists>u x. hbbs_live (srv_db st2) 1 bob_claims u x"
    using live [OF calls few] base(5) by blast
  have "hbbs_live (srv_db st1) 1 bob_claims ?u ?x"
    by (simp add: hbbs_live_def st1 example_server_def accounts_example_defs bob_claims_def fromMillis_def unix_timestamp_def Second_def)
  moreover obtain c where "consume_backlog (srv_hub st1) c1 = (True, c)"
    "hbbs_live (srv_db st1) 1 bob_claims ?u ?x \<Longrightarrow> \<exists>dec. authorize_claims c 1 bob_claims = Inr dec"
    using live [OF rtranclp.rtrancl_refl] base(5) by fastforce
  moreover have "consume_backlog (srv_hub st1) c1 = (True, c1)"
    by (simp add: consume_backlog_def st1 example_server_def NewHub_def SubscribeAfter_def split: prod.split)
  ultimately have "\<exists>dec. authorize_claims c1 1 bob_claims = Inr dec" by auto
  moreover have "\<not> hbbs_live (srv_db st2) 1 bob_claims u x" for u x using st2(1) by (auto simp: hbbs_live_def)
  ultimately show ?thesis using snap run c2 by blast
qed

end
