(* ===== verification/Spec2Isabelle.thy ===== *)
theory Spec2Isabelle
  imports Cluster Account_Props Limiter_Props Hub MFA_Props Store_Devices Store_Books Relay_Props Store_Events Store_Clients Store_Policies Users_Props Strategy_Props Http_Quarantine Snapshot
begin

text \<open>
  A verification development of a self-hosted remote-control platform: the API server
  (src/art-api, Go) with its SQL store, services and HTTP handlers, and the parts of the
  rendezvous server HBBS (src/art-core and src/art-hbbs, Rust) that decide who may connect.

  How the program works.  The store (internal/store/sqlstore) keeps accounts, sessions,
  devices, address books, policies, relays and builds.  The services (internal/auth, mfa,
  audit, addressbook, strategy, cluster) run statements of the store and publish events at the
  hub (internal/events).  The handlers (internal/httpapi) authenticate a request, check its
  permissions and call a service.  HBBS keeps a cache of users, sessions, devices and policies:
  it takes a snapshot from the API server, follows the events of the hub from its cursor on, and
  its gate decides each connection on the cache alone.  Relays connect to the gateway
  (internal/relaygateway), receive permits there and report the connections they carry.

  How it is modelled.
  \<^item> Code is a program \<open>('s, 'a) prog\<close>: a function from a state to a result, an error or a
    value, and the next state (Prelude).  A store operation runs on the database (Schema, a
    record of tables), a service or handler on the \<open>server\<close> (Server: database, hub and a
    counter of what is drawn from outside).
  \<^item> A statement may fail: the database carries a schedule of failures, arbitrary in the
    properties unless they say that no statement fails.  A transaction that fails restores the
    tables (Statements).
  \<^item> What the program reads from outside, the clock, random bytes, fresh identifiers, Argon2id
    and the token library, is the record \<open>world\<close>; password providers, the Unicode tables,
    the network and the Rust crates are arguments too.  SHA-1, SHA-256, HMAC and AES-256-GCM are
    defined (Digest, Cipher), as are the encodings (Encoding) and the parts of Go's strings,
    strconv and fmt packages that are used (Strings).
  \<^item> A Go map or a Rust HashMap is the list of its entries in one iteration order (Maps).
  \<^item> Code that shares memory is a transition system: the nodes of a cluster (Cluster), the two
    steps of a publication (Hub), the goroutines of the gateway (Gateway).  Elsewhere a call of a
    service is one step, and its statements are not interleaved with those of other calls.

  The contracts.  \<open>step_rel\<close> (Prelude) is the contract of a relation that every step of a
  program keeps; \<open>db_rel\<close> (Statements) and \<open>server_rel\<close> (Server) extend it to statements and
  to the services.  Each invariant below is an interpretation of one of them, so that it is
  checked once for every statement and then follows for the operations, the services and the
  handlers.  \<open>go_map\<close> (Maps) is the contract of a map.

  The components and what is shown of them.
  \<^item> Cluster (store/sqlstore/cluster.go, cluster/coordinator.go): a lease is a compare-and-swap,
    and two nodes never run the worker of one lease at once.
  \<^item> Store_Accounts, Store_Sessions, Store_Identity, Store_Audit (store/sqlstore/store.go), with
    Account_Invariants and Account_Props: revocation is permanent, token versions never decrease,
    an administrator remains, and what deleting a user removes.
  \<^item> Lockout (login_lockout.go, account_lockout.go, ratelimit.go), Limiter_Props: both brakes lock
    after the configured number of failures, and the limiter answers like a reference that never
    prunes.
  \<^item> Hub (events/hub.go): the history and the channels under every interleaving of publications.
  \<^item> Password (auth/password.go, password_policy.go), Auth (auth/jwt.go, auth/service.go,
    identity/provider.go), Auth_Runs, Auth_Props: what the policy and a stored hash accept, exactly
    which tokens authenticate, that logged-out and revoked ones never do again, that a login yields
    a working token, and that a new password takes effect.
  \<^item> MFA, MFA_Props (mfa/totp.go): which codes are accepted, that an enrolled secret confirms, and
    that a recovery code works once.
  \<^item> Store_Devices, Store_Books, Store_Events, Store_Clients, Store_Policies: the other tables; a
    deployed device keeps its identity, and a build is leased to one worker.
  \<^item> Store_Relays, Relay_Runs, Relay_Props (relay_delivery.go, relay_operations.go,
    relay_credentials.go): the delivery protocol implements a life cycle that only moves forward.
  \<^item> Gateway, Gateway_Props, Http_Quarantine (relaygateway, httpapi/relay_quarantine.go): bounds of
    a control session, and that the export of a quarantine returns.
  \<^item> Audit_Service, Http, AddressBook, Http_Books, Books_Props (audit, addressbook,
    httpapi/address_books.go): one access rule, isolation of books, and exact pages.
  \<^item> Http_Users, Users_Props (httpapi/server.go, rbac.go): no privilege escalation.
  \<^item> Access, Policy_Props, Strategy_Service, Strategy_Props (httpapi/server.go,
    strategy/service.go): the simulation of access rules, precedence and types of settings.
  \<^item> Enforcement, Hbbs, Hbbs_Sync, Coherence, Snapshot (art-core/src/auth, sync.rs,
    art-hbbs/src/gate.rs, authSnapshot): the cache of HBBS.  Coherence shows for every operation of
    the account service that the events it publishes account for what it did to the tables; with
    the snapshot, the cache accepts exactly the live sessions.

  Loops and bounds.  The recursions are structural or have a termination proof.  The paging export
  is a partial function, and its property is that it returns, after at most 410 rounds.  The
  capture of a snapshot has the three attempts of the source.  The history of the hub has 1024
  events and a channel 64, as in the source.  Integers are unbounded where the code counts rows,
  revisions or milliseconds, machine words in the digests and the cipher, and checked against the widths of the Rust
  fields where a snapshot or an event is decoded.

  Not modelled: sockets, HTTP and WebSocket framing, JSON text and files, so neither the relay
  server (art-hbbr) nor the socket code of HBBS; the OpenID Connect and LDAP exchanges; start-up,
  configuration and backups; the timers of the background services; the packaging of clients and
  the web console.  Handlers not listed above are not modelled either.
\<close>

end
